(* ===== verification/Go_Prelude.thy ===== *)
theory Go_Prelude
  imports Complex_Main "HOL-Library.Word"
begin

text \<open>
  The vocabulary shared by the component theories: Go's fixed-width integers as words, byte
  slices and strings, the big- and little-endian integer layouts of the package
  \<^verbatim>\<open>encoding/binary\<close>, the decimal conversions of the package \<^verbatim>\<open>strconv\<close>, and the interfaces
  (locales) that the components implement: a self-delimiting wire codec, a printer with its
  parser, and a transition system with an invariant.
\<close>

unbundle bit_operations_syntax

named_theorems wire_simps \<open>layout equations of the wire formats\<close>
named_theorems go_defs \<open>definitions of the Go library functions, for evaluation\<close>

section \<open>Go types\<close>

type_synonym byte = "8 word"
type_synonym bytes = "byte list"
type_synonym uint16 = "16 word"
type_synonym uint32 = "32 word"
type_synonym uint64 = "64 word"

text \<open>A Go \<^verbatim>\<open>int64\<close> (and \<^verbatim>\<open>int\<close> on a 64-bit platform) is the same 64 bits, read with \<open>sint\<close>.\<close>

type_synonym int64 = "64 word"

text \<open>Conversions between \<^verbatim>\<open>[]byte\<close> and \<^verbatim>\<open>string\<close>: a Go string is a sequence of bytes.\<close>

definition byte_of_char :: "char \<Rightarrow> byte" where
  "byte_of_char c = word_of_nat (of_char c)"

definition char_of_byte :: "byte \<Rightarrow> char" where
  "char_of_byte b = char_of (unat b)"

definition bytes_of_string :: "string \<Rightarrow> bytes" where
  "bytes_of_string s = map byte_of_char s"

definition string_of_bytes :: "bytes \<Rightarrow> string" where
  "string_of_bytes bs = map char_of_byte bs"

section \<open>Integer layouts (encoding/binary)\<close>

text \<open>\<open>be_of n x\<close> is the \<open>n\<close>-byte big-endian form of \<open>x\<close> (its low \<open>n\<close> bytes), \<open>be_to\<close> reads it.\<close>

fun be_of :: "nat \<Rightarrow> nat \<Rightarrow> bytes" where
  "be_of 0 x = []"
| "be_of (Suc n) x = be_of n (x div 256) @ [word_of_nat x]"

definition be_to :: "bytes \<Rightarrow> nat" where
  "be_to bs = foldl (\<lambda>a b. 256 * a + unat b) 0 bs"

definition le_of :: "nat \<Rightarrow> nat \<Rightarrow> bytes" where
  "le_of n x = rev (be_of n x)"

definition le_to :: "bytes \<Rightarrow> nat" where
  "le_to bs = be_to (rev bs)"

section \<open>Decimal integers (strconv)\<close>

datatype num_error = ErrSyntax | ErrRange

fun digits_of_nat :: "nat \<Rightarrow> nat list" where
  "digits_of_nat n = (if n < 10 then [n] else digits_of_nat (n div 10) @ [n mod 10])"

declare digits_of_nat.simps [simp del]

definition char_of_digit :: "nat \<Rightarrow> char" where
  "char_of_digit d = char_of (48 + d)"

definition digit_of_char :: "char \<Rightarrow> nat option" where
  "digit_of_char c =
     (let n = (of_char c :: nat) in if 48 \<le> n \<and> n \<le> 57 then Some (n - 48) else None)"

text \<open>\<open>strconv.FormatUint(u, 10)\<close> and \<open>strconv.FormatInt(i, 10)\<close>.\<close>

definition format_uint :: "nat \<Rightarrow> string" where
  "format_uint n = map char_of_digit (digits_of_nat n)"

definition format_int :: "int \<Rightarrow> string" where
  "format_int i = (if i < 0 then CHR ''-'' # format_uint (nat (- i)) else format_uint (nat i))"

text \<open>
  The digit loop of \<open>strconv.ParseUint(s, 10, 64)\<close>: a bad character is a syntax error, a value
  above \<open>2 ^ 64 - 1\<close> a range error, whichever the loop meets first.
\<close>

fun parse_uint_loop :: "nat \<Rightarrow> string \<Rightarrow> num_error + nat" where
  "parse_uint_loop n [] = Inr n"
| "parse_uint_loop n (c # cs) =
     (case digit_of_char c of
        None \<Rightarrow> Inl ErrSyntax
      | Some d \<Rightarrow> if 10 * n + d \<ge> 2 ^ 64 then Inl ErrRange else parse_uint_loop (10 * n + d) cs)"

definition parse_uint :: "string \<Rightarrow> num_error + nat" where
  "parse_uint s = (if s = [] then Inl ErrSyntax else parse_uint_loop 0 s)"

text \<open>
  \<open>strconv.ParseInt(s, 10, 64)\<close> returns a value even when it fails: 0 on a syntax error, the
  nearest \<^verbatim>\<open>int64\<close> on a range error. The pair is (value, error).
\<close>

definition parse_int :: "string \<Rightarrow> int \<times> num_error option" where
  "parse_int s =
     (if s = [] then (0, Some ErrSyntax)
      else
        let neg = (hd s = CHR ''-'');
            body = (if hd s = CHR ''+'' \<or> hd s = CHR ''-'' then tl s else s)
        in case parse_uint body of
             Inl ErrSyntax \<Rightarrow> (0, Some ErrSyntax)
           | Inl ErrRange \<Rightarrow>
               if neg then (- (2 ^ 63), Some ErrRange) else (2 ^ 63 - 1, Some ErrRange)
           | Inr un \<Rightarrow>
               if \<not> neg \<and> un \<ge> 2 ^ 63 then (2 ^ 63 - 1, Some ErrRange)
               else if neg \<and> un > 2 ^ 63 then (- (2 ^ 63), Some ErrRange)
               else (if neg then - int un else int un, None))"

section \<open>Strings (strings)\<close>

definition has_prefix :: "string \<Rightarrow> string \<Rightarrow> bool" where
  "has_prefix s p \<longleftrightarrow> take (length p) s = p"

text \<open>\<open>split_at c s\<close>: what precedes the first \<open>c\<close> and what follows it, if there is one.\<close>

fun split_at :: "char \<Rightarrow> string \<Rightarrow> (string \<times> string) option" where
  "split_at c [] = None"
| "split_at c (x # xs) =
     (if x = c then Some ([], xs)
      else map_option (\<lambda>(a, b). (x # a, b)) (split_at c xs))"

text \<open>\<open>strings.SplitN(s, sep, n)\<close> for a one-character separator and \<open>n > 0\<close>; \<open>n - 1\<close> cuts.\<close>

fun splitn_cuts :: "nat \<Rightarrow> char \<Rightarrow> string \<Rightarrow> string list" where
  "splitn_cuts 0 c s = [s]"
| "splitn_cuts (Suc k) c s =
     (case split_at c s of None \<Rightarrow> [s] | Some (a, b) \<Rightarrow> a # splitn_cuts k c b)"

definition splitn :: "string \<Rightarrow> char \<Rightarrow> nat \<Rightarrow> string list" where
  "splitn s c n = splitn_cuts (n - 1) c s"

section \<open>Interfaces\<close>

text \<open>
  A self-delimiting encoding: the decoder, run on an encoding followed by anything, gives the
  value back and leaves what follows. \<open>wf\<close> says which values the format can carry.
\<close>

locale wire_codec =
  fixes enc :: "'a \<Rightarrow> bytes"
    and dec :: "bytes \<Rightarrow> 'e + 'a \<times> bytes"
    and wf :: "'a \<Rightarrow> bool"
  assumes dec_enc: "wf x \<Longrightarrow> dec (enc x @ rest) = Inr (x, rest)"
begin

lemma dec_enc_end: "wf x \<Longrightarrow> dec (enc x) = Inr (x, [])"
  using dec_enc [of x "[]"] by simp

lemma enc_prefix_free:
  assumes "wf x" and "wf y" and "enc x @ r = enc y @ r'"
  shows "x = y \<and> r = r'"
proof -
  have "Inr (x, r) = dec (enc x @ r)" using assms(1) by (simp add: dec_enc)
  also have "\<dots> = dec (enc y @ r')" using assms(3) by simp
  also have "\<dots> = Inr (y, r')" using assms(2) by (simp add: dec_enc)
  finally show ?thesis by simp
qed

lemma inj_on_enc: "inj_on enc {x. wf x}"
  by (intro inj_onI) (use enc_prefix_free [where r = "[]" and r' = "[]"] in auto)

lemma concat_enc_inj:
  assumes "\<And>x. wf x \<Longrightarrow> enc x \<noteq> []"
    and "list_all wf xs" and "list_all wf ys"
    and "concat (map enc xs) = concat (map enc ys)"
  shows "xs = ys"
  using assms(2-)
proof (induction xs arbitrary: ys)
  case Nil
  then show ?case by (cases ys) (auto simp: assms(1))
next
  case (Cons x xs)
  then obtain y ys' where ys: "ys = y # ys'"
    by (cases ys) (auto simp: assms(1))
  with Cons.prems enc_prefix_free [of x y] show ?case
    by (auto intro: Cons.IH)
qed

end

text \<open>A printer and its parser: parsing what was printed gives the value back.\<close>

locale print_parse =
  fixes pr :: "'a \<Rightarrow> 'b"
    and ps :: "'b \<Rightarrow> 'a option"
    and ok :: "'a \<Rightarrow> bool"
  assumes parse_print: "ok x \<Longrightarrow> ps (pr x) = Some x"
begin

lemma print_inj: "ok x \<Longrightarrow> ok y \<Longrightarrow> pr x = pr y \<longleftrightarrow> x = y"
  by (metis option.inject parse_print)

lemma print_not_garbage: "ok x \<Longrightarrow> ps b = None \<Longrightarrow> pr x \<noteq> b"
  by (metis option.distinct(1) parse_print)

end

text \<open>A transition system whose steps keep an invariant.\<close>

inductive reachable :: "('s \<Rightarrow> bool) \<Rightarrow> ('s \<Rightarrow> 's \<Rightarrow> bool) \<Rightarrow> 's \<Rightarrow> bool" for init step where
  reach_init: "init s \<Longrightarrow> reachable init step s"
| reach_step: "reachable init step s \<Longrightarrow> step s t \<Longrightarrow> reachable init step t"

locale invariant_system =
  fixes init :: "'s \<Rightarrow> bool"
    and step :: "'s \<Rightarrow> 's \<Rightarrow> bool"
    and inv :: "'s \<Rightarrow> bool"
  assumes inv_init: "init s \<Longrightarrow> inv s"
    and inv_step: "inv s \<Longrightarrow> step s t \<Longrightarrow> inv t"
begin

lemma inv_reachable: "reachable init step s \<Longrightarrow> inv s"
  by (induction rule: reachable.induct) (auto intro: inv_init inv_step)

lemma inv_steps: "step\<^sup>*\<^sup>* s t \<Longrightarrow> inv s \<Longrightarrow> inv t"
  by (induction rule: rtranclp_induct) (auto intro: inv_step)

end

section \<open>Lemmas on bytes, layouts and decimals\<close>

lemma char_of_byte_of_char [simp]: "char_of_byte (byte_of_char c) = c"
proof -
  have "(of_char c :: nat) < 256" by simp
  then show ?thesis
    by (simp add: char_of_byte_def byte_of_char_def unat_of_nat)
qed

lemma unat_byte_less [simp]: "unat (b :: byte) < 256"
  using unsigned_less [of b] by simp

text \<open>A property of every byte is checked on the 256 bytes.\<close>

lemma byte_all_iff: "(\<forall>b :: byte. P b) \<longleftrightarrow> list_all P (map word_of_nat [0..<256])"
proof
  assume "list_all P (map word_of_nat [0..<256])"
  then have *: "P (word_of_nat n)" if "n < 256" for n
    using that by (simp add: list_all_iff)
  show "\<forall>b :: byte. P b"
  proof
    fix b :: byte
    show "P b" using * [of "unat b"] by simp
  qed
qed (simp add: list_all_iff)

lemma byte_256 [simp]: "(256 :: byte) = 0"
  by simp

lemma byte_of_char_of_byte [simp]: "byte_of_char (char_of_byte b) = b"
  by (simp add: char_of_byte_def byte_of_char_def)

lemma string_of_bytes_of_string [simp]: "string_of_bytes (bytes_of_string s) = s"
  by (simp add: string_of_bytes_def bytes_of_string_def o_def)

lemma bytes_of_string_of_bytes [simp]: "bytes_of_string (string_of_bytes bs) = bs"
  by (simp add: string_of_bytes_def bytes_of_string_def o_def)

lemma length_bytes_of_string [simp]: "length (bytes_of_string s) = length s"
  by (simp add: bytes_of_string_def)

lemma length_string_of_bytes [simp]: "length (string_of_bytes s) = length s"
  by (simp add: string_of_bytes_def)

lemma bytes_of_string_append [simp]:
  "bytes_of_string (s @ t) = bytes_of_string s @ bytes_of_string t"
  by (simp add: bytes_of_string_def)

lemma length_be_of [simp]: "length (be_of n x) = n"
  by (induction n arbitrary: x) auto

lemma length_le_of [simp]: "length (le_of n x) = n"
  by (simp add: le_of_def)

lemma be_to_Nil [simp]: "be_to [] = 0"
  by (simp add: be_to_def)

lemma be_to_snoc [simp]: "be_to (bs @ [b]) = 256 * be_to bs + unat b"
  by (simp add: be_to_def)

lemma be_to_be_of [wire_simps]: "be_to (be_of n x) = x mod 256 ^ n"
proof (induction n arbitrary: x)
  case 0
  then show ?case by simp
next
  case (Suc n)
  have "be_to (be_of (Suc n) x) = 256 * (x div 256 mod 256 ^ n) + x mod 256"
    by (simp add: Suc unat_of_nat)
  also have "\<dots> = x mod (256 * 256 ^ n)"
    by (simp add: mod_mult2_eq)
  finally show ?case by simp
qed

lemma be_of_be_to [wire_simps]: "length bs = n \<Longrightarrow> be_of n (be_to bs) = bs"
proof (induction bs arbitrary: n rule: rev_induct)
  case Nil
  then show ?case by simp
next
  case (snoc b bs)
  then show ?case
    by (cases n) auto
qed

lemma be_to_less: "be_to bs < 256 ^ length bs"
proof -
  have "be_to (be_of (length bs) (be_to bs)) < 256 ^ length bs"
    by (simp add: be_to_be_of)
  then show ?thesis by (simp add: be_of_be_to)
qed

lemma le_to_le_of [wire_simps]: "le_to (le_of n x) = x mod 256 ^ n"
  by (simp add: le_to_def le_of_def be_to_be_of)

lemma le_of_le_to [wire_simps]: "length bs = n \<Longrightarrow> le_of n (le_to bs) = bs"
  by (simp add: le_to_def le_of_def be_of_be_to)

lemma le_to_less: "le_to bs < 256 ^ length bs"
  using be_to_less [of "rev bs"] by (simp add: le_to_def)

lemma digit_of_char_of_digit [simp]: "d < 10 \<Longrightarrow> digit_of_char (char_of_digit d) = Some d"
  by (simp add: digit_of_char_def char_of_digit_def)

lemma digits_of_nat_less: "d \<in> set (digits_of_nat n) \<Longrightarrow> d < 10"
proof (induction n rule: digits_of_nat.induct)
  case (1 n)
  show ?case
  proof (cases "n < 10")
    case True
    with 1 show ?thesis by (simp add: digits_of_nat.simps [of n])
  next
    case False
    with 1 show ?thesis by (auto simp: digits_of_nat.simps [of n])
  qed
qed

lemma digits_of_nat_nonempty [simp]: "digits_of_nat n \<noteq> []"
  by (subst digits_of_nat.simps) simp

lemma foldl_digits_of_nat: "foldl (\<lambda>a d. 10 * a + d) 0 (digits_of_nat n) = n"
proof (induction n rule: digits_of_nat.induct)
  case (1 n)
  then show ?case
    by (cases "n < 10") (simp_all add: digits_of_nat.simps [of n])
qed

lemma format_uint_nonempty [simp]: "format_uint n \<noteq> []"
  by (simp add: format_uint_def)

lemma foldl_digits_ge: "(a :: nat) \<le> foldl (\<lambda>a d. 10 * a + d) a ds"
proof (induction ds arbitrary: a)
  case Nil
  then show ?case by simp
next
  case (Cons d ds)
  have "a \<le> 10 * a + d" by simp
  also have "\<dots> \<le> foldl (\<lambda>a d. 10 * a + d) (10 * a + d) ds" by (rule Cons)
  finally show ?case by simp
qed

lemma parse_uint_loop_digits:
  assumes "\<forall>d \<in> set ds. d < 10" and "foldl (\<lambda>a d. 10 * a + d) n ds < 2 ^ 64"
  shows "parse_uint_loop n (map char_of_digit ds) = Inr (foldl (\<lambda>a d. 10 * a + d) n ds)"
  using assms
proof (induction ds arbitrary: n)
  case Nil
  then show ?case by simp
next
  case (Cons d ds)
  have "10 * n + d \<le> foldl (\<lambda>a d. 10 * a + d) (10 * n + d) ds"
    by (rule foldl_digits_ge)
  with Cons.prems(2) have "10 * n + d < 2 ^ 64" by simp
  with Cons show ?case by simp
qed

lemma parse_uint_format_uint: "n < 2 ^ 64 \<Longrightarrow> parse_uint (format_uint n) = Inr n"
  using parse_uint_loop_digits [of "digits_of_nat n" 0] digits_of_nat_less
  by (simp add: parse_uint_def format_uint_def foldl_digits_of_nat)

lemma char_of_digit_not_sign:
  assumes "d < 10"
  shows "char_of_digit d \<noteq> CHR ''-''" and "char_of_digit d \<noteq> CHR ''+''"
    and "char_of_digit d \<noteq> CHR '':''"
proof -
  have *: "digit_of_char (char_of_digit d) = Some d" using assms by simp
  show "char_of_digit d \<noteq> CHR ''-''"
    using * by (auto simp: digit_of_char_def)
  show "char_of_digit d \<noteq> CHR ''+''"
    using * by (auto simp: digit_of_char_def)
  show "char_of_digit d \<noteq> CHR '':''"
    using * by (auto simp: digit_of_char_def)
qed

lemma format_uint_chars:
  assumes "c \<in> set (format_uint n)"
  shows "c \<noteq> CHR ''-''" and "c \<noteq> CHR ''+''" and "c \<noteq> CHR '':''"
proof -
  obtain d where d: "d \<in> set (digits_of_nat n)" and c: "c = char_of_digit d"
    using assms by (auto simp: format_uint_def)
  have "d < 10" using d by (rule digits_of_nat_less)
  then show "c \<noteq> CHR ''-''" and "c \<noteq> CHR ''+''" and "c \<noteq> CHR '':''"
    by (simp_all add: c char_of_digit_not_sign)
qed

lemma hd_format_uint:
  "hd (format_uint n) \<noteq> CHR ''-''" "hd (format_uint n) \<noteq> CHR ''+''"
  using format_uint_chars [of "hd (format_uint n)" n] by auto

lemma parse_int_format_int:
  assumes "- (2 ^ 63) \<le> i" and "i < 2 ^ 63"
  shows "parse_int (format_int i) = (i, None)"
proof (cases "i < 0")
  case True
  then have "nat (- i) < 2 ^ 64" using assms by (simp add: nat_less_iff)
  moreover from True assms have "\<not> nat (- i) > 2 ^ 63" by (simp add: nat_le_iff)
  ultimately show ?thesis
    using True by (simp add: parse_int_def format_int_def parse_uint_format_uint)
next
  case False
  then have "nat i < 2 ^ 64" using assms by (simp add: nat_less_iff)
  moreover from False assms have "\<not> nat i \<ge> 2 ^ 63" by (simp add: nat_less_iff)
  ultimately show ?thesis
    using False hd_format_uint [of "nat i"]
    by (simp add: parse_int_def format_int_def parse_uint_format_uint)
qed

lemma format_int_inj:
  assumes "- (2 ^ 63) \<le> i" "i < 2 ^ 63" "- (2 ^ 63) \<le> j" "j < 2 ^ 63"
    and "format_int i = format_int j"
  shows "i = j"
proof -
  have "(i, None) = parse_int (format_int i)"
    using assms(1,2) by (rule parse_int_format_int [symmetric])
  also have "\<dots> = parse_int (format_int j)" by (simp only: assms(5))
  also have "\<dots> = (j, None)" using assms(3,4) by (rule parse_int_format_int)
  finally show ?thesis by simp
qed

lemma sint64_bounds: "- (2 ^ 63) \<le> sint (w :: int64)" "sint (w :: int64) < 2 ^ 63"
  using sint_range_size [of w] by (simp_all add: word_size)

lemma sint64_small: "unat (u :: uint64) < 2 ^ 63 \<Longrightarrow> sint u = int (unat u)"
proof -
  assume "unat u < 2 ^ 63"
  then have "int (unat u) < int (2 ^ 63)" by (simp only: of_nat_less_iff)
  then have lt: "uint u < 2 ^ 63" by simp
  have ge: "- (2 ^ 63) \<le> uint u" by (rule order_trans [of _ 0]) simp_all
  have "sint u = signed_take_bit 63 (uint u)" by (simp add: sint_uint)
  also have "\<dots> = uint u" by (rule signed_take_bit_int_eq_self [OF ge lt])
  finally show ?thesis by simp
qed

lemma parse_int_format_sint [simp]: "parse_int (format_int (sint (w :: int64))) = (sint w, None)"
  by (rule parse_int_format_int) (rule sint64_bounds)+

lemma split_at_None: "c \<notin> set s \<Longrightarrow> split_at c s = None"
  by (induction s) auto

lemma split_at_append: "c \<notin> set a \<Longrightarrow> split_at c (a @ c # b) = Some (a, b)"
  by (induction a) auto

lemmas string_bytes_defs = byte_of_char_def char_of_byte_def bytes_of_string_def
  string_of_bytes_def

text \<open>Equations over binary integers, with which the conversions evaluate quickly in the kernel.\<close>

fun parse_uint_int :: "int \<Rightarrow> string \<Rightarrow> num_error + int" where
  "parse_uint_int n [] = Inr n"
| "parse_uint_int n (c # cs) =
     (let d = of_char c - 48
      in if d < 0 \<or> 9 < d then Inl ErrSyntax
         else if 10 * n + d \<ge> 18446744073709551616 then Inl ErrRange
         else parse_uint_int (10 * n + d) cs)"

lemma digit_of_char_int:
  "digit_of_char c = (let d = (of_char c :: int) - 48 in if d < 0 \<or> 9 < d then None else Some (nat d))"
proof -
  have "(of_char c :: int) = int (of_char c)" by (simp only: of_nat_of_char)
  then show ?thesis by (simp only: digit_of_char_def Let_def) auto
qed

lemma parse_uint_loop_int: "parse_uint_loop n cs = map_sum id nat (parse_uint_int (int n) cs)"
proof (induction cs arbitrary: n)
  case (Cons c cs)
  define d where "d = (of_char c :: int) - 48"
  show ?case
  proof (cases "d < 0 \<or> 9 < d")
    case False
    then have "10 * int n + d = int (10 * n + nat d)" by simp
    moreover have "(18446744073709551616 \<le> int (10 * n + nat d)) \<longleftrightarrow> 2 ^ 64 \<le> 10 * n + nat d"
      by (simp only: of_nat_le_iff [symmetric, where 'a = int]) simp
    ultimately show ?thesis
      using False Cons [of "10 * n + nat d"]
      by (simp add: digit_of_char_int d_def [symmetric] Let_def del: of_nat_add of_nat_mult)
  qed (simp add: digit_of_char_int d_def [symmetric] Let_def)
qed simp

lemma parse_uint_int_nonneg: "parse_uint_int n cs = Inr u \<Longrightarrow> 0 \<le> n \<Longrightarrow> 0 \<le> u"
  by (induction n cs rule: parse_uint_int.induct) (auto simp: Let_def split: if_splits)

lemma parse_int_code [code]:
  "parse_int s =
     (if s = [] then (0, Some ErrSyntax)
      else
        let neg = (hd s = CHR ''-'');
            body = (if hd s = CHR ''+'' \<or> hd s = CHR ''-'' then tl s else s)
        in if body = [] then (0, Some ErrSyntax)
           else
             (case parse_uint_int 0 body of
                Inl ErrSyntax \<Rightarrow> (0, Some ErrSyntax)
              | Inl ErrRange \<Rightarrow>
                  if neg then (- 9223372036854775808, Some ErrRange) else (9223372036854775807, Some ErrRange)
              | Inr un \<Rightarrow>
                  if \<not> neg \<and> un \<ge> 9223372036854775808 then (9223372036854775807, Some ErrRange)
                  else if neg \<and> un > 9223372036854775808 then (- 9223372036854775808, Some ErrRange)
                  else (if neg then - un else un, None)))"
proof (cases "s = []")
  case False
  let ?body = "if hd s = CHR ''+'' \<or> hd s = CHR ''-'' then tl s else s"
  show ?thesis
  proof (cases "parse_uint_int 0 ?body")
    case (Inr u)
    then have u: "0 \<le> u" by (rule parse_uint_int_nonneg) simp
    then have "(2 ^ 63 \<le> nat u) = (9223372036854775808 \<le> u)" "(2 ^ 63 < nat u) = (9223372036854775808 < u)"
      by auto
    with False Inr u show ?thesis
      by (simp add: parse_int_def parse_uint_def parse_uint_loop_int Let_def del: parse_uint_int.simps)
  next
    case (Inl e)
    then show ?thesis using False
      by (cases e) (simp_all add: parse_int_def parse_uint_def parse_uint_loop_int Let_def del: parse_uint_int.simps)
  qed
qed (simp add: parse_int_def)

end
