(* ===== verification/Packets.thy ===== *)
theory Packets
  imports Go_Prelude
begin

text \<open>
  The MQTT fixed-header bytes of \<^verbatim>\<open>pkg/messagix/packets\<close>: packet types, the PUBLISH and
  SUBSCRIBE headers with their flag bits, and the connect-flags byte. A method with a pointer
  receiver that can fail is modelled as returning the updated struct and an optional error, since
  the Go code writes the struct before it fails.
\<close>

section \<open>Model\<close>

definition CONNECT :: byte where "CONNECT = 1"
definition CONNACK :: byte where "CONNACK = 2"
definition PUBLISH :: byte where "PUBLISH = 3"
definition PUBACK :: byte where "PUBACK = 4"
definition SUBSCRIBE :: byte where "SUBSCRIBE = 8"
definition SUBACK :: byte where "SUBACK = 9"
definition PINGREQ :: byte where "PINGREQ = 12"
definition PINGRESP :: byte where "PINGRESP = 13"

definition DUP_flag :: byte where "DUP_flag = 0x08"
definition RETAIN_flag :: byte where "RETAIN_flag = 0x01"

type_synonym QoS = byte

definition QOS_LEVEL_0 :: QoS where "QOS_LEVEL_0 = 0"
definition QOS_LEVEL_1 :: QoS where "QOS_LEVEL_1 = 1"
definition QOS_LEVEL_2 :: QoS where "QOS_LEVEL_2 = 2"

definition QoS_toByte :: "QoS \<Rightarrow> byte" where
  "QoS_toByte q = q AND 0x03"

record ConnectPacket =
  cp_Packet :: byte

definition ConnectPacket_Compress :: "ConnectPacket \<Rightarrow> byte" where
  "ConnectPacket_Compress p = push_bit 4 CONNECT"

definition ConnectPacket_Decompress :: "ConnectPacket \<Rightarrow> byte \<Rightarrow> ConnectPacket \<times> string option" where
  "ConnectPacket_Decompress p b = (p\<lparr>cp_Packet := b\<rparr>, None)"

record ConnACKPacket =
  ca_Packet :: byte

definition ConnACKPacket_Compress :: "ConnACKPacket \<Rightarrow> byte" where
  "ConnACKPacket_Compress p = push_bit 4 CONNACK"

definition ConnACKPacket_Decompress :: "ConnACKPacket \<Rightarrow> byte \<Rightarrow> ConnACKPacket \<times> string option" where
  "ConnACKPacket_Decompress p b = (p\<lparr>ca_Packet := b\<rparr>, None)"

record ConnectFlags =
  cf_Username :: bool
  cf_Password :: bool
  cf_Retain :: bool
  cf_QoS :: byte
  cf_CleanSession :: bool

definition CreateConnectFlagByte :: "ConnectFlags \<Rightarrow> byte" where
  "CreateConnectFlagByte f =
     (let b0 = (0 :: byte);
          b1 = (if cf_Username f then b0 OR 0x80 else b0);
          b2 = (if cf_Password f then b1 OR 0x40 else b1);
          b3 = (if cf_Retain f then b2 OR 0x20 else b2);
          b4 = b3 OR (push_bit 3 (cf_QoS f) AND 0x18);
          b5 = (if cf_CleanSession f then b4 OR 0x02 else b4)
      in b5)"

record PublishPacket =
  pp_packetType :: byte
  pp_DUP :: byte
  pp_QOSLevel :: QoS
  pp_RetainFlag :: byte

definition PublishPacket_Compress :: "PublishPacket \<Rightarrow> byte" where
  "PublishPacket_Compress p =
     (let r0 = push_bit 4 PUBLISH;
          r1 = (if pp_DUP p = 1 then r0 OR DUP_flag else r0);
          r2 = r1 OR push_bit 1 (QoS_toByte (pp_QOSLevel p));
          r3 = (if pp_RetainFlag p = 1 then r2 OR RETAIN_flag else r2)
      in r3)"

definition PublishPacket_Decompress :: "PublishPacket \<Rightarrow> byte \<Rightarrow> PublishPacket \<times> string option" where
  "PublishPacket_Decompress p b =
     (let p1 = p\<lparr>pp_packetType := drop_bit 4 b\<rparr>
      in if pp_packetType p1 \<noteq> PUBLISH
         then (p1, Some ''tried to decompress publish packet type but result was not of PUBLISH packet type'')
         else
           let p2 = p1\<lparr>pp_DUP := (if b AND 0x08 \<noteq> 0 then 1 else 0)\<rparr>;
               p3 = p2\<lparr>pp_QOSLevel := drop_bit 1 (b AND 0x06)\<rparr>;
               p4 = p3\<lparr>pp_RetainFlag := (if b AND 0x01 \<noteq> 0 then 1 else 0)\<rparr>
           in (p4, None))"

record SubscribePacket =
  sp_packetType :: byte

definition SubscribePacket_Compress :: "SubscribePacket \<Rightarrow> byte" where
  "SubscribePacket_Compress p = push_bit 4 SUBSCRIBE OR 0x02"

definition SubscribePacket_Decompress ::
  "SubscribePacket \<Rightarrow> byte \<Rightarrow> SubscribePacket \<times> string option" where
  "SubscribePacket_Decompress p b =
     (let p1 = p\<lparr>sp_packetType := drop_bit 4 b\<rparr>
      in if sp_packetType p1 \<noteq> SUBSCRIBE
         then (p1, Some ''tried to decompress subscribe packet type but result was not of SUBSCRIBE packet type'')
         else if b AND 0x0F \<noteq> 0x02
         then (p1, Some ''invalid flags for SUBSCRIBE packet'')
         else (p1, None))"

text \<open>Bounds of the header fields: the flags are single bits and the quality of service two.\<close>

definition PublishPacket_wf :: "PublishPacket \<Rightarrow> bool" where
  "PublishPacket_wf p \<longleftrightarrow>
     pp_DUP p \<in> {0, 1} \<and> pp_QOSLevel p < 4 \<and> pp_RetainFlag p \<in> {0, 1}"

definition ConnectFlags_wf :: "ConnectFlags \<Rightarrow> bool" where
  "ConnectFlags_wf f \<longleftrightarrow> cf_QoS f < 4"

text \<open>Reading the connect flags back off the byte.\<close>

definition parseConnectFlags :: "byte \<Rightarrow> ConnectFlags" where
  "parseConnectFlags b =
     \<lparr>cf_Username = bit b 7, cf_Password = bit b 6, cf_Retain = bit b 5,
      cf_QoS = drop_bit 3 (b AND 0x18), cf_CleanSession = bit b 1\<rparr>"

lemmas packet_types = CONNECT_def CONNACK_def PUBLISH_def PUBACK_def SUBSCRIBE_def SUBACK_def
  PINGREQ_def PINGRESP_def

section \<open>Lemmas\<close>

lemma byte_less_4: "(q :: byte) < 4 \<Longrightarrow> q = 0 \<or> q = 1 \<or> q = 2 \<or> q = 3"
proof -
  have "\<forall>q :: byte. q < 4 \<longrightarrow> q = 0 \<or> q = 1 \<or> q = 2 \<or> q = 3"
    unfolding byte_all_iff by code_simp
  then show "q < 4 \<Longrightarrow> q = 0 \<or> q = 1 \<or> q = 2 \<or> q = 3" by blast
qed

lemma PublishPacket_cases:
  assumes "PublishPacket_wf p"
  obtains t d q r where "p = \<lparr>pp_packetType = t, pp_DUP = d, pp_QOSLevel = q, pp_RetainFlag = r\<rparr>"
    and "d = 0 \<or> d = 1" and "q = 0 \<or> q = 1 \<or> q = 2 \<or> q = 3" and "r = 0 \<or> r = 1"
  using assms byte_less_4 [of "pp_QOSLevel p"]
  by (cases p) (auto simp: PublishPacket_wf_def)

lemmas publish_packet_defs = PublishPacket_Compress_def PublishPacket_Decompress_def PUBLISH_def
  QoS_toByte_def DUP_flag_def RETAIN_flag_def Let_def

lemma PublishPacket_Decompress_Compress:
  assumes "PublishPacket_wf p"
  shows "PublishPacket_Decompress q0 (PublishPacket_Compress p) = (p\<lparr>pp_packetType := 3\<rparr>, None)"
proof -
  from assms obtain t d q r
    where p: "p = \<lparr>pp_packetType = t, pp_DUP = d, pp_QOSLevel = q, pp_RetainFlag = r\<rparr>"
      and d: "d = 0 \<or> d = 1" and q: "q = 0 \<or> q = 1 \<or> q = 2 \<or> q = 3" and r: "r = 0 \<or> r = 1"
    by (rule PublishPacket_cases)
  show ?thesis
    using d q r by (cases q0) (elim disjE; simp add: p publish_packet_defs)
qed

lemma PublishPacket_Compress_Decompress:
  "drop_bit 4 b = 3 \<Longrightarrow>
     PublishPacket_wf (fst (PublishPacket_Decompress q0 b)) \<and>
     PublishPacket_Compress (fst (PublishPacket_Decompress q0 b)) = b"
proof -
  let ?p = "\<lambda>b. \<lparr>pp_packetType = drop_bit 4 b, pp_DUP = if b AND 0x08 \<noteq> 0 then 1 else 0,
    pp_QOSLevel = drop_bit 1 (b AND 0x06), pp_RetainFlag = if b AND 0x01 \<noteq> 0 then 1 else 0\<rparr>"
  have "\<forall>b :: byte. drop_bit 4 b = 3 \<longrightarrow>
      drop_bit 1 (b AND 0x06) < 4 \<and> PublishPacket_Compress (?p b) = b"
    unfolding byte_all_iff by code_simp
  then show "drop_bit 4 b = 3 \<Longrightarrow> ?thesis"
    by (cases q0) (simp add: PublishPacket_Decompress_def PublishPacket_wf_def PUBLISH_def Let_def)
qed

lemma SubscribePacket_Decompress_iff:
  "snd (SubscribePacket_Decompress p b) = None \<longleftrightarrow> b = SubscribePacket_Compress q"
proof -
  have "\<forall>b :: byte. (drop_bit 4 b = 8 \<and> b AND 0x0F = 2) = (b = 0x82)"
    unfolding byte_all_iff by code_simp
  then show ?thesis
    by (auto simp: SubscribePacket_Decompress_def SubscribePacket_Compress_def SUBSCRIBE_def Let_def)
qed

lemma parse_CreateConnectFlagByte:
  assumes "ConnectFlags_wf f"
  shows "parseConnectFlags (CreateConnectFlagByte f) = f"
    and "CreateConnectFlagByte f AND 0x05 = 0"
proof -
  have all: "\<forall>q \<in> {0, 1, 2, 3}. \<forall>u p r c.
      (let f = \<lparr>cf_Username = u, cf_Password = p, cf_Retain = r, cf_QoS = q, cf_CleanSession = c\<rparr>
       in parseConnectFlags (CreateConnectFlagByte f) = f \<and> CreateConnectFlagByte f AND 0x05 = 0)"
    by code_simp
  obtain u p r q c where f: "f = \<lparr>cf_Username = u, cf_Password = p, cf_Retain = r, cf_QoS = q,
      cf_CleanSession = c\<rparr>"
    by (cases f)
  have q: "q \<in> {0, 1, 2, 3}"
    using assms byte_less_4 [of q] by (simp add: ConnectFlags_wf_def f)
  show "parseConnectFlags (CreateConnectFlagByte f) = f"
    and "CreateConnectFlagByte f AND 0x05 = 0"
    using bspec [OF all q] unfolding f Let_def by blast+
qed

section \<open>Properties\<close>

text \<open>
  The PUBLISH header byte carries the header exactly: decompressing a compressed well-formed
  header gives the header back, and every byte whose high nibble is PUBLISH is the compression of
  the well-formed header it decompresses to.
\<close>

theorem PublishPacket_header_exact:
  "(PublishPacket_wf p \<longrightarrow>
      PublishPacket_Decompress q0 (PublishPacket_Compress p) = (p\<lparr>pp_packetType := PUBLISH\<rparr>, None)) \<and>
   (drop_bit 4 b = PUBLISH \<longleftrightarrow> snd (PublishPacket_Decompress q0 b) = None) \<and>
   (drop_bit 4 b = PUBLISH \<longrightarrow>
      PublishPacket_wf (fst (PublishPacket_Decompress q0 b)) \<and>
      PublishPacket_Compress (fst (PublishPacket_Decompress q0 b)) = b)"
  using PublishPacket_Decompress_Compress [of p q0] PublishPacket_Compress_Decompress [of b q0]
  by (auto simp: PUBLISH_def) (auto simp: PublishPacket_Decompress_def PUBLISH_def Let_def split: if_splits)

theorem PublishPacket_header_exact_witness:
  "PublishPacket_Decompress \<lparr>pp_packetType = 0, pp_DUP = 0, pp_QOSLevel = 0, pp_RetainFlag = 0\<rparr> 0x3B
     = (\<lparr>pp_packetType = PUBLISH, pp_DUP = 1, pp_QOSLevel = 1, pp_RetainFlag = 1\<rparr>, None)"
  using PublishPacket_header_exact [of "\<lparr>pp_packetType = 0, pp_DUP = 1, pp_QOSLevel = 1, pp_RetainFlag = 1\<rparr>"
      "\<lparr>pp_packetType = 0, pp_DUP = 0, pp_QOSLevel = 0, pp_RetainFlag = 0\<rparr>" "0x3B"]
  by (simp add: PublishPacket_wf_def publish_packet_defs)

end
