(* ===== verification/Byter.thy ===== *)
theory Byter
  imports Go_Prelude
begin

text \<open>
  The reflective binary codec of \<^verbatim>\<open>pkg/messagix/byter\<close>. A Go struct is the list of its fields in
  declaration order, each with what reflection shows of it (kind, struct tags, settability, whether
  its type is an enum) and its value. A \<^verbatim>\<open>bytes.Buffer\<close> is the list of its unread bytes. The
  decoder of an embedded JSON struct is fixed by the field's Go type, so it is an argument here and
  the caller supplies it.
\<close>

section \<open>Model\<close>

subsection \<open>Kinds and tags (byter.go)\<close>

datatype Kind = Invalid | Bool | Uint8 | Uint16 | Uint32 | Uint64 | Int16 | Int32 | Int64
  | String_kind | Interface | Struct | OtherKind

definition stringLengthTags :: "string \<rightharpoonup> Kind" where
  "stringLengthTags = map_of
     [(''uint8'', Uint8), (''uint16'', Uint16), (''uint32'', Uint32), (''uint64'', Uint64),
      (''int8'', Uint8), (''byte'', Uint8), (''int16'', Int16), (''int32'', Int32),
      (''int64'', Int64)]"

definition stringLengthSizes :: "string \<rightharpoonup> nat" where
  "stringLengthSizes = map_of
     [(''uint8'', 1), (''uint16'', 2), (''uint32'', 4), (''uint64'', 8),
      (''int8'', 1), (''byte'', 1), (''int16'', 2), (''int32'', 4), (''int64'', 8)]"

record EndianOps =
  eo_Read :: "bytes \<Rightarrow> nat"
  eo_Write :: "nat \<Rightarrow> bytes"

definition big_ops :: "nat \<Rightarrow> EndianOps" where
  "big_ops n = \<lparr>eo_Read = (\<lambda>b. be_to (take n b)), eo_Write = be_of n\<rparr>"

definition little_ops :: "nat \<Rightarrow> EndianOps" where
  "little_ops n = \<lparr>eo_Read = (\<lambda>b. le_to (take n b)), eo_Write = le_of n\<rparr>"

fun endian_kinds :: "(nat \<Rightarrow> EndianOps) \<Rightarrow> Kind \<Rightarrow> EndianOps option" where
  "endian_kinds ops Uint8 = Some (ops 1)"
| "endian_kinds ops Uint16 = Some (ops 2)"
| "endian_kinds ops Uint32 = Some (ops 4)"
| "endian_kinds ops Uint64 = Some (ops 8)"
| "endian_kinds ops k = None"

definition endianOperations :: "string \<Rightarrow> Kind \<Rightarrow> EndianOps option" where
  "endianOperations endian k =
     (if endian = ''big'' then endian_kinds big_ops k
      else if endian = ''little'' then endian_kinds little_ops k
      else None)"

definition default_endian :: "string \<Rightarrow> string" where
  "default_endian e = (if e = '''' then ''big'' else e)"

datatype byter_error = EOF | UnsupportedKindOrEndianness | InvalidLengthType string
  | MalformedVLQ | JSONError string

text \<open>The value of a field; \<open>'j\<close> is the type of embedded JSON structs.\<close>

datatype 'j fval = FBool bool | FUint uint64 | FString string | FIface bool | FStruct 'j | FOther

record 'j field =
  f_name :: string
  f_kind :: Kind
  f_canSet :: bool
  f_enum :: bool
  f_endian :: string
  f_vlq :: string
  f_lengthType :: string
  f_jsonString :: string
  f_skip :: string
  f_val :: "'j fval"

fun kind_bytes :: "Kind \<Rightarrow> nat" where
  "kind_bytes Uint8 = 1"
| "kind_bytes Uint16 = 2"
| "kind_bytes Uint32 = 4"
| "kind_bytes Uint64 = 8"
| "kind_bytes _ = 0"

text \<open>\<open>reflect.Value.SetUint\<close> keeps the low bytes the field has room for.\<close>

definition SetUint :: "'j field \<Rightarrow> nat \<Rightarrow> 'j field" where
  "SetUint f x = f\<lparr>f_val := FUint (word_of_nat (x mod 256 ^ kind_bytes (f_kind f)))\<rparr>"

subsection \<open>Reading (read.go)\<close>

text \<open>\<open>bytes.Buffer.Read\<close> into a zeroed slice of the given length: the slice and the rest.\<close>

definition buf_read :: "nat \<Rightarrow> bytes \<Rightarrow> byter_error + bytes \<times> bytes" where
  "buf_read n b =
     (if b = [] then (if n = 0 then Inr ([], []) else Inl EOF)
      else Inr (take n b @ replicate (n - length b) 0, drop n b))"

definition ReadInteger :: "Kind \<Rightarrow> nat \<Rightarrow> string \<Rightarrow> bytes \<Rightarrow> byter_error + nat \<times> bytes" where
  "ReadInteger kind sz endian b =
     (case buf_read sz b of
        Inl e \<Rightarrow> Inl e
      | Inr (buffer, rest) \<Rightarrow>
          (case endianOperations (default_endian endian) kind of
             Some ops \<Rightarrow> Inr (eo_Read ops buffer, rest)
           | None \<Rightarrow> Inl UnsupportedKindOrEndianness))"

definition readString :: "string \<Rightarrow> string \<Rightarrow> bytes \<Rightarrow> byter_error + string \<times> bytes" where
  "readString lengthType endian b =
     (case (stringLengthSizes lengthType, stringLengthTags lengthType) of
        (Some sz, Some kind) \<Rightarrow>
          (case ReadInteger kind sz (default_endian endian) b of
             Inl e \<Rightarrow> Inl e
           | Inr (strLength, b1) \<Rightarrow>
               (case buf_read strLength b1 of
                  Inl e \<Rightarrow> Inl e
                | Inr (strBytes, b2) \<Rightarrow> Inr (string_of_bytes strBytes, b2)))
      | _ \<Rightarrow> Inl (InvalidLengthType lengthType))"

fun DecodeVLQ_loop :: "nat \<Rightarrow> nat \<Rightarrow> bytes \<Rightarrow> byter_error + nat \<times> bytes" where
  "DecodeVLQ_loop multiplier value [] = Inl EOF"
| "DecodeVLQ_loop multiplier value (encodedByte # rest) =
     (let value' = value + unat (encodedByte AND 0x7F) * multiplier
      in if multiplier > 2097152 then Inl MalformedVLQ
         else if encodedByte AND 0x80 = 0 then Inr (value', rest)
         else DecodeVLQ_loop (multiplier * 128) value' rest)"

definition DecodeVLQ :: "bytes \<Rightarrow> byter_error + nat \<times> bytes" where
  "DecodeVLQ b = DecodeVLQ_loop 1 0 b"

text \<open>
  The \<open>switch\<close> on the kind of one settable field. The \<open>default\<close> branch only logs, but the log
  statement itself drains a buffer of less than 1024 bytes.
\<close>

definition read_field ::
  "(bytes \<Rightarrow> string + 'j) \<Rightarrow> 'j field \<Rightarrow> bytes \<Rightarrow> byter_error + 'j field \<times> bytes" where
  "read_field unmarshal f b =
     (case f_kind f of
        Bool \<Rightarrow> Inr (f\<lparr>f_val := FBool (take 1 b \<noteq> [0])\<rparr>, drop 1 b)
      | String_kind \<Rightarrow>
          (case readString (f_lengthType f) (f_endian f) b of
             Inl e \<Rightarrow> Inl e
           | Inr (s, b') \<Rightarrow> Inr (f\<lparr>f_val := FString s\<rparr>, b'))
      | Interface \<Rightarrow> Inr (f, b)
      | Struct \<Rightarrow>
          if f_jsonString f \<noteq> '''' then
            (case unmarshal b of
               Inl e \<Rightarrow> Inl (JSONError e)
             | Inr j \<Rightarrow> Inr (f\<lparr>f_val := FStruct j\<rparr>, []))
          else Inr (f, b)
      | _ \<Rightarrow>
          if f_kind f \<in> {Uint8, Uint16, Uint32, Uint64} then
            if f_vlq f \<noteq> '''' then
              (case DecodeVLQ b of Inl e \<Rightarrow> Inl e | Inr (v, b') \<Rightarrow> Inr (SetUint f v, b'))
            else
              (case ReadInteger (f_kind f) (kind_bytes (f_kind f)) (f_endian f) b of
                 Inl e \<Rightarrow> Inl e
               | Inr (v, b') \<Rightarrow> Inr (SetUint f v, b'))
          else Inr (f, if length b < 1024 then [] else b))"

fun ReadToStruct ::
  "(bytes \<Rightarrow> string + 'j) \<Rightarrow> 'j field list \<Rightarrow> bytes \<Rightarrow> byter_error + 'j field list \<times> bytes" where
  "ReadToStruct unmarshal [] b = Inr ([], b)"
| "ReadToStruct unmarshal (f # fs) b =
     (if b = [] then Inr (f # fs, [])
      else if \<not> f_canSet f then
        (case ReadToStruct unmarshal fs b of Inl e \<Rightarrow> Inl e | Inr (fs', b') \<Rightarrow> Inr (f # fs', b'))
      else
        (case read_field unmarshal f b of
           Inl e \<Rightarrow> Inl e
         | Inr (f', b1) \<Rightarrow>
             (case ReadToStruct unmarshal fs b1 of
                Inl e \<Rightarrow> Inl e
              | Inr (fs', b') \<Rightarrow> Inr (f' # fs', b'))))"

subsection \<open>Writing (write.go)\<close>

definition writeInteger :: "nat \<Rightarrow> Kind \<Rightarrow> string \<Rightarrow> byter_error + bytes" where
  "writeInteger value kind endian =
     (case endianOperations (default_endian endian) kind of
        Some ops \<Rightarrow> Inr (eo_Write ops value)
      | None \<Rightarrow> Inl UnsupportedKindOrEndianness)"

text \<open>
  The error of the length prefix is dropped, as in the source; a length type outside the table is
  the zero kind.
\<close>

definition writeString :: "string \<Rightarrow> string \<Rightarrow> string \<Rightarrow> bytes" where
  "writeString s lengthType endian =
     (if lengthType \<noteq> '''' then
        (case writeInteger (length s)
                (case stringLengthTags lengthType of Some k \<Rightarrow> k | None \<Rightarrow> Invalid)
                (default_endian endian) of
           Inl _ \<Rightarrow> []
         | Inr bs \<Rightarrow> bs)
      else []) @ bytes_of_string s"

text \<open>
  \<open>EncodeVLQ\<close> takes a signed \<^verbatim>\<open>int\<close> and shifts it arithmetically, so the loop need not stop:
  \<open>None\<close> is a run that never returns.
\<close>

partial_function (option) EncodeVLQ :: "int \<Rightarrow> bytes option" where
  "EncodeVLQ value =
     (let encodedByte = (word_of_int (value AND 0x7F) :: byte);
          value' = drop_bit 7 value;
          encodedByte' = (if value' > 0 then encodedByte OR 0x80 else encodedByte)
      in if value' = 0 then Some [encodedByte']
         else Option.bind (EncodeVLQ value') (\<lambda>bs. Some (encodedByte' # bs)))"

declare EncodeVLQ.simps [code]

definition write_field :: "'j field \<Rightarrow> (byter_error + bytes) option" where
  "write_field f =
     (case f_val f of
        FUint u \<Rightarrow>
          if f_kind f \<in> {Uint8, Uint16, Uint32, Uint64} then
            if f_enum f then Some (Inr [ucast u])
            else if f_vlq f \<noteq> '''' then map_option Inr (EncodeVLQ (sint u))
            else Some (writeInteger (unat u) (f_kind f) (f_endian f))
          else Some (Inr [])
      | FString s \<Rightarrow>
          if f_kind f = String_kind then Some (Inr (writeString s (f_lengthType f) (f_endian f)))
          else Some (Inr [])
      | _ \<Rightarrow> Some (Inr []))"

fun WriteFromStruct :: "'j field list \<Rightarrow> (byter_error + bytes) option" where
  "WriteFromStruct [] = Some (Inr [])"
| "WriteFromStruct (f # fs) =
     (if f_skip f = ''1'' then WriteFromStruct fs
      else
        (case write_field f of
           None \<Rightarrow> None
         | Some (Inl e) \<Rightarrow> Some (Inl e)
         | Some (Inr bs) \<Rightarrow>
             map_option (\<lambda>r. case r of Inl e \<Rightarrow> Inl e | Inr cs \<Rightarrow> Inr (bs @ cs)) (WriteFromStruct fs)))"

subsection \<open>Which fields survive a round trip\<close>

definition endian_ok :: "string \<Rightarrow> bool" where
  "endian_ok e \<longleftrightarrow> e = '''' \<or> e = ''big'' \<or> e = ''little''"

definition length_ok :: "string \<Rightarrow> nat \<Rightarrow> bool" where
  "length_ok lt n \<longleftrightarrow>
     (lt = ''uint8'' \<or> lt = ''byte'' \<or> lt = ''int8'') \<and> n < 256 \<or> lt = ''uint16'' \<and> n < 256 ^ 2
     \<or> lt = ''uint32'' \<and> n < 256 ^ 4 \<or> lt = ''uint64'' \<and> n < 256 ^ 8"

definition field_ok :: "'j field \<Rightarrow> bool" where
  "field_ok f \<longleftrightarrow>
     f_canSet f \<and> f_skip f \<noteq> ''1'' \<and> endian_ok (f_endian f) \<and>
     (case f_val f of
        FUint u \<Rightarrow>
          f_kind f \<in> {Uint8, Uint16, Uint32, Uint64} \<and> unat u < 256 ^ kind_bytes (f_kind f) \<and>
          (f_enum f \<longrightarrow> f_kind f = Uint8 \<and> f_vlq f = '''') \<and> (f_vlq f \<noteq> '''' \<longrightarrow> unat u < 2 ^ 28)
      | FString s \<Rightarrow> f_kind f = String_kind \<and> length_ok (f_lengthType f) (length s)
      | _ \<Rightarrow> False)"

text \<open>The bytes of a variable-length quantity: groups of seven bits, low group first.\<close>

fun vlq_bytes :: "nat \<Rightarrow> bytes" where
  "vlq_bytes n =
     (if n < 128 then [word_of_nat n] else (word_of_nat (n mod 128) OR 0x80) # vlq_bytes (n div 128))"

declare vlq_bytes.simps [simp del]

section \<open>Lemmas\<close>

subsection \<open>Variable-length quantities\<close>

lemma vlq_group:
  assumes "n < 128"
  shows "(word_of_nat n OR 0x80 :: byte) AND 0x80 \<noteq> 0"
    and "unat ((word_of_nat n OR 0x80 :: byte) AND 0x7F) = n"
    and "(word_of_nat n :: byte) AND 0x80 = 0"
    and "unat ((word_of_nat n :: byte) AND 0x7F) = n"
proof -
  have "list_all (\<lambda>n. (word_of_nat n OR 0x80 :: byte) AND 0x80 \<noteq> 0 \<and>
      unat ((word_of_nat n OR 0x80 :: byte) AND 0x7F) = n \<and> (word_of_nat n :: byte) AND 0x80 = 0 \<and>
      unat ((word_of_nat n :: byte) AND 0x7F) = n) [0..<128]"
    by code_simp
  with assms show "(word_of_nat n OR 0x80 :: byte) AND 0x80 \<noteq> 0"
    and "unat ((word_of_nat n OR 0x80 :: byte) AND 0x7F) = n"
    and "(word_of_nat n :: byte) AND 0x80 = 0"
    and "unat ((word_of_nat n :: byte) AND 0x7F) = n"
    by (simp_all add: list_all_iff)
qed

lemma int_and_127: "(int n AND 127) = int (n mod 128)"
proof -
  have "int n AND mask 7 = take_bit 7 (int n)" by (simp add: take_bit_eq_mask)
  then show ?thesis by (simp add: mask_eq_exp_minus_1 take_bit_eq_mod zmod_int)
qed

lemma drop_bit_7_int: "drop_bit 7 (int n) = int (n div 128)"
  by (simp add: drop_bit_eq_div zdiv_int)

lemma EncodeVLQ_vlq_bytes: "EncodeVLQ (int n) = Some (vlq_bytes n)"
proof (induction n rule: vlq_bytes.induct)
  case (1 n)
  show ?case
  proof (cases "n < 128")
    case True
    then show ?thesis
      by (subst EncodeVLQ.simps) (simp add: int_and_127 drop_bit_7_int vlq_bytes.simps [of n])
  next
    case False
    then have "0 < n div 128" by (simp add: div_greater_zero_iff)
    with False "1.IH" show ?thesis
      by (subst EncodeVLQ.simps)
        (simp add: int_and_127 drop_bit_7_int vlq_bytes.simps [of n] Let_def)
  qed
qed

text \<open>A negative argument never shifts to zero.\<close>

lemma EncodeVLQ_nonneg:
  assumes "EncodeVLQ v = Some bs"
  shows "0 \<le> v"
proof (rule EncodeVLQ.raw_induct [where P = "\<lambda>v bs. 0 \<le> v", OF _ assms])
  fix f :: "int \<Rightarrow> bytes option" and v :: int and bs :: bytes
  assume IH: "\<And>v bs. f v = Some bs \<Longrightarrow> 0 \<le> v"
    and eq: "(let encodedByte = word_of_int (v AND 127); value' = drop_bit 7 v;
          encodedByte' = if 0 < value' then encodedByte OR 128 else encodedByte
      in if value' = 0 then Some [encodedByte']
         else Option.bind (f value') (\<lambda>bs. Some (encodedByte' # bs))) = Some bs"
  have "0 \<le> drop_bit 7 v"
  proof (cases "drop_bit 7 v = 0")
    case False
    with eq obtain cs where "f (drop_bit 7 v) = Some cs"
      by (auto simp: Let_def bind_eq_Some_conv)
    then show ?thesis by (rule IH)
  qed simp
  then show "0 \<le> v" by simp
qed

lemma EncodeVLQ_terminates_iff: "(\<exists>bs. EncodeVLQ v = Some bs) \<longleftrightarrow> 0 \<le> v"
proof
  assume "0 \<le> v"
  then show "\<exists>bs. EncodeVLQ v = Some bs"
    using EncodeVLQ_vlq_bytes [of "nat v"] by simp
qed (auto dest: EncodeVLQ_nonneg)

lemma vlq_bytes_nonempty [simp]: "vlq_bytes n \<noteq> []"
  by (subst vlq_bytes.simps) simp

lemma DecodeVLQ_loop_vlq_bytes:
  assumes "n < 128 ^ Suc k" and "k \<le> 3"
  shows "DecodeVLQ_loop (128 ^ (3 - k)) v (vlq_bytes n @ rest) = Inr (v + n * 128 ^ (3 - k), rest)"
  using assms
proof (induction k arbitrary: n v)
  case 0
  then show ?case
    by (simp add: vlq_bytes.simps [of n] vlq_group)
next
  case (Suc k)
  have k: "k = 0 \<or> k = 1 \<or> k = 2" using Suc.prems(2) by auto
  then have m: "(128 :: nat) ^ (3 - Suc k) \<le> 2097152" by (elim disjE) simp_all
  have m': "(128 :: nat) ^ (3 - Suc k) * 128 = 128 ^ (3 - k)" using k by (elim disjE) simp_all
  show ?case
  proof (cases "n < 128")
    case True
    with m show ?thesis by (simp add: vlq_bytes.simps [of n] vlq_group)
  next
    case False
    have "n div 128 < 128 ^ Suc k"
      using Suc.prems(1) by (simp add: less_mult_imp_div_less mult.commute)
    then have IH: "DecodeVLQ_loop (128 ^ (3 - k)) w (vlq_bytes (n div 128) @ rest)
        = Inr (w + n div 128 * 128 ^ (3 - k), rest)" for w
      using Suc.prems(2) by (intro Suc.IH) simp_all
    define M :: nat where "M = 128 ^ (3 - Suc k)"
    have "n * M = (n mod 128 + n div 128 * 128) * M" by simp
    also have "\<dots> = n mod 128 * M + n div 128 * (M * 128)"
      by (simp only: add_mult_distrib mult.assoc mult.commute [of 128 M])
    finally have eq: "n * M = n mod 128 * M + n div 128 * (M * 128)" .
    have "DecodeVLQ_loop M v (vlq_bytes n @ rest)
        = DecodeVLQ_loop (M * 128) (v + n mod 128 * M) (vlq_bytes (n div 128) @ rest)"
      using False m by (simp add: vlq_bytes.simps [of n] vlq_group M_def Let_def)
    also have "\<dots> = Inr (v + n mod 128 * M + n div 128 * (M * 128), rest)"
      using IH by (simp only: M_def m')
    also have "\<dots> = Inr (v + n * M, rest)" by (simp only: eq add.assoc)
    finally show ?thesis by (simp only: M_def)
  qed
qed

lemma DecodeVLQ_vlq_bytes: "n < 2 ^ 28 \<Longrightarrow> DecodeVLQ (vlq_bytes n @ rest) = Inr (n, rest)"
  using DecodeVLQ_loop_vlq_bytes [of n 3 0 rest] by (simp add: DecodeVLQ_def)

subsection \<open>Integers, strings and whole structs\<close>

lemma buf_read_append [simp]: "buf_read (length a) (a @ rest) = Inr (a, rest)"
  by (auto simp: buf_read_def)

lemma buf_read_append': "length a = n \<Longrightarrow> buf_read n (a @ rest) = Inr (a, rest)"
  by auto

lemma default_endian_idem [simp]: "default_endian (default_endian e) = default_endian e"
  by (simp add: default_endian_def)

lemma ReadInteger_writeInteger:
  assumes "k \<in> {Uint8, Uint16, Uint32, Uint64}" and "endian_ok e" and "v < 256 ^ kind_bytes k"
  shows "\<exists>bs. writeInteger v k e = Inr bs \<and> length bs = kind_bytes k \<and>
    ReadInteger k (kind_bytes k) e (bs @ rest) = Inr (v, rest)"
proof (cases "e = ''little''")
  case True
  with assms(1,3) show ?thesis
    by (auto simp: writeInteger_def ReadInteger_def default_endian_def endianOperations_def
        little_ops_def le_to_le_of buf_read_append')
next
  case False
  with assms(1,2,3) show ?thesis
    by (auto simp: writeInteger_def ReadInteger_def default_endian_def endianOperations_def
        endian_ok_def big_ops_def be_to_be_of buf_read_append' simp del: be_of.simps)
qed

lemma length_ok_kind:
  assumes "length_ok lt n"
  obtains k where "stringLengthTags lt = Some k" and "stringLengthSizes lt = Some (kind_bytes k)"
    and "k \<in> {Uint8, Uint16, Uint32, Uint64}" and "n < 256 ^ kind_bytes k" and "lt \<noteq> ''''"
  using assms by (auto simp: length_ok_def stringLengthTags_def stringLengthSizes_def)

lemma readString_writeString:
  assumes "length_ok lt (length s)" and "endian_ok e"
  shows "readString lt e (writeString s lt e @ rest) = Inr (s, rest)" and "writeString s lt e \<noteq> []"
proof -
  from assms(1) obtain k where k: "stringLengthTags lt = Some k"
      "stringLengthSizes lt = Some (kind_bytes k)" "k \<in> {Uint8, Uint16, Uint32, Uint64}"
      "length s < 256 ^ kind_bytes k" "lt \<noteq> ''''"
    by (rule length_ok_kind)
  have e: "endian_ok (default_endian e)" using assms(2) by (auto simp: endian_ok_def default_endian_def)
  from ReadInteger_writeInteger [OF k(3) e k(4), of "bytes_of_string s @ rest"]
  obtain bs where bs: "writeInteger (length s) k (default_endian e) = Inr bs"
      "length bs = kind_bytes k"
      "ReadInteger k (kind_bytes k) (default_endian e) (bs @ bytes_of_string s @ rest)
         = Inr (length s, bytes_of_string s @ rest)"
    by blast
  show "readString lt e (writeString s lt e @ rest) = Inr (s, rest)"
    using k bs by (simp add: readString_def writeString_def buf_read_append')
  show "writeString s lt e \<noteq> []"
    using k bs by (auto simp: writeString_def)
qed

lemma SetUint_same:
  assumes "f_kind f \<in> {Uint8, Uint16, Uint32, Uint64}" and "unat u < 256 ^ kind_bytes (f_kind f)"
    and "f_val f = FUint u"
  shows "SetUint (f\<lparr>f_val := z\<rparr>) (unat u) = f"
  using assms by (cases f) (simp add: SetUint_def)

lemma uint_field_roundtrip:
  assumes ok: "field_ok f" and val: "f_val f = FUint u"
  shows "\<exists>bs. write_field f = Some (Inr bs) \<and> bs \<noteq> [] \<and>
    read_field um (f\<lparr>f_val := z\<rparr>) (bs @ rest) = Inr (f, rest)"
proof -
  from ok val have k: "f_kind f \<in> {Uint8, Uint16, Uint32, Uint64}"
      and u: "unat u < 256 ^ kind_bytes (f_kind f)" and e: "endian_ok (f_endian f)"
    by (auto simp: field_ok_def)
  note set = SetUint_same [OF k u val, of z]
  have uint_case: "read_field um (f\<lparr>f_val := z\<rparr>) b =
      (if f_vlq f \<noteq> ''''
       then (case DecodeVLQ b of Inl e \<Rightarrow> Inl e | Inr (v, b') \<Rightarrow> Inr (SetUint (f\<lparr>f_val := z\<rparr>) v, b'))
       else (case ReadInteger (f_kind f) (kind_bytes (f_kind f)) (f_endian f) b of
               Inl e \<Rightarrow> Inl e | Inr (v, b') \<Rightarrow> Inr (SetUint (f\<lparr>f_val := z\<rparr>) v, b')))" for b
    using k by (auto simp: read_field_def)
  from ReadInteger_writeInteger [OF k e u, of rest] obtain bs
    where bs: "writeInteger (unat u) (f_kind f) (f_endian f) = Inr bs" "length bs = kind_bytes (f_kind f)"
      "ReadInteger (f_kind f) (kind_bytes (f_kind f)) (f_endian f) (bs @ rest) = Inr (unat u, rest)"
    by blast
  have bs0: "bs \<noteq> []" using bs(2) k by auto
  consider (enum) "f_enum f" | (vlq) "\<not> f_enum f" "f_vlq f \<noteq> ''''" | (plain) "\<not> f_enum f" "f_vlq f = ''''"
    by blast
  then show ?thesis
  proof cases
    case enum
    with ok val have ek: "f_kind f = Uint8" "f_vlq f = ''''" by (auto simp: field_ok_def)
    have "bs = [ucast u]"
      using bs(1) ek by (auto simp: writeInteger_def endianOperations_def big_ops_def
          little_ops_def le_of_def split: if_splits)
    with enum k ek val set bs uint_case show ?thesis
      by (simp add: write_field_def)
  next
    case vlq
    then have small: "unat u < 2 ^ 28" using ok val by (auto simp: field_ok_def)
    then have "sint u = int (unat u)"
      by (intro sint64_small) simp
    then have "EncodeVLQ (sint u) = Some (vlq_bytes (unat u))"
      by (simp only: EncodeVLQ_vlq_bytes)
    with vlq k val set small uint_case show ?thesis
      by (simp add: write_field_def DecodeVLQ_vlq_bytes)
  next
    case plain
    with k val set bs bs0 uint_case show ?thesis
      by (simp add: write_field_def)
  qed
qed

lemma read_field_write_field:
  assumes "field_ok f"
  shows "\<exists>bs. write_field f = Some (Inr bs) \<and> bs \<noteq> [] \<and>
    read_field um (f\<lparr>f_val := z\<rparr>) (bs @ rest) = Inr (f, rest)"
proof (cases "f_val f")
  case (FUint u)
  with assms show ?thesis by (rule uint_field_roundtrip)
next
  case (FString s)
  with assms have "f_kind f = String_kind" "length_ok (f_lengthType f) (length s)" "endian_ok (f_endian f)"
    by (auto simp: field_ok_def)
  with FString readString_writeString(1) [of "f_lengthType f" s "f_endian f" rest]
    readString_writeString(2) [of "f_lengthType f" s "f_endian f"] show ?thesis
    by (cases f) (simp add: write_field_def read_field_def)
qed (use assms in \<open>auto simp: field_ok_def\<close>)

lemma ReadToStruct_WriteFromStruct:
  assumes "list_all field_ok fs"
  shows "\<exists>bs. WriteFromStruct fs = Some (Inr bs) \<and>
    ReadToStruct um (map (\<lambda>f. f\<lparr>f_val := z f\<rparr>) fs) (bs @ rest) = Inr (fs, rest) \<and> (fs \<noteq> [] \<longrightarrow> bs \<noteq> [])"
  using assms
proof (induction fs)
  case Nil
  then show ?case by simp
next
  case (Cons f fs)
  then obtain cs where cs: "WriteFromStruct fs = Some (Inr cs)"
      "ReadToStruct um (map (\<lambda>f. f\<lparr>f_val := z f\<rparr>) fs) (cs @ rest) = Inr (fs, rest)"
    by auto
  from Cons.prems have ok: "field_ok f" by simp
  from read_field_write_field [OF ok, of um "z f" "cs @ rest"] obtain bs
    where bs: "write_field f = Some (Inr bs)" "bs \<noteq> []"
      "read_field um (f\<lparr>f_val := z f\<rparr>) (bs @ cs @ rest) = Inr (f, cs @ rest)"
    by blast
  from ok have "f_canSet f" "f_skip f \<noteq> ''1''" by (simp_all add: field_ok_def)
  with cs bs show ?case by simp
qed

section \<open>Properties\<close>

text \<open>
  C39. A struct whose fields are within the reach of the codec is written without error or divergence,
  and reading those bytes, followed by anything, into a struct of the same type with arbitrary old
  values restores every field and consumes exactly the bytes written.
\<close>

theorem byter_roundtrip:
  assumes "list_all field_ok fs"
  shows "\<exists>bs. WriteFromStruct fs = Some (Inr bs) \<and>
    ReadToStruct um (map (\<lambda>f. f\<lparr>f_val := z f\<rparr>) fs) (bs @ rest) = Inr (fs, rest)"
  using ReadToStruct_WriteFromStruct [OF assms, of um z rest] by blast

definition sample_fields :: "unit field list" where
  "sample_fields =
     [\<lparr>f_name = ''Topic'', f_kind = String_kind, f_canSet = True, f_enum = False, f_endian = ''big'',
       f_vlq = '''', f_lengthType = ''uint16'', f_jsonString = '''', f_skip = '''', f_val = FString ''/ls_req''\<rparr>,
      \<lparr>f_name = ''MessageIdentifier'', f_kind = Uint16, f_canSet = True, f_enum = False, f_endian = ''big'',
       f_vlq = '''', f_lengthType = '''', f_jsonString = '''', f_skip = '''', f_val = FUint 513\<rparr>]"

theorem byter_roundtrip_witness:
  "\<exists>bs. WriteFromStruct sample_fields = Some (Inr bs) \<and>
    ReadToStruct (\<lambda>_. Inl '''') (map (\<lambda>f. f\<lparr>f_val := FOther\<rparr>) sample_fields) (bs @ [7]) = Inr (sample_fields, [7])"
  by (rule byter_roundtrip)
    (simp add: sample_fields_def field_ok_def length_ok_def endian_ok_def)

text \<open>
  The variable-length encoder returns exactly on the non-negative integers (on a negative one the
  arithmetic shift never reaches zero and the loop does not end), and what it returns for a number
  below \<open>2 ^ 28\<close> is decoded to that number, consuming exactly the bytes written.
\<close>

theorem EncodeVLQ_DecodeVLQ:
  "((\<exists>bs. EncodeVLQ v = Some bs) \<longleftrightarrow> 0 \<le> v) \<and>
   (\<forall>bs. EncodeVLQ v = Some bs \<longrightarrow> v < 2 ^ 28 \<longrightarrow> DecodeVLQ (bs @ rest) = Inr (nat v, rest))"
proof -
  have "DecodeVLQ (bs @ rest) = Inr (nat v, rest)" if "EncodeVLQ v = Some bs" "v < 2 ^ 28" for bs
    using that EncodeVLQ_nonneg [OF that(1)] EncodeVLQ_vlq_bytes [of "nat v"]
      DecodeVLQ_vlq_bytes [of "nat v" rest] by simp
  then show ?thesis using EncodeVLQ_terminates_iff by blast
qed

theorem EncodeVLQ_DecodeVLQ_witness:
  "EncodeVLQ 321 = Some [0xC1, 0x02] \<and> DecodeVLQ ([0xC1, 0x02] @ [9]) = Inr (321, [9])"
proof -
  have enc: "EncodeVLQ 321 = Some [0xC1, 0x02]"
    by (subst EncodeVLQ.simps, subst EncodeVLQ.simps) (simp add: drop_bit_eq_div and_int_unfold Let_def)
  show ?thesis using EncodeVLQ_DecodeVLQ [of 321 "[9]"] enc by simp
qed

end
