(* ===== verification/Go_Json.thy ===== *)
theory Go_Json
  imports Go_Prelude
begin

text \<open>
  What the bridge uses of the packages \<^verbatim>\<open>unicode/utf8\<close> and \<^verbatim>\<open>encoding/json\<close>: decoding a UTF-8
  rune, the text \<open>json.Marshal\<close> prints for a value, and the reading half, a lexer followed by the
  push-down machine of Go's scanner. A number keeps its literal text, as \<open>json.Number\<close> does, so the
  conversion to a Go integer is a separate step. The last section proves that parsing undoes
  printing.
\<close>

section \<open>UTF-8\<close>

definition code :: "char \<Rightarrow> nat" where
  "code c = of_char c"

definition rune_error :: nat where "rune_error = 0xFFFD"

definition is_cont :: "char \<Rightarrow> bool" where
  "is_cont c \<longleftrightarrow> 0x80 \<le> code c \<and> code c \<le> 0xBF"

text \<open>\<open>utf8.DecodeRune\<close> on a non-empty string: the rune and how many bytes it takes.\<close>

fun decode_rune :: "string \<Rightarrow> nat \<times> nat" where
  "decode_rune [] = (rune_error, 0)"
| "decode_rune (a # s) =
     (let x = code a in
      if x < 0x80 then (x, 1)
      else if 0xC2 \<le> x \<and> x \<le> 0xDF then
        (case s of
           b # _ \<Rightarrow> if is_cont b then ((x - 0xC0) * 64 + (code b - 0x80), 2) else (rune_error, 1)
         | _ \<Rightarrow> (rune_error, 1))
      else if 0xE0 \<le> x \<and> x \<le> 0xEF then
        (case s of
           b # c # _ \<Rightarrow>
             if is_cont b \<and> is_cont c \<and> (x = 0xE0 \<longrightarrow> 0xA0 \<le> code b) \<and> (x = 0xED \<longrightarrow> code b \<le> 0x9F)
             then ((x - 0xE0) * 4096 + (code b - 0x80) * 64 + (code c - 0x80), 3) else (rune_error, 1)
         | _ \<Rightarrow> (rune_error, 1))
      else if 0xF0 \<le> x \<and> x \<le> 0xF4 then
        (case s of
           b # c # d # _ \<Rightarrow>
             if is_cont b \<and> is_cont c \<and> is_cont d \<and> (x = 0xF0 \<longrightarrow> 0x90 \<le> code b)
                \<and> (x = 0xF4 \<longrightarrow> code b \<le> 0x8F)
             then ((x - 0xF0) * 262144 + (code b - 0x80) * 4096 + (code c - 0x80) * 64 + (code d - 0x80), 4)
             else (rune_error, 1)
         | _ \<Rightarrow> (rune_error, 1))
      else (rune_error, 1))"

declare decode_rune.simps [simp del]

text \<open>\<open>utf8.AppendRune\<close>; a surrogate or an out-of-range value becomes U+FFFD.\<close>

definition encode_rune :: "nat \<Rightarrow> string" where
  "encode_rune r0 =
     (let r = (if r0 > 0x10FFFF \<or> 0xD800 \<le> r0 \<and> r0 \<le> 0xDFFF then rune_error else r0) in
      if r < 0x80 then [char_of r]
      else if r < 0x800 then [char_of (0xC0 + r div 64), char_of (0x80 + r mod 64)]
      else if r < 0x10000 then
        [char_of (0xE0 + r div 4096), char_of (0x80 + r div 64 mod 64), char_of (0x80 + r mod 64)]
      else
        [char_of (0xF0 + r div 262144), char_of (0x80 + r div 4096 mod 64),
         char_of (0x80 + r div 64 mod 64), char_of (0x80 + r mod 64)])"

section \<open>Values and printing\<close>

datatype json = JNull | JBool bool | JNum string | JStr string | JArr "json list"
  | JObj "(string \<times> json) list"

definition hex_digit :: "nat \<Rightarrow> char" where
  "hex_digit n = (if n < 10 then char_of (48 + n) else char_of (87 + n))"

definition unhex :: "char \<Rightarrow> nat option" where
  "unhex c =
     (let n = code c in
      if 48 \<le> n \<and> n \<le> 57 then Some (n - 48)
      else if 97 \<le> n \<and> n \<le> 102 then Some (n - 87)
      else if 65 \<le> n \<and> n \<le> 70 then Some (n - 55)
      else None)"

definition quote :: char where "quote = CHR 0x22"
definition backslash :: char where "backslash = CHR 0x5C"

definition u_escape :: "nat \<Rightarrow> string" where
  "u_escape r =
     [backslash, CHR ''u'', hex_digit (r div 4096 mod 16), hex_digit (r div 256 mod 16),
      hex_digit (r div 16 mod 16), hex_digit (r mod 16)]"

text \<open>How \<open>json.Marshal\<close> writes one ASCII byte (HTML escaping is on by default).\<close>

definition escape_ascii :: "char \<Rightarrow> string" where
  "escape_ascii c =
     (if c = quote \<or> c = backslash then [backslash, c]
      else if c = CHR 0x08 then [backslash, CHR ''b'']
      else if c = CHR 0x0C then [backslash, CHR ''f'']
      else if c = CHR 0x0A then [backslash, CHR ''n'']
      else if c = CHR 0x0D then [backslash, CHR ''r'']
      else if c = CHR 0x09 then [backslash, CHR ''t'']
      else if code c < 0x20 \<or> c = CHR ''<'' \<or> c = CHR ''>'' \<or> c = CHR ''&'' then u_escape (code c)
      else [c])"

text \<open>The escape loop; \<open>skip\<close> counts the bytes of a multi-byte rune still to be copied.\<close>

fun escape_loop :: "nat \<Rightarrow> string \<Rightarrow> string" where
  "escape_loop skip [] = []"
| "escape_loop skip (c # s) =
     (if skip > 0 then c # escape_loop (skip - 1) s
      else if code c < 0x80 then escape_ascii c @ escape_loop 0 s
      else
        (case decode_rune (c # s) of (r, n) \<Rightarrow>
           if r = rune_error \<and> n = 1 then u_escape rune_error @ escape_loop 0 s
           else if r = 0x2028 \<or> r = 0x2029 then
             u_escape r @ escape_loop 0 (drop 2 s)
           else c # escape_loop (n - 1) s))"

definition print_string :: "string \<Rightarrow> string" where
  "print_string s = [quote] @ escape_loop 0 s @ [quote]"

datatype token = TLBrace | TRBrace | TLBrack | TRBrack | TColon | TComma | TTrue | TFalse | TNull
  | TNum string | TStr string

fun token_text :: "token \<Rightarrow> string" where
  "token_text TLBrace = ''{''"
| "token_text TRBrace = ''}''"
| "token_text TLBrack = ''[''"
| "token_text TRBrack = '']''"
| "token_text TColon = '':''"
| "token_text TComma = '',''"
| "token_text TTrue = ''true''"
| "token_text TFalse = ''false''"
| "token_text TNull = ''null''"
| "token_text (TNum n) = n"
| "token_text (TStr s) = print_string s"

fun join_tokens :: "token list list \<Rightarrow> token list" where
  "join_tokens [] = []"
| "join_tokens [ts] = ts"
| "join_tokens (ts # tss) = ts @ [TComma] @ join_tokens tss"

fun tokens_of :: "json \<Rightarrow> token list" where
  "tokens_of JNull = [TNull]"
| "tokens_of (JBool b) = [if b then TTrue else TFalse]"
| "tokens_of (JNum n) = [TNum n]"
| "tokens_of (JStr s) = [TStr s]"
| "tokens_of (JArr vs) = [TLBrack] @ join_tokens (map tokens_of vs) @ [TRBrack]"
| "tokens_of (JObj ms) =
     [TLBrace] @ join_tokens (map (\<lambda>(k, v). TStr k # TColon # tokens_of v) ms) @ [TRBrace]"

definition marshal :: "json \<Rightarrow> string" where
  "marshal j = concat (map token_text (tokens_of j))"

section \<open>Lexing and parsing\<close>

definition hex4 :: "char \<Rightarrow> char \<Rightarrow> char \<Rightarrow> char \<Rightarrow> nat option" where
  "hex4 a b c d =
     (case (unhex a, unhex b, unhex c, unhex d) of
        (Some w, Some x, Some y, Some z) \<Rightarrow> Some (4096 * w + 256 * x + 16 * y + z)
      | _ \<Rightarrow> None)"

definition unescape1 :: "char \<Rightarrow> char option" where
  "unescape1 c =
     (if c = quote \<or> c = backslash \<or> c = CHR ''/'' then Some c
      else if c = CHR ''b'' then Some (CHR 0x08)
      else if c = CHR ''f'' then Some (CHR 0x0C)
      else if c = CHR ''n'' then Some (CHR 0x0A)
      else if c = CHR ''r'' then Some (CHR 0x0D)
      else if c = CHR ''t'' then Some (CHR 0x09)
      else None)"

text \<open>
  The body of a string literal, up to its closing quote. \<open>hi\<close> holds a high surrogate waiting for
  its low half, \<open>skip\<close> counts the bytes of a valid multi-byte rune still to be copied; a stray
  surrogate or an invalid byte reads as U+FFFD. \<open>lex_next\<close> handles one item of the body: what it
  adds to the string, the new \<open>hi\<close> and \<open>skip\<close>, and the input left.
\<close>

definition flush :: "nat option \<Rightarrow> string" where
  "flush hi = (case hi of None \<Rightarrow> [] | Some _ \<Rightarrow> encode_rune rune_error)"

definition lex_unicode :: "nat option \<Rightarrow> nat \<Rightarrow> string \<times> nat option" where
  "lex_unicode hi r =
     (if 0xDC00 \<le> r \<and> r \<le> 0xDFFF then
        (case hi of
           Some h \<Rightarrow> (encode_rune ((h - 0xD800) * 1024 + (r - 0xDC00) + 0x10000), None)
         | None \<Rightarrow> (encode_rune rune_error, None))
      else if 0xD800 \<le> r \<and> r \<le> 0xDBFF then (flush hi, Some r)
      else (flush hi @ encode_rune r, None))"

definition lex_escape :: "nat option \<Rightarrow> string \<Rightarrow> (string \<times> nat option \<times> nat \<times> string) option" where
  "lex_escape hi s =
     (case s of
        [] \<Rightarrow> None
      | u # s' \<Rightarrow>
          if u = CHR ''u'' then
            (case s' of
               a # b # d # e # s'' \<Rightarrow>
                 (case hex4 a b d e of
                    None \<Rightarrow> None
                  | Some r \<Rightarrow> (case lex_unicode hi r of (t, hi') \<Rightarrow> Some (t, hi', 0, s'')))
             | _ \<Rightarrow> None)
          else map_option (\<lambda>x. (flush hi @ [x], None, 0, s')) (unescape1 u))"

definition lex_next ::
  "nat option \<Rightarrow> nat \<Rightarrow> char \<Rightarrow> string \<Rightarrow> (string \<times> nat option \<times> nat \<times> string) option" where
  "lex_next hi skip c s =
     (if skip > 0 then Some ([c], hi, skip - 1, s)
      else if c = backslash then lex_escape hi s
      else if code c < 0x20 then None
      else if code c < 0x80 then Some (flush hi @ [c], None, 0, s)
      else
        (case decode_rune (c # s) of (rn, n) \<Rightarrow>
           if rn = rune_error \<and> n = 1 then Some (flush hi @ encode_rune rune_error, None, 0, s)
           else Some (flush hi @ [c], None, n - 1, s)))"

lemma lex_escape_length: "lex_escape hi s = Some (t, hi', k, r) \<Longrightarrow> length r \<le> length s"
  by (auto simp: lex_escape_def split: list.splits if_splits option.splits prod.splits)

lemma lex_next_length: "lex_next hi skip c s = Some (t, hi', k, r) \<Longrightarrow> length r \<le> length s"
  by (auto simp: lex_next_def lex_escape_length split: if_splits prod.splits)

function lex_string :: "nat option \<Rightarrow> nat \<Rightarrow> string \<Rightarrow> (string \<times> string) option" where
  "lex_string hi skip [] = None"
| "lex_string hi skip (c # s) =
     (if skip = 0 \<and> c = quote then Some (flush hi, s)
      else
        (case lex_next hi skip c s of
           None \<Rightarrow> None
         | Some (e, hi', skip', r) \<Rightarrow> map_option (\<lambda>(t, q). (e @ t, q)) (lex_string hi' skip' r)))"
  by pat_completeness auto
termination
  by (relation "measure (\<lambda>(hi, skip, s). length s)")
    (auto simp: less_Suc_eq_le dest: lex_next_length)

lemma lex_string_shorter: "lex_string hi skip s = Some (t, r) \<Longrightarrow> length r < length s"
proof (induction hi skip s arbitrary: t r rule: lex_string.induct)
  case (2 hi skip c s)
  show ?case
  proof (cases "skip = 0 \<and> c = quote")
    case True
    with 2 show ?thesis by simp
  next
    case False
    with "2.prems" obtain e hi' k q u where n: "lex_next hi skip c s = Some (e, hi', k, q)"
        and l: "lex_string hi' k q = Some (u, r)"
      by (auto split: option.splits)
    from "2.IH" [OF False n] l have "length r < length q" by blast
    with lex_next_length [OF n] show ?thesis by simp
  qed
qed simp

definition is_digit :: "char \<Rightarrow> bool" where
  "is_digit c \<longleftrightarrow> 48 \<le> code c \<and> code c \<le> 57"

definition is_num_char :: "char \<Rightarrow> bool" where
  "is_num_char c \<longleftrightarrow> is_digit c \<or> c \<in> {CHR ''-'', CHR ''+'', CHR ''.'', CHR ''e'', CHR ''E''}"

text \<open>The number grammar: sign, integer part without leading zero, fraction, exponent.\<close>

definition all_digits1 :: "string \<Rightarrow> bool" where
  "all_digits1 s \<longleftrightarrow> s \<noteq> [] \<and> list_all is_digit s"

definition valid_int_part :: "string \<Rightarrow> bool" where
  "valid_int_part s \<longleftrightarrow> all_digits1 s \<and> (hd s = CHR ''0'' \<longrightarrow> length s = 1)"

definition valid_exp :: "string \<Rightarrow> bool" where
  "valid_exp s \<longleftrightarrow>
     (case s of
        [] \<Rightarrow> True
      | e # t \<Rightarrow> (e = CHR ''e'' \<or> e = CHR ''E'') \<and>
          all_digits1 (if t \<noteq> [] \<and> (hd t = CHR ''+'' \<or> hd t = CHR ''-'') then tl t else t))"

definition valid_frac_exp :: "string \<Rightarrow> bool" where
  "valid_frac_exp s \<longleftrightarrow>
     (if s \<noteq> [] \<and> hd s = CHR ''.''
      then all_digits1 (takeWhile is_digit (tl s)) \<and> valid_exp (dropWhile is_digit (tl s))
      else valid_exp s)"

definition valid_number :: "string \<Rightarrow> bool" where
  "valid_number s \<longleftrightarrow>
     (let t = (if s \<noteq> [] \<and> hd s = CHR ''-'' then tl s else s)
      in valid_int_part (takeWhile is_digit t) \<and> valid_frac_exp (dropWhile is_digit t))"

definition is_space :: "char \<Rightarrow> bool" where
  "is_space c \<longleftrightarrow> c \<in> {CHR 0x20, CHR 0x09, CHR 0x0A, CHR 0x0D}"

function lex :: "string \<Rightarrow> token list option" where
  "lex [] = Some []"
| "lex (c # s) =
     (if is_space c then lex s
      else if c = CHR ''{'' then map_option ((#) TLBrace) (lex s)
      else if c = CHR ''}'' then map_option ((#) TRBrace) (lex s)
      else if c = CHR ''['' then map_option ((#) TLBrack) (lex s)
      else if c = CHR '']'' then map_option ((#) TRBrack) (lex s)
      else if c = CHR '':'' then map_option ((#) TColon) (lex s)
      else if c = CHR '','' then map_option ((#) TComma) (lex s)
      else if c = quote then
        (case lex_string None 0 s of
           None \<Rightarrow> None
         | Some (t, r) \<Rightarrow> map_option ((#) (TStr t)) (lex r))
      else if take 4 (c # s) = ''true'' then map_option ((#) TTrue) (lex (drop 3 s))
      else if take 5 (c # s) = ''false'' then map_option ((#) TFalse) (lex (drop 4 s))
      else if take 4 (c # s) = ''null'' then map_option ((#) TNull) (lex (drop 3 s))
      else
        let n = takeWhile is_num_char (c # s) in
        if valid_number n then map_option ((#) (TNum n)) (lex (dropWhile is_num_char s)) else None)"
  by pat_completeness auto
termination
  by (relation "measure length")
    (auto simp: less_Suc_eq_le length_dropWhile_le dest: lex_string_shorter)

text \<open>The push-down machine: the containers still open, and what the scanner expects next.\<close>

datatype ctx = CArr "json list" | CObj "(string \<times> json) list" "string option"

datatype pmode = BeginValue | BeginValueOrEmpty | BeginStringOrEmpty | BeginString | AfterKey
  | AfterValue | EndTop json

type_synonym pstate = "pmode \<times> ctx list"

fun reduce :: "json \<Rightarrow> ctx list \<Rightarrow> pstate option" where
  "reduce v [] = Some (EndTop v, [])"
| "reduce v (CArr vs # st) = Some (AfterValue, CArr (vs @ [v]) # st)"
| "reduce v (CObj ms (Some k) # st) = Some (AfterValue, CObj (ms @ [(k, v)]) None # st)"
| "reduce v (CObj ms None # st) = None"

fun begin_value :: "token \<Rightarrow> ctx list \<Rightarrow> pstate option" where
  "begin_value TLBrace st = Some (BeginStringOrEmpty, CObj [] None # st)"
| "begin_value TLBrack st = Some (BeginValueOrEmpty, CArr [] # st)"
| "begin_value TTrue st = reduce (JBool True) st"
| "begin_value TFalse st = reduce (JBool False) st"
| "begin_value TNull st = reduce JNull st"
| "begin_value (TNum n) st = reduce (JNum n) st"
| "begin_value (TStr s) st = reduce (JStr s) st"
| "begin_value _ st = None"

fun close_ctx :: "token \<Rightarrow> ctx list \<Rightarrow> pstate option" where
  "close_ctx TRBrack (CArr vs # st) = reduce (JArr vs) st"
| "close_ctx TRBrace (CObj ms None # st) = reduce (JObj ms) st"
| "close_ctx _ st = None"

fun begin_key :: "token \<Rightarrow> ctx list \<Rightarrow> pstate option" where
  "begin_key (TStr k) (CObj ms None # st) = Some (AfterKey, CObj ms (Some k) # st)"
| "begin_key _ st = None"

fun after_comma :: "ctx list \<Rightarrow> pstate option" where
  "after_comma (CArr vs # st) = Some (BeginValue, CArr vs # st)"
| "after_comma (CObj ms None # st) = Some (BeginString, CObj ms None # st)"
| "after_comma st = None"

fun pstep :: "token \<Rightarrow> pstate \<Rightarrow> pstate option" where
  "pstep t (BeginValue, st) = begin_value t st"
| "pstep t (BeginValueOrEmpty, st) = (if t = TRBrack then close_ctx t st else begin_value t st)"
| "pstep t (BeginStringOrEmpty, st) = (if t = TRBrace then close_ctx t st else begin_key t st)"
| "pstep t (BeginString, st) = begin_key t st"
| "pstep t (AfterKey, st) = (if t = TColon then Some (BeginValue, st) else None)"
| "pstep t (AfterValue, st) = (if t = TComma then after_comma st else close_ctx t st)"
| "pstep t (EndTop v, st) = None"

fun prun :: "token list \<Rightarrow> pstate \<Rightarrow> pstate option" where
  "prun [] s = Some s"
| "prun (t # ts) s = (case pstep t s of None \<Rightarrow> None | Some s' \<Rightarrow> prun ts s')"

definition parse_tokens :: "token list \<Rightarrow> json option" where
  "parse_tokens ts =
     (case prun ts (BeginValue, []) of Some (EndTop v, []) \<Rightarrow> Some v | _ \<Rightarrow> None)"

text \<open>\<open>unmarshal s\<close>: the value \<open>json.Unmarshal\<close> reads from \<open>s\<close> before it is stored, if it parses.\<close>

definition unmarshal :: "string \<Rightarrow> json option" where
  "unmarshal s = (case lex s of None \<Rightarrow> None | Some ts \<Rightarrow> parse_tokens ts)"

section \<open>Parsing undoes printing\<close>

text \<open>The values whose text reads back: ASCII strings and well-formed number literals.\<close>

definition ascii :: "string \<Rightarrow> bool" where
  "ascii s \<longleftrightarrow> list_all (\<lambda>c. code c < 0x80) s"

fun json_ok :: "json \<Rightarrow> bool" where
  "json_ok (JNum n) \<longleftrightarrow> valid_number n \<and> list_all is_num_char n \<and> n \<noteq> []"
| "json_ok (JStr s) \<longleftrightarrow> ascii s"
| "json_ok (JArr vs) \<longleftrightarrow> (\<forall>v \<in> set vs. json_ok v)"
| "json_ok (JObj ms) \<longleftrightarrow> (\<forall>m \<in> set ms. ascii (fst m) \<and> json_ok (snd m))"
| "json_ok _ \<longleftrightarrow> True"

fun token_ok :: "token \<Rightarrow> bool" where
  "token_ok (TNum n) \<longleftrightarrow> valid_number n \<and> list_all is_num_char n \<and> n \<noteq> []"
| "token_ok (TStr s) \<longleftrightarrow> ascii s"
| "token_ok _ \<longleftrightarrow> True"

fun is_punct :: "token \<Rightarrow> bool" where
  "is_punct TRBrace \<longleftrightarrow> True"
| "is_punct TRBrack \<longleftrightarrow> True"
| "is_punct TComma \<longleftrightarrow> True"
| "is_punct TColon \<longleftrightarrow> True"
| "is_punct _ \<longleftrightarrow> False"

text \<open>Every number token is followed by punctuation or the end.\<close>

fun nums_delimited :: "token list \<Rightarrow> bool" where
  "nums_delimited [] \<longleftrightarrow> True"
| "nums_delimited (t # ts) \<longleftrightarrow>
     (case t of TNum _ \<Rightarrow> (case ts of [] \<Rightarrow> True | u # _ \<Rightarrow> is_punct u) | _ \<Rightarrow> True) \<and> nums_delimited ts"

subsection \<open>The push-down machine\<close>

definition value_parses :: "json \<Rightarrow> bool" where
  "value_parses v \<longleftrightarrow> (\<forall>st ts.
     prun (tokens_of v @ ts) (BeginValue, st) = Option.bind (reduce v st) (prun ts) \<and>
     prun (tokens_of v @ ts) (BeginValueOrEmpty, st) = Option.bind (reduce v st) (prun ts))"

lemma value_parsesD:
  "value_parses v \<Longrightarrow> m = BeginValue \<or> m = BeginValueOrEmpty \<Longrightarrow>
     prun (tokens_of v @ ts) (m, st) = Option.bind (reduce v st) (prun ts)"
  by (auto simp: value_parses_def)

lemma prun_elems:
  assumes "\<forall>v \<in> set vs. value_parses v" and "vs \<noteq> []" and "m = BeginValue \<or> m = BeginValueOrEmpty"
  shows "prun (join_tokens (map tokens_of vs) @ TRBrack # ts) (m, CArr acc # st)
    = Option.bind (reduce (JArr (acc @ vs)) st) (prun ts)"
  using assms
proof (induction vs arbitrary: m acc)
  case (Cons v vs)
  show ?case
  proof (cases vs)
    case Nil
    with Cons.prems show ?thesis
      by (simp add: value_parsesD split: option.split)
  next
    case (Cons w ws)
    then show ?thesis
      using Cons.prems Cons.IH [of BeginValue "acc @ [v]"] by (simp add: value_parsesD)
  qed
qed simp

lemma prun_members:
  assumes "\<forall>kv \<in> set ms. value_parses (snd kv)" and "ms \<noteq> []" and "m = BeginString \<or> m = BeginStringOrEmpty"
  shows "prun (join_tokens (map (\<lambda>(k, v). TStr k # TColon # tokens_of v) ms) @ TRBrace # ts)
      (m, CObj acc None # st) = Option.bind (reduce (JObj (acc @ ms)) st) (prun ts)"
  using assms
proof (induction ms arbitrary: m acc)
  case (Cons kv ms)
  obtain k v where kv: "kv = (k, v)" by (cases kv)
  show ?case
  proof (cases ms)
    case Nil
    with Cons.prems kv show ?thesis
      by (auto simp: value_parsesD split: option.split)
  next
    case (Cons w ws)
    then show ?thesis
      using Cons.prems kv Cons.IH [of BeginString "acc @ [(k, v)]"] by (auto simp: value_parsesD)
  qed
qed simp

lemma value_parses_all: "value_parses v"
proof (induction v)
  case (JArr vs)
  show ?case
  proof (cases "vs = []")
    case True
    then show ?thesis by (auto simp: value_parses_def split: option.split)
  next
    case False
    with JArr show ?thesis
      by (auto simp: value_parses_def [of "JArr vs"] prun_elems)
  qed
next
  case (JObj ms)
  have all: "\<forall>kv \<in> set ms. value_parses (snd kv)" using JObj by (auto intro: snds.intros)
  show ?case
  proof (cases "ms = []")
    case True
    then show ?thesis by (auto simp: value_parses_def split: option.split)
  next
    case False
    with all show ?thesis
      by (auto simp: value_parses_def [of "JObj ms"] prun_members)
  qed
qed (auto simp: value_parses_def split: option.split)

lemma parse_tokens_of: "parse_tokens (tokens_of v) = Some v"
proof -
  have "prun (tokens_of v @ []) (BeginValue, []) = Option.bind (reduce v []) (prun [])"
    by (intro value_parsesD value_parses_all) simp
  then show ?thesis by (simp add: parse_tokens_def)
qed

subsection \<open>The lexer\<close>

lemma char_code [simp]: "char_of (code c) = c"
  by (simp add: code_def)

lemma code_char [simp]: "n < 256 \<Longrightarrow> code (char_of n) = n"
  by (simp add: code_def)

lemma code_less [simp]: "code c < 256"
  by (simp add: code_def)

lemma unhex_hex_digit [simp]: "n < 16 \<Longrightarrow> unhex (hex_digit n) = Some n"
  by (simp add: unhex_def hex_digit_def Let_def)

lemma hex_u_escape:
  assumes "r < 128"
  shows "hex4 (hex_digit (r div 4096 mod 16)) (hex_digit (r div 256 mod 16)) (hex_digit (r div 16 mod 16))
     (hex_digit (r mod 16)) = Some r"
proof -
  have "r div 4096 = 0" and "r div 256 = 0" using assms by simp_all
  moreover have "r div 16 < 16" using assms by (simp add: less_mult_imp_div_less)
  ultimately show ?thesis by (simp add: hex4_def)
qed

lemma flush_None [simp]: "flush None = []"
  by (simp add: flush_def)

lemma encode_rune_ascii: "r < 128 \<Longrightarrow> encode_rune r = [char_of r]"
  by (simp add: encode_rune_def Let_def)

lemma lex_escape_u:
  assumes "code c < 128"
  shows "lex_escape None (tl (u_escape (code c)) @ x) = Some ([c], None, 0, x)"
proof -
  have "lex_unicode None (code c) = ([c], None)"
    using assms by (simp add: lex_unicode_def encode_rune_ascii)
  then show ?thesis
    unfolding u_escape_def lex_escape_def
    by (simp only: append.simps list.sel list.case refl if_True hex_u_escape [OF assms] option.case prod.case)
qed

lemma backslash_neq [simp]: "backslash \<noteq> quote" "quote \<noteq> backslash"
  by (simp_all add: quote_def backslash_def)

lemma lex_string_backslash:
  "lex_escape None y = Some ([c], None, 0, x) \<Longrightarrow>
     lex_string None 0 (backslash # y) = map_option (\<lambda>(t, r). (c # t, r)) (lex_string None 0 x)"
  by (simp add: lex_next_def)

lemma lex_escape_short:
  "unescape1 u = Some c \<Longrightarrow> u \<noteq> CHR ''u'' \<Longrightarrow> lex_escape None (u # x) = Some ([c], None, 0, x)"
  by (simp add: lex_escape_def)

lemmas escape_defs = escape_ascii_def unescape1_def quote_def backslash_def

lemma escape_ascii_cases:
  obtains (short) u where "escape_ascii c = [backslash, u]" "unescape1 u = Some c" "u \<noteq> CHR ''u''"
  | (unicode) "escape_ascii c = u_escape (code c)"
  | (plain) "escape_ascii c = [c]" "c \<noteq> quote" "c \<noteq> backslash" "\<not> code c < 0x20"
proof -
  let ?special = "{quote, backslash, CHR 0x08, CHR 0x0C, CHR 0x0A, CHR 0x0D, CHR 0x09}"
  let ?u = "code c < 0x20 \<or> c = CHR ''<'' \<or> c = CHR ''>'' \<or> c = CHR ''&''"
  consider "c = quote \<or> c = backslash" | "c = CHR 0x08" | "c = CHR 0x0C" | "c = CHR 0x0A"
    | "c = CHR 0x0D" | "c = CHR 0x09" | (u) "c \<notin> ?special" "?u" | (p) "c \<notin> ?special" "\<not> ?u"
    by blast
  then show thesis
  proof cases
    case 1
    show thesis by (rule short [of c]) (use 1 in \<open>auto simp: escape_defs\<close>)
  next
    case 2
    show thesis by (rule short [of "CHR ''b''"]) (simp_all add: 2 escape_defs)
  next
    case 3
    show thesis by (rule short [of "CHR ''f''"]) (simp_all add: 3 escape_defs)
  next
    case 4
    show thesis by (rule short [of "CHR ''n''"]) (simp_all add: 4 escape_defs)
  next
    case 5
    show thesis by (rule short [of "CHR ''r''"]) (simp_all add: 5 escape_defs)
  next
    case 6
    show thesis by (rule short [of "CHR ''t''"]) (simp_all add: 6 escape_defs)
  next
    case u
    show thesis by (rule unicode) (use u in \<open>simp add: escape_ascii_def\<close>)
  next
    case p
    show thesis by (rule plain) (use p in \<open>simp_all add: escape_ascii_def\<close>)
  qed
qed

lemma lex_string_escape_ascii:
  assumes "code c < 0x80"
  shows "lex_string None 0 (escape_ascii c @ x) = map_option (\<lambda>(t, r). (c # t, r)) (lex_string None 0 x)"
proof (cases rule: escape_ascii_cases [of c])
  case (short u)
  then show ?thesis by (simp add: lex_string_backslash lex_escape_short del: lex_string.simps)
next
  case unicode
  then have "escape_ascii c @ x = backslash # (tl (u_escape (code c)) @ x)"
    by (simp add: u_escape_def)
  with assms show ?thesis
    by (simp only: lex_string_backslash lex_escape_u)
next
  case plain
  with assms show ?thesis by (simp add: lex_next_def)
qed

lemma lex_string_escape_loop:
  "ascii s \<Longrightarrow> lex_string None 0 (escape_loop 0 s @ quote # x) = Some (s, x)"
  by (induction s) (auto simp: ascii_def lex_string_escape_ascii lex_string.simps(2) [of None 0 quote]
      simp del: lex_string.simps)

lemma takeWhile_num: "list_all P n \<Longrightarrow> x = [] \<or> \<not> P (hd x) \<Longrightarrow> takeWhile P (n @ x) = n"
  by (induction n) (auto simp: list_all_iff takeWhile_eq_Nil_iff)

lemma dropWhile_num: "list_all P n \<Longrightarrow> x = [] \<or> \<not> P (hd x) \<Longrightarrow> dropWhile P (n @ x) = x"
  by (induction n) (auto simp: list_all_iff dropWhile_eq_self_iff)

lemma num_char_other:
  assumes "is_num_char c"
  shows "\<not> is_space c" "c \<notin> {CHR ''{'', CHR ''}'', CHR ''['', CHR '']'', CHR '':'', CHR '','', quote,
    CHR ''t'', CHR ''f'', CHR ''n''}"
  using assms by (auto simp: is_num_char_def is_space_def is_digit_def code_def quote_def)

lemma lex_token:
  assumes "token_ok t"
    and "\<And>n. t = TNum n \<Longrightarrow> x = [] \<or> \<not> is_num_char (hd x)"
  shows "lex (token_text t @ x) = map_option ((#) t) (lex x)"
proof (cases t)
  case (TNum n)
  with assms obtain c n' where n: "n = c # n'" "valid_number n" "list_all is_num_char n"
    by (cases n) auto
  have x: "x = [] \<or> \<not> is_num_char (hd x)" using assms(2) TNum by blast
  have tw: "takeWhile is_num_char (c # n' @ x) = c # n'" "dropWhile is_num_char (n' @ x) = x"
    using takeWhile_num [of is_num_char n x] dropWhile_num [of is_num_char n' x] n x by auto
  have "is_num_char c" using n by simp
  note c = num_char_other [OF this]
  show ?thesis
    using n tw c by (simp add: TNum)
next
  case (TStr s)
  with assms have "ascii s" by simp
  moreover have "\<not> is_space quote" "quote \<notin> {CHR ''{'', CHR ''}'', CHR ''['', CHR '']'', CHR '':'', CHR '',''}"
    by (simp_all add: is_space_def quote_def)
  ultimately show ?thesis
    by (simp add: TStr print_string_def lex_string_escape_loop del: lex_string.simps)
qed (simp_all add: is_space_def quote_def)

lemma lex_tokens:
  assumes "list_all token_ok ts" and "nums_delimited ts"
  shows "lex (concat (map token_text ts)) = Some ts"
  using assms
proof (induction ts)
  case (Cons t ts)
  have hd: "concat (map token_text ts) = [] \<or> \<not> is_num_char (hd (concat (map token_text ts)))"
    if "t = TNum n" for n
    using Cons.prems(2) that
    by (cases ts) (auto simp: is_num_char_def is_digit_def code_def elim!: is_punct.elims)
  show ?case
    using Cons lex_token [of t "concat (map token_text ts)", OF _ hd] by simp
qed simp

lemma nums_delimited_append:
  "nums_delimited ts \<Longrightarrow> nums_delimited us \<Longrightarrow> us = [] \<or> is_punct (hd us) \<Longrightarrow> nums_delimited (ts @ us)"
  by (induction ts) (auto split: token.splits list.splits)

lemma nums_delimited_join:
  "\<forall>ts \<in> set tss. nums_delimited ts \<Longrightarrow> nums_delimited (join_tokens tss)"
  by (induction tss rule: join_tokens.induct) (auto intro!: nums_delimited_append)

lemma nums_delimited_tokens_of: "nums_delimited (tokens_of v)"
proof (induction v)
  case (JArr vs)
  then have "nums_delimited (join_tokens (map tokens_of vs))"
    by (intro nums_delimited_join) auto
  then have "nums_delimited (join_tokens (map tokens_of vs) @ [TRBrack])"
    by (intro nums_delimited_append) auto
  then show ?case by simp
next
  case (JObj ms)
  then have "nums_delimited (join_tokens (map (\<lambda>(k, v). TStr k # TColon # tokens_of v) ms))"
    by (intro nums_delimited_join) (auto intro: snds.intros)
  then have "nums_delimited (join_tokens (map (\<lambda>(k, v). TStr k # TColon # tokens_of v) ms) @ [TRBrace])"
    by (intro nums_delimited_append) auto
  then show ?case by simp
qed auto

lemma token_ok_join: "\<forall>ts \<in> set tss. list_all token_ok ts \<Longrightarrow> list_all token_ok (join_tokens tss)"
  by (induction tss rule: join_tokens.induct) auto

lemma token_ok_tokens_of: "json_ok v \<Longrightarrow> list_all token_ok (tokens_of v)"
proof (induction v)
  case (JArr vs)
  then show ?case by (auto intro!: token_ok_join)
next
  case (JObj ms)
  then show ?case by (fastforce intro!: token_ok_join intro: snds.intros)
qed auto

theorem unmarshal_marshal: "json_ok v \<Longrightarrow> unmarshal (marshal v) = Some v"
  by (simp add: unmarshal_def marshal_def lex_tokens token_ok_tokens_of nums_delimited_tokens_of
      parse_tokens_of)

lemma is_digit_char_of_digit: "d < 10 \<Longrightarrow> is_digit (char_of_digit d)"
  by (simp add: is_digit_def char_of_digit_def)

section \<open>Storing a value in a Go variable\<close>

text \<open>
  A member name selects the struct field with that tag or, failing that, one whose tag differs only
  in case. The first type mismatch is remembered and reported at the end; the other members are
  still stored. \<open>null\<close> leaves the variable as it is.
\<close>

fun fold_name :: "string \<Rightarrow> string" where
  "fold_name [] = []"
| "fold_name (c # s) = (if 97 \<le> code c \<and> code c \<le> 122 then char_of (code c - 32) else c) # fold_name s"

definition find_field :: "string list \<Rightarrow> string \<Rightarrow> string option" where
  "find_field names key =
     (if key \<in> set names then Some key else find (\<lambda>n. fold_name n = fold_name key) names)"

fun store_members ::
  "string list \<Rightarrow> (string \<Rightarrow> json \<Rightarrow> 'r \<Rightarrow> 'r option) \<Rightarrow> (string \<times> json) list \<Rightarrow> 'r \<times> bool \<Rightarrow> 'r \<times> bool"
where
  "store_members names store [] acc = acc"
| "store_members names store ((k, v) # ms) (r, err) =
     store_members names store ms
       (case find_field names k of
          None \<Rightarrow> (r, err)
        | Some f \<Rightarrow> (case store f v r of Some r' \<Rightarrow> (r', err) | None \<Rightarrow> (r, True)))"

definition store_struct ::
  "string list \<Rightarrow> (string \<Rightarrow> json \<Rightarrow> 'r \<Rightarrow> 'r option) \<Rightarrow> json \<Rightarrow> 'r \<Rightarrow> 'r option" where
  "store_struct names store j r =
     (case j of
        JObj ms \<Rightarrow> (case store_members names store ms (r, False) of (r', err) \<Rightarrow> if err then None else Some r')
      | JNull \<Rightarrow> Some r
      | _ \<Rightarrow> None)"

definition store_int64 :: "json \<Rightarrow> (int \<Rightarrow> 'r) \<Rightarrow> 'r \<Rightarrow> 'r option" where
  "store_int64 j upd r =
     (case j of
        JNum n \<Rightarrow> (case parse_int n of (i, None) \<Rightarrow> Some (upd i) | _ \<Rightarrow> None)
      | JNull \<Rightarrow> Some r
      | _ \<Rightarrow> None)"

definition store_string :: "json \<Rightarrow> (string \<Rightarrow> 'r) \<Rightarrow> 'r \<Rightarrow> 'r option" where
  "store_string j upd r = (case j of JStr s \<Rightarrow> Some (upd s) | JNull \<Rightarrow> Some r | _ \<Rightarrow> None)"

definition store_bool :: "json \<Rightarrow> (bool \<Rightarrow> 'r) \<Rightarrow> 'r \<Rightarrow> 'r option" where
  "store_bool j upd r = (case j of JBool b \<Rightarrow> Some (upd b) | JNull \<Rightarrow> Some r | _ \<Rightarrow> None)"

fun strings_of :: "json list \<Rightarrow> string list option" where
  "strings_of [] = Some []"
| "strings_of (JStr s # js) = map_option ((#) s) (strings_of js)"
| "strings_of (JNull # js) = map_option ((#) '''') (strings_of js)"
| "strings_of (_ # js) = None"

definition store_strings :: "json \<Rightarrow> (string list \<Rightarrow> 'r) \<Rightarrow> 'r \<Rightarrow> 'r option" where
  "store_strings j upd r =
     (case j of JArr js \<Rightarrow> map_option upd (strings_of js) | JNull \<Rightarrow> Some (upd []) | _ \<Rightarrow> None)"

lemma find_field_exact [simp]: "k \<in> set names \<Longrightarrow> find_field names k = Some k"
  by (simp add: find_field_def)

lemma store_int64_format [simp]:
  "- (2 ^ 63) \<le> i \<Longrightarrow> i < 2 ^ 63 \<Longrightarrow> store_int64 (JNum (format_int i)) upd r = Some (upd i)"
  by (simp add: store_int64_def parse_int_format_int)

subsection \<open>Integer literals are well-formed numbers\<close>

lemma format_uint_digits: "list_all is_digit (format_uint n)"
  by (auto simp: format_uint_def list_all_iff is_digit_char_of_digit dest: digits_of_nat_less)

lemma hd_digits_of_nat: "0 < n \<Longrightarrow> hd (digits_of_nat n) \<noteq> 0"
proof (induction n rule: digits_of_nat.induct)
  case (1 n)
  then show ?case
    by (cases "n < 10") (simp_all add: digits_of_nat.simps [of n] div_greater_zero_iff)
qed

lemma valid_int_part_format_uint: "valid_int_part (format_uint n)"
proof (cases "n = 0")
  case True
  then show ?thesis
    by (simp add: valid_int_part_def all_digits1_def format_uint_def digits_of_nat.simps
        is_digit_char_of_digit)
next
  case False
  then have "hd (digits_of_nat n) \<noteq> 0" by (simp add: hd_digits_of_nat)
  moreover have "hd (digits_of_nat n) < 10" by (rule digits_of_nat_less [of _ n]) simp
  ultimately have "hd (format_uint n) \<noteq> CHR ''0''"
    using digit_of_char_of_digit [of "hd (digits_of_nat n)"]
    by (auto simp: format_uint_def hd_map digit_of_char_def)
  then show ?thesis
    using format_uint_digits [of n] by (simp add: valid_int_part_def all_digits1_def)
qed

lemma takeWhile_all: "list_all P s \<Longrightarrow> takeWhile P s = s"
  by (induction s) auto

lemma dropWhile_all: "list_all P s \<Longrightarrow> dropWhile P s = []"
  by (induction s) auto

lemma valid_number_format_int: "valid_number (format_int i)"
proof -
  have tw: "takeWhile is_digit (format_uint n) = format_uint n"
    and dw: "dropWhile is_digit (format_uint n) = []" for n
    using format_uint_digits [of n] by (rule takeWhile_all, rule dropWhile_all)
  have "valid_frac_exp []" by (simp add: valid_frac_exp_def valid_exp_def)
  then show ?thesis
    by (simp add: valid_number_def format_int_def Let_def tw dw valid_int_part_format_uint hd_format_uint)
qed

lemma json_ok_format_int [simp]: "json_ok (JNum (format_int i))"
proof -
  have "list_all is_num_char (format_uint n)" for n
    using format_uint_digits [of n] by (auto simp: list_all_iff is_num_char_def)
  then have "list_all is_num_char (format_int i)" "format_int i \<noteq> []"
    by (simp_all add: format_int_def is_num_char_def)
  then show ?thesis
    by (simp add: valid_number_format_int)
qed

end
