(* ===== verification/Dgw_Frames.thy ===== *)
theory Dgw_Frames
  imports Go_Json
begin

text \<open>
  The frames of the DGW websocket (\<^verbatim>\<open>pkg/messagix/dgw/frames.go\<close>) and the loop of
  \<^verbatim>\<open>dgwsocket.go\<close> that cuts an incoming websocket message into frames. Lengths are kept as 16-bit
  words, because the Go code adds to them before widening; a slice expression whose upper bound is
  below its lower bound panics.
\<close>

section \<open>Model\<close>

type_synonym FrameType = byte
type_synonym StreamID = uint16

definition FrameType_DRAIN :: FrameType where "FrameType_DRAIN = 0x03"
definition FrameType_PING :: FrameType where "FrameType_PING = 0x09"
definition FrameType_PONG :: FrameType where "FrameType_PONG = 0x0a"
definition FrameType_ACK :: FrameType where "FrameType_ACK = 0x0c"
definition FrameType_DATA :: FrameType where "FrameType_DATA = 0x0d"
definition FrameType_CLOSE :: FrameType where "FrameType_CLOSE = 0x0e"
definition FrameType_OPEN :: FrameType where "FrameType_OPEN = 0x0f"

definition FrameType_Marshal :: "FrameType \<Rightarrow> bytes" where
  "FrameType_Marshal ft = [ft]"

definition Stream_FALCO :: StreamID where "Stream_FALCO = 0x00"
definition Stream_TYPING :: StreamID where "Stream_TYPING = 0x01"
definition Stream_PRESENCE :: StreamID where "Stream_PRESENCE = 0x02"

text \<open>\<open>binary.LittleEndian.AppendUint16\<close> and \<open>binary.LittleEndian.Uint16\<close>.\<close>

definition le16 :: "uint16 \<Rightarrow> bytes" where
  "le16 w = le_of 2 (unat w)"

definition from_le16 :: "bytes \<Rightarrow> uint16" where
  "from_le16 b = word_of_nat (le_to (take 2 b))"

record OpenFrameParams =
  XRSSMethod :: string
  XRSSDocID :: string
  XRSSRoutingHint :: string
  XRSBody :: string
  XRSAcceptAck :: string
  XRSSReferer :: string
  StatusCode :: int

record DataFrame =
  df_StreamID :: StreamID
  df_Payload :: bytes
  df_RequiresAck :: bool
  df_AckID :: uint16

record AckFrame =
  af_StreamID :: StreamID
  af_AckID :: uint16

record OpenFrame =
  of_StreamID :: StreamID
  of_Parameters :: OpenFrameParams
  of_Raw :: bytes

datatype Frame = Unsupported bytes | Ping | Pong | Data DataFrame | Ack AckFrame | Open OpenFrame

datatype frame_error = TooShort string | UnnaturalAck | BadJSON

text \<open>The outcome of \<open>Unmarshal\<close>: the frame and the bytes left, an error with the bytes it returns, or a panic.\<close>

datatype 'a unmarshalled = Done 'a bytes | Fail frame_error bytes | Panic

definition go_slice :: "bytes \<Rightarrow> nat \<Rightarrow> nat \<Rightarrow> bytes option" where
  "go_slice b lo hi = (if lo \<le> hi \<and> hi \<le> length b then Some (take (hi - lo) (drop lo b)) else None)"

subsection \<open>Data frames\<close>

definition DataFrame_Marshal :: "DataFrame \<Rightarrow> bytes" where
  "DataFrame_Marshal f =
     (let b = FrameType_Marshal FrameType_DATA @ le16 (df_StreamID f)
                @ le16 (word_of_nat (length (df_Payload f) + 2)) @ [0x00] @ le16 (df_AckID f);
          b1 = b[length b - 1 := (b ! (length b - 1)) AND 0x7F];
          b2 = (if df_RequiresAck f then b1[length b1 - 1 := (b1 ! (length b1 - 1)) OR 0x80] else b1)
      in b2 @ df_Payload f)"

definition DataFrame_Unmarshal :: "bytes \<Rightarrow> DataFrame unmarshalled" where
  "DataFrame_Unmarshal b =
     (if length b < 8 then Fail (TooShort ''DataFrame'') []
      else
        let streamID = from_le16 (drop 1 b);
            payloadLength = from_le16 (drop 3 b) - 2;
            ackID = from_le16 (drop 6 b) AND 0x7FFF;
            requiresAck = (b ! 7) AND 0x80 > 0;
            stop = unat (8 + payloadLength)
        in if length b < stop then Fail (TooShort ''DataFrame payload'') []
           else
             (case go_slice b 8 stop of
                None \<Rightarrow> Panic
              | Some payload \<Rightarrow>
                  Done \<lparr>df_StreamID = streamID, df_Payload = payload, df_RequiresAck = requiresAck,
                        df_AckID = ackID\<rparr> (drop stop b)))"

subsection \<open>Acknowledgements\<close>

definition AckFrame_Marshal :: "AckFrame \<Rightarrow> bytes" where
  "AckFrame_Marshal f =
     FrameType_Marshal FrameType_ACK @ le16 (af_StreamID f) @ le16 2 @ [0x00] @ le16 (af_AckID f)"

definition AckFrame_Unmarshal :: "bytes \<Rightarrow> AckFrame unmarshalled" where
  "AckFrame_Unmarshal b =
     (if length b < 8 then Fail (TooShort ''AckFrame'') []
      else
        let streamID = from_le16 (drop 1 b);
            payloadLength = from_le16 (drop 3 b)
        in if payloadLength \<noteq> 2 then Fail UnnaturalAck []
           else Done \<lparr>af_StreamID = streamID, af_AckID = from_le16 (drop 6 b)\<rparr>
                  (drop (unat (6 + payloadLength)) b))"

subsection \<open>Stream opening\<close>

definition omitempty :: "string \<Rightarrow> string \<Rightarrow> (string \<times> json) list" where
  "omitempty k s = (if s = '''' then [] else [(k, JStr s)])"

definition OpenFrameParams_json :: "OpenFrameParams \<Rightarrow> json" where
  "OpenFrameParams_json p = JObj
     (omitempty ''x-dgw-app-XRSS-method'' (XRSSMethod p)
      @ omitempty ''x-dgw-app-XRSS-doc_id'' (XRSSDocID p)
      @ omitempty ''x-dgw-app-XRSS-routing_hint'' (XRSSRoutingHint p)
      @ omitempty ''x-dgw-app-xrs-body'' (XRSBody p)
      @ omitempty ''x-dgw-app-XRS-Accept-Ack'' (XRSAcceptAck p)
      @ omitempty ''x-dgw-app-XRSS-http_referer'' (XRSSReferer p)
      @ (if StatusCode p = 0 then [] else [(''code'', JNum (format_int (StatusCode p)))]))"

definition OpenFrameParams_names :: "string list" where
  "OpenFrameParams_names =
     [''x-dgw-app-XRSS-method'', ''x-dgw-app-XRSS-doc_id'', ''x-dgw-app-XRSS-routing_hint'',
      ''x-dgw-app-xrs-body'', ''x-dgw-app-XRS-Accept-Ack'', ''x-dgw-app-XRSS-http_referer'', ''code'']"

definition OpenFrameParams_store :: "string \<Rightarrow> json \<Rightarrow> OpenFrameParams \<Rightarrow> OpenFrameParams option" where
  "OpenFrameParams_store k v p =
     (if k = ''x-dgw-app-XRSS-method'' then store_string v (\<lambda>s. p\<lparr>XRSSMethod := s\<rparr>) p
      else if k = ''x-dgw-app-XRSS-doc_id'' then store_string v (\<lambda>s. p\<lparr>XRSSDocID := s\<rparr>) p
      else if k = ''x-dgw-app-XRSS-routing_hint'' then store_string v (\<lambda>s. p\<lparr>XRSSRoutingHint := s\<rparr>) p
      else if k = ''x-dgw-app-xrs-body'' then store_string v (\<lambda>s. p\<lparr>XRSBody := s\<rparr>) p
      else if k = ''x-dgw-app-XRS-Accept-Ack'' then store_string v (\<lambda>s. p\<lparr>XRSAcceptAck := s\<rparr>) p
      else if k = ''x-dgw-app-XRSS-http_referer'' then store_string v (\<lambda>s. p\<lparr>XRSSReferer := s\<rparr>) p
      else if k = ''code'' then store_int64 v (\<lambda>i. p\<lparr>StatusCode := i\<rparr>) p
      else Some p)"

definition empty_params :: OpenFrameParams where
  "empty_params = \<lparr>XRSSMethod = '''', XRSSDocID = '''', XRSSRoutingHint = '''', XRSBody = '''',
     XRSAcceptAck = '''', XRSSReferer = '''', StatusCode = 0\<rparr>"

definition OpenFrameParams_unmarshal :: "bytes \<Rightarrow> OpenFrameParams option" where
  "OpenFrameParams_unmarshal b =
     (case unmarshal (string_of_bytes b) of
        None \<Rightarrow> None
      | Some j \<Rightarrow> store_struct OpenFrameParams_names OpenFrameParams_store j empty_params)"

definition OpenFrame_Marshal :: "OpenFrame \<Rightarrow> bytes" where
  "OpenFrame_Marshal f =
     (let payload = bytes_of_string (marshal (OpenFrameParams_json (of_Parameters f)))
      in FrameType_Marshal FrameType_OPEN @ le16 (of_StreamID f) @ le16 (word_of_nat (length payload))
           @ [0x00] @ payload)"

definition OpenFrame_Unmarshal :: "bytes \<Rightarrow> OpenFrame unmarshalled" where
  "OpenFrame_Unmarshal b =
     (if length b < 6 then Fail (TooShort ''OpenFrame'') []
      else
        let streamID = from_le16 (drop 1 b);
            payloadLength = from_le16 (drop 3 b);
            stop = unat (6 + payloadLength)
        in if length b < stop then Fail (TooShort ''OpenFrame payload'') []
           else
             (case go_slice b 6 stop of
                None \<Rightarrow> Panic
              | Some payload \<Rightarrow>
                  (case OpenFrameParams_unmarshal payload of
                     None \<Rightarrow> Fail BadJSON b
                   | Some params \<Rightarrow>
                       Done \<lparr>of_StreamID = streamID, of_Parameters = params, of_Raw = b\<rparr> (drop stop b))))"

subsection \<open>The frame interface\<close>

fun Frame_Marshal :: "Frame \<Rightarrow> bytes" where
  "Frame_Marshal (Unsupported raw) = raw"
| "Frame_Marshal Ping = FrameType_Marshal FrameType_PING"
| "Frame_Marshal Pong = FrameType_Marshal FrameType_PONG"
| "Frame_Marshal (Data f) = DataFrame_Marshal f"
| "Frame_Marshal (Ack f) = AckFrame_Marshal f"
| "Frame_Marshal (Open f) = OpenFrame_Marshal f"

text \<open>\<open>CheckFrameType\<close> picks the frame by its first byte; its \<open>Unmarshal\<close> then reads the message.\<close>

definition Frame_Unmarshal :: "bytes \<Rightarrow> Frame unmarshalled" where
  "Frame_Unmarshal b =
     (case b of
        [] \<Rightarrow> Panic
      | t # _ \<Rightarrow>
          if t = FrameType_PING then Done Ping (drop 1 b)
          else if t = FrameType_PONG then Done Pong (drop 1 b)
          else if t = FrameType_ACK then map_unmarshalled Ack (AckFrame_Unmarshal b)
          else if t = FrameType_DATA then map_unmarshalled Data (DataFrame_Unmarshal b)
          else if t = FrameType_OPEN then map_unmarshalled Open (OpenFrame_Unmarshal b)
          else Done (Unsupported b) [])"

definition MayHaveLostData :: "Frame \<Rightarrow> bool" where
  "MayHaveLostData f \<longleftrightarrow> (case f of Unsupported _ \<Rightarrow> True | _ \<Rightarrow> False)"

subsection \<open>Cutting a websocket message into frames\<close>

datatype msg_type = TextMessage | BinaryMessage | OtherMessage

datatype loop_end = Consumed | Crashed

text \<open>
  The loop \<^verbatim>\<open>for len(data) > 0\<close> of the reading goroutine: the frames it hands to the processing
  goroutine, and whether it ended or panicked. \<open>None\<close> is a loop that never ends.
\<close>

partial_function (option) readMessage :: "msg_type \<Rightarrow> bytes \<Rightarrow> (Frame list \<times> loop_end) option" where
  "readMessage mt data =
     (if data = [] then Some ([], Consumed)
      else if mt = BinaryMessage then
        (case Frame_Unmarshal data of
           Panic \<Rightarrow> Some ([], Crashed)
         | Fail e data' \<Rightarrow> readMessage mt data'
         | Done f data' \<Rightarrow>
             Option.bind (readMessage mt data') (\<lambda>(fs, e). Some (f # fs, e)))
      else readMessage mt data)"

subsection \<open>Which frames the format carries\<close>

definition params_ok :: "OpenFrameParams \<Rightarrow> bool" where
  "params_ok p \<longleftrightarrow>
     ascii (XRSSMethod p) \<and> ascii (XRSSDocID p) \<and> ascii (XRSSRoutingHint p) \<and> ascii (XRSBody p) \<and>
     ascii (XRSAcceptAck p) \<and> ascii (XRSSReferer p) \<and> - (2 ^ 63) \<le> StatusCode p \<and> StatusCode p < 2 ^ 63"

definition DataFrame_wf :: "DataFrame \<Rightarrow> bool" where
  "DataFrame_wf f \<longleftrightarrow> length (df_Payload f) < 65528 \<and> unat (df_AckID f) < 2 ^ 15"

definition OpenFrame_wf :: "OpenFrame \<Rightarrow> bool" where
  "OpenFrame_wf f \<longleftrightarrow> params_ok (of_Parameters f) \<and>
     length (marshal (OpenFrameParams_json (of_Parameters f))) < 65530"

text \<open>The bytes of an opening frame are kept in the frame itself when it is read.\<close>

fun with_raw :: "bytes \<Rightarrow> Frame \<Rightarrow> Frame" where
  "with_raw b (Open f) = Open (f\<lparr>of_Raw := b\<rparr>)"
| "with_raw b f = f"

fun Frame_wf :: "Frame \<Rightarrow> bool" where
  "Frame_wf (Unsupported _) \<longleftrightarrow> False"
| "Frame_wf (Data f) \<longleftrightarrow> DataFrame_wf f"
| "Frame_wf (Open f) \<longleftrightarrow> OpenFrame_wf f"
| "Frame_wf _ \<longleftrightarrow> True"

text \<open>What the reader makes of a message that is the concatenation of frames.\<close>

fun frames_read :: "Frame list \<Rightarrow> Frame list" where
  "frames_read [] = []"
| "frames_read (f # fs) = with_raw (concat (map Frame_Marshal (f # fs))) f # frames_read fs"

lemmas frame_types = FrameType_DRAIN_def FrameType_PING_def FrameType_PONG_def FrameType_ACK_def
  FrameType_DATA_def FrameType_CLOSE_def FrameType_OPEN_def FrameType_Marshal_def

section \<open>Lemmas\<close>

subsection \<open>Sixteen-bit fields\<close>

lemma le16_bytes: "le16 w = [word_of_nat (unat w), word_of_nat (unat w div 256)]"
  by (simp add: le16_def le_of_def numeral_2_eq_2)

lemma length_le16 [simp]: "length (le16 w) = 2"
  by (simp add: le16_def)

lemma unat16_less [simp]: "unat (w :: uint16) < 65536"
  using unsigned_less [of w] by simp

lemma from_le16_le16 [simp]: "from_le16 (le16 w @ rest) = w"
  by (simp add: from_le16_def le16_def le_to_le_of)

lemma from_le16_two: "from_le16 (a # b # rest) = word_of_nat (unat a + 256 * unat b)"
  by (simp add: from_le16_def le_to_def be_to_def)

lemma byte_high_bit:
  assumes "n < 128"
  shows "(word_of_nat n :: byte) AND 0x7F = word_of_nat n"
    and "(word_of_nat n :: byte) OR 0x80 = word_of_nat (n + 128)"
    and "(word_of_nat n :: byte) AND 0x80 = 0"
    and "(word_of_nat (n + 128) :: byte) AND 0x80 = 0x80"
proof -
  have "list_all (\<lambda>n. (word_of_nat n :: byte) AND 0x7F = word_of_nat n \<and>
      (word_of_nat n :: byte) OR 0x80 = word_of_nat (n + 128) \<and> (word_of_nat n :: byte) AND 0x80 = 0 \<and>
      (word_of_nat (n + 128) :: byte) AND 0x80 = 0x80) [0..<128]"
    by code_simp
  with assms show "(word_of_nat n :: byte) AND 0x7F = word_of_nat n"
    and "(word_of_nat n :: byte) OR 0x80 = word_of_nat (n + 128)"
    and "(word_of_nat n :: byte) AND 0x80 = 0"
    and "(word_of_nat (n + 128) :: byte) AND 0x80 = 0x80"
    by (simp_all add: list_all_iff)
qed

lemma low15:
  assumes "a < 32768"
  shows "(word_of_nat (a + 32768 * k) :: uint16) AND 0x7FFF = word_of_nat a"
proof -
  have "(word_of_nat (a + 32768 * k) :: uint16) AND mask 15 = take_bit 15 (word_of_nat (a + 32768 * k))"
    by (simp add: take_bit_eq_mask)
  also have "\<dots> = word_of_nat (take_bit 15 (a + 32768 * k))"
    by (rule take_bit_of_nat)
  also have "take_bit 15 (a + 32768 * k) = a" using assms by (simp add: take_bit_eq_mod)
  finally show ?thesis by (simp add: mask_eq_exp_minus_1)
qed

subsection \<open>Data and acknowledgement frames\<close>

text \<open>The acknowledgement field: fifteen bits of number below the flag.\<close>

definition ack_bytes :: "uint16 \<Rightarrow> bool \<Rightarrow> bytes" where
  "ack_bytes a flag = [word_of_nat (unat a), word_of_nat (unat a div 256 + (if flag then 128 else 0))]"

lemma DataFrame_Marshal_layout:
  assumes "unat (df_AckID f) < 2 ^ 15"
  shows "DataFrame_Marshal f = FrameType_DATA # le16 (df_StreamID f)
    @ le16 (word_of_nat (length (df_Payload f) + 2)) @ 0 # ack_bytes (df_AckID f) (df_RequiresAck f) @ df_Payload f"
proof -
  have "unat (df_AckID f) div 256 < 128" using assms by (simp add: less_mult_imp_div_less)
  note hb = byte_high_bit [OF this]
  show ?thesis
    using hb by (simp add: DataFrame_Marshal_def le16_bytes ack_bytes_def frame_types Let_def)
qed

lemma from_le16_ack_bytes:
  assumes "unat a < 2 ^ 15"
  shows "from_le16 (ack_bytes a flag @ rest) AND 0x7FFF = a"
    and "ack_bytes a flag ! Suc 0 AND 0x80 > 0 \<longleftrightarrow> flag"
proof -
  have d: "unat a div 256 < 128" using assms by (simp add: less_mult_imp_div_less)
  let ?h = "unat a div 256 + (if flag then 128 else 0)"
  have lo: "unat (word_of_nat (unat a) :: byte) = unat a mod 256"
    by (simp only: unat_of_nat) simp
  have hi: "unat (word_of_nat ?h :: byte) = ?h"
    using d by (simp only: unat_of_nat) simp
  have sum: "unat a mod 256 + 256 * ?h = unat a + 32768 * (if flag then 1 else 0)"
    by simp
  have "from_le16 (ack_bytes a flag @ rest) = word_of_nat (unat a + 32768 * (if flag then 1 else 0))"
    by (simp only: ack_bytes_def append.simps from_le16_two lo hi sum)
  then show "from_le16 (ack_bytes a flag @ rest) AND 0x7FFF = a"
    using assms low15 [of "unat a" "if flag then 1 else 0"] by simp
  show "ack_bytes a flag ! Suc 0 AND 0x80 > 0 \<longleftrightarrow> flag"
    using byte_high_bit(3,4) [OF d] by (simp add: ack_bytes_def)
qed

lemma DataFrame_roundtrip:
  assumes "DataFrame_wf f"
  shows "DataFrame_Unmarshal (DataFrame_Marshal f @ rest) = Done f rest"
proof -
  from assms have len: "length (df_Payload f) < 65528" and ack: "unat (df_AckID f) < 2 ^ 15"
    by (simp_all add: DataFrame_wf_def)
  let ?p = "df_Payload f" and ?n = "word_of_nat (length (df_Payload f) + 2) :: uint16"
  define b where "b = DataFrame_Marshal f @ rest"
  have layout: "b = FrameType_DATA # le16 (df_StreamID f) @ le16 ?n @ 0
      # ack_bytes (df_AckID f) (df_RequiresAck f) @ ?p @ rest"
    using ack by (simp add: b_def DataFrame_Marshal_layout)
  have la: "length (ack_bytes (df_AckID f) (df_RequiresAck f)) = 2" by (simp add: ack_bytes_def)
  have d1: "drop 1 b = le16 (df_StreamID f) @ le16 ?n @ 0
      # ack_bytes (df_AckID f) (df_RequiresAck f) @ ?p @ rest"
    and d3: "drop 3 b = le16 ?n @ 0 # ack_bytes (df_AckID f) (df_RequiresAck f) @ ?p @ rest"
    and d6: "drop 6 b = ack_bytes (df_AckID f) (df_RequiresAck f) @ ?p @ rest"
    and d8: "drop 8 b = ?p @ rest"
    and n7: "b ! 7 = ack_bytes (df_AckID f) (df_RequiresAck f) ! Suc 0"
    by (simp_all add: layout le16_bytes ack_bytes_def)
  have pl: "?n - 2 = word_of_nat (length ?p)" by simp
  have stop: "unat (8 + (?n - 2)) = 8 + length ?p"
    using len unfolding pl by (simp add: unat_word_ariths unat_of_nat)
  have lb: "length b = 8 + length ?p + length rest" by (simp add: layout la)
  have "drop (8 + length ?p) b = drop (length ?p) (drop 8 b)" by (simp add: add.commute)
  then have rest: "drop (8 + length ?p) b = rest" by (simp add: d8)
  have slice: "go_slice b 8 (8 + length ?p) = Some ?p"
    by (simp add: go_slice_def lb d8)
  have "DataFrame_Unmarshal b = Done f rest"
    unfolding DataFrame_Unmarshal_def Let_def d1 d3 d6 n7 from_le16_le16 stop slice rest
      from_le16_ack_bytes [OF ack] by (simp add: lb)
  then show ?thesis by (simp only: b_def)
qed

lemma AckFrame_roundtrip: "AckFrame_Unmarshal (AckFrame_Marshal f @ rest) = Done f rest"
proof -
  let ?b = "AckFrame_Marshal f @ rest"
  have layout: "?b = FrameType_ACK # le16 (af_StreamID f) @ le16 2 @ 0 # le16 (af_AckID f) @ rest"
    by (simp add: AckFrame_Marshal_def FrameType_Marshal_def)
  have d1: "drop 1 ?b = le16 (af_StreamID f) @ le16 2 @ 0 # le16 (af_AckID f) @ rest"
    and d3: "drop 3 ?b = le16 2 @ 0 # le16 (af_AckID f) @ rest"
    and d6: "drop 6 ?b = le16 (af_AckID f) @ rest" and d8: "drop 8 ?b = rest"
    by (simp_all add: layout le16_bytes)
  have "length ?b = 8 + length rest" by (simp add: layout)
  then show ?thesis
    unfolding AckFrame_Unmarshal_def Let_def d1 d3 d6 from_le16_le16 using d8 by simp
qed

subsection \<open>Opening frames\<close>

text \<open>Storing the printed members one by one gives the parameters back.\<close>

lemma store_members_append:
  "store_members names st (xs @ ys) acc = store_members names st ys (store_members names st xs acc)"
  by (induction names st xs acc rule: store_members.induct) simp_all

lemma store_omitempty:
  assumes "k \<in> set names" and "\<And>s. st k (JStr s) r = Some (upd s)" and "upd '''' = r"
  shows "store_members names st (omitempty k s) (r, False) = (upd s, False)"
  using assms by (auto simp: omitempty_def)

lemma OpenFrameParams_store_json:
  assumes "params_ok p"
  shows "store_struct OpenFrameParams_names OpenFrameParams_store (OpenFrameParams_json p) empty_params = Some p"
proof -
  have code: "- (2 ^ 63) \<le> StatusCode p" "StatusCode p < 2 ^ 63"
    using assms by (simp_all only: params_ok_def)
  let ?st = "store_members OpenFrameParams_names OpenFrameParams_store"
  define p1 where "p1 = empty_params\<lparr>XRSSMethod := XRSSMethod p\<rparr>"
  define p2 where "p2 = p1\<lparr>XRSSDocID := XRSSDocID p\<rparr>"
  define p3 where "p3 = p2\<lparr>XRSSRoutingHint := XRSSRoutingHint p\<rparr>"
  define p4 where "p4 = p3\<lparr>XRSBody := XRSBody p\<rparr>"
  define p5 where "p5 = p4\<lparr>XRSAcceptAck := XRSAcceptAck p\<rparr>"
  define p6 where "p6 = p5\<lparr>XRSSReferer := XRSSReferer p\<rparr>"
  note ps = p1_def p2_def p3_def p4_def p5_def p6_def empty_params_def
  have "?st (omitempty ''x-dgw-app-XRSS-method'' (XRSSMethod p)) (empty_params, False) = (p1, False)"
    unfolding p1_def by (rule store_omitempty)
      (simp_all add: OpenFrameParams_names_def OpenFrameParams_store_def store_string_def ps)
  moreover have "?st (omitempty ''x-dgw-app-XRSS-doc_id'' (XRSSDocID p)) (p1, False) = (p2, False)"
    unfolding p2_def by (rule store_omitempty)
      (simp_all add: OpenFrameParams_names_def OpenFrameParams_store_def store_string_def ps)
  moreover have "?st (omitempty ''x-dgw-app-XRSS-routing_hint'' (XRSSRoutingHint p)) (p2, False) = (p3, False)"
    unfolding p3_def by (rule store_omitempty)
      (simp_all add: OpenFrameParams_names_def OpenFrameParams_store_def store_string_def ps)
  moreover have "?st (omitempty ''x-dgw-app-xrs-body'' (XRSBody p)) (p3, False) = (p4, False)"
    unfolding p4_def by (rule store_omitempty)
      (simp_all add: OpenFrameParams_names_def OpenFrameParams_store_def store_string_def ps)
  moreover have "?st (omitempty ''x-dgw-app-XRS-Accept-Ack'' (XRSAcceptAck p)) (p4, False) = (p5, False)"
    unfolding p5_def by (rule store_omitempty)
      (simp_all add: OpenFrameParams_names_def OpenFrameParams_store_def store_string_def ps)
  moreover have "?st (omitempty ''x-dgw-app-XRSS-http_referer'' (XRSSReferer p)) (p5, False) = (p6, False)"
    unfolding p6_def by (rule store_omitempty)
      (simp_all add: OpenFrameParams_names_def OpenFrameParams_store_def store_string_def ps)
  moreover have "?st (if StatusCode p = 0 then [] else [(''code'', JNum (format_int (StatusCode p)))]) (p6, False) = (p, False)"
  proof -
    have "store_int64 (JNum (format_int (StatusCode p))) (\<lambda>i. p6\<lparr>StatusCode := i\<rparr>) p6
        = Some (p6\<lparr>StatusCode := StatusCode p\<rparr>)"
      by (rule store_int64_format [OF code])
    moreover have "p6\<lparr>StatusCode := StatusCode p\<rparr> = p" by (cases p) (simp add: ps)
    moreover have "StatusCode p = 0 \<Longrightarrow> p6 = p" by (cases p) (simp add: ps)
    ultimately show ?thesis by (simp add: OpenFrameParams_names_def OpenFrameParams_store_def)
  qed
  ultimately show ?thesis
    by (simp add: store_struct_def OpenFrameParams_json_def store_members_append)
qed

lemma ascii_literal:
  "ascii ''x-dgw-app-XRSS-method''" "ascii ''x-dgw-app-XRSS-doc_id''" "ascii ''x-dgw-app-XRSS-routing_hint''"
  "ascii ''x-dgw-app-xrs-body''" "ascii ''x-dgw-app-XRS-Accept-Ack''" "ascii ''x-dgw-app-XRSS-http_referer''"
  "ascii ''code''"
  by (simp_all add: ascii_def code_def)

lemma json_ok_OpenFrameParams: "params_ok p \<Longrightarrow> json_ok (OpenFrameParams_json p)"
  using json_ok_format_int [of "StatusCode p"]
  by (auto simp: OpenFrameParams_json_def omitempty_def params_ok_def ascii_literal simp del: json_ok_format_int)

lemma OpenFrame_roundtrip:
  assumes "OpenFrame_wf f"
  shows "OpenFrame_Unmarshal (OpenFrame_Marshal f @ rest)
    = Done (f\<lparr>of_Raw := OpenFrame_Marshal f @ rest\<rparr>) rest"
proof -
  let ?js = "marshal (OpenFrameParams_json (of_Parameters f))"
  let ?p = "bytes_of_string ?js" and ?n = "word_of_nat (length ?js) :: uint16"
  from assms have len: "length ?js < 65530" and ok: "params_ok (of_Parameters f)"
    by (simp_all add: OpenFrame_wf_def)
  have params: "OpenFrameParams_unmarshal ?p = Some (of_Parameters f)"
    using ok by (simp add: OpenFrameParams_unmarshal_def unmarshal_marshal json_ok_OpenFrameParams
        OpenFrameParams_store_json)
  define b where "b = OpenFrame_Marshal f @ rest"
  have layout: "b = FrameType_OPEN # le16 (of_StreamID f) @ le16 ?n @ 0 # ?p @ rest"
    by (simp add: b_def OpenFrame_Marshal_def FrameType_Marshal_def Let_def)
  have d1: "drop 1 b = le16 (of_StreamID f) @ le16 ?n @ 0 # ?p @ rest"
    and d3: "drop 3 b = le16 ?n @ 0 # ?p @ rest" and d6: "drop 6 b = ?p @ rest"
    by (simp_all add: layout le16_bytes)
  have stop: "unat (6 + ?n) = 6 + length ?js"
    using len by (simp add: unat_word_ariths unat_of_nat)
  have lb: "length b = 6 + length ?js + length rest" by (simp add: layout)
  have "drop (6 + length ?js) b = drop (length ?js) (drop 6 b)" by (simp add: add.commute)
  then have rest: "drop (6 + length ?js) b = rest" by (simp add: d6)
  have slice: "go_slice b 6 (6 + length ?js) = Some ?p" by (simp add: go_slice_def lb d6)
  have "OpenFrame_Unmarshal b = Done (f\<lparr>of_Raw := b\<rparr>) rest"
    unfolding OpenFrame_Unmarshal_def Let_def d1 d3 from_le16_le16 stop slice rest
    by (simp add: lb params)
  then show ?thesis by (simp only: b_def)
qed

subsection \<open>Any frame, and a whole message\<close>

lemma Frame_roundtrip:
  assumes "Frame_wf f"
  shows "Frame_Unmarshal (Frame_Marshal f @ rest) = Done (with_raw (Frame_Marshal f @ rest) f) rest"
proof (cases f)
  case (Data d)
  with assms have wf: "DataFrame_wf d" by simp
  then obtain t where t: "DataFrame_Marshal d @ rest = FrameType_DATA # t"
    by (simp add: DataFrame_wf_def DataFrame_Marshal_layout)
  show ?thesis
    using DataFrame_roundtrip [OF wf, of rest] by (simp add: Data t Frame_Unmarshal_def frame_types)
next
  case (Ack a)
  obtain t where t: "AckFrame_Marshal a @ rest = FrameType_ACK # t"
    by (simp add: AckFrame_Marshal_def FrameType_Marshal_def)
  show ?thesis
    using AckFrame_roundtrip [of a rest] by (simp add: Ack t Frame_Unmarshal_def frame_types)
next
  case (Open o')
  with assms have "OpenFrame_wf o'" by simp
  note rt = OpenFrame_roundtrip [OF this, of rest]
  obtain t where t: "OpenFrame_Marshal o' @ rest = FrameType_OPEN # t"
    by (simp add: OpenFrame_Marshal_def FrameType_Marshal_def Let_def)
  show ?thesis
    using rt by (simp add: Open t Frame_Unmarshal_def frame_types)
qed (use assms in \<open>simp_all add: Frame_Unmarshal_def frame_types\<close>)

lemma Frame_Marshal_nonempty: "Frame_wf f \<Longrightarrow> Frame_Marshal f \<noteq> []"
  by (cases f) (simp_all add: DataFrame_Marshal_def AckFrame_Marshal_def OpenFrame_Marshal_def
      FrameType_Marshal_def Let_def)

lemma readMessage_frames:
  assumes "list_all Frame_wf fs"
  shows "readMessage BinaryMessage (concat (map Frame_Marshal fs)) = Some (frames_read fs, Consumed)"
  using assms
proof (induction fs)
  case Nil
  then show ?case by (simp add: readMessage.simps)
next
  case (Cons f fs)
  then have "concat (map Frame_Marshal (f # fs)) \<noteq> []" by (simp add: Frame_Marshal_nonempty)
  with Cons Frame_roundtrip [of f "concat (map Frame_Marshal fs)"] show ?case
    by (subst readMessage.simps) simp
qed

subsection \<open>Progress and panics\<close>

definition unmarshal_sum :: "'a unmarshalled \<Rightarrow> frame_error option + 'a \<times> bytes" where
  "unmarshal_sum u =
     (case u of Done x r \<Rightarrow> Inr (x, r) | Fail e _ \<Rightarrow> Inl (Some e) | Panic \<Rightarrow> Inl None)"

interpretation data_frame: wire_codec DataFrame_Marshal "\<lambda>b. unmarshal_sum (DataFrame_Unmarshal b)" DataFrame_wf
  by unfold_locales (simp add: unmarshal_sum_def DataFrame_roundtrip)

interpretation ack_frame: wire_codec AckFrame_Marshal "\<lambda>b. unmarshal_sum (AckFrame_Unmarshal b)" "\<lambda>_. True"
  by unfold_locales (simp add: unmarshal_sum_def AckFrame_roundtrip)

text \<open>A sixteen-bit length plus a small header size either stays above the header or wraps below it.\<close>

lemma add_header_wrap:
  assumes "h < 65536"
  shows "unat (word_of_nat h + n :: uint16) < h \<longleftrightarrow> 65536 \<le> h + unat n"
proof -
  have "unat (word_of_nat h + n :: uint16) = unat (word_of_nat (h + unat n) :: uint16)"
    by simp
  also have "\<dots> = (h + unat n) mod 65536" by (simp only: unat_of_nat) simp
  finally have eq: "unat (word_of_nat h + n :: uint16) = (h + unat n) mod 65536" .
  have n: "unat n < 65536" by (rule unat16_less)
  show ?thesis
  proof (cases "h + unat n < 65536")
    case True
    then show ?thesis unfolding eq by (simp only: mod_less) simp
  next
    case False
    then have "(h + unat n) mod 65536 = (h + unat n - 65536) mod 65536" by (simp only: le_mod_geq not_less)
    also have "\<dots> = h + unat n - 65536" using assms n by (intro mod_less) linarith
    finally show ?thesis unfolding eq using False n by linarith
  qed
qed

lemma go_slice_None: "hi \<le> length b \<Longrightarrow> go_slice b lo hi = None \<longleftrightarrow> hi < lo"
  by (auto simp: go_slice_def)

lemma DataFrame_panics_iff:
  "DataFrame_Unmarshal b = Panic \<longleftrightarrow>
     8 \<le> length b \<and> (unat (from_le16 (drop 3 b)) < 2 \<or> 65530 \<le> unat (from_le16 (drop 3 b)))"
proof (cases "length b < 8")
  case False
  define n where "n = from_le16 (drop 3 b)"
  define stop where "stop = unat (8 + (n - 2))"
  have "stop < 8 \<longleftrightarrow> 65536 \<le> 8 + unat (n - 2)"
    using add_header_wrap [of 8 "n - 2"] by (simp add: stop_def)
  also have "\<dots> \<longleftrightarrow> unat n < 2 \<or> 65530 \<le> unat n"
  proof (cases "unat n < 2")
    case True
    then have "unat (n - 2) = unat n + 65534"
      by (simp add: unat_sub_if')
    with True show ?thesis by simp
  next
    case False
    then have "unat (n - 2) = unat n - 2" by (simp add: unat_sub_if')
    with False show ?thesis by auto
  qed
  finally have wrap: "stop < 8 \<longleftrightarrow> unat n < 2 \<or> 65530 \<le> unat n" .
  have "DataFrame_Unmarshal b = Panic \<longleftrightarrow> \<not> length b < stop \<and> go_slice b 8 stop = None"
    using False by (simp add: DataFrame_Unmarshal_def Let_def n_def stop_def split: option.split)
  also have "\<dots> \<longleftrightarrow> stop < 8" using False by (auto simp: go_slice_None)
  finally show ?thesis using False wrap by (simp add: n_def)
qed (simp add: DataFrame_Unmarshal_def)

lemma OpenFrame_panics_iff:
  "OpenFrame_Unmarshal b = Panic \<longleftrightarrow> 6 \<le> length b \<and> 65530 \<le> unat (from_le16 (drop 3 b))"
proof (cases "length b < 6")
  case False
  define n where "n = from_le16 (drop 3 b)"
  define stop where "stop = unat (6 + n)"
  have wrap: "stop < 6 \<longleftrightarrow> 65530 \<le> unat n"
    using add_header_wrap [of 6 n] by (auto simp: stop_def)
  have "OpenFrame_Unmarshal b = Panic \<longleftrightarrow> \<not> length b < stop \<and> go_slice b 6 stop = None"
    using False by (simp add: OpenFrame_Unmarshal_def Let_def n_def stop_def split: option.split)
  also have "\<dots> \<longleftrightarrow> stop < 6" using False by (auto simp: go_slice_None)
  finally show ?thesis using False wrap by (simp add: n_def)
qed (simp add: OpenFrame_Unmarshal_def)

text \<open>A frame that is read leaves a proper suffix; the errors leave nothing, except bad JSON, which leaves all.\<close>

lemma go_slice_Some: "go_slice b lo hi = Some s \<Longrightarrow> lo \<le> hi"
  by (simp add: go_slice_def split: if_splits)

lemma AckFrame_progress: "AckFrame_Unmarshal b = Done a r \<Longrightarrow> length r < length b"
  by (cases b) (auto simp: AckFrame_Unmarshal_def Let_def split: if_splits)

lemma DataFrame_progress: "DataFrame_Unmarshal b = Done a r \<Longrightarrow> length r < length b"
  by (cases b) (auto simp: DataFrame_Unmarshal_def Let_def split: if_splits option.splits dest!: go_slice_Some)

lemma OpenFrame_progress: "OpenFrame_Unmarshal b = Done a r \<Longrightarrow> length r < length b"
  by (cases b) (auto simp: OpenFrame_Unmarshal_def Let_def split: if_splits option.splits dest!: go_slice_Some)

lemma Frame_progress:
  assumes "Frame_Unmarshal b = Done f r"
  shows "length r < length b"
proof -
  obtain t bs where b: "b = t # bs" using assms by (cases b) (auto simp: Frame_Unmarshal_def)
  show ?thesis
    using assms AckFrame_progress [of b] DataFrame_progress [of b] OpenFrame_progress [of b]
    by (cases "AckFrame_Unmarshal b"; cases "DataFrame_Unmarshal b"; cases "OpenFrame_Unmarshal b")
       (auto simp: Frame_Unmarshal_def b split: if_splits)
qed

lemma Frame_Unmarshal_Fail:
  assumes "Frame_Unmarshal b = Fail e r"
  shows "r = (if e = BadJSON then b else [])"
proof -
  obtain t bs where b: "b = t # bs" using assms by (cases b) (auto simp: Frame_Unmarshal_def)
  have "AckFrame_Unmarshal b = Fail e r \<or> DataFrame_Unmarshal b = Fail e r \<or> OpenFrame_Unmarshal b = Fail e r"
    using assms by (cases "AckFrame_Unmarshal b"; cases "DataFrame_Unmarshal b"; cases "OpenFrame_Unmarshal b")
       (auto simp: Frame_Unmarshal_def b split: if_splits)
  then show ?thesis
    by (auto simp: AckFrame_Unmarshal_def DataFrame_Unmarshal_def OpenFrame_Unmarshal_def Let_def
        split: if_splits option.splits)
qed

subsection \<open>Divergence of the reader\<close>

text \<open>The loop never consumes a message that is not binary, nor an opening frame whose JSON is bad.\<close>

lemma readMessage_stuck_aux:
  assumes "readMessage mt b = Some y"
  shows "b = [] \<or> mt = BinaryMessage \<and> (\<forall>r. Frame_Unmarshal b \<noteq> Fail BadJSON r)"
  using assms
proof (induction mt b y rule: readMessage.raw_induct [rotated, consumes 1, case_names 1])
  case (1 f mt b y)
  show ?case
  proof (cases "b = []")
    case False
    show ?thesis
    proof (cases "mt = BinaryMessage")
      case True
      have "Frame_Unmarshal b \<noteq> Fail BadJSON r" for r
      proof
        assume bad: "Frame_Unmarshal b = Fail BadJSON r"
        then have "r = b" using Frame_Unmarshal_Fail [OF bad] by simp
        with 1(2) True False bad have "f mt b = Some y" by simp
        with 1(1) [OF this] False bad show False by blast
      qed
      with True show ?thesis by simp
    next
      case mt: False
      with 1(2) False have "f mt b = Some y" by simp
      from 1(1) [OF this] mt show ?thesis by blast
    qed
  qed simp
qed

lemma readMessage_stuck:
  assumes "readMessage mt b = Some y" and "b \<noteq> []"
  shows "mt = BinaryMessage" and "Frame_Unmarshal b \<noteq> Fail BadJSON r"
  using readMessage_stuck_aux [OF assms(1)] assms(2) by blast+

text \<open>Along a binary message, the suffixes at which the loop stands.\<close>

fun parses :: "nat \<Rightarrow> bytes \<Rightarrow> bool" where
  "parses 0 b \<longleftrightarrow> b = []"
| "parses (Suc k) b \<longleftrightarrow> b = [] \<or>
     (case Frame_Unmarshal b of Done f r \<Rightarrow> parses k r | Fail e r \<Rightarrow> e \<noteq> BadJSON | Panic \<Rightarrow> True)"

lemma parses_readMessage: "parses k b \<Longrightarrow> \<exists>y. readMessage BinaryMessage b = Some y"
proof (induction k arbitrary: b)
  case (Suc k)
  show ?case
  proof (cases "Frame_Unmarshal b")
    case (Done f r)
    show ?thesis
    proof (cases "b = []")
      case False
      with Suc.prems Done have "parses k r" by simp
      from Suc.IH [OF this] obtain fs e where "readMessage BinaryMessage r = Some (fs, e)" by auto
      then show ?thesis using Done by (subst readMessage.simps) simp
    qed (subst readMessage.simps, simp)
  next
    case (Fail e r)
    then have "readMessage BinaryMessage [] = Some ([], Consumed)" by (subst readMessage.simps) simp
    then show ?thesis
      using Fail Suc.prems Frame_Unmarshal_Fail [OF Fail] by (subst readMessage.simps) (auto)
  qed (subst readMessage.simps, simp)
qed (subst readMessage.simps, simp)

lemma readMessage_parses: "readMessage BinaryMessage b = Some y \<Longrightarrow> length b \<le> k \<Longrightarrow> parses k b"
proof (induction k arbitrary: b y)
  case (Suc k)
  show ?case
  proof (cases "b = []")
    case False
    show ?thesis
    proof (cases "Frame_Unmarshal b")
      case (Done f r)
      with False Suc.prems(1) obtain y' where "readMessage BinaryMessage r = Some y'"
        by (subst (asm) readMessage.simps) (auto split: option.splits bind_splits)
      then show ?thesis using Done Suc.IH Frame_progress [OF Done] Suc.prems(2) by simp
    next
      case (Fail e r)
      then show ?thesis using readMessage_stuck [OF Suc.prems(1) False] by auto
    qed simp
  qed simp
qed simp

section \<open>Properties\<close>

text \<open>
  C18. A binary websocket message that is the concatenation of well-formed frames is cut by the reader
  into exactly those frames, in order (an opening frame keeps the unread message as its raw bytes),
  and the reader ends having consumed the whole message.
\<close>

theorem reader_recovers_frames:
  assumes "list_all Frame_wf fs"
  shows "readMessage BinaryMessage (concat (map Frame_Marshal fs)) = Some (frames_read fs, Consumed)"
  by (rule readMessage_frames [OF assms])

theorem reader_recovers_frames_witness:
  "readMessage BinaryMessage
     (concat (map Frame_Marshal
        [Ping, Data \<lparr>df_StreamID = 2, df_Payload = [1, 2, 3], df_RequiresAck = True, df_AckID = 300\<rparr>,
         Ack \<lparr>af_StreamID = 2, af_AckID = 7\<rparr>]))
   = Some ([Ping, Data \<lparr>df_StreamID = 2, df_Payload = [1, 2, 3], df_RequiresAck = True, df_AckID = 300\<rparr>,
            Ack \<lparr>af_StreamID = 2, af_AckID = 7\<rparr>], Consumed)"
  by (subst reader_recovers_frames) (simp_all add: DataFrame_wf_def)

text \<open>
  C20. The readers of data and opening frames do their length arithmetic in sixteen bits, so they panic
  on a slice expression exactly when the length field is too large for the header to be added (at
  least 65530) or, for a data frame, too small for the two bytes it always subtracts. All
  other inputs give a frame or an error.
\<close>

theorem frame_length_panics:
  "(DataFrame_Unmarshal b = Panic \<longleftrightarrow>
     8 \<le> length b \<and> (unat (from_le16 (drop 3 b)) < 2 \<or> 65530 \<le> unat (from_le16 (drop 3 b)))) \<and>
   (OpenFrame_Unmarshal b = Panic \<longleftrightarrow>
     6 \<le> length b \<and> 65530 \<le> unat (from_le16 (drop 3 b))) \<and>
   AckFrame_Unmarshal b \<noteq> Panic"
  by (auto simp: DataFrame_panics_iff OpenFrame_panics_iff AckFrame_Unmarshal_def Let_def split: if_splits)


end
