(* ===== verification/Go_Base64.thy ===== *)
theory Go_Base64
  imports Go_Prelude
begin

text \<open>
  The parts of Go's \<^verbatim>\<open>encoding/base64\<close> the bridge uses: the standard and the URL alphabet, with
  padding or without. The decoder is the non-strict one of the library: it skips line breaks anywhere
  and ignores the unused low bits of the last character.
\<close>

section \<open>Model\<close>

record encoding =
  alphabet :: string
  padded :: bool

definition letters_digits :: string where
  "letters_digits = ''ABCDEFGHIJKLMNOPQRSTUVWXYZabcdefghijklmnopqrstuvwxyz0123456789''"

definition StdEncoding :: encoding where
  "StdEncoding = \<lparr>alphabet = letters_digits @ ''+/'', padded = True\<rparr>"

definition URLEncoding :: encoding where
  "URLEncoding = \<lparr>alphabet = letters_digits @ ''-_'', padded = True\<rparr>"

definition RawURLEncoding :: encoding where
  "RawURLEncoding = \<lparr>alphabet = letters_digits @ ''-_'', padded = False\<rparr>"

fun index_of :: "char \<Rightarrow> string \<Rightarrow> nat option" where
  "index_of c [] = None"
| "index_of c (x # xs) = (if x = c then Some 0 else map_option Suc (index_of c xs))"

definition sextets3 :: "byte \<Rightarrow> byte \<Rightarrow> byte \<Rightarrow> nat list" where
  "sextets3 a b c =
     [unat a div 4, unat a mod 4 * 16 + unat b div 16, unat b mod 16 * 4 + unat c div 64, unat c mod 64]"

fun EncodeToString :: "encoding \<Rightarrow> bytes \<Rightarrow> string" where
  "EncodeToString e (a # b # c # rest) =
     map ((!) (alphabet e)) (sextets3 a b c) @ EncodeToString e rest"
| "EncodeToString e [a, b] =
     map ((!) (alphabet e)) (take 3 (sextets3 a b 0)) @ (if padded e then ''='' else [])"
| "EncodeToString e [a] =
     map ((!) (alphabet e)) (take 2 (sextets3 a 0 0)) @ (if padded e then ''=='' else [])"
| "EncodeToString e [] = []"

definition quantum :: "encoding \<Rightarrow> string \<Rightarrow> bytes option" where
  "quantum e cs =
     (case those (map (\<lambda>c. index_of c (alphabet e)) cs) of
        None \<Rightarrow> None
      | Some ds \<Rightarrow>
          let v = foldl (\<lambda>n d. 64 * n + d) 0 ds * 64 ^ (4 - length ds)
          in Some (take (length ds - 1)
               [word_of_nat (v div 65536), word_of_nat (v div 256), word_of_nat v]))"

fun decode_quanta :: "encoding \<Rightarrow> string \<Rightarrow> bytes option" where
  "decode_quanta e [] = Some []"
| "decode_quanta e (a # b # c # d # rest) =
     (if padded e \<and> d = CHR ''='' then
        (if rest \<noteq> [] then None
         else if c = CHR ''='' then quantum e [a, b] else quantum e [a, b, c])
      else
        (case (quantum e [a, b, c, d], decode_quanta e rest) of
           (Some q, Some bs) \<Rightarrow> Some (q @ bs)
         | _ \<Rightarrow> None))"
| "decode_quanta e [a, b] = (if padded e then None else quantum e [a, b])"
| "decode_quanta e [a, b, c] = (if padded e then None else quantum e [a, b, c])"
| "decode_quanta e [a] = None"

definition DecodeString :: "encoding \<Rightarrow> string \<Rightarrow> bytes option" where
  "DecodeString e s = decode_quanta e (filter (\<lambda>c. c \<noteq> CHR 0x0A \<and> c \<noteq> CHR 0x0D) s)"

definition encoding_ok :: "encoding \<Rightarrow> bool" where
  "encoding_ok e \<longleftrightarrow>
     length (alphabet e) = 64 \<and> distinct (alphabet e) \<and>
     list_all (\<lambda>c. c \<noteq> CHR ''='' \<and> c \<noteq> CHR 0x0A \<and> c \<noteq> CHR 0x0D) (alphabet e)"

section \<open>Lemmas\<close>

lemma encodings_ok [simp]:
  "encoding_ok StdEncoding" "encoding_ok URLEncoding" "encoding_ok RawURLEncoding"
  by code_simp+

lemma index_of_nth: "distinct xs \<Longrightarrow> n < length xs \<Longrightarrow> index_of (xs ! n) xs = Some n"
proof (induction xs arbitrary: n)
  case (Cons x xs)
  then show ?case by (cases n) auto
qed simp

lemma encoding_nth:
  assumes "encoding_ok e" "n < 64"
  shows "index_of (alphabet e ! n) (alphabet e) = Some n" and "alphabet e ! n \<noteq> CHR ''=''"
    and "alphabet e ! n \<noteq> CHR 0x0A" and "alphabet e ! n \<noteq> CHR 0x0D"
proof -
  have "alphabet e ! n \<in> set (alphabet e)" using assms by (simp add: encoding_ok_def)
  then show "index_of (alphabet e ! n) (alphabet e) = Some n" "alphabet e ! n \<noteq> CHR ''=''"
    "alphabet e ! n \<noteq> CHR 0x0A" "alphabet e ! n \<noteq> CHR 0x0D"
    using assms by (auto simp: encoding_ok_def list_all_iff index_of_nth)
qed

lemma sextets3_small: "list_all (\<lambda>d. d < 64) (sextets3 a b c)"
proof -
  have "unat a < 256" "unat b < 256" "unat c < 256" by (rule unat_byte_less)+
  moreover have "unat a mod 4 < 4" "unat b mod 16 < 16" by simp_all
  moreover have "unat a div 4 < 64" "unat b div 16 < 16" "unat c div 64 < 4"
    using calculation(1-3) by (simp_all add: less_mult_imp_div_less)
  ultimately have "unat a mod 4 * 16 + unat b div 16 < 64" "unat b mod 16 * 4 + unat c div 64 < 64"
    by linarith+
  then show ?thesis using \<open>unat a div 4 < 64\<close> by (simp add: sextets3_def)
qed

lemma sextets3_value:
  "foldl (\<lambda>n d. 64 * n + d) 0 (sextets3 a b c) = unat a * 65536 + unat b * 256 + unat c"
proof -
  have a: "unat a = 4 * (unat a div 4) + unat a mod 4" and b: "unat b = 16 * (unat b div 16) + unat b mod 16"
    and c: "unat c = 64 * (unat c div 64) + unat c mod 64" by simp_all
  have "foldl (\<lambda>n d. 64 * n + d) 0 (sextets3 a b c) =
      262144 * (unat a div 4) + 65536 * (unat a mod 4) + 4096 * (unat b div 16) + 256 * (unat b mod 16)
      + (64 * (unat c div 64) + unat c mod 64)"
    by (simp add: sextets3_def)
  with a b c show ?thesis by linarith
qed

lemma div_split: "r < m \<Longrightarrow> (k * m + r) div m = (k :: nat)"
  by simp

lemma word_of_triple:
  fixes a b c :: byte
  defines "v \<equiv> unat a * 65536 + unat b * 256 + unat c"
  shows "word_of_nat (v div 65536) = a" and "word_of_nat (v div 256) = b" and "word_of_nat v = c"
proof -
  have lt: "unat b * 256 + unat c < 65536" using unat_byte_less [of b] unat_byte_less [of c] by linarith
  have "v = unat a * 65536 + (unat b * 256 + unat c)" by (simp add: v_def)
  then have va: "v div 65536 = unat a" using div_split [OF lt, of "unat a"] by simp
  have "v = (unat a * 256 + unat b) * 256 + unat c" by (simp add: v_def)
  then have vb: "v div 256 = unat a * 256 + unat b"
    using div_split [OF unat_byte_less [of c], of "unat a * 256 + unat b"] by (simp only:)
  show "word_of_nat (v div 65536) = a" using va by simp
  show "word_of_nat (v div 256) = b" unfolding vb by simp
  have "v = unat (c :: byte) + 256 * (unat a * 256 + unat b)" by (simp add: v_def)
  then show "word_of_nat v = c" by (simp only: of_nat_add of_nat_mult) simp
qed

text \<open>The first \<open>k\<close> sextets give the first \<open>k - 1\<close> bytes back when the sextets left out are zero.\<close>

lemma quantum_take:
  assumes "encoding_ok e" and "k \<le> 4"
    and "foldl (\<lambda>n d. 64 * n + d) 0 (take k (sextets3 a b c)) * 64 ^ (4 - k)
      = unat a * 65536 + unat b * 256 + unat c"
  shows "quantum e (map ((!) (alphabet e)) (take k (sextets3 a b c))) = Some (take (k - 1) [a, b, c])"
proof -
  let ?ds = "take k (sextets3 a b c)"
  have "set ?ds \<subseteq> set (sextets3 a b c)" by (rule set_take_subset)
  then have "map (\<lambda>d. index_of (alphabet e ! d) (alphabet e)) ?ds = map Some ?ds"
    using sextets3_small [of a b c] encoding_nth(1) [OF assms(1)] by (auto simp: list_all_iff)
  moreover have "those (map Some ds) = Some ds" for ds :: "nat list" by (induction ds) simp_all
  ultimately have "those (map (\<lambda>c. index_of c (alphabet e)) (map ((!) (alphabet e)) ?ds)) = Some ?ds"
    by (simp only: map_map comp_def)
  moreover have "length ?ds = k" using assms(2) by (simp add: sextets3_def)
  ultimately show ?thesis
    unfolding quantum_def by (simp only: option.case Let_def assms(3) word_of_triple)
qed

lemma quantum_4:
  assumes "encoding_ok e"
  shows "quantum e (map ((!) (alphabet e)) (sextets3 a b c)) = Some [a, b, c]"
proof -
  have "take 4 (sextets3 a b c) = sextets3 a b c" by (simp add: sextets3_def)
  with quantum_take [OF assms, of 4 a b c] show ?thesis by (simp add: sextets3_value)
qed

lemma quantum_3:
  assumes "encoding_ok e"
  shows "quantum e (map ((!) (alphabet e)) (take 3 (sextets3 a b 0))) = Some [a, b]"
proof -
  have "foldl (\<lambda>n d. 64 * n + d) 0 (take 3 (sextets3 a b 0)) * 64 ^ (4 - 3) = unat a * 65536 + unat b * 256 + unat (0 :: byte)"
    unfolding sextets3_value [symmetric] by (simp add: sextets3_def)
  from quantum_take [OF assms _ this] show ?thesis by simp
qed

lemma quantum_2:
  assumes "encoding_ok e"
  shows "quantum e (map ((!) (alphabet e)) (take 2 (sextets3 a 0 0))) = Some [a]"
proof -
  have "foldl (\<lambda>n d. 64 * n + d) 0 (take 2 (sextets3 a 0 0)) * 64 ^ (4 - 2)
      = unat a * 65536 + unat (0 :: byte) * 256 + unat (0 :: byte)"
    unfolding sextets3_value [symmetric] by (simp add: sextets3_def)
  from quantum_take [OF assms _ this] show ?thesis by simp
qed

lemma EncodeToString_chars:
  assumes "encoding_ok e"
  shows "list_all (\<lambda>c. c \<noteq> CHR 0x0A \<and> c \<noteq> CHR 0x0D) (EncodeToString e bs)"
proof -
  have nl: "list_all (\<lambda>c. c \<noteq> CHR 0x0A \<and> c \<noteq> CHR 0x0D) (map ((!) (alphabet e)) (take k (sextets3 a b c)))" for k a b c
    using sextets3_small [of a b c] encoding_nth(3,4) [OF assms] set_take_subset [of k "sextets3 a b c"]
    by (auto simp: list_all_iff)
  have "list_all (\<lambda>c. c \<noteq> CHR 0x0A \<and> c \<noteq> CHR 0x0D) (map ((!) (alphabet e)) (sextets3 a b c))" for a b c
    using nl [of 4 a b c] by (simp add: sextets3_def)
  with nl show ?thesis
    by (induction e bs rule: EncodeToString.induct) (simp_all del: list.map take_Suc_Cons)
qed

lemma decode_quanta_EncodeToString:
  "encoding_ok e \<Longrightarrow> decode_quanta e (EncodeToString e bs) = Some bs"
proof (induction e bs rule: EncodeToString.induct)
  case (1 e a b c rest)
  obtain w x y z where s: "map ((!) (alphabet e)) (sextets3 a b c) = [w, x, y, z]"
    by (simp add: sextets3_def)
  have "z \<noteq> CHR ''=''"
    using s encoding_nth(2) [OF "1.prems"] sextets3_small [of a b c] by (auto simp: sextets3_def)
  then show ?case using 1 quantum_4 [OF "1.prems", of a b c] by (simp add: s)
next
  case (2 e a b)
  obtain w x y where s: "map ((!) (alphabet e)) (take 3 (sextets3 a b 0)) = [w, x, y]"
    by (simp add: sextets3_def)
  have "y \<noteq> CHR ''=''"
    using s encoding_nth(2) [OF 2] sextets3_small [of a b 0] by (auto simp: sextets3_def)
  then show ?case using quantum_3 [OF 2, of a b] s by (simp del: list.map take_Suc_Cons)
next
  case (3 e a)
  obtain w x where s: "map ((!) (alphabet e)) (take 2 (sextets3 a 0 0)) = [w, x]"
    by (simp add: sextets3_def)
  then show ?case using quantum_2 [OF 3, of a] by (simp del: list.map take_Suc_Cons)
qed simp

theorem DecodeString_EncodeToString:
  assumes "encoding_ok e"
  shows "DecodeString e (EncodeToString e bs) = Some bs"
proof -
  have "filter (\<lambda>c. c \<noteq> CHR 0x0A \<and> c \<noteq> CHR 0x0D) (EncodeToString e bs) = EncodeToString e bs"
    using EncodeToString_chars [OF assms, of bs] by (simp add: list_all_iff)
  then show ?thesis using assms by (simp add: DecodeString_def decode_quanta_EncodeToString)
qed

interpretation b64std: print_parse "EncodeToString StdEncoding" "DecodeString StdEncoding" "\<lambda>_. True"
  by unfold_locales (simp add: DecodeString_EncodeToString)

interpretation b64url: print_parse "EncodeToString RawURLEncoding" "DecodeString RawURLEncoding" "\<lambda>_. True"
  by unfold_locales (simp add: DecodeString_EncodeToString)

end
