(* ===== verification/Lightspeed.thy ===== *)
theory Lightspeed
  imports Complex_Main Go_Base64
begin

text \<open>
  The interpreter of Lightspeed steps (\<^verbatim>\<open>pkg/messagix/lightspeed/decode.go\<close>): a JSON tree of steps is
  run for its effect on a table of rows. The reflective parts of the code work on descriptors: a row
  struct is the list of its fields with their kinds and tags, the table the list of its slices.

  Maps and slices are references. A map is an address into a heap of string maps; a slice is an
  address of a backing array with a length, so that two appends to one slice may share the array as
  in Go. JSON objects inside the steps are addresses of the initial heap. A \<^verbatim>\<open>float64\<close> is its
  rational value (JSON has no infinities). What the code takes from its surroundings is collected in
  \<open>world\<close>: the clock, the capacity \<^verbatim>\<open>append\<close> picks for a new array, the platform's conversion of
  floats outside the range of \<^verbatim>\<open>int64\<close>, and the text the \<^verbatim>\<open>%v\<close> verb of \<^verbatim>\<open>fmt\<close> gives.
\<close>

section \<open>Model\<close>

subsection \<open>Steps (lightspeed.go)\<close>

type_synonym StepType = int

definition BLOCK :: StepType where "BLOCK = 1"
definition LOAD :: StepType where "LOAD = 2"
definition STORE :: StepType where "STORE = 3"
definition STORE_ARRAY :: StepType where "STORE_ARRAY = 4"
definition CALL_STORED_PROCEDURE :: StepType where "CALL_STORED_PROCEDURE = 5"
definition CALL_NATIVE_OPERATION :: StepType where "CALL_NATIVE_OPERATION = 7"
definition UNDEFINED :: StepType where "UNDEFINED = 9"
definition TO_BLOB :: StepType where "TO_BLOB = 16"
definition I64_FROM_STRING :: StepType where "I64_FROM_STRING = 19"
definition IF_step :: StepType where "IF_step = 23"
definition NOT_step :: StepType where "NOT_step = 26"
definition I64_EQUAL :: StepType where "I64_EQUAL = 30"
definition LOGGER_LOG :: StepType where "LOGGER_LOG = 49"
definition NATIVE_OP_ARRAY_CREATE :: StepType where "NATIVE_OP_ARRAY_CREATE = 50"
definition NATIVE_OP_ARRAY_APPEND :: StepType where "NATIVE_OP_ARRAY_APPEND = 51"
definition NATIVE_OP_ARRAY_GET_SIZE :: StepType where "NATIVE_OP_ARRAY_GET_SIZE = 52"
definition NATIVE_OP_MAP_CREATE :: StepType where "NATIVE_OP_MAP_CREATE = 53"
definition NATIVE_OP_MAP_SET :: StepType where "NATIVE_OP_MAP_SET = 55"
definition NATIVE_OP_CURRENT_TIME :: StepType where "NATIVE_OP_CURRENT_TIME = 60"
definition I64_ADD :: StepType where "I64_ADD = 69"

text \<open>A dependency list, and the map that \<open>ToMap\<close> makes of it: later entries win.\<close>

record Dependency =
  dep_Name :: string
  dep_ReferenceName :: string

type_synonym DependencyMap = "string \<rightharpoonup> string"

fun DependencyList_ToMap :: "Dependency list \<Rightarrow> DependencyMap" where
  "DependencyList_ToMap dl = foldl (\<lambda>depMap d. depMap(dep_Name d \<mapsto> dep_ReferenceName d)) Map.empty dl"

text \<open>A value of type \<^verbatim>\<open>any\<close> as \<open>json.Unmarshal\<close> leaves it in \<^verbatim>\<open>LightSpeedData.Steps\<close>.\<close>

datatype step = SNull | SBool bool | SNum rat | SStr string | SArr "step list" | SObj nat

subsection \<open>Run-time values\<close>

datatype gval = VNil | VBool bool | VInt64 int64 | VInt int64 | VFloat rat | VStr string
  | VBytes bytes | VSlice nat nat | VMap nat

datatype 'a outcome = Ret 'a | Panic | Exit

fun bind_out :: "'a outcome \<Rightarrow> ('a \<Rightarrow> 'b outcome) \<Rightarrow> 'b outcome" where
  "bind_out (Ret x) f = f x"
| "bind_out Panic f = Panic"
| "bind_out Exit f = Exit"

lemma bind_out_cong [fundef_cong]:
  "a = b \<Longrightarrow> (\<And>x. b = Ret x \<Longrightarrow> f x = g x) \<Longrightarrow> bind_out a f = bind_out b g"
  by (cases b) simp_all

subsection \<open>Row and table descriptors\<close>

datatype rkind = KInt64 | KString | KInterface | KBool | KInt | KFloat64 | KSlice | KMap

text \<open>What \<open>reflect.StructField\<close> gives of a field of a row struct.\<close>

record rfield =
  rf_Name :: string
  rf_Kind :: rkind
  rf_index :: string
  rf_conditionField :: string
  rf_indexes :: string

text \<open>The value of a field; \<open>None\<close> is a nil interface or a nil map.\<close>

datatype rval = RInt64 int64 | RString string | RBool bool | RInt int64 | RFloat64 rat
  | RInterface "gval option" | RMap "(nat \<times> gval) list option" | RSlice

type_synonym row = "(string \<times> rval) list"

fun zero_of :: "rkind \<Rightarrow> rval" where
  "zero_of KInt64 = RInt64 0"
| "zero_of KString = RString ''''"
| "zero_of KInterface = RInterface None"
| "zero_of KBool = RBool False"
| "zero_of KInt = RInt 0"
| "zero_of KFloat64 = RFloat64 0"
| "zero_of KSlice = RSlice"
| "zero_of KMap = RMap None"

definition new_instance :: "rfield list \<Rightarrow> row" where
  "new_instance fs = map (\<lambda>f. (rf_Name f, zero_of (rf_Kind f))) fs"

text \<open>The table struct: its slice fields with the row struct each one holds pointers to.\<close>

type_synonym schema = "(string \<times> rfield list) list"

text \<open>\<open>rows t\<close> is the slice the table has in the field \<open>t\<close>.\<close>

record LightSpeedDecoder =
  Table :: "string \<Rightarrow> row list"
  StatementReferences :: "int64 \<rightharpoonup> gval"
  heap_maps :: "nat \<Rightarrow> string \<rightharpoonup> gval"
  heap_arrays :: "nat \<Rightarrow> gval list"
  next_addr :: nat
  clock_reads :: nat

record world =
  w_schema :: schema
  w_Dependencies :: DependencyMap
  w_clock :: "nat \<Rightarrow> int64"
  w_grow :: "nat \<Rightarrow> nat"
  w_out_of_range :: "rat \<Rightarrow> int64"
  w_sprintv :: "LightSpeedDecoder \<Rightarrow> gval \<Rightarrow> string"

text \<open>\<open>NewLightSpeedDecoder\<close> on a table whose slices are given and a heap that holds the steps' objects.\<close>

definition NewLightSpeedDecoder ::
  "(string \<Rightarrow> row list) \<Rightarrow> (nat \<Rightarrow> string \<rightharpoonup> gval) \<Rightarrow> nat \<Rightarrow> LightSpeedDecoder" where
  "NewLightSpeedDecoder table objs n =
     \<lparr>Table = table, StatementReferences = Map.empty, heap_maps = objs, heap_arrays = (\<lambda>_. []),
      next_addr = n, clock_reads = 0\<rparr>"

subsection \<open>Conversions\<close>

definition truncate_rat :: "rat \<Rightarrow> int" where
  "truncate_rat r = (if r < 0 then - \<lfloor>- r\<rfloor> else \<lfloor>r\<rfloor>)"

text \<open>The Go conversion \<^verbatim>\<open>int64(f)\<close>, also \<^verbatim>\<open>int(f)\<close>.\<close>

definition float_to_int64 :: "world \<Rightarrow> rat \<Rightarrow> int64" where
  "float_to_int64 w r =
     (let i = truncate_rat r
      in if - (2 ^ 63) \<le> i \<and> i < 2 ^ 63 then word_of_int i else w_out_of_range w r)"

definition Atoi :: "string \<Rightarrow> int \<times> num_error option" where
  "Atoi s = parse_int s"

definition split_all :: "string \<Rightarrow> char \<Rightarrow> string list" where
  "split_all s c = splitn_cuts (length s) c s"

subsection \<open>Filling a row\<close>

text \<open>\<open>None\<close> is an index that does not parse.\<close>

definition parseConditionIndex :: "bool \<Rightarrow> string \<Rightarrow> int option outcome" where
  "parseConditionIndex val choices =
     (let indexes = split_all choices CHR '','';
          parse = (\<lambda>s. case Atoi s of (i, None) \<Rightarrow> Ret (Some i) | (_, Some _) \<Rightarrow> Ret None)
      in if val then parse (hd indexes)
         else if length indexes < 2 then Panic else parse (indexes ! 1))"

definition field_index :: "rfield \<Rightarrow> row \<Rightarrow> int option outcome" where
  "field_index f inst =
     (if rf_conditionField f \<noteq> '''' then
        (case map_of inst (rf_conditionField f) of
           Some (RBool b) \<Rightarrow> parseConditionIndex b (rf_indexes f)
         | _ \<Rightarrow> Panic)
      else Ret (Some (fst (Atoi (rf_index f)))))"

text \<open>The \<open>switch\<close> on the kind of a field: a value of the wrong type is refused, one for a slice is dropped.\<close>

datatype assigned = Refused | Assigned rval | Dropped

fun assign :: "rkind \<Rightarrow> gval \<Rightarrow> assigned" where
  "assign KInt64 v = (case v of VInt64 i \<Rightarrow> Assigned (RInt64 i) | _ \<Rightarrow> Refused)"
| "assign KString v = (case v of VStr s \<Rightarrow> Assigned (RString s) | _ \<Rightarrow> Refused)"
| "assign KInterface v = Assigned (RInterface (Some v))"
| "assign KBool v = (case v of VBool b \<Rightarrow> Assigned (RBool b) | _ \<Rightarrow> Refused)"
| "assign KInt v = (case v of VInt i \<Rightarrow> Assigned (RInt i) | _ \<Rightarrow> Refused)"
| "assign KFloat64 v = (case v of VFloat r \<Rightarrow> Assigned (RFloat64 r) | _ \<Rightarrow> Refused)"
| "assign KSlice v = Dropped"
| "assign KMap v = Dropped"

fun set_field :: "string \<Rightarrow> rval \<Rightarrow> row \<Rightarrow> row" where
  "set_field n v [] = []"
| "set_field n v ((m, x) # r) = (if m = n then (m, v) # r else (m, x) # set_field n v r)"

text \<open>The loop over the fields: the instance, and the arguments with the used ones set to nil.\<close>

fun fill_fields :: "rfield list \<Rightarrow> row \<Rightarrow> gval list \<Rightarrow> (row \<times> gval list) outcome" where
  "fill_fields [] inst data = Ret (inst, data)"
| "fill_fields (f # fs) inst data =
     (if rf_Name f = ''Unrecognized'' then fill_fields fs inst data
      else
        bind_out (field_index f inst) (\<lambda>oi.
          case oi of
            None \<Rightarrow> fill_fields fs inst data
          | Some index \<Rightarrow>
              if index \<ge> int (length data) then Ret (inst, data)
              else if index < 0 then Panic
              else
                let val = data ! nat index
                in if val = VNil then fill_fields fs inst data
                   else
                     (case assign (rf_Kind f) val of
                        Refused \<Rightarrow> fill_fields fs inst data
                      | Dropped \<Rightarrow> fill_fields fs inst (data[nat index := VNil])
                      | Assigned v \<Rightarrow>
                          fill_fields fs (set_field (rf_Name f) v inst) (data[nat index := VNil]))))"

text \<open>The loop over what is left: each non-nil argument goes to \<open>Unrecognized\<close> if the struct has it.\<close>

definition leftovers :: "gval list \<Rightarrow> (nat \<times> gval) list" where
  "leftovers data = filter (\<lambda>(i, v). v \<noteq> VNil) (enumerate 0 data)"

definition fill_unrecognized :: "gval list \<Rightarrow> row \<Rightarrow> row" where
  "fill_unrecognized data inst =
     (if leftovers data = [] then inst
      else set_field ''Unrecognized'' (RMap (Some (leftovers data))) inst)"

definition fill_row :: "rfield list \<Rightarrow> gval list \<Rightarrow> row outcome" where
  "fill_row fs data =
     bind_out (fill_fields fs (new_instance fs) data) (\<lambda>(inst, rest). Ret (fill_unrecognized rest inst))"

definition append_row :: "string \<Rightarrow> row \<Rightarrow> LightSpeedDecoder \<Rightarrow> LightSpeedDecoder" where
  "append_row t r d = d\<lparr>Table := (Table d)(t := Table d t @ [r])\<rparr>"

subsection \<open>Maps and slices\<close>

definition map_create :: "LightSpeedDecoder \<Rightarrow> gval \<times> LightSpeedDecoder" where
  "map_create d =
     (VMap (next_addr d),
      d\<lparr>heap_maps := (heap_maps d)(next_addr d := Map.empty), next_addr := Suc (next_addr d)\<rparr>)"

definition map_set :: "nat \<Rightarrow> string \<Rightarrow> gval \<Rightarrow> LightSpeedDecoder \<Rightarrow> LightSpeedDecoder" where
  "map_set a k v d = d\<lparr>heap_maps := (heap_maps d)(a := (heap_maps d a)(k \<mapsto> v))\<rparr>"

definition array_create :: "gval list \<Rightarrow> LightSpeedDecoder \<Rightarrow> nat \<times> LightSpeedDecoder" where
  "array_create vs d =
     (next_addr d,
      d\<lparr>heap_arrays := (heap_arrays d)(next_addr d := vs), next_addr := Suc (next_addr d)\<rparr>)"

text \<open>
  \<^verbatim>\<open>append(s, v)\<close>: in place when the array has room behind the slice, otherwise into a fresh array
  whose capacity the runtime chooses.
\<close>

definition array_append :: "world \<Rightarrow> nat \<Rightarrow> nat \<Rightarrow> gval \<Rightarrow> LightSpeedDecoder \<Rightarrow> gval \<times> LightSpeedDecoder" where
  "array_append w a n v d =
     (let arr = heap_arrays d a
      in if n < length arr then
           (VSlice a (Suc n), d\<lparr>heap_arrays := (heap_arrays d)(a := arr[n := v])\<rparr>)
         else
           let (b, d') = array_create (take n arr @ [v] @ replicate (w_grow w (Suc n) - Suc n) VNil) d
           in (VSlice b (Suc n), d'))"

definition slice_elems :: "LightSpeedDecoder \<Rightarrow> nat \<Rightarrow> nat \<Rightarrow> gval list" where
  "slice_elems d a n = take n (heap_arrays d a)"

subsection \<open>The interpreter\<close>

text \<open>
  \<open>Decode\<close> with its loop over a block, the loop that decodes the arguments of a stored procedure,
  and \<open>handleStoredProcedure\<close>. An index expression beyond the end of the step, and a failed unchecked
  type assertion, is a panic; \<open>Exit\<close> is \<^verbatim>\<open>os.Exit(1)\<close>.
\<close>

function (sequential) Decode :: "world \<Rightarrow> step \<Rightarrow> LightSpeedDecoder \<Rightarrow> (gval \<times> LightSpeedDecoder) outcome"
  and decode_block :: "world \<Rightarrow> step list \<Rightarrow> LightSpeedDecoder \<Rightarrow> LightSpeedDecoder outcome"
  and decode_args :: "world \<Rightarrow> step list \<Rightarrow> LightSpeedDecoder \<Rightarrow> (gval list \<times> LightSpeedDecoder) outcome"
  and handleStoredProcedure ::
    "world \<Rightarrow> string \<Rightarrow> step list \<Rightarrow> LightSpeedDecoder \<Rightarrow> LightSpeedDecoder outcome" where
  "Decode w SNull d = Ret (VNil, d)"
| "Decode w (SBool b) d = Ret (VBool b, d)"
| "Decode w (SNum r) d = Ret (VFloat r, d)"
| "Decode w (SStr s) d = Ret (VStr s, d)"
| "Decode w (SObj a) d = Ret (VMap a, d)"
| "Decode w (SArr (SNum r # stepData)) d =
    (let stepType = sint (float_to_int64 w r)
     in if stepType = BLOCK then
          bind_out (decode_block w stepData d) (\<lambda>d1. Ret (VNil, d1))
        else if stepType = LOAD then
          (case stepData of
             [] \<Rightarrow> Panic
           | SNum key # _ \<Rightarrow>
               (case StatementReferences d (float_to_int64 w key) of
                  None \<Rightarrow> Ret (VInt 0, d)
                | Some shouldLoad \<Rightarrow> Ret (shouldLoad, d))
           | _ \<Rightarrow> Ret (VInt 0, d))
        else if stepType = STORE then
          (case stepData of
             k # s1 # _ \<Rightarrow>
               bind_out (Decode w s1 d) (\<lambda>(retVal, d1).
                 case k of
                   SNum key \<Rightarrow>
                     Ret (VNil, d1\<lparr>StatementReferences :=
                            (StatementReferences d1)(float_to_int64 w key \<mapsto> retVal)\<rparr>)
                 | _ \<Rightarrow> Panic)
           | _ \<Rightarrow> Panic)
        else if stepType = STORE_ARRAY then
          (case stepData of
             [] \<Rightarrow> Panic
           | SNum key # rest \<Rightarrow>
               (case rest of
                  [] \<Rightarrow> Panic
                | SNum shouldStore # rest' \<Rightarrow>
                    bind_out
                      (Decode w (SArr (SNum shouldStore # rest'))
                        (d\<lparr>StatementReferences := (StatementReferences d)
                            (float_to_int64 w key \<mapsto> VInt64 (float_to_int64 w shouldStore))\<rparr>))
                      (\<lambda>(_, d1). Ret (VNil, d1))
                | _ \<Rightarrow> Exit)
           | _ \<Rightarrow> Exit)
        else if stepType = CALL_STORED_PROCEDURE then
          (case stepData of
             [] \<Rightarrow> Panic
           | SStr referenceName # data \<Rightarrow>
               bind_out (handleStoredProcedure w referenceName data d) (\<lambda>d1. Ret (VNil, d1))
           | _ \<Rightarrow> Ret (VNil, d))
        else if stepType = UNDEFINED then Ret (VNil, d)
        else if stepType = I64_FROM_STRING then
          (case stepData of
             [] \<Rightarrow> Panic
           | SStr strVal # _ \<Rightarrow>
               (case parse_int strVal of
                  (i64, None) \<Rightarrow> Ret (VInt64 (word_of_int i64), d)
                | (_, Some _) \<Rightarrow> Ret (VInt 0, d))
           | _ \<Rightarrow> Ret (VNil, d))
        else if stepType = IF_step then
          (case stepData of
             [] \<Rightarrow> Panic
           | statement # branches \<Rightarrow>
               bind_out (Decode w statement d) (\<lambda>(v, d1).
                 case v of
                   VInt64 result \<Rightarrow>
                     if sint result > 0 then
                       (case branches of
                          [] \<Rightarrow> Panic
                        | then_step # _ \<Rightarrow> bind_out (Decode w then_step d1) (\<lambda>(_, d2). Ret (VNil, d2)))
                     else
                       (case branches of
                          _ # else_step # _ \<Rightarrow>
                            if else_step = SNull then Ret (VNil, d1)
                            else bind_out (Decode w else_step d1) (\<lambda>(_, d2). Ret (VNil, d2))
                        | _ \<Rightarrow> Ret (VNil, d1))
                 | _ \<Rightarrow> Ret (VNil, d1)))
        else if stepType = NOT_step then
          (case stepData of
             [] \<Rightarrow> Panic
           | s0 # _ \<Rightarrow>
               bind_out (Decode w s0 d) (\<lambda>(v, d1).
                 case v of VInt64 val \<Rightarrow> Ret (VInt64 val, d1) | _ \<Rightarrow> Ret (VNil, d1)))
        else if stepType = NATIVE_OP_CURRENT_TIME then
          Ret (VInt64 (w_clock w (clock_reads d)), d\<lparr>clock_reads := Suc (clock_reads d)\<rparr>)
        else if stepType = CALL_NATIVE_OPERATION then Ret (VNil, d)
        else if stepType = NATIVE_OP_MAP_CREATE then Ret (map_create d)
        else if stepType = NATIVE_OP_MAP_SET then
          (case stepData of
             [] \<Rightarrow> Panic
           | s0 # rest \<Rightarrow>
               bind_out (Decode w s0 d) (\<lambda>(v, d1).
                 case v of
                   VMap a \<Rightarrow>
                     (case rest of
                        [] \<Rightarrow> Panic
                      | s1 # rest' \<Rightarrow>
                          bind_out (Decode w s1 d1) (\<lambda>(mapKey, d2).
                            case rest' of
                              [] \<Rightarrow> Panic
                            | s2 # _ \<Rightarrow>
                                bind_out (Decode w s2 d2) (\<lambda>(mapVal, d3).
                                  let mapKeyStr = (case mapKey of VStr s \<Rightarrow> s | _ \<Rightarrow> w_sprintv w d3 mapKey)
                                  in Ret (VNil, map_set a mapKeyStr mapVal d3))))
                 | _ \<Rightarrow> Ret (VNil, d1)))
        else if stepType = NATIVE_OP_ARRAY_CREATE then
          (let (a, d1) = array_create [] d in Ret (VSlice a 0, d1))
        else if stepType = NATIVE_OP_ARRAY_APPEND then
          (case stepData of
             [] \<Rightarrow> Panic
           | s0 # rest \<Rightarrow>
               bind_out (Decode w s0 d) (\<lambda>(v, d1).
                 case v of
                   VSlice a n \<Rightarrow>
                     (case rest of
                        [] \<Rightarrow> Panic
                      | s1 # _ \<Rightarrow> bind_out (Decode w s1 d1) (\<lambda>(x, d2). Ret (array_append w a n x d2)))
                 | _ \<Rightarrow> Ret (VNil, d1)))
        else if stepType = NATIVE_OP_ARRAY_GET_SIZE then
          (case stepData of
             [] \<Rightarrow> Panic
           | s0 # _ \<Rightarrow>
               bind_out (Decode w s0 d) (\<lambda>(v, d1).
                 case v of VSlice a n \<Rightarrow> Ret (VInt (word_of_nat n), d1) | _ \<Rightarrow> Ret (VNil, d1)))
        else if stepType = LOGGER_LOG then
          (case stepData of [] \<Rightarrow> Panic | _ \<Rightarrow> Ret (VNil, d))
        else if stepType = I64_ADD \<or> stepType = I64_EQUAL then
          (case stepData of
             [] \<Rightarrow> Panic
           | s0 # rest \<Rightarrow>
               bind_out (Decode w s0 d) (\<lambda>(v, d1).
                 case v of
                   VInt64 first \<Rightarrow>
                     (case rest of
                        [] \<Rightarrow> Panic
                      | s1 # _ \<Rightarrow>
                          bind_out (Decode w s1 d1) (\<lambda>(v', d2).
                            case v' of
                              VInt64 second \<Rightarrow>
                                Ret (if stepType = I64_ADD then VInt64 (first + second)
                                     else VBool (first = second), d2)
                            | _ \<Rightarrow> Ret (VNil, d2)))
                 | _ \<Rightarrow> Ret (VNil, d1)))
        else if stepType = TO_BLOB then
          (case stepData of
             [] \<Rightarrow> Panic
           | SStr blobBase64 # _ \<Rightarrow>
               (case DecodeString StdEncoding blobBase64 of
                  None \<Rightarrow> Ret (VNil, d)
                | Some blob \<Rightarrow> Ret (VBytes blob, d))
           | _ \<Rightarrow> Ret (VNil, d))
        else Ret (VNil, d))"
| "Decode w (SArr _) d = Panic"
| "decode_block w [] d = Ret d"
| "decode_block w (blockData # bs) d =
    (case blockData of
       SArr _ \<Rightarrow> bind_out (Decode w blockData d) (\<lambda>(_, d1). decode_block w bs d1)
     | _ \<Rightarrow> decode_block w bs d)"
| "decode_args w [] d = Ret ([], d)"
| "decode_args w (x # xs) d =
    bind_out (Decode w x d) (\<lambda>(v, d1).
      bind_out (decode_args w xs d1) (\<lambda>(vs, d2). Ret (v # vs, d2)))"
| "handleStoredProcedure w referenceName data d =
    (case w_Dependencies w referenceName of
       None \<Rightarrow> Ret d
     | Some depReference \<Rightarrow>
         (case map_of (w_schema w) depReference of
            None \<Rightarrow> Ret d
          | Some depFieldsType \<Rightarrow>
              bind_out (decode_args w data d) (\<lambda>(decodedData, d1).
                bind_out (fill_row depFieldsType decodedData) (\<lambda>r. Ret (append_row depReference r d1)))))"
  by pat_completeness auto

termination
  by (relation "measure (\<lambda>x. case x of
        Inl (Inl (w, s, d)) \<Rightarrow> 2 * size s
      | Inl (Inr (w, ss, d)) \<Rightarrow> Suc (2 * size_list size ss)
      | Inr (Inl (w, ss, d)) \<Rightarrow> Suc (2 * size_list size ss)
      | Inr (Inr (w, n, ss, d)) \<Rightarrow> Suc (Suc (2 * size_list size ss)))") auto

declare Decode.simps(6) [simp del]

subsection \<open>What a row descriptor has to satisfy\<close>

text \<open>
  The argument positions a field may take: its index, or the two choices of a conditional field.
  The arguments of a call are matched field by field and the loop stops at the first position beyond
  them, so the positions have to grow along the struct; a condition has to be an earlier boolean.
\<close>

definition slots :: "rfield \<Rightarrow> int list" where
  "slots f =
     (if rf_conditionField f = '''' then [fst (Atoi (rf_index f))]
      else map (\<lambda>s. fst (Atoi s)) (split_all (rf_indexes f) CHR '',''))"

definition field_ok :: "string list \<Rightarrow> rfield \<Rightarrow> bool" where
  "field_ok known f \<longleftrightarrow>
     rf_Kind f \<noteq> KSlice \<and> rf_Kind f \<noteq> KMap \<and> list_all (\<lambda>i. 0 \<le> i) (slots f) \<and>
     (if rf_conditionField f = '''' then snd (Atoi (rf_index f)) = None
      else rf_conditionField f \<in> set known \<and> length (split_all (rf_indexes f) CHR '','') = 2 \<and>
           list_all (\<lambda>s. snd (Atoi s) = None) (split_all (rf_indexes f) CHR '',''))"

definition unrec :: "rfield \<Rightarrow> bool" where
  "unrec f \<longleftrightarrow> rf_Name f = ''Unrecognized''"

fun fields_ok :: "string list \<Rightarrow> rfield list \<Rightarrow> bool" where
  "fields_ok known [] \<longleftrightarrow> True"
| "fields_ok known (f # fs) \<longleftrightarrow>
     rf_Name f \<notin> rf_Name ` set fs \<and>
     (if unrec f then rf_Kind f = KMap
      else field_ok known f \<and>
           list_all (\<lambda>g. unrec g \<or> list_all (\<lambda>i. list_all (\<lambda>j. i < j) (slots g)) (slots f)) fs) \<and>
     fields_ok (if rf_Kind f = KBool \<and> \<not> unrec f then rf_Name f # known else known) fs"

definition row_ok :: "rfield list \<Rightarrow> bool" where
  "row_ok fs \<longleftrightarrow> fields_ok [] fs"

text \<open>What a field ends up with: the argument at its position if it has the right type.\<close>

definition field_value :: "rkind \<Rightarrow> gval list \<Rightarrow> nat \<Rightarrow> rval" where
  "field_value k data i =
     (if i < length data \<and> data ! i \<noteq> VNil then
        (case assign k (data ! i) of Assigned v \<Rightarrow> v | _ \<Rightarrow> zero_of k)
      else zero_of k)"

definition accepts :: "rkind \<Rightarrow> gval \<Rightarrow> bool" where
  "accepts k v \<longleftrightarrow> v \<noteq> VNil \<and> assign k v \<noteq> Refused"

section \<open>Lemmas\<close>

lemma bind_out_Ret_iff: "bind_out x f = Ret y \<longleftrightarrow> (\<exists>z. x = Ret z \<and> f z = Ret y)"
  by (cases x) auto

lemma map_of_set_field: "map_of (set_field n v r) m = (if m = n \<and> m \<in> dom (map_of r) then Some v else map_of r m)"
  by (induction n v r rule: set_field.induct) (auto simp: domIff)

lemma dom_set_field [simp]: "fst ` set (set_field n v r) = fst ` set r"
  by (induction n v r rule: set_field.induct) (auto simp: image_iff)

text \<open>The position of a field depends only on the value of its condition.\<close>

lemma field_index_slot:
  assumes "field_ok known f" and "\<And>n. n \<in> set known \<Longrightarrow> \<exists>b. map_of inst n = Some (RBool b)"
  obtains i where "field_index f inst = Ret (Some (int i))" and "int i \<in> set (slots f)"
proof (cases "rf_conditionField f = ''''")
  case True
  with assms(1) have "0 \<le> fst (Atoi (rf_index f))" by (simp add: field_ok_def slots_def)
  with True show ?thesis
    by (intro that [of "nat (fst (Atoi (rf_index f)))"]) (simp_all add: field_index_def slots_def)
next
  case False
  with assms obtain b where b: "map_of inst (rf_conditionField f) = Some (RBool b)"
    by (auto simp: field_ok_def)
  from False assms(1) obtain s1 s2 where s: "split_all (rf_indexes f) CHR '','' = [s1, s2]"
    by (auto simp: field_ok_def length_Suc_conv numeral_2_eq_2)
  from False assms(1) s have pos: "0 \<le> fst (Atoi s1)" "0 \<le> fst (Atoi s2)"
    and none: "snd (Atoi s1) = None" "snd (Atoi s2) = None"
    by (simp_all add: field_ok_def slots_def)
  from pos none False b s show ?thesis
    by (intro that [of "nat (if b then fst (Atoi s1) else fst (Atoi s2))"])
      (auto simp: field_index_def slots_def parseConditionIndex_def Let_def split: prod.split)
qed

lemma field_index_cong:
  "map_of inst (rf_conditionField f) = map_of inst' (rf_conditionField f) \<Longrightarrow>
     field_index f inst = field_index f inst'"
  by (simp add: field_index_def)

lemma field_index_stable:
  assumes "field_ok known f" and "\<And>n. n \<in> set known \<Longrightarrow> map_of inst' n = map_of inst n"
  shows "field_index f inst' = field_index f inst"
  using assms by (auto simp: field_ok_def field_index_def split: if_splits)

lemma fields_ok_mono:
  assumes "fields_ok known (f # fs)" "\<not> unrec f" "g \<in> set fs" "\<not> unrec g" "i \<in> set (slots f)" "j \<in> set (slots g)"
  shows "i < j"
proof -
  have "\<forall>g \<in> set fs. unrec g \<or> (\<forall>i \<in> set (slots f). \<forall>j \<in> set (slots g). i < j)"
    using assms(1,2) by (simp add: list_all_iff)
  with assms(3-6) show ?thesis by blast
qed

lemma fields_ok_index:
  assumes "fields_ok known fs" and "\<And>n. n \<in> set known \<Longrightarrow> \<exists>b. map_of inst n = Some (RBool b)"
    and "\<And>f. f \<in> set fs \<Longrightarrow> map_of inst (rf_Name f) = Some (zero_of (rf_Kind f))"
    and "g \<in> set fs" and "\<not> unrec g"
  shows "\<exists>i. field_index g inst = Ret (Some (int i)) \<and> int i \<in> set (slots g)"
  using assms
proof (induction known fs rule: fields_ok.induct)
  case (2 known f fs)
  show ?case
  proof (cases "g = f")
    case True
    with 2 have "field_ok known g" by simp
    from field_index_slot [OF this 2(3)] show ?thesis by blast
  next
    case False
    let ?known = "if rf_Kind f = KBool \<and> \<not> unrec f then rf_Name f # known else known"
    have "\<exists>b. map_of inst n = Some (RBool b)" if "n \<in> set ?known" for n
      using that 2(3) 2(4) [of f] by (auto split: if_splits)
    with False 2 show ?thesis by auto
  qed
qed simp

text \<open>One turn of the loop, for a field whose position is within the arguments.\<close>

lemma fill_fields_turn:
  assumes "\<not> unrec f" and "field_index f inst = Ret (Some (int i))" and "i < length data"
    and "rf_Kind f \<noteq> KSlice" "rf_Kind f \<noteq> KMap" and "map_of inst (rf_Name f) = Some (zero_of (rf_Kind f))"
  obtains inst1 where "fill_fields (f # fs) inst data =
      fill_fields fs inst1 (if accepts (rf_Kind f) (data ! i) then data[i := VNil] else data)"
    and "map_of inst1 (rf_Name f) = Some (field_value (rf_Kind f) data i)"
    and "\<And>n. n \<noteq> rf_Name f \<Longrightarrow> map_of inst1 n = map_of inst n"
proof (cases "data ! i = VNil \<or> assign (rf_Kind f) (data ! i) = Refused")
  case True
  with assms show ?thesis
    by (intro that [of inst]) (auto simp: unrec_def accepts_def field_value_def Let_def)
next
  case False
  then obtain v where v: "assign (rf_Kind f) (data ! i) = Assigned v"
    using assms(4,5) by (cases "rf_Kind f") (auto split: gval.splits)
  from assms(6) have "rf_Name f \<in> dom (map_of inst)" by auto
  with False v assms show ?thesis
    by (intro that [of "set_field (rf_Name f) v inst"])
      (auto simp: unrec_def accepts_def field_value_def map_of_set_field Let_def)
qed

definition used :: "rfield list \<Rightarrow> row \<Rightarrow> gval list \<Rightarrow> nat \<Rightarrow> bool" where
  "used fs inst data j \<longleftrightarrow>
     (\<exists>f \<in> set fs. \<not> unrec f \<and> field_index f inst = Ret (Some (int j)) \<and> accepts (rf_Kind f) (data ! j))"

definition filled :: "rfield list \<Rightarrow> row \<Rightarrow> gval list \<Rightarrow> bool" where
  "filled fs inst data \<longleftrightarrow>
     (\<forall>f \<in> set fs.
        if unrec f then map_of inst (rf_Name f) = Some (zero_of (rf_Kind f))
        else \<exists>i. field_index f inst = Ret (Some (int i)) \<and> int i \<in> set (slots f) \<and>
                 map_of inst (rf_Name f) = Some (field_value (rf_Kind f) data i))"

lemma field_value_beyond: "length data \<le> i \<Longrightarrow> field_value k data i = zero_of k"
  by (simp add: field_value_def)

lemma used_Cons:
  assumes "\<not> unrec f" "field_index f inst = Ret (Some (int i))"
    and "\<And>g. g \<in> set fs \<Longrightarrow> \<not> unrec g \<Longrightarrow> field_index g inst \<noteq> Ret (Some (int i))"
    and "\<And>j. j \<noteq> i \<Longrightarrow> data' ! j = data ! j"
  shows "used (f # fs) inst data j \<longleftrightarrow> (if j = i then accepts (rf_Kind f) (data ! i) else used fs inst data' j)"
proof (cases "j = i")
  case True
  with assms(1-3) show ?thesis by (auto simp: used_def)
next
  case False
  with assms(1,2) assms(4) [OF False] show ?thesis by (auto simp: used_def)
qed

lemma fill_fields_stops:
  assumes ok: "fields_ok known (f # fs)" and bools: "\<And>n. n \<in> set known \<Longrightarrow> \<exists>b. map_of inst n = Some (RBool b)"
    and zero: "\<And>g. g \<in> set (f # fs) \<Longrightarrow> map_of inst (rf_Name g) = Some (zero_of (rf_Kind g))"
    and f: "\<not> unrec f" "field_index f inst = Ret (Some (int i))" "int i \<in> set (slots f)" and i: "length data \<le> i"
  shows "fill_fields (f # fs) inst data = Ret (inst, data)" and "filled (f # fs) inst data"
    and "\<forall>j < length data. \<not> used (f # fs) inst data j"
proof -
  have beyond: "length data \<le> j"
    if "g \<in> set (f # fs)" "\<not> unrec g" "field_index g inst = Ret (Some (int j))" for g j
  proof (cases "g = f")
    case True
    with that f i show ?thesis by simp
  next
    case False
    from fields_ok_index [OF ok bools zero that(1,2)] that(3) have "int j \<in> set (slots g)" by auto
    with False that(1,2) f have "int i < int j" by (intro fields_ok_mono [OF ok, of g]) auto
    with i show ?thesis by simp
  qed
  show "fill_fields (f # fs) inst data = Ret (inst, data)"
    using f i by (simp add: unrec_def)
  show "filled (f # fs) inst data"
    unfolding filled_def
  proof
    fix g assume g: "g \<in> set (f # fs)"
    show "if unrec g then map_of inst (rf_Name g) = Some (zero_of (rf_Kind g))
        else \<exists>i. field_index g inst = Ret (Some (int i)) \<and> int i \<in> set (slots g) \<and>
                 map_of inst (rf_Name g) = Some (field_value (rf_Kind g) data i)"
      using zero [OF g] fields_ok_index [OF ok bools zero g] beyond [OF g]
      by (auto simp: field_value_beyond)
  qed
  show "\<forall>j < length data. \<not> used (f # fs) inst data j"
    using beyond unfolding used_def by (metis not_less)
qed

lemma fill_fields_spec:
  assumes "fields_ok known fs" and "set known \<inter> rf_Name ` set fs = {}"
    and "\<And>n. n \<in> set known \<Longrightarrow> \<exists>b. map_of inst n = Some (RBool b)"
    and "\<And>f. f \<in> set fs \<Longrightarrow> map_of inst (rf_Name f) = Some (zero_of (rf_Kind f))"
  shows "\<exists>inst' data'. fill_fields fs inst data = Ret (inst', data') \<and> length data' = length data \<and>
    (\<forall>n. n \<notin> rf_Name ` set fs \<longrightarrow> map_of inst' n = map_of inst n) \<and> filled fs inst' data \<and>
    (\<forall>j < length data. data' ! j = (if used fs inst' data j then VNil else data ! j))"
  using assms
proof (induction known fs arbitrary: inst data rule: fields_ok.induct)
  case (1 known)
  then show ?case by (simp add: filled_def used_def)
next
  case (2 known f fs)
  let ?known = "if rf_Kind f = KBool \<and> \<not> unrec f then rf_Name f # known else known"
  have ok: "fields_ok ?known fs" and fresh: "rf_Name f \<notin> rf_Name ` set fs" using "2.prems"(1) by simp_all
  have disj: "set ?known \<inter> rf_Name ` set fs = {}" using "2.prems"(2) fresh by auto
  show ?case
  proof (cases "unrec f")
    case True
    have "\<exists>b. map_of inst n = Some (RBool b)" if "n \<in> set ?known" for n using that "2.prems"(3) True by simp
    from "2.IH" [OF ok disj this "2.prems"(4), of data] obtain inst' data' where
      r: "fill_fields fs inst data = Ret (inst', data')" "length data' = length data"
        "\<forall>n. n \<notin> rf_Name ` set fs \<longrightarrow> map_of inst' n = map_of inst n" "filled fs inst' data"
        "\<forall>j < length data. data' ! j = (if used fs inst' data j then VNil else data ! j)" by auto
    have "used (f # fs) inst' data = used fs inst' data" using True by (auto simp: used_def fun_eq_iff)
    moreover have "filled (f # fs) inst' data"
      using r(3,4) True fresh "2.prems"(4) [of f] by (simp add: filled_def)
    ultimately show ?thesis using r True by (auto simp: unrec_def)
  next
    case False
    then have fok: "field_ok known f" using "2.prems"(1) by simp
    note mono = fields_ok_mono [OF "2.prems"(1) False]
    obtain i where i: "field_index f inst = Ret (Some (int i))" "int i \<in> set (slots f)"
      using field_index_slot [OF fok "2.prems"(3)] by blast
    show ?thesis
    proof (cases "i < length data")
      case len: False
      then have "length data \<le> i" by simp
      from fill_fields_stops [OF "2.prems"(1,3,4) False i this] show ?thesis by auto
    next
      case True
      from fok have kinds: "rf_Kind f \<noteq> KSlice" "rf_Kind f \<noteq> KMap" by (simp_all add: field_ok_def)
      let ?data = "if accepts (rf_Kind f) (data ! i) then data[i := VNil] else data"
      obtain inst1 where turn: "fill_fields (f # fs) inst data = fill_fields fs inst1 ?data"
        and val: "map_of inst1 (rf_Name f) = Some (field_value (rf_Kind f) data i)"
        and same: "\<And>n. n \<noteq> rf_Name f \<Longrightarrow> map_of inst1 n = map_of inst n"
        using fill_fields_turn [OF False i(1) True kinds "2.prems"(4) [of f]] by auto
      have bools: "\<exists>b. map_of inst1 n = Some (RBool b)" if "n \<in> set ?known" for n
        using that "2.prems"(2,3) val same False
        by (cases "n = rf_Name f") (auto simp: field_value_def split: if_splits assigned.splits gval.splits)
      have zero: "map_of inst1 (rf_Name g) = Some (zero_of (rf_Kind g))" if "g \<in> set fs" for g
        using that fresh same "2.prems"(4) by (metis image_eqI list.set_intros(2))
      from "2.IH" [OF ok disj bools zero, of ?data] obtain inst' data' where
        r: "fill_fields fs inst1 ?data = Ret (inst', data')" "length data' = length ?data"
          "\<forall>n. n \<notin> rf_Name ` set fs \<longrightarrow> map_of inst' n = map_of inst1 n" "filled fs inst' ?data"
          "\<forall>j < length ?data. data' ! j = (if used fs inst' ?data j then VNil else ?data ! j)" by blast
      have ki: "map_of inst' n = map_of inst n" if "n \<in> set known" for n
      proof -
        have "n \<notin> rf_Name ` set fs" "n \<noteq> rf_Name f" using that "2.prems"(2) by auto
        with r(3) same show ?thesis by simp
      qed
      have fi: "field_index f inst' = Ret (Some (int i))"
        using field_index_stable [OF fok ki] i(1) by simp
      have other: "\<exists>j. field_index g inst' = Ret (Some (int j)) \<and> int j \<in> set (slots g) \<and> j \<noteq> i \<and>
          map_of inst' (rf_Name g) = Some (field_value (rf_Kind g) ?data j)" if "g \<in> set fs" "\<not> unrec g" for g
        using r(4) that mono [OF that i(2)] unfolding filled_def by (metis less_irrefl)
      have unused: "\<not> used fs inst' ?data i" using other by (fastforce simp: used_def)
      have nth: "?data ! j = data ! j" if "j \<noteq> i" for j using that by simp
      have used_eq: "used (f # fs) inst' data j \<longleftrightarrow>
          (if j = i then accepts (rf_Kind f) (data ! i) else used fs inst' ?data j)" for j
        using nth other by (intro used_Cons [OF False fi]) fastforce+
      have "filled (f # fs) inst' data"
        unfolding filled_def
      proof
        fix g assume g: "g \<in> set (f # fs)"
        show "if unrec g then map_of inst' (rf_Name g) = Some (zero_of (rf_Kind g))
            else \<exists>i. field_index g inst' = Ret (Some (int i)) \<and> int i \<in> set (slots g) \<and>
                 map_of inst' (rf_Name g) = Some (field_value (rf_Kind g) data i)"
        proof (cases "g = f")
          case True
          with fi i val r(3) fresh False show ?thesis by auto
        next
          case ne: False
          then have g': "g \<in> set fs" using g by simp
          show ?thesis
          proof (cases "unrec g")
            case True
            then show ?thesis using r(4) g' by (auto simp: filled_def)
          next
            case ug: False
            from other [OF g' ug] obtain j where "field_index g inst' = Ret (Some (int j))"
              "int j \<in> set (slots g)" "j \<noteq> i" "map_of inst' (rf_Name g) = Some (field_value (rf_Kind g) ?data j)" by blast
            with ug show ?thesis by (auto simp: field_value_def)
          qed
        qed
      qed
      moreover have "data' ! j = (if used (f # fs) inst' data j then VNil else data ! j)" if "j < length data" for j
        using that r(2,5) used_eq [of j] unused by (auto split: if_splits)
      moreover have "map_of inst' n = map_of inst n" if "n \<notin> rf_Name ` set (f # fs)" for n
        using that r(3) same by auto
      ultimately show ?thesis using r(1,2) turn by (intro exI [of _ inst'] exI [of _ data']) auto
    qed
  qed
qed

subsection \<open>A whole row\<close>

definition unused_args :: "rfield list \<Rightarrow> row \<Rightarrow> gval list \<Rightarrow> (nat \<times> gval) list" where
  "unused_args fs r data = filter (\<lambda>(i, v). v \<noteq> VNil \<and> \<not> used fs r data i) (enumerate 0 data)"

definition row_holds :: "rfield list \<Rightarrow> gval list \<Rightarrow> row \<Rightarrow> bool" where
  "row_holds fs data r \<longleftrightarrow>
     (\<forall>f \<in> set fs.
        if unrec f then
          map_of r (rf_Name f)
            = Some (RMap (if unused_args fs r data = [] then None else Some (unused_args fs r data)))
        else \<exists>i. field_index f r = Ret (Some (int i)) \<and> int i \<in> set (slots f) \<and>
                 map_of r (rf_Name f) = Some (field_value (rf_Kind f) data i))"

lemma enumerate_map: "enumerate 0 xs = map (\<lambda>i. (i, xs ! i)) [0..<length xs]"
  by (intro nth_equalityI) (simp_all add: nth_enumerate_eq)

lemma leftovers_masked:
  assumes "length data' = length data" and "\<forall>j < length data. data' ! j = (if P j then VNil else data ! j)"
  shows "leftovers data' = filter (\<lambda>(i, v). v \<noteq> VNil \<and> \<not> P i) (enumerate 0 data)"
  using assms by (auto simp: leftovers_def enumerate_map filter_map comp_def intro!: map_cong filter_cong split: if_splits)

lemma fields_ok_condition:
  assumes "fields_ok known fs" and "''Unrecognized'' \<notin> set known" and "f \<in> set fs" and "\<not> unrec f"
  shows "rf_conditionField f \<noteq> ''Unrecognized''"
  using assms
proof (induction known fs rule: fields_ok.induct)
  case (2 known g fs)
  then show ?case by (cases "f = g") (auto simp: unrec_def field_ok_def split: if_splits)
qed simp

lemma map_of_new_instance:
  assumes "distinct (map rf_Name fs)" and "f \<in> set fs"
  shows "map_of (new_instance fs) (rf_Name f) = Some (zero_of (rf_Kind f))"
  using assms by (intro map_of_is_SomeI) (auto simp: new_instance_def comp_def)

lemma fields_ok_distinct: "fields_ok known fs \<Longrightarrow> distinct (map rf_Name fs)"
  by (induction known fs rule: fields_ok.induct) auto

lemma fields_ok_unrec_kind: "fields_ok known fs \<Longrightarrow> f \<in> set fs \<Longrightarrow> unrec f \<Longrightarrow> rf_Kind f = KMap"
  by (induction known fs rule: fields_ok.induct) auto

theorem fill_row_spec:
  assumes "row_ok fs"
  shows "\<exists>r. fill_row fs data = Ret r \<and> row_holds fs data r"
proof -
  from assms have ok: "fields_ok [] fs" by (simp add: row_ok_def)
  have "map_of (new_instance fs) (rf_Name f) = Some (zero_of (rf_Kind f))" if "f \<in> set fs" for f
    using map_of_new_instance [OF fields_ok_distinct [OF ok] that] .
  from fill_fields_spec [OF ok _ _ this, of data] obtain inst rest where
    r: "fill_fields fs (new_instance fs) data = Ret (inst, rest)" "length rest = length data"
      "filled fs inst data" "\<forall>j < length data. rest ! j = (if used fs inst data j then VNil else data ! j)"
    by auto
  let ?r = "fill_unrecognized rest inst"
  have other: "map_of ?r n = map_of inst n" if "n \<noteq> ''Unrecognized''" for n
    using that by (auto simp: fill_unrecognized_def map_of_set_field)
  have idx: "field_index f ?r = field_index f inst" if "f \<in> set fs" "\<not> unrec f" for f
    using fields_ok_condition [OF ok _ that] by (intro field_index_cong other) simp
  have used: "used fs ?r data = used fs inst data"
    using idx by (auto simp: used_def fun_eq_iff)
  have left: "leftovers rest = unused_args fs ?r data"
    using leftovers_masked [OF r(2,4)] by (simp add: unused_args_def used)
  have "row_holds fs data ?r"
    unfolding row_holds_def
  proof
    fix f assume f: "f \<in> set fs"
    show "if unrec f then
          map_of ?r (rf_Name f)
            = Some (RMap (if unused_args fs ?r data = [] then None else Some (unused_args fs ?r data)))
        else \<exists>i. field_index f ?r = Ret (Some (int i)) \<and> int i \<in> set (slots f) \<and>
                 map_of ?r (rf_Name f) = Some (field_value (rf_Kind f) data i)"
    proof (cases "unrec f")
      case True
      then have "map_of inst ''Unrecognized'' = Some (RMap None)"
        using r(3) f fields_ok_unrec_kind [OF ok f] by (fastforce simp: filled_def unrec_def)
      with True left show ?thesis
        by (auto simp: unrec_def fill_unrecognized_def map_of_set_field)
    next
      case False
      then show ?thesis using r(3) f idx [OF f False] other by (auto simp: filled_def unrec_def)
    qed
  qed
  with r(1) show ?thesis by (simp add: fill_row_def)
qed

text \<open>Every argument that is not nil is in a field of the row or among its unrecognized values.\<close>

lemma row_holds_nothing_lost:
  assumes "row_holds fs data r" and "i < length data" and "data ! i \<noteq> VNil" and "u \<in> set fs" and "unrec u"
  shows "(\<exists>f \<in> set fs. \<exists>v. \<not> unrec f \<and> assign (rf_Kind f) (data ! i) = Assigned v \<and> map_of r (rf_Name f) = Some v) \<or>
    (\<exists>m. map_of r ''Unrecognized'' = Some (RMap (Some m)) \<and> (i, data ! i) \<in> set m) \<or>
    (\<exists>f \<in> set fs. assign (rf_Kind f) (data ! i) = Dropped)"
proof (cases "used fs r data i")
  case True
  then obtain f where f: "f \<in> set fs" "\<not> unrec f" "field_index f r = Ret (Some (int i))" "accepts (rf_Kind f) (data ! i)"
    by (auto simp: used_def)
  with assms(1-3) have "map_of r (rf_Name f) = Some (field_value (rf_Kind f) data i)"
    unfolding row_holds_def by fastforce
  with f assms(2,3) show ?thesis
    by (cases "assign (rf_Kind f) (data ! i)") (auto simp: field_value_def accepts_def)
next
  case False
  have "(i, data ! i) \<in> set (enumerate 0 data)"
    using assms(2) by (simp add: in_set_enumerate_eq)
  with False assms(3) have "(i, data ! i) \<in> set (unused_args fs r data)" by (simp add: unused_args_def)
  with assms show ?thesis unfolding row_holds_def by (fastforce simp: unrec_def)
qed

subsection \<open>Relations kept by every run\<close>

text \<open>
  A reflexive and transitive relation between decoder states that every primitive update respects
  holds between the state before and the state after any run that returns.
\<close>

definition leads :: "(LightSpeedDecoder \<Rightarrow> LightSpeedDecoder \<Rightarrow> bool) \<Rightarrow> LightSpeedDecoder \<Rightarrow>
    ('a \<times> LightSpeedDecoder) outcome \<Rightarrow> bool" where
  "leads R d x \<longleftrightarrow> (\<forall>v d'. x = Ret (v, d') \<longrightarrow> R d d')"

locale decoder_relation =
  fixes R :: "LightSpeedDecoder \<Rightarrow> LightSpeedDecoder \<Rightarrow> bool"
  assumes R_refl: "R d d"
    and R_trans: "R d d1 \<Longrightarrow> R d1 d2 \<Longrightarrow> R d d2"
    and R_reference: "R d (d\<lparr>StatementReferences := f\<rparr>)"
    and R_clock: "R d (d\<lparr>clock_reads := n\<rparr>)"
    and R_map_set: "R d (map_set a k v d)"
    and R_map_create: "R d (snd (map_create d))"
    and R_array_create: "R d (snd (array_create vs d))"
    and R_array_append: "R d (snd (array_append w a n v d))"
    and R_append_row: "R d (append_row t r d)"
begin

lemma leads_Ret: "R d d' \<Longrightarrow> leads R d (Ret (v, d'))"
  by (simp add: leads_def)

lemma leads_pair: "R d (snd p) \<Longrightarrow> leads R d (Ret p)"
  by (cases p) (simp add: leads_def)

lemma leads_stop: "leads R d Panic" "leads R d Exit"
  by (simp_all add: leads_def)

lemma leads_bind:
  assumes "leads R d x" and "\<And>v d1. R d d1 \<Longrightarrow> leads R d (f (v, d1))"
  shows "leads R d (bind_out x f)"
  using assms by (cases x) (auto simp: leads_def)

lemma leads_trans: "R d d1 \<Longrightarrow> leads R d1 x \<Longrightarrow> leads R d x"
  by (auto simp: leads_def intro: R_trans)

lemma leads_bind_state:
  assumes "\<And>d1. x = Ret d1 \<Longrightarrow> R d d1"
  shows "leads R d (bind_out x (\<lambda>d1. Ret (v, d1)))"
  using assms by (cases x) (auto simp: leads_def)

text \<open>One rule for each way the interpreter branches.\<close>

lemma leads_if: "(c \<Longrightarrow> leads R d x) \<Longrightarrow> (\<not> c \<Longrightarrow> leads R d y) \<Longrightarrow> leads R d (if c then x else y)"
  by simp

lemma leads_list:
  "(xs = [] \<Longrightarrow> leads R d x) \<Longrightarrow> (\<And>y ys. xs = y # ys \<Longrightarrow> leads R d (f y ys)) \<Longrightarrow>
     leads R d (case xs of [] \<Rightarrow> x | y # ys \<Rightarrow> f y ys)"
  by (cases xs) simp_all

lemma leads_option:
  "(o' = None \<Longrightarrow> leads R d x) \<Longrightarrow> (\<And>y. o' = Some y \<Longrightarrow> leads R d (f y)) \<Longrightarrow>
     leads R d (case o' of None \<Rightarrow> x | Some y \<Rightarrow> f y)"
  by (cases o') simp_all

lemma leads_prod: "(\<And>a b. p = (a, b) \<Longrightarrow> leads R d (f a b)) \<Longrightarrow> leads R d (case p of (a, b) \<Rightarrow> f a b)"
  by (cases p) simp

lemma leads_step:
  assumes "leads R d x1" "\<And>b. leads R d (x2 b)" "\<And>r. s = SNum r \<Longrightarrow> leads R d (x3 r)" "\<And>t. s = SStr t \<Longrightarrow> leads R d (x4 t)"
    "\<And>ys. s = SArr ys \<Longrightarrow> leads R d (x5 ys)" "\<And>a. leads R d (x6 a)"
  shows "leads R d (case s of SNull \<Rightarrow> x1 | SBool b \<Rightarrow> x2 b | SNum r \<Rightarrow> x3 r | SStr t \<Rightarrow> x4 t | SArr ys \<Rightarrow> x5 ys | SObj a \<Rightarrow> x6 a)"
  using assms by (cases s) simp_all

lemma leads_gval:
  assumes "leads R d x1" "\<And>b. leads R d (x2 b)" "\<And>i. leads R d (x3 i)" "\<And>i. leads R d (x4 i)" "\<And>r. leads R d (x5 r)"
    "\<And>t. leads R d (x6 t)" "\<And>bs. leads R d (x7 bs)" "\<And>a n. leads R d (x8 a n)" "\<And>a. leads R d (x9 a)"
  shows "leads R d (case v of VNil \<Rightarrow> x1 | VBool b \<Rightarrow> x2 b | VInt64 i \<Rightarrow> x3 i | VInt i \<Rightarrow> x4 i | VFloat r \<Rightarrow> x5 r
    | VStr t \<Rightarrow> x6 t | VBytes bs \<Rightarrow> x7 bs | VSlice a n \<Rightarrow> x8 a n | VMap a \<Rightarrow> x9 a)"
  using assms by (cases v) simp_all

lemmas leads_rules = leads_if leads_list leads_option leads_prod leads_step leads_gval leads_bind
  leads_Ret leads_stop

lemma R_then:
  assumes "R d d1"
  shows "R d (d1\<lparr>StatementReferences := f\<rparr>)" "R d (d1\<lparr>clock_reads := n\<rparr>)" "R d (map_set a k v d1)"
    "R d (snd (map_create d1))" "R d (snd (array_create vs d1))" "R d (snd (array_append w i n v d1))"
    "R d (append_row t r d1)"
  using R_trans [OF assms] R_reference R_clock R_map_set R_map_create R_array_create R_array_append
    R_append_row by blast+

lemma array_create_then: "R d d1 \<Longrightarrow> array_create vs d1 = (a, d2) \<Longrightarrow> R d d2"
  using R_then(5) [of d d1 vs] by simp

lemma decode_block_leads:
  assumes "\<And>s d. s \<in> set ss \<Longrightarrow> leads R d (Decode w s d)" and "decode_block w ss d = Ret d'"
  shows "R d d'"
  using assms
proof (induction ss arbitrary: d)
  case (Cons s ss)
  show ?case
  proof (cases s)
    case (SArr xs)
    with Cons.prems(2) obtain v d1 where "Decode w s d = Ret (v, d1)" "decode_block w ss d1 = Ret d'"
      by (auto simp: bind_out_Ret_iff)
    with Cons show ?thesis by (fastforce simp: leads_def intro: R_trans)
  qed (use Cons in auto)
qed (simp add: R_refl)

lemma decode_args_leads:
  assumes "\<And>s d. s \<in> set ss \<Longrightarrow> leads R d (Decode w s d)" and "decode_args w ss d = Ret (vs, d')"
  shows "R d d'"
  using assms
proof (induction ss arbitrary: d vs)
  case (Cons s ss)
  from Cons.prems(2) obtain v d1 ws where "Decode w s d = Ret (v, d1)" "decode_args w ss d1 = Ret (ws, d')"
    by (auto simp: bind_out_Ret_iff)
  with Cons show ?case by (fastforce simp: leads_def intro: R_trans)
qed (simp add: R_refl)

lemma handleStoredProcedure_leads:
  assumes "\<And>s d. s \<in> set ss \<Longrightarrow> leads R d (Decode w s d)" and "handleStoredProcedure w n ss d = Ret d'"
  shows "R d d'"
proof -
  have "R d1 d2" if "decode_args w ss d1 = Ret (vs, d2)" for d1 vs d2
    using assms(1) that by (rule decode_args_leads)
  with assms(2) show ?thesis
    by (auto simp: bind_out_Ret_iff R_refl split: option.splits intro: R_then)
qed

lemma Decode_leads: "leads R d (Decode w s d)"
proof (induction s arbitrary: d rule: measure_induct_rule [where f = size])
  case (less s)
  show ?case
  proof (cases s)
    case (SArr xs)
    show ?thesis
    proof (cases "\<exists>r stepData. xs = SNum r # stepData")
      case True
      then obtain r stepData where s: "s = SArr (SNum r # stepData)" using SArr by auto
      have sub: "leads R d' (Decode w s' d')" if "s' \<in> set stepData" for s' d'
        using size_list_estimation' [OF that, of "size s'" size] by (intro less) (simp add: s)
      have tail: "leads R d' (Decode w (SArr ys) d')" if "size_list size ys < size_list size (SNum r # stepData)" for ys d'
        using that by (intro less) (simp add: s)
      note onward = leads_trans [OF _ sub] leads_trans [OF R_reference tail]
      have block: "R d d1" if "decode_block w stepData d = Ret d1" for d1
        using sub that by (rule decode_block_leads)
      have call: "R d d1" if "stepData = x # data" "handleStoredProcedure w n data d = Ret d1" for x data n d1
        using that by (intro handleStoredProcedure_leads [of data]) (simp_all add: sub)
      show ?thesis
        unfolding s
        by (subst Decode.simps(6), unfold Let_def,
            (intro leads_if; (intro leads_rules leads_bind_state leads_pair)?),
            auto intro: block call R_refl R_then onward array_create_then simp: list.set_intros)
    next
      case False
      with SArr show ?thesis by (cases xs rule: list.exhaust; cases "hd xs") (auto intro: leads_stop)
    qed
  qed (auto intro: leads_Ret R_refl)
qed

end

text \<open>The table only grows: a run appends rows behind the ones that are there.\<close>

definition table_grows :: "LightSpeedDecoder \<Rightarrow> LightSpeedDecoder \<Rightarrow> bool" where
  "table_grows d d' \<longleftrightarrow> (\<forall>t. \<exists>rs. Table d' t = Table d t @ rs)"

interpretation grows: decoder_relation table_grows
proof
  show "table_grows d d2" if "table_grows d d1" "table_grows d1 d2" for d d1 d2
    using that unfolding table_grows_def by (metis append.assoc)
qed (auto simp: table_grows_def map_set_def map_create_def array_create_def array_append_def append_row_def Let_def)

text \<open>Addresses are handed out once, and the clock is read forwards.\<close>

definition counters_grow :: "LightSpeedDecoder \<Rightarrow> LightSpeedDecoder \<Rightarrow> bool" where
  "counters_grow d d' \<longleftrightarrow> next_addr d \<le> next_addr d'"

interpretation counters: decoder_relation counters_grow
  by unfold_locales (auto simp: counters_grow_def map_set_def map_create_def array_create_def
      array_append_def append_row_def Let_def)

subsection \<open>Programs that cannot panic\<close>

lemma size_mem_steps [termination_simp]: "s \<in> set ss \<Longrightarrow> size s < Suc (Suc (size_list size ss))"
  using size_list_estimation' [of s ss "size s" size] by simp

text \<open>The shapes that the unchecked accesses of \<open>Decode\<close> rely on.\<close>

function (sequential) wf_step :: "world \<Rightarrow> step \<Rightarrow> bool" where
  "wf_step w (SArr (SNum r # stepData)) \<longleftrightarrow>
    (let stepType = sint (float_to_int64 w r)
     in if stepType = BLOCK then \<forall>s \<in> set stepData. wf_step w s
        else if stepType = STORE then
          (case stepData of SNum _ # s1 # _ \<Rightarrow> wf_step w s1 | _ \<Rightarrow> False)
        else if stepType = STORE_ARRAY then
          (case stepData of SNum _ # SNum v # rest \<Rightarrow> wf_step w (SArr (SNum v # rest)) | _ \<Rightarrow> False)
        else if stepType = CALL_STORED_PROCEDURE then
          stepData \<noteq> [] \<and> (\<forall>s \<in> set stepData. wf_step w s)
        else if stepType = IF_step then
          length stepData \<ge> 2 \<and> (\<forall>s \<in> set stepData. wf_step w s)
        else if stepType = NATIVE_OP_MAP_SET then
          length stepData \<ge> 3 \<and> (\<forall>s \<in> set stepData. wf_step w s)
        else if stepType \<in> {NATIVE_OP_ARRAY_APPEND, I64_ADD, I64_EQUAL} then
          length stepData \<ge> 2 \<and> (\<forall>s \<in> set stepData. wf_step w s)
        else if stepType \<in> {NOT_step, NATIVE_OP_ARRAY_GET_SIZE} then
          length stepData \<ge> 1 \<and> (\<forall>s \<in> set stepData. wf_step w s)
        else if stepType \<in> {LOAD, I64_FROM_STRING, LOGGER_LOG, TO_BLOB} then stepData \<noteq> []
        else True)"
| "wf_step w (SArr _) \<longleftrightarrow> False"
| "wf_step w _ \<longleftrightarrow> True"
  by pat_completeness auto

termination
  by (relation "measure (\<lambda>(w, s). size s)") (auto simp: size_mem_steps)

declare wf_step.simps(1) [simp del]

definition schema_ok :: "schema \<Rightarrow> bool" where
  "schema_ok sc \<longleftrightarrow> (\<forall>t fs data. map_of sc t = Some fs \<longrightarrow> (\<exists>r. fill_row fs data = Ret r))"

lemma schema_ok_rows: "list_all (\<lambda>(t, fs). row_ok fs) sc \<Longrightarrow> schema_ok sc"
  unfolding schema_ok_def using fill_row_spec by (metis (mono_tags, lifting) case_prodD list_all_iff map_of_SomeD)

definition returns :: "'a outcome \<Rightarrow> bool" where
  "returns x \<longleftrightarrow> (\<exists>y. x = Ret y)"

lemma returns_Ret [simp]: "returns (Ret y)"
  by (simp add: returns_def)

lemma returns_bind: "returns x \<Longrightarrow> (\<And>y. x = Ret y \<Longrightarrow> returns (f y)) \<Longrightarrow> returns (bind_out x f)"
  by (auto simp: returns_def)

lemma returns_if: "(c \<Longrightarrow> returns x) \<Longrightarrow> (\<not> c \<Longrightarrow> returns y) \<Longrightarrow> returns (if c then x else y)"
  by simp

lemma returns_list:
  "(xs = [] \<Longrightarrow> returns x) \<Longrightarrow> (\<And>y ys. xs = y # ys \<Longrightarrow> returns (f y ys)) \<Longrightarrow>
     returns (case xs of [] \<Rightarrow> x | y # ys \<Rightarrow> f y ys)"
  by (cases xs) simp_all

lemma returns_option:
  "returns x \<Longrightarrow> (\<And>y. returns (f y)) \<Longrightarrow> returns (case o' of None \<Rightarrow> x | Some y \<Rightarrow> f y)"
  by (cases o') simp_all

lemma returns_prod: "(\<And>a b. returns (f a b)) \<Longrightarrow> returns (case p of (a, b) \<Rightarrow> f a b)"
  by (cases p) simp

lemma returns_step:
  assumes "s = SNull \<Longrightarrow> returns x1" "\<And>b. s = SBool b \<Longrightarrow> returns (x2 b)" "\<And>r. s = SNum r \<Longrightarrow> returns (x3 r)"
    "\<And>t. s = SStr t \<Longrightarrow> returns (x4 t)" "\<And>ys. s = SArr ys \<Longrightarrow> returns (x5 ys)" "\<And>a. s = SObj a \<Longrightarrow> returns (x6 a)"
  shows "returns (case s of SNull \<Rightarrow> x1 | SBool b \<Rightarrow> x2 b | SNum r \<Rightarrow> x3 r | SStr t \<Rightarrow> x4 t | SArr ys \<Rightarrow> x5 ys | SObj a \<Rightarrow> x6 a)"
  using assms by (cases s) simp_all

lemma returns_gval:
  assumes "returns x1" "\<And>b. returns (x2 b)" "\<And>i. returns (x3 i)" "\<And>i. returns (x4 i)" "\<And>r. returns (x5 r)"
    "\<And>t. returns (x6 t)" "\<And>bs. returns (x7 bs)" "\<And>a n. returns (x8 a n)" "\<And>a. returns (x9 a)"
  shows "returns (case v of VNil \<Rightarrow> x1 | VBool b \<Rightarrow> x2 b | VInt64 i \<Rightarrow> x3 i | VInt i \<Rightarrow> x4 i | VFloat r \<Rightarrow> x5 r
    | VStr t \<Rightarrow> x6 t | VBytes bs \<Rightarrow> x7 bs | VSlice a n \<Rightarrow> x8 a n | VMap a \<Rightarrow> x9 a)"
  using assms by (cases v) simp_all

lemmas returns_rules = returns_if returns_list returns_option returns_prod returns_step returns_gval
  returns_bind returns_Ret

lemmas step_types = BLOCK_def LOAD_def STORE_def STORE_ARRAY_def CALL_STORED_PROCEDURE_def
  CALL_NATIVE_OPERATION_def UNDEFINED_def TO_BLOB_def I64_FROM_STRING_def IF_step_def NOT_step_def
  I64_EQUAL_def LOGGER_LOG_def NATIVE_OP_ARRAY_CREATE_def NATIVE_OP_ARRAY_APPEND_def
  NATIVE_OP_ARRAY_GET_SIZE_def NATIVE_OP_MAP_CREATE_def NATIVE_OP_MAP_SET_def NATIVE_OP_CURRENT_TIME_def
  I64_ADD_def

lemma decode_block_returns:
  "(\<And>s d. s \<in> set ss \<Longrightarrow> returns (Decode w s d)) \<Longrightarrow> returns (decode_block w ss d)"
  by (induction ss arbitrary: d) (auto split: step.split intro!: returns_bind)

lemma decode_args_returns:
  "(\<And>s d. s \<in> set ss \<Longrightarrow> returns (Decode w s d)) \<Longrightarrow> returns (decode_args w ss d)"
  by (induction ss arbitrary: d) (auto intro!: returns_bind)

lemma handleStoredProcedure_returns:
  assumes "schema_ok (w_schema w)" and "\<And>s d. s \<in> set ss \<Longrightarrow> returns (Decode w s d)"
  shows "returns (handleStoredProcedure w n ss d)"
proof -
  have "returns (fill_row fs data)" if "map_of (w_schema w) t = Some fs" for t fs data
    using assms(1) that by (auto simp: schema_ok_def returns_def)
  with decode_args_returns [OF assms(2)] show ?thesis
    by (auto split: option.split intro!: returns_bind)
qed

lemma Decode_returns: "schema_ok (w_schema w) \<Longrightarrow> wf_step w s \<Longrightarrow> returns (Decode w s d)"
proof (induction s arbitrary: d rule: measure_induct_rule [where f = size])
  case (less s)
  note sc = less.prems(1)
  show ?case
  proof (cases "\<exists>r stepData. s = SArr (SNum r # stepData)")
    case True
    then obtain r stepData where s: "s = SArr (SNum r # stepData)" by auto
    have sub: "returns (Decode w s' d')" if "s' \<in> set stepData" "wf_step w s'" for s' d'
      using size_list_estimation' [OF that(1), of "size s'" size] that(2) sc by (intro less.IH) (simp_all add: s)
    have tail: "returns (Decode w (SArr (SNum v # rest)) d')"
      if "stepData = x # SNum v # rest" "wf_step w (SArr (SNum v # rest))" for x v rest d'
      using that sc by (intro less.IH) (simp_all add: s)
    have call: "returns (handleStoredProcedure w n data d')"
      if "stepData = SStr n # data" "\<forall>s \<in> set stepData. wf_step w s" for n data d'
      using that sub by (intro handleStoredProcedure_returns [OF sc]) auto
    have block: "returns (decode_block w stepData d')" if "\<forall>s \<in> set stepData. wf_step w s" for d'
      using that sub by (intro decode_block_returns) auto
    show ?thesis
      using less.prems(2) unfolding s
      by (subst (asm) wf_step.simps(1), subst Decode.simps(6), unfold Let_def, intro returns_rules)
        (auto simp: step_types intro!: sub tail call block split: step.splits
          simp del: handleStoredProcedure.simps)
  next
    case False
    with less.prems(2) show ?thesis by (cases "(w, s)" rule: wf_step.cases) auto
  qed
qed

subsection \<open>Transactions\<close>

text \<open>Arguments that are values: JSON scalars, the undefined value and integer literals.\<close>

fun literal_value :: "world \<Rightarrow> step \<Rightarrow> gval option" where
  "literal_value w SNull = Some VNil"
| "literal_value w (SBool b) = Some (VBool b)"
| "literal_value w (SNum r) = Some (VFloat r)"
| "literal_value w (SStr s) = Some (VStr s)"
| "literal_value w (SObj a) = Some (VMap a)"
| "literal_value w (SArr (SNum r # stepData)) =
    (let stepType = sint (float_to_int64 w r)
     in if stepType = UNDEFINED then Some VNil
        else if stepType = I64_FROM_STRING then
          (case stepData of
             SStr s # _ \<Rightarrow> (case parse_int s of (i, None) \<Rightarrow> Some (VInt64 (word_of_int i)) | _ \<Rightarrow> None)
           | _ \<Rightarrow> None)
        else None)"
| "literal_value w (SArr _) = None"

definition call_step :: "string \<times> step list \<Rightarrow> step" where
  "call_step c = SArr (SNum 5 # SStr (fst c) # snd c)"

definition transaction :: "(string \<times> step list) list \<Rightarrow> step" where
  "transaction calls = SArr (SNum 1 # map call_step calls)"

definition literals :: "world \<Rightarrow> step list \<Rightarrow> gval list option" where
  "literals w ss = those (map (literal_value w) ss)"

text \<open>The rows a call adds to the field \<open>t\<close> of the table.\<close>

definition rows_for :: "world \<Rightarrow> string \<Rightarrow> string \<times> step list \<Rightarrow> row list" where
  "rows_for w t c =
     (if w_Dependencies w (fst c) = Some t then
        (case (map_of (w_schema w) t, literals w (snd c)) of
           (Some fs, Some vs) \<Rightarrow> (case fill_row fs vs of Ret r \<Rightarrow> [r] | _ \<Rightarrow> [])
         | _ \<Rightarrow> [])
      else [])"

lemma sint_float_numeral [simp]:
  "sint (float_to_int64 w (numeral n)) = numeral n" if "(numeral n :: int) < 2 ^ 63"
proof -
  have "truncate_rat (numeral n) = numeral n" by (simp add: truncate_rat_def)
  with that show ?thesis
    by (simp add: float_to_int64_def Let_def signed_take_bit_int_eq_self)
qed

lemma sint_float_1 [simp]: "sint (float_to_int64 w 1) = 1"
  by (simp add: float_to_int64_def truncate_rat_def Let_def)

lemma literal_Decode: "literal_value w s = Some v \<Longrightarrow> Decode w s d = Ret (v, d)"
proof (induction w s rule: literal_value.induct)
  case (6 w r stepData)
  consider (undef) "sint (float_to_int64 w r) = 9" "v = VNil"
    | (num) t xs i where "sint (float_to_int64 w r) = 19" "stepData = SStr t # xs" "parse_int t = (i, None)"
        "v = VInt64 (word_of_int i)"
    using 6 by (auto simp: Let_def step_types split: if_splits list.splits step.splits prod.splits option.splits)
  then show ?case
    by cases (subst Decode.simps(6), simp add: step_types)+
qed auto

lemma literals_Cons:
  "literals w (s # ss) = Some vs \<longleftrightarrow>
     (\<exists>v ws. vs = v # ws \<and> literal_value w s = Some v \<and> literals w ss = Some ws)"
  by (auto simp: literals_def split: option.splits)

lemma literals_decode_args: "literals w ss = Some vs \<Longrightarrow> decode_args w ss d = Ret (vs, d)"
proof (induction ss arbitrary: vs)
  case (Cons s ss)
  then show ?case by (auto simp: literals_Cons literal_Decode)
qed (simp add: literals_def)

lemma call_literals:
  assumes "schema_ok (w_schema w)" and "literals w (snd c) = Some vs"
  shows "handleStoredProcedure w (fst c) (snd c) d = Ret (d\<lparr>Table := \<lambda>t. Table d t @ rows_for w t c\<rparr>)"
proof (cases "w_Dependencies w (fst c)")
  case (Some t)
  show ?thesis
  proof (cases "map_of (w_schema w) t")
    case None
    with Some assms show ?thesis by (simp add: rows_for_def fun_eq_iff)
  next
    case fs: (Some fs)
    then obtain r where r: "fill_row fs vs = Ret r" using assms(1) unfolding schema_ok_def by blast
    have "Table (append_row t r d) = (\<lambda>t. Table d t @ rows_for w t c)"
      using Some fs r assms(2) by (auto simp: append_row_def rows_for_def)
    then show ?thesis
      using Some fs r assms(2) by (simp add: literals_decode_args append_row_def)
  qed
qed (simp add: rows_for_def)

lemma transaction_block:
  assumes "schema_ok (w_schema w)" and "\<forall>c \<in> set calls. literals w (snd c) \<noteq> None"
  shows "decode_block w (map call_step calls) d
    = Ret (d\<lparr>Table := \<lambda>t. Table d t @ concat (map (rows_for w t) calls)\<rparr>)"
  using assms(2)
proof (induction calls arbitrary: d)
  case (Cons c calls)
  from Cons.prems obtain vs where vs: "literals w (snd c) = Some vs" by auto
  have "Decode w (call_step c) d = Ret (VNil, d\<lparr>Table := \<lambda>t. Table d t @ rows_for w t c\<rparr>)"
    unfolding call_step_def using call_literals [OF assms(1) vs]
    by (subst Decode.simps(6)) (simp add: step_types del: handleStoredProcedure.simps)
  moreover have "\<exists>xs. call_step c = SArr xs" by (simp add: call_step_def)
  ultimately show ?case using Cons by auto
qed simp

text \<open>A condition that is an equality is a boolean, which \<open>IF\<close> refuses: neither branch runs.\<close>

lemma IF_equality:
  assumes "Decode w (SArr (SNum 30 # operands)) d = Ret (v, d1)"
  shows "Decode w (SArr (SNum 23 # SArr (SNum 30 # operands) # branches)) d = Ret (VNil, d1)"
proof -
  have body: False if "bind_out (Decode w s0 d) f = Ret (VInt64 i, d1)"
      "\<And>a d2. f (a, d2) = Ret (VInt64 i, d1) \<Longrightarrow> False" for s0 d f i
    using that by (cases "Decode w s0 d") auto
  have "\<forall>i. v \<noteq> VInt64 i"
    using assms
    by (subst (asm) Decode.simps(6))
      (auto simp: step_types split: list.splits gval.splits elim!: body)
  then show ?thesis
    using assms by (subst Decode.simps(6)) (auto simp: step_types split: gval.split)
qed

subsection \<open>Checking a descriptor\<close>

text \<open>
  A check in one pass: the positions of each field lie above those of the fields before it. The
  names are compared by a number computed from them once, since comparing long strings in pairs is
  slow in the kernel.
\<close>

definition name_number :: "string \<Rightarrow> int" where
  "name_number s = foldl (\<lambda>n c. 2 * n + of_char c) 0 s"

fun fields_check :: "string list \<Rightarrow> int \<Rightarrow> rfield list \<Rightarrow> bool" where
  "fields_check known lo [] \<longleftrightarrow> True"
| "fields_check known lo (f # fs) \<longleftrightarrow>
     (if unrec f then rf_Kind f = KMap \<and> fields_check known lo fs
      else
        let is = slots f
        in field_ok known f \<and> list_all (\<lambda>i. lo < i) is \<and>
           fields_check (if rf_Kind f = KBool then rf_Name f # known else known) (foldl max lo is) fs)"

lemma foldl_max_ge: "(lo :: int) \<le> foldl max lo is \<and> (\<forall>i \<in> set is. i \<le> foldl max lo is)"
proof (induction "is" arbitrary: lo)
  case (Cons i "is")
  from Cons [of "max lo i"] show ?case by auto
qed simp

lemma fields_check_above: "fields_check known lo fs \<Longrightarrow> g \<in> set fs \<Longrightarrow> \<not> unrec g \<Longrightarrow> j \<in> set (slots g) \<Longrightarrow> lo < j"
proof (induction known lo fs rule: fields_check.induct)
  case (2 known lo f fs)
  show ?case
  proof (cases "unrec f")
    case False
    with 2 show ?thesis
      by (cases "g = f") (auto simp: Let_def list_all_iff intro: le_less_trans [OF conjunct1 [OF foldl_max_ge]])
  qed (use 2 in auto)
qed simp

lemma fields_check_ok: "fields_check known lo fs \<Longrightarrow> distinct (map rf_Name fs) \<Longrightarrow> fields_ok known fs"
proof (induction known lo fs rule: fields_check.induct)
  case (2 known lo f fs)
  have names: "rf_Name f \<notin> rf_Name ` set fs" using "2.prems" by simp
  show ?case
  proof (cases "unrec f")
    case True
    then show ?thesis using 2 names by auto
  next
    case False
    then have ck: "fields_check (if rf_Kind f = KBool then rf_Name f # known else known) (foldl max lo (slots f)) fs"
      using "2.prems" by (simp add: Let_def)
    have "i < j" if "g \<in> set fs" "\<not> unrec g" "i \<in> set (slots f)" "j \<in> set (slots g)" for g i j
      using fields_check_above [OF ck that(1,2,4)] foldl_max_ge [of lo "slots f"] that(3) by fastforce
    then have "list_all (\<lambda>g. unrec g \<or> list_all (\<lambda>i. list_all (\<lambda>j. i < j) (slots g)) (slots f)) fs"
      by (auto simp: list_all_iff)
    with False 2 ck names show ?thesis by (simp add: Let_def)
  qed
qed simp

definition row_check :: "rfield list \<Rightarrow> bool" where
  "row_check fs \<longleftrightarrow> distinct (map (\<lambda>f. name_number (rf_Name f)) fs) \<and> fields_check [] (- 1) fs"

lemma row_ok_check: "row_check fs \<Longrightarrow> row_ok fs"
proof -
  assume ck: "row_check fs"
  then have "distinct (map name_number (map rf_Name fs))" by (simp add: row_check_def comp_def)
  then have "distinct (map rf_Name fs)" by (simp only: distinct_map)
  with ck show ?thesis unfolding row_ok_def row_check_def by (blast intro: fields_check_ok)
qed

subsection \<open>Descriptors with clashing positions\<close>

text \<open>Without the growth of positions a row is still filled without panic.\<close>

fun fields_safe :: "string list \<Rightarrow> rfield list \<Rightarrow> bool" where
  "fields_safe known [] \<longleftrightarrow> True"
| "fields_safe known (f # fs) \<longleftrightarrow>
     (unrec f \<or> field_ok known f) \<and>
     fields_safe (if rf_Kind f = KBool \<and> \<not> unrec f then rf_Name f # known else known) fs"

lemma fill_fields_returns:
  assumes "fields_safe known fs" and "distinct (map rf_Name fs)" and "set known \<inter> rf_Name ` set fs = {}"
    and "\<And>n. n \<in> set known \<Longrightarrow> \<exists>b. map_of inst n = Some (RBool b)"
    and "\<And>f. f \<in> set fs \<Longrightarrow> map_of inst (rf_Name f) = Some (zero_of (rf_Kind f))"
  shows "returns (fill_fields fs inst data)"
  using assms
proof (induction known fs arbitrary: inst data rule: fields_safe.induct)
  case (2 known f fs)
  let ?known = "if rf_Kind f = KBool \<and> \<not> unrec f then rf_Name f # known else known"
  have ok: "fields_safe ?known fs" and dist: "distinct (map rf_Name fs)" and fresh: "rf_Name f \<notin> rf_Name ` set fs"
    and disj: "set ?known \<inter> rf_Name ` set fs = {}"
    using "2.prems"(1,2,3) by auto
  show ?case
  proof (cases "unrec f")
    case True
    then show ?thesis using "2.IH" [OF ok dist disj] "2.prems"(4,5) by (simp add: unrec_def)
  next
    case False
    with "2.prems"(1) have fok: "field_ok known f" by simp
    then have kinds: "rf_Kind f \<noteq> KSlice" "rf_Kind f \<noteq> KMap" by (simp_all add: field_ok_def)
    obtain i where i: "field_index f inst = Ret (Some (int i))" "int i \<in> set (slots f)"
      using field_index_slot [OF fok "2.prems"(4)] by blast
    show ?thesis
    proof (cases "i < length data")
      case True
      let ?data = "if accepts (rf_Kind f) (data ! i) then data[i := VNil] else data"
      obtain inst1 where turn: "fill_fields (f # fs) inst data = fill_fields fs inst1 ?data"
        and val: "map_of inst1 (rf_Name f) = Some (field_value (rf_Kind f) data i)"
        and same: "\<And>n. n \<noteq> rf_Name f \<Longrightarrow> map_of inst1 n = map_of inst n"
        using fill_fields_turn [OF False i(1) True kinds "2.prems"(5) [of f]] by auto
      have bools: "\<exists>b. map_of inst1 n = Some (RBool b)" if "n \<in> set ?known" for n
        using that "2.prems"(3,4) val same False
        by (cases "n = rf_Name f") (auto simp: field_value_def split: if_splits assigned.splits gval.splits)
      have zero: "map_of inst1 (rf_Name g) = Some (zero_of (rf_Kind g))" if "g \<in> set fs" for g
        using that fresh same "2.prems"(5) by (metis image_eqI list.set_intros(2))
      show ?thesis unfolding turn by (rule "2.IH" [OF ok dist disj bools zero])
    qed (use i False in \<open>simp add: unrec_def\<close>)
  qed
qed simp

definition row_safe :: "rfield list \<Rightarrow> bool" where
  "row_safe fs \<longleftrightarrow> distinct (map (\<lambda>f. name_number (rf_Name f)) fs) \<and> fields_safe [] fs"

lemma name_number_distinct: "distinct (map (\<lambda>f. name_number (rf_Name f)) fs) \<Longrightarrow> distinct (map rf_Name fs)"
  by (auto simp: distinct_map inj_on_def)

lemma row_safe_fill: "row_safe fs \<Longrightarrow> \<exists>r. fill_row fs data = Ret r"
proof -
  assume "row_safe fs"
  then have dist: "distinct (map rf_Name fs)" and safe: "fields_safe [] fs"
    by (simp_all add: row_safe_def name_number_distinct)
  have "map_of (new_instance fs) (rf_Name f) = Some (zero_of (rf_Kind f))" if "f \<in> set fs" for f
    using map_of_new_instance [OF dist that] .
  from fill_fields_returns [OF safe dist _ _ this, of data] show ?thesis
    by (auto simp: fill_row_def returns_def)
qed

text \<open>
  Of two fields with the same position and kind the second never gets a value: the first one takes
  the argument, or both refuse it.
\<close>

definition blocked :: "rkind \<Rightarrow> int \<Rightarrow> gval list \<Rightarrow> bool" where
  "blocked k i data \<longleftrightarrow>
     i < 0 \<or> i \<ge> int (length data) \<or> data ! nat i = VNil \<or> assign k (data ! nat i) = Refused"

lemma blocked_update: "blocked k i data \<Longrightarrow> blocked k i (data[j := VNil])"
  by (cases "j = nat i") (auto simp: blocked_def)

definition plain :: "rfield \<Rightarrow> int \<Rightarrow> bool" where
  "plain f i \<longleftrightarrow> rf_conditionField f = '''' \<and> fst (Atoi (rf_index f)) = i"

lemma fill_fields_ConsE:
  assumes "fill_fields (f # fs) inst data = Ret (inst', data')"
  obtains (skip) "fill_fields fs inst data = Ret (inst', data')"
      "\<And>j. \<not> unrec f \<Longrightarrow> field_index f inst = Ret (Some j) \<Longrightarrow> blocked (rf_Kind f) j data"
    | (stop) j where "field_index f inst = Ret (Some j)" "j \<ge> int (length data)" "inst' = inst" "data' = data"
    | (drop) j where "field_index f inst = Ret (Some j)"
        "fill_fields fs inst (data[nat j := VNil]) = Ret (inst', data')"
    | (set) j v where "field_index f inst = Ret (Some j)" "\<not> blocked (rf_Kind f) j data"
        "fill_fields fs (set_field (rf_Name f) v inst) (data[nat j := VNil]) = Ret (inst', data')"
proof (cases "unrec f")
  case True
  with assms show thesis by (intro skip) (simp_all add: unrec_def)
next
  case False
  with assms obtain oi where oi: "field_index f inst = Ret oi" by (auto simp: unrec_def bind_out_Ret_iff)
  show thesis
  proof (cases oi)
    case None
    with False oi assms show thesis by (intro skip) (simp_all add: unrec_def)
  next
    case (Some j)
    note eq = assms False oi Some
    show thesis
    proof (cases "j \<ge> int (length data)")
      case True
      with eq show thesis by (intro stop [of j]) (simp_all add: unrec_def)
    next
      case small: False
      with eq have j: "\<not> j < 0" by (auto simp: unrec_def)
      show thesis
      proof (cases "data ! nat j = VNil")
        case True
        with eq small j show thesis by (intro skip) (auto simp: unrec_def Let_def blocked_def)
      next
        case nn: False
        show thesis
        proof (cases "assign (rf_Kind f) (data ! nat j)")
          case Refused
          with eq small j nn show thesis by (intro skip) (auto simp: unrec_def Let_def blocked_def)
        next
          case Dropped
          with eq small j nn show thesis by (intro drop [of j]) (auto simp: unrec_def Let_def)
        next
          case (Assigned v)
          with eq small j nn show thesis by (intro set [of j v]) (auto simp: unrec_def Let_def blocked_def)
        qed
      qed
    qed
  qed
qed

lemma fill_fields_blocked:
  assumes "fill_fields fs inst data = Ret (inst', data')" and "blocked (rf_Kind g) i data" and "plain g i"
    and "\<And>f. f \<in> set fs \<Longrightarrow> rf_Name f = rf_Name g \<Longrightarrow> f = g"
  shows "map_of inst' (rf_Name g) = map_of inst (rf_Name g)"
  using assms
proof (induction fs arbitrary: inst data)
  case (Cons f fs)
  have IH: "map_of inst' (rf_Name g) = map_of inst1 (rf_Name g)"
    if "fill_fields fs inst1 data1 = Ret (inst', data')" "blocked (rf_Kind g) i data1" for inst1 data1
    using Cons.IH [OF that Cons.prems(3)] Cons.prems(4) by simp
  from Cons.prems(1) show ?case
  proof (cases rule: fill_fields_ConsE)
    case (set j v)
    have "f \<noteq> g" using set(1,2) Cons.prems(2,3) by (auto simp: plain_def field_index_def)
    then have "rf_Name f \<noteq> rf_Name g" using Cons.prems(4) [of f] by auto
    with IH [OF set(3)] Cons.prems(2) show ?thesis by (simp add: map_of_set_field blocked_update)
  qed (use IH Cons.prems(2) in \<open>auto simp: blocked_update\<close>)
qed simp

text \<open>A field \<open>g\<close> that follows a field with its position and kind.\<close>

fun shadowed :: "rfield \<Rightarrow> int \<Rightarrow> rfield list \<Rightarrow> bool" where
  "shadowed g i [] \<longleftrightarrow> False"
| "shadowed g i (f # fs) \<longleftrightarrow>
     rf_Name f \<noteq> rf_Name g \<and>
     (plain f i \<and> \<not> unrec f \<and> rf_Kind f = rf_Kind g \<and> plain g i \<or> shadowed g i fs)"

lemma fill_fields_shadowed:
  assumes "fill_fields fs inst data = Ret (inst', data')" and "shadowed g i fs" and "plain g i"
    and "\<And>f. f \<in> set fs \<Longrightarrow> rf_Name f = rf_Name g \<Longrightarrow> f = g"
  shows "map_of inst' (rf_Name g) = map_of inst (rf_Name g)"
  using assms
proof (induction fs arbitrary: inst data)
  case (Cons f fs)
  have ne: "rf_Name f \<noteq> rf_Name g" using Cons.prems(2) by simp
  have blocked: "map_of inst' (rf_Name g) = map_of inst1 (rf_Name g)"
    if "fill_fields fs inst1 data1 = Ret (inst', data')" "blocked (rf_Kind g) i data1" for inst1 data1
    using fill_fields_blocked [OF that Cons.prems(3)] Cons.prems(4) by simp
  have IH: "map_of inst' (rf_Name g) = map_of inst1 (rf_Name g)"
    if "fill_fields fs inst1 data1 = Ret (inst', data')" "shadowed g i fs" for inst1 data1
    using Cons.IH [OF that Cons.prems(3)] Cons.prems(4) by simp
  have after: "shadowed g i fs \<or> plain f i \<and> \<not> unrec f \<and> rf_Kind f = rf_Kind g" using Cons.prems(2) by auto
  then have at: "shadowed g i fs \<or> (field_index f inst = Ret (Some i) \<and> \<not> unrec f \<and> rf_Kind f = rf_Kind g)"
    by (auto simp: plain_def field_index_def)
  have nil: "blocked k j (data[nat j := VNil])" for k j by (auto simp: blocked_def)
  from Cons.prems(1) show ?case
  proof (cases rule: fill_fields_ConsE)
    case skip
    then show ?thesis using at IH blocked by auto
  next
    case (drop j)
    then show ?thesis using at IH [OF drop(2)] blocked [OF drop(2)] nil by auto
  next
    case (set j v)
    from at have "map_of inst' (rf_Name g) = map_of (set_field (rf_Name f) v inst) (rf_Name g)"
    proof
      assume "field_index f inst = Ret (Some i) \<and> \<not> unrec f \<and> rf_Kind f = rf_Kind g"
      then show ?thesis using set(1) blocked [OF set(3)] nil by simp
    qed (rule IH [OF set(3)])
    then show ?thesis using ne by (simp add: map_of_set_field)
  qed simp
qed simp

subsection \<open>The decoder over a given table\<close>

text \<open>What a table has to promise to the interpreter, and what the interpreter then promises.\<close>

locale table_schema =
  fixes schema :: schema
  assumes rows_fill: "(t, fs) \<in> set schema \<Longrightarrow> \<exists>r. fill_row fs data = Ret r"
begin

lemma schema_is_ok: "schema_ok schema"
  unfolding schema_ok_def using rows_fill map_of_SomeD by metis

lemma program_returns:
  assumes "w_schema w = schema" and "wf_step w s"
  shows "\<exists>v d'. Decode w s d = Ret (v, d')"
  using Decode_returns [of w s d] schema_is_ok assms by (auto simp: returns_def)

lemma program_appends:
  assumes "Decode w s d = Ret (v, d')"
  shows "\<exists>rs. Table d' t = Table d t @ rs"
  using grows.Decode_leads [of d w s] assms by (simp add: leads_def table_grows_def)

lemma transaction_rows:
  assumes "w_schema w = schema" and "\<forall>c \<in> set calls. literals w (snd c) \<noteq> None"
  shows "Decode w (transaction calls) d
    = Ret (VNil, d\<lparr>Table := \<lambda>t. Table d t @ concat (map (rows_for w t) calls)\<rparr>)"
  unfolding transaction_def using transaction_block [of w calls d] assms schema_is_ok
  by (subst Decode.simps(6)) (simp add: step_types)

end

end
