(* ===== verification/Ls_Rows.thy ===== *)
theory Ls_Rows
  imports Lightspeed
begin

text \<open>
  The row structs of \<^verbatim>\<open>pkg/messagix/table\<close>, one descriptor per struct, in the order of the source
  files: every field with its name, the kind of its type and the tags the decoder reads. A named
  integer type such as \<^verbatim>\<open>ThreadType\<close> has the kind of its underlying type. Struct tags that only
  concern JSON output are left out.
\<close>

definition fld :: "string \<Rightarrow> rkind \<Rightarrow> string \<Rightarrow> rfield" where
  "fld n k i = \<lparr>rf_Name = n, rf_Kind = k, rf_index = i, rf_conditionField = '''', rf_indexes = ''''\<rparr>"

definition cond_fld :: "string \<Rightarrow> rkind \<Rightarrow> string \<Rightarrow> string \<Rightarrow> rfield" where
  "cond_fld n k c is = \<lparr>rf_Name = n, rf_Kind = k, rf_index = '''', rf_conditionField = c, rf_indexes = is\<rparr>"

definition unrecognized_fld :: rfield where
  "unrecognized_fld = fld ''Unrecognized'' KMap ''''"


section \<open>Rows of \<^verbatim>\<open>attachments.go\<close>\<close>

definition LSInsertAttachment :: "rfield list" where
  "LSInsertAttachment =
    [fld ''Filename'' KString ''1'', fld ''Filesize'' KInt64 ''2'', fld ''HasMedia'' KBool ''3'',
     fld ''IsSharable'' KBool ''4'', fld ''PlayableUrl'' KString ''5'',
     fld ''PlayableUrlFallback'' KString ''6'',
     fld ''PlayableUrlExpirationTimestampMs'' KInt64 ''7'',
     fld ''PlayableUrlMimeType'' KString ''8'', fld ''DashManifest'' KInterface ''9'',
     fld ''PreviewUrl'' KString ''10'', fld ''PreviewUrlFallback'' KString ''11'',
     fld ''PreviewUrlExpirationTimestampMs'' KInt64 ''12'',
     fld ''PreviewUrlMimeType'' KString ''13'', fld ''UnknownExpirationTimestamp'' KInt64 ''14'',
     fld ''MiniPreview'' KInterface ''15'', fld ''PreviewWidth'' KInt64 ''16'',
     fld ''PreviewHeight'' KInt64 ''17'', fld ''ImageUrlMimeType'' KString ''18'',
     fld ''AttributionAppId'' KInt64 ''19'', fld ''AttributionAppName'' KString ''20'',
     fld ''AttributionAppIcon'' KString ''21'', fld ''AttributionAppIconFallback'' KString ''22'',
     fld ''AttributionAppIconUrlExpirationTimestampMs'' KInt64 ''23'',
     fld ''LocalPlayableUrl'' KString ''24'', fld ''PlayableDurationMs'' KInt64 ''25'',
     fld ''AttachmentIndex'' KInt64 ''26'', fld ''DecryptionKey'' KString ''27'',
     fld ''AccessibilitySummaryText'' KString ''28'', fld ''IsPreviewImage'' KBool ''29'',
     fld ''OriginalFileHash'' KString ''30'', fld ''ShouldRespectServerPreviewSize'' KBool ''31'',
     fld ''ThreadKey'' KInt64 ''32'', fld ''UnknownInt64_33'' KInt64 ''33'',
     fld ''AttachmentType'' KInt64 ''34'', fld ''AttachmentMimeType'' KString ''35'',
     fld ''TimestampMs'' KInt64 ''36'', fld ''MessageId'' KString ''37'',
     fld ''OfflineAttachmentId'' KString ''38'', fld ''AttachmentFbid'' KString ''39'',
     fld ''HasXma'' KBool ''40'', fld ''XmaLayoutType'' KInt64 ''41'',
     fld ''XmasTemplateType'' KInt64 ''42'', fld ''CollapsibleId'' KInt64 ''43'',
     fld ''DefaultCtaId'' KInt64 ''44'', fld ''DefaultCtaTitle'' KString ''45'',
     fld ''DefaultCtaType'' KInt64 ''46'', fld ''AttachmentCta1Id'' KInt64 ''48'',
     fld ''Cta1Title'' KString ''49'', fld ''Cta1IconType'' KInt64 ''50'',
     fld ''Cta1Type'' KString ''51'', fld ''AttachmentCta2Id'' KInt64 ''53'',
     fld ''Cta2Title'' KString ''54'', fld ''Cta2IconType'' KInt64 ''55'',
     fld ''Cta2Type'' KString ''56'', fld ''AttachmentCta3Id'' KInt64 ''58'',
     fld ''Cta3Title'' KString ''59'', fld ''Cta3IconType'' KInt64 ''60'',
     fld ''Cta3Type'' KString ''61'', fld ''ImageUrl'' KString ''62'',
     fld ''ImageUrlFallback'' KString ''63'', fld ''ImageUrlExpirationTimestampMs'' KInt64 ''64'',
     fld ''ActionUrl'' KString ''65'', fld ''TitleText'' KString ''66'',
     fld ''SubtitleText'' KString ''67'', fld ''MaxTitleNumOfLines'' KInt64 ''68'',
     fld ''MaxSubtitleNumOfLines'' KInt64 ''69'', fld ''DescriptionText'' KString ''70'',
     fld ''SourceText'' KString ''71'', fld ''FaviconUrl'' KString ''72'',
     fld ''FaviconUrlFallback'' KString ''73'',
     fld ''FaviconUrlExpirationTimestampMs'' KInt64 ''74'',
     fld ''OriginalPageSenderId'' KInt64 ''75'', fld ''UnknownInt64_76'' KInt64 ''76'',
     fld ''ListItemsId'' KInt64 ''77'', fld ''ListItemsDescriptionText'' KString ''78'',
     fld ''ListItemsSecondaryDescriptionText'' KString ''79'', fld ''ListItemId1'' KInt64 ''80'',
     fld ''ListItemTitleText1'' KString ''81'', fld ''ListItemContactUrlList1'' KInterface ''82'',
     fld ''ListItemProgressBarFilledPercentage1'' KInterface ''83'',
     fld ''ListItemContactUrlExpirationTimestampList1'' KInterface ''84'',
     fld ''ListItemContactUrlFallbackList1'' KInterface ''85'',
     fld ''ListItemTotalCount1'' KInt64 ''86'', fld ''ListItemId2'' KInt64 ''87'',
     fld ''ListItemTitleText2'' KString ''88'', fld ''ListItemContactUrlList2'' KInterface ''89'',
     fld ''ListItemProgressBarFilledPercentage2'' KInterface ''90'',
     fld ''ListItemContactUrlExpirationTimestampList2'' KInterface ''91'',
     fld ''ListItemContactUrlFallbackList2'' KInterface ''92'',
     fld ''ListItemTotalCount2'' KInt64 ''93'', fld ''ListItemId3'' KInt64 ''94'',
     fld ''ListItemTitleText3'' KString ''95'', fld ''ListItemContactUrlList3'' KInterface ''96'',
     fld ''ListItemProgressBarFilledPercentage3'' KInterface ''97'',
     fld ''ListItemContactUrlExpirationTimestampList3'' KInterface ''98'',
     fld ''ListItemContactUrlFallbackList3'' KInterface ''99'',
     fld ''ListItemTotalCount3'' KInt64 ''100'', fld ''IsBorderless'' KBool ''101'',
     fld ''HeaderImageUrlMimeType'' KString ''102'', fld ''HeaderTitle'' KString ''103'',
     fld ''HeaderSubtitleText'' KString ''104'', fld ''HeaderImageUrl'' KString ''105'',
     fld ''HeaderImageUrlFallback'' KString ''106'',
     fld ''HeaderImageUrlExpirationTimestampMs'' KInt64 ''107'',
     fld ''PreviewImageDecorationType'' KInt64 ''108'',
     fld ''ShouldHighlightHeaderTitleInTitle'' KBool ''109'', fld ''TargetId'' KInt64 ''110'',
     fld ''EphemeralMediaState'' KInt64 ''114'', fld ''EphemeralMediaViewMode'' KInt64 ''115'',
     fld ''ViewerSeenTimestampMs'' KInt64 ''116'', fld ''BodyText'' KString ''117'',
     fld ''GatingType'' KInt64 ''118'', fld ''GatingTitle'' KString ''119'',
     fld ''TargetExpiryTimestampMs'' KInt64 ''120'', fld ''CountdownTimestampMs'' KInt64 ''121'',
     fld ''ShouldBlurSubattachments'' KBool ''122'', fld ''FooterTitle'' KString ''123'',
     fld ''VerifiedType'' KInt64 ''124'', fld ''IgStoryReplyType'' KInt64 ''125'',
     fld ''IsAttachmentConsumed'' KBool ''126'', fld ''PlayableAudioURL'' KString ''127'',
     fld ''StickerType'' KInterface ''128'', fld ''LoggingGenericXMAContentType'' KString ''129'',
     fld ''LoggingGenericXMAContentIDV2'' KString ''130'', fld ''GIFPlayback'' KBool ''131'',
     fld ''AuthorityLevel'' KInt64 ''132'', unrecognized_fld]"

definition LSUpdateExtraAttachmentColumns :: "rfield list" where
  "LSUpdateExtraAttachmentColumns =
    [fld ''ThreadKey'' KInt64 ''0'', fld ''UnknownInt64'' KInt64 ''1'',
     fld ''MessageID'' KString ''2'', fld ''AttachmentFBID'' KString ''3'',
     fld ''ListItemAccessibilityText1'' KString ''4'',
     fld ''ListItemAccessibilityText2'' KString ''5'',
     fld ''ListItemAccessibilityText3'' KString ''6'', fld ''AvatarViewURLList'' KInterface ''10'',
     fld ''AvatarViewURLExpirationTimestampList'' KInterface ''11'',
     fld ''AvatarViewURLFallbackList'' KInterface ''12'',
     fld ''AvatarViewTitleList'' KInterface ''13'', fld ''AvatarViewSize'' KInt64 ''14'',
     fld ''AvatarCount'' KInt64 ''15'', fld ''AvatarViewContentText'' KString ''16'',
     fld ''SubtitleIconURL'' KString ''17'', fld ''AttachmentLoggingType'' KInt64 ''18'',
     fld ''PreheaderText'' KString ''19'', fld ''ShouldAutoplayVideo'' KBool ''20'',
     fld ''PreviewURLLarge'' KString ''21'', fld ''PreviewWidthLarge'' KInt64 ''24'',
     fld ''PreviewHeightLarge'' KInt64 ''25'', unrecognized_fld]"

definition LSInsertStickerAttachment :: "rfield list" where
  "LSInsertStickerAttachment =
    [fld ''PlayableUrl'' KString ''0'', fld ''PlayableUrlFallback'' KString ''1'',
     fld ''PlayableUrlExpirationTimestampMs'' KInt64 ''2'',
     fld ''PlayableUrlMimeType'' KString ''3'', fld ''PreviewUrl'' KString ''4'',
     fld ''PreviewUrlFallback'' KString ''5'', fld ''PreviewUrlExpirationTimestampMs'' KInt64 ''6'',
     fld ''PreviewUrlMimeType'' KString ''7'', fld ''PreviewWidth'' KInt64 ''9'',
     fld ''PreviewHeight'' KInt64 ''10'', fld ''ImageUrlMimeType'' KString ''11'',
     fld ''AttachmentIndex'' KInt64 ''12'', fld ''AccessibilitySummaryText'' KString ''13'',
     fld ''ThreadKey'' KInt64 ''14'', fld ''TimestampMs'' KInt64 ''17'',
     fld ''MessageId'' KString ''18'', fld ''AttachmentFbid'' KString ''19'',
     fld ''ImageUrl'' KString ''20'', fld ''ImageUrlFallback'' KString ''21'',
     fld ''ImageUrlExpirationTimestampMs'' KInt64 ''22'',
     fld ''FaviconUrlExpirationTimestampMs'' KInt64 ''23'', fld ''AvatarViewSize'' KInt64 ''25'',
     fld ''AvatarCount'' KInt64 ''26'', fld ''TargetId'' KInt64 ''27'',
     fld ''MustacheText'' KString ''30'', fld ''AuthorityLevel'' KInt64 ''31'', unrecognized_fld]"

definition LSInsertXmaAttachment :: "rfield list" where
  "LSInsertXmaAttachment =
    [fld ''Filename'' KString ''1'', fld ''Filesize'' KInt64 ''2'', fld ''IsSharable'' KBool ''3'',
     fld ''PlayableUrl'' KString ''4'', fld ''PlayableUrlFallback'' KString ''5'',
     fld ''PlayableUrlExpirationTimestampMs'' KInt64 ''6'',
     fld ''PlayableUrlMimeType'' KString ''7'', fld ''PreviewUrl'' KString ''8'',
     fld ''PreviewUrlFallback'' KString ''9'',
     fld ''PreviewUrlExpirationTimestampMs'' KInt64 ''10'',
     fld ''PreviewUrlMimeType'' KString ''11'', fld ''PreviewWidth'' KInt64 ''13'',
     fld ''PreviewHeight'' KInt64 ''14'', fld ''AttributionAppId'' KInt64 ''15'',
     fld ''AttributionAppName'' KString ''16'', fld ''AttributionAppIcon'' KInt64 ''17'',
     fld ''AttributionAppIconFallback'' KString ''18'',
     fld ''AttributionAppIconUrlExpirationTimestampMs'' KInt64 ''19'',
     fld ''AttachmentIndex'' KInt64 ''20'', fld ''AccessibilitySummaryText'' KString ''21'',
     fld ''ShouldRespectServerPreviewSize'' KBool ''22'', fld ''SubtitleIconUrl'' KString ''23'',
     fld ''ShouldAutoplayVideo'' KBool ''24'', fld ''ThreadKey'' KInt64 ''25'',
     fld ''AttachmentType'' KInt64 ''27'', fld ''TimestampMs'' KInt64 ''29'',
     fld ''MessageId'' KString ''30'', fld ''OfflineAttachmentId'' KInt64 ''31'',
     fld ''AttachmentFbid'' KString ''32'', fld ''XmaLayoutType'' KInt64 ''33'',
     fld ''XmasTemplateType'' KInt64 ''34'', fld ''CollapsibleId'' KInt64 ''35'',
     fld ''DefaultCtaId'' KInt64 ''36'', fld ''DefaultCtaTitle'' KString ''37'',
     fld ''DefaultCtaType'' KInt64 ''38'', fld ''AttachmentCta1Id'' KInt64 ''40'',
     fld ''Cta1Title'' KString ''41'', fld ''Cta1IconType'' KInt64 ''42'',
     fld ''Cta1Type'' KString ''43'', fld ''AttachmentCta2Id'' KInt64 ''45'',
     fld ''Cta2Title'' KString ''46'', fld ''Cta2IconType'' KInt64 ''47'',
     fld ''Cta2Type'' KString ''48'', fld ''AttachmentCta3Id'' KInt64 ''50'',
     fld ''Cta3Title'' KString ''51'', fld ''Cta3IconType'' KInt64 ''52'',
     fld ''Cta3Type'' KString ''53'', fld ''ImageUrl'' KString ''54'',
     fld ''ImageUrlFallback'' KString ''55'', fld ''ImageUrlExpirationTimestampMs'' KInt64 ''56'',
     fld ''ActionUrl'' KString ''57'', fld ''TitleText'' KString ''58'',
     fld ''SubtitleText'' KString ''59'', fld ''SubtitleDecorationType'' KInt64 ''60'',
     fld ''MaxTitleNumOfLines'' KInt64 ''61'', fld ''MaxSubtitleNumOfLines'' KInt64 ''62'',
     fld ''DescriptionText'' KString ''63'', fld ''SourceText'' KString ''64'',
     fld ''FaviconUrl'' KString ''65'', fld ''FaviconUrlFallback'' KString ''66'',
     fld ''FaviconUrlExpirationTimestampMs'' KInt64 ''67'', fld ''ListItemsId'' KInt64 ''69'',
     fld ''ListItemsDescriptionText'' KString ''70'',
     fld ''ListItemsDescriptionSubtitleText'' KString ''71'',
     fld ''ListItemsSecondaryDescriptionText'' KString ''72'', fld ''ListItemId1'' KInt64 ''73'',
     fld ''ListItemTitleText1'' KString ''74'', fld ''ListItemContactUrlList1'' KString ''75'',
     fld ''ListItemProgressBarFilledPercentage1'' KInt64 ''76'',
     fld ''ListItemContactUrlExpirationTimestampList1'' KString ''77'',
     fld ''ListItemContactUrlFallbackList1'' KString ''78'',
     fld ''ListItemAccessibilityText1'' KString ''79'', fld ''ListItemTotalCount1'' KInt64 ''80'',
     fld ''ListItemId2'' KInt64 ''81'', fld ''ListItemTitleText2'' KString ''82'',
     fld ''ListItemContactUrlList2'' KString ''83'',
     fld ''ListItemProgressBarFilledPercentage2'' KInt64 ''84'',
     fld ''ListItemContactUrlExpirationTimestampList2'' KString ''85'',
     fld ''ListItemContactUrlFallbackList2'' KString ''86'',
     fld ''ListItemAccessibilityText2'' KString ''87'', fld ''ListItemTotalCount2'' KInt64 ''88'',
     fld ''ListItemId3'' KInt64 ''89'', fld ''ListItemTitleText3'' KString ''90'',
     fld ''ListItemContactUrlList3'' KString ''91'',
     fld ''ListItemProgressBarFilledPercentage3'' KInt64 ''92'',
     fld ''ListItemContactUrlExpirationTimestampList3'' KString ''93'',
     fld ''ListItemContactUrlFallbackList3'' KString ''94'',
     fld ''ListItemAccessibilityText3'' KString ''95'', fld ''ListItemTotalCount3'' KInt64 ''96'',
     fld ''IsBorderless'' KBool ''100'', fld ''HeaderImageUrlMimeType'' KString ''101'',
     fld ''HeaderTitle'' KString ''102'', fld ''HeaderSubtitleText'' KString ''103'',
     fld ''HeaderImageUrl'' KString ''104'', fld ''HeaderImageUrlFallback'' KString ''105'',
     fld ''HeaderImageUrlExpirationTimestampMs'' KInt64 ''106'',
     fld ''PreviewImageDecorationType'' KInt64 ''107'',
     fld ''ShouldHighlightHeaderTitleInTitle'' KBool ''108'', fld ''TargetId'' KInt64 ''109'',
     fld ''XMATypeOne'' KString ''110'', fld ''XMATypeTwo'' KString ''111'',
     fld ''AttachmentLoggingType'' KInt64 ''112'', fld ''PreviewUrlLarge'' KString ''114'',
     fld ''BodyText'' KString ''115'', fld ''GatingType'' KInt64 ''116'',
     fld ''GatingTitle'' KString ''117'', fld ''TargetExpiryTimestampMs'' KInt64 ''118'',
     fld ''CountdownTimestampMs'' KInt64 ''119'', fld ''ShouldBlurSubattachments'' KInt64 ''120'',
     fld ''FooterTitle'' KString ''121'', fld ''VerifiedType'' KInt64 ''122'',
     fld ''CaptionBodyText'' KString ''123'', fld ''IsPublicXma'' KBool ''124'',
     fld ''ReplyCount'' KInt64 ''125'', fld ''PlayableAudioURL'' KString ''126'',
     fld ''XmaDataclass'' KString ''127'', fld ''PreviewOverlayCountdownExpiry'' KString ''128'',
     fld ''StickerType'' KInterface ''129'', fld ''LoggingGenericXMAContentType'' KString ''130'',
     fld ''LoggingGenericXMAContentIDV2'' KString ''131'', fld ''AuthorityLevel'' KInt64 ''132'',
     unrecognized_fld]"

definition LSAddPollForThread :: "rfield list" where
  "LSAddPollForThread =
    [fld ''PollID'' KInt64 ''0'', fld ''ThreadKey'' KInt64 ''1'',
     fld ''LastUpdateMessageID'' KString ''2'', fld ''LastUpdateMessageTimestampMS'' KInt64 ''3'',
     fld ''LastUpdateMessageEventType'' KInt64 ''4'', unrecognized_fld]"

definition LSAddPollOption :: "rfield list" where
  "LSAddPollOption =
    [fld ''OptionID'' KInt64 ''0'', fld ''PollID'' KInt64 ''1'', fld ''OptionText'' KString ''2'',
     fld ''SortKeyVotingTimestamp'' KInt64 ''3'', fld ''SortKeyCreationTimestamp'' KInt64 ''4'',
     unrecognized_fld]"

definition LSAddPollVote :: "rfield list" where
  "LSAddPollVote =
    [fld ''OptionID'' KInt64 ''0'', fld ''PollID'' KInt64 ''1'', fld ''ContactID'' KInt64 ''2'',
     fld ''TimestampMS'' KInt64 ''3'', fld ''VoteCount'' KInt64 ''4'',
     fld ''ThreadKey'' KInt64 ''5'', fld ''MessageID'' KString ''6'',
     fld ''UnknownInt'' KInt64 ''7'']"

definition LSInsertBlobAttachment :: "rfield list" where
  "LSInsertBlobAttachment =
    [fld ''Filename'' KString ''0'', fld ''Filesize'' KInt64 ''1'', fld ''HasMedia'' KBool ''2'',
     fld ''PlayableUrl'' KString ''3'', fld ''PlayableUrlFallback'' KString ''4'',
     fld ''PlayableUrlExpirationTimestampMs'' KInt64 ''5'',
     fld ''PlayableUrlMimeType'' KString ''6'', fld ''DashManifest'' KString ''7'',
     fld ''PreviewUrl'' KString ''8'', fld ''PreviewUrlFallback'' KString ''9'',
     fld ''PreviewUrlExpirationTimestampMs'' KInt64 ''10'',
     fld ''PreviewUrlMimeType'' KString ''11'', fld ''UnknownExpirationTimestamp'' KInt64 ''12'',
     fld ''MiniPreview'' KInt64 ''13'', fld ''PreviewWidth'' KInt64 ''14'',
     fld ''PreviewHeight'' KInt64 ''15'', fld ''AttributionAppId'' KInt64 ''16'',
     fld ''AttributionAppName'' KString ''17'', fld ''AttributionAppIcon'' KString ''18'',
     fld ''AttributionAppIconFallback'' KInt64 ''19'',
     fld ''AttributionAppIconUrlExpirationTimestampMs'' KInt64 ''20'',
     fld ''LocalPlayableUrl'' KInt64 ''21'', fld ''PlayableDurationMs'' KInt64 ''22'',
     fld ''AttachmentIndex'' KInt64 ''23'', fld ''AccessibilitySummaryText'' KInt64 ''24'',
     fld ''IsPreviewImage'' KBool ''25'', fld ''OriginalFileHash'' KString ''26'',
     fld ''ThreadKey'' KInt64 ''27'', fld ''AttachmentType'' KInt64 ''29'',
     fld ''AttachmentMimeType'' KString ''30'', fld ''TimestampMs'' KInt64 ''31'',
     fld ''MessageId'' KString ''32'', fld ''OfflineAttachmentId'' KString ''33'',
     fld ''AttachmentFbid'' KString ''34'', fld ''HasXma'' KBool ''35'',
     fld ''XmaLayoutType'' KInt64 ''36'', fld ''XmasTemplateType'' KInt64 ''37'',
     fld ''TitleText'' KString ''38'', fld ''SubtitleText'' KString ''39'',
     fld ''DescriptionText'' KString ''40'', fld ''SourceText'' KString ''41'',
     fld ''FaviconUrlExpirationTimestampMs'' KInt64 ''42'', fld ''IsBorderless'' KBool ''44'',
     fld ''PreviewUrlLarge'' KString ''45'', fld ''SamplingFrequencyHz'' KInt64 ''46'',
     fld ''WaveformData'' KString ''47'', fld ''AuthorityLevel'' KInt64 ''48'', unrecognized_fld]"

definition LSInsertAttachmentItem :: "rfield list" where
  "LSInsertAttachmentItem =
    [fld ''AttachmentFbid'' KString ''0'', fld ''AttachmentIndex'' KInt64 ''1'',
     fld ''ThreadKey'' KInt64 ''2'', fld ''MessageId'' KString ''4'',
     fld ''OriginalPageSenderId'' KInt64 ''7'', fld ''TitleText'' KString ''8'',
     fld ''SubtitleText'' KString ''9'', fld ''PlayableUrl'' KString ''13'',
     fld ''PlayableUrlFallback'' KString ''14'',
     fld ''PlayableUrlExpirationTimestampMs'' KInt64 ''15'',
     fld ''PlayableUrlMimeType'' KString ''16'', fld ''DashManifest'' KString ''17'',
     fld ''PreviewUrl'' KString ''18'', fld ''PreviewUrlFallback'' KString ''19'',
     fld ''PreviewUrlExpirationTimestampMs'' KInt64 ''20'',
     fld ''PreviewUrlMimeType'' KString ''21'', fld ''PreviewWidth'' KInt64 ''22'',
     fld ''PreviewHeight'' KInt64 ''23'', fld ''ImageUrl'' KString ''24'',
     fld ''DefaultCtaId'' KInt64 ''25'', fld ''DefaultCtaTitle'' KString ''26'',
     fld ''DefaultCtaType'' KInt64 ''27'', fld ''DefaultButtonType'' KInt64 ''29'',
     fld ''DefaultActionUrl'' KString ''30'', fld ''DefaultActionEnableExtensions'' KBool ''31'',
     fld ''DefaultWebviewHeightRatio'' KInt64 ''33'', fld ''AttachmentCta1Id'' KInt64 ''35'',
     fld ''Cta1Title'' KString ''36'', fld ''Cta1IconType'' KInt64 ''37'',
     fld ''Cta1Type'' KString ''38'', fld ''AttachmentCta2Id'' KInt64 ''40'',
     fld ''Cta2Title'' KString ''41'', fld ''Cta2IconType'' KInt64 ''42'',
     fld ''Cta2Type'' KString ''43'', fld ''AttachmentCta3Id'' KInt64 ''45'',
     fld ''Cta3Title'' KString ''46'', fld ''Cta3IconType'' KInt64 ''47'',
     fld ''Cta3Type'' KString ''48'', fld ''FaviconUrl'' KString ''49'',
     fld ''FaviconUrlFallback'' KString ''50'',
     fld ''FaviconUrlExpirationTimestampMs'' KInt64 ''51'', fld ''PreviewUrlLarge'' KString ''52'',
     unrecognized_fld]"

definition LSGetFirstAvailableAttachmentCTAID :: "rfield list" where
  "LSGetFirstAvailableAttachmentCTAID =
    [unrecognized_fld]"

definition LSInsertAttachmentCta :: "rfield list" where
  "LSInsertAttachmentCta =
    [fld ''CtaId'' KInt64 ''0'', fld ''AttachmentFbid'' KString ''1'',
     fld ''AttachmentIndex'' KInt64 ''2'', fld ''ThreadKey'' KInt64 ''3'',
     fld ''MessageId'' KString ''5'', fld ''Title'' KString ''6'', fld ''Type_'' KString ''7'',
     fld ''PlatformToken'' KString ''8'', fld ''ActionUrl'' KString ''9'',
     fld ''NativeUrl'' KString ''10'', fld ''UrlWebviewType'' KInt64 ''11'',
     fld ''ActionContentBlob'' KString ''12'', fld ''EnableExtensions'' KBool ''13'',
     fld ''ExtensionHeightType'' KInt64 ''14'', fld ''TargetId'' KInt64 ''15'', unrecognized_fld]"

definition LSUpdateAttachmentItemCtaAtIndex :: "rfield list" where
  "LSUpdateAttachmentItemCtaAtIndex =
    [fld ''AttachmentFbid'' KString ''0'', fld ''Unknown'' KInt64 ''1'',
     fld ''AttachmentCtaId'' KInt64 ''2'', fld ''CtaTitle'' KString ''3'',
     fld ''CtaType'' KString ''4'', fld ''Index'' KInt64 ''5'', unrecognized_fld]"

definition LSUpdateAttachmentCtaAtIndexIgnoringAuthority :: "rfield list" where
  "LSUpdateAttachmentCtaAtIndexIgnoringAuthority =
    [fld ''ThreadKey'' KInt64 ''0'', fld ''MessageId'' KString ''1'',
     fld ''AttachmentFbid'' KString ''2'', fld ''AttachmentCtaId'' KInt64 ''3'',
     fld ''CtaTitle'' KString ''4'', fld ''CtaType'' KString ''5'', fld ''Index'' KInt64 ''6'',
     unrecognized_fld]"

definition LSHasMatchingAttachmentCTA :: "rfield list" where
  "LSHasMatchingAttachmentCTA =
    [fld ''ThreadKey'' KInt64 ''0'', fld ''AttachmentFbid'' KString ''1'', unrecognized_fld]"

definition LSUpsertLiveLocationSharer :: "rfield list" where
  "LSUpsertLiveLocationSharer =
    [fld ''ThreadKey'' KInt64 ''0'', fld ''Sender'' KInt64 ''1'', fld ''Latitude'' KFloat64 ''2'',
     fld ''Longitude'' KFloat64 ''3'', fld ''StartTimestampMS'' KInt64 ''4'',
     fld ''EndTimestampMS'' KInt64 ''5'', unrecognized_fld]"

definition LSDeleteLiveLocationSharer :: "rfield list" where
  "LSDeleteLiveLocationSharer =
    [fld ''ThreadKey'' KInt64 ''0'', fld ''Sender'' KInt64 ''1'', unrecognized_fld]"

definition LSUpdateSharedAlbumOnMessageRecall :: "rfield list" where
  "LSUpdateSharedAlbumOnMessageRecall =
    [fld ''ThreadKey'' KInt64 ''0'', fld ''MessageId'' KString ''1'', unrecognized_fld]"


section \<open>Rows of \<^verbatim>\<open>contacts.go\<close>\<close>

definition LSVerifyContactRowExists :: "rfield list" where
  "LSVerifyContactRowExists =
    [fld ''ContactId'' KInt64 ''0'', fld ''ContactIdType'' KInt64 ''1'',
     fld ''ProfilePictureUrl'' KString ''2'', fld ''Name'' KString ''3'',
     fld ''ContactType'' KInt64 ''4'', fld ''ProfilePictureFallbackUrl'' KString ''5'',
     fld ''ProfilePictureUrlExpirationTimestampMs'' KInt64 ''6'',
     fld ''UrlExpirationTimestampMs'' KInt64 ''7'', fld ''NormalizedNameForSearch'' KString ''8'',
     fld ''IsMemorialized'' KBool ''9'', fld ''IsBlocked'' KBool ''10'',
     fld ''BlockedByViewerStatus'' KInt64 ''11'', fld ''CanViewerMessage'' KBool ''12'',
     fld ''IsSelf'' KBool ''13'', fld ''AuthorityLevel'' KInt64 ''14'',
     fld ''Capabilities'' KInt64 ''15'', fld ''Capabilities2'' KInt64 ''16'',
     fld ''WorkForeignEntityType'' KInt64 ''17'', fld ''Gender'' KInt64 ''18'',
     fld ''ContactViewerRelationship'' KInt64 ''19'', fld ''SecondaryName'' KString ''20'',
     fld ''FirstName'' KString ''21'', unrecognized_fld]"

definition LSDeleteThenInsertContact :: "rfield list" where
  "LSDeleteThenInsertContact =
    [fld ''Id'' KInt64 ''0'', fld ''ProfilePictureUrl'' KString ''2'',
     fld ''ProfilePictureFallbackUrl'' KString ''3'',
     fld ''ProfilePictureUrlExpirationTimestampMs'' KInt64 ''4'',
     fld ''ProfilePictureLargeUrl'' KString ''5'',
     fld ''ProfilePictureLargeFallbackUrl'' KString ''6'',
     fld ''ProfilePictureLargeUrlExpirationTimestampMs'' KInt64 ''7'', fld ''Name'' KString ''9'',
     fld ''NormalizedNameForSearch'' KString ''10'', fld ''IsMessengerUser'' KBool ''11'',
     fld ''IsMemorialized'' KBool ''12'', fld ''BlockedByViewerStatus'' KInt64 ''14'',
     fld ''Rank'' KFloat64 ''17'', fld ''FirstName'' KString ''18'',
     fld ''ContactType'' KInt64 ''19'', fld ''ContactTypeExact'' KInt64 ''20'',
     fld ''AuthorityLevel'' KInt64 ''21'', fld ''MessengerCallLogThirdPartyId'' KString ''22'',
     fld ''ProfileRingColor'' KInt64 ''23'', fld ''RequiresMultiway'' KBool ''24'',
     fld ''BlockedSinceTimestampMs'' KInt64 ''25'', fld ''CanViewerMessage'' KBool ''26'',
     fld ''ProfileRingColorExpirationTimestampMs'' KInt64 ''27'', fld ''PhoneNumber'' KInt64 ''28'',
     fld ''EmailAddress'' KString ''29'', fld ''WorkCompanyId'' KInt64 ''30'',
     fld ''WorkCompanyName'' KString ''31'', fld ''WorkJobTitle'' KString ''32'',
     fld ''NormalizedSearchTerms'' KString ''33'', fld ''DeviceContactId'' KInt64 ''34'',
     fld ''IsManagedByViewer'' KBool ''35'', fld ''WorkForeignEntityType'' KInt64 ''36'',
     fld ''Capabilities'' KInt64 ''37'', fld ''Capabilities2'' KInt64 ''38'',
     fld ''ContactViewerRelationship'' KInt64 ''39'', fld ''Gender'' KInt64 ''40'',
     fld ''SecondaryName'' KString ''41'', fld ''Username'' KString ''43'',
     fld ''ContactReachabilityStatusType'' KInt64 ''44'', fld ''RestrictionType'' KInt64 ''45'',
     fld ''WaConnectStatus'' KInt64 ''46'', fld ''FbUnblockedSinceTimestampMs'' KInt64 ''47'',
     fld ''PageType'' KInt64 ''48'', unrecognized_fld]"

definition LSDeleteThenInsertContactPresence :: "rfield list" where
  "LSDeleteThenInsertContactPresence =
    [fld ''ContactId'' KInt64 ''0'', fld ''Status'' KInt64 ''1'',
     fld ''LastActiveTimestampMs'' KInt64 ''2'', fld ''ExpirationTimestampMs'' KInt64 ''3'',
     fld ''Capabilities'' KInt64 ''4'', fld ''PublishId'' KString ''5'', unrecognized_fld]"

definition LSDeleteThenInsertIGContactInfo :: "rfield list" where
  "LSDeleteThenInsertIGContactInfo =
    [fld ''ContactId'' KInt64 ''0'', fld ''IgId'' KString ''1'', fld ''LinkedFbid'' KInt64 ''2'',
     fld ''IgFollowStatus'' KInt64 ''4'', fld ''VerificationStatus'' KInt64 ''5'',
     fld ''E2eeEligibility'' KInt64 ''6'', fld ''SupportsE2eeSpamdStorage'' KBool ''7'',
     unrecognized_fld]"

definition LSVerifyContactParticipantExist :: "rfield list" where
  "LSVerifyContactParticipantExist =
    [fld ''ContactID'' KInt64 ''0'', fld ''ThreadKey'' KInt64 ''1'', fld ''Name'' KString ''2'',
     unrecognized_fld]"

definition LSVerifyCommunityMemberContextualProfileExists :: "rfield list" where
  "LSVerifyCommunityMemberContextualProfileExists =
    [fld ''ContactID'' KInt64 ''0'', fld ''CommunityID'' KInt64 ''1'', unrecognized_fld]"

definition LSInsertCommunityMember :: "rfield list" where
  "LSInsertCommunityMember =
    [fld ''CommunityID'' KInt64 ''0'', fld ''ContactID'' KInt64 ''1'', fld ''Name'' KString ''2'',
     fld ''ProfilePictureURL'' KString ''3'', fld ''IsAdmin'' KBool ''4'',
     fld ''IsBlocked'' KBool ''5'', fld ''ProfilePictureURLFallback'' KString ''6'',
     fld ''ProfilePictureURLExpirationTimestampMS'' KInt64 ''7'', fld ''FirstName'' KString ''8'',
     fld ''IsModerator'' KBool ''9'', fld ''IsMuted'' KBool ''10'',
     fld ''IsBlockedFromCommunity'' KBool ''11'', fld ''Source'' KInt64 ''12'',
     fld ''Subtitle'' KString ''13'', fld ''IsEligibleForCMInvite'' KBool ''14'',
     fld ''Nickname'' KString ''15'', fld ''ThreadRole'' KInt64 ''16'',
     fld ''ContactCapabilities'' KInt64 ''17'', fld ''ThreadRoles'' KInt64 ''18'', unrecognized_fld]"

definition LSUpdateOrInsertCommunityMember :: "rfield list" where
  "LSUpdateOrInsertCommunityMember =
    [fld ''CommunityID'' KInt64 ''0'', fld ''ContactID'' KInt64 ''1'', fld ''Name'' KString ''2'',
     fld ''FirstName'' KString ''3'', fld ''ProfilePictureURL'' KString ''4'',
     fld ''ProfilePictureURLExpirationTimestampMS'' KInt64 ''5'',
     fld ''ProfilePictureURLFallback'' KString ''6'', fld ''IsBlocked'' KBool ''7'',
     fld ''IsAdmin'' KBool ''8'', fld ''IsBlockedFromCommunity'' KBool ''9'',
     fld ''IsMuted'' KBool ''10'', fld ''IsCommunityMember'' KBool ''11'',
     fld ''IsModerator'' KBool ''13'', fld ''FetchingInfoTaskID'' KInt64 ''14'',
     fld ''AdminActions'' KInt64 ''15'', fld ''Source'' KInt64 ''16'',
     fld ''Nickname'' KString ''17'', fld ''ContactCapabilities'' KInt64 ''18'',
     fld ''ThreadRoles'' KInt64 ''19'', unrecognized_fld]"

definition LSUpsertCommunityMemberRanges :: "rfield list" where
  "LSUpsertCommunityMemberRanges =
    [fld ''CommunityID'' KInt64 ''0'', fld ''HasMoreAfter'' KBool ''3'',
     fld ''IsLoadingAfter'' KBool ''4'', fld ''NextPageCursor'' KString ''5'',
     fld ''MaxName'' KString ''6'', fld ''Source'' KInt64 ''7'', unrecognized_fld]"


section \<open>Rows of \<^verbatim>\<open>folders.go\<close>\<close>

definition LSUpsertFolder :: "rfield list" where
  "LSUpsertFolder =
    [fld ''ThreadKey'' KInt64 ''0'', fld ''ThreadName'' KString ''1'',
     fld ''ThreadPictureURL'' KString ''2'', fld ''LastActivityTimestampMS'' KInt64 ''3'',
     fld ''LastReadWatermarkTimestampMS'' KInt64 ''4'', unrecognized_fld]"

definition LSUpsertFolderSeenTimestamp :: "rfield list" where
  "LSUpsertFolderSeenTimestamp =
    [fld ''ParentThreadKey'' KInt64 ''0'', fld ''LastSeenRequestTimestampMs'' KInt64 ''1'',
     unrecognized_fld]"


section \<open>Rows of \<^verbatim>\<open>messages.go\<close>\<close>

definition LSClearPinnedMessages :: "rfield list" where
  "LSClearPinnedMessages =
    [fld ''ThreadKey'' KInt64 ''0'', unrecognized_fld]"

definition LSUpsertMessage :: "rfield list" where
  "LSUpsertMessage =
    [fld ''Text'' KString ''0'', fld ''SubscriptErrorMessage'' KString ''1'',
     fld ''AuthorityLevel'' KInt64 ''2'', fld ''ThreadKey'' KInt64 ''3'',
     fld ''TimestampMs'' KInt64 ''5'', fld ''PrimarySortKey'' KInt64 ''6'',
     fld ''SecondarySortKey'' KInt64 ''7'', fld ''MessageId'' KString ''8'',
     fld ''OfflineThreadingId'' KString ''9'', fld ''SenderId'' KInt64 ''10'',
     fld ''StickerId'' KInt64 ''11'', fld ''IsAdminMessage'' KBool ''12'',
     fld ''MessageRenderingType'' KInt64 ''13'', fld ''SendStatus'' KInt64 ''15'',
     fld ''SendStatusV2'' KInt64 ''16'', fld ''IsUnsent'' KBool ''17'',
     fld ''UnsentTimestampMs'' KInt64 ''18'', fld ''MentionOffsets'' KString ''19'',
     fld ''MentionLengths'' KString ''20'', fld ''MentionIds'' KString ''21'',
     fld ''MentionTypes'' KString ''22'', fld ''ReplySourceId'' KString ''23'',
     fld ''ReplySourceType'' KInt64 ''24'', fld ''ReplySourceTypeV2'' KInt64 ''25'',
     fld ''ReplyStatus'' KInt64 ''26'', fld ''ReplySnippet'' KString ''27'',
     fld ''ReplyMessageText'' KString ''28'', fld ''ReplyToUserId'' KInt64 ''29'',
     fld ''ReplyMediaExpirationTimestampMs'' KInt64 ''30'', fld ''ReplyMediaUrl'' KString ''31'',
     fld ''ReplyMediaUnknownTimestampS'' KInt64 ''32'',
     fld ''ReplyMediaPreviewWidth'' KInt64 ''33'', fld ''ReplyMediaPreviewHeight'' KInt64 ''34'',
     fld ''ReplyMediaUrlMimeType'' KString ''35'', fld ''ReplyMediaUrlFallback'' KString ''36'',
     fld ''ReplyCtaId'' KInt64 ''37'', fld ''ReplyCtaTitle'' KString ''38'',
     fld ''ReplyAttachmentType'' KInt64 ''39'', fld ''ReplyAttachmentId'' KInt64 ''40'',
     fld ''ReplyAttachmentExtra'' KString ''41'', fld ''ReplyType'' KInt64 ''42'',
     fld ''IsForwarded'' KBool ''43'', fld ''ForwardScore'' KInt64 ''44'',
     fld ''HasQuickReplies'' KBool ''45'', fld ''AdminMsgCtaId'' KInt64 ''46'',
     fld ''AdminMsgCtaTitle'' KString ''47'', fld ''AdminMsgCtaType'' KString ''48'',
     fld ''CannotUnsendReason'' KInt64 ''49'', fld ''TextHasLinks'' KBool ''50'',
     fld ''ViewFlags'' KInt64 ''51'', fld ''DisplayedContentTypes'' KInt64 ''52'',
     fld ''ViewedPluginKey'' KInt64 ''53'', fld ''ViewedPluginContext'' KInt64 ''54'',
     fld ''QuickReplyType'' KInt64 ''55'', fld ''HotEmojiSize'' KInt64 ''56'',
     fld ''PlatformXmdEncoded'' KInterface ''57'', fld ''SendAttributionXmd'' KInterface ''58'',
     fld ''ReplySourceTimestampMs'' KInt64 ''59'', fld ''EphemeralDurationInSec'' KInt64 ''60'',
     fld ''MsUntilExpirationTs'' KInt64 ''61'', fld ''EphemeralExpirationTs'' KInt64 ''62'',
     fld ''TakedownState'' KInterface ''63'', fld ''IsCollapsed'' KBool ''64'',
     fld ''SubthreadKey'' KInt64 ''65'', fld ''BotResponseID'' KInt64 ''66'',
     fld ''MetadataDataclass'' KInterface ''67'', fld ''EditCount'' KInt64 ''68'',
     fld ''IsPaidPartnership'' KInterface ''69'', fld ''MessageHiddenState'' KInterface ''70'',
     fld ''AdminSignatureName'' KInterface ''71'', fld ''AdminSignatureProfileURL'' KString ''72'',
     fld ''AdminSignatureCreatorType'' KInterface ''73'',
     fld ''ReplyMessageHiddenState'' KInterface ''74'', fld ''TranslatedText'' KString ''75'',
     fld ''TextDialect'' KInterface ''76'', fld ''TranslatedTextDialect'' KInterface ''77'',
     fld ''ScheduledTimestamp'' KInt64 ''78'', fld ''IsVideoQuickSend'' KBool ''79'',
     fld ''SubthreadParentMessageID'' KString ''80'', fld ''IsExclusiveToSubthread'' KBool ''81'',
     unrecognized_fld]"

definition LSDeleteMessage :: "rfield list" where
  "LSDeleteMessage =
    [fld ''ThreadKey'' KInt64 ''0'', fld ''MessageId'' KString ''1'']"

definition LSHandleRepliesOnRemove :: "rfield list" where
  "LSHandleRepliesOnRemove =
    [fld ''ThreadKey'' KInt64 ''0'', fld ''MessageId'' KString ''1'']"

definition LSRefreshLastActivityTimestamp :: "rfield list" where
  "LSRefreshLastActivityTimestamp =
    [fld ''ThreadKey'' KInt64 ''0'']"

definition LSSetPinnedMessage :: "rfield list" where
  "LSSetPinnedMessage =
    [fld ''ThreadKey'' KInt64 ''0'', fld ''MessageId'' KString ''1'',
     fld ''PinnedTimestampMs'' KInt64 ''2'', fld ''AuthorityLevel'' KInt64 ''3'']"

definition LSSetForwardScore :: "rfield list" where
  "LSSetForwardScore =
    [fld ''ThreadKey'' KInt64 ''0'', fld ''MessageId'' KString ''1'',
     fld ''TimestampMs'' KInt64 ''2'', fld ''ForwardScore'' KInt64 ''3'', unrecognized_fld]"

definition LSSetMessageDisplayedContentTypes :: "rfield list" where
  "LSSetMessageDisplayedContentTypes =
    [fld ''ThreadKey'' KInt64 ''0'', fld ''MessageId'' KString ''1'',
     fld ''TimestampMs'' KInt64 ''2'', fld ''Text'' KString ''3'', fld ''Calc1'' KBool ''4'',
     fld ''Calc2'' KBool ''5'', unrecognized_fld]"

definition LSInsertNewMessageRange :: "rfield list" where
  "LSInsertNewMessageRange =
    [fld ''ThreadKey'' KInt64 ''0'', fld ''MinTimestampMsTemplate'' KInt64 ''1'',
     fld ''MaxTimestampMsTemplate'' KInt64 ''2'', fld ''MinMessageId'' KString ''3'',
     fld ''MaxMessageId'' KString ''4'', fld ''MinTimestampMs'' KInt64 ''5'',
     fld ''MaxTimestampMs'' KInt64 ''6'', fld ''HasMoreBefore'' KBool ''7'',
     fld ''HasMoreAfter'' KBool ''8'', fld ''Unknown'' KInterface ''9'', unrecognized_fld]"

definition LSUpdateExistingMessageRange :: "rfield list" where
  "LSUpdateExistingMessageRange =
    [fld ''ThreadKey'' KInt64 ''0'', fld ''TimestampMS'' KInt64 ''1'',
     fld ''UnknownBool2'' KBool ''2'', fld ''UnknownBool3'' KBool ''3'']"

definition LSDeleteExistingMessageRanges :: "rfield list" where
  "LSDeleteExistingMessageRanges =
    [fld ''ConsistentThreadFbid'' KInt64 ''0'', unrecognized_fld]"

definition LSCheckAuthoritativeMessageExists :: "rfield list" where
  "LSCheckAuthoritativeMessageExists =
    [fld ''ThreadKey'' KInt64 ''0'', fld ''OfflineThreadingId'' KString ''1'', unrecognized_fld]"

definition LSUpdateParticipantLastMessageSendTimestamp :: "rfield list" where
  "LSUpdateParticipantLastMessageSendTimestamp =
    [fld ''ThreadKey'' KInt64 ''0'', fld ''SenderId'' KInt64 ''1'', fld ''Timestamp'' KInt64 ''2'',
     unrecognized_fld]"

definition LSInsertMessage :: "rfield list" where
  "LSInsertMessage =
    [fld ''Text'' KString ''0'', fld ''SubscriptErrorMessage'' KString ''1'',
     fld ''AuthorityLevel'' KInt64 ''2'', fld ''ThreadKey'' KInt64 ''3'',
     fld ''TimestampMs'' KInt64 ''5'', fld ''PrimarySortKey'' KInt64 ''6'',
     fld ''SecondarySortKey'' KInt64 ''7'', fld ''MessageId'' KString ''8'',
     fld ''OfflineThreadingId'' KString ''9'', fld ''SenderId'' KInt64 ''10'',
     fld ''StickerId'' KInt64 ''11'', fld ''IsAdminMessage'' KBool ''12'',
     fld ''MessageRenderingType'' KInt64 ''13'', fld ''SendStatus'' KInt64 ''15'',
     fld ''SendStatusV2'' KInt64 ''16'', fld ''IsUnsent'' KBool ''17'',
     fld ''UnsentTimestampMs'' KInt64 ''18'', fld ''MentionOffsets'' KString ''19'',
     fld ''MentionLengths'' KString ''20'', fld ''MentionIds'' KString ''21'',
     fld ''MentionTypes'' KString ''22'', fld ''ReplySourceId'' KString ''23'',
     fld ''ReplySourceType'' KInt64 ''24'', fld ''ReplySourceTypeV2'' KInt64 ''25'',
     fld ''ReplyStatus'' KInt64 ''26'', fld ''ReplySnippet'' KString ''27'',
     fld ''ReplyMessageText'' KString ''28'', fld ''ReplyToUserId'' KInt64 ''29'',
     fld ''ReplyMediaExpirationTimestampMs'' KInt64 ''30'', fld ''ReplyMediaUrl'' KString ''31'',
     fld ''ReplyMediaUnknownTimestampS'' KInt64 ''32'',
     fld ''ReplyMediaPreviewWidth'' KInt64 ''33'', fld ''ReplyMediaPreviewHeight'' KInt64 ''34'',
     fld ''ReplyMediaUrlMimeType'' KString ''35'', fld ''ReplyMediaUrlFallback'' KString ''36'',
     fld ''ReplyCtaId'' KInt64 ''37'', fld ''ReplyCtaTitle'' KString ''38'',
     fld ''ReplyAttachmentType'' KInt64 ''39'', fld ''ReplyAttachmentId'' KInt64 ''40'',
     fld ''ReplyAttachmentExtra'' KString ''41'', fld ''ReplyType'' KInterface ''42'',
     fld ''IsForwarded'' KBool ''43'', fld ''ForwardScore'' KInt64 ''44'',
     fld ''HasQuickReplies'' KBool ''45'', fld ''AdminMsgCtaId'' KInt64 ''46'',
     fld ''AdminMsgCtaTitle'' KString ''47'', fld ''AdminMsgCtaType'' KString ''48'',
     fld ''CannotUnsendReason'' KInt64 ''49'', fld ''TextHasLinks'' KBool ''50'',
     fld ''ViewFlags'' KInt64 ''51'', fld ''DisplayedContentTypes'' KInt64 ''52'',
     fld ''ViewedPluginKey'' KInt64 ''53'', fld ''ViewedPluginContext'' KInt64 ''54'',
     fld ''QuickReplyType'' KInt64 ''55'', fld ''HotEmojiSize'' KInt64 ''56'',
     fld ''PlatformXmdEncoded'' KInterface ''57'', fld ''SendAttributionXmd'' KInterface ''58'',
     fld ''ReplySourceTimestampMs'' KInt64 ''59'', fld ''EphemeralDurationInSec'' KInt64 ''60'',
     fld ''MsUntilExpirationTs'' KInt64 ''61'', fld ''EphemeralExpirationTs'' KInt64 ''62'',
     fld ''TakedownState'' KInterface ''63'', fld ''IsCollapsed'' KBool ''64'',
     fld ''SubthreadKey'' KInt64 ''65'', fld ''BotResponseID'' KInt64 ''66'',
     fld ''MetadataDataclass'' KInterface ''67'', fld ''EditCount'' KInt64 ''68'',
     fld ''IsPaidPartnership'' KInterface ''69'', fld ''AdminSignatureName'' KInterface ''70'',
     fld ''AdminSignatureProfileURL'' KString ''71'',
     fld ''AdminSignatureCreatorType'' KInterface ''72'',
     fld ''ReplyMessageHiddenState'' KInterface ''73'', fld ''TranslatedText'' KString ''74'',
     fld ''TextDialect'' KInterface ''75'', fld ''TranslatedTextDialect'' KInterface ''76'',
     fld ''ScheduledTimestamp'' KInt64 ''77'', fld ''IsVideoQuickSend'' KBool ''78'',
     fld ''SubthreadParentMessageID'' KString ''79'', fld ''IsExclusiveToSubthread'' KBool ''80'',
     unrecognized_fld]"

definition LSUpsertReaction :: "rfield list" where
  "LSUpsertReaction =
    [fld ''ThreadKey'' KInt64 ''0'', fld ''TimestampMs'' KInt64 ''1'',
     fld ''MessageId'' KString ''2'', fld ''ActorId'' KInt64 ''3'', fld ''Reaction'' KString ''4'',
     fld ''AuthorityLevel'' KInt64 ''5'', unrecognized_fld]"

definition LSUpdateOrInsertReactionV2 :: "rfield list" where
  "LSUpdateOrInsertReactionV2 =
    [fld ''ThreadKey'' KInt64 ''0'', fld ''MessageID'' KString ''1'',
     fld ''ReactionFBID'' KInt64 ''2'', fld ''ReactionLiteral'' KString ''3'',
     fld ''Count'' KInt64 ''4'', fld ''AuthorityLevel'' KInt64 ''5'',
     fld ''ViewerIsReactor'' KBool ''6'', fld ''ViewerReactionTimestampMS'' KInt64 ''7'',
     fld ''LastUpdatedTimestampMS'' KInt64 ''8'', unrecognized_fld]"

definition LSDeleteReactionV2 :: "rfield list" where
  "LSDeleteReactionV2 =
    [fld ''ThreadKey'' KInt64 ''0'', fld ''MessageID'' KString ''1'',
     fld ''ReactionFBID'' KInt64 ''2'', fld ''LastUpdatedTimestampMS'' KInt64 ''3'',
     unrecognized_fld]"

definition LSDeleteThenInsertReactionsV2Detail :: "rfield list" where
  "LSDeleteThenInsertReactionsV2Detail =
    [fld ''ThreadID'' KInt64 ''0'', fld ''MessageID'' KString ''1'', fld ''ReactorID'' KInt64 ''2'',
     fld ''ReactionFBID'' KInt64 ''3'', fld ''FullName'' KString ''4'',
     fld ''ProfilePictureURL'' KString ''5'', fld ''ProfilePictureFallbackURL'' KString ''6'',
     fld ''ProfilePictureURLExpirationTimestampMS'' KInt64 ''7'', fld ''TimestampMS'' KInt64 ''8'',
     fld ''SecondaryName'' KString ''9'']"

definition LSDeleteReaction :: "rfield list" where
  "LSDeleteReaction =
    [fld ''ThreadKey'' KInt64 ''0'', fld ''MessageId'' KString ''1'', fld ''ActorId'' KInt64 ''2'',
     unrecognized_fld]"

definition LSHandleRepliesOnUnsend :: "rfield list" where
  "LSHandleRepliesOnUnsend =
    [fld ''ThreadKey'' KInt64 ''0'', fld ''MessageId'' KString ''1'', unrecognized_fld]"

definition LSHandleRepliesOnMessageEdit :: "rfield list" where
  "LSHandleRepliesOnMessageEdit =
    [fld ''ThreadKey'' KInt64 ''0'', fld ''MessageId'' KString ''1'', unrecognized_fld]"

definition LSUpdateForRollCallMessageDeleted :: "rfield list" where
  "LSUpdateForRollCallMessageDeleted =
    [fld ''MessageId'' KString ''0'', fld ''ContributorId'' KInt64 ''1'', unrecognized_fld]"

definition LSUpdateUnsentMessageCollapsedStatus :: "rfield list" where
  "LSUpdateUnsentMessageCollapsedStatus =
    [fld ''ThreadKey'' KInt64 ''0'', fld ''MessageId'' KString ''1'',
     fld ''TimestampMs'' KInt64 ''2'', unrecognized_fld]"

definition LSUpdateOrInsertEditMessageHistory :: "rfield list" where
  "LSUpdateOrInsertEditMessageHistory =
    [fld ''OriginalMessageID'' KString ''0'', fld ''ThreadKey'' KInt64 ''1'',
     fld ''ServerAdjustedEditTimestampMS'' KInt64 ''2'', fld ''MessageContent'' KString ''3'',
     fld ''SendStatus'' KInt64 ''4'']"

definition LSDeleteThenInsertMessage :: "rfield list" where
  "LSDeleteThenInsertMessage =
    [fld ''Text'' KString ''0'', fld ''SubscriptErrorMessage'' KString ''1'',
     fld ''AuthorityLevel'' KInt64 ''2'', fld ''ThreadKey'' KInt64 ''3'',
     fld ''TimestampMs'' KInt64 ''5'', fld ''PrimarySortKey'' KInt64 ''6'',
     fld ''SecondarySortKey'' KInt64 ''7'', fld ''MessageId'' KString ''8'',
     fld ''OfflineThreadingId'' KString ''9'', fld ''SenderId'' KInt64 ''10'',
     fld ''StickerId'' KInt64 ''11'', fld ''IsAdminMessage'' KBool ''12'',
     fld ''MessageRenderingType'' KInt64 ''13'', fld ''SendStatus'' KInt64 ''15'',
     fld ''SendStatusV2'' KInt64 ''16'', fld ''IsUnsent'' KBool ''17'',
     fld ''UnsentTimestampMs'' KInt64 ''18'', fld ''MentionOffsets'' KString ''19'',
     fld ''MentionLengths'' KString ''20'', fld ''MentionIds'' KString ''21'',
     fld ''MentionTypes'' KString ''22'', fld ''ReplySourceId'' KString ''23'',
     fld ''ReplySourceType'' KInt64 ''24'', fld ''ReplySourceTypeV2'' KInt64 ''25'',
     fld ''ReplyStatus'' KInt64 ''26'', fld ''ReplySnippet'' KString ''27'',
     fld ''ReplyMessageText'' KString ''28'', fld ''ReplyToUserId'' KInt64 ''29'',
     fld ''ReplyMediaExpirationTimestampMs'' KInt64 ''30'', fld ''ReplyMediaUrl'' KString ''31'',
     fld ''ReplyMediaUnknownTimestampS'' KInt64 ''32'',
     fld ''ReplyMediaPreviewWidth'' KInt64 ''33'', fld ''ReplyMediaPreviewHeight'' KInt64 ''34'',
     fld ''ReplyMediaUrlMimeType'' KString ''35'', fld ''ReplyMediaUrlFallback'' KString ''36'',
     fld ''ReplyCtaId'' KInt64 ''37'', fld ''ReplyCtaTitle'' KString ''38'',
     fld ''ReplyAttachmentType'' KInt64 ''39'', fld ''ReplyAttachmentId'' KInt64 ''40'',
     fld ''ReplyAttachmentExtra'' KString ''41'', fld ''IsForwarded'' KBool ''42'',
     fld ''ForwardScore'' KInt64 ''43'', fld ''HasQuickReplies'' KBool ''44'',
     fld ''AdminMsgCtaId'' KInt64 ''45'', fld ''AdminMsgCtaTitle'' KString ''46'',
     fld ''AdminMsgCtaType'' KString ''47'', fld ''CannotUnsendReason'' KInt64 ''48'',
     fld ''TextHasLinks'' KBool ''49'', fld ''ViewFlags'' KInt64 ''50'',
     fld ''DisplayedContentTypes'' KInt64 ''51'', fld ''ViewedPluginKey'' KInt64 ''52'',
     fld ''ViewedPluginContext'' KInt64 ''53'', fld ''QuickReplyType'' KInt64 ''54'',
     fld ''HotEmojiSize'' KInt64 ''55'', fld ''PlatformXmdEncoded'' KInterface ''56'',
     fld ''SendAttributionXmd'' KInterface ''57'', fld ''ReplySourceTimestampMs'' KInt64 ''58'',
     fld ''EphemeralDurationInSec'' KInt64 ''59'', fld ''MsUntilExpirationTs'' KInt64 ''60'',
     fld ''EphemeralExpirationTs'' KInt64 ''61'', fld ''TakedownState'' KInterface ''62'',
     fld ''IsCollapsed'' KBool ''63'', fld ''SubthreadKey'' KInt64 ''64'',
     fld ''BotResponseID'' KInt64 ''65'', fld ''MetadataDataclass'' KInterface ''66'',
     fld ''EditCount'' KInt64 ''67'', fld ''IsPaidPartnership'' KInterface ''68'',
     fld ''AdminSignatureName'' KInterface ''69'', fld ''AdminSignatureProfileURL'' KString ''70'',
     fld ''AdminSignatureCreatorType'' KInterface ''71'',
     fld ''ReplyMessageHiddenState'' KInterface ''72'', fld ''TranslatedText'' KString ''73'',
     fld ''TextDialect'' KInterface ''74'', fld ''TranslatedTextDialect'' KInterface ''75'',
     fld ''ScheduledTimestamp'' KInt64 ''76'', fld ''IsVideoQuickSend'' KBool ''77'',
     fld ''SubthreadParentMessageID'' KString ''78'', fld ''IsExclusiveToSubthread'' KBool ''79'',
     unrecognized_fld]"

definition LSEditMessage :: "rfield list" where
  "LSEditMessage =
    [fld ''MessageID'' KString ''0'', fld ''AuthorityLevel'' KInt64 ''1'',
     fld ''Text'' KString ''2'', fld ''EditCount'' KInt64 ''3'', unrecognized_fld]"

definition LSReplaceOptimsiticMessage :: "rfield list" where
  "LSReplaceOptimsiticMessage =
    [fld ''OfflineThreadingId'' KString ''0'', fld ''MessageId'' KString ''1'', unrecognized_fld]"

definition LSSetMessageTextHasLinks :: "rfield list" where
  "LSSetMessageTextHasLinks =
    [fld ''ThreadKey'' KInt64 ''0'', fld ''MessageId'' KString ''1'',
     fld ''TimestampMs'' KInt64 ''2'', unrecognized_fld]"

definition LSUpdateMessagesOptimisticContext :: "rfield list" where
  "LSUpdateMessagesOptimisticContext =
    [unrecognized_fld]"

definition LSReplaceOptimisticReaction :: "rfield list" where
  "LSReplaceOptimisticReaction =
    [fld ''ThreadKey'' KInt64 ''0'', fld ''ActorId'' KInt64 ''1'', fld ''MessageId'' KString ''2'',
     unrecognized_fld]"

definition LSDeleteThenInsertMessageRequest :: "rfield list" where
  "LSDeleteThenInsertMessageRequest =
    [fld ''ThreadKey'' KInt64 ''0'', fld ''Unknown'' KInt64 ''1'',
     fld ''MessageRequestStatus'' KInt64 ''2'', unrecognized_fld]"

definition LSMarkOptimisticMessageFailed :: "rfield list" where
  "LSMarkOptimisticMessageFailed =
    [fld ''OTID'' KString ''0'', fld ''Message'' KString ''1'', unrecognized_fld]"

definition LSHandleFailedTask :: "rfield list" where
  "LSHandleFailedTask =
    [fld ''TaskID'' KInt64 ''0'', fld ''OTID'' KString ''1'', fld ''Message'' KString ''2'',
     unrecognized_fld]"

definition LSUpdateSubscriptErrorMessage :: "rfield list" where
  "LSUpdateSubscriptErrorMessage =
    [fld ''ThreadKey'' KInt64 ''0'', fld ''OTID'' KString ''1'', fld ''Message'' KString ''2'',
     unrecognized_fld]"

definition LSIssueNewError :: "rfield list" where
  "LSIssueNewError =
    [fld ''TaskID'' KInt64 ''0'', fld ''ErrorCode'' KInt64 ''1'', fld ''ErrorTitle'' KString ''2'',
     fld ''ErrorMessage'' KString ''3'', unrecognized_fld]"

definition LSRemoveOptimisticGroupThread :: "rfield list" where
  "LSRemoveOptimisticGroupThread =
    [fld ''ThreadKey'' KInt64 ''0'', unrecognized_fld]"

definition LSUpdateSubThreadXMA :: "rfield list" where
  "LSUpdateSubThreadXMA =
    [fld ''ParentThreadKey'' KInt64 ''0'', fld ''ThreadKey'' KInt64 ''1'',
     fld ''ReplyCount'' KInt64 ''2'']"

definition LSSetNumUnreadSubthreads :: "rfield list" where
  "LSSetNumUnreadSubthreads =
    [fld ''ThreadKey'' KInt64 ''0'', fld ''NumUnread'' KInt64 ''1'']"


section \<open>Rows of \<^verbatim>\<open>search.go\<close>\<close>

definition LSUpdateSearchQueryStatus :: "rfield list" where
  "LSUpdateSearchQueryStatus =
    [fld ''Query'' KString ''0'', fld ''Unknown'' KInt64 ''1'',
     fld ''StatusSecondary'' KInt64 ''2'', fld ''EndTimeMs'' KInt64 ''3'',
     fld ''ResultCount'' KInt64 ''4'', unrecognized_fld]"

definition LSInsertSearchResult :: "rfield list" where
  "LSInsertSearchResult =
    [fld ''Query'' KString ''0'', fld ''ResultId'' KString ''1'', fld ''GlobalIndex'' KInt64 ''2'',
     fld ''Type_'' KInt64 ''3'', fld ''ThreadType'' KInt64 ''4'', fld ''DisplayName'' KString ''5'',
     fld ''ProfilePicUrl'' KString ''6'', fld ''SecondaryProfilePicUrl'' KString ''7'',
     fld ''ContextLine'' KString ''8'', fld ''MessageId'' KString ''9'',
     fld ''MessageTimestampMs'' KInt64 ''10'', fld ''BlockedByViewerStatus'' KInt64 ''11'',
     fld ''IsVerified'' KBool ''12'', fld ''IsInteropEligible'' KBool ''13'',
     fld ''RestrictionType'' KInt64 ''14'', fld ''IsGroupsXacEligible'' KBool ''15'',
     fld ''IsInvitedToCmChannel'' KBool ''16'', fld ''IsEligibleForCmInvite'' KBool ''17'',
     fld ''CanViewerMessage'' KBool ''18'', fld ''IsWaAddressable'' KBool ''19'',
     fld ''WaEligibility'' KInt64 ''20'', fld ''IsArmadilloTlcEligible'' KBool ''21'',
     fld ''CommunityId'' KInt64 ''22'', fld ''OtherUserId'' KInt64 ''23'',
     fld ''ThreadJoinLinkHash'' KInt64 ''24'', fld ''SupportsE2eeSpamdStorage'' KBool ''25'',
     fld ''DefaultE2eeThreads'' KBool ''26'', fld ''IsRestrictedByViewer'' KBool ''27'',
     fld ''DefaultE2eeThreadOneToOne'' KBool ''28'', fld ''HasCutoverThread'' KBool ''29'',
     fld ''IsViewerUnconnected'' KBool ''30'', fld ''ResultIgid'' KString ''31'',
     fld ''SecondaryContextLine'' KString ''32'', fld ''IsInstamadilloCutover'' KBool ''33'',
     fld ''IsDisappearingModeSettingOn'' KBool ''34'', unrecognized_fld]"

definition LSInsertSearchSection :: "rfield list" where
  "LSInsertSearchSection =
    [fld ''Query'' KString ''0'', fld ''GlobalIndex'' KInt64 ''1'',
     fld ''DisplayName'' KString ''2'', fld ''AnalyticsName'' KString ''3'',
     fld ''StartIndex'' KInt64 ''4'', fld ''EndIndex'' KInt64 ''5'', unrecognized_fld]"


section \<open>Rows of \<^verbatim>\<open>sync_groups.go\<close>\<close>

definition LSTruncateTablesForSyncGroup :: "rfield list" where
  "LSTruncateTablesForSyncGroup =
    [fld ''SyncGroup'' KInt64 ''0'', unrecognized_fld]"

definition LSTruncateThreadRangeTablesForSyncGroup :: "rfield list" where
  "LSTruncateThreadRangeTablesForSyncGroup =
    [fld ''ParentThreadKey'' KInt64 ''0'', unrecognized_fld]"

definition LSUpsertSyncGroupThreadsRange :: "rfield list" where
  "LSUpsertSyncGroupThreadsRange =
    [fld ''SyncGroup'' KInt64 ''0'', fld ''ParentThreadKey'' KInt64 ''1'',
     fld ''MinLastActivityTimestampMS'' KInt64 ''2'', fld ''HasMoreBefore'' KBool ''3'',
     fld ''IsLoadingBefore'' KBool ''4'', fld ''MinThreadKey'' KInt64 ''5'', unrecognized_fld]"

definition LSMciTraceLog :: "rfield list" where
  "LSMciTraceLog =
    [fld ''SomeInt0'' KInt64 ''0'', fld ''MCITraceUnsampledEventTraceID'' KString ''1'',
     fld ''Unknown2'' KInterface ''2'', fld ''SomeInt3'' KInt64 ''3'',
     fld ''Unknown4'' KInterface ''4'', fld ''DatascriptExecute'' KString ''5'',
     fld ''SomeInt6'' KInt64 ''6'', unrecognized_fld]"

definition LSExecuteFirstBlockForSyncTransaction :: "rfield list" where
  "LSExecuteFirstBlockForSyncTransaction =
    [fld ''DatabaseID'' KInt64 ''0'', fld ''EpochID'' KInt64 ''1'',
     fld ''CurrentCursor'' KString ''2'', fld ''NextCursor'' KString ''3'',
     fld ''SyncStatus'' KInt64 ''4'', fld ''SendSyncParams'' KBool ''5'',
     fld ''MinTimeToSyncTimestampMS'' KInt64 ''6'', fld ''CanIgnoreTimestamp'' KBool ''7'',
     fld ''SyncChannel'' KInt64 ''8'', unrecognized_fld]"

definition LSExecuteFinallyBlockForSyncTransaction :: "rfield list" where
  "LSExecuteFinallyBlockForSyncTransaction =
    [fld ''ShouldFlush'' KBool ''0'', fld ''SyncDatabaseID'' KInt64 ''1'',
     fld ''EpochID'' KInt64 ''2'', unrecognized_fld]"

definition LSSetHMPSStatus :: "rfield list" where
  "LSSetHMPSStatus =
    [fld ''AccountId'' KInt64 ''0'', fld ''Unknown1'' KInt64 ''1'', fld ''Timestamp'' KInt64 ''2'',
     unrecognized_fld]"

definition LSUpsertSequenceID :: "rfield list" where
  "LSUpsertSequenceID =
    [fld ''LastAppliedMailboxSequenceId'' KInt64 ''0'', unrecognized_fld]"

definition LSSetRegionHint :: "rfield list" where
  "LSSetRegionHint =
    [fld ''Unknown0'' KInt64 ''0'', fld ''RegionHint'' KString ''1'', unrecognized_fld]"

definition LSUpsertGradientColor :: "rfield list" where
  "LSUpsertGradientColor =
    [fld ''ThemeFbid'' KInt64 ''0'', fld ''GradientIndex'' KInt64 ''1'', fld ''Color'' KInt64 ''2'',
     fld ''Type'' KInt64 ''3'', unrecognized_fld]"

definition LSUpsertTheme :: "rfield list" where
  "LSUpsertTheme =
    [fld ''Fbid'' KInt64 ''0'', fld ''NormalThemeId'' KInt64 ''0'', fld ''ThemeIdx'' KInt64 ''1'',
     fld ''FallbackColor'' KInt64 ''2'', fld ''ReverseGradiantsForRadial'' KBool ''3'',
     fld ''AccessibilityLabel'' KString ''4'', fld ''IconUrl'' KString ''5'',
     fld ''IconUrlFallback'' KString ''6'', fld ''BackgroundUrl'' KString ''8'',
     fld ''IsDeprecated'' KBool ''11'', fld ''AppColorMode'' KInt64 ''13'',
     fld ''TitlebarBackgroundColor'' KInt64 ''14'', fld ''TitlebarButtonTintColor'' KInt64 ''15'',
     fld ''TitlebarTextColor'' KInt64 ''16'', fld ''ComposerTintColor'' KInt64 ''17'',
     fld ''ComposerUnselectedTintColor'' KInt64 ''18'',
     fld ''ComposerInputTextPlaceholderColor'' KInt64 ''19'',
     fld ''ComposerInputBackgroundColor'' KInt64 ''20'',
     fld ''ComposerInputBorderColor'' KInt64 ''21'', fld ''ComposerInputBorderWidth'' KInt64 ''22'',
     fld ''ComposerBackgroundColor'' KInt64 ''23'', fld ''MessageTextColor'' KInt64 ''24'',
     fld ''MessageBorderColor'' KInt64 ''25'', fld ''MessageBorderWidth'' KInt64 ''26'',
     fld ''IncomingMessageTextColor'' KInt64 ''27'',
     fld ''IncomingMessageBorderColor'' KInt64 ''28'',
     fld ''IncomingMessageBorderWidth'' KInt64 ''29'', fld ''DeliveryReceiptColor'' KInt64 ''30'',
     fld ''TertiaryTextColor'' KInt64 ''31'', fld ''PrimaryButtonBackgroundColor'' KInt64 ''32'',
     fld ''HotLikeColor'' KInt64 ''33'', fld ''SecondaryTextColor'' KInt64 ''34'',
     fld ''QuotedIncomingMessageBubbleColor'' KInt64 ''35'', fld ''CornerRadius'' KInt64 ''36'',
     fld ''BlurredComposerBackgroundColor'' KInt64 ''37'',
     fld ''ComposerSecondaryButtonColor'' KInt64 ''38'',
     fld ''ComposerPlaceholderTextColor'' KInt64 ''39'', unrecognized_fld]"

definition LSAppendDataTraceAddon :: "rfield list" where
  "LSAppendDataTraceAddon =
    [fld ''TraceId'' KString ''0'', fld ''CheckPointId'' KInt64 ''1'',
     fld ''SyncChannel'' KInt64 ''2'', fld ''ErrorMessage'' KString ''3'',
     fld ''Tags'' KString ''4'', unrecognized_fld]"

definition LSTruncatePresenceDatabase :: "rfield list" where
  "LSTruncatePresenceDatabase =
    [fld ''ShouldTruncate'' KBool ''0'', unrecognized_fld]"

definition LSUpdateLastSyncCompletedTimestampMsToNow :: "rfield list" where
  "LSUpdateLastSyncCompletedTimestampMsToNow =
    [fld ''Unknown0'' KInt64 ''0'', unrecognized_fld]"

definition LSStoryContactSyncFromBucket :: "rfield list" where
  "LSStoryContactSyncFromBucket =
    [unrecognized_fld]"

definition LSDeleteThenInsertBotProfileInfoCategoryV2 :: "rfield list" where
  "LSDeleteThenInsertBotProfileInfoCategoryV2 =
    [fld ''Category'' KString ''0'', fld ''BotID'' KInt64 ''1'',
     fld ''UnknownFloat2'' KFloat64 ''2'', unrecognized_fld]"

definition LSDeleteThenInsertBotProfileInfoV2 :: "rfield list" where
  "LSDeleteThenInsertBotProfileInfoV2 =
    [fld ''BotID'' KInt64 ''0'', fld ''IsCreatedByViewer'' KBool ''1'',
     fld ''TintColor'' KInt64 ''2'', fld ''ShortDescription'' KString ''3'',
     fld ''Description'' KString ''4'', unrecognized_fld]"

definition LSHandleSyncFailure :: "rfield list" where
  "LSHandleSyncFailure =
    [fld ''DatabaseID'' KInt64 ''0'', fld ''ErrorMessage'' KString ''1'', unrecognized_fld]"


section \<open>Rows of \<^verbatim>\<open>task.go\<close>\<close>

definition LSTaskExists :: "rfield list" where
  "LSTaskExists =
    [fld ''TaskId'' KInt64 ''0'', unrecognized_fld]"

definition LSRemoveTask :: "rfield list" where
  "LSRemoveTask =
    [fld ''TaskId'' KInt64 ''0'', unrecognized_fld]"

definition LSUpdateTaskQueueName :: "rfield list" where
  "LSUpdateTaskQueueName =
    [fld ''QueueNameTaskId'' KString ''0'', fld ''QueueName'' KString ''1'', unrecognized_fld]"

definition LSUpdateTaskValue :: "rfield list" where
  "LSUpdateTaskValue =
    [fld ''QueueNameTaskId'' KString ''0'', fld ''TaskValue1'' KString ''1'',
     fld ''TaskValue2'' KString ''2'', unrecognized_fld]"

definition LSMailboxTaskCompletionApiOnTaskCompletion :: "rfield list" where
  "LSMailboxTaskCompletionApiOnTaskCompletion =
    [fld ''TaskId'' KInt64 ''0'', fld ''Success'' KBool ''1'', unrecognized_fld]"

definition LSIssueNewTask :: "rfield list" where
  "LSIssueNewTask =
    [fld ''QueueName'' KString ''0'', fld ''Context'' KInt64 ''1'', fld ''TaskValue'' KString ''2'',
     fld ''HttpUrlOverride'' KString ''3'', fld ''TimeoutTimestampMs'' KInt64 ''4'',
     fld ''PluginType'' KInt64 ''5'', fld ''Priority'' KInt64 ''6'',
     fld ''SyncGroupId'' KInt64 ''7'', fld ''TransportKey'' KInt64 ''8'',
     fld ''MinTimeToSyncTimestampMs'' KInt64 ''9'', unrecognized_fld]"


section \<open>Rows of \<^verbatim>\<open>threads.go\<close>\<close>

definition LSTruncateMetadataThreads :: "rfield list" where
  "LSTruncateMetadataThreads =
    []"

definition LSUpsertInboxThreadsRange :: "rfield list" where
  "LSUpsertInboxThreadsRange =
    [fld ''SyncGroup'' KInt64 ''0'', fld ''MinLastActivityTimestampMs'' KInt64 ''1'',
     fld ''HasMoreBefore'' KBool ''2'', fld ''IsLoadingBefore'' KBool ''3'',
     fld ''MinThreadKey'' KInt64 ''4'', unrecognized_fld]"

definition LSUpdateThreadsRangesV2 :: "rfield list" where
  "LSUpdateThreadsRangesV2 =
    [fld ''FolderName'' KString ''0'', fld ''ParentThreadKey'' KInt64 ''1'',
     fld ''MinLastActivityTimestampMs'' KInt64 ''2'', fld ''MinThreadKey'' KInt64 ''3'',
     fld ''IsLoadingBefore'' KInt64 ''4'', unrecognized_fld]"

definition LSDeleteThenInsertThread :: "rfield list" where
  "LSDeleteThenInsertThread =
    [fld ''LastActivityTimestampMs'' KInt64 ''0'',
     fld ''LastReadWatermarkTimestampMs'' KInt64 ''1'', fld ''Snippet'' KString ''2'',
     fld ''ThreadName'' KString ''3'', fld ''ThreadPictureUrl'' KString ''4'',
     fld ''NeedsAdminApprovalForNewParticipant'' KBool ''5'', fld ''AuthorityLevel'' KInt64 ''6'',
     fld ''ThreadKey'' KInt64 ''7'', fld ''MailboxType'' KInt64 ''8'',
     fld ''ThreadType'' KInt64 ''9'', fld ''FolderName'' KString ''10'',
     fld ''ThreadPictureUrlFallback'' KString ''11'',
     fld ''ThreadPictureUrlExpirationTimestampMs'' KInt64 ''12'',
     fld ''RemoveWatermarkTimestampMs'' KInt64 ''13'', fld ''MuteExpireTimeMs'' KInt64 ''14'',
     fld ''MuteCallsExpireTimeMs'' KInt64 ''15'', fld ''GroupNotificationSettings'' KInt64 ''16'',
     fld ''IsAdminSnippet'' KBool ''17'', fld ''SnippetSenderContactId'' KInt64 ''18'',
     fld ''SnippetStringHash'' KInt64 ''21'', fld ''SnippetStringArgument1'' KInt64 ''22'',
     fld ''SnippetAttribution'' KInt64 ''23'', fld ''SnippetAttributionStringHash'' KInt64 ''24'',
     fld ''DisappearingSettingTtl'' KInt64 ''25'',
     fld ''DisappearingSettingUpdatedTs'' KInt64 ''26'',
     fld ''DisappearingSettingUpdatedBy'' KInt64 ''27'', fld ''OngoingCallState'' KInt64 ''29'',
     fld ''CannotReplyReason'' KInt64 ''30'', fld ''CustomEmoji'' KString ''31'',
     fld ''CustomEmojiImageUrl'' KString ''32'', fld ''OutgoingBubbleColor'' KInt64 ''33'',
     fld ''ThemeFbid'' KInt64 ''34'', fld ''ParentThreadKey'' KInt64 ''35'',
     fld ''NullstateDescriptionText1'' KString ''36'',
     fld ''NullstateDescriptionType1'' KInt64 ''37'',
     fld ''NullstateDescriptionText2'' KString ''38'',
     fld ''NullstateDescriptionType2'' KInt64 ''39'',
     fld ''NullstateDescriptionText3'' KString ''40'',
     fld ''NullstateDescriptionType3'' KInt64 ''41'', fld ''SnippetHasEmoji'' KBool ''42'',
     fld ''HasPersistentMenu'' KBool ''43'', fld ''DisableComposerInput'' KBool ''44'',
     fld ''CannotUnsendReason'' KInt64 ''45'', fld ''ViewedPluginKey'' KInt64 ''46'',
     fld ''ViewedPluginContext'' KInt64 ''47'', fld ''ClientThreadKey'' KInt64 ''48'',
     fld ''Capabilities'' KInt64 ''49'', fld ''ShouldRoundThreadPicture'' KInt64 ''50'',
     fld ''ProactiveWarningDismissTime'' KInt64 ''51'', fld ''IsCustomThreadPicture'' KBool ''52'',
     fld ''OtidOfFirstMessage'' KInt64 ''53'', fld ''NormalizedSearchTerms'' KString ''54'',
     fld ''AdditionalThreadContext'' KString ''55'', fld ''DisappearingThreadKey'' KInt64 ''56'',
     fld ''IsDisappearingMode'' KBool ''57'', fld ''DisappearingModeInitiator'' KInt64 ''58'',
     fld ''UnreadDisappearingMessageCount'' KInt64 ''59'', fld ''LastMessageCtaId'' KInt64 ''61'',
     fld ''LastMessageCtaType'' KString ''62'', fld ''ConsistentThreadFbid'' KInt64 ''63'',
     fld ''ThreadDescription'' KString ''64'', fld ''UnsendLimitMs'' KInt64 ''65'',
     fld ''SyncGroup'' KInt64 ''66'', fld ''ThreadInvitesEnabled'' KInt64 ''67'',
     fld ''ThreadInviteLink'' KString ''68'', fld ''NumUnreadSubthreads'' KInt64 ''69'',
     fld ''SubthreadCount'' KInt64 ''70'', fld ''ThreadInvitesEnabledV2'' KInt64 ''71'',
     fld ''JoinRequestApprovalSetting'' KInt64 ''72'',
     fld ''PendingJoinRequestsCount'' KInt64 ''73'', fld ''EventStartTimestampMs'' KInt64 ''74'',
     fld ''EventEndTimestampMs'' KInt64 ''75'', fld ''TakedownState'' KInt64 ''76'',
     fld ''MemberCount'' KInt64 ''77'', fld ''AdmodCount'' KInt64 ''78'',
     fld ''SecondaryParentThreadKey'' KInt64 ''79'', fld ''IgFolder'' KInt64 ''80'',
     fld ''InviterId'' KInt64 ''81'', fld ''ThreadTags'' KInt64 ''82'',
     fld ''ReadReceiptsDisabledV2'' KInterface ''83'', fld ''ThreadStatus'' KInt64 ''84'',
     fld ''ThreadSubtype'' KInt64 ''85'', fld ''PauseThreadTimestamp'' KInt64 ''86'',
     fld ''Metadata'' KInterface ''87'', fld ''SyncSource'' KInterface ''88'', unrecognized_fld]"

definition LSAddParticipantIdToGroupThread :: "rfield list" where
  "LSAddParticipantIdToGroupThread =
    [fld ''ThreadKey'' KInt64 ''0'', fld ''ContactId'' KInt64 ''1'',
     fld ''ReadWatermarkTimestampMs'' KInt64 ''2'', fld ''ReadActionTimestampMs'' KInt64 ''3'',
     fld ''DeliveredWatermarkTimestampMs'' KInt64 ''4'', fld ''Nickname'' KString ''5'',
     fld ''IsAdmin'' KBool ''6'', fld ''SubscribeSource'' KString ''7'',
     fld ''AuthorityLevel'' KInt64 ''9'', fld ''NormalizedSearchTerms'' KString ''10'',
     fld ''GroupParticipantJoinState'' KInt64 ''11'', fld ''IsModerator'' KBool ''12'',
     fld ''IsSuperAdmin'' KBool ''13'', fld ''ThreadRoles'' KInt64 ''14'', unrecognized_fld]"

definition LSWriteThreadCapabilities :: "rfield list" where
  "LSWriteThreadCapabilities =
    [fld ''ThreadKey'' KInt64 ''0'', fld ''Capabilities'' KInt64 ''1'',
     fld ''Capabilities2'' KInt64 ''2'', fld ''Capabilities3'' KInt64 ''3'', unrecognized_fld]"

definition LSUpdateReadReceipt :: "rfield list" where
  "LSUpdateReadReceipt =
    [fld ''ReadWatermarkTimestampMs'' KInt64 ''0'', fld ''ThreadKey'' KInt64 ''1'',
     fld ''ContactId'' KInt64 ''2'', fld ''ReadActionTimestampMs'' KInt64 ''3'', unrecognized_fld]"

definition LSThreadsRangesQuery :: "rfield list" where
  "LSThreadsRangesQuery =
    [fld ''ParentThreadKey'' KInt64 ''0'', fld ''Unknown1'' KBool ''1'',
     fld ''IsAfter'' KBool ''2'', cond_fld ''ReferenceThreadKey'' KInt64 ''IsAfter'' ''4,3'',
     cond_fld ''ReferenceActivityTimestamp'' KInt64 ''IsAfter'' ''5,6'',
     fld ''AdditionalPagesToFetch'' KInt64 ''7'', fld ''Unknown8'' KBool ''8'', unrecognized_fld]"

definition LSUpdateTypingIndicator :: "rfield list" where
  "LSUpdateTypingIndicator =
    [fld ''ThreadKey'' KInt64 ''0'', fld ''SenderId'' KInt64 ''1'', fld ''IsTyping'' KBool ''2'',
     unrecognized_fld]"

definition LSMoveThreadToInboxAndUpdateParent :: "rfield list" where
  "LSMoveThreadToInboxAndUpdateParent =
    [fld ''ThreadKey'' KInt64 ''0'', fld ''ParentThreadKey'' KInt64 ''1'', unrecognized_fld]"

definition LSUpdateThreadSnippet :: "rfield list" where
  "LSUpdateThreadSnippet =
    [fld ''ThreadKey'' KInt64 ''0'', fld ''Snippet'' KString ''1'',
     fld ''IsAdminSnippet'' KBool ''2'', fld ''SnippetSenderContactId'' KInt64 ''3'',
     fld ''SnippetHasEmoji'' KBool ''4'', fld ''ViewedPluginKey'' KString ''5'',
     fld ''ViewedPluginContext'' KString ''6'', unrecognized_fld]"

definition LSVerifyThreadExists :: "rfield list" where
  "LSVerifyThreadExists =
    [fld ''ThreadKey'' KInt64 ''0'', fld ''ThreadType'' KInt64 ''1'',
     fld ''FolderName'' KString ''2'', fld ''ParentThreadKey'' KInt64 ''3'',
     fld ''AuthorityLevel'' KInt64 ''4'', fld ''SyncGroup'' KInt64 ''5'', unrecognized_fld]"

definition LSBumpThread :: "rfield list" where
  "LSBumpThread =
    [fld ''LastReadWatermarkTimestampMs'' KInt64 ''0'', fld ''BumpStatus'' KInt64 ''1'',
     fld ''ThreadKey'' KInt64 ''2'', unrecognized_fld]"

definition LSUpdateThreadSnippetFromLastMessage :: "rfield list" where
  "LSUpdateThreadSnippetFromLastMessage =
    [fld ''AccountId'' KInt64 ''0'', fld ''ThreadKey'' KInt64 ''1'', fld ''Snippet1'' KString ''2'',
     fld ''Snippet2'' KString ''3'', fld ''Snippet3'' KString ''4'', fld ''Snippet4'' KString ''5'',
     fld ''Snippet5'' KString ''6'', fld ''Snippet6'' KString ''7'', fld ''Snippet7'' KString ''8'',
     fld ''Snippet8'' KString ''9'', fld ''Snippet9'' KString ''10'',
     fld ''IsAdminSnippet'' KBool ''11'', unrecognized_fld]"

definition LSUpdateThreadSnippetFromLastMessageV2 :: "rfield list" where
  "LSUpdateThreadSnippetFromLastMessageV2 =
    [fld ''ThreadKey'' KInt64 ''0'', unrecognized_fld]"

definition LSDeleteBannersByIds :: "rfield list" where
  "LSDeleteBannersByIds =
    [fld ''ThreadKey'' KInt64 ''0'', unrecognized_fld]"

definition LSUpdateDeliveryReceipt :: "rfield list" where
  "LSUpdateDeliveryReceipt =
    [fld ''DeliveredWatermarkTimestampMs'' KInt64 ''0'', fld ''ThreadKey'' KInt64 ''1'',
     fld ''ContactId'' KInt64 ''2'', unrecognized_fld]"

definition LSUpdateOptimisticContextThreadKeys :: "rfield list" where
  "LSUpdateOptimisticContextThreadKeys =
    [fld ''ThreadKey1'' KInt64 ''0'', fld ''ThreadKey2'' KInt64 ''1'', unrecognized_fld]"

definition LSReplaceOptimisticThread :: "rfield list" where
  "LSReplaceOptimisticThread =
    [fld ''ThreadKey1'' KInt64 ''0'', fld ''ThreadKey2'' KInt64 ''1'', unrecognized_fld]"

definition LSApplyNewGroupThread :: "rfield list" where
  "LSApplyNewGroupThread =
    [fld ''OtidOfFirstMessage'' KString ''0'', fld ''ThreadKey'' KInt64 ''1'',
     fld ''ThreadType'' KInt64 ''2'', fld ''FolderName'' KString ''3'',
     fld ''ParentThreadKey'' KInt64 ''4'', fld ''ThreadPictureUrlFallback'' KString ''5'',
     fld ''LastActivityTimestampMs'' KInt64 ''6'',
     fld ''LastReadWatermarkTimestampMs'' KInt64 ''6'',
     fld ''NullstateDescriptionText1'' KString ''8'',
     fld ''NullstateDescriptionType1'' KInt64 ''9'',
     fld ''NullstateDescriptionText2'' KString ''10'',
     fld ''NullstateDescriptionType2'' KInt64 ''11'', fld ''CannotUnsendReason'' KInt64 ''12'',
     fld ''Capabilities'' KInt64 ''13'', fld ''InviterId'' KInt64 ''14'',
     fld ''IgFolder'' KInt64 ''15'', fld ''ThreadSubtype'' KInt64 ''16'', unrecognized_fld]"

definition LSRemoveAllParticipantsForThread :: "rfield list" where
  "LSRemoveAllParticipantsForThread =
    [fld ''ThreadKey'' KInt64 ''0'', unrecognized_fld]"

definition LSUpdateThreadInviteLinksInfo :: "rfield list" where
  "LSUpdateThreadInviteLinksInfo =
    [fld ''ThreadKey'' KInt64 ''0'', fld ''ThreadInvitesEnabled'' KInt64 ''1'',
     fld ''ThreadInviteLink'' KString ''2'', unrecognized_fld]"

definition LSUpdateThreadParticipantAdminStatus :: "rfield list" where
  "LSUpdateThreadParticipantAdminStatus =
    [fld ''ThreadKey'' KInt64 ''0'', fld ''ContactId'' KInt64 ''1'', fld ''IsAdmin'' KBool ''2'',
     unrecognized_fld]"

definition LSUpdateParticipantSubscribeSourceText :: "rfield list" where
  "LSUpdateParticipantSubscribeSourceText =
    [fld ''ThreadKey'' KInt64 ''0'', fld ''ContactId'' KInt64 ''1'',
     fld ''SubscribeSource'' KString ''2'', unrecognized_fld]"

definition LSOverwriteAllThreadParticipantsAdminStatus :: "rfield list" where
  "LSOverwriteAllThreadParticipantsAdminStatus =
    [fld ''ThreadKey'' KInt64 ''0'', fld ''IsAdmin'' KBool ''1'', unrecognized_fld]"

definition LSUpdateParticipantCapabilities :: "rfield list" where
  "LSUpdateParticipantCapabilities =
    [fld ''ContactId'' KInt64 ''0'', fld ''ThreadKey'' KInt64 ''1'', unrecognized_fld]"

definition LSChangeViewerStatus :: "rfield list" where
  "LSChangeViewerStatus =
    [fld ''ThreadKey'' KInt64 ''0'', fld ''CannotReplyReason'' KString ''1'', unrecognized_fld]"

definition LSSyncUpdateThreadName :: "rfield list" where
  "LSSyncUpdateThreadName =
    [fld ''ThreadName'' KString ''0'', fld ''ThreadKey'' KInt64 ''1'',
     fld ''ThreadName1'' KString ''2'', unrecognized_fld]"

definition LSSetThreadImageURL :: "rfield list" where
  "LSSetThreadImageURL =
    [fld ''ThreadKey'' KInt64 ''0'', fld ''ImageURL'' KString ''1'',
     fld ''ImageFallbackURL'' KString ''2'', fld ''ImageURLExpiryTimeMS'' KInt64 ''3'',
     fld ''IsCustomThreadPicture'' KBool ''4'', fld ''ShouldRoundThreadPicture'' KBool ''5'',
     unrecognized_fld]"

definition LSWriteCTAIdToThreadsTable :: "rfield list" where
  "LSWriteCTAIdToThreadsTable =
    [fld ''ThreadKey'' KInt64 ''0'', fld ''LastMessageCtaType'' KString ''1'',
     fld ''LastMessageCtaTimestampMs'' KInt64 ''2'', unrecognized_fld]"

definition LSQueryAdditionalGroupThreads :: "rfield list" where
  "LSQueryAdditionalGroupThreads =
    [fld ''NumThreads'' KInt64 ''0'', fld ''NumMessages'' KInt64 ''1'',
     fld ''AdditionalPagesToFetch'' KInt64 ''2'', unrecognized_fld]"

definition LSDeleteThenInsertIgThreadInfo :: "rfield list" where
  "LSDeleteThenInsertIgThreadInfo =
    [fld ''ThreadKey'' KInt64 ''0'', fld ''IgThreadId'' KString ''1'', unrecognized_fld]"

definition LSMarkThreadRead :: "rfield list" where
  "LSMarkThreadRead =
    [fld ''LastReadWatermarkTimestampMs'' KInt64 ''0'', fld ''ThreadKey'' KInt64 ''1'',
     unrecognized_fld]"

definition LSMarkThreadReadV2 :: "rfield list" where
  "LSMarkThreadReadV2 =
    [fld ''ThreadKey'' KInt64 ''0'', fld ''LastReadWatermarkTimestampMs'' KInt64 ''1'',
     unrecognized_fld]"

definition LSUpdateParentFolderReadWatermark :: "rfield list" where
  "LSUpdateParentFolderReadWatermark =
    [fld ''ThreadKey'' KInt64 ''0'', unrecognized_fld]"

definition LSUpdateOrInsertThread :: "rfield list" where
  "LSUpdateOrInsertThread =
    [fld ''LastActivityTimestampMs'' KInt64 ''0'',
     fld ''LastReadWatermarkTimestampMs'' KInt64 ''1'', fld ''Snippet'' KString ''2'',
     fld ''ThreadName'' KString ''3'', fld ''ThreadPictureUrl'' KString ''4'',
     fld ''NeedsAdminApprovalForNewParticipant'' KBool ''5'', fld ''AuthorityLevel'' KInt64 ''6'',
     fld ''ThreadKey'' KInt64 ''7'', fld ''MailboxType'' KInt64 ''8'',
     fld ''ThreadType'' KInt64 ''9'', fld ''FolderName'' KString ''10'',
     fld ''ThreadPictureUrlFallback'' KString ''11'',
     fld ''ThreadPictureUrlExpirationTimestampMs'' KInt64 ''12'',
     fld ''RemoveWatermarkTimestampMs'' KInt64 ''13'', fld ''MuteExpireTimeMs'' KInt64 ''14'',
     fld ''MuteMentionExpireTimeMs'' KInt64 ''15'', fld ''MuteCallsExpireTimeMs'' KInt64 ''16'',
     fld ''GroupNotificationSettings'' KInt64 ''19'', fld ''IsAdminSnippet'' KBool ''20'',
     fld ''SnippetSenderContactId'' KInt64 ''21'', fld ''SnippetStringHash'' KInt64 ''24'',
     fld ''SnippetStringArgument1'' KInt64 ''25'', fld ''SnippetAttribution'' KInt64 ''26'',
     fld ''SnippetAttributionStringHash'' KInt64 ''27'',
     fld ''DisappearingSettingTtl'' KInt64 ''28'',
     fld ''DisappearingSettingUpdatedTs'' KInt64 ''29'',
     fld ''DisappearingSettingUpdatedBy'' KInt64 ''30'', fld ''OngoingCallState'' KInt64 ''32'',
     fld ''CannotReplyReason'' KInt64 ''33'', fld ''CustomEmoji'' KString ''34'',
     fld ''CustomEmojiImageUrl'' KString ''35'', fld ''OutgoingBubbleColor'' KInt64 ''36'',
     fld ''ThemeFbid'' KInt64 ''37'', fld ''ParentThreadKey'' KInt64 ''38'',
     fld ''NullstateDescriptionText1'' KString ''39'',
     fld ''NullstateDescriptionType1'' KInt64 ''40'',
     fld ''NullstateDescriptionText2'' KString ''41'',
     fld ''NullstateDescriptionType2'' KInt64 ''42'',
     fld ''NullstateDescriptionText3'' KString ''43'',
     fld ''NullstateDescriptionType3'' KInt64 ''44'', fld ''SnippetHasEmoji'' KBool ''45'',
     fld ''HasPersistentMenu'' KBool ''46'', fld ''DisableComposerInput'' KBool ''47'',
     fld ''CannotUnsendReason'' KInt64 ''48'', fld ''ViewedPluginKey'' KInt64 ''49'',
     fld ''ViewedPluginContext'' KInt64 ''50'', fld ''ClientThreadKey'' KInt64 ''51'',
     fld ''Capabilities'' KInt64 ''52'', fld ''ShouldRoundThreadPicture'' KInt64 ''53'',
     fld ''ProactiveWarningDismissTime'' KInt64 ''54'', fld ''IsCustomThreadPicture'' KBool ''55'',
     fld ''OtidOfFirstMessage'' KInt64 ''56'', fld ''NormalizedSearchTerms'' KString ''57'',
     fld ''AdditionalThreadContext'' KString ''58'', fld ''DisappearingThreadKey'' KInt64 ''59'',
     fld ''IsDisappearingMode'' KBool ''60'', fld ''DisappearingModeInitiator'' KInt64 ''61'',
     fld ''UnreadDisappearingMessageCount'' KInt64 ''62'', fld ''LastMessageCtaId'' KInt64 ''64'',
     fld ''LastMessageCtaType'' KString ''65'', fld ''LastMessageCtaTimestampMs'' KInt64 ''66'',
     fld ''ConsistentThreadFbid'' KInt64 ''67'', fld ''ThreadDescription'' KString ''69'',
     fld ''UnsendLimitMs'' KInt64 ''70'', fld ''Capabilities2'' KInt64 ''78'',
     fld ''Capabilities3'' KInt64 ''79'', fld ''SyncGroup'' KInt64 ''82'',
     fld ''ThreadInvitesEnabled'' KInt64 ''83'', fld ''ThreadInviteLink'' KString ''84'',
     fld ''IsAllUnreadMessageMissedCallXma'' KBool ''85'',
     fld ''NumUnreadSubthreads'' KInt64 ''86'', fld ''SubthreadCount'' KInt64 ''87'',
     fld ''LastNonMissedCallXmaMessageTimestampMs'' KInt64 ''88'',
     fld ''ThreadInvitesEnabledV2'' KInt64 ''90'', fld ''JoinRequestApprovalSetting'' KInt64 ''93'',
     fld ''HasPendingInvitation'' KInt64 ''94'', fld ''EventStartTimestampMs'' KInt64 ''95'',
     fld ''EventEndTimestampMs'' KInt64 ''96'', fld ''TakedownState'' KInt64 ''97'',
     fld ''SecondaryParentThreadKey'' KInt64 ''98'', fld ''IgFolder'' KInt64 ''99'',
     fld ''InviterId'' KInt64 ''100'', fld ''ThreadTags'' KInt64 ''101'',
     fld ''IsReadReceiptsDisabled'' KBool ''102'', fld ''ReadReceiptsDisabledV2'' KInt64 ''103'',
     fld ''ThreadStatus'' KInt64 ''104'', fld ''ThreadSubtype'' KInt64 ''105'',
     fld ''PauseThreadTimestamp'' KInt64 ''106'', fld ''Capabilities4'' KString ''107'',
     unrecognized_fld]"

definition LSSetThreadCannotUnsendReason :: "rfield list" where
  "LSSetThreadCannotUnsendReason =
    [fld ''ThreadKey'' KInt64 ''0'', fld ''CannotUnsendReason'' KInt64 ''1'', unrecognized_fld]"

definition LSClearLocalThreadPictureUrl :: "rfield list" where
  "LSClearLocalThreadPictureUrl =
    [fld ''ThreadKey'' KInt64 ''0'', unrecognized_fld]"

definition LSUpdateInviterId :: "rfield list" where
  "LSUpdateInviterId =
    [fld ''ThreadKey'' KInt64 ''0'', fld ''InviterId'' KInt64 ''1'', unrecognized_fld]"

definition LSAddToMemberCount :: "rfield list" where
  "LSAddToMemberCount =
    [fld ''ThreadKey'' KInt64 ''0'', fld ''IncrementCount'' KInt64 ''1'', unrecognized_fld]"

definition LSMoveThreadToArchivedFolder :: "rfield list" where
  "LSMoveThreadToArchivedFolder =
    [fld ''ThreadKey'' KInt64 ''0'', unrecognized_fld]"

definition LSMoveThreadToE2EECutoverFolder :: "rfield list" where
  "LSMoveThreadToE2EECutoverFolder =
    [fld ''ThreadKey'' KInt64 ''0'', unrecognized_fld]"

definition LSRemoveParticipantFromThread :: "rfield list" where
  "LSRemoveParticipantFromThread =
    [fld ''ThreadKey'' KInt64 ''0'', fld ''ParticipantId'' KInt64 ''1'', unrecognized_fld]"

definition LSDeleteRtcRoomOnThread :: "rfield list" where
  "LSDeleteRtcRoomOnThread =
    [fld ''ThreadKey'' KInt64 ''0'', unrecognized_fld]"

definition LSUpdateThreadTheme :: "rfield list" where
  "LSUpdateThreadTheme =
    [fld ''ThreadKey'' KInt64 ''0'', fld ''Unknown1'' KInt64 ''1'', fld ''Unknown2'' KInt64 ''2'',
     unrecognized_fld]"

definition LSUpdateThreadApprovalMode :: "rfield list" where
  "LSUpdateThreadApprovalMode =
    [fld ''ThreadKey'' KInt64 ''0'', fld ''Value'' KBool ''1'', unrecognized_fld]"

definition LSRemoveAllRequestsFromAdminApprovalQueue :: "rfield list" where
  "LSRemoveAllRequestsFromAdminApprovalQueue =
    [fld ''ThreadKey'' KInt64 ''0'', unrecognized_fld]"

definition LSDeleteThread :: "rfield list" where
  "LSDeleteThread =
    [fld ''ThreadKey'' KInt64 ''0'', fld ''UnknownBool1'' KBool ''1'', unrecognized_fld]"

definition LSUpdateThreadMuteSetting :: "rfield list" where
  "LSUpdateThreadMuteSetting =
    [fld ''ThreadKey'' KInt64 ''0'', fld ''MuteExpireTimeMS'' KInt64 ''1'', unrecognized_fld]"

definition LSVerifyHybridThreadExists :: "rfield list" where
  "LSVerifyHybridThreadExists =
    [fld ''ThreadKey'' KInt64 ''0'', fld ''ThreadJID'' KInt64 ''1'',
     fld ''ThreadType'' KInt64 ''2'', fld ''IsGroupThread'' KBool ''5'',
     fld ''LastActivityTimestampMS'' KInt64 ''6'',
     fld ''LastReadWatermarkTimestampMS'' KInt64 ''7'', unrecognized_fld]"

definition LSUpdateThreadAuthorityAndMappingWithOTIDFromJID :: "rfield list" where
  "LSUpdateThreadAuthorityAndMappingWithOTIDFromJID =
    [fld ''ThreadJID'' KInt64 ''0'', fld ''ThreadKey'' KInt64 ''1'', unrecognized_fld]"

lemmas row_defs = fld_def cond_fld_def unrecognized_fld_def

end
