(* ===== verification/Ls_Table.thy ===== *)
theory Ls_Table
  imports Ls_Rows
begin

text \<open>
  The table of the Lightspeed decoder (\<^verbatim>\<open>pkg/messagix/table/table.go\<close>): the slices it has, the stored
  procedures that fill them, and the map of dependencies made from the procedures a response names.
  The reflective decoder of \<open>Lightspeed\<close> is instantiated with it, and the conditions under which that
  decoder fills rows faithfully are established for every row struct of the bridge.
\<close>

section \<open>Model\<close>

definition LSTable :: schema where
  "LSTable =
    [(''LSMciTraceLog'', LSMciTraceLog),
     (''LSExecuteFirstBlockForSyncTransaction'', LSExecuteFirstBlockForSyncTransaction),
     (''LSTruncateMetadataThreads'', LSTruncateMetadataThreads),
     (''LSTruncateThreadRangeTablesForSyncGroup'', LSTruncateThreadRangeTablesForSyncGroup),
     (''LSUpsertSyncGroupThreadsRange'', LSUpsertSyncGroupThreadsRange),
     (''LSUpsertInboxThreadsRange'', LSUpsertInboxThreadsRange),
     (''LSUpdateThreadsRangesV2'', LSUpdateThreadsRangesV2), (''LSUpsertFolder'', LSUpsertFolder),
     (''LSUpsertFolderSeenTimestamp'', LSUpsertFolderSeenTimestamp),
     (''LSSetHMPSStatus'', LSSetHMPSStatus),
     (''LSTruncateTablesForSyncGroup'', LSTruncateTablesForSyncGroup),
     (''LSDeleteThenInsertThread'', LSDeleteThenInsertThread),
     (''LSAddParticipantIdToGroupThread'', LSAddParticipantIdToGroupThread),
     (''LSClearPinnedMessages'', LSClearPinnedMessages),
     (''LSWriteThreadCapabilities'', LSWriteThreadCapabilities),
     (''LSUpsertMessage'', LSUpsertMessage), (''LSSetForwardScore'', LSSetForwardScore),
     (''LSSetMessageDisplayedContentTypes'', LSSetMessageDisplayedContentTypes),
     (''LSUpdateReadReceipt'', LSUpdateReadReceipt),
     (''LSInsertNewMessageRange'', LSInsertNewMessageRange),
     (''LSUpdateExistingMessageRange'', LSUpdateExistingMessageRange),
     (''LSDeleteExistingMessageRanges'', LSDeleteExistingMessageRanges),
     (''LSUpsertSequenceId'', LSUpsertSequenceID),
     (''LSVerifyContactRowExists'', LSVerifyContactRowExists),
     (''LSThreadsRangesQuery'', LSThreadsRangesQuery), (''LSSetRegionHint'', LSSetRegionHint),
     (''LSExecuteFinallyBlockForSyncTransaction'', LSExecuteFinallyBlockForSyncTransaction),
     (''LSRemoveTask'', LSRemoveTask), (''LSTaskExists'', LSTaskExists),
     (''LSDeleteThenInsertContact'', LSDeleteThenInsertContact),
     (''LSUpdateTypingIndicator'', LSUpdateTypingIndicator),
     (''LSCheckAuthoritativeMessageExists'', LSCheckAuthoritativeMessageExists),
     (''LSMoveThreadToInboxAndUpdateParent'', LSMoveThreadToInboxAndUpdateParent),
     (''LSUpdateThreadSnippet'', LSUpdateThreadSnippet),
     (''LSVerifyThreadExists'', LSVerifyThreadExists), (''LSBumpThread'', LSBumpThread),
     (''LSUpdateParticipantLastMessageSendTimestamp'', LSUpdateParticipantLastMessageSendTimestamp),
     (''LSInsertMessage'', LSInsertMessage), (''LSUpsertGradientColor'', LSUpsertGradientColor),
     (''LSUpsertTheme'', LSUpsertTheme), (''LSInsertStickerAttachment'', LSInsertStickerAttachment),
     (''LSUpsertReaction'', LSUpsertReaction), (''LSDeleteReaction'', LSDeleteReaction),
     (''LSUpdateOrInsertReactionV2'', LSUpdateOrInsertReactionV2),
     (''LSDeleteReactionV2'', LSDeleteReactionV2),
     (''LSDeleteThenInsertReactionsV2Detail'', LSDeleteThenInsertReactionsV2Detail),
     (''LSHandleRepliesOnUnsend'', LSHandleRepliesOnUnsend),
     (''LSInsertXmaAttachment'', LSInsertXmaAttachment),
     (''LSUpdateUnsentMessageCollapsedStatus'', LSUpdateUnsentMessageCollapsedStatus),
     (''LSDeleteThenInsertMessage'', LSDeleteThenInsertMessage),
     (''LSUpdateThreadSnippetFromLastMessage'', LSUpdateThreadSnippetFromLastMessage),
     (''LSUpdateForRollCallMessageDeleted'', LSUpdateForRollCallMessageDeleted),
     (''LSInsertBlobAttachment'', LSInsertBlobAttachment),
     (''LSDeleteBannersByIds'', LSDeleteBannersByIds),
     (''LSUpdateDeliveryReceipt'', LSUpdateDeliveryReceipt),
     (''LSUpdateTaskQueueName'', LSUpdateTaskQueueName), (''LSUpdateTaskValue'', LSUpdateTaskValue),
     (''LSReplaceOptimsiticMessage'', LSReplaceOptimsiticMessage),
     (''LSUpdateOptimisticContextThreadKeys'', LSUpdateOptimisticContextThreadKeys),
     (''LSReplaceOptimisticThread'', LSReplaceOptimisticThread),
     (''LSApplyNewGroupThread'', LSApplyNewGroupThread),
     (''LSRemoveAllParticipantsForThread'', LSRemoveAllParticipantsForThread),
     (''LSAppendDataTraceAddon'', LSAppendDataTraceAddon),
     (''LSUpdateThreadInviteLinksInfo'', LSUpdateThreadInviteLinksInfo),
     (''LSUpdateThreadParticipantAdminStatus'', LSUpdateThreadParticipantAdminStatus),
     (''LSUpdateParticipantSubscribeSourceText'', LSUpdateParticipantSubscribeSourceText),
     (''LSOverwriteAllThreadParticipantsAdminStatus'', LSOverwriteAllThreadParticipantsAdminStatus),
     (''LSUpdateParticipantCapabilities'', LSUpdateParticipantCapabilities),
     (''LSChangeViewerStatus'', LSChangeViewerStatus),
     (''LSUpdateSearchQueryStatus'', LSUpdateSearchQueryStatus),
     (''LSInsertSearchResult'', LSInsertSearchResult),
     (''LSInsertSearchSection'', LSInsertSearchSection),
     (''LSSyncUpdateThreadName'', LSSyncUpdateThreadName),
     (''LSSetThreadImageURL'', LSSetThreadImageURL),
     (''LSSetMessageTextHasLinks'', LSSetMessageTextHasLinks),
     (''LSUpdateMessagesOptimisticContext'', LSUpdateMessagesOptimisticContext),
     (''LSMailboxTaskCompletionApiOnTaskCompletion'', LSMailboxTaskCompletionApiOnTaskCompletion),
     (''LSWriteCTAIdToThreadsTable'', LSWriteCTAIdToThreadsTable),
     (''LSQueryAdditionalGroupThreads'', LSQueryAdditionalGroupThreads),
     (''LSReplaceOptimisticReaction'', LSReplaceOptimisticReaction),
     (''LSDeleteThenInsertMessageRequest'', LSDeleteThenInsertMessageRequest),
     (''LSDeleteThenInsertIgThreadInfo'', LSDeleteThenInsertIgThreadInfo),
     (''LSDeleteThenInsertContactPresence'', LSDeleteThenInsertContactPresence),
     (''LSTruncatePresenceDatabase'', LSTruncatePresenceDatabase),
     (''LSMarkThreadRead'', LSMarkThreadRead), (''LSMarkThreadReadV2'', LSMarkThreadReadV2),
     (''LSUpdateParentFolderReadWatermark'', LSUpdateParentFolderReadWatermark),
     (''LSInsertAttachmentItem'', LSInsertAttachmentItem),
     (''LSGetFirstAvailableAttachmentCTAID'', LSGetFirstAvailableAttachmentCTAID),
     (''LSInsertAttachmentCta'', LSInsertAttachmentCta),
     (''LSUpdateAttachmentItemCtaAtIndex'', LSUpdateAttachmentItemCtaAtIndex),
     (''LSUpdateAttachmentCtaAtIndexIgnoringAuthority'', LSUpdateAttachmentCtaAtIndexIgnoringAuthority),
     (''LSHasMatchingAttachmentCTA'', LSHasMatchingAttachmentCTA),
     (''LSDeleteThenInsertIGContactInfo'', LSDeleteThenInsertIGContactInfo),
     (''LSIssueNewTask'', LSIssueNewTask), (''LSUpdateOrInsertThread'', LSUpdateOrInsertThread),
     (''LSSetThreadCannotUnsendReason'', LSSetThreadCannotUnsendReason),
     (''LSClearLocalThreadPictureUrl'', LSClearLocalThreadPictureUrl),
     (''LSUpdateInviterId'', LSUpdateInviterId), (''LSAddToMemberCount'', LSAddToMemberCount),
     (''LSMoveThreadToArchivedFolder'', LSMoveThreadToArchivedFolder),
     (''LSRemoveParticipantFromThread'', LSRemoveParticipantFromThread),
     (''LSDeleteRtcRoomOnThread'', LSDeleteRtcRoomOnThread),
     (''LSUpdateThreadTheme'', LSUpdateThreadTheme),
     (''LSUpdateThreadApprovalMode'', LSUpdateThreadApprovalMode),
     (''LSRemoveAllRequestsFromAdminApprovalQueue'', LSRemoveAllRequestsFromAdminApprovalQueue),
     (''LSUpdateLastSyncCompletedTimestampMsToNow'', LSUpdateLastSyncCompletedTimestampMsToNow),
     (''LSDeleteMessage'', LSDeleteMessage), (''LSHandleRepliesOnRemove'', LSHandleRepliesOnRemove),
     (''LSRefreshLastActivityTimestamp'', LSRefreshLastActivityTimestamp),
     (''LSSetPinnedMessage'', LSSetPinnedMessage),
     (''LSStoryContactSyncFromBucket'', LSStoryContactSyncFromBucket),
     (''LSUpsertLiveLocationSharer'', LSUpsertLiveLocationSharer),
     (''LSDeleteLiveLocationSharer'', LSDeleteLiveLocationSharer),
     (''LSUpdateSharedAlbumOnMessageRecall'', LSUpdateSharedAlbumOnMessageRecall),
     (''LSEditMessage'', LSEditMessage),
     (''LSHandleRepliesOnMessageEdit'', LSHandleRepliesOnMessageEdit),
     (''LSUpdateThreadSnippetFromLastMessageV2'', LSUpdateThreadSnippetFromLastMessageV2),
     (''LSMarkOptimisticMessageFailed'', LSMarkOptimisticMessageFailed),
     (''LSUpdateSubscriptErrorMessage'', LSUpdateSubscriptErrorMessage),
     (''LSDeleteThenInsertBotProfileInfoCategoryV2'', LSDeleteThenInsertBotProfileInfoCategoryV2),
     (''LSDeleteThenInsertBotProfileInfoV2'', LSDeleteThenInsertBotProfileInfoV2),
     (''LSHandleSyncFailure'', LSHandleSyncFailure), (''LSDeleteThread'', LSDeleteThread),
     (''LSAddPollForThread'', LSAddPollForThread), (''LSAddPollOption'', LSAddPollOption),
     (''LSAddPollOptionV2'', LSAddPollOption), (''LSAddPollVote'', LSAddPollVote),
     (''LSAddPollVoteV2'', LSAddPollVote),
     (''LSUpdateThreadMuteSetting'', LSUpdateThreadMuteSetting),
     (''LSInsertAttachment'', LSInsertAttachment),
     (''LSUpdateExtraAttachmentColumns'', LSUpdateExtraAttachmentColumns),
     (''LSMoveThreadToE2EECutoverFolder'', LSMoveThreadToE2EECutoverFolder),
     (''LSHandleFailedTask'', LSHandleFailedTask), (''LSIssueNewError'', LSIssueNewError),
     (''LSRemoveOptimisticGroupThread'', LSRemoveOptimisticGroupThread),
     (''LSUpdateOrInsertEditMessageHistory'', LSUpdateOrInsertEditMessageHistory),
     (''LSVerifyHybridThreadExists'', LSVerifyHybridThreadExists),
     (''LSUpdateThreadAuthorityAndMappingWithOTIDFromJID'', LSUpdateThreadAuthorityAndMappingWithOTIDFromJID),
     (''LSVerifyContactParticipantExist'', LSVerifyContactParticipantExist),
     (''LSVerifyCommunityMemberContextualProfileExists'', LSVerifyCommunityMemberContextualProfileExists),
     (''LSInsertCommunityMember'', LSInsertCommunityMember),
     (''LSUpdateOrInsertCommunityMember'', LSUpdateOrInsertCommunityMember),
     (''LSUpsertCommunityMemberRanges'', LSUpsertCommunityMemberRanges),
     (''LSUpdateSubThreadXMA'', LSUpdateSubThreadXMA),
     (''LSSetNumUnreadSubthreads'', LSSetNumUnreadSubthreads)]"

definition SPTable :: "(string \<times> string) list" where
  "SPTable =
    [(''removeAllRequestsFromAdminApprovalQueue'', ''LSRemoveAllRequestsFromAdminApprovalQueue''),
     (''updateThreadApprovalMode'', ''LSUpdateThreadApprovalMode''),
     (''updateThreadTheme'', ''LSUpdateThreadTheme''),
     (''deleteRtcRoomOnThread'', ''LSDeleteRtcRoomOnThread''),
     (''removeParticipantFromThread'', ''LSRemoveParticipantFromThread''),
     (''moveThreadToArchivedFolder'', ''LSMoveThreadToArchivedFolder''),
     (''setThreadCannotUnsendReason'', ''LSSetThreadCannotUnsendReason''),
     (''clearLocalThreadPictureUrl'', ''LSClearLocalThreadPictureUrl''),
     (''updateInviterId'', ''LSUpdateInviterId''), (''addToMemberCount'', ''LSAddToMemberCount''),
     (''updateOrInsertThread'', ''LSUpdateOrInsertThread''), (''issueNewTask'', ''LSIssueNewTask''),
     (''deleteThenInsertIGContactInfo'', ''LSDeleteThenInsertIGContactInfo''),
     (''hasMatchingAttachmentCTA'', ''LSHasMatchingAttachmentCTA''),
     (''updateAttachmentCtaAtIndexIgnoringAuthority'', ''LSUpdateAttachmentCtaAtIndexIgnoringAuthority''),
     (''updateAttachmentItemCtaAtIndex'', ''LSUpdateAttachmentItemCtaAtIndex''),
     (''insertAttachmentCta'', ''LSInsertAttachmentCta''),
     (''getFirstAvailableAttachmentCTAID'', ''LSGetFirstAvailableAttachmentCTAID''),
     (''insertAttachmentItem'', ''LSInsertAttachmentItem''),
     (''updateParentFolderReadWatermark'', ''LSUpdateParentFolderReadWatermark''),
     (''markThreadRead'', ''LSMarkThreadRead''), (''markThreadReadV2'', ''LSMarkThreadReadV2''),
     (''truncatePresenceDatabase'', ''LSTruncatePresenceDatabase''),
     (''deleteThenInsertContactPresence'', ''LSDeleteThenInsertContactPresence''),
     (''deleteThenInsertIgThreadInfo'', ''LSDeleteThenInsertIgThreadInfo''),
     (''deleteThenInsertMessageRequest'', ''LSDeleteThenInsertMessageRequest''),
     (''replaceOptimisticReaction'', ''LSReplaceOptimisticReaction''),
     (''queryAdditionalGroupThreads'', ''LSQueryAdditionalGroupThreads''),
     (''writeCTAIdToThreadsTable'', ''LSWriteCTAIdToThreadsTable''),
     (''mailboxTaskCompletionApiOnTaskCompletion'', ''LSMailboxTaskCompletionApiOnTaskCompletion''),
     (''updateMessagesOptimisticContext'', ''LSUpdateMessagesOptimisticContext''),
     (''setMessageTextHasLinks'', ''LSSetMessageTextHasLinks''),
     (''syncUpdateThreadName'', ''LSSyncUpdateThreadName''),
     (''setThreadImageURL'', ''LSSetThreadImageURL''),
     (''insertSearchSection'', ''LSInsertSearchSection''),
     (''insertSearchResult'', ''LSInsertSearchResult''),
     (''updateSearchQueryStatus'', ''LSUpdateSearchQueryStatus''),
     (''changeViewerStatus'', ''LSChangeViewerStatus''),
     (''updateParticipantCapabilities'', ''LSUpdateParticipantCapabilities''),
     (''overwriteAllThreadParticipantsAdminStatus'', ''LSOverwriteAllThreadParticipantsAdminStatus''),
     (''updateParticipantSubscribeSourceText'', ''LSUpdateParticipantSubscribeSourceText''),
     (''updateThreadParticipantAdminStatus'', ''LSUpdateThreadParticipantAdminStatus''),
     (''updateThreadInviteLinksInfo'', ''LSUpdateThreadInviteLinksInfo''),
     (''appendDataTraceAddon'', ''LSAppendDataTraceAddon''),
     (''removeAllParticipantsForThread'', ''LSRemoveAllParticipantsForThread''),
     (''applyNewGroupThread'', ''LSApplyNewGroupThread''),
     (''replaceOptimisticThread'', ''LSReplaceOptimisticThread''),
     (''updateOptimisticContextThreadKeys'', ''LSUpdateOptimisticContextThreadKeys''),
     (''replaceOptimsiticMessage'', ''LSReplaceOptimsiticMessage''),
     (''updateTaskQueueName'', ''LSUpdateTaskQueueName''),
     (''updateTaskValue'', ''LSUpdateTaskValue''),
     (''updateDeliveryReceipt'', ''LSUpdateDeliveryReceipt''),
     (''deleteBannersByIds'', ''LSDeleteBannersByIds''),
     (''truncateTablesForSyncGroup'', ''LSTruncateTablesForSyncGroup''),
     (''insertXmaAttachment'', ''LSInsertXmaAttachment''),
     (''insertNewMessageRange'', ''LSInsertNewMessageRange''),
     (''updateExistingMessageRange'', ''LSUpdateExistingMessageRange''),
     (''threadsRangesQuery'', ''LSThreadsRangesQuery''),
     (''updateThreadSnippetFromLastMessage'', ''LSUpdateThreadSnippetFromLastMessage''),
     (''upsertInboxThreadsRange'', ''LSUpsertInboxThreadsRange''),
     (''deleteThenInsertThread'', ''LSDeleteThenInsertThread''),
     (''addParticipantIdToGroupThread'', ''LSAddParticipantIdToGroupThread''),
     (''upsertMessage'', ''LSUpsertMessage''), (''clearPinnedMessages'', ''LSClearPinnedMessages''),
     (''mciTraceLog'', ''LSMciTraceLog''), (''insertBlobAttachment'', ''LSInsertBlobAttachment''),
     (''updateUnsentMessageCollapsedStatus'', ''LSUpdateUnsentMessageCollapsedStatus''),
     (''executeFirstBlockForSyncTransaction'', ''LSExecuteFirstBlockForSyncTransaction''),
     (''updateThreadsRangesV2'', ''LSUpdateThreadsRangesV2''),
     (''upsertSyncGroupThreadsRange'', ''LSUpsertSyncGroupThreadsRange''),
     (''upsertFolder'', ''LSUpsertFolder''),
     (''upsertFolderSeenTimestamp'', ''LSUpsertFolderSeenTimestamp''),
     (''setHMPSStatus'', ''LSSetHMPSStatus''),
     (''handleRepliesOnUnsend'', ''LSHandleRepliesOnUnsend''),
     (''deleteExistingMessageRanges'', ''LSDeleteExistingMessageRanges''),
     (''writeThreadCapabilities'', ''LSWriteThreadCapabilities''),
     (''upsertSequenceId'', ''LSUpsertSequenceId''),
     (''executeFinallyBlockForSyncTransaction'', ''LSExecuteFinallyBlockForSyncTransaction''),
     (''verifyContactRowExists'', ''LSVerifyContactRowExists''), (''taskExists'', ''LSTaskExists''),
     (''removeTask'', ''LSRemoveTask''),
     (''deleteThenInsertMessage'', ''LSDeleteThenInsertMessage''),
     (''deleteThenInsertContact'', ''LSDeleteThenInsertContact''),
     (''updateTypingIndicator'', ''LSUpdateTypingIndicator''),
     (''checkAuthoritativeMessageExists'', ''LSCheckAuthoritativeMessageExists''),
     (''moveThreadToInboxAndUpdateParent'', ''LSMoveThreadToInboxAndUpdateParent''),
     (''updateThreadSnippet'', ''LSUpdateThreadSnippet''),
     (''setMessageDisplayedContentTypes'', ''LSSetMessageDisplayedContentTypes''),
     (''verifyThreadExists'', ''LSVerifyThreadExists''),
     (''updateReadReceipt'', ''LSUpdateReadReceipt''), (''setForwardScore'', ''LSSetForwardScore''),
     (''upsertReaction'', ''LSUpsertReaction''),
     (''updateOrInsertReactionV2'', ''LSUpdateOrInsertReactionV2''),
     (''deleteReactionV2'', ''LSDeleteReactionV2''),
     (''deleteThenInsertReactionsV2Detail'', ''LSDeleteThenInsertReactionsV2Detail''),
     (''bumpThread'', ''LSBumpThread''),
     (''updateParticipantLastMessageSendTimestamp'', ''LSUpdateParticipantLastMessageSendTimestamp''),
     (''insertMessage'', ''LSInsertMessage''), (''upsertTheme'', ''LSUpsertTheme''),
     (''upsertGradientColor'', ''LSUpsertGradientColor''),
     (''insertStickerAttachment'', ''LSInsertStickerAttachment''),
     (''updateForRollCallMessageDeleted'', ''LSUpdateForRollCallMessageDeleted''),
     (''updateLastSyncCompletedTimestampMsToNow'', ''LSUpdateLastSyncCompletedTimestampMsToNow''),
     (''deleteMessage'', ''LSDeleteMessage''),
     (''handleRepliesOnRemove'', ''LSHandleRepliesOnRemove''),
     (''refreshLastActivityTimestamp'', ''LSRefreshLastActivityTimestamp''),
     (''setPinnedMessage'', ''LSSetPinnedMessage''),
     (''storyContactSyncFromBucket'', ''LSStoryContactSyncFromBucket''),
     (''upsertLiveLocationSharer'', ''LSUpsertLiveLocationSharer''),
     (''deleteLiveLocationSharer'', ''LSDeleteLiveLocationSharer''),
     (''updateSharedAlbumOnMessageRecall'', ''LSUpdateSharedAlbumOnMessageRecall''),
     (''editMessage'', ''LSEditMessage''),
     (''handleRepliesOnMessageEdit'', ''LSHandleRepliesOnMessageEdit''),
     (''updateThreadSnippetFromLastMessageV2'', ''LSUpdateThreadSnippetFromLastMessageV2''),
     (''markOptimisticMessageFailed'', ''LSMarkOptimisticMessageFailed''),
     (''updateSubscriptErrorMessage'', ''LSUpdateSubscriptErrorMessage''),
     (''deleteThenInsertBotProfileInfoCategoryV2'', ''LSDeleteThenInsertBotProfileInfoCategoryV2''),
     (''deleteThenInsertBotProfileInfoV2'', ''LSDeleteThenInsertBotProfileInfoV2''),
     (''handleSyncFailure'', ''LSHandleSyncFailure''), (''deleteThread'', ''LSDeleteThread''),
     (''addPollOption'', ''LSAddPollOption''), (''addPollOptionV2'', ''LSAddPollOptionV2''),
     (''addPollVote'', ''LSAddPollVote''), (''addPollVoteV2'', ''LSAddPollVoteV2''),
     (''addPollForThread'', ''LSAddPollForThread''), (''deleteReaction'', ''LSDeleteReaction''),
     (''updateThreadMuteSetting'', ''LSUpdateThreadMuteSetting''),
     (''insertAttachment'', ''LSInsertAttachment''),
     (''updateExtraAttachmentColumns'', ''LSUpdateExtraAttachmentColumns''),
     (''moveThreadToE2EECutoverFolder'', ''LSMoveThreadToE2EECutoverFolder''),
     (''handleFailedTask'', ''LSHandleFailedTask''), (''issueNewError'', ''LSIssueNewError''),
     (''removeOptimisticGroupThread'', ''LSRemoveOptimisticGroupThread''),
     (''updateOrInsertEditMessageHistory'', ''LSUpdateOrInsertEditMessageHistory''),
     (''verifyHybridThreadExists'', ''LSVerifyHybridThreadExists''),
     (''updateThreadAuthorityAndMappingWithOTIDFromJID'', ''LSUpdateThreadAuthorityAndMappingWithOTIDFromJID''),
     (''verifyContactParticipantExist'', ''LSVerifyContactParticipantExist''),
     (''verifyCommunityMemberContextualProfileExists'', ''LSVerifyCommunityMemberContextualProfileExists''),
     (''insertCommunityMember'', ''LSInsertCommunityMember''),
     (''updateOrInsertCommunityMember'', ''LSUpdateOrInsertCommunityMember''),
     (''upsertCommunityMemberRanges'', ''LSUpsertCommunityMemberRanges''),
     (''updateSubThreadXMA'', ''LSUpdateSubThreadXMA''),
     (''setNumUnreadSubthreads'', ''LSSetNumUnreadSubthreads'')]"

definition SPToDepMap :: "string list \<Rightarrow> DependencyMap" where
  "SPToDepMap sp =
     foldl (\<lambda>m d. case map_of SPTable d of None \<Rightarrow> m | Some depName \<Rightarrow> m(d \<mapsto> depName)) Map.empty sp"

text \<open>The fields of the table that are not nil: those that a row was appended to.\<close>

definition NonNilFields :: "(string \<Rightarrow> row list) \<Rightarrow> string list" where
  "NonNilFields table = filter (\<lambda>f. table f \<noteq> []) (map fst LSTable)"

section \<open>Lemmas\<close>

text \<open>Every row struct, except the two whose tags repeat an index, passes the check.\<close>

lemma rows_ok:
  "row_ok LSMciTraceLog" "row_ok LSExecuteFirstBlockForSyncTransaction"
  "row_ok LSTruncateMetadataThreads" "row_ok LSTruncateThreadRangeTablesForSyncGroup"
  "row_ok LSUpsertSyncGroupThreadsRange" "row_ok LSUpsertInboxThreadsRange"
  "row_ok LSUpdateThreadsRangesV2" "row_ok LSUpsertFolder" "row_ok LSUpsertFolderSeenTimestamp"
  "row_ok LSSetHMPSStatus" "row_ok LSTruncateTablesForSyncGroup" "row_ok LSDeleteThenInsertThread"
  "row_ok LSAddParticipantIdToGroupThread" "row_ok LSClearPinnedMessages"
  "row_ok LSWriteThreadCapabilities" "row_ok LSUpsertMessage" "row_ok LSSetForwardScore"
  "row_ok LSSetMessageDisplayedContentTypes" "row_ok LSUpdateReadReceipt"
  "row_ok LSInsertNewMessageRange" "row_ok LSUpdateExistingMessageRange"
  "row_ok LSDeleteExistingMessageRanges" "row_ok LSUpsertSequenceID"
  "row_ok LSVerifyContactRowExists" "row_ok LSThreadsRangesQuery" "row_ok LSSetRegionHint"
  "row_ok LSExecuteFinallyBlockForSyncTransaction" "row_ok LSRemoveTask" "row_ok LSTaskExists"
  "row_ok LSDeleteThenInsertContact" "row_ok LSUpdateTypingIndicator"
  "row_ok LSCheckAuthoritativeMessageExists" "row_ok LSMoveThreadToInboxAndUpdateParent"
  "row_ok LSUpdateThreadSnippet" "row_ok LSVerifyThreadExists" "row_ok LSBumpThread"
  "row_ok LSUpdateParticipantLastMessageSendTimestamp" "row_ok LSInsertMessage"
  "row_ok LSUpsertGradientColor" "row_ok LSInsertStickerAttachment" "row_ok LSUpsertReaction"
  "row_ok LSDeleteReaction" "row_ok LSUpdateOrInsertReactionV2" "row_ok LSDeleteReactionV2"
  "row_ok LSDeleteThenInsertReactionsV2Detail" "row_ok LSHandleRepliesOnUnsend"
  "row_ok LSInsertXmaAttachment" "row_ok LSUpdateUnsentMessageCollapsedStatus"
  "row_ok LSDeleteThenInsertMessage" "row_ok LSUpdateThreadSnippetFromLastMessage"
  "row_ok LSUpdateForRollCallMessageDeleted" "row_ok LSInsertBlobAttachment"
  "row_ok LSDeleteBannersByIds" "row_ok LSUpdateDeliveryReceipt" "row_ok LSUpdateTaskQueueName"
  "row_ok LSUpdateTaskValue" "row_ok LSReplaceOptimsiticMessage"
  "row_ok LSUpdateOptimisticContextThreadKeys" "row_ok LSReplaceOptimisticThread"
  "row_ok LSRemoveAllParticipantsForThread" "row_ok LSAppendDataTraceAddon"
  "row_ok LSUpdateThreadInviteLinksInfo" "row_ok LSUpdateThreadParticipantAdminStatus"
  "row_ok LSUpdateParticipantSubscribeSourceText"
  "row_ok LSOverwriteAllThreadParticipantsAdminStatus" "row_ok LSUpdateParticipantCapabilities"
  "row_ok LSChangeViewerStatus" "row_ok LSUpdateSearchQueryStatus" "row_ok LSInsertSearchResult"
  "row_ok LSInsertSearchSection" "row_ok LSSyncUpdateThreadName" "row_ok LSSetThreadImageURL"
  "row_ok LSSetMessageTextHasLinks" "row_ok LSUpdateMessagesOptimisticContext"
  "row_ok LSMailboxTaskCompletionApiOnTaskCompletion" "row_ok LSWriteCTAIdToThreadsTable"
  "row_ok LSQueryAdditionalGroupThreads" "row_ok LSReplaceOptimisticReaction"
  "row_ok LSDeleteThenInsertMessageRequest" "row_ok LSDeleteThenInsertIgThreadInfo"
  "row_ok LSDeleteThenInsertContactPresence" "row_ok LSTruncatePresenceDatabase"
  "row_ok LSMarkThreadRead" "row_ok LSMarkThreadReadV2" "row_ok LSUpdateParentFolderReadWatermark"
  "row_ok LSInsertAttachmentItem" "row_ok LSGetFirstAvailableAttachmentCTAID"
  "row_ok LSInsertAttachmentCta" "row_ok LSUpdateAttachmentItemCtaAtIndex"
  "row_ok LSUpdateAttachmentCtaAtIndexIgnoringAuthority" "row_ok LSHasMatchingAttachmentCTA"
  "row_ok LSDeleteThenInsertIGContactInfo" "row_ok LSIssueNewTask" "row_ok LSUpdateOrInsertThread"
  "row_ok LSSetThreadCannotUnsendReason" "row_ok LSClearLocalThreadPictureUrl"
  "row_ok LSUpdateInviterId" "row_ok LSAddToMemberCount" "row_ok LSMoveThreadToArchivedFolder"
  "row_ok LSRemoveParticipantFromThread" "row_ok LSDeleteRtcRoomOnThread"
  "row_ok LSUpdateThreadTheme" "row_ok LSUpdateThreadApprovalMode"
  "row_ok LSRemoveAllRequestsFromAdminApprovalQueue"
  "row_ok LSUpdateLastSyncCompletedTimestampMsToNow" "row_ok LSDeleteMessage"
  "row_ok LSHandleRepliesOnRemove" "row_ok LSRefreshLastActivityTimestamp"
  "row_ok LSSetPinnedMessage" "row_ok LSStoryContactSyncFromBucket"
  "row_ok LSUpsertLiveLocationSharer" "row_ok LSDeleteLiveLocationSharer"
  "row_ok LSUpdateSharedAlbumOnMessageRecall" "row_ok LSEditMessage"
  "row_ok LSHandleRepliesOnMessageEdit" "row_ok LSUpdateThreadSnippetFromLastMessageV2"
  "row_ok LSMarkOptimisticMessageFailed" "row_ok LSUpdateSubscriptErrorMessage"
  "row_ok LSDeleteThenInsertBotProfileInfoCategoryV2" "row_ok LSDeleteThenInsertBotProfileInfoV2"
  "row_ok LSHandleSyncFailure" "row_ok LSDeleteThread" "row_ok LSAddPollForThread"
  "row_ok LSAddPollOption" "row_ok LSAddPollVote" "row_ok LSUpdateThreadMuteSetting"
  "row_ok LSInsertAttachment" "row_ok LSUpdateExtraAttachmentColumns"
  "row_ok LSMoveThreadToE2EECutoverFolder" "row_ok LSHandleFailedTask" "row_ok LSIssueNewError"
  "row_ok LSRemoveOptimisticGroupThread" "row_ok LSUpdateOrInsertEditMessageHistory"
  "row_ok LSVerifyHybridThreadExists" "row_ok LSUpdateThreadAuthorityAndMappingWithOTIDFromJID"
  "row_ok LSVerifyContactParticipantExist" "row_ok LSVerifyCommunityMemberContextualProfileExists"
  "row_ok LSInsertCommunityMember" "row_ok LSUpdateOrInsertCommunityMember"
  "row_ok LSUpsertCommunityMemberRanges" "row_ok LSUpdateSubThreadXMA"
  "row_ok LSSetNumUnreadSubthreads"
  by (rule row_ok_check, code_simp)+

lemma repeated_rows_safe: "row_safe LSUpsertTheme" "row_safe LSApplyNewGroupThread"
  by code_simp+

definition repeated_index_rows :: "string list" where
  "repeated_index_rows = [''LSUpsertTheme'', ''LSApplyNewGroupThread'']"

lemma LSTable_rows: "list_all (\<lambda>(t, fs). row_ok fs \<or> t \<in> set repeated_index_rows) LSTable"
  unfolding LSTable_def repeated_index_rows_def
  by (simp only: list.pred_inject prod.case list.set rows_ok insert_iff simp_thms)

lemma LSTable_safe: "list_all (\<lambda>(t, fs). row_ok fs \<or> row_safe fs) LSTable"
  unfolding LSTable_def by (simp only: list.pred_inject prod.case rows_ok repeated_rows_safe simp_thms)

interpretation lstable: table_schema LSTable
proof
  fix t fs data
  assume "(t, fs) \<in> set LSTable"
  then have "row_ok fs \<or> row_safe fs" using LSTable_safe by (auto simp: list_all_iff)
  then show "\<exists>r. fill_row fs data = Ret r" using fill_row_spec row_safe_fill by blast
qed

lemma SPToDepMap_spec: "SPToDepMap sp d = (if d \<in> set sp then map_of SPTable d else None)"
proof -
  have "foldl (\<lambda>m d. case map_of SPTable d of None \<Rightarrow> m | Some n \<Rightarrow> m(d \<mapsto> n)) m sp d
      = (if d \<in> set sp \<and> map_of SPTable d \<noteq> None then map_of SPTable d else m d)" for m
    by (induction sp arbitrary: m) (auto split: option.splits)
  then show ?thesis by (auto simp: SPToDepMap_def)
qed

text \<open>The stored procedures name fields of the table.\<close>

lemma SPTable_targets: "list_all (\<lambda>(sp, t). t \<in> fst ` set LSTable) SPTable"
  unfolding SPTable_def LSTable_def
  by (simp only: list.pred_inject prod.case list.set image_insert image_empty fst_conv insert_iff simp_thms)

end
