(* ===== verification/Ls_Run.thy ===== *)
theory Ls_Run
  imports Ls_Table
begin

text \<open>
  The Lightspeed interpreter run on the bridge's own table: what a call makes of its arguments, what a
  transaction leaves in the table, when a run returns, and two places where it does not do what the
  step format means.
\<close>

section \<open>Lemmas\<close>

text \<open>The two fields whose tag repeats the index of the field before them.\<close>

definition LSApplyNewGroupThread_shadowed :: rfield where
  "LSApplyNewGroupThread_shadowed = fld ''LastReadWatermarkTimestampMs'' KInt64 ''6''"

definition LSUpsertTheme_shadowed :: rfield where
  "LSUpsertTheme_shadowed = fld ''NormalThemeId'' KInt64 ''0''"

lemma shadowed_fields:
  "LSApplyNewGroupThread_shadowed \<in> set LSApplyNewGroupThread"
  "LSUpsertTheme_shadowed \<in> set LSUpsertTheme"
  "shadowed LSApplyNewGroupThread_shadowed 6 LSApplyNewGroupThread"
  "shadowed LSUpsertTheme_shadowed 0 LSUpsertTheme"
  "plain LSApplyNewGroupThread_shadowed 6" "plain LSUpsertTheme_shadowed 0"
  by code_simp+

lemma shadowed_field_empty:
  assumes "row_safe fs" and "shadowed g i fs" and "plain g i" and "g \<in> set fs" and "rf_Kind g = KInt64"
    and "rf_Name g \<noteq> ''Unrecognized''"
  shows "\<exists>r. fill_row fs data = Ret r \<and> map_of r (rf_Name g) = Some (RInt64 0)"
proof -
  from row_safe_fill [OF assms(1), of data] obtain r where r: "fill_row fs data = Ret r" ..
  have dist: "distinct (map rf_Name fs)" using assms(1) by (simp add: row_safe_def name_number_distinct)
  from r obtain inst rest where fill: "fill_fields fs (new_instance fs) data = Ret (inst, rest)"
    and r': "r = fill_unrecognized rest inst"
    by (auto simp: fill_row_def bind_out_Ret_iff)
  have uniq: "\<And>f. f \<in> set fs \<Longrightarrow> rf_Name f = rf_Name g \<Longrightarrow> f = g"
    using dist assms(4) by (auto simp: distinct_map inj_on_def)
  have "map_of inst (rf_Name g) = Some (RInt64 0)"
    using fill_fields_shadowed [OF fill assms(2,3) uniq] map_of_new_instance [OF dist assms(4)] assms(5) by simp
  then show ?thesis using r r' assms(6) by (auto simp: fill_unrecognized_def map_of_set_field)
qed

definition sample_world :: world where
  "sample_world = \<lparr>w_schema = LSTable, w_Dependencies = SPToDepMap [''deleteThread'', ''taskExists''],
     w_clock = (\<lambda>n. word_of_nat n), w_grow = (\<lambda>n. 2 * n), w_out_of_range = (\<lambda>_. 0),
     w_sprintv = (\<lambda>_ _. '''')\<rparr>"

definition sample_decoder :: LightSpeedDecoder where
  "sample_decoder = NewLightSpeedDecoder (\<lambda>_. []) (\<lambda>_. Map.empty) 0"

definition sample_calls :: "(string \<times> step list) list" where
  "sample_calls =
     [(''deleteThread'', [SArr [SNum 19, SStr ''77''], SBool True]), (''taskExists'', [SArr [SNum 9], SStr ''x''])]"

lemma sample_number: "parse_int ''77'' = (77, None)"
  by code_simp

section \<open>Properties\<close>

text \<open>
  C2. For every field of the table and its row struct, except the two structs whose tags repeat an
  index, any argument list is turned into a row without panic, and in that row each field holds the
  argument at the position its tags name (for a conditional field, the position its condition
  selects) if that argument has the field's type, and its zero value otherwise; and the
  \<open>Unrecognized\<close> map, where the struct has one, holds exactly the other non-nil arguments under their positions.
\<close>

theorem table_rows_faithful:
  "list_all (\<lambda>(t, fs). t \<in> set repeated_index_rows \<or>
     (\<forall>data. \<exists>r. fill_row fs data = Ret r \<and> row_holds fs data r)) LSTable"
  using LSTable_rows fill_row_spec by (auto simp: list_all_iff)

text \<open>
  C40. Two row structs repeat an index in their tags, and the second field of each pair can never be set:
  whatever the arguments are, the read watermark of \<open>LSApplyNewGroupThread\<close> and the normal theme of
  \<open>LSUpsertTheme\<close> stay zero.
\<close>

theorem repeated_index_fields_stay_zero:
  "(\<exists>r. fill_row LSApplyNewGroupThread data = Ret r \<and>
      map_of r ''LastReadWatermarkTimestampMs'' = Some (RInt64 0)) \<and>
   (\<exists>r. fill_row LSUpsertTheme data = Ret r \<and> map_of r ''NormalThemeId'' = Some (RInt64 0))"
proof -
  have fields: "rf_Name LSApplyNewGroupThread_shadowed = ''LastReadWatermarkTimestampMs''"
    "rf_Name LSUpsertTheme_shadowed = ''NormalThemeId''"
    "rf_Kind LSApplyNewGroupThread_shadowed = KInt64" "rf_Kind LSUpsertTheme_shadowed = KInt64"
    by (simp_all add: LSApplyNewGroupThread_shadowed_def LSUpsertTheme_shadowed_def fld_def)
  have "\<exists>r. fill_row LSApplyNewGroupThread data = Ret r \<and>
      map_of r (rf_Name LSApplyNewGroupThread_shadowed) = Some (RInt64 0)"
    by (rule shadowed_field_empty [OF repeated_rows_safe(2) shadowed_fields(3,5,1)]) (simp_all add: fields)
  moreover have "\<exists>r. fill_row LSUpsertTheme data = Ret r \<and> map_of r (rf_Name LSUpsertTheme_shadowed) = Some (RInt64 0)"
    by (rule shadowed_field_empty [OF repeated_rows_safe(1) shadowed_fields(4,6,2)]) (simp_all add: fields)
  ultimately show ?thesis by (simp only: fields)
qed



text \<open>
  C3. A transaction, that is a block of stored-procedure calls with literal arguments, leaves the
  decoder as it was except for the table, and each slice of the table gets, in the order of the
  calls, exactly the rows of the calls whose procedure the dependencies map to it; calls of unknown procedures are skipped.
\<close>

theorem transaction_appends_rows:
  assumes "w_schema w = LSTable" and "\<forall>c \<in> set calls. literals w (snd c) \<noteq> None"
  shows "Decode w (transaction calls) d
    = Ret (VNil, d\<lparr>Table := \<lambda>t. Table d t @ concat (map (rows_for w t) calls)\<rparr>)"
  by (rule lstable.transaction_rows [OF assms])

theorem transaction_appends_rows_witness:
  "Decode sample_world (transaction sample_calls) sample_decoder
    = Ret (VNil, sample_decoder\<lparr>Table := \<lambda>t. Table sample_decoder t @
         concat (map (rows_for sample_world t) sample_calls)\<rparr>)"
  by (rule transaction_appends_rows)
    (simp_all add: sample_world_def sample_calls_def literals_def step_types sample_number)

text \<open>
  A conditional step whose condition is an integer equality runs neither of its branches: the
  equality yields a boolean and the conditional wants an integer, so it gives nil and leaves the
  decoder in the state the condition left, for every operand and every branch.
\<close>

theorem conditional_on_equality_skips:
  assumes "Decode w (SArr (SNum 30 # operands)) d = Ret (v, d1)"
  shows "Decode w (SArr (SNum 23 # SArr (SNum 30 # operands) # branches)) d = Ret (VNil, d1)"
  by (rule IF_equality [OF assms])

theorem conditional_on_equality_skips_witness:
  "Decode sample_world
     (SArr [SNum 23, SArr [SNum 30, SArr [SNum 19, SStr ''77''], SArr [SNum 19, SStr ''77'']],
            SArr [SNum 3, SNum 5, SStr ''then''], SArr [SNum 3, SNum 5, SStr ''else'']]) sample_decoder
   = Ret (VNil, sample_decoder)"
proof -
  have "Decode sample_world (SArr (SNum 30 # [SArr [SNum 19, SStr ''77''], SArr [SNum 19, SStr ''77'']])) sample_decoder
      = Ret (VBool True, sample_decoder)"
    by (subst Decode.simps(6), simp add: step_types) (simp add: Decode.simps(6) step_types sample_number)
  from conditional_on_equality_skips [OF this] show ?thesis by simp
qed

end
