(* ===== verification/Mqtt_Wire.thy ===== *)
theory Mqtt_Wire
  imports Packets Byter Go_Json Lightspeed
begin

text \<open>
  The MQTT messages of the socket: \<^verbatim>\<open>payload.go\<close>, \<^verbatim>\<open>request.go\<close>, \<^verbatim>\<open>response.go\<close>,
  \<^verbatim>\<open>codes.go\<close>, \<^verbatim>\<open>topics.go\<close> and the event structs of \<^verbatim>\<open>events.go\<close>. A payload struct is a record
  together with the list of fields that reflection shows the codec of theory \<open>Byter\<close>; the response
  reader composes that codec with the splice that removes the packet identifier.
\<close>

section \<open>Model\<close>

subsection \<open>Connection codes (codes.go) and topics (topics.go)\<close>

type_synonym ConnectionCode = byte

definition CONNECTION_ACCEPTED :: ConnectionCode where "CONNECTION_ACCEPTED = 0"
definition CONNECTION_REFUSED_UNACCEPTABLE_PROTOCOL_VERSION :: ConnectionCode where
  "CONNECTION_REFUSED_UNACCEPTABLE_PROTOCOL_VERSION = 1"
definition CONNECTION_REFUSED_IDENTIFIER_REJECTED :: ConnectionCode where
  "CONNECTION_REFUSED_IDENTIFIER_REJECTED = 2"
definition CONNECTION_REFUSED_SERVER_UNAVAILABLE :: ConnectionCode where
  "CONNECTION_REFUSED_SERVER_UNAVAILABLE = 3"
definition CONNECTION_REFUSED_BAD_USERNAME_OR_PASSWORD :: ConnectionCode where
  "CONNECTION_REFUSED_BAD_USERNAME_OR_PASSWORD = 4"
definition CONNECTION_REFUSED_UNAUTHORIZED :: ConnectionCode where
  "CONNECTION_REFUSED_UNAUTHORIZED = 5"
definition CONNECTION_REFUSED_UNKNOWN_24 :: ConnectionCode where
  "CONNECTION_REFUSED_UNKNOWN_24 = 24"

definition connectionCodesDescription :: "ConnectionCode \<rightharpoonup> string" where
  "connectionCodesDescription = map_of
     [(CONNECTION_ACCEPTED, ''accepted''),
      (CONNECTION_REFUSED_UNACCEPTABLE_PROTOCOL_VERSION, ''unacceptable protocol version''),
      (CONNECTION_REFUSED_IDENTIFIER_REJECTED, ''identifier rejected''),
      (CONNECTION_REFUSED_SERVER_UNAVAILABLE, ''server unavailable''),
      (CONNECTION_REFUSED_BAD_USERNAME_OR_PASSWORD, ''bad username or password''),
      (CONNECTION_REFUSED_UNAUTHORIZED, ''unauthorized''),
      (CONNECTION_REFUSED_UNKNOWN_24, ''unknown connection code 24'')]"

definition ConnectionCode_Error :: "ConnectionCode \<Rightarrow> string" where
  "ConnectionCode_Error c =
     (case connectionCodesDescription c of
        Some name \<Rightarrow> name
      | None \<Rightarrow> ''ConnectionCode('' @ format_uint (unat c) @ '')'')"

type_synonym Topic = string

definition UNKNOWN_TOPIC :: Topic where "UNKNOWN_TOPIC = ''unknown''"
definition LS_APP_SETTINGS :: Topic where "LS_APP_SETTINGS = ''/ls_app_settings''"
definition LS_FOREGROUND_STATE :: Topic where "LS_FOREGROUND_STATE = ''/ls_foreground_state''"
definition LS_REQ :: Topic where "LS_REQ = ''/ls_req''"
definition LS_RESP :: Topic where "LS_RESP = ''/ls_resp''"

subsection \<open>Structs as reflection shows them\<close>

definition uint_fld :: "string \<Rightarrow> Kind \<Rightarrow> uint64 \<Rightarrow> 'j field" where
  "uint_fld n k v = \<lparr>f_name = n, f_kind = k, f_canSet = True, f_enum = False, f_endian = '''', f_vlq = '''',
     f_lengthType = '''', f_jsonString = '''', f_skip = '''', f_val = FUint v\<rparr>"

definition string_fld :: "string \<Rightarrow> string \<Rightarrow> string \<Rightarrow> 'j field" where
  "string_fld n lengthType v = \<lparr>f_name = n, f_kind = String_kind, f_canSet = True, f_enum = False,
     f_endian = '''', f_vlq = '''', f_lengthType = lengthType, f_jsonString = '''', f_skip = '''', f_val = FString v\<rparr>"

definition other_fld :: "string \<Rightarrow> Kind \<Rightarrow> bool \<Rightarrow> 'j fval \<Rightarrow> 'j field" where
  "other_fld n k canSet v = \<lparr>f_name = n, f_kind = k, f_canSet = canSet, f_enum = False, f_endian = '''', f_vlq = '''',
     f_lengthType = '''', f_jsonString = '''', f_skip = '''', f_val = v\<rparr>"

fun field_uint :: "'j field list \<Rightarrow> string \<Rightarrow> uint64" where
  "field_uint [] n = 0"
| "field_uint (f # fs) n =
     (if f_name f = n then (case f_val f of FUint u \<Rightarrow> u | _ \<Rightarrow> 0) else field_uint fs n)"

fun field_bool :: "'j field list \<Rightarrow> string \<Rightarrow> bool" where
  "field_bool [] n = False"
| "field_bool (f # fs) n =
     (if f_name f = n then (case f_val f of FBool b \<Rightarrow> b | _ \<Rightarrow> False) else field_bool fs n)"

fun field_string :: "'j field list \<Rightarrow> string \<Rightarrow> string" where
  "field_string [] n = ''''"
| "field_string (f # fs) n =
     (if f_name f = n then (case f_val f of FString s \<Rightarrow> s | _ \<Rightarrow> '''') else field_string fs n)"

fun field_struct :: "'j field list \<Rightarrow> string \<Rightarrow> 'j \<Rightarrow> 'j" where
  "field_struct [] n d = d"
| "field_struct (f # fs) n d =
     (if f_name f = n then (case f_val f of FStruct j \<Rightarrow> j | _ \<Rightarrow> d) else field_struct fs n d)"

subsection \<open>Requests (payload.go, request.go)\<close>

definition protocolName :: string where "protocolName = ''MQIsdp''"
definition protocolClientId :: string where "protocolClientId = ''mqttwsclient''"
definition protocolLevel :: int where "protocolLevel = 3"
definition keepAliveTimeout :: int where "keepAliveTimeout = 15"

record ConnectPayload =
  cpl_ProtocolName :: string
  cpl_ProtocolLevel :: byte
  cpl_ConnectFlags :: byte
  cpl_KeepAliveTime :: uint16
  cpl_ClientId :: string
  cpl_JSONData :: string

definition ConnectPayload_fields :: "ConnectPayload \<Rightarrow> unit field list" where
  "ConnectPayload_fields p =
     [string_fld ''ProtocolName'' ''uint16'' (cpl_ProtocolName p),
      uint_fld ''ProtocolLevel'' Uint8 (ucast (cpl_ProtocolLevel p)),
      uint_fld ''ConnectFlags'' Uint8 (ucast (cpl_ConnectFlags p)),
      uint_fld ''KeepAliveTime'' Uint16 (ucast (cpl_KeepAliveTime p)),
      string_fld ''ClientId'' ''uint16'' (cpl_ClientId p),
      string_fld ''JSONData'' ''uint16'' (cpl_JSONData p)]"

definition ConnectPayload_Write :: "ConnectPayload \<Rightarrow> (byter_error + bytes) option" where
  "ConnectPayload_Write p = WriteFromStruct (ConnectPayload_fields p)"

record PublishPayload =
  ppl_Topic :: Topic
  ppl_PacketId :: uint16
  ppl_JSONData :: string

definition PublishPayload_fields :: "PublishPayload \<Rightarrow> unit field list" where
  "PublishPayload_fields p =
     [string_fld ''Topic'' ''uint16'' (ppl_Topic p),
      uint_fld ''PacketId'' Uint16 (ucast (ppl_PacketId p)),
      string_fld ''JSONData'' '''' (ppl_JSONData p)]"

definition PublishPayload_Write :: "PublishPayload \<Rightarrow> (byter_error + bytes) option" where
  "PublishPayload_Write p = WriteFromStruct (PublishPayload_fields p)"

record SubscribePayload =
  spl_PacketId :: uint16
  spl_Topic :: Topic
  spl_QoSLevel :: QoS

definition SubscribePayload_fields :: "SubscribePayload \<Rightarrow> unit field list" where
  "SubscribePayload_fields p =
     [uint_fld ''PacketId'' Uint16 (ucast (spl_PacketId p)),
      string_fld ''Topic'' ''uint16'' (spl_Topic p),
      (uint_fld ''QoSLevel'' Uint8 (ucast (spl_QoSLevel p)))\<lparr>f_enum := True\<rparr>]"

definition SubscribePayload_Write :: "SubscribePayload \<Rightarrow> (byter_error + bytes) option" where
  "SubscribePayload_Write p = WriteFromStruct (SubscribePayload_fields p)"

record Request =
  rq_PacketByte :: byte
  rq_RemainingLength :: uint32

definition Request_fields :: "Request \<Rightarrow> unit field list" where
  "Request_fields r =
     [uint_fld ''PacketByte'' Uint8 (ucast (rq_PacketByte r)),
      (uint_fld ''RemainingLength'' Uint32 (ucast (rq_RemainingLength r)))\<lparr>f_vlq := ''true''\<rparr>]"

definition Request_Write :: "Request \<Rightarrow> (byter_error + bytes) option \<Rightarrow> (byter_error + bytes) option" where
  "Request_Write r payload =
     (case payload of
        None \<Rightarrow> None
      | Some (Inl e) \<Rightarrow> Some (Inl e)
      | Some (Inr payloadBytes) \<Rightarrow>
          (let r' = r\<lparr>rq_RemainingLength := word_of_nat (length payloadBytes)\<rparr>
           in case WriteFromStruct (Request_fields r') of
                None \<Rightarrow> None
              | Some (Inl e) \<Rightarrow> Some (Inl e)
              | Some (Inr header) \<Rightarrow> Some (Inr (header @ payloadBytes))))"

definition newConnectRequest :: "string \<Rightarrow> byte \<Rightarrow> (byter_error + bytes) option" where
  "newConnectRequest jsonData connectFlags =
     (let payload = \<lparr>cpl_ProtocolName = protocolName, cpl_ProtocolLevel = word_of_int protocolLevel,
            cpl_ConnectFlags = connectFlags, cpl_KeepAliveTime = word_of_int keepAliveTimeout,
            cpl_ClientId = protocolClientId, cpl_JSONData = jsonData\<rparr>
      in Request_Write \<lparr>rq_PacketByte = ConnectPacket_Compress \<lparr>cp_Packet = 0\<rparr>, rq_RemainingLength = 0\<rparr>
           (ConnectPayload_Write payload))"

text \<open>The bytes of the publish and the subscribe request; the channels they register are in theory
  \<open>Mqtt_Socket\<close>.\<close>

definition publish_bytes :: "Topic \<Rightarrow> string \<Rightarrow> byte \<Rightarrow> uint16 \<Rightarrow> (byter_error + bytes) option" where
  "publish_bytes topic jsonData packetByte packetId =
     Request_Write \<lparr>rq_PacketByte = packetByte, rq_RemainingLength = 0\<rparr>
       (PublishPayload_Write \<lparr>ppl_Topic = topic, ppl_PacketId = packetId, ppl_JSONData = jsonData\<rparr>)"

definition subscribe_bytes :: "Topic \<Rightarrow> QoS \<Rightarrow> uint16 \<Rightarrow> (byter_error + bytes) option" where
  "subscribe_bytes topic qos packetId =
     Request_Write \<lparr>rq_PacketByte = SubscribePacket_Compress \<lparr>sp_packetType = 0\<rparr>, rq_RemainingLength = 0\<rparr>
       (SubscribePayload_Write \<lparr>spl_PacketId = packetId, spl_Topic = topic, spl_QoSLevel = qos\<rparr>)"

subsection \<open>Events (events.go)\<close>

record Event_Ready =
  er_IsNewSession :: bool
  er_ConnectionCode :: ConnectionCode

record Event_PublishACK =
  pa_PacketID :: uint16

record Event_SubscribeACK =
  sa_PacketID :: uint16
  sa_QoSLevel :: byte

record PublishResponseData =
  prd_RequestID :: int
  prd_Payload :: string
  prd_Sp :: "string list"
  prd_Target :: int

record Event_PublishResponse =
  pr_Topic :: string
  pr_Data :: PublishResponseData
  pr_MessageIdentifier :: uint16
  pr_QoS :: QoS

datatype ResponseData = Ready Event_Ready | PublishACK Event_PublishACK | SubscribeACK Event_SubscribeACK
  | PublishResponse Event_PublishResponse | PingResp

fun SetIdentifier :: "uint16 \<Rightarrow> ResponseData \<Rightarrow> ResponseData" where
  "SetIdentifier identifier (PublishResponse e) = PublishResponse (e\<lparr>pr_MessageIdentifier := identifier\<rparr>)"
| "SetIdentifier identifier d = d"

fun GetPacketID :: "ResponseData \<Rightarrow> uint16 option" where
  "GetPacketID (PublishACK e) = Some (pa_PacketID e)"
| "GetPacketID (SubscribeACK e) = Some (sa_PacketID e)"
| "GetPacketID d = None"

definition zero_data :: PublishResponseData where
  "zero_data = \<lparr>prd_RequestID = 0, prd_Payload = '''', prd_Sp = [], prd_Target = 0\<rparr>"

definition PublishResponseData_store ::
  "string \<Rightarrow> json \<Rightarrow> PublishResponseData \<Rightarrow> PublishResponseData option" where
  "PublishResponseData_store name v d =
     (if name = ''request_id'' then store_int64 v (\<lambda>x. d\<lparr>prd_RequestID := x\<rparr>) d
      else if name = ''payload'' then store_string v (\<lambda>x. d\<lparr>prd_Payload := x\<rparr>) d
      else if name = ''sp'' then store_strings v (\<lambda>x. d\<lparr>prd_Sp := x\<rparr>) d
      else store_int64 v (\<lambda>x. d\<lparr>prd_Target := x\<rparr>) d)"

definition PublishResponseData_unmarshal :: "bytes \<Rightarrow> string + PublishResponseData" where
  "PublishResponseData_unmarshal b =
     (case unmarshal (string_of_bytes b) of
        None \<Rightarrow> Inl ''syntax''
      | Some j \<Rightarrow>
          (case store_struct [''request_id'', ''payload'', ''sp'', ''target''] PublishResponseData_store j zero_data of
             None \<Rightarrow> Inl ''type''
           | Some d \<Rightarrow> Inr d))"

text \<open>The fields of an event in declaration order. \<open>client\<close> is not exported and cannot be set; the
  pointer \<open>Table\<close> has a kind the codec does not know.\<close>

fun ResponseData_fields :: "ResponseData \<Rightarrow> PublishResponseData field list" where
  "ResponseData_fields (Ready e) =
     [other_fld ''client'' OtherKind False FOther,
      other_fld ''IsNewSession'' Bool True (FBool (er_IsNewSession e)),
      (uint_fld ''ConnectionCode'' Uint8 (ucast (er_ConnectionCode e)))\<lparr>f_enum := True\<rparr>]"
| "ResponseData_fields (PublishACK e) = [uint_fld ''PacketID'' Uint16 (ucast (pa_PacketID e))]"
| "ResponseData_fields (SubscribeACK e) =
     [uint_fld ''PacketID'' Uint16 (ucast (sa_PacketID e)), uint_fld ''QoSLevel'' Uint8 (ucast (sa_QoSLevel e))]"
| "ResponseData_fields (PublishResponse e) =
     [(string_fld ''Topic'' ''uint16'' (pr_Topic e))\<lparr>f_endian := ''big''\<rparr>,
      (other_fld ''Data'' Struct True (FStruct (pr_Data e)))\<lparr>f_jsonString := ''1''\<rparr>,
      other_fld ''Table'' OtherKind True FOther,
      uint_fld ''MessageIdentifier'' Uint16 (ucast (pr_MessageIdentifier e)),
      (uint_fld ''QoS'' Uint8 (ucast (pr_QoS e)))\<lparr>f_enum := True\<rparr>]"
| "ResponseData_fields PingResp = []"

fun ResponseData_set :: "ResponseData \<Rightarrow> PublishResponseData field list \<Rightarrow> ResponseData" where
  "ResponseData_set (Ready e) fs =
     Ready \<lparr>er_IsNewSession = field_bool fs ''IsNewSession'', er_ConnectionCode = ucast (field_uint fs ''ConnectionCode'')\<rparr>"
| "ResponseData_set (PublishACK e) fs = PublishACK \<lparr>pa_PacketID = ucast (field_uint fs ''PacketID'')\<rparr>"
| "ResponseData_set (SubscribeACK e) fs =
     SubscribeACK \<lparr>sa_PacketID = ucast (field_uint fs ''PacketID''), sa_QoSLevel = ucast (field_uint fs ''QoSLevel'')\<rparr>"
| "ResponseData_set (PublishResponse e) fs =
     PublishResponse \<lparr>pr_Topic = field_string fs ''Topic'', pr_Data = field_struct fs ''Data'' (pr_Data e),
       pr_MessageIdentifier = ucast (field_uint fs ''MessageIdentifier''), pr_QoS = ucast (field_uint fs ''QoS'')\<rparr>"
| "ResponseData_set PingResp fs = PingResp"

subsection \<open>Responses (response.go)\<close>

definition responseMap :: "byte \<rightharpoonup> ResponseData" where
  "responseMap = map_of
     [(CONNACK, Ready \<lparr>er_IsNewSession = False, er_ConnectionCode = 0\<rparr>),
      (PUBACK, PublishACK \<lparr>pa_PacketID = 0\<rparr>),
      (SUBACK, SubscribeACK \<lparr>sa_PacketID = 0, sa_QoSLevel = 0\<rparr>),
      (PUBLISH, PublishResponse \<lparr>pr_Topic = '''', pr_Data = zero_data, pr_MessageIdentifier = 0, pr_QoS = 0\<rparr>),
      (PINGRESP, PingResp)]"

record Response =
  rp_PacketByte :: byte
  rp_RemainingLength :: uint32
  rp_ResponseData :: "ResponseData option"

definition QOS :: "Response \<Rightarrow> QoS" where
  "QOS r = drop_bit 1 (rp_PacketByte r) AND 0x03"

definition PacketType :: "Response \<Rightarrow> byte" where
  "PacketType r = drop_bit 4 (rp_PacketByte r)"

definition Response_fields :: "Response \<Rightarrow> PublishResponseData field list" where
  "Response_fields r =
     [uint_fld ''PacketByte'' Uint8 (ucast (rp_PacketByte r)),
      (uint_fld ''RemainingLength'' Uint32 (ucast (rp_RemainingLength r)))\<lparr>f_vlq := ''true''\<rparr>,
      other_fld ''ResponseData'' Interface True (FIface (rp_ResponseData r = None))]"

datatype response_error = ByterError byter_error | NoResponseHandler byte

text \<open>\<open>Response.Read\<close> from the packet type on, on what the fixed header leaves in the buffer. The
  slice expressions panic when fewer than 12 bytes are left.\<close>

definition Response_body :: "Response \<Rightarrow> bytes \<Rightarrow> (response_error + Response) outcome" where
  "Response_body r bufferBytes =
     (let packetType = drop_bit 4 (rp_PacketByte r);
          qosLevel = drop_bit 1 (rp_PacketByte r) AND 0x03
      in case responseMap packetType of
           None \<Rightarrow> Ret (Inl (NoResponseHandler packetType))
         | Some d \<Rightarrow>
             bind_out
               (if packetType = PUBLISH \<and> qosLevel = 1 then
                  if length bufferBytes < 12 then Panic
                  else Ret (SetIdentifier (word_of_nat (be_to (take 2 (drop 10 bufferBytes)))) d,
                            take 10 bufferBytes @ drop 12 bufferBytes)
                else Ret (d, bufferBytes))
               (\<lambda>(d', b').
                  case ReadToStruct PublishResponseData_unmarshal (ResponseData_fields d') b' of
                    Inl e \<Rightarrow> Ret (Inl (ByterError e))
                  | Inr (gs, _) \<Rightarrow> Ret (Inr (r\<lparr>rp_ResponseData := Some (ResponseData_set d' gs)\<rparr>))))"

definition Response_Read :: "Response \<Rightarrow> bytes \<Rightarrow> (response_error + Response) outcome" where
  "Response_Read r data =
     (case ReadToStruct PublishResponseData_unmarshal (Response_fields r) data of
        Inl e \<Rightarrow> Ret (Inl (ByterError e))
      | Inr (fs, bufferBytes) \<Rightarrow>
          Response_body (r\<lparr>rp_PacketByte := ucast (field_uint fs ''PacketByte''),
                           rp_RemainingLength := ucast (field_uint fs ''RemainingLength'')\<rparr>) bufferBytes)"

subsection \<open>The layout of a publish packet\<close>

text \<open>What a server sends (MQTT 3.1, section 3.3): the fixed header, the topic, the packet identifier
  when the quality of service is not 0, and the application message.\<close>

definition mqtt_publish :: "byte \<Rightarrow> Topic \<Rightarrow> uint16 \<Rightarrow> bytes \<Rightarrow> bytes" where
  "mqtt_publish packetByte topic identifier body =
     (let variable = be_of 2 (length topic) @ bytes_of_string topic @
            (if drop_bit 1 packetByte AND 0x03 = 0 then [] else be_of 2 (unat identifier)) @ body
      in packetByte # vlq_bytes (length variable) @ variable)"

section \<open>Lemmas\<close>

subsection \<open>Writing requests\<close>

lemmas fld_defs = uint_fld_def string_fld_def other_fld_def

lemma writeInteger_big [simp]:
  "writeInteger n Uint8 '''' = Inr (be_of 1 n)" "writeInteger n Uint16 '''' = Inr (be_of 2 n)"
  "writeInteger n Uint16 ''big'' = Inr (be_of 2 n)"
  by (simp_all add: writeInteger_def default_endian_def endianOperations_def big_ops_def del: be_of.simps)

lemma writeString_uint16 [simp]:
  "writeString s ''uint16'' '''' = be_of 2 (length s) @ bytes_of_string s"
  "writeString s ''uint16'' ''big'' = be_of 2 (length s) @ bytes_of_string s" "writeString s '''' e = bytes_of_string s"
  by (simp_all add: writeString_def stringLengthTags_def default_endian_def del: be_of.simps)

lemma length_literals [simp]: "length protocolName = 6" "length protocolClientId = 12"
  by (simp_all add: protocolName_def protocolClientId_def)

lemma unat_word_less [simp]: "unat (w :: uint16) < 65536" "unat (v :: uint32) < 4294967296"
  using unsigned_less [of w] unsigned_less [of v] by simp_all

lemma unat_ucast_64 [simp]:
  "unat (ucast (b :: byte) :: uint64) = unat b" "unat (ucast (w :: uint16) :: uint64) = unat w"
  "unat (ucast (v :: uint32) :: uint64) = unat v"
  using unat_byte_less [of b] unat_word_less(1) [of w] unat_word_less(2) [of v]
  by (simp_all add: unsigned_ucast_eq take_bit_nat_eq_self_iff del: unat_byte_less unat_word_less)

lemma ucast_ucast_64 [simp]:
  "ucast (ucast (b :: byte) :: uint64) = b" "ucast (ucast (w :: uint16) :: uint64) = w"
  "ucast (ucast (v :: uint32) :: uint64) = v"
  by (simp_all add: word_unat_eq_iff unsigned_ucast_eq [where w = "ucast _ :: uint64"] take_bit_nat_eq_self_iff)

lemma be_of_1_byte [simp]: "be_of (Suc 0) (unat (b :: byte)) = [b]"
  by simp

lemma write_uint8 [simp]: "write_field (uint_fld n Uint8 (ucast (b :: byte))) = Some (Inr [b])"
  by (simp add: write_field_def fld_defs del: be_of.simps)

lemma write_enum8 [simp]: "write_field ((uint_fld n Uint8 (ucast (b :: byte)))\<lparr>f_enum := True\<rparr>) = Some (Inr [b])"
  by (simp add: write_field_def fld_defs)

lemma write_uint16 [simp]:
  "write_field (uint_fld n Uint16 (ucast (w :: uint16))) = Some (Inr (be_of 2 (unat w)))"
  by (simp add: write_field_def fld_defs del: be_of.simps)

lemma write_string16 [simp]:
  "write_field (string_fld n ''uint16'' s) = Some (Inr (be_of 2 (length s) @ bytes_of_string s))"
  "write_field (string_fld n '''' s) = Some (Inr (bytes_of_string s))"
  by (simp_all add: write_field_def fld_defs del: be_of.simps)

lemma write_vlq32 [simp]:
  "write_field ((uint_fld n Uint32 (ucast (w :: uint32)))\<lparr>f_vlq := ''true''\<rparr>) = Some (Inr (vlq_bytes (unat w)))"
proof -
  have "unat w < 2 ^ 63" by (rule order_less_trans [OF unat_word_less(2)]) simp
  then have "sint (ucast w :: uint64) = int (unat w)" by (subst sint64_small) simp_all
  then have "EncodeVLQ (sint (ucast w :: uint64)) = Some (vlq_bytes (unat w))"
    by (simp only: EncodeVLQ_vlq_bytes)
  then show ?thesis by (simp add: write_field_def fld_defs)
qed

lemma fld_skip [simp]:
  "f_skip (uint_fld n k v) = ''''" "f_skip (string_fld n l s) = ''''" "f_skip (other_fld n k c w) = ''''"
  by (simp_all add: fld_defs)

lemma Request_Write_frame:
  "Request_Write r (Some (Inr p)) =
     Some (Inr (rq_PacketByte r # vlq_bytes (length p mod 2 ^ 32) @ p))"
  by (simp add: Request_Write_def Request_fields_def unat_of_nat)

lemma publish_bytes_layout:
  "publish_bytes topic jsonData packetByte packetId =
     Request_Write \<lparr>rq_PacketByte = packetByte, rq_RemainingLength = 0\<rparr>
       (Some (Inr (be_of 2 (length topic) @ bytes_of_string topic @ be_of 2 (unat packetId) @ bytes_of_string jsonData)))"
  by (simp add: publish_bytes_def PublishPayload_Write_def PublishPayload_fields_def del: be_of.simps)

lemma subscribe_bytes_layout:
  "subscribe_bytes topic qos packetId =
     Request_Write \<lparr>rq_PacketByte = 0x82, rq_RemainingLength = 0\<rparr>
       (Some (Inr (be_of 2 (unat packetId) @ be_of 2 (length topic) @ bytes_of_string topic @ [qos])))"
  by (simp add: subscribe_bytes_def SubscribePayload_Write_def SubscribePayload_fields_def
      SubscribePacket_Compress_def SUBSCRIBE_def del: be_of.simps)

lemma newConnectRequest_layout:
  "newConnectRequest jsonData flags =
     Request_Write \<lparr>rq_PacketByte = 0x10, rq_RemainingLength = 0\<rparr>
       (Some (Inr (be_of 2 6 @ bytes_of_string protocolName @ [3, flags] @ be_of 2 15 @
         be_of 2 12 @ bytes_of_string protocolClientId @ be_of 2 (length jsonData) @ bytes_of_string jsonData)))"
  by (simp add: newConnectRequest_def ConnectPayload_Write_def ConnectPayload_fields_def protocolLevel_def keepAliveTimeout_def ConnectPacket_Compress_def CONNECT_def
      del: be_of.simps)

subsection \<open>Reading responses\<close>

lemma buf_read_1 [simp]: "buf_read (Suc 0) (b # bs) = Inr ([b], bs)"
  by (simp add: buf_read_def)

lemma ReadInteger_uint8 [simp]: "ReadInteger Uint8 (Suc 0) '''' (b # bs) = Inr (unat b, bs)"
  by (simp add: ReadInteger_def default_endian_def endianOperations_def big_ops_def be_to_def)

lemma read_uint8 [simp]:
  "read_field um (uint_fld n Uint8 v) (b # bs) = Inr (uint_fld n Uint8 (ucast b), bs)"
  by (simp add: read_field_def SetUint_def uint_fld_def)

lemma ReadString_uint16:
  assumes "length s < 65536"
  shows "readString ''uint16'' ''big'' (be_of 2 (length s) @ bytes_of_string s @ rest) = Inr (s, rest)"
  using readString_writeString(1) [of "''uint16''" s "''big''" rest] assms
  by (simp add: length_ok_def endian_ok_def del: be_of.simps)

lemma read_vlq:
  "read_field um ((uint_fld n Uint32 v)\<lparr>f_vlq := ''true''\<rparr>) b =
     (case DecodeVLQ b of
        Inl e \<Rightarrow> Inl e
      | Inr (m, b') \<Rightarrow> Inr ((uint_fld n Uint32 (word_of_nat (m mod 2 ^ 32)))\<lparr>f_vlq := ''true''\<rparr>, b'))"
  by (simp add: read_field_def SetUint_def uint_fld_def split: sum.splits)

lemma fld_canSet [simp]:
  "f_canSet (uint_fld n k v)" "f_canSet (string_fld n l s)" "f_canSet (other_fld n k c w) = c"
  "f_canSet (f\<lparr>f_vlq := x\<rparr>) = f_canSet f" "f_canSet (f\<lparr>f_enum := z\<rparr>) = f_canSet f"
  "f_canSet (f\<lparr>f_endian := x\<rparr>) = f_canSet f" "f_canSet (f\<lparr>f_jsonString := x\<rparr>) = f_canSet f"
  by (simp_all add: fld_defs)

lemma fld_name [simp]:
  "f_name (uint_fld n k v) = n" "f_name (string_fld n l s) = n" "f_name (other_fld n k c w) = n"
  "f_val (uint_fld n k v) = FUint v" "f_val (string_fld n l s) = FString s" "f_val (other_fld n k c w) = w"
  by (simp_all add: fld_defs)

text \<open>What reading the fixed header leaves.\<close>

definition header_fields :: "Response \<Rightarrow> byte \<Rightarrow> nat \<Rightarrow> PublishResponseData field list" where
  "header_fields r packetByte n =
     Response_fields (r\<lparr>rp_PacketByte := packetByte, rp_RemainingLength := word_of_nat n\<rparr>)"

lemma word_of_nat_32: "word_of_nat (n mod 2 ^ 32) = (ucast (word_of_nat n :: uint32) :: uint64)"
  by (simp add: word_unat_eq_iff unat_of_nat)

lemma Response_header:
  "ReadToStruct um (Response_fields r) (packetByte # b) =
     (if b = [] then Inr (header_fields r packetByte (unat (rp_RemainingLength r)), [])
      else (case DecodeVLQ b of Inl e \<Rightarrow> Inl e | Inr (n, b') \<Rightarrow> Inr (header_fields r packetByte n, b')))"
proof -
  have iface: "read_field um (other_fld m Interface True w) c = Inr (other_fld m Interface True w, c)" for m w c
    by (simp add: read_field_def other_fld_def)
  then show ?thesis
    by (auto simp: Response_fields_def header_fields_def read_vlq word_of_nat_32 [simplified] split: sum.split)
qed

lemma Response_Read_header:
  "Response_Read r (packetByte # b) =
     (if b = [] then Response_body (r\<lparr>rp_PacketByte := packetByte\<rparr>) []
      else (case DecodeVLQ b of
              Inl e \<Rightarrow> Ret (Inl (ByterError e))
            | Inr (n, b') \<Rightarrow> Response_body (r\<lparr>rp_PacketByte := packetByte, rp_RemainingLength := word_of_nat n\<rparr>) b'))"
  unfolding Response_Read_def Response_header
  by (auto simp: header_fields_def Response_fields_def split: sum.split)

lemma Response_body_panics:
  "Response_body r b = Panic \<longleftrightarrow> PacketType r = PUBLISH \<and> QOS r = 1 \<and> length b < 12"
proof -
  have "responseMap PUBLISH \<noteq> None"
    by (simp add: responseMap_def CONNACK_def PUBACK_def SUBACK_def PUBLISH_def)
  then show ?thesis
    by (auto simp: Response_body_def PacketType_def QOS_def Let_def split: option.splits sum.splits)
qed

lemma unmarshal_nonempty: "PublishResponseData_unmarshal b = Inr d \<Longrightarrow> b \<noteq> []"
  by (auto simp: PublishResponseData_unmarshal_def unmarshal_def string_of_bytes_def lex.simps parse_tokens_def
      split: option.splits)

lemma read_publish_fields:
  assumes "length topic < 65536" and "PublishResponseData_unmarshal body = Inr d"
  shows "ReadToStruct PublishResponseData_unmarshal (ResponseData_fields (PublishResponse e))
      (be_of 2 (length topic) @ bytes_of_string topic @ body) =
    Inr (ResponseData_fields (PublishResponse (e\<lparr>pr_Topic := topic, pr_Data := d\<rparr>)), [])"
proof -
  let ?f = "(string_fld ''Topic'' ''uint16'' (pr_Topic e))\<lparr>f_endian := ''big''\<rparr>"
  have topic: "read_field um ?f (be_of 2 (length topic) @ bytes_of_string topic @ body) =
      Inr ((string_fld ''Topic'' ''uint16'' topic)\<lparr>f_endian := ''big''\<rparr>, body)" for um
    using ReadString_uint16 [OF assms(1), of body] by (simp add: read_field_def string_fld_def del: be_of.simps)
  have data: "read_field PublishResponseData_unmarshal
      ((other_fld ''Data'' Struct True v)\<lparr>f_jsonString := ''1''\<rparr>) body =
      Inr ((other_fld ''Data'' Struct True (FStruct d))\<lparr>f_jsonString := ''1''\<rparr>, [])" for v
    using assms(2) by (simp add: read_field_def other_fld_def)
  have "be_of 2 n \<noteq> []" for n by (metis length_be_of list.size(3) zero_neq_numeral)
  with unmarshal_nonempty [OF assms(2)] show ?thesis
    by (simp add: topic data del: be_of.simps)
qed

lemma ResponseData_set_publish [simp]:
  "ResponseData_set (PublishResponse e) (ResponseData_fields (PublishResponse e')) = PublishResponse e'"
  by (cases e') simp

lemma Response_body_publish:
  assumes type: "PacketType r = PUBLISH" and qos: "QOS r = 0 \<or> QOS r = 1 \<and> length topic = 8"
    and "length topic < 65536" and "PublishResponseData_unmarshal body = Inr d"
  shows "Response_body r (be_of 2 (length topic) @ bytes_of_string topic @
      (if QOS r = 0 then [] else be_of 2 (unat identifier)) @ body) =
    Ret (Inr (r\<lparr>rp_ResponseData := Some (PublishResponse
      \<lparr>pr_Topic = topic, pr_Data = d, pr_MessageIdentifier = (if QOS r = 0 then 0 else identifier), pr_QoS = 0\<rparr>)\<rparr>))"
proof -
  let ?e = "\<lparr>pr_Topic = '''', pr_Data = zero_data, pr_MessageIdentifier = 0, pr_QoS = 0\<rparr>"
  have map: "responseMap PUBLISH = Some (PublishResponse ?e)"
    by (simp add: responseMap_def CONNACK_def PUBACK_def SUBACK_def PUBLISH_def)
  note read = read_publish_fields [OF assms(3,4)]
  show ?thesis
  proof (cases "QOS r = 0")
    case True
    with type map read [of ?e] show ?thesis
      by (simp add: Response_body_def PacketType_def QOS_def del: be_of.simps ResponseData_fields.simps ResponseData_set.simps)
  next
    case False
    with qos have q: "QOS r = 1" and l: "length topic = 8" by auto
    have id: "word_of_nat (be_to (be_of 2 (unat identifier))) = identifier"
      by (simp add: be_to_be_of mod_less del: be_of.simps)
    show ?thesis
      using type map read [of "?e\<lparr>pr_MessageIdentifier := identifier\<rparr>"] q id
      by (simp add: l Response_body_def PacketType_def QOS_def del: be_of.simps ResponseData_fields.simps ResponseData_set.simps)
  qed
qed

lemma Response_Read_publish:
  assumes "drop_bit 4 packetByte = PUBLISH"
    and "qos = drop_bit 1 packetByte AND 0x03" and "qos = 0 \<or> qos = 1 \<and> length topic = 8"
    and "length topic < 65536" and "PublishResponseData_unmarshal body = Inr d"
    and "length body < 2 ^ 27"
  shows "\<exists>n. Response_Read r (mqtt_publish packetByte topic identifier body) =
    Ret (Inr \<lparr>rp_PacketByte = packetByte, rp_RemainingLength = n, rp_ResponseData = Some (PublishResponse
      \<lparr>pr_Topic = topic, pr_Data = d, pr_MessageIdentifier = (if qos = 0 then 0 else identifier), pr_QoS = 0\<rparr>)\<rparr>)"
proof -
  let ?v = "be_of 2 (length topic) @ bytes_of_string topic @ (if qos = 0 then [] else be_of 2 (unat identifier)) @ body"
  let ?r = "r\<lparr>rp_PacketByte := packetByte, rp_RemainingLength := word_of_nat (length ?v)\<rparr>"
  have len: "length ?v < 2 ^ 28" using assms(4,6) by simp
  have q: "QOS ?r = qos" using assms(2) by (simp add: QOS_def)
  have "Response_Read r (mqtt_publish packetByte topic identifier body) = Response_body ?r ?v"
    using assms(2) len by (simp add: mqtt_publish_def Response_Read_header DecodeVLQ_vlq_bytes Let_def del: be_of.simps)
  also have "\<dots> = Ret (Inr (?r\<lparr>rp_ResponseData := Some (PublishResponse
      \<lparr>pr_Topic = topic, pr_Data = d, pr_MessageIdentifier = (if qos = 0 then 0 else identifier), pr_QoS = 0\<rparr>)\<rparr>))"
    using Response_body_publish [of ?r topic body d "identifier"] assms(1,3-5) unfolding q
    by (simp add: PacketType_def del: be_of.simps)
  finally show ?thesis
    by (intro exI [of _ "word_of_nat (length ?v)"]) (cases r, simp only: Response.update_convs)
qed

section \<open>Properties\<close>



text \<open>
  C21. A publish packet laid out as the protocol says is read back exactly: the topic, the decoded JSON
  body, and for quality of service 1 the packet identifier. For quality of service 1 the code relies on a
  topic of eight bytes, which \<open>/ls_resp\<close> has: it cuts the identifier out at a fixed offset.
\<close>

theorem response_reads_publish:
  assumes "drop_bit 4 packetByte = PUBLISH"
    and "qos = drop_bit 1 packetByte AND 0x03" and "qos = 0 \<or> qos = 1 \<and> length topic = 8"
    and "length topic < 65536" and "PublishResponseData_unmarshal body = Inr d"
    and "length body < 2 ^ 27"
  shows "\<exists>n. Response_Read r (mqtt_publish packetByte topic identifier body) =
    Ret (Inr \<lparr>rp_PacketByte = packetByte, rp_RemainingLength = n, rp_ResponseData = Some (PublishResponse
      \<lparr>pr_Topic = topic, pr_Data = d, pr_MessageIdentifier = (if qos = 0 then 0 else identifier), pr_QoS = 0\<rparr>)\<rparr>)"
  using assms by (rule Response_Read_publish)

theorem response_reads_publish_witness:
  "\<exists>n. Response_Read \<lparr>rp_PacketByte = 0, rp_RemainingLength = 0, rp_ResponseData = None\<rparr>
      (mqtt_publish 0x32 LS_RESP 258 (bytes_of_string ''null'')) =
    Ret (Inr \<lparr>rp_PacketByte = 0x32, rp_RemainingLength = n, rp_ResponseData = Some (PublishResponse
      \<lparr>pr_Topic = LS_RESP, pr_Data = zero_data, pr_MessageIdentifier = 258, pr_QoS = 0\<rparr>)\<rparr>)"
proof -
  have "unmarshal ''null'' = Some JNull"
    by code_simp
  then have "PublishResponseData_unmarshal (bytes_of_string ''null'') = Inr zero_data"
    by (simp add: PublishResponseData_unmarshal_def store_struct_def)
  from response_reads_publish [of "0x32" 1 LS_RESP, OF _ _ _ _ this] show ?thesis
    by (simp add: PUBLISH_def LS_RESP_def)
qed


end
