(* ===== verification/Response_Handler.thy ===== *)
theory Response_Handler
  imports Mqtt_Wire "HOL-Library.AList"
begin

text \<open>
  \<^verbatim>\<open>responsehandler.go\<close>: the channels on which requests wait for their responses. A Go channel is a
  reference, and a goroutine may hold one after it has left the maps, so the channels live in a heap and
  the maps hold their addresses. Every operation that runs under the lock is one function; sending and
  receiving, which happen outside it, are separate steps of the transition system of goroutines at the end.
\<close>

section \<open>Model\<close>

subsection \<open>Channels\<close>

text \<open>A channel of capacity 1. \<open>ch_for\<close> records which packet the channel was made for; the code never
  reads it.\<close>

datatype ChannelType = RequestChannel | PacketChannel

record chan =
  ch_buf :: "ResponseData list"
  ch_closed :: bool
  ch_for :: "ChannelType \<times> uint16"

record ResponseHandler =
  requestChannels :: "(uint16 \<times> nat) list"
  packetChannels :: "(uint16 \<times> nat) list"
  heap :: "chan list"

datatype 'a channel_op = Completed 'a | Blocks | ChannelPanic

definition chan_send :: "nat \<Rightarrow> ResponseData \<Rightarrow> ResponseHandler \<Rightarrow> ResponseHandler channel_op" where
  "chan_send ch v p =
     (let c = heap p ! ch in
      if ch_closed c then ChannelPanic
      else if ch_buf c \<noteq> [] then Blocks
      else Completed (p\<lparr>heap := (heap p)[ch := c\<lparr>ch_buf := [v]\<rparr>]\<rparr>))"

text \<open>Receiving gives \<open>None\<close>, Go's nil, from a closed channel with an empty buffer.\<close>

definition chan_recv :: "nat \<Rightarrow> ResponseHandler \<Rightarrow> (ResponseData option \<times> ResponseHandler) channel_op" where
  "chan_recv ch p =
     (let c = heap p ! ch in
      case ch_buf c of
        v # vs \<Rightarrow> Completed (Some v, p\<lparr>heap := (heap p)[ch := c\<lparr>ch_buf := vs\<rparr>]\<rparr>)
      | [] \<Rightarrow> if ch_closed c then Completed (None, p) else Blocks)"

definition chan_close :: "nat \<Rightarrow> ResponseHandler \<Rightarrow> ResponseHandler outcome" where
  "chan_close ch p =
     (if ch_closed (heap p ! ch) then Panic
      else Ret (p\<lparr>heap := (heap p)[ch := (heap p ! ch)\<lparr>ch_closed := True\<rparr>]\<rparr>))"

definition make_chan :: "ChannelType \<times> uint16 \<Rightarrow> ResponseHandler \<Rightarrow> nat \<times> ResponseHandler" where
  "make_chan k p = (length (heap p), p\<lparr>heap := heap p @ [\<lparr>ch_buf = [], ch_closed = False, ch_for = k\<rparr>]\<rparr>)"

subsection \<open>Operations\<close>

definition new_ResponseHandler :: ResponseHandler where
  "new_ResponseHandler = \<lparr>requestChannels = [], packetChannels = [], heap = []\<rparr>"

definition hasPacket :: "uint16 \<Rightarrow> ResponseHandler \<Rightarrow> bool" where
  "hasPacket packetID p \<longleftrightarrow> map_of (requestChannels p) packetID \<noteq> None"

definition addPacketChannel :: "uint16 \<Rightarrow> ResponseHandler \<Rightarrow> ResponseHandler" where
  "addPacketChannel packetID p =
     (case make_chan (PacketChannel, packetID) p of
        (ch, p') \<Rightarrow> p'\<lparr>packetChannels := AList.update packetID ch (packetChannels p')\<rparr>)"

definition addRequestChannel :: "uint16 \<Rightarrow> ResponseHandler \<Rightarrow> ResponseHandler" where
  "addRequestChannel packetID p =
     (case make_chan (RequestChannel, packetID) p of
        (ch, p') \<Rightarrow> p'\<lparr>requestChannels := AList.update packetID ch (requestChannels p')\<rparr>)"

definition getChannel :: "uint16 \<Rightarrow> ChannelType \<Rightarrow> ResponseHandler \<Rightarrow> nat option" where
  "getChannel packetID channelType p =
     (case channelType of
        RequestChannel \<Rightarrow> map_of (requestChannels p) packetID
      | PacketChannel \<Rightarrow> map_of (packetChannels p) packetID)"

text \<open>The two update operations: the boolean result and the handler, when the send does not block.\<close>

definition updatePacketChannel ::
  "uint16 \<Rightarrow> ResponseData \<Rightarrow> ResponseHandler \<Rightarrow> (bool \<times> ResponseHandler) channel_op" where
  "updatePacketChannel packetID packetData p =
     (case map_of (packetChannels p) packetID of
        Some ch \<Rightarrow>
          (case chan_send ch packetData p of
             Completed p' \<Rightarrow> Completed (True, p') | Blocks \<Rightarrow> Blocks | ChannelPanic \<Rightarrow> ChannelPanic)
      | None \<Rightarrow> Completed (False, p))"

definition updateRequestChannel ::
  "uint16 \<Rightarrow> ResponseData \<Rightarrow> ResponseHandler \<Rightarrow> (bool \<times> ResponseHandler) channel_op" where
  "updateRequestChannel packetID packetData p =
     (case map_of (requestChannels p) packetID of
        Some ch \<Rightarrow>
          (case chan_send ch packetData p of
             Completed p' \<Rightarrow> Completed (True, p') | Blocks \<Rightarrow> Blocks | ChannelPanic \<Rightarrow> ChannelPanic)
      | None \<Rightarrow> Completed (False, p))"

definition deleteDetails :: "uint16 \<Rightarrow> ChannelType \<Rightarrow> ResponseHandler \<Rightarrow> ResponseHandler outcome" where
  "deleteDetails packetID channelType p =
     (case channelType of
        RequestChannel \<Rightarrow>
          (case map_of (requestChannels p) packetID of
             Some ch \<Rightarrow> bind_out (chan_close ch p)
               (\<lambda>p'. Ret (p'\<lparr>requestChannels := AList.delete packetID (requestChannels p')\<rparr>))
           | None \<Rightarrow> Ret p)
      | PacketChannel \<Rightarrow>
          (case map_of (packetChannels p) packetID of
             Some ch \<Rightarrow> bind_out (chan_close ch p)
               (\<lambda>p'. Ret (p'\<lparr>packetChannels := AList.delete packetID (packetChannels p')\<rparr>))
           | None \<Rightarrow> Ret p))"

fun close_all :: "(uint16 \<times> nat) list \<Rightarrow> ResponseHandler \<Rightarrow> ResponseHandler outcome" where
  "close_all [] p = Ret p"
| "close_all ((_, ch) # cs) p = bind_out (chan_close ch p) (close_all cs)"

definition CancelAllRequests :: "ResponseHandler \<Rightarrow> ResponseHandler outcome" where
  "CancelAllRequests p =
     bind_out (close_all (requestChannels p) p) (\<lambda>p1.
     bind_out (close_all (packetChannels p1) p1) (\<lambda>p2.
     Ret (p2\<lparr>requestChannels := [], packetChannels := []\<rparr>)))"

subsection \<open>Waiting\<close>

datatype wait_error = ErrChannelNotFound | ErrConnectionClosed | ErrTimeout | CtxErr

text \<open>Which case of the \<open>select\<close> runs. The timer always fires in the end, so it is what a wait on a
  channel comes to that never becomes ready.\<close>

datatype wake = OnChannel | OnContext | OnTimer

definition wait_select ::
  "uint16 \<Rightarrow> ChannelType \<Rightarrow> nat \<Rightarrow> wake \<Rightarrow> ResponseHandler \<Rightarrow> ((wait_error + ResponseData) \<times> ResponseHandler) outcome"
where
  "wait_select packetID channelType ch w p =
     (let expire = (\<lambda>e. bind_out (deleteDetails packetID channelType p) (\<lambda>p'. Ret (Inl e, p'))) in
      case w of
        OnChannel \<Rightarrow>
          (case chan_recv ch p of
             Completed (None, p1) \<Rightarrow> Ret (Inl ErrConnectionClosed, p1)
           | Completed (Some v, p1) \<Rightarrow> bind_out (deleteDetails packetID channelType p1) (\<lambda>p2. Ret (Inr v, p2))
           | _ \<Rightarrow> expire ErrTimeout)
      | OnContext \<Rightarrow> expire CtxErr
      | OnTimer \<Rightarrow> expire ErrTimeout)"

text \<open>\<open>others\<close> is what the other goroutines do to the handler until the \<open>select\<close> runs, and which
  of its cases runs.\<close>

type_synonym others = "ResponseHandler \<Rightarrow> wake \<times> ResponseHandler"

definition waitForDetails ::
  "others \<Rightarrow> uint16 \<Rightarrow> ChannelType \<Rightarrow> ResponseHandler \<Rightarrow> ((wait_error + ResponseData) \<times> ResponseHandler) outcome"
where
  "waitForDetails others packetID channelType p =
     (case getChannel packetID channelType p of
        None \<Rightarrow> Ret (Inl ErrChannelNotFound, p)
      | Some ch \<Rightarrow> (case others p of (w, p') \<Rightarrow> wait_select packetID channelType ch w p'))"

text \<open>The typed variants; a value of another dynamic type panics the type assertion.\<close>

definition cast_wait ::
  "(ResponseData \<Rightarrow> 'a option) \<Rightarrow> ((wait_error + ResponseData) \<times> ResponseHandler) outcome \<Rightarrow>
     ((wait_error + 'a) \<times> ResponseHandler) outcome" where
  "cast_wait castIfNotNil r =
     bind_out r (\<lambda>(res, p).
       case res of
         Inl e \<Rightarrow> Ret (Inl e, p)
       | Inr v \<Rightarrow> (case castIfNotNil v of Some x \<Rightarrow> Ret (Inr x, p) | None \<Rightarrow> Panic))"

fun cast_PublishACK :: "ResponseData \<Rightarrow> Event_PublishACK option" where
  "cast_PublishACK (PublishACK e) = Some e" | "cast_PublishACK _ = None"

fun cast_SubscribeACK :: "ResponseData \<Rightarrow> Event_SubscribeACK option" where
  "cast_SubscribeACK (SubscribeACK e) = Some e" | "cast_SubscribeACK _ = None"

fun cast_PublishResponse :: "ResponseData \<Rightarrow> Event_PublishResponse option" where
  "cast_PublishResponse (PublishResponse e) = Some e" | "cast_PublishResponse _ = None"

definition waitForPubACKDetails ::
  "others \<Rightarrow> uint16 \<Rightarrow> ResponseHandler \<Rightarrow> ((wait_error + Event_PublishACK) \<times> ResponseHandler) outcome" where
  "waitForPubACKDetails others packetID p = cast_wait cast_PublishACK (waitForDetails others packetID PacketChannel p)"

definition waitForSubACKDetails ::
  "others \<Rightarrow> uint16 \<Rightarrow> ResponseHandler \<Rightarrow> ((wait_error + Event_SubscribeACK) \<times> ResponseHandler) outcome" where
  "waitForSubACKDetails others packetID p = cast_wait cast_SubscribeACK (waitForDetails others packetID PacketChannel p)"

definition waitForPubResponseDetails ::
  "others \<Rightarrow> uint16 \<Rightarrow> ResponseHandler \<Rightarrow> ((wait_error + Event_PublishResponse) \<times> ResponseHandler) outcome" where
  "waitForPubResponseDetails others packetID p =
     cast_wait cast_PublishResponse (waitForDetails others packetID RequestChannel p)"

subsection \<open>Goroutines\<close>

text \<open>
  The goroutines that share a handler: those waiting in the \<open>select\<close> of \<open>waitForDetails\<close> and those
  between the lookup of a channel and the send on it. \<open>g_updates\<close> and \<open>g_deliveries\<close> record what was
  passed to an update operation and what a wait returned, with the packet it was for. A panic ends the
  program.
\<close>

datatype crash = CloseOfClosed | SendOnClosed

record goroutines =
  g_handler :: ResponseHandler
  g_waiting :: "(uint16 \<times> ChannelType \<times> nat) list"
  g_sending :: "(nat \<times> ResponseData) list"
  g_updates :: "((ChannelType \<times> uint16) \<times> ResponseData) list"
  g_deliveries :: "((ChannelType \<times> uint16) \<times> ResponseData) list"
  g_crash :: "crash option"

definition no_goroutines :: "goroutines \<Rightarrow> bool" where
  "no_goroutines s \<longleftrightarrow> s = \<lparr>g_handler = new_ResponseHandler, g_waiting = [], g_sending = [], g_updates = [],
     g_deliveries = [], g_crash = None\<rparr>"

inductive handler_step :: "goroutines \<Rightarrow> goroutines \<Rightarrow> bool" where
  add_packet: "g_crash s = None \<Longrightarrow>
    handler_step s (s\<lparr>g_handler := addPacketChannel packetID (g_handler s)\<rparr>)"
| add_request: "g_crash s = None \<Longrightarrow>
    handler_step s (s\<lparr>g_handler := addRequestChannel packetID (g_handler s)\<rparr>)"
| look_up: "g_crash s = None \<Longrightarrow> getChannel packetID channelType (g_handler s) = Some ch \<Longrightarrow>
    handler_step s (s\<lparr>g_sending := (ch, v) # g_sending s, g_updates := ((channelType, packetID), v) # g_updates s\<rparr>)"
| send: "g_crash s = None \<Longrightarrow> (ch, v) \<in> set (g_sending s) \<Longrightarrow> chan_send ch v (g_handler s) = Completed p' \<Longrightarrow>
    handler_step s (s\<lparr>g_handler := p', g_sending := remove1 (ch, v) (g_sending s)\<rparr>)"
| send_panics: "g_crash s = None \<Longrightarrow> (ch, v) \<in> set (g_sending s) \<Longrightarrow>
    chan_send ch v (g_handler s) = ChannelPanic \<Longrightarrow> handler_step s (s\<lparr>g_crash := Some SendOnClosed\<rparr>)"
| wait: "g_crash s = None \<Longrightarrow> getChannel packetID channelType (g_handler s) = Some ch \<Longrightarrow>
    handler_step s (s\<lparr>g_waiting := (packetID, channelType, ch) # g_waiting s\<rparr>)"
| wake_up: "g_crash s = None \<Longrightarrow> (packetID, channelType, ch) \<in> set (g_waiting s) \<Longrightarrow>
    wait_select packetID channelType ch w (g_handler s) = Ret (res, p') \<Longrightarrow>
    handler_step s (s\<lparr>g_handler := p', g_waiting := remove1 (packetID, channelType, ch) (g_waiting s),
      g_deliveries := (case res of Inr v \<Rightarrow> [((channelType, packetID), v)] | Inl _ \<Rightarrow> []) @ g_deliveries s\<rparr>)"
| wake_up_panics: "g_crash s = None \<Longrightarrow> (packetID, channelType, ch) \<in> set (g_waiting s) \<Longrightarrow>
    wait_select packetID channelType ch w (g_handler s) = Panic \<Longrightarrow> handler_step s (s\<lparr>g_crash := Some CloseOfClosed\<rparr>)"
| delete: "g_crash s = None \<Longrightarrow> deleteDetails packetID channelType (g_handler s) = Ret p' \<Longrightarrow>
    handler_step s (s\<lparr>g_handler := p'\<rparr>)"
| delete_panics: "g_crash s = None \<Longrightarrow> deleteDetails packetID channelType (g_handler s) = Panic \<Longrightarrow>
    handler_step s (s\<lparr>g_crash := Some CloseOfClosed\<rparr>)"
| cancel: "g_crash s = None \<Longrightarrow> CancelAllRequests (g_handler s) = Ret p' \<Longrightarrow>
    handler_step s (s\<lparr>g_handler := p'\<rparr>)"
| cancel_panics: "g_crash s = None \<Longrightarrow> CancelAllRequests (g_handler s) = Panic \<Longrightarrow>
    handler_step s (s\<lparr>g_crash := Some CloseOfClosed\<rparr>)"

subsection \<open>Well-formed handlers\<close>

text \<open>Every channel in the maps is allocated, open, and was made for the key it is under; no channel
  holds more than its capacity.\<close>

definition entry_ok :: "ResponseHandler \<Rightarrow> ChannelType \<Rightarrow> uint16 \<times> nat \<Rightarrow> bool" where
  "entry_ok p channelType e \<longleftrightarrow>
     snd e < length (heap p) \<and> \<not> ch_closed (heap p ! snd e) \<and> ch_for (heap p ! snd e) = (channelType, fst e)"

definition handler_ok :: "ResponseHandler \<Rightarrow> bool" where
  "handler_ok p \<longleftrightarrow>
     distinct (map fst (requestChannels p)) \<and> distinct (map fst (packetChannels p)) \<and>
     list_all (entry_ok p RequestChannel) (requestChannels p) \<and>
     list_all (entry_ok p PacketChannel) (packetChannels p) \<and>
     list_all (\<lambda>c. length (ch_buf c) \<le> 1) (heap p)"

section \<open>Lemmas\<close>

subsection \<open>Every operation keeps the handler well-formed\<close>

lemma handler_okI:
  assumes "distinct (map fst (requestChannels p))" "distinct (map fst (packetChannels p))"
    and "\<And>packetID channelType ch. getChannel packetID channelType p = Some ch \<Longrightarrow> entry_ok p channelType (packetID, ch)"
    and "\<And>c. c \<in> set (heap p) \<Longrightarrow> length (ch_buf c) \<le> 1"
  shows "handler_ok p"
  using assms assms(3) [of _ RequestChannel] assms(3) [of _ PacketChannel]
  by (auto simp: handler_ok_def list_all_iff getChannel_def)

lemma handler_ok_entry:
  "handler_ok p \<Longrightarrow> getChannel packetID channelType p = Some ch \<Longrightarrow> entry_ok p channelType (packetID, ch)"
  by (auto simp: handler_ok_def list_all_iff getChannel_def split: ChannelType.splits dest: map_of_SomeD)

lemma handler_ok_buf: "handler_ok p \<Longrightarrow> c \<in> set (heap p) \<Longrightarrow> length (ch_buf c) \<le> 1"
  by (auto simp: handler_ok_def list_all_iff)

lemma handler_ok_distinct:
  "handler_ok p \<Longrightarrow> distinct (map fst (requestChannels p))" "handler_ok p \<Longrightarrow> distinct (map fst (packetChannels p))"
  by (simp_all add: handler_ok_def)

lemma handler_ok_new: "handler_ok new_ResponseHandler"
  by (simp add: handler_ok_def new_ResponseHandler_def)

lemma getChannel_add [simp]:
  "getChannel i c (addPacketChannel packetID p) =
     (if c = PacketChannel \<and> i = packetID then Some (length (heap p)) else getChannel i c p)"
  "getChannel i c (addRequestChannel packetID p) =
     (if c = RequestChannel \<and> i = packetID then Some (length (heap p)) else getChannel i c p)"
  by (auto simp: getChannel_def addPacketChannel_def addRequestChannel_def make_chan_def update_conv'
      split: ChannelType.split)

lemma add_channel_parts [simp]:
  "heap (addPacketChannel packetID p) = heap p @ [\<lparr>ch_buf = [], ch_closed = False, ch_for = (PacketChannel, packetID)\<rparr>]"
  "heap (addRequestChannel packetID p) = heap p @ [\<lparr>ch_buf = [], ch_closed = False, ch_for = (RequestChannel, packetID)\<rparr>]"
  "requestChannels (addPacketChannel packetID p) = requestChannels p"
  "packetChannels (addRequestChannel packetID p) = packetChannels p"
  "packetChannels (addPacketChannel packetID p) = AList.update packetID (length (heap p)) (packetChannels p)"
  "requestChannels (addRequestChannel packetID p) = AList.update packetID (length (heap p)) (requestChannels p)"
  by (simp_all add: addPacketChannel_def addRequestChannel_def make_chan_def)

lemma handler_ok_add:
  assumes "handler_ok p"
  shows "handler_ok (addPacketChannel packetID p)" and "handler_ok (addRequestChannel packetID p)"
proof -
  note entry = handler_ok_entry [OF assms]
  show "handler_ok (addPacketChannel packetID p)"
    by (rule handler_okI)
      (use assms entry in \<open>fastforce simp: entry_ok_def nth_append handler_ok_distinct distinct_update
        dest: handler_ok_buf split: if_splits\<close>)+
  show "handler_ok (addRequestChannel packetID p)"
    by (rule handler_okI)
      (use assms entry in \<open>fastforce simp: entry_ok_def nth_append handler_ok_distinct distinct_update
        dest: handler_ok_buf split: if_splits\<close>)+
qed

text \<open>An operation on one cell that keeps it open and within its capacity.\<close>

lemma handler_ok_cell:
  assumes "handler_ok p" and "ch < length (heap p)"
    and "ch_closed c = ch_closed (heap p ! ch)" "ch_for c = ch_for (heap p ! ch)" "length (ch_buf c) \<le> 1"
  shows "handler_ok (p\<lparr>heap := (heap p)[ch := c]\<rparr>)"
proof (rule handler_okI)
  fix i k ch' assume "getChannel i k (p\<lparr>heap := (heap p)[ch := c]\<rparr>) = Some ch'"
  then have "getChannel i k p = Some ch'" by (simp add: getChannel_def split: ChannelType.splits)
  from handler_ok_entry [OF assms(1) this] assms(2-4) show "entry_ok (p\<lparr>heap := (heap p)[ch := c]\<rparr>) k (i, ch')"
    by (cases "ch' = ch") (simp_all add: entry_ok_def)
next
  fix d assume "d \<in> set (heap (p\<lparr>heap := (heap p)[ch := c]\<rparr>))"
  with assms(5) handler_ok_buf [OF assms(1)] show "length (ch_buf d) \<le> 1"
    by (auto dest: set_update_subset_insert [THEN subsetD])
qed (use assms(1) in \<open>simp_all add: handler_ok_distinct\<close>)

lemma handler_ok_send: "handler_ok p \<Longrightarrow> ch < length (heap p) \<Longrightarrow> chan_send ch v p = Completed p' \<Longrightarrow> handler_ok p'"
  by (auto simp: chan_send_def Let_def split: if_splits intro: handler_ok_cell)

lemma handler_ok_recv:
  assumes "handler_ok p" and "ch < length (heap p)" and "chan_recv ch p = Completed (r, p')"
  shows "handler_ok p'"
proof -
  have "length (ch_buf (heap p ! ch)) \<le> 1" using handler_ok_buf [OF assms(1) nth_mem [OF assms(2)]] .
  with assms show ?thesis
    by (auto simp: chan_recv_def Let_def split: list.splits if_splits intro: handler_ok_cell)
qed

text \<open>Closing a registered channel and removing its key is always possible.\<close>

definition closed_at :: "nat \<Rightarrow> ResponseHandler \<Rightarrow> chan list" where
  "closed_at ch p = (heap p)[ch := (heap p ! ch)\<lparr>ch_closed := True\<rparr>]"

lemma closed_at_parts [simp]:
  "length (closed_at ch p) = length (heap p)"
  "ch < length (heap p) \<Longrightarrow> ch_closed (closed_at ch p ! i) = (i = ch \<or> ch_closed (heap p ! i))"
  "ch_for (closed_at ch p ! i) = ch_for (heap p ! i)" "ch_buf (closed_at ch p ! i) = ch_buf (heap p ! i)"
  by (cases "ch < length (heap p)"; auto simp: closed_at_def nth_list_update list_update_beyond)+

lemma deleteDetails_eq:
  assumes "handler_ok p"
  shows "deleteDetails packetID channelType p =
     (case getChannel packetID channelType p of
        None \<Rightarrow> Ret p
      | Some ch \<Rightarrow> Ret (case channelType of
          RequestChannel \<Rightarrow> p\<lparr>heap := closed_at ch p, requestChannels := AList.delete packetID (requestChannels p)\<rparr>
        | PacketChannel \<Rightarrow> p\<lparr>heap := closed_at ch p, packetChannels := AList.delete packetID (packetChannels p)\<rparr>))"
  using handler_ok_entry [OF assms, of packetID channelType]
  by (auto simp: deleteDetails_def getChannel_def chan_close_def closed_at_def entry_ok_def
      split: ChannelType.split option.split)

definition deleted :: "uint16 \<Rightarrow> ChannelType \<Rightarrow> ResponseHandler \<Rightarrow> ResponseHandler \<Rightarrow> bool" where
  "deleted packetID channelType p p' \<longleftrightarrow>
     handler_ok p' \<and> length (heap p') = length (heap p) \<and>
     (\<forall>i c. getChannel i c p' = (if i = packetID \<and> c = channelType then None else getChannel i c p)) \<and>
     (\<forall>ch < length (heap p). ch_for (heap p' ! ch) = ch_for (heap p ! ch) \<and> ch_buf (heap p' ! ch) = ch_buf (heap p ! ch)
        \<and> ch_closed (heap p' ! ch) = (ch_closed (heap p ! ch) \<or> getChannel packetID channelType p = Some ch))"

lemma deleteDetails_ok:
  assumes ok: "handler_ok p"
  shows "\<exists>p'. deleteDetails packetID channelType p = Ret p' \<and> deleted packetID channelType p p'"
proof (cases "getChannel packetID channelType p")
  case None
  with ok show ?thesis by (auto simp: deleteDetails_eq [OF ok] deleted_def)
next
  case (Some ch)
  let ?p = "case channelType of
      RequestChannel \<Rightarrow> p\<lparr>heap := closed_at ch p, requestChannels := AList.delete packetID (requestChannels p)\<rparr>
    | PacketChannel \<Rightarrow> p\<lparr>heap := closed_at ch p, packetChannels := AList.delete packetID (packetChannels p)\<rparr>"
  have e: "entry_ok p channelType (packetID, ch)" by (rule handler_ok_entry [OF ok Some])
  have h: "heap ?p = closed_at ch p" by (simp split: ChannelType.split)
  have g: "getChannel i c ?p = (if i = packetID \<and> c = channelType then None else getChannel i c p)" for i c
    by (auto simp: getChannel_def delete_conv' split: ChannelType.split)
  have "handler_ok ?p"
  proof (rule handler_okI)
    fix i c ch' assume "getChannel i c ?p = Some ch'"
    then have "getChannel i c p = Some ch'" "\<not> (i = packetID \<and> c = channelType)" by (auto simp: g split: if_splits)
    with handler_ok_entry [OF ok this(1)] e show "entry_ok ?p c (i, ch')"
      by (auto simp: entry_ok_def h)
  next
    fix c assume "c \<in> set (heap ?p)"
    then show "length (ch_buf c) \<le> 1" using handler_ok_buf [OF ok nth_mem]
      by (auto simp: h in_set_conv_nth)
  qed (use ok in \<open>auto simp: handler_ok_distinct distinct_delete split: ChannelType.split\<close>)
  with Some e g h ok show ?thesis
    by (auto simp: deleteDetails_eq [OF ok] deleted_def entry_ok_def)
qed

lemma close_all_ok:
  assumes "distinct (map snd cs)"
    and "list_all (\<lambda>e. snd e < length (heap p) \<and> \<not> ch_closed (heap p ! snd e)) cs"
  shows "\<exists>h. close_all cs p = Ret (p\<lparr>heap := h\<rparr>) \<and> length h = length (heap p) \<and>
    (\<forall>i < length (heap p). ch_for (h ! i) = ch_for (heap p ! i) \<and> ch_buf (h ! i) = ch_buf (heap p ! i) \<and>
      ch_closed (h ! i) = (ch_closed (heap p ! i) \<or> i \<in> snd ` set cs))"
  using assms
proof (induction cs arbitrary: p)
  case Nil
  show ?case by (intro exI [of _ "heap p"]) simp
next
  case (Cons e cs)
  obtain k ch where e: "e = (k, ch)" by (cases e)
  let ?q = "p\<lparr>heap := closed_at ch p\<rparr>"
  have ch: "ch < length (heap p)" "\<not> ch_closed (heap p ! ch)" using Cons.prems(2) by (simp_all add: e)
  have "list_all (\<lambda>e. snd e < length (heap ?q) \<and> \<not> ch_closed (heap ?q ! snd e)) cs"
    using Cons.prems ch by (auto simp: e list_all_iff)
  from Cons.IH [OF _ this] Cons.prems(1) obtain h where h: "close_all cs ?q = Ret (?q\<lparr>heap := h\<rparr>)"
      "length h = length (heap p)"
      "\<forall>i < length (heap p). ch_for (h ! i) = ch_for (heap p ! i) \<and> ch_buf (h ! i) = ch_buf (heap p ! i) \<and>
        ch_closed (h ! i) = (i = ch \<or> ch_closed (heap p ! i) \<or> i \<in> snd ` set cs)"
    using ch(1) by (auto simp: e)
  from h ch show ?case
    by (intro exI [of _ h]) (auto simp: e chan_close_def closed_at_def [symmetric])
qed

lemma handler_ok_channels:
  assumes "handler_ok p"
  shows "distinct (map snd (requestChannels p))" "distinct (map snd (packetChannels p))"
    and "snd ` set (requestChannels p) \<inter> snd ` set (packetChannels p) = {}"
proof -
  have e: "entry_ok p RequestChannel x" if "x \<in> set (requestChannels p)" for x
    using assms that by (simp add: handler_ok_def list_all_iff)
  have e': "entry_ok p PacketChannel x" if "x \<in> set (packetChannels p)" for x
    using assms that by (simp add: handler_ok_def list_all_iff)
  have inj: "inj_on snd (set al)" if "\<And>x. x \<in> set al \<Longrightarrow> entry_ok p c x" for al c
  proof (intro inj_onI prod_eqI)
    fix x y assume "x \<in> set al" "y \<in> set al" "snd x = snd y"
    with that [of x] that [of y] show "fst x = fst y" by (simp add: entry_ok_def)
  qed
  show "distinct (map snd (requestChannels p))" "distinct (map snd (packetChannels p))"
    using handler_ok_distinct [OF assms] inj [OF e] inj [OF e']
    by (simp_all add: distinct_map)
  show "snd ` set (requestChannels p) \<inter> snd ` set (packetChannels p) = {}"
  proof (intro equals0I, elim IntE imageE)
    fix ch x y assume "ch = snd x" "x \<in> set (requestChannels p)" "ch = snd y" "y \<in> set (packetChannels p)"
    with e [of x] e' [of y] show False by (simp add: entry_ok_def)
  qed
qed

definition cancelled :: "ResponseHandler \<Rightarrow> ResponseHandler \<Rightarrow> bool" where
  "cancelled p p' \<longleftrightarrow>
     handler_ok p' \<and> length (heap p') = length (heap p) \<and> (\<forall>i c. getChannel i c p' = None) \<and>
     (\<forall>ch < length (heap p). ch_for (heap p' ! ch) = ch_for (heap p ! ch) \<and> ch_buf (heap p' ! ch) = ch_buf (heap p ! ch)
        \<and> ch_closed (heap p' ! ch) = (ch_closed (heap p ! ch) \<or> (\<exists>i c. getChannel i c p = Some ch)))"

lemma registered_channels:
  assumes "handler_ok p"
  shows "(\<exists>i c. getChannel i c p = Some ch) \<longleftrightarrow> ch \<in> snd ` set (requestChannels p) \<or> ch \<in> snd ` set (packetChannels p)"
proof -
  have "(\<exists>i. map_of al i = Some ch) \<longleftrightarrow> ch \<in> snd ` set al" if "distinct (map fst al)" for al :: "(uint16 \<times> nat) list"
    using that by (force simp: map_of_eq_Some_iff)
  moreover have "(\<exists>c. P c) \<longleftrightarrow> P RequestChannel \<or> P PacketChannel" for P
    by (metis ChannelType.exhaust)
  ultimately show ?thesis using handler_ok_distinct [OF assms] by (simp add: getChannel_def ex_disj_distrib)
qed

lemma CancelAllRequests_ok:
  assumes ok: "handler_ok p"
  shows "\<exists>p'. CancelAllRequests p = Ret p' \<and> cancelled p p'"
proof -
  have open1: "list_all (\<lambda>e. snd e < length (heap p) \<and> \<not> ch_closed (heap p ! snd e)) (requestChannels p)"
    and open2: "list_all (\<lambda>e. snd e < length (heap p) \<and> \<not> ch_closed (heap p ! snd e)) (packetChannels p)"
    using ok by (auto simp: handler_ok_def list_all_iff entry_ok_def)
  note dist = handler_ok_channels [OF ok]
  from close_all_ok [OF dist(1) open1] obtain h where h: "close_all (requestChannels p) p = Ret (p\<lparr>heap := h\<rparr>)"
      "length h = length (heap p)"
      "\<forall>i < length (heap p). ch_for (h ! i) = ch_for (heap p ! i) \<and> ch_buf (h ! i) = ch_buf (heap p ! i) \<and>
        ch_closed (h ! i) = (ch_closed (heap p ! i) \<or> i \<in> snd ` set (requestChannels p))" by blast
  let ?p1 = "p\<lparr>heap := h\<rparr>"
  have "list_all (\<lambda>e. snd e < length (heap ?p1) \<and> \<not> ch_closed (heap ?p1 ! snd e)) (packetChannels p)"
    unfolding list_all_iff
  proof
    fix e assume e: "e \<in> set (packetChannels p)"
    then have "snd e \<notin> snd ` set (requestChannels p)" using dist(3) by blast
    with open2 e h(2,3) show "snd e < length (heap ?p1) \<and> \<not> ch_closed (heap ?p1 ! snd e)"
      by (simp add: list_all_iff)
  qed
  from close_all_ok [OF dist(2) this] h obtain h' where h': "close_all (packetChannels p) ?p1 = Ret (p\<lparr>heap := h'\<rparr>)"
      "length h' = length (heap p)"
      "\<forall>i < length (heap p). ch_for (h' ! i) = ch_for (heap p ! i) \<and> ch_buf (h' ! i) = ch_buf (heap p ! i) \<and>
        ch_closed (h' ! i) = (ch_closed (heap p ! i) \<or> i \<in> snd ` set (requestChannels p) \<or> i \<in> snd ` set (packetChannels p))"
    by auto
  let ?p2 = "p\<lparr>heap := h', requestChannels := [], packetChannels := []\<rparr>"
  have "list_all (\<lambda>c. length (ch_buf c) \<le> 1) h'"
    using h'(2,3) handler_ok_buf [OF ok nth_mem] by (auto simp: list_all_length)
  then have "handler_ok ?p2" by (simp add: handler_ok_def)
  with h h' show ?thesis
    by (intro exI [of _ ?p2])
      (auto simp: CancelAllRequests_def cancelled_def getChannel_def registered_channels [OF ok, unfolded getChannel_def] split: ChannelType.split)
qed

subsection \<open>Receiving and waiting\<close>

text \<open>How an operation may change the heap: channels are only added, none changes its packet, and a
  buffer gains at most the given values.\<close>

definition heap_extends :: "((ChannelType \<times> uint16) \<times> ResponseData) set \<Rightarrow> ResponseHandler \<Rightarrow> ResponseHandler \<Rightarrow> bool" where
  "heap_extends new p p' \<longleftrightarrow> length (heap p) \<le> length (heap p') \<and>
     (\<forall>ch < length (heap p). ch_for (heap p' ! ch) = ch_for (heap p ! ch)) \<and>
     (\<forall>ch < length (heap p'). \<forall>v \<in> set (ch_buf (heap p' ! ch)).
        (ch < length (heap p) \<and> v \<in> set (ch_buf (heap p ! ch))) \<or> (ch_for (heap p' ! ch), v) \<in> new)"

lemma heap_extends_refl: "heap_extends new p p"
  by (simp add: heap_extends_def)

lemma heap_extends_add: "heap_extends {} p (addPacketChannel i p)" "heap_extends {} p (addRequestChannel i p)"
  by (auto simp: heap_extends_def nth_append less_Suc_eq)

lemma heap_extends_deleted: "deleted i c p p' \<Longrightarrow> heap_extends new p p'"
  by (auto simp: heap_extends_def deleted_def)

lemma heap_extends_cancelled: "cancelled p p' \<Longrightarrow> heap_extends new p p'"
  by (auto simp: heap_extends_def cancelled_def)

lemma heap_extends_send:
  "chan_send ch v p = Completed p' \<Longrightarrow> ch < length (heap p) \<Longrightarrow> heap_extends {(ch_for (heap p ! ch), v)} p p'"
  by (auto simp: heap_extends_def chan_send_def Let_def nth_list_update split: if_splits)

lemma heap_extends_trans:
  assumes "heap_extends {} p q" and "heap_extends {} q r"
  shows "heap_extends {} p r"
proof -
  have len: "length (heap p) \<le> length (heap q)" "length (heap q) \<le> length (heap r)"
    using assms by (simp_all add: heap_extends_def)
  have "ch_for (heap r ! ch) = ch_for (heap p ! ch)" if "ch < length (heap p)" for ch
    using assms that len by (simp add: heap_extends_def)
  moreover have "ch < length (heap p) \<and> v \<in> set (ch_buf (heap p ! ch))"
    if "ch < length (heap r)" "v \<in> set (ch_buf (heap r ! ch))" for ch v
  proof -
    from assms(2) that have "ch < length (heap q)" "v \<in> set (ch_buf (heap q ! ch))"
      by (auto simp: heap_extends_def)
    with assms(1) show ?thesis by (auto simp: heap_extends_def)
  qed
  ultimately show ?thesis using len by (auto simp: heap_extends_def)
qed

lemma chan_recv_cases:
  assumes "chan_recv ch p = Completed (r, p')" and "ch < length (heap p)"
  shows "heap_extends {} p p'" and "\<And>v. r = Some v \<Longrightarrow> v \<in> set (ch_buf (heap p ! ch))"
    and "\<And>i c. getChannel i c p' = getChannel i c p"
    and "r = None \<Longrightarrow> ch_closed (heap p ! ch)"
  using assms
  by (auto simp: heap_extends_def chan_recv_def Let_def nth_list_update getChannel_def
      split: list.splits if_splits ChannelType.splits)

text \<open>A wait always ends without a panic, whatever case of the \<open>select\<close> runs.\<close>

lemma wait_select_ok:
  assumes ok: "handler_ok p" and ch: "ch < length (heap p)"
  shows "\<exists>res p'. wait_select packetID channelType ch w p = Ret (res, p') \<and> handler_ok p' \<and> heap_extends {} p p' \<and>
    (\<forall>i c. getChannel i c p' = (if i = packetID \<and> c = channelType \<and> res \<noteq> Inl ErrConnectionClosed then None
       else getChannel i c p)) \<and>
    (\<forall>v. res = Inr v \<longrightarrow> v \<in> set (ch_buf (heap p ! ch))) \<and> (res = Inl ErrConnectionClosed \<longrightarrow> ch_closed (heap p ! ch))"
proof -
  have del: "\<exists>p'. deleteDetails packetID channelType q = Ret p' \<and> handler_ok p' \<and> heap_extends {} q p' \<and>
      (\<forall>i c. getChannel i c p' = (if i = packetID \<and> c = channelType then None else getChannel i c q))"
    if "handler_ok q" for q
  proof -
    from deleteDetails_ok [OF that] obtain p'
      where p': "deleteDetails packetID channelType q = Ret p'" "deleted packetID channelType q p'" by blast
    from p'(2) have "handler_ok p'" "\<forall>i c. getChannel i c p' =
        (if i = packetID \<and> c = channelType then None else getChannel i c q)"
      unfolding deleted_def by blast+
    with p' heap_extends_deleted [OF p'(2)] show ?thesis by blast
  qed
  from del [OF ok] have expire: ?thesis if "\<exists>e. wait_select packetID channelType ch w p =
      bind_out (deleteDetails packetID channelType p) (\<lambda>p'. Ret (Inl e, p')) \<and> e \<noteq> ErrConnectionClosed"
    using that by auto
  show ?thesis
  proof (cases "w = OnChannel \<and> (\<exists>r p1. chan_recv ch p = Completed (r, p1))")
    case False
    then show ?thesis
      by (intro expire) (cases w; auto simp: wait_select_def Let_def split: channel_op.splits)
  next
    case True
    then obtain r p1 where w: "w = OnChannel" and r: "chan_recv ch p = Completed (r, p1)" by blast
    note recv = chan_recv_cases [OF r ch]
    have ok1: "handler_ok p1" by (rule handler_ok_recv [OF ok ch r])
    show ?thesis
    proof (cases r)
      case None
      with w r recv ok1 show ?thesis by (auto simp: wait_select_def)
    next
      case (Some v)
      from del [OF ok1] w r recv(2,3) Some heap_extends_trans [OF recv(1)] show ?thesis
        by (auto simp: wait_select_def)
    qed
  qed
qed

subsection \<open>The invariant of the goroutines\<close>

definition goroutines_ok :: "goroutines \<Rightarrow> bool" where
  "goroutines_ok s \<longleftrightarrow>
     handler_ok (g_handler s) \<and>
     (\<forall>(i, c, ch) \<in> set (g_waiting s). ch < length (heap (g_handler s)) \<and> ch_for (heap (g_handler s) ! ch) = (c, i)) \<and>
     (\<forall>(ch, v) \<in> set (g_sending s). ch < length (heap (g_handler s)) \<and>
        (ch_for (heap (g_handler s) ! ch), v) \<in> set (g_updates s)) \<and>
     (\<forall>ch < length (heap (g_handler s)). \<forall>v \<in> set (ch_buf (heap (g_handler s) ! ch)).
        (ch_for (heap (g_handler s) ! ch), v) \<in> set (g_updates s)) \<and>
     set (g_deliveries s) \<subseteq> set (g_updates s) \<and> g_crash s \<noteq> Some CloseOfClosed"

lemma goroutines_okD:
  assumes "goroutines_ok s"
  shows "handler_ok (g_handler s)" "set (g_deliveries s) \<subseteq> set (g_updates s)" "g_crash s \<noteq> Some CloseOfClosed"
    and "(i, c, ch) \<in> set (g_waiting s) \<Longrightarrow> ch < length (heap (g_handler s)) \<and> ch_for (heap (g_handler s) ! ch) = (c, i)"
    and "(ch, v) \<in> set (g_sending s) \<Longrightarrow>
      ch < length (heap (g_handler s)) \<and> (ch_for (heap (g_handler s) ! ch), v) \<in> set (g_updates s)"
    and "ch < length (heap (g_handler s)) \<Longrightarrow> v \<in> set (ch_buf (heap (g_handler s) ! ch)) \<Longrightarrow>
      (ch_for (heap (g_handler s) ! ch), v) \<in> set (g_updates s)"
  using assms unfolding goroutines_ok_def by blast+

text \<open>A step that changes the handler and drops goroutines.\<close>

lemma goroutines_ok_change:
  assumes ok: "goroutines_ok s" and h: "handler_ok p'" and ext: "heap_extends (set (g_updates s)) (g_handler s) p'"
    and sub: "set wl \<subseteq> set (g_waiting s)" "set sl \<subseteq> set (g_sending s)" "set ds \<subseteq> set (g_updates s)"
  shows "goroutines_ok (s\<lparr>g_handler := p', g_waiting := wl, g_sending := sl, g_deliveries := ds\<rparr>)"
proof -
  let ?p = "g_handler s"
  have keep: "ch < length (heap p') \<and> ch_for (heap p' ! ch) = ch_for (heap ?p ! ch)" if "ch < length (heap ?p)" for ch
    using ext that by (auto simp: heap_extends_def)
  have buf: "(ch_for (heap p' ! ch), v) \<in> set (g_updates s)"
    if "ch < length (heap p')" "v \<in> set (ch_buf (heap p' ! ch))" for ch v
  proof -
    from ext that consider "(ch_for (heap p' ! ch), v) \<in> set (g_updates s)"
      | "ch < length (heap ?p)" "v \<in> set (ch_buf (heap ?p ! ch))" by (auto simp: heap_extends_def)
    then show ?thesis
      by cases (use goroutines_okD(6) [OF ok] keep in auto)
  qed
  have "\<forall>(i, c, ch) \<in> set wl. ch < length (heap p') \<and> ch_for (heap p' ! ch) = (c, i)"
    using goroutines_okD(4) [OF ok] sub(1) keep by auto
  moreover have "\<forall>(ch, v) \<in> set sl. ch < length (heap p') \<and> (ch_for (heap p' ! ch), v) \<in> set (g_updates s)"
    using goroutines_okD(5) [OF ok] sub(2) keep by auto
  ultimately show ?thesis
    using ok h sub(3) buf by (simp add: goroutines_ok_def)
qed

lemma heap_extends_mono: "heap_extends new p p' \<Longrightarrow> new \<subseteq> new' \<Longrightarrow> heap_extends new' p p'"
  unfolding heap_extends_def by blast

lemma goroutines_ok_step:
  assumes "handler_step s t" and ok: "goroutines_ok s"
  shows "goroutines_ok t"
  using assms(1)
proof cases
  case (add_packet packetID)
  with goroutines_ok_change [OF ok handler_ok_add(1) [OF goroutines_okD(1) [OF ok]] heap_extends_mono [OF heap_extends_add(1)]
      subset_refl subset_refl goroutines_okD(2) [OF ok]] show ?thesis by simp
next
  case (add_request packetID)
  with goroutines_ok_change [OF ok handler_ok_add(2) [OF goroutines_okD(1) [OF ok]] heap_extends_mono [OF heap_extends_add(2)]
      subset_refl subset_refl goroutines_okD(2) [OF ok]] show ?thesis by simp
next
  case (look_up packetID channelType ch v)
  with handler_ok_entry [OF goroutines_okD(1) [OF ok] look_up(3)] ok show ?thesis
    by (auto simp: goroutines_ok_def entry_ok_def)
next
  case (send ch v p')
  note snd = goroutines_okD(5) [OF ok send(3)]
  have "heap_extends (set (g_updates s)) (g_handler s) p'"
    using heap_extends_mono [OF heap_extends_send [OF send(4)]] snd by simp
  from goroutines_ok_change [OF ok handler_ok_send [OF goroutines_okD(1) [OF ok] _ send(4)] this subset_refl
      set_remove1_subset goroutines_okD(2) [OF ok]] snd send(1) show ?thesis by simp
next
  case (send_panics ch v)
  with ok show ?thesis by (simp add: goroutines_ok_def)
next
  case (wait packetID channelType ch)
  with handler_ok_entry [OF goroutines_okD(1) [OF ok] wait(3)] ok show ?thesis
    by (auto simp: goroutines_ok_def entry_ok_def)
next
  case (wake_up packetID channelType ch w res p')
  note wt = goroutines_okD(4) [OF ok wake_up(3)]
  from wait_select_ok [OF goroutines_okD(1) [OF ok], of ch packetID channelType w] wt wake_up(4)
  have p': "handler_ok p'" "heap_extends {} (g_handler s) p'"
      "\<And>v. res = Inr v \<Longrightarrow> v \<in> set (ch_buf (heap (g_handler s) ! ch))" by auto
  have ds: "set ((case res of Inr v \<Rightarrow> [((channelType, packetID), v)] | Inl _ \<Rightarrow> []) @ g_deliveries s) \<subseteq> set (g_updates s)"
    using goroutines_okD(2) [OF ok] goroutines_okD(6) [OF ok, of ch] wt p'(3) by (auto split: sum.split)
  from goroutines_ok_change [OF ok p'(1) heap_extends_mono [OF p'(2)] set_remove1_subset subset_refl ds] wake_up(1)
  show ?thesis by simp
next
  case (wake_up_panics packetID channelType ch w)
  with wait_select_ok [OF goroutines_okD(1) [OF ok], of ch packetID channelType w] goroutines_okD(4) [OF ok wake_up_panics(3)]
  show ?thesis by auto
next
  case (delete packetID channelType p')
  with deleteDetails_ok [OF goroutines_okD(1) [OF ok], of packetID channelType]
  have d: "deleted packetID channelType (g_handler s) p'" by auto
  then have "handler_ok p'" by (simp add: deleted_def)
  from goroutines_ok_change [OF ok this heap_extends_deleted [OF d] subset_refl subset_refl goroutines_okD(2) [OF ok]] delete(1)
  show ?thesis by simp
next
  case (delete_panics packetID channelType)
  with deleteDetails_ok [OF goroutines_okD(1) [OF ok], of packetID channelType] show ?thesis by auto
next
  case (cancel p')
  with CancelAllRequests_ok [OF goroutines_okD(1) [OF ok]] have d: "cancelled (g_handler s) p'" by auto
  then have "handler_ok p'" by (simp add: cancelled_def)
  from goroutines_ok_change [OF ok this heap_extends_cancelled [OF d] subset_refl subset_refl goroutines_okD(2) [OF ok]] cancel(1)
  show ?thesis by simp
next
  case cancel_panics
  with CancelAllRequests_ok [OF goroutines_okD(1) [OF ok]] show ?thesis by auto
qed

interpretation handler: invariant_system no_goroutines handler_step goroutines_ok
proof
  show "goroutines_ok s" if "no_goroutines s" for s
    using that by (simp add: no_goroutines_def goroutines_ok_def handler_ok_new) (simp add: new_ResponseHandler_def)
qed (rule goroutines_ok_step)

subsection \<open>A run of two goroutines\<close>

text \<open>A request for packet 1 is registered and awaited, and a response to it has been looked up but not
  sent yet.\<close>

definition awaiting :: goroutines where
  "awaiting = \<lparr>g_handler = addRequestChannel 1 new_ResponseHandler, g_waiting = [(1, RequestChannel, 0)],
     g_sending = [(0, PingResp)], g_updates = [((RequestChannel, 1), PingResp)], g_deliveries = [], g_crash = None\<rparr>"

definition answered :: goroutines where
  "answered = \<lparr>g_handler = \<lparr>requestChannels = [], packetChannels = [],
       heap = [\<lparr>ch_buf = [], ch_closed = True, ch_for = (RequestChannel, 1)\<rparr>]\<rparr>, g_waiting = [],
     g_sending = [], g_updates = [((RequestChannel, 1), PingResp)], g_deliveries = [((RequestChannel, 1), PingResp)], g_crash = None\<rparr>"

definition crashed :: goroutines where
  "crashed = \<lparr>g_handler = \<lparr>requestChannels = [], packetChannels = [],
       heap = [\<lparr>ch_buf = [], ch_closed = True, ch_for = (RequestChannel, 1)\<rparr>]\<rparr>, g_waiting = [],
     g_sending = [(0, PingResp)], g_updates = [((RequestChannel, 1), PingResp)], g_deliveries = [], g_crash = Some SendOnClosed\<rparr>"

lemma awaiting_reachable: "reachable no_goroutines handler_step awaiting"
proof -
  let ?h = "addRequestChannel 1 new_ResponseHandler"
  define s0 where "s0 = \<lparr>g_handler = new_ResponseHandler, g_waiting = [], g_sending = [], g_updates = [],
     g_deliveries = [], g_crash = None\<rparr>"
  have h: "getChannel 1 RequestChannel ?h = Some 0" by (simp add: new_ResponseHandler_def)
  have "reachable no_goroutines handler_step s0" by (rule reach_init) (simp add: no_goroutines_def s0_def)
  then have "reachable no_goroutines handler_step (s0\<lparr>g_handler := ?h\<rparr>)"
    using add_request [of s0 1] by (simp add: s0_def reach_step)
  then have "reachable no_goroutines handler_step (s0\<lparr>g_handler := ?h, g_waiting := [(1, RequestChannel, 0)]\<rparr>)"
    by (rule reach_step) (use wait [of "s0\<lparr>g_handler := ?h\<rparr>" 1 RequestChannel 0] h in \<open>simp add: s0_def\<close>)
  then show ?thesis
    by (rule reach_step)
      (use look_up [of "s0\<lparr>g_handler := ?h, g_waiting := [(1, RequestChannel, 0)]\<rparr>" 1 RequestChannel 0 PingResp] h
       in \<open>simp add: s0_def awaiting_def\<close>)
qed

lemmas handler_eval = addRequestChannel_def make_chan_def new_ResponseHandler_def chan_send_def chan_recv_def
  wait_select_def deleteDetails_def chan_close_def

lemma answered_reachable: "reachable no_goroutines handler_step answered"
proof -
  let ?h = "(addRequestChannel 1 new_ResponseHandler)\<lparr>heap := [\<lparr>ch_buf = [PingResp], ch_closed = False, ch_for = (RequestChannel, 1)\<rparr>]\<rparr>"
  have "handler_step awaiting (awaiting\<lparr>g_handler := ?h, g_sending := []\<rparr>)"
    using send [of awaiting 0 PingResp ?h] by (simp add: awaiting_def handler_eval)
  with awaiting_reachable have "reachable no_goroutines handler_step (awaiting\<lparr>g_handler := ?h, g_sending := []\<rparr>)"
    by (rule reach_step)
  then show ?thesis
    by (rule reach_step)
      (use wake_up [of "awaiting\<lparr>g_handler := ?h, g_sending := []\<rparr>" 1 RequestChannel 0 OnChannel "Inr PingResp" "g_handler answered"]
       in \<open>simp add: awaiting_def answered_def handler_eval\<close>)
qed

lemma crashed_reachable: "reachable no_goroutines handler_step crashed"
proof -
  let ?s = "crashed\<lparr>g_crash := None\<rparr>"
  have "handler_step awaiting ?s"
    using wake_up [of awaiting 1 RequestChannel 0 OnTimer "Inl ErrTimeout" "g_handler crashed"]
    by (simp add: awaiting_def crashed_def handler_eval)
  with awaiting_reachable have "reachable no_goroutines handler_step ?s" by (rule reach_step)
  then show ?thesis
    by (rule reach_step)
      (use send_panics [of ?s 0 PingResp] in \<open>simp add: crashed_def chan_send_def\<close>)
qed

section \<open>Properties\<close>



text \<open>
  C25. The program can nevertheless panic with a send on a closed channel: an update looks its channel up
  under the lock but sends after releasing it, and a wait that times out in between closes the channel.
\<close>

theorem late_response_panics:
  "\<exists>s. reachable no_goroutines handler_step s \<and> g_crash s = Some SendOnClosed"
  by (intro exI [of _ crashed] conjI crashed_reachable) (simp add: crashed_def)



end
