(* ===== verification/Mqtt_Socket.thy ===== *)
theory Mqtt_Socket
  imports Response_Handler
begin

text \<open>
  \<^verbatim>\<open>socket.go\<close>, \<^verbatim>\<open>json.go\<close> and the request half of \<^verbatim>\<open>payload.go\<close>: packet identifiers, the JSON documents of the
  connection, and the exchanges of a request with its acknowledgement and response. The websocket library
  is a parameter: the result of a write. What the other goroutines do to the response handler while a
  request waits is the parameter \<open>others\<close>.
\<close>

section \<open>Model\<close>

subsection \<open>The socket\<close>

text \<open>\<open>sk_written\<close> lists the messages written to the connection.\<close>

record Socket =
  sk_conn :: bool
  sk_responseHandler :: ResponseHandler
  sk_packetsSent :: uint16
  sk_sessionID :: int
  sk_broker :: string
  sk_previouslyConnected :: bool
  sk_written :: "bytes list"

definition newSocketClient :: "int \<Rightarrow> Socket" where
  "newSocketClient sessionID = \<lparr>sk_conn = False, sk_responseHandler = new_ResponseHandler, sk_packetsSent = 0,
     sk_sessionID = sessionID, sk_broker = '''', sk_previouslyConnected = False, sk_written = []\<rparr>"

datatype socket_error = ErrSocketAlreadyOpen | ErrNotAuthenticated | ErrNoBroker | ErrNotConnected
  | ErrWrite string | ErrByter byter_error | ErrWait wait_error

definition CanConnect :: "bool \<Rightarrow> Socket \<Rightarrow> socket_error option" where
  "CanConnect isAuthenticated s =
     (if sk_conn s then Some ErrSocketAlreadyOpen
      else if \<not> isAuthenticated then Some ErrNotAuthenticated
      else if sk_broker s = '''' then Some ErrNoBroker
      else None)"

definition SafePacketID :: "Socket \<Rightarrow> uint16 \<times> Socket" where
  "SafePacketID s =
     (let n = sk_packetsSent s + 1; n' = (if n = 0 then 1 else n)
      in (n', s\<lparr>sk_packetsSent := n'\<rparr>))"

definition sendData :: "(bytes \<Rightarrow> string option) \<Rightarrow> bytes \<Rightarrow> Socket \<Rightarrow> socket_error option \<times> Socket" where
  "sendData write data s =
     (if \<not> sk_conn s then (Some ErrNotConnected, s)
      else (case write data of
              Some e \<Rightarrow> (Some (ErrWrite e), s)
            | None \<Rightarrow> (None, s\<lparr>sk_written := sk_written s @ [data]\<rparr>)))"

subsection \<open>The broker address\<close>

text \<open>\<open>url.QueryEscape\<close> and \<open>url.Values.Encode\<close> on the two parameters, which it sorts by name.\<close>

definition upper_hex :: "nat \<Rightarrow> char" where
  "upper_hex n = (if n < 10 then char_of (48 + n) else char_of (55 + n))"

definition unreserved :: "char \<Rightarrow> bool" where
  "unreserved c \<longleftrightarrow>
     48 \<le> code c \<and> code c \<le> 57 \<or> 65 \<le> code c \<and> code c \<le> 90 \<or> 97 \<le> code c \<and> code c \<le> 122 \<or>
     c = CHR ''-'' \<or> c = CHR ''_'' \<or> c = CHR ''.'' \<or> c = CHR ''~''"

definition QueryEscape :: "string \<Rightarrow> string" where
  "QueryEscape s = concat (map (\<lambda>c.
     if unreserved c then [c]
     else if c = CHR '' '' then ''+''
     else [CHR 0x25, upper_hex (code c div 16), upper_hex (code c mod 16)]) s)"

definition BuildBrokerURL :: "string \<Rightarrow> Socket \<Rightarrow> string" where
  "BuildBrokerURL clientID s =
     (let encodedQuery = ''cid='' @ QueryEscape clientID @ ''&sid='' @ QueryEscape (format_int (sk_sessionID s))
      in if sk_broker s \<noteq> [] \<and> last (sk_broker s) = CHR ''?'' then sk_broker s @ encodedQuery
         else sk_broker s @ ''&'' @ encodedQuery)"

definition getConnectionType :: "bool \<Rightarrow> string" where
  "getConnectionType isInstagram = (if isInstagram then ''cookie_auth'' else ''websocket'')"

subsection \<open>The connection document (json.go)\<close>

record ConnectPostMessage =
  pm_IsBase64Publish :: bool
  pm_MessageID :: int
  pm_Payload :: string
  pm_QoS :: QoS
  pm_Topic :: string

definition ConnectPostMessage_json :: "ConnectPostMessage \<Rightarrow> json" where
  "ConnectPostMessage_json m = JObj [(''isBase64Publish'', JBool (pm_IsBase64Publish m)),
     (''messageId'', JNum (format_int (pm_MessageID m))), (''payload'', JStr (pm_Payload m)),
     (''qos'', JNum (format_uint (unat (pm_QoS m)))), (''topic'', JStr (pm_Topic m))]"

text \<open>A nil slice of subscribed topics is \<open>None\<close>.\<close>

record Connect =
  cn_AccountId :: string
  cn_SessionId :: int
  cn_ClientCapabilities :: int
  cn_Capabilities :: int
  cn_ChatOn :: bool
  cn_Fg :: bool
  cn_Cid :: string
  cn_ConnectionType :: string
  cn_MqttSid :: string
  cn_AppId :: int
  cn_SubscribedTopics :: "string list option"
  cn_PostMessage :: "ConnectPostMessage list"
  cn_Dc :: string
  cn_NoAutoFg :: bool
  cn_HostNameOverride :: string
  cn_UserAgent :: string

definition Connect_json :: "Connect \<Rightarrow> json" where
  "Connect_json c = JObj
     [(''u'', JStr (cn_AccountId c)), (''s'', JNum (format_int (cn_SessionId c))),
      (''cp'', JNum (format_int (cn_ClientCapabilities c))), (''ecp'', JNum (format_int (cn_Capabilities c))),
      (''chat_on'', JBool (cn_ChatOn c)), (''fg'', JBool (cn_Fg c)), (''d'', JStr (cn_Cid c)),
      (''ct'', JStr (cn_ConnectionType c)), (''mqtt_sid'', JStr (cn_MqttSid c)),
      (''aid'', JNum (format_int (cn_AppId c))),
      (''st'', case cn_SubscribedTopics c of None \<Rightarrow> JNull | Some ts \<Rightarrow> JArr (map JStr ts)),
      (''pm'', JArr (map ConnectPostMessage_json (cn_PostMessage c))), (''dc'', JStr (cn_Dc c)),
      (''no_auto_fg'', JBool (cn_NoAutoFg c)), (''gas'', JNull), (''pack'', JArr []),
      (''php_override'', JStr (cn_HostNameOverride c)), (''p'', JNull), (''a'', JStr (cn_UserAgent c)), (''aids'', JNull)]"

text \<open>What the functions below read of the client's configuration.\<close>

record SocketConfig =
  sc_AccountID :: string
  sc_ClientCapabilities :: int
  sc_Capabilities :: int
  sc_ChatVisibility :: bool
  sc_MqttAppID :: int
  sc_SubscribedTopics :: "string list option"
  sc_HostNameOverride :: string
  sc_UserAgent :: string
  sc_ClientID :: string
  sc_AppID :: string
  sc_VersionID :: int
  sc_IsInstagram :: bool

definition AppSettingsPublish_json :: "string \<Rightarrow> string \<Rightarrow> json" where
  "AppSettingsPublish_json lsFdid schemaVersion = JObj [(''ls_fdid'', JStr lsFdid), (''ls_sv'', JStr schemaVersion)]"

definition newAppSettingsPublishJSON :: "int \<Rightarrow> string" where
  "newAppSettingsPublishJSON versionId = marshal (AppSettingsPublish_json '''' (format_int versionId))"

definition append_topic :: "string \<Rightarrow> string list option \<Rightarrow> string list option" where
  "append_topic t topics =
     (let ts = (case topics of None \<Rightarrow> [] | Some ts \<Rightarrow> ts) in if t \<in> set ts then topics else Some (ts @ [t]))"

definition newConnect :: "SocketConfig \<Rightarrow> Socket \<Rightarrow> Connect" where
  "newConnect cfg s =
     (let payload = \<lparr>cn_AccountId = sc_AccountID cfg, cn_SessionId = sk_sessionID s,
            cn_ClientCapabilities = sc_ClientCapabilities cfg, cn_Capabilities = sc_Capabilities cfg,
            cn_ChatOn = sc_ChatVisibility cfg, cn_Fg = False, cn_Cid = sc_ClientID cfg,
            cn_ConnectionType = getConnectionType (sc_IsInstagram cfg), cn_MqttSid = '''',
            cn_AppId = sc_MqttAppID cfg, cn_SubscribedTopics = sc_SubscribedTopics cfg, cn_PostMessage = [],
            cn_Dc = '''', cn_NoAutoFg = True, cn_HostNameOverride = sc_HostNameOverride cfg,
            cn_UserAgent = sc_UserAgent cfg\<rparr>
      in if sk_previouslyConnected s then
           payload\<lparr>cn_PostMessage := cn_PostMessage payload @
               [\<lparr>pm_IsBase64Publish = False, pm_MessageID = 65536, pm_Payload = newAppSettingsPublishJSON (sc_VersionID cfg),
                 pm_QoS = QOS_LEVEL_1, pm_Topic = LS_APP_SETTINGS\<rparr>],
             cn_SubscribedTopics := append_topic LS_RESP (append_topic LS_FOREGROUND_STATE (cn_SubscribedTopics payload))\<rparr>
         else payload)"

definition newConnectJSON :: "SocketConfig \<Rightarrow> Socket \<Rightarrow> string" where
  "newConnectJSON cfg s = marshal (Connect_json (newConnect cfg s))"

subsection \<open>Requests (payload.go, socket.go)\<close>

text \<open>
  A run is \<open>None\<close> when the code would not return, and otherwise its outcome. The writer of a request is
  the only part that could diverge.
\<close>

type_synonym 'a run = "'a outcome option"

definition bind_run :: "'a run \<Rightarrow> ('a \<Rightarrow> 'b run) \<Rightarrow> 'b run" where
  "bind_run r f = (case r of None \<Rightarrow> None | Some (Ret x) \<Rightarrow> f x | Some Panic \<Rightarrow> Some Panic | Some Exit \<Rightarrow> Some Exit)"

definition deleteDetails_run :: "uint16 \<Rightarrow> ChannelType \<Rightarrow> Socket \<Rightarrow> Socket run" where
  "deleteDetails_run packetId channelType s =
     Some (bind_out (deleteDetails packetId channelType (sk_responseHandler s)) (\<lambda>p. Ret (s\<lparr>sk_responseHandler := p\<rparr>)))"

definition newPublishRequest ::
  "Topic \<Rightarrow> string \<Rightarrow> byte \<Rightarrow> uint16 \<Rightarrow> Socket \<Rightarrow> ((bytes option \<times> uint16 \<times> socket_error option) \<times> Socket) run" where
  "newPublishRequest topic jsonData packetByte packetId s =
     (let s1 = s\<lparr>sk_responseHandler := addRequestChannel packetId (addPacketChannel packetId (sk_responseHandler s))\<rparr>
      in case publish_bytes topic jsonData packetByte packetId of
           None \<Rightarrow> None
         | Some (Inl e) \<Rightarrow>
             bind_run (deleteDetails_run packetId PacketChannel s1) (\<lambda>s2.
             bind_run (deleteDetails_run packetId RequestChannel s2) (\<lambda>s3.
             Some (Ret ((None, 0, Some (ErrByter e)), s3))))
         | Some (Inr reqBytes) \<Rightarrow> Some (Ret ((Some reqBytes, packetId, None), s1)))"

definition newSubscribeRequest ::
  "Topic \<Rightarrow> QoS \<Rightarrow> Socket \<Rightarrow> ((bytes option \<times> uint16 \<times> socket_error option) \<times> Socket) run" where
  "newSubscribeRequest topic qos s =
     (let (packetId, s0) = SafePacketID s;
          s1 = s0\<lparr>sk_responseHandler := addPacketChannel packetId (sk_responseHandler s0)\<rparr>
      in case subscribe_bytes topic qos packetId of
           None \<Rightarrow> None
         | Some (Inl e) \<Rightarrow>
             bind_run (deleteDetails_run packetId PacketChannel s1) (\<lambda>s2.
             Some (Ret ((None, 0, Some (ErrByter e)), s2)))
         | Some (Inr reqBytes) \<Rightarrow> Some (Ret ((Some reqBytes, packetId, None), s1)))"

definition sendConnectPacket :: "(bytes \<Rightarrow> string option) \<Rightarrow> SocketConfig \<Rightarrow> Socket \<Rightarrow> (socket_error option \<times> Socket) run" where
  "sendConnectPacket write cfg s =
     (let connectFlags = CreateConnectFlagByte \<lparr>cf_Username = True, cf_Password = False, cf_Retain = False, cf_QoS = 0,
            cf_CleanSession = True\<rparr>
      in case newConnectRequest (newConnectJSON cfg s) connectFlags of
           None \<Rightarrow> None
         | Some (Inl e) \<Rightarrow> Some (Ret (Some (ErrByter e), s))
         | Some (Inr connectPayload) \<Rightarrow> Some (Ret (sendData write connectPayload s)))"

text \<open>A wait on the socket's handler.\<close>

definition wait_run ::
  "(ResponseHandler \<Rightarrow> ((wait_error + 'a) \<times> ResponseHandler) outcome) \<Rightarrow> Socket \<Rightarrow> ((wait_error + 'a) \<times> Socket) run" where
  "wait_run wait s = Some (bind_out (wait (sk_responseHandler s)) (\<lambda>(r, p). Ret (r, s\<lparr>sk_responseHandler := p\<rparr>)))"

definition sendSubscribePacket ::
  "(bytes \<Rightarrow> string option) \<Rightarrow> others \<Rightarrow> Topic \<Rightarrow> QoS \<Rightarrow> bool \<Rightarrow> Socket \<Rightarrow>
     ((socket_error + Event_SubscribeACK option) \<times> Socket) run" where
  "sendSubscribePacket write others topic qos wait s =
     bind_run (newSubscribeRequest topic qos s) (\<lambda>((payload, packetId, err), s1).
       case (err, payload) of
         (None, Some subscribeRequestPayload) \<Rightarrow>
           (case sendData write subscribeRequestPayload s1 of
              (Some e, s2) \<Rightarrow> Some (Ret (Inl e, s2))
            | (None, s2) \<Rightarrow>
                if wait then
                  bind_run (wait_run (waitForSubACKDetails others packetId) s2) (\<lambda>(r, s3).
                    case r of Inl e \<Rightarrow> Some (Ret (Inl (ErrWait e), s3)) | Inr ack \<Rightarrow> Some (Ret (Inr (Some ack), s3)))
                else Some (Ret (Inr None, s2)))
       | (Some e, _) \<Rightarrow> Some (Ret (Inl e, s1))
       | (None, None) \<Rightarrow> Some (Ret (Inr None, s1)))"

definition sendPublishPacket ::
  "(bytes \<Rightarrow> string option) \<Rightarrow> others \<Rightarrow> Topic \<Rightarrow> string \<Rightarrow> PublishPacket \<Rightarrow> uint16 \<Rightarrow> Socket \<Rightarrow>
     ((uint16 \<times> socket_error option) \<times> Socket) run" where
  "sendPublishPacket write others topic jsonData packet packetId0 s =
     bind_run (newPublishRequest topic jsonData (PublishPacket_Compress packet) packetId0 s)
       (\<lambda>((payload, packetId, err), s1).
       case (err, payload) of
         (None, Some publishRequestPayload) \<Rightarrow>
           (case sendData write publishRequestPayload s1 of
              (Some e, s2) \<Rightarrow>
                bind_run (deleteDetails_run packetId PacketChannel s2) (\<lambda>s3.
                bind_run (deleteDetails_run packetId RequestChannel s3) (\<lambda>s4.
                Some (Ret ((packetId, Some e), s4))))
            | (None, s2) \<Rightarrow>
                bind_run (wait_run (waitForPubACKDetails others packetId) s2) (\<lambda>(r, s3).
                  case r of
                    Inl e \<Rightarrow> bind_run (deleteDetails_run packetId RequestChannel s3) (\<lambda>s4.
                               Some (Ret ((packetId, Some (ErrWait e)), s4)))
                  | Inr _ \<Rightarrow> Some (Ret ((packetId, None), s3))))
       | (Some e, _) \<Rightarrow> Some (Ret ((packetId, Some e), s1))
       | (None, None) \<Rightarrow> Some (Ret ((packetId, None), s1)))"

record SocketLSRequestPayload =
  lsr_AppId :: string
  lsr_Payload :: string
  lsr_RequestId :: int
  lsr_Type :: int

definition SocketLSRequestPayload_json :: "SocketLSRequestPayload \<Rightarrow> json" where
  "SocketLSRequestPayload_json p = JObj [(''app_id'', JStr (lsr_AppId p)), (''payload'', JStr (lsr_Payload p)),
     (''request_id'', JNum (format_int (lsr_RequestId p))), (''type'', JNum (format_int (lsr_Type p)))]"

definition makeLSRequest ::
  "(bytes \<Rightarrow> string option) \<Rightarrow> others \<Rightarrow> others \<Rightarrow> string \<Rightarrow> bytes \<Rightarrow> int \<Rightarrow> Socket \<Rightarrow>
     ((socket_error + Event_PublishResponse option) \<times> Socket) run" where
  "makeLSRequest write others1 others2 appID payload t s =
     (let (packetId, s0) = SafePacketID s;
          lsPayload = \<lparr>lsr_AppId = appID, lsr_Payload = string_of_bytes payload, lsr_RequestId = int (unat packetId),
            lsr_Type = t\<rparr>;
          jsonPayload = marshal (SocketLSRequestPayload_json lsPayload)
      in bind_run (sendPublishPacket write others1 LS_REQ jsonPayload
             \<lparr>pp_packetType = 0, pp_DUP = 0, pp_QOSLevel = QOS_LEVEL_1, pp_RetainFlag = 0\<rparr> packetId s0)
           (\<lambda>((_, err), s1).
             case err of
               Some e \<Rightarrow> Some (Ret (Inl e, s1))
             | None \<Rightarrow>
                 if t = 4 then Some (Ret (Inr None, s1))
                 else bind_run (wait_run (waitForPubResponseDetails others2 packetId) s1) (\<lambda>(r, s2).
                        case r of
                          Inl e \<Rightarrow> Some (Ret (Inl (ErrWait e), s2))
                        | Inr resp \<Rightarrow> Some (Ret (Inr (Some resp), s2)))))"

subsection \<open>Incoming messages (events.go, socket.go)\<close>

text \<open>The part of the read loop that messages change: the socket, the queue to the event goroutine, the
  first error, whether the connection was closed, and the effects in order. \<open>Finish\<close>, which decodes the
  lightspeed payload of a response, is a parameter here; its run may end in a panic.\<close>

datatype loop_error = ErrParse response_error | ErrRefused ConnectionCode

datatype effect = EmitEvent ResponseData | SendAsync bytes | ResetPongTimer

record ReadLoop =
  rl_socket :: Socket
  rl_wsQueue :: "ResponseData list"
  rl_closeErr :: "loop_error option"
  rl_connClosed :: bool
  rl_effects :: "effect list"

definition add_effects :: "effect list \<Rightarrow> ReadLoop \<Rightarrow> ReadLoop" where
  "add_effects es l = l\<lparr>rl_effects := rl_effects l @ es\<rparr>"

definition with_update ::
  "(ResponseHandler \<Rightarrow> (bool \<times> ResponseHandler) channel_op) \<Rightarrow> ReadLoop \<Rightarrow> ReadLoop channel_op" where
  "with_update upd l =
     (case upd (sk_responseHandler (rl_socket l)) of
        Completed (_, p) \<Rightarrow> Completed (l\<lparr>rl_socket := (rl_socket l)\<lparr>sk_responseHandler := p\<rparr>\<rparr>)
      | Blocks \<Rightarrow> Blocks
      | ChannelPanic \<Rightarrow> ChannelPanic)"

definition handleACKEvent :: "ResponseData \<Rightarrow> ReadLoop \<Rightarrow> ReadLoop channel_op" where
  "handleACKEvent ackData l =
     (case GetPacketID ackData of
        Some packetID \<Rightarrow> with_update (updatePacketChannel packetID ackData) l
      | None \<Rightarrow> Completed l)"

definition puback_bytes :: "uint16 \<Rightarrow> bytes" where
  "puback_bytes messageIdentifier = [push_bit 4 PUBACK, 2] @ be_of 2 (unat messageIdentifier)"

definition puback :: "Event_PublishResponse \<Rightarrow> effect list" where
  "puback resp = (if pr_QoS resp = QOS_LEVEL_1 then [SendAsync (puback_bytes (pr_MessageIdentifier resp))] else [])"

definition handlePublishResponseEvent ::
  "(Event_PublishResponse \<Rightarrow> unit outcome) \<Rightarrow> bool \<Rightarrow> Event_PublishResponse \<Rightarrow> bool \<Rightarrow> ReadLoop \<Rightarrow>
     (bool \<times> ReadLoop) channel_op" where
  "handlePublishResponseEvent Finish ctxDone resp isQueue l =
     (let packetID = prd_RequestID (pr_Data resp);
          key = (word_of_int packetID :: uint16);
          hasPacket' = hasPacket key (sk_responseHandler (rl_socket l));
          finish = (\<lambda>l'. Completed (False, if ctxDone then l' else add_effects (puback resp) l'))
      in if pr_Topic resp = LS_RESP then
           (case Finish resp of
              Ret _ \<Rightarrow>
                if \<not> isQueue \<and> hasPacket' then
                  (case with_update (updateRequestChannel key (PublishResponse resp)) l of
                     Completed l' \<Rightarrow> finish l' | Blocks \<Rightarrow> Blocks | ChannelPanic \<Rightarrow> ChannelPanic)
                else if packetID = 0 then
                  if \<not> isQueue then Completed (True, l)
                  else finish (add_effects [EmitEvent (PublishResponse resp)] l)
                else finish l
            | _ \<Rightarrow> ChannelPanic)
         else finish l)"

text \<open>The queue holds 32 items; a send on a full queue blocks until the event goroutine takes one.\<close>

definition enqueue :: "ResponseData \<Rightarrow> ReadLoop \<Rightarrow> ReadLoop channel_op" where
  "enqueue evt l = (if length (rl_wsQueue l) < 32 then Completed (l\<lparr>rl_wsQueue := rl_wsQueue l @ [evt]\<rparr>) else Blocks)"

definition handleBinaryMessage ::
  "(Event_PublishResponse \<Rightarrow> unit outcome) \<Rightarrow> bool \<Rightarrow> bytes \<Rightarrow> ReadLoop \<Rightarrow> ReadLoop channel_op" where
  "handleBinaryMessage Finish ctxDone data l =
     (case Response_Read \<lparr>rp_PacketByte = 0, rp_RemainingLength = 0, rp_ResponseData = None\<rparr> data of
        Ret (Inl err) \<Rightarrow>
          Completed (l\<lparr>rl_closeErr := (case rl_closeErr l of None \<Rightarrow> Some (ErrParse err) | Some e \<Rightarrow> Some e),
            rl_connClosed := True\<rparr>)
      | Ret (Inr resp) \<Rightarrow>
          (case rp_ResponseData resp of
             Some PingResp \<Rightarrow> Completed (add_effects [ResetPongTimer] l)
           | Some (PublishResponse evt) \<Rightarrow>
               (let evt' = evt\<lparr>pr_QoS := QOS resp\<rparr>
                in case handlePublishResponseEvent Finish ctxDone evt' False l of
                     Completed (addToQueue, l') \<Rightarrow> if addToQueue then enqueue (PublishResponse evt') l' else Completed l'
                   | Blocks \<Rightarrow> Blocks
                   | ChannelPanic \<Rightarrow> ChannelPanic)
           | Some (PublishACK e) \<Rightarrow> handleACKEvent (PublishACK e) l
           | Some (SubscribeACK e) \<Rightarrow> handleACKEvent (SubscribeACK e) l
           | Some (Ready e) \<Rightarrow>
               if er_ConnectionCode e \<noteq> CONNECTION_ACCEPTED then
                 Completed (l\<lparr>rl_closeErr := Some (ErrRefused (er_ConnectionCode e)), rl_connClosed := True\<rparr>)
               else enqueue (Ready e) l
           | None \<Rightarrow> Completed l)
      | _ \<Rightarrow> ChannelPanic)"

section \<open>Lemmas\<close>

subsection \<open>Packet identifiers\<close>

text \<open>The n-th identifier after the current state.\<close>

fun packet_ids :: "nat \<Rightarrow> Socket \<Rightarrow> uint16 list" where
  "packet_ids 0 s = []"
| "packet_ids (Suc n) s = (case SafePacketID s of (i, s') \<Rightarrow> i # packet_ids n s')"

lemma SafePacketID_unat:
  "unat (fst (SafePacketID s)) = unat (sk_packetsSent s) mod 65535 + 1"
  "sk_packetsSent (snd (SafePacketID s)) = fst (SafePacketID s)"
proof -
  let ?n = "sk_packetsSent s"
  have less: "unat ?n < 65536" by simp
  show "sk_packetsSent (snd (SafePacketID s)) = fst (SafePacketID s)" by (simp add: SafePacketID_def Let_def)
  show "unat (fst (SafePacketID s)) = unat ?n mod 65535 + 1"
  proof (cases "unat ?n = 65535")
    case True
    then have "?n = 65535" by (simp add: word_unat_eq_iff)
    then show ?thesis by (simp add: SafePacketID_def)
  next
    case False
    then have "unat ?n < 65535" using less by linarith
    then have "unat (?n + 1) = unat ?n + 1" by (simp add: unat_word_ariths)
    moreover from this have "?n + 1 \<noteq> 0" by (metis add_is_0 one_neq_zero unat_0)
    ultimately show ?thesis using \<open>unat ?n < 65535\<close> by (simp add: SafePacketID_def Let_def)
  qed
qed

lemma packet_ids_nth: "i < n \<Longrightarrow> unat (packet_ids n s ! i) = (unat (sk_packetsSent s) + i) mod 65535 + 1"
proof (induction i arbitrary: n s)
  case 0
  then obtain m where "n = Suc m" by (cases n) auto
  then show ?case using SafePacketID_unat(1) [of s] by (simp add: split_beta)
next
  case (Suc i)
  then obtain m where n: "n = Suc m" "i < m" by (cases n) auto
  let ?s = "snd (SafePacketID s)"
  have "unat (sk_packetsSent ?s) = unat (sk_packetsSent s) mod 65535 + 1"
    by (simp add: SafePacketID_unat)
  moreover have "Suc (unat (sk_packetsSent s) mod 65535 + i) mod 65535 = Suc (unat (sk_packetsSent s) + i) mod 65535"
    by (metis add_Suc_right mod_add_left_eq)
  ultimately show ?case using Suc.IH [OF n(2), of ?s] n by (simp add: split_beta)
qed

lemma length_packet_ids [simp]: "length (packet_ids n s) = n"
  by (induction n arbitrary: s) (simp_all add: split_beta)

lemma mod_shift_inj:
  fixes n :: nat
  assumes "(n + i) mod m = (n + j) mod m" and "j < m" and "i \<le> j"
  shows "i = j"
proof -
  from assms(1,3) obtain q where "n + j = n + i + m * q" by (metis add_le_mono le_refl mod_eq_nat1E)
  with assms(2) show ?thesis by (cases q) simp_all
qed

lemma packet_ids_distinct: "distinct (packet_ids 65535 s)"
proof (rule distinct_conv_nth [THEN iffD2], intro allI impI)
  fix i j assume ij: "i < length (packet_ids 65535 s)" "j < length (packet_ids 65535 s)" "i \<noteq> j"
  show "packet_ids 65535 s ! i \<noteq> packet_ids 65535 s ! j"
  proof
    let ?n = "unat (sk_packetsSent s)"
    assume "packet_ids 65535 s ! i = packet_ids 65535 s ! j"
    then have "(?n + i) mod 65535 = (?n + j) mod 65535"
      using packet_ids_nth [of i 65535 s] packet_ids_nth [of j 65535 s] ij by simp
    with ij show False
      using mod_shift_inj [of ?n i 65535 j] mod_shift_inj [of ?n j 65535 i] by (cases "i \<le> j") auto
  qed
qed

lemma packet_ids_nonzero: "0 \<notin> set (packet_ids n s)"
proof
  assume "0 \<in> set (packet_ids n s)"
  then obtain i where "i < n" "packet_ids n s ! i = 0" by (auto simp: in_set_conv_nth)
  with packet_ids_nth [of i n s] show False by simp
qed

subsection \<open>Exchanges\<close>

text \<open>
  What a request may rely on of the other goroutines: they keep the handler well-formed, and they
  never register its packet again.
\<close>

definition others_ok :: "uint16 \<Rightarrow> others \<Rightarrow> bool" where
  "others_ok packetId others \<longleftrightarrow> (\<forall>p. handler_ok p \<longrightarrow>
     handler_ok (snd (others p)) \<and> length (heap p) \<le> length (heap (snd (others p))) \<and>
     (\<forall>c ch. getChannel packetId c (snd (others p)) = Some ch \<longrightarrow> getChannel packetId c p = Some ch))"

text \<open>The responses a channel of each kind is meant for, and goroutines that keep to it for a packet.\<close>

fun typed :: "ChannelType \<Rightarrow> ResponseData \<Rightarrow> bool" where
  "typed PacketChannel v \<longleftrightarrow> cast_PublishACK v \<noteq> None"
| "typed RequestChannel v \<longleftrightarrow> cast_PublishResponse v \<noteq> None"

definition typed_buf :: "ChannelType \<Rightarrow> nat \<Rightarrow> ResponseHandler \<Rightarrow> bool" where
  "typed_buf c ch p \<longleftrightarrow> list_all (typed c) (ch_buf (heap p ! ch))"

definition others_typed :: "uint16 \<Rightarrow> others \<Rightarrow> bool" where
  "others_typed packetId others \<longleftrightarrow> (\<forall>p c ch. getChannel packetId c p = Some ch \<longrightarrow> typed_buf c ch p \<longrightarrow>
     typed_buf c ch (snd (others p)))"

lemma others_okD:
  assumes "others_ok packetId others" and "handler_ok p" and "others p = (w, p')"
  shows "handler_ok p'" "length (heap p) \<le> length (heap p')"
    and "getChannel packetId c p' = Some ch \<Longrightarrow> getChannel packetId c p = Some ch"
  using assms unfolding others_ok_def by (metis snd_conv)+

text \<open>A wait for a registered packet returns, and unregisters the packet.\<close>

lemma typed_buf_extends:
  assumes "typed_buf c ch q" and "heap_extends {} q p" and "ch < length (heap p)"
  shows "typed_buf c ch p"
  using assms by (auto simp: typed_buf_def heap_extends_def list_all_iff)

lemma waitForDetails_ok:
  assumes ok: "handler_ok p" and reg: "getChannel packetId c p = Some ch"
    and oth: "others_ok packetId others" "others_typed packetId others" and buf: "typed_buf c ch p"
  shows "\<exists>res p'. waitForDetails others packetId c p = Ret (res, p') \<and> handler_ok p' \<and> getChannel packetId c p' = None \<and>
    (\<forall>c' ch'. getChannel packetId c' p' = Some ch' \<longrightarrow>
       getChannel packetId c' p = Some ch' \<and> (typed_buf c' ch' p \<longrightarrow> typed_buf c' ch' p')) \<and>
    (\<forall>v. res = Inr v \<longrightarrow> typed c v)"
proof -
  obtain w q where q: "others p = (w, q)" by (cases "others p")
  note q' = others_okD [OF oth(1) ok q]
  have tq: "typed_buf c' ch' q" if "getChannel packetId c' p = Some ch'" "typed_buf c' ch' p" for c' ch'
    using oth(2) that q unfolding others_typed_def by (metis snd_conv)
  have "ch < length (heap q)" using handler_ok_entry [OF ok reg] q'(2) by (simp add: entry_ok_def)
  from wait_select_ok [OF q'(1) this, of packetId c w] obtain res p'
    where p': "wait_select packetId c ch w q = Ret (res, p')" "handler_ok p'" "heap_extends {} q p'"
      "\<And>i c'. getChannel i c' p' = (if i = packetId \<and> c' = c \<and> res \<noteq> Inl ErrConnectionClosed then None else getChannel i c' q)"
      "\<And>v. res = Inr v \<Longrightarrow> v \<in> set (ch_buf (heap q ! ch))"
      "res = Inl ErrConnectionClosed \<Longrightarrow> ch_closed (heap q ! ch)"
    by blast
  have "getChannel packetId c p' = None"
  proof (cases "res = Inl ErrConnectionClosed")
    case True
    have "getChannel packetId c q \<noteq> Some ch"
      using handler_ok_entry [OF q'(1), of packetId c ch] p'(6) [OF True] by (auto simp: entry_ok_def)
    then have "getChannel packetId c q = None" using q'(3) [of c] reg by (cases "getChannel packetId c q") auto
    with True p'(4) show ?thesis by simp
  qed (simp add: p'(4))
  moreover have "getChannel packetId c' p = Some ch' \<and> (typed_buf c' ch' p \<longrightarrow> typed_buf c' ch' p')"
    if g: "getChannel packetId c' p' = Some ch'" for c' ch'
  proof -
    from g have "getChannel packetId c' q = Some ch'" using p'(4) [of packetId c'] by (simp split: if_splits)
    then have "getChannel packetId c' p = Some ch'" by (rule q'(3))
    moreover have "ch' < length (heap p')" using handler_ok_entry [OF p'(2) g] by (simp add: entry_ok_def)
    ultimately show ?thesis using typed_buf_extends [OF tq p'(3)] by blast
  qed
  moreover have "typed c v" if "res = Inr v" for v
    using p'(5) [OF that] tq [OF reg buf] by (simp add: typed_buf_def list_all_iff)
  ultimately show ?thesis using p'(1,2) q reg by (simp add: waitForDetails_def)
qed

lemma cast_wait_ok:
  assumes "handler_ok p" and "getChannel packetId c p = Some ch" and "others_ok packetId others"
    and "others_typed packetId others" "typed_buf c ch p" and cast: "\<And>v. typed c v \<Longrightarrow> cast v \<noteq> None"
  shows "\<exists>res p'. cast_wait cast (waitForDetails others packetId c p) = Ret (res, p') \<and> handler_ok p' \<and>
    getChannel packetId c p' = None \<and>
    (\<forall>c' ch'. getChannel packetId c' p' = Some ch' \<longrightarrow>
       getChannel packetId c' p = Some ch' \<and> (typed_buf c' ch' p \<longrightarrow> typed_buf c' ch' p'))"
proof -
  from waitForDetails_ok [OF assms(1-5)] obtain res p' where w: "waitForDetails others packetId c p = Ret (res, p')"
      "handler_ok p'" "getChannel packetId c p' = None"
      "\<forall>c' ch'. getChannel packetId c' p' = Some ch' \<longrightarrow>
       getChannel packetId c' p = Some ch' \<and> (typed_buf c' ch' p \<longrightarrow> typed_buf c' ch' p')"
      "\<forall>v. res = Inr v \<longrightarrow> typed c v" by blast
  show ?thesis
  proof (cases res)
    case (Inl e)
    with w show ?thesis by (simp add: cast_wait_def)
  next
    case (Inr v)
    with w(5) cast have "cast v \<noteq> None" by simp
    then obtain x where "cast v = Some x" by blast
    with w Inr show ?thesis by (simp add: cast_wait_def)
  qed
qed

lemma deleteDetails_run_ok:
  assumes "handler_ok (sk_responseHandler s)"
  shows "\<exists>p'. deleteDetails_run packetId c s = Some (Ret (s\<lparr>sk_responseHandler := p'\<rparr>)) \<and> handler_ok p' \<and>
    (\<forall>i k. getChannel i k p' = (if i = packetId \<and> k = c then None else getChannel i k (sk_responseHandler s)))"
proof -
  from deleteDetails_ok [OF assms] obtain p' where "deleteDetails packetId c (sk_responseHandler s) = Ret p'"
      and d: "deleted packetId c (sk_responseHandler s) p'" by blast
  moreover from d have "handler_ok p'"
      "\<forall>i k. getChannel i k p' = (if i = packetId \<and> k = c then None else getChannel i k (sk_responseHandler s))"
    unfolding deleted_def by blast+
  ultimately show ?thesis by (intro exI [of _ p']) (simp add: deleteDetails_run_def)
qed

lemma publish_bytes_some: "\<exists>bs. publish_bytes topic jsonData packetByte packetId = Some (Inr bs)"
  by (simp add: publish_bytes_layout Request_Write_frame del: be_of.simps)

lemma subscribe_bytes_some: "\<exists>bs. subscribe_bytes topic qos packetId = Some (Inr bs)"
  by (simp add: subscribe_bytes_layout Request_Write_frame del: be_of.simps)

lemma sendData_parts:
  "sk_responseHandler (snd (sendData write data s)) = sk_responseHandler s"
  "sk_written (snd (sendData write data s)) = sk_written s @ (if fst (sendData write data s) = None then [data] else [])"
  by (auto simp: sendData_def split: option.split)

lemma bind_run_Ret [simp]: "bind_run (Some (Ret x)) f = f x" "bind_run (Some Panic) f = Some Panic"
  by (simp_all add: bind_run_def)

definition registered_socket :: "uint16 \<Rightarrow> Socket \<Rightarrow> Socket" where
  "registered_socket packetId s =
     s\<lparr>sk_responseHandler := addRequestChannel packetId (addPacketChannel packetId (sk_responseHandler s))\<rparr>"

text \<open>A publish exchange up to its wait.\<close>

lemma sendPublishPacket_eq:
  assumes "publish_bytes topic jsonData (PublishPacket_Compress packet) packetId = Some (Inr bs)"
  shows "sendPublishPacket write others topic jsonData packet packetId s =
    (case sendData write bs (registered_socket packetId s) of
       (Some e, s2) \<Rightarrow>
         bind_run (deleteDetails_run packetId PacketChannel s2) (\<lambda>s3.
         bind_run (deleteDetails_run packetId RequestChannel s3) (\<lambda>s4. Some (Ret ((packetId, Some e), s4))))
     | (None, s2) \<Rightarrow>
         bind_run (wait_run (waitForPubACKDetails others packetId) s2) (\<lambda>(r, s3).
           case r of
             Inl e \<Rightarrow> bind_run (deleteDetails_run packetId RequestChannel s3) (\<lambda>s4.
                        Some (Ret ((packetId, Some (ErrWait e)), s4)))
           | Inr _ \<Rightarrow> Some (Ret ((packetId, None), s3))))"
  using assms by (simp add: sendPublishPacket_def newPublishRequest_def registered_socket_def)

lemma publish_exchange:
  assumes ok: "handler_ok (sk_responseHandler s)" and oth: "others_ok packetId others" "others_typed packetId others"
    and bs: "publish_bytes topic jsonData (PublishPacket_Compress packet) packetId = Some (Inr bs)"
  shows "\<exists>err s'. sendPublishPacket write others topic jsonData packet packetId s = Some (Ret ((packetId, err), s')) \<and>
    handler_ok (sk_responseHandler s') \<and> getChannel packetId PacketChannel (sk_responseHandler s') = None \<and>
    (err \<noteq> None \<longrightarrow> getChannel packetId RequestChannel (sk_responseHandler s') = None) \<and>
    (\<forall>ch. getChannel packetId RequestChannel (sk_responseHandler s') = Some ch \<longrightarrow>
       typed_buf RequestChannel ch (sk_responseHandler s')) \<and>
    (err = None \<longrightarrow> sk_written s' = sk_written s @ [bs])"
proof -
  let ?s1 = "registered_socket packetId s"
  obtain res s2 where s2: "sendData write bs ?s1 = (res, s2)" by (cases "sendData write bs ?s1")
  have h2: "sk_responseHandler s2 = sk_responseHandler ?s1" "sk_written s2 = sk_written s @ (if res = None then [bs] else [])"
    using sendData_parts [of "write" bs ?s1] unfolding s2 by (simp_all add: registered_socket_def)
  have ok2: "handler_ok (sk_responseHandler s2)" unfolding h2 using ok by (simp add: registered_socket_def handler_ok_add)
  show ?thesis
  proof (cases res)
    case (Some e)
    from deleteDetails_run_ok [OF ok2, of packetId PacketChannel] obtain p3
      where p3: "deleteDetails_run packetId PacketChannel s2 = Some (Ret (s2\<lparr>sk_responseHandler := p3\<rparr>))" "handler_ok p3"
        "\<forall>i k. getChannel i k p3 = (if i = packetId \<and> k = PacketChannel then None else getChannel i k (sk_responseHandler s2))"
      by blast
    from deleteDetails_run_ok [of "s2\<lparr>sk_responseHandler := p3\<rparr>" packetId RequestChannel] p3(2,3) obtain p4
      where p4: "deleteDetails_run packetId RequestChannel (s2\<lparr>sk_responseHandler := p3\<rparr>) = Some (Ret (s2\<lparr>sk_responseHandler := p4\<rparr>))"
        "handler_ok p4" "getChannel packetId RequestChannel p4 = None" "getChannel packetId PacketChannel p4 = None"
      by auto
    show ?thesis using s2 Some p3(1) p4 by (simp add: sendPublishPacket_eq [OF bs])
  next
    case None
    let ?n = "length (heap (sk_responseHandler s))"
    have reg: "getChannel packetId PacketChannel (sk_responseHandler s2) = Some ?n"
        "typed_buf PacketChannel ?n (sk_responseHandler s2)"
        "getChannel packetId RequestChannel (sk_responseHandler s2) = Some (Suc ?n)"
        "typed_buf RequestChannel (Suc ?n) (sk_responseHandler s2)"
      unfolding h2 by (simp_all add: registered_socket_def typed_buf_def nth_append)
    have "typed PacketChannel v \<Longrightarrow> cast_PublishACK v \<noteq> None" for v by simp
    from cast_wait_ok [where cast = cast_PublishACK, OF ok2 reg(1) oth reg(2) this] obtain r p3
      where p3: "waitForPubACKDetails others packetId (sk_responseHandler s2) = Ret (r, p3)"
        "handler_ok p3" "getChannel packetId PacketChannel p3 = None"
        "\<forall>c' ch'. getChannel packetId c' p3 = Some ch' \<longrightarrow> getChannel packetId c' (sk_responseHandler s2) = Some ch' \<and>
          (typed_buf c' ch' (sk_responseHandler s2) \<longrightarrow> typed_buf c' ch' p3)"
      unfolding waitForPubACKDetails_def by blast
    have tb: "typed_buf RequestChannel ch p3" if "getChannel packetId RequestChannel p3 = Some ch" for ch
      using p3(4) [rule_format, OF that] reg(3,4) by simp
    show ?thesis
    proof (cases r)
      case (Inr ack)
      with s2 None p3(1-3) tb h2(2) show ?thesis by (simp add: sendPublishPacket_eq [OF bs] wait_run_def)
    next
      case (Inl e)
      from deleteDetails_run_ok [of "s2\<lparr>sk_responseHandler := p3\<rparr>" packetId RequestChannel] p3(2,3) obtain p4
        where p4: "deleteDetails_run packetId RequestChannel (s2\<lparr>sk_responseHandler := p3\<rparr>) = Some (Ret (s2\<lparr>sk_responseHandler := p4\<rparr>))"
          "handler_ok p4" "getChannel packetId RequestChannel p4 = None" "getChannel packetId PacketChannel p4 = None"
        by auto
      show ?thesis using s2 None Inl p3(1) p4 by (simp add: sendPublishPacket_eq [OF bs] wait_run_def)
    qed
  qed
qed

definition ls_request_json :: "string \<Rightarrow> bytes \<Rightarrow> uint16 \<Rightarrow> int \<Rightarrow> string" where
  "ls_request_json appID payload packetId t = marshal (SocketLSRequestPayload_json
     \<lparr>lsr_AppId = appID, lsr_Payload = string_of_bytes payload, lsr_RequestId = int (unat packetId), lsr_Type = t\<rparr>)"

text \<open>The packet of a lightspeed request: the publish header of quality of service 1.\<close>

lemma qos1_byte:
  "PublishPacket_Compress \<lparr>pp_packetType = 0, pp_DUP = 0, pp_QOSLevel = QOS_LEVEL_1, pp_RetainFlag = 0\<rparr> = 0x32"
  by (simp add: PublishPacket_Compress_def PUBLISH_def QoS_toByte_def QOS_LEVEL_1_def Let_def)

lemma makeLSRequest_eq:
  assumes "SafePacketID s = (packetId, s0)"
  shows "makeLSRequest write others1 others2 appID payload t s =
    bind_run (sendPublishPacket write others1 LS_REQ (ls_request_json appID payload packetId t)
        \<lparr>pp_packetType = 0, pp_DUP = 0, pp_QOSLevel = QOS_LEVEL_1, pp_RetainFlag = 0\<rparr> packetId s0)
      (\<lambda>((_, err), s1).
        case err of
          Some e \<Rightarrow> Some (Ret (Inl e, s1))
        | None \<Rightarrow>
            if t = 4 then Some (Ret (Inr None, s1))
            else bind_run (wait_run (waitForPubResponseDetails others2 packetId) s1) (\<lambda>(r, s2).
                   case r of Inl e \<Rightarrow> Some (Ret (Inl (ErrWait e), s2)) | Inr resp \<Rightarrow> Some (Ret (Inr (Some resp), s2))))"
  by (simp only: makeLSRequest_def Let_def ls_request_json_def assms prod.case)

lemma makeLSRequest_ok:
  assumes ok: "handler_ok (sk_responseHandler s)" and id: "packetId = fst (SafePacketID s)"
    and oth: "others_ok packetId others1" "others_typed packetId others1" "others_ok packetId others2"
      "others_typed packetId others2"
    and bs: "publish_bytes LS_REQ (ls_request_json appID payload packetId t) 0x32 packetId = Some (Inr bs)"
  shows "\<exists>res s'. makeLSRequest write others1 others2 appID payload t s = Some (Ret (res, s')) \<and>
    handler_ok (sk_responseHandler s') \<and> getChannel packetId PacketChannel (sk_responseHandler s') = None \<and>
    (t \<noteq> 4 \<or> isl res \<longrightarrow> getChannel packetId RequestChannel (sk_responseHandler s') = None) \<and>
    (\<not> isl res \<longrightarrow> sk_written s' = sk_written s @ [bs])"
proof -
  obtain s0 where s0: "SafePacketID s = (packetId, s0)" using id by (cases "SafePacketID s") simp
  have s0': "sk_responseHandler s0 = sk_responseHandler s" "sk_written s0 = sk_written s"
    using s0 by (auto simp: SafePacketID_def Let_def)
  let ?packet = "\<lparr>pp_packetType = 0, pp_DUP = 0, pp_QOSLevel = QOS_LEVEL_1, pp_RetainFlag = 0\<rparr>"
  have "publish_bytes LS_REQ (ls_request_json appID payload packetId t) (PublishPacket_Compress ?packet) packetId = Some (Inr bs)"
    using bs by (simp only: qos1_byte)
  from publish_exchange [OF _ oth(1,2) this, of s0 "write"] ok s0' obtain err s1
    where s1: "sendPublishPacket write others1 LS_REQ (ls_request_json appID payload packetId t) ?packet packetId s0
        = Some (Ret ((packetId, err), s1))"
      "handler_ok (sk_responseHandler s1)" "getChannel packetId PacketChannel (sk_responseHandler s1) = None"
      "err \<noteq> None \<longrightarrow> getChannel packetId RequestChannel (sk_responseHandler s1) = None"
      "\<And>ch. getChannel packetId RequestChannel (sk_responseHandler s1) = Some ch \<Longrightarrow>
        typed_buf RequestChannel ch (sk_responseHandler s1)"
      "err = None \<longrightarrow> sk_written s1 = sk_written s @ [bs]" by auto
  note eq = makeLSRequest_eq [OF s0]
  show ?thesis
  proof (cases err)
    case (Some e)
    with s0 s1 show ?thesis by (simp add: eq)
  next
    case None
    show ?thesis
    proof (cases "t = 4")
      case True
      with None s0 s1 show ?thesis by (simp add: eq)
    next
      case False
      have "\<exists>r p2. waitForPubResponseDetails others2 packetId (sk_responseHandler s1) = Ret (r, p2) \<and> handler_ok p2 \<and>
          getChannel packetId RequestChannel p2 = None \<and> getChannel packetId PacketChannel p2 = None"
      proof (cases "getChannel packetId RequestChannel (sk_responseHandler s1)")
        case None
        with s1 show ?thesis by (simp add: waitForPubResponseDetails_def waitForDetails_def cast_wait_def)
      next
        case (Some ch)
        have "typed RequestChannel v \<Longrightarrow> cast_PublishResponse v \<noteq> None" for v by simp
        from cast_wait_ok [where cast = cast_PublishResponse, OF s1(2) Some oth(3,4) s1(5) [OF Some] this]
        obtain r p2 where p2: "waitForPubResponseDetails others2 packetId (sk_responseHandler s1) = Ret (r, p2)" "handler_ok p2"
            "getChannel packetId RequestChannel p2 = None"
            "\<forall>c' ch'. getChannel packetId c' p2 = Some ch' \<longrightarrow> getChannel packetId c' (sk_responseHandler s1) = Some ch' \<and>
              (typed_buf c' ch' (sk_responseHandler s1) \<longrightarrow> typed_buf c' ch' p2)"
          unfolding waitForPubResponseDetails_def by blast
        with s1(3) have "getChannel packetId PacketChannel p2 = None"
          by (cases "getChannel packetId PacketChannel p2") auto
        with p2 show ?thesis by blast
      qed
      then obtain r p2 where "waitForPubResponseDetails others2 packetId (sk_responseHandler s1) = Ret (r, p2)"
          "handler_ok p2" "getChannel packetId RequestChannel p2 = None" "getChannel packetId PacketChannel p2 = None" by blast
      with None False s0 s1 show ?thesis by (cases r) (simp_all add: eq wait_run_def)
    qed
  qed
qed

text \<open>A goroutine that delivers an acknowledgement, and nothing else happens.\<close>

definition acknowledge :: "ResponseData \<Rightarrow> others" where
  "acknowledge ack p =
     (OnChannel, case GetPacketID ack of
        Some packetId \<Rightarrow> (case updatePacketChannel packetId ack p of Completed (_, q) \<Rightarrow> q | _ \<Rightarrow> p)
      | None \<Rightarrow> p)"

lemma acknowledge_wait:
  assumes "handler_ok p" and ack: "GetPacketID ack = Some packetId"
    and reg: "getChannel packetId PacketChannel p = Some ch" and "ch_buf (heap p ! ch) = []"
  shows "\<exists>p'. waitForDetails (acknowledge ack) packetId PacketChannel p = Ret (Inr ack, p') \<and> handler_ok p' \<and>
    getChannel packetId RequestChannel p' = getChannel packetId RequestChannel p"
proof -
  let ?q = "p\<lparr>heap := (heap p)[ch := (heap p ! ch)\<lparr>ch_buf := [ack]\<rparr>]\<rparr>"
  have e: "ch < length (heap p)" "\<not> ch_closed (heap p ! ch)"
    using handler_ok_entry [OF assms(1) reg] by (simp_all add: entry_ok_def)
  have send: "chan_send ch ack p = Completed ?q" using e assms(4) by (simp add: chan_send_def)
  have ok: "handler_ok ?q" by (rule handler_ok_send [OF assms(1) e(1) send])
  define r where "r = ?q\<lparr>heap := (heap ?q)[ch := (heap ?q ! ch)\<lparr>ch_buf := []\<rparr>]\<rparr>"
  have recv: "chan_recv ch ?q = Completed (Some ack, r)" using e by (simp add: chan_recv_def r_def)
  have "handler_ok r" by (rule handler_ok_recv [OF ok _ recv]) (use e in simp)
  from deleteDetails_ok [OF this] obtain p' where del: "deleteDetails packetId PacketChannel r = Ret p'"
      and d: "deleted packetId PacketChannel r p'" by blast
  from d have "handler_ok p'" "getChannel packetId RequestChannel p' = getChannel packetId RequestChannel r"
    unfolding deleted_def by auto
  then have "wait_select packetId PacketChannel ch OnChannel ?q = Ret (Inr ack, p')" "handler_ok p'"
      "getChannel packetId RequestChannel p' = getChannel packetId RequestChannel p"
    using recv del by (simp_all add: wait_select_def r_def getChannel_def)
  moreover have "acknowledge ack p = (OnChannel, ?q)"
    using ack reg send by (simp add: acknowledge_def updatePacketChannel_def getChannel_def)
  ultimately show ?thesis using reg by (simp add: waitForDetails_def)
qed

lemma acknowledged_socket:
  assumes "handler_ok (sk_responseHandler s)" and "GetPacketID ack = Some packetId"
  shows "\<exists>p'. waitForDetails (acknowledge ack) packetId PacketChannel (sk_responseHandler (registered_socket packetId s)) =
      Ret (Inr ack, p') \<and> handler_ok p' \<and> hasPacket packetId p'"
proof -
  let ?p = "sk_responseHandler (registered_socket packetId s)"
  have "handler_ok ?p" using assms(1) by (simp add: registered_socket_def handler_ok_add)
  moreover have "getChannel packetId PacketChannel ?p = Some (length (heap (sk_responseHandler s)))"
      "getChannel packetId RequestChannel ?p = Some (Suc (length (heap (sk_responseHandler s))))"
      "ch_buf (heap ?p ! length (heap (sk_responseHandler s))) = []"
    by (simp_all add: registered_socket_def nth_append)
  ultimately show ?thesis
    using acknowledge_wait [of ?p ack packetId] assms(2) by (fastforce simp: hasPacket_def getChannel_def)
qed

lemma sendData_connected: "sk_conn s \<Longrightarrow> sendData (\<lambda>_. None) data s = (None, s\<lparr>sk_written := sk_written s @ [data]\<rparr>)"
  by (simp add: sendData_def)

lemma registered_conn [simp]: "sk_conn (registered_socket packetId s) = sk_conn s"
  by (simp add: registered_socket_def)

section \<open>Properties\<close>

text \<open>
  C17. Packet identifiers are never zero, which the responses use to mean that there is no request, and an
  identifier is not given out again before all 65535 of them have been used.
\<close>

theorem packet_identifiers_unique:
  "0 \<notin> set (packet_ids n s) \<and> distinct (packet_ids 65535 s) \<and> fst (SafePacketID s) = hd (packet_ids (Suc n) s)"
  by (simp add: packet_ids_nonzero packet_ids_distinct split_beta)

text \<open>
  C6. A lightspeed request always returns, without a panic, whatever the connection and the other goroutines do within their
  contract. It gives out a fresh packet identifier, and what it writes, when it succeeds, is one publish
  packet to \<open>/ls_req\<close> whose JSON carries that identifier as \<open>request_id\<close>. Afterwards its acknowledgement
  channel is gone, and so is its response channel, unless it is a request of type 4 that succeeded.
\<close>

theorem request_cleans_up:
  assumes "handler_ok (sk_responseHandler s)" and "packetId = fst (SafePacketID s)"
    and "others_ok packetId others1" "others_typed packetId others1" "others_ok packetId others2" "others_typed packetId others2"
  shows "\<exists>bs res s'. publish_bytes LS_REQ (ls_request_json appID payload packetId t) 0x32 packetId = Some (Inr bs) \<and>
    makeLSRequest write others1 others2 appID payload t s = Some (Ret (res, s')) \<and>
    handler_ok (sk_responseHandler s') \<and> getChannel packetId PacketChannel (sk_responseHandler s') = None \<and>
    (t \<noteq> 4 \<or> isl res \<longrightarrow> getChannel packetId RequestChannel (sk_responseHandler s') = None) \<and>
    (\<not> isl res \<longrightarrow> sk_written s' = sk_written s @ [bs])"
proof -
  obtain bs where bs: "publish_bytes LS_REQ (ls_request_json appID payload packetId t) 0x32 packetId = Some (Inr bs)"
    using publish_bytes_some by blast
  from makeLSRequest_ok [OF assms bs, of "write"] bs show ?thesis by blast
qed

theorem request_cleans_up_witness:
  "\<exists>bs res s'. publish_bytes LS_REQ (ls_request_json ''1'' [1, 2] 1 3) 0x32 1 = Some (Inr bs) \<and>
    makeLSRequest (\<lambda>_. None) (\<lambda>p. (OnTimer, p)) (\<lambda>p. (OnTimer, p)) ''1'' [1, 2] 3 (newSocketClient 7) = Some (Ret (res, s')) \<and>
    getChannel 1 RequestChannel (sk_responseHandler s') = None"
proof -
  have "others_ok 1 (\<lambda>p. (OnTimer, p))" "others_typed 1 (\<lambda>p. (OnTimer, p))"
    by (simp_all add: others_ok_def others_typed_def)
  moreover have "handler_ok (sk_responseHandler (newSocketClient 7))" "1 = fst (SafePacketID (newSocketClient 7))"
    by (simp_all add: newSocketClient_def handler_ok_new SafePacketID_def)
  ultimately show ?thesis
    using request_cleans_up [of "newSocketClient 7" 1 "\<lambda>p. (OnTimer, p)" "\<lambda>p. (OnTimer, p)" "''1''" "[1, 2]" 3 "\<lambda>_. None"]
    by fastforce
qed



text \<open>
  C27. A subscribe acknowledgement that names a pending publish panics the goroutine of that request: both kinds
  of acknowledgement go through the same channel and the waiting side asserts the type it expects.
\<close>

theorem foreign_acknowledgement_panics:
  assumes "handler_ok (sk_responseHandler s)" and "sk_conn s"
  shows "sendPublishPacket (\<lambda>_. None) (acknowledge (SubscribeACK \<lparr>sa_PacketID = packetId, sa_QoSLevel = q\<rparr>))
      topic jsonData packet packetId s = Some Panic"
proof -
  obtain bs where bs: "publish_bytes topic jsonData (PublishPacket_Compress packet) packetId = Some (Inr bs)"
    using publish_bytes_some by blast
  from acknowledged_socket [of s "SubscribeACK \<lparr>sa_PacketID = packetId, sa_QoSLevel = q\<rparr>" packetId] assms show ?thesis
    by (auto simp: sendPublishPacket_eq [OF bs] sendData_connected wait_run_def waitForPubACKDetails_def cast_wait_def)
qed

theorem foreign_acknowledgement_panics_witness:
  "sendPublishPacket (\<lambda>_. None) (acknowledge (SubscribeACK \<lparr>sa_PacketID = 1, sa_QoSLevel = 0\<rparr>)) LS_REQ ''{}''
     \<lparr>pp_packetType = 0, pp_DUP = 0, pp_QOSLevel = QOS_LEVEL_1, pp_RetainFlag = 0\<rparr> 1
     ((newSocketClient 7)\<lparr>sk_conn := True\<rparr>) = Some Panic"
  by (rule foreign_acknowledgement_panics) (simp_all add: newSocketClient_def handler_ok_new)


definition sample_loop :: ReadLoop where
  "sample_loop = \<lparr>rl_socket = (newSocketClient 7)\<lparr>sk_responseHandler := addRequestChannel 1 new_ResponseHandler\<rparr>,
      rl_wsQueue = [], rl_closeErr = None, rl_connClosed = False, rl_effects = []\<rparr>"

definition sample_body :: bytes where
  "sample_body = bytes_of_string (marshal (JObj [(''request_id'', JNum ''1'')]))"


end
