(* ===== verification/Go_Float.thy ===== *)
theory Go_Float
  imports Go_Json "HOL-Library.Log_Nat"
begin

text \<open>
  Decimals as \<^verbatim>\<open>float64\<close> (\<^verbatim>\<open>strconv.ParseFloat\<close>): a double is the rational number it stands for, and
  parsing rounds the exact value of the decimal to the nearest double.
\<close>

section \<open>Model\<close>

definition digits_value :: "string \<Rightarrow> nat" where
  "digits_value s = foldl (\<lambda>a c. 10 * a + (code c - 48)) 0 s"

definition exponent_value :: "string \<Rightarrow> int" where
  "exponent_value s =
     (case s of
        [] \<Rightarrow> 0
      | _ # t \<Rightarrow>
          if t \<noteq> [] \<and> hd t = CHR ''-'' then - int (digits_value (tl t))
          else if t \<noteq> [] \<and> hd t = CHR ''+'' then int (digits_value (tl t))
          else int (digits_value t))"

text \<open>The exact value of a JSON number.\<close>

definition number_value :: "string \<Rightarrow> rat" where
  "number_value s =
     (let neg = (s \<noteq> [] \<and> hd s = CHR ''-''); t = (if neg then tl s else s);
          ints = takeWhile is_digit t; rest = dropWhile is_digit t;
          frac = (if rest \<noteq> [] \<and> hd rest = CHR ''.'' then takeWhile is_digit (tl rest) else []);
          expo = (if rest \<noteq> [] \<and> hd rest = CHR ''.'' then dropWhile is_digit (tl rest) else rest);
          v = of_nat (digits_value (ints @ frac)) * 10 powi (exponent_value expo - int (length frac))
      in if neg then - v else v)"

text \<open>The nearest double, ties to even: 53 bits of precision, exponents from -1074, overflow from \<open>2\<^sup>1\<^sup>0\<^sup>2\<^sup>4\<close> on.\<close>

definition round_even :: "rat \<Rightarrow> int" where
  "round_even q = (let f = \<lfloor>q\<rfloor>; r = q - of_int f
     in if r < 1 / 2 \<or> (r = 1 / 2 \<and> even f) then f else f + 1)"

definition binary_exponent :: "rat \<Rightarrow> int" where
  "binary_exponent a = (case quotient_of a of (n, d) \<Rightarrow>
     let k = int (floorlog 2 (nat n)) - int (floorlog 2 (nat d))
     in if 2 powi k \<le> a then k else k - 1)"

definition ParseFloat :: "string \<Rightarrow> rat option" where
  "ParseFloat s =
     (let q = number_value s; a = \<bar>q\<bar>
      in if a = 0 then Some 0
         else
           (let u = max (binary_exponent a - 52) (- 1074);
                v = of_int (round_even (a / 2 powi u)) * 2 powi u
            in if v \<ge> 2 powi 1024 then None else Some (if q < 0 then - v else v)))"

section \<open>Small integers are exact\<close>

lemma digits_value_append: "digits_value (s @ [c]) = 10 * digits_value s + (code c - 48)"
  by (simp add: digits_value_def)

lemma digits_value_digits:
  "\<forall>d \<in> set ds. d < 10 \<Longrightarrow> foldl (\<lambda>a c. 10 * a + (code c - 48)) n (map char_of_digit ds) = foldl (\<lambda>a d. 10 * a + d) n ds"
  by (induction ds arbitrary: n) (simp_all add: char_of_digit_def)

lemma digits_value_format_uint: "digits_value (format_uint n) = n"
  using digits_value_digits [of "digits_of_nat n" 0] digits_of_nat_less [of _ n]
  by (simp add: digits_value_def format_uint_def foldl_digits_of_nat)

lemma number_value_format_int: "number_value (format_int i) = of_int i"
proof -
  have tw: "takeWhile is_digit (format_uint n) = format_uint n"
    and dw: "dropWhile is_digit (format_uint n) = []" for n
    using format_uint_digits [of n] by (rule takeWhile_all, rule dropWhile_all)
  show ?thesis
    using hd_format_uint(1) [of "nat i"]
    by (simp add: number_value_def format_int_def Let_def tw dw digits_value_format_uint exponent_value_def
        of_nat_nat)
qed

lemma round_even_of_int [simp]: "round_even (of_int n) = n"
  by (simp add: round_even_def Let_def)

lemma binary_exponent_int:
  assumes "0 < n" and "n < 2 ^ 53"
  shows "binary_exponent (of_int n) \<le> 52"
proof -
  let ?k = "int (floorlog 2 (nat n)) - 1"
  have "floorlog 2 (nat n) \<le> 53"
    using assms floorlog_leI [of "nat n" 2 53] by (simp add: nat_less_iff)
  then have "?k \<le> 52" by simp
  then show ?thesis by (simp add: binary_exponent_def floorlog_def Let_def)
qed

lemma ParseFloat_format_int:
  assumes "\<bar>i\<bar> < 2 ^ 53"
  shows "ParseFloat (format_int i) = Some (of_int i)"
proof (cases "i = 0")
  case True
  then show ?thesis by (simp add: ParseFloat_def number_value_format_int)
next
  case False
  let ?a = "of_int \<bar>i\<bar> :: rat"
  define u where "u = max (binary_exponent ?a - 52) (- 1074)"
  define m where "m = nat (- u)"
  have "u \<le> 0" using binary_exponent_int [of "\<bar>i\<bar>"] False assms by (simp add: u_def)
  then have u: "u = - int m" by (simp add: m_def)
  have scaled: "?a / 2 powi u = of_int (\<bar>i\<bar> * 2 ^ m)"
    by (simp add: u power_int_minus divide_inverse)
  have "of_int (round_even (?a / 2 powi u)) * 2 powi u = ?a"
    unfolding scaled round_even_of_int by (simp add: u power_int_minus)
  moreover have "\<not> ?a \<ge> 2 powi 1024"
  proof -
    have "?a < of_int (2 ^ 53)" using assms by (simp only: of_int_less_iff)
    also have "(of_int (2 ^ 53) :: rat) \<le> 2 powi 1024" by simp
    finally show ?thesis by simp
  qed
  ultimately have v: "of_int (round_even (\<bar>of_int i\<bar> / 2 powi u)) * 2 powi u = \<bar>of_int i :: rat\<bar>"
    "\<not> 2 powi 1024 \<le> \<bar>of_int i :: rat\<bar>" by simp_all
  have "u = max (binary_exponent \<bar>of_int i\<bar> - 52) (- 1074)" by (simp add: u_def)
  then have "ParseFloat (format_int i) = Some (if (of_int i :: rat) < 0 then - \<bar>of_int i\<bar> else \<bar>of_int i\<bar>)"
    using False v by (simp only: ParseFloat_def number_value_format_int Let_def abs_eq_0 of_int_eq_0_iff if_False)
  then show ?thesis by (simp add: abs_if)
qed

end
