(* ===== verification/Ls_Finish.thy ===== *)
theory Ls_Finish
  imports Ls_Run Mqtt_Socket Go_Float
begin

text \<open>
  \<^verbatim>\<open>Event_PublishResponse.Finish\<close> of \<^verbatim>\<open>events.go\<close>: the payload of a response is parsed as a Lightspeed program and run on an
  empty table. JSON numbers become \<^verbatim>\<open>float64\<close>, that is the nearest double of the decimal; arrays and objects inside a
  JSON object are allocated in the heap of the decoder before it runs.
\<close>

section \<open>Model\<close>

subsection \<open>From JSON to steps\<close>

text \<open>Values inside an object, in the order of the text; a number beyond the range of \<^verbatim>\<open>float64\<close> is an error.\<close>

function (sequential) json_gval :: "json \<Rightarrow> LightSpeedDecoder \<Rightarrow> (gval \<times> LightSpeedDecoder) option"
  and json_gvals :: "json list \<Rightarrow> LightSpeedDecoder \<Rightarrow> (gval list \<times> LightSpeedDecoder) option"
  and json_members :: "nat \<Rightarrow> (string \<times> json) list \<Rightarrow> LightSpeedDecoder \<Rightarrow> LightSpeedDecoder option" where
  "json_gval JNull d = Some (VNil, d)"
| "json_gval (JBool b) d = Some (VBool b, d)"
| "json_gval (JNum n) d = map_option (\<lambda>r. (VFloat r, d)) (ParseFloat n)"
| "json_gval (JStr s) d = Some (VStr s, d)"
| "json_gval (JArr js) d =
     (case json_gvals js d of
        None \<Rightarrow> None
      | Some (vs, d1) \<Rightarrow> (let (a, d2) = array_create vs d1 in Some (VSlice a (length vs), d2)))"
| "json_gval (JObj ms) d =
     (case map_create d of (v, d1) \<Rightarrow> map_option (\<lambda>d2. (v, d2)) (json_members (next_addr d) ms d1))"
| "json_gvals [] d = Some ([], d)"
| "json_gvals (j # js) d =
     (case json_gval j d of
        None \<Rightarrow> None
      | Some (v, d1) \<Rightarrow> (case json_gvals js d1 of None \<Rightarrow> None | Some (vs, d2) \<Rightarrow> Some (v # vs, d2)))"
| "json_members a [] d = Some d"
| "json_members a ((k, j) # ms) d =
     (case json_gval j d of None \<Rightarrow> None | Some (v, d1) \<Rightarrow> json_members a ms (map_set a k v d1))"
  by pat_completeness auto

termination
  by (relation "measure (\<lambda>x. case x of
        Inl (j, d) \<Rightarrow> 2 * size j
      | Inr (Inl (js, d)) \<Rightarrow> Suc (2 * size_list size js)
      | Inr (Inr (a, ms, d)) \<Rightarrow> Suc (2 * size_list (size_prod (\<lambda>_. 0) size) ms))") auto

fun json_step :: "json \<Rightarrow> LightSpeedDecoder \<Rightarrow> (step \<times> LightSpeedDecoder) option"
  and json_steps :: "json list \<Rightarrow> LightSpeedDecoder \<Rightarrow> (step list \<times> LightSpeedDecoder) option" where
  "json_step JNull d = Some (SNull, d)"
| "json_step (JBool b) d = Some (SBool b, d)"
| "json_step (JNum n) d = map_option (\<lambda>r. (SNum r, d)) (ParseFloat n)"
| "json_step (JStr s) d = Some (SStr s, d)"
| "json_step (JArr js) d = map_option (map_prod SArr id) (json_steps js d)"
| "json_step (JObj ms) d =
     (case map_create d of (_, d1) \<Rightarrow> map_option (\<lambda>d2. (SObj (next_addr d), d2)) (json_members (next_addr d) ms d1))"
| "json_steps [] d = Some ([], d)"
| "json_steps (j # js) d =
     (case json_step j d of
        None \<Rightarrow> None
      | Some (s, d1) \<Rightarrow> (case json_steps js d1 of None \<Rightarrow> None | Some (ss, d2) \<Rightarrow> Some (s # ss, d2)))"

subsection \<open>Finish\<close>

text \<open>A \<^verbatim>\<open>LightSpeedData\<close> with the heap of its steps; the name is not used.\<close>

record LightSpeedData =
  ls_Name :: string
  ls_Steps :: step
  ls_heap :: LightSpeedDecoder

definition empty_decoder :: LightSpeedDecoder where
  "empty_decoder = NewLightSpeedDecoder (\<lambda>_. []) (\<lambda>_. Map.empty) 0"

definition LightSpeedData_store :: "string \<Rightarrow> json \<Rightarrow> LightSpeedData \<Rightarrow> LightSpeedData option" where
  "LightSpeedData_store f j r =
     (if f = ''name'' then store_string j (\<lambda>s. r\<lparr>ls_Name := s\<rparr>) r
      else map_option (\<lambda>(s, d). r\<lparr>ls_Steps := s, ls_heap := d\<rparr>) (json_step j (ls_heap r)))"

text \<open>Unmarshalling into the pointer: an error, the nil pointer, or a struct.\<close>

definition LightSpeedData_unmarshal :: "string \<Rightarrow> LightSpeedData option option" where
  "LightSpeedData_unmarshal payload =
     (case unmarshal payload of
        None \<Rightarrow> None
      | Some JNull \<Rightarrow> Some None
      | Some (JObj ms) \<Rightarrow>
          map_option Some (store_struct [''name'', ''step''] LightSpeedData_store (JObj ms)
            \<lparr>ls_Name = '''', ls_Steps = SNull, ls_heap = empty_decoder\<rparr>)
      | Some _ \<Rightarrow> None)"

text \<open>The table of the response. The clock and the like are taken from \<open>w\<close>.\<close>

definition Finish :: "world \<Rightarrow> Event_PublishResponse \<Rightarrow> (string \<Rightarrow> row list) outcome" where
  "Finish w pb =
     (case LightSpeedData_unmarshal (prd_Payload (pr_Data pb)) of
        None \<Rightarrow> Ret (\<lambda>_. [])
      | Some None \<Rightarrow> Panic
      | Some (Some lsData) \<Rightarrow>
          bind_out (Decode (w\<lparr>w_schema := LSTable, w_Dependencies := SPToDepMap (prd_Sp (pr_Data pb))\<rparr>)
              (ls_Steps lsData) (ls_heap lsData))
            (\<lambda>(_, d). Ret (Table d)))"

text \<open>The same as a step of the event handler, which goes on with the filled response.\<close>

definition Finish_run :: "world \<Rightarrow> Event_PublishResponse \<Rightarrow> unit outcome" where
  "Finish_run w pb = bind_out (Finish w pb) (\<lambda>_. Ret ())"

section \<open>Lemmas\<close>

subsection \<open>Programs as text\<close>

text \<open>The JSON text of a program; its numbers are integers below \<open>2\<^sup>5\<^sup>3\<close> and its strings ASCII.\<close>

fun step_json :: "step \<Rightarrow> json" where
  "step_json SNull = JNull"
| "step_json (SBool b) = JBool b"
| "step_json (SNum r) = JNum (format_int \<lfloor>r\<rfloor>)"
| "step_json (SStr s) = JStr s"
| "step_json (SArr ss) = JArr (map step_json ss)"
| "step_json (SObj a) = JNull"

fun step_ok :: "step \<Rightarrow> bool" where
  "step_ok (SNum r) \<longleftrightarrow> r = of_int \<lfloor>r\<rfloor> \<and> \<bar>\<lfloor>r\<rfloor>\<bar> < 2 ^ 53"
| "step_ok (SStr s) \<longleftrightarrow> ascii s"
| "step_ok (SArr ss) \<longleftrightarrow> (\<forall>s \<in> set ss. step_ok s)"
| "step_ok (SObj a) \<longleftrightarrow> False"
| "step_ok _ \<longleftrightarrow> True"

lemma json_steps_map:
  "(\<And>s d. s \<in> set ss \<Longrightarrow> json_step (step_json s) d = Some (s, d)) \<Longrightarrow> json_steps (map step_json ss) d = Some (ss, d)"
  by (induction ss arbitrary: d) simp_all

lemma json_step_step_json: "step_ok s \<Longrightarrow> json_step (step_json s) d = Some (s, d)"
proof (induction s arbitrary: d)
  case (SNum r)
  then have "ParseFloat (format_int \<lfloor>r\<rfloor>) = Some (of_int \<lfloor>r\<rfloor>)" by (simp add: ParseFloat_format_int)
  then show ?case using SNum by simp
next
  case (SArr ss)
  then have "json_steps (map step_json ss) d = Some (ss, d)" by (intro json_steps_map) auto
  then show ?case by simp
qed simp_all

lemma json_ok_step_json: "step_ok s \<Longrightarrow> json_ok (step_json s)"
  by (induction s) (auto simp del: json_ok.simps(1))

definition program_text :: "string \<Rightarrow> step \<Rightarrow> string" where
  "program_text name s = marshal (JObj [(''name'', JStr name), (''step'', step_json s)])"

lemma unmarshal_program_text:
  assumes "step_ok s" and "ascii name"
  shows "LightSpeedData_unmarshal (program_text name s) =
    Some (Some \<lparr>ls_Name = name, ls_Steps = s, ls_heap = empty_decoder\<rparr>)"
proof -
  have "json_ok (JObj [(''name'', JStr name), (''step'', step_json s)])"
    using assms json_ok_step_json by (simp add: ascii_def code_def)
  then have "unmarshal (program_text name s) = Some (JObj [(''name'', JStr name), (''step'', step_json s)])"
    by (simp add: program_text_def unmarshal_marshal)
  then show ?thesis
    using json_step_step_json [OF assms(1)]
    by (simp add: LightSpeedData_unmarshal_def store_struct_def LightSpeedData_store_def store_string_def)
qed

lemma Finish_program:
  assumes "prd_Payload (pr_Data pb) = program_text name s" and "step_ok s" and "ascii name"
  shows "Finish w pb = bind_out (Decode (w\<lparr>w_schema := LSTable, w_Dependencies := SPToDepMap (prd_Sp (pr_Data pb))\<rparr>)
    s empty_decoder) (\<lambda>(_, d). Ret (Table d))"
  by (simp add: Finish_def assms(1) unmarshal_program_text [OF assms(2,3)])

lemma transaction_step_ok:
  assumes "\<forall>c \<in> set calls. ascii (fst c) \<and> (\<forall>s \<in> set (snd c). step_ok s)"
  shows "step_ok (transaction calls)"
  using assms by (auto simp: transaction_def call_step_def)

section \<open>Properties\<close>


definition sample_response :: Event_PublishResponse where
  "sample_response = \<lparr>pr_Topic = LS_RESP, pr_Data = \<lparr>prd_RequestID = 0,
     prd_Payload = program_text ''n'' (transaction sample_calls), prd_Sp = [''deleteThread'', ''taskExists''],
     prd_Target = 3\<rparr>, pr_MessageIdentifier = 0, pr_QoS = 0\<rparr>"


text \<open>
  C23. A response whose payload is \<open>null\<close> crashes the client: the payload unmarshals to a nil pointer, whose steps are then
  read, in the goroutine of the read loop, whether or not a request waits for the response.
\<close>

theorem null_payload_panics:
  assumes "prd_Payload (pr_Data resp) = ''null''"
  shows "Finish w resp = Panic \<and>
    (pr_Topic resp = LS_RESP \<longrightarrow> handlePublishResponseEvent (Finish_run w) ctxDone resp isQueue l = ChannelPanic)"
proof -
  have "unmarshal (marshal JNull) = Some JNull" by (rule unmarshal_marshal) simp
  then have "LightSpeedData_unmarshal ''null'' = Some None"
    by (simp add: LightSpeedData_unmarshal_def marshal_def)
  then show ?thesis
    by (simp add: Finish_def Finish_run_def handlePublishResponseEvent_def assms Let_def)
qed

theorem null_payload_panics_witness:
  "Finish sample_world (sample_response\<lparr>pr_Data := (pr_Data sample_response)\<lparr>prd_Payload := ''null''\<rparr>\<rparr>) = Panic \<and>
    handlePublishResponseEvent (Finish_run sample_world) False
      (sample_response\<lparr>pr_Data := (pr_Data sample_response)\<lparr>prd_Payload := ''null''\<rparr>\<rparr>) False sample_loop = ChannelPanic"
  using null_payload_panics [of "sample_response\<lparr>pr_Data := (pr_Data sample_response)\<lparr>prd_Payload := ''null''\<rparr>\<rparr>"
      sample_world False False sample_loop]
  by (simp add: sample_response_def)

end
