(* ===== verification/Connection.thy ===== *)
theory Connection
  imports Mqtt_Socket
begin

text \<open>
  The life of the connection: \<^verbatim>\<open>Socket.Connect\<close> of \<^verbatim>\<open>socket.go\<close>, the loop that reconnects in \<^verbatim>\<open>Client.Connect\<close> of \<^verbatim>\<open>client.go\<close>,
  and the backoff of the second websocket in \<^verbatim>\<open>connectDGW\<close>. Dialling, and the messages that arrive until the connection
  ends, are arguments. Durations are in milliseconds.
\<close>

section \<open>Model\<close>

subsection \<open>One connection (socket.go)\<close>

datatype read_error = ReadRefused ConnectionCode | ReadFailed

datatype connect_error = CannotConnect socket_error | ErrDial string | ErrSendConnect socket_error | ErrInReadLoop read_error

text \<open>A websocket message, and the loop over the messages until reading fails; text messages are ignored.\<close>

datatype ws_message = TextMessage string | BinaryMessage bytes

fun read_messages ::
  "(Event_PublishResponse \<Rightarrow> unit outcome) \<Rightarrow> bool \<Rightarrow> ws_message list \<Rightarrow> ReadLoop \<Rightarrow> ReadLoop channel_op" where
  "read_messages Finish ctxDone [] l = Completed l"
| "read_messages Finish ctxDone (TextMessage _ # ms) l = read_messages Finish ctxDone ms l"
| "read_messages Finish ctxDone (BinaryMessage p # ms) l =
     (case handleBinaryMessage Finish ctxDone p l of
        Completed l' \<Rightarrow> read_messages Finish ctxDone ms l'
      | Blocks \<Rightarrow> Blocks
      | ChannelPanic \<Rightarrow> ChannelPanic)"

text \<open>What the surroundings do during one connection: the result of dialling, the results of writes, and the read loop,
  which gives its error and what it made of the socket.\<close>

record connection_env =
  ce_dial :: "string \<Rightarrow> string option"
  ce_write :: "bytes \<Rightarrow> string option"
  ce_readLoop :: "Socket \<Rightarrow> (read_error option \<times> Socket) run"

definition readLoop :: "connection_env \<Rightarrow> Socket \<Rightarrow> (read_error option \<times> Socket) run" where
  "readLoop env s = bind_run (ce_readLoop env s) (\<lambda>(err, s'). Some (Ret (err, s'\<lparr>sk_conn := False\<rparr>)))"

definition Socket_Connect ::
  "connection_env \<Rightarrow> bool \<Rightarrow> SocketConfig \<Rightarrow> Socket \<Rightarrow> (connect_error option \<times> Socket) run" where
  "Socket_Connect env isAuthenticated cfg s =
     (case CanConnect isAuthenticated s of
        Some e \<Rightarrow> Some (Ret (Some (CannotConnect e), s))
      | None \<Rightarrow>
          (case ce_dial env (BuildBrokerURL (sc_ClientID cfg) s) of
             Some e \<Rightarrow> Some (Ret (Some (ErrDial e), s))
           | None \<Rightarrow>
               bind_run (sendConnectPacket (ce_write env) cfg (s\<lparr>sk_conn := True\<rparr>)) (\<lambda>(err, s1).
                 case err of
                   Some e \<Rightarrow> Some (Ret (Some (ErrSendConnect e), s1))
                 | None \<Rightarrow>
                     bind_run (readLoop env s1) (\<lambda>(lerr, s2).
                       Some (bind_out (CancelAllRequests (sk_responseHandler s2)) (\<lambda>p.
                         Ret (map_option ErrInReadLoop lerr, s2\<lparr>sk_responseHandler := p\<rparr>)))))))"

subsection \<open>The reconnect loop (client.go)\<close>

definition MaxConnectBackoff :: int where "MaxConnectBackoff = 5 * 60 * 1000"

record backoff =
  bo_connectionAttempts :: int
  bo_reconnectIn :: int

definition initial_backoff :: backoff where
  "initial_backoff = \<lparr>bo_connectionAttempts = 1, bo_reconnectIn = 0\<rparr>"

text \<open>\<^verbatim>\<open>errors.Is\<close> looks through the wrapping: only the read loop wraps a connection code.\<close>

definition is_code :: "ConnectionCode \<Rightarrow> connect_error option \<Rightarrow> bool" where
  "is_code c err \<longleftrightarrow> err = Some (ErrInReadLoop (ReadRefused c))"

definition is_permanent :: "connect_error option \<Rightarrow> backoff \<Rightarrow> bool" where
  "is_permanent err b \<longleftrightarrow>
     is_code CONNECTION_REFUSED_UNAUTHORIZED err \<or> is_code CONNECTION_REFUSED_SERVER_UNAVAILABLE err \<or>
     is_code CONNECTION_REFUSED_UNKNOWN_24 err \<or>
     (is_code CONNECTION_REFUSED_BAD_USERNAME_OR_PASSWORD err \<and> bo_connectionAttempts b > 5)"

definition in_read_loop :: "connect_error option \<Rightarrow> bool" where
  "in_read_loop err \<longleftrightarrow> (case err of Some (ErrInReadLoop _) \<Rightarrow> True | _ \<Rightarrow> False)"

text \<open>\<open>long\<close> is that the connection lasted more than two minutes.\<close>

definition next_backoff :: "connect_error option \<Rightarrow> bool \<Rightarrow> backoff \<Rightarrow> backoff" where
  "next_backoff err long b =
     (if long \<and> (err = None \<or> in_read_loop err) then \<lparr>bo_connectionAttempts = 0, bo_reconnectIn = 0\<rparr>
      else
        (let r = (if bo_reconnectIn b = 0 then 1000 else bo_reconnectIn b);
             r2 = r * 2
         in \<lparr>bo_connectionAttempts = bo_connectionAttempts b + 1,
             bo_reconnectIn = (if r2 > MaxConnectBackoff then MaxConnectBackoff else r2)\<rparr>))"

datatype client_event = PermanentError "connect_error option" | SocketError "connect_error option" int

text \<open>A round of the loop: the connection, whether it was long, and whether the context was cancelled during it or during the
  wait after it.\<close>

record round_env = connection_env +
  re_long :: bool
  re_cancelled :: bool
  re_cancelledWaiting :: bool

datatype loop_status = Running | Stopped

text \<open>The loop as far as the given rounds go: the events, the delays before each next round, the state it is in, and
  whether it has stopped.\<close>

fun connection_loop ::
  "bool \<Rightarrow> SocketConfig \<Rightarrow> round_env list \<Rightarrow> backoff \<Rightarrow> Socket \<Rightarrow>
     (client_event list \<times> int list \<times> loop_status \<times> backoff \<times> Socket) run" where
  "connection_loop auth cfg [] b s = Some (Ret ([], [], Running, b, s))"
| "connection_loop auth cfg (r # rs) b s =
     bind_run (Socket_Connect (connection_env.truncate r) auth cfg s) (\<lambda>(err, s1).
       if re_cancelled r then Some (Ret ([], [], Stopped, b, s1))
       else if is_permanent err b then Some (Ret ([PermanentError err], [], Stopped, b, s1))
       else
         (let b' = next_backoff err (re_long r) b; evt = SocketError err (bo_connectionAttempts b)
          in if re_cancelledWaiting r then Some (Ret ([evt], [bo_reconnectIn b'], Stopped, b', s1))
             else bind_run (connection_loop auth cfg rs b' s1) (\<lambda>(evts, ds, st, b2, s2).
                    Some (Ret (evt # evts, bo_reconnectIn b' # ds, st, b2, s2)))))"

text \<open>\<^verbatim>\<open>Client.Connect\<close> starts the loop in a goroutine unless the socket cannot connect.\<close>

definition Client_Connect ::
  "bool \<Rightarrow> SocketConfig \<Rightarrow> round_env list \<Rightarrow> Socket \<Rightarrow>
     (socket_error + client_event list \<times> int list \<times> loop_status \<times> backoff \<times> Socket) run" where
  "Client_Connect auth cfg rs s =
     (case CanConnect auth s of
        Some e \<Rightarrow> Some (Ret (Inl e))
      | None \<Rightarrow> bind_run (connection_loop auth cfg rs initial_backoff s) (\<lambda>r. Some (Ret (Inr r))))"

definition dgw_backoff :: "bool \<Rightarrow> int \<Rightarrow> int" where
  "dgw_backoff long reconnectIn =
     (if long then 2000
      else if reconnectIn * 2 > MaxConnectBackoff then MaxConnectBackoff else reconnectIn * 2)"

section \<open>Lemmas\<close>

subsection \<open>Backoff\<close>

text \<open>The number of rounds since the last long connection, and the delay it calls for.\<close>

fun streaks :: "nat \<Rightarrow> (connect_error option \<times> bool) list \<Rightarrow> nat list" where
  "streaks n [] = []"
| "streaks n ((err, long) # rs) =
     (let n' = (if long \<and> (err = None \<or> in_read_loop err) then 0 else Suc n) in n' # streaks n' rs)"

definition delay_after :: "nat \<Rightarrow> int" where
  "delay_after n = (if n = 0 then 0 else min MaxConnectBackoff (1000 * 2 ^ n))"

fun backoffs :: "(connect_error option \<times> bool) list \<Rightarrow> backoff \<Rightarrow> int list" where
  "backoffs [] b = []"
| "backoffs ((err, long) # rs) b = (let b' = next_backoff err long b in bo_reconnectIn b' # backoffs rs b')"

lemma delay_after_Suc:
  "delay_after (Suc n) = (let r2 = (if delay_after n = 0 then 1000 else delay_after n) * 2
     in if r2 > MaxConnectBackoff then MaxConnectBackoff else r2)"
proof (cases n)
  case 0
  then show ?thesis by (simp add: delay_after_def MaxConnectBackoff_def)
next
  case (Suc m)
  have "1000 * 2 ^ Suc m > (0 :: int)" by simp
  then have "delay_after n \<noteq> 0" by (simp add: delay_after_def Suc MaxConnectBackoff_def min_def)
  then show ?thesis by (auto simp: delay_after_def Suc min_def MaxConnectBackoff_def)
qed

lemma backoffs_delays: "bo_reconnectIn b = delay_after n \<Longrightarrow> backoffs rs b = map delay_after (streaks n rs)"
proof (induction rs arbitrary: b n)
  case (Cons r rs)
  obtain err long where r: "r = (err, long)" by (cases r)
  let ?n = "if long \<and> (err = None \<or> in_read_loop err) then 0 else Suc n"
  have "bo_reconnectIn (next_backoff err long b) = delay_after ?n"
    by (cases "long \<and> (err = None \<or> in_read_loop err)")
      (auto simp: next_backoff_def Let_def Cons.prems delay_after_Suc delay_after_def [of 0])
  then show ?case using Cons.IH by (simp add: r Let_def)
qed simp

lemma delay_after_bounds: "0 \<le> delay_after n" "delay_after n \<le> MaxConnectBackoff"
  by (simp_all add: delay_after_def MaxConnectBackoff_def)

subsection \<open>The rounds of a loop\<close>

lemma Socket_Connect_open:
  "sk_conn s \<Longrightarrow> Socket_Connect env auth cfg s = Some (Ret (Some (CannotConnect ErrSocketAlreadyOpen), s))"
  by (simp add: Socket_Connect_def CanConnect_def)

lemma sendConnectPacket_conn:
  "sendConnectPacket write cfg s = Some (Ret (err, s')) \<Longrightarrow> sk_conn s' = sk_conn s"
  by (auto simp: sendConnectPacket_def sendData_def Let_def split: option.splits sum.splits if_splits)

text \<open>The connection is marked open after a failure exactly when it was open before or sending the connect packet failed.\<close>

lemma Socket_Connect_conn:
  assumes "Socket_Connect env auth cfg s = Some (Ret (err, s'))"
  shows "sk_conn s' \<longleftrightarrow> sk_conn s \<or> (\<exists>e. err = Some (ErrSendConnect e))"
proof (cases "CanConnect auth s")
  case (Some e)
  then show ?thesis using assms by (auto simp: Socket_Connect_def CanConnect_def split: if_splits)
next
  case None
  then have closed: "\<not> sk_conn s" by (auto simp: CanConnect_def split: if_splits)
  show ?thesis
  proof (cases "ce_dial env (BuildBrokerURL (sc_ClientID cfg) s)")
    case (Some e)
    then show ?thesis using assms None closed by (auto simp: Socket_Connect_def)
  next
    case dialled: None
    have body: "bind_run (sendConnectPacket (ce_write env) cfg (s\<lparr>sk_conn := True\<rparr>)) (\<lambda>(err, s1).
         case err of
           Some e \<Rightarrow> Some (Ret (Some (ErrSendConnect e), s1))
         | None \<Rightarrow>
             bind_run (readLoop env s1) (\<lambda>(lerr, s2).
               Some (bind_out (CancelAllRequests (sk_responseHandler s2)) (\<lambda>p.
                 Ret (map_option ErrInReadLoop lerr, s2\<lparr>sk_responseHandler := p\<rparr>))))) = Some (Ret (err, s'))"
      using assms None dialled by (simp add: Socket_Connect_def)
    then obtain e1 s1 where c: "sendConnectPacket (ce_write env) cfg (s\<lparr>sk_conn := True\<rparr>) = Some (Ret (e1, s1))"
      by (auto simp: bind_run_def split: option.splits outcome.splits)
    have open1: "sk_conn s1" using sendConnectPacket_conn [OF c] by simp
    show ?thesis
    proof (cases e1)
      case (Some e)
      then show ?thesis using body c open1 by auto
    next
      case None
      then show ?thesis using body c closed
        by (auto simp: readLoop_def bind_run_def eq_commute [of "Some (ErrSendConnect _)"]
            split: option.splits outcome.splits elim!: bind_out.elims)
    qed
  qed
qed

lemma connection_loop_stuck:
  assumes "sk_conn s"
  shows "\<exists>evts ds st b'. connection_loop auth cfg rs b s = Some (Ret (evts, ds, st, b', s)) \<and>
    (\<forall>evt \<in> set evts. \<exists>n. evt = SocketError (Some (CannotConnect ErrSocketAlreadyOpen)) n) \<and>
    ((\<forall>r \<in> set rs. \<not> re_cancelled r \<and> \<not> re_cancelledWaiting r) \<longrightarrow> length evts = length rs \<and> st = Running)"
proof (induction rs arbitrary: b)
  case Nil
  show ?case by simp
next
  case (Cons r rs)
  let ?err = "Some (CannotConnect ErrSocketAlreadyOpen)"
  have np: "\<not> is_permanent ?err b" by (simp add: is_permanent_def is_code_def)
  obtain evts ds st b' where IH: "connection_loop auth cfg rs (next_backoff ?err (re_long r) b) s = Some (Ret (evts, ds, st, b', s))"
    "\<forall>evt \<in> set evts. \<exists>n. evt = SocketError ?err n"
    "(\<forall>r \<in> set rs. \<not> re_cancelled r \<and> \<not> re_cancelledWaiting r) \<longrightarrow> length evts = length rs \<and> st = Running"
    using Cons by blast
  show ?case
    using IH np by (auto simp: Socket_Connect_open [OF assms] Let_def)
qed

subsection \<open>The delays of a loop are its backoffs\<close>

lemma connection_loop_delays:
  "connection_loop auth cfg rs b s = Some (Ret (evts, ds, st, b', s')) \<Longrightarrow>
     \<exists>errs. ds = backoffs errs b \<and> length ds \<le> length evts \<and> length evts \<le> Suc (length ds) \<and>
       map snd errs = map re_long (take (length ds) rs)"
proof (induction rs arbitrary: b s evts ds)
  case Nil
  then show ?case by (intro exI [of _ "[]"]) simp
next
  case (Cons r rs)
  obtain err s1 where c: "Socket_Connect (connection_env.truncate r) auth cfg s = Some (Ret (err, s1))"
    using Cons.prems by (auto simp: bind_run_def split: option.splits outcome.splits)
  let ?b = "next_backoff err (re_long r) b"
  show ?case
  proof (cases "re_cancelled r \<or> is_permanent err b \<or> re_cancelledWaiting r")
    case True
    then have "ds = [] \<and> length evts \<le> 1 \<or> ds = [bo_reconnectIn ?b] \<and> length evts = 1"
      using Cons.prems c by (auto simp: Let_def split: if_splits)
    then show ?thesis
      by (elim disjE) (rule exI [of _ "[]"], simp, rule exI [of _ "[(err, re_long r)]"], simp)
  next
    case False
    then obtain evts' ds' where rest: "connection_loop auth cfg rs ?b s1 = Some (Ret (evts', ds', st, b', s'))"
      and eq: "evts = SocketError err (bo_connectionAttempts b) # evts'" "ds = bo_reconnectIn ?b # ds'"
      using Cons.prems c by (auto simp: Let_def bind_run_def split: option.splits outcome.splits)
    from Cons.IH [OF rest] obtain errs where "ds' = backoffs errs ?b" "length ds' \<le> length evts'"
      "length evts' \<le> Suc (length ds')" "map snd errs = map re_long (take (length ds') rs)" by blast
    then show ?thesis by (intro exI [of _ "(err, re_long r) # errs"]) (simp add: eq Let_def)
  qed
qed

section \<open>Properties\<close>


definition sample_config :: SocketConfig where
  "sample_config = \<lparr>sc_AccountID = ''1'', sc_ClientCapabilities = 0, sc_Capabilities = 0, sc_ChatVisibility = True,
     sc_MqttAppID = 1, sc_SubscribedTopics = None, sc_HostNameOverride = '''', sc_UserAgent = '''', sc_ClientID = ''c'',
     sc_AppID = ''a'', sc_VersionID = 1, sc_IsInstagram = False\<rparr>"

definition no_dial :: round_env where
  "no_dial = \<lparr>ce_dial = \<lambda>_. Some ''refused'', ce_write = \<lambda>_. None, ce_readLoop = \<lambda>s. Some (Ret (None, s)),
     re_long = False, re_cancelled = False, re_cancelledWaiting = False\<rparr>"

definition sample_socket :: Socket where
  "sample_socket = (newSocketClient 7)\<lparr>sk_broker := ''wss://x?''\<rparr>"

lemma sample_round:
  "Socket_Connect (connection_env.truncate no_dial) True sample_config sample_socket = Some (Ret (Some (ErrDial ''refused''), sample_socket))"
  by (simp add: Socket_Connect_def CanConnect_def no_dial_def connection_env.truncate_def sample_socket_def newSocketClient_def)


text \<open>
  C11. If writing the connect packet fails, the socket keeps the connection it has opened, and the client never connects
  again: every later round of the reconnect loop reports that the socket is already open, for as long as the
  loop is not cancelled.
\<close>

theorem failed_connect_packet_is_final:
  assumes "Socket_Connect env auth cfg s = Some (Ret (Some (ErrSendConnect e), s'))"
  shows "\<exists>evts ds st b'. connection_loop auth cfg rs b s' = Some (Ret (evts, ds, st, b', s')) \<and>
    (\<forall>evt \<in> set evts. \<exists>n. evt = SocketError (Some (CannotConnect ErrSocketAlreadyOpen)) n) \<and>
    ((\<forall>r \<in> set rs. \<not> re_cancelled r \<and> \<not> re_cancelledWaiting r) \<longrightarrow> length evts = length rs \<and> st = Running)"
  by (rule connection_loop_stuck) (use Socket_Connect_conn [OF assms] in blast)

lemma connect_request_some: "\<exists>bs. newConnectRequest payload flags = Some (Inr bs)"
  by (simp add: newConnectRequest_layout Request_Write_frame del: be_of.simps)

definition no_write :: round_env where
  "no_write = no_dial\<lparr>ce_dial := \<lambda>_. None, ce_write := \<lambda>_. Some ''broken pipe''\<rparr>"

theorem failed_connect_packet_is_final_witness:
  "\<exists>s' evts ds st b'. Socket_Connect (connection_env.truncate no_write) True sample_config sample_socket
       = Some (Ret (Some (ErrSendConnect (ErrWrite ''broken pipe'')), s')) \<and>
     connection_loop True sample_config [no_dial, no_dial] initial_backoff s' = Some (Ret (evts, ds, st, b', s')) \<and>
     list_all (\<lambda>evt. \<exists>n. evt = SocketError (Some (CannotConnect ErrSocketAlreadyOpen)) n) evts \<and>
     length evts = 2 \<and> st = Running"
proof -
  obtain bs where bs: "newConnectRequest (newConnectJSON sample_config (sample_socket\<lparr>sk_conn := True\<rparr>))
      (CreateConnectFlagByte \<lparr>cf_Username = True, cf_Password = False, cf_Retain = False, cf_QoS = 0, cf_CleanSession = True\<rparr>)
      = Some (Inr bs)" using connect_request_some by blast
  have can: "CanConnect True sample_socket = None"
    by (simp add: CanConnect_def sample_socket_def newSocketClient_def)
  have c: "Socket_Connect (connection_env.truncate no_write) True sample_config sample_socket
      = Some (Ret (Some (ErrSendConnect (ErrWrite ''broken pipe'')), sample_socket\<lparr>sk_conn := True\<rparr>))"
    by (simp add: Socket_Connect_def can no_write_def no_dial_def connection_env.truncate_def sendConnectPacket_def bs
        sendData_def Let_def)
  obtain evts ds st b' where "connection_loop True sample_config [no_dial, no_dial] initial_backoff (sample_socket\<lparr>sk_conn := True\<rparr>)
      = Some (Ret (evts, ds, st, b', sample_socket\<lparr>sk_conn := True\<rparr>))"
    "list_all (\<lambda>evt. \<exists>n. evt = SocketError (Some (CannotConnect ErrSocketAlreadyOpen)) n) evts"
    "length evts = 2 \<and> st = Running"
    using failed_connect_packet_is_final [OF c, of "[no_dial, no_dial]" initial_backoff] unfolding list_all_iff
    by (auto simp: no_dial_def)
  then show ?thesis using c by blast
qed

end
