(* ===== verification/Ls_Wrap.thy ===== *)
theory Ls_Wrap
  imports Ls_Run
begin

text \<open>
  Grouping the rows of a Lightspeed table into messages (\<^verbatim>\<open>pkg/messagix/table/wrappedmessage.go\<close> and
  \<open>LSUpsertMessage.ToInsert\<close>). A row is read through accessors that give the zero value for a field
  the struct does not have. The wrapped messages are pointers in Go: here they live in a list, a
  pointer is a position of that list, and \<open>messageMap\<close> maps a message id to such a position. The values
  of the \<^verbatim>\<open>upsert\<close> map are pointers too, but each is only reached through its key.
\<close>

section \<open>Model\<close>

definition row_int64 :: "string \<Rightarrow> row \<Rightarrow> int64" where
  "row_int64 n r = (case map_of r n of Some (RInt64 i) \<Rightarrow> i | _ \<Rightarrow> 0)"

definition row_string :: "string \<Rightarrow> row \<Rightarrow> string" where
  "row_string n r = (case map_of r n of Some (RString s) \<Rightarrow> s | _ \<Rightarrow> '''')"

definition row_bool :: "string \<Rightarrow> row \<Rightarrow> bool" where
  "row_bool n r = (case map_of r n of Some (RBool b) \<Rightarrow> b | _ \<Rightarrow> False)"

abbreviation ThreadKey :: "row \<Rightarrow> int64" where "ThreadKey \<equiv> row_int64 ''ThreadKey''"
abbreviation MessageId :: "row \<Rightarrow> string" where "MessageId \<equiv> row_string ''MessageId''"
abbreviation AttachmentFbid :: "row \<Rightarrow> string" where "AttachmentFbid \<equiv> row_string ''AttachmentFbid''"
abbreviation MaxTimestampMs :: "row \<Rightarrow> int64" where "MaxTimestampMs \<equiv> row_int64 ''MaxTimestampMs''"
abbreviation LastReadWatermarkTimestampMs :: "row \<Rightarrow> int64" where
  "LastReadWatermarkTimestampMs \<equiv> row_int64 ''LastReadWatermarkTimestampMs''"

subsection \<open>Upserted messages as inserted ones (messages.go)\<close>

definition ToInsert_fields :: "string list" where
  "ToInsert_fields =
    [''Text'', ''SubscriptErrorMessage'', ''AuthorityLevel'', ''ThreadKey'', ''TimestampMs'',
     ''PrimarySortKey'', ''SecondarySortKey'', ''MessageId'', ''OfflineThreadingId'', ''SenderId'',
     ''StickerId'', ''IsAdminMessage'', ''MessageRenderingType'', ''SendStatus'', ''SendStatusV2'',
     ''IsUnsent'', ''UnsentTimestampMs'', ''MentionOffsets'', ''MentionLengths'', ''MentionIds'',
     ''MentionTypes'', ''ReplySourceId'', ''ReplySourceType'', ''ReplySourceTypeV2'',
     ''ReplyStatus'', ''ReplySnippet'', ''ReplyMessageText'', ''ReplyToUserId'',
     ''ReplyMediaExpirationTimestampMs'', ''ReplyMediaUrl'', ''ReplyMediaUnknownTimestampS'',
     ''ReplyMediaPreviewWidth'', ''ReplyMediaPreviewHeight'', ''ReplyMediaUrlMimeType'',
     ''ReplyMediaUrlFallback'', ''ReplyCtaId'', ''ReplyCtaTitle'', ''ReplyAttachmentType'',
     ''ReplyAttachmentId'', ''ReplyAttachmentExtra'', ''ReplyType'', ''IsForwarded'',
     ''ForwardScore'', ''HasQuickReplies'', ''AdminMsgCtaId'', ''AdminMsgCtaTitle'',
     ''AdminMsgCtaType'', ''CannotUnsendReason'', ''TextHasLinks'', ''ViewFlags'',
     ''DisplayedContentTypes'', ''ViewedPluginKey'', ''ViewedPluginContext'', ''QuickReplyType'',
     ''HotEmojiSize'', ''PlatformXmdEncoded'', ''ReplySourceTimestampMs'',
     ''EphemeralDurationInSec'', ''MsUntilExpirationTs'', ''EphemeralExpirationTs'',
     ''TakedownState'', ''IsCollapsed'', ''SubthreadKey'', ''BotResponseID'', ''EditCount'',
     ''IsPaidPartnership'', ''AdminSignatureName'', ''AdminSignatureProfileURL'',
     ''AdminSignatureCreatorType'', ''ReplyMessageHiddenState'', ''TranslatedText'',
     ''TextDialect'', ''TranslatedTextDialect'', ''ScheduledTimestamp'', ''IsVideoQuickSend'',
     ''SubthreadParentMessageID'', ''IsExclusiveToSubthread'']"

text \<open>Assigning a field to a field; an \<^verbatim>\<open>int64\<close> assigned to an \<^verbatim>\<open>any\<close> is boxed.\<close>

fun assign_field :: "rkind \<Rightarrow> rval \<Rightarrow> rval" where
  "assign_field KInterface (RInt64 i) = RInterface (Some (VInt64 i))"
| "assign_field _ v = v"

definition ToInsert :: "row \<Rightarrow> row" where
  "ToInsert um =
     map (\<lambda>f. (rf_Name f,
         if rf_Name f \<in> set ToInsert_fields then
           (case map_of um (rf_Name f) of Some v \<Rightarrow> assign_field (rf_Kind f) v | None \<Rightarrow> zero_of (rf_Kind f))
         else zero_of (rf_Kind f)))
       LSInsertMessage"

subsection \<open>Wrapped messages\<close>

record WrappedXMA =
  wx_LSInsertXmaAttachment :: row
  wx_CTA :: "row option"

record WrappedMessage =
  wm_LSInsertMessage :: row
  wm_IsUpsert :: bool
  wm_BlobAttachments :: "row list"
  wm_Attachments :: "row list"
  wm_XMAAttachments :: "WrappedXMA list"
  wm_Stickers :: "row list"
  wm_Reactions :: "row list"
  wm_ThreadID :: string
  wm_IsSubthreadStart :: bool

definition new_wrapped :: "row \<Rightarrow> bool \<Rightarrow> WrappedMessage" where
  "new_wrapped r u = \<lparr>wm_LSInsertMessage = r, wm_IsUpsert = u, wm_BlobAttachments = [], wm_Attachments = [],
     wm_XMAAttachments = [], wm_Stickers = [], wm_Reactions = [], wm_ThreadID = '''', wm_IsSubthreadStart = False\<rparr>"

record UpsertMessages =
  um_Range :: "row option"
  um_Messages :: "nat list"
  um_MarkRead :: bool

type_synonym upserts = "int64 \<rightharpoonup> UpsertMessages"

text \<open>The receiver may be nil, and so may the other; the range of a joined pair must not be.\<close>

definition copy_field :: "string \<Rightarrow> row \<Rightarrow> row \<Rightarrow> row" where
  "copy_field n from to = (case map_of from n of Some v \<Rightarrow> set_field n v to | None \<Rightarrow> to)"

definition Join :: "UpsertMessages option \<Rightarrow> UpsertMessages option \<Rightarrow> UpsertMessages option outcome" where
  "Join um other =
     (case (um, other) of
        (None, _) \<Rightarrow> Ret other
      | (_, None) \<Rightarrow> Ret um
      | (Some u, Some v) \<Rightarrow>
          (case (um_Range u, um_Range v) of
             (Some r, Some s) \<Rightarrow>
               Ret (Some (u\<lparr>um_Messages := um_Messages u @ um_Messages v,
                 um_Range := Some (copy_field ''MinMessageId'' s (copy_field ''MinTimestampMs'' s
                   (copy_field ''MinTimestampMsTemplate'' s (copy_field ''HasMoreBefore'' s r))))\<rparr>))
           | _ \<Rightarrow> Panic))"

definition UpsertMessages_GetThreadKey :: "WrappedMessage list \<Rightarrow> UpsertMessages \<Rightarrow> int64" where
  "UpsertMessages_GetThreadKey ms um =
     (case um_Range um of
        Some r \<Rightarrow> ThreadKey r
      | None \<Rightarrow>
          (case um_Messages um of
             a # _ \<Rightarrow> ThreadKey (wm_LSInsertMessage (ms ! a))
           | [] \<Rightarrow> 0))"

subsection \<open>The loops of WrapMessages\<close>

definition add_range :: "upserts \<Rightarrow> row \<Rightarrow> upserts" where
  "add_range up rng = up(ThreadKey rng \<mapsto> \<lparr>um_Range = Some rng, um_Messages = [], um_MarkRead = False\<rparr>)"

text \<open>A read receipt of any of the three kinds; every upsert of the map has a range.\<close>

definition mark_read :: "upserts \<Rightarrow> row \<Rightarrow> upserts" where
  "mark_read up read =
     (case up (ThreadKey read) of
        None \<Rightarrow> up
      | Some um \<Rightarrow>
          (case um_Range um of
             None \<Rightarrow> up
           | Some rng \<Rightarrow>
               up(ThreadKey read \<mapsto>
                 um\<lparr>um_MarkRead := sint (MaxTimestampMs rng) \<le> sint (LastReadWatermarkTimestampMs read)\<rparr>)))"

record wrap_state =
  ws_messages :: "WrappedMessage list"
  ws_messageMap :: "string \<rightharpoonup> nat"
  ws_upsert :: upserts

definition add_upsert_message :: "wrap_state \<Rightarrow> row \<Rightarrow> wrap_state" where
  "add_upsert_message ws msg =
     (let a = length (ws_messages ws);
          up = (case ws_upsert ws (ThreadKey msg) of
                  None \<Rightarrow> ws_upsert ws
                | Some chatUpsert \<Rightarrow>
                    (ws_upsert ws)(ThreadKey msg \<mapsto> chatUpsert\<lparr>um_Messages := um_Messages chatUpsert @ [a]\<rparr>))
      in \<lparr>ws_messages = ws_messages ws @ [new_wrapped (ToInsert msg) True],
          ws_messageMap = (ws_messageMap ws)(MessageId msg \<mapsto> a), ws_upsert = up\<rparr>)"

definition add_insert_message :: "wrap_state \<Rightarrow> row \<Rightarrow> wrap_state" where
  "add_insert_message ws msg =
     ws\<lparr>ws_messages := ws_messages ws @ [new_wrapped msg False],
        ws_messageMap := (ws_messageMap ws)(MessageId msg \<mapsto> length (ws_messages ws))\<rparr>"

text \<open>The loops that hang attachments and reactions on the message their id names.\<close>

definition attach :: "('r \<Rightarrow> string) \<Rightarrow> ('r \<Rightarrow> WrappedMessage \<Rightarrow> WrappedMessage) \<Rightarrow> (string \<rightharpoonup> nat) \<Rightarrow>
    WrappedMessage list \<Rightarrow> 'r list \<Rightarrow> WrappedMessage list" where
  "attach key add messageMap ms rows =
     foldl (\<lambda>ms r. case messageMap (key r) of None \<Rightarrow> ms | Some a \<Rightarrow> ms[a := add r (ms ! a)]) ms rows"

definition add_reaction :: "row \<Rightarrow> WrappedMessage \<Rightarrow> WrappedMessage" where
  "add_reaction r m = (if wm_IsUpsert m then m\<lparr>wm_Reactions := wm_Reactions m @ [r]\<rparr> else m)"

definition add_blob :: "row \<Rightarrow> WrappedMessage \<Rightarrow> WrappedMessage" where
  "add_blob r m = m\<lparr>wm_BlobAttachments := wm_BlobAttachments m @ [r]\<rparr>"

definition add_attachment :: "row \<Rightarrow> WrappedMessage \<Rightarrow> WrappedMessage" where
  "add_attachment r m = m\<lparr>wm_Attachments := wm_Attachments m @ [r]\<rparr>"

definition add_xma :: "(string \<rightharpoonup> row) \<Rightarrow> row \<Rightarrow> WrappedMessage \<Rightarrow> WrappedMessage" where
  "add_xma ctaMap r m = m\<lparr>wm_XMAAttachments := wm_XMAAttachments m @
     [\<lparr>wx_LSInsertXmaAttachment = r, wx_CTA = ctaMap (AttachmentFbid r)\<rparr>]\<rparr>"

definition add_sticker :: "row \<Rightarrow> WrappedMessage \<Rightarrow> WrappedMessage" where
  "add_sticker r m = m\<lparr>wm_Stickers := wm_Stickers m @ [r]\<rparr>"

definition cta_map :: "row list \<Rightarrow> string \<rightharpoonup> row" where
  "cta_map ctas = foldl (\<lambda>m cta. m(AttachmentFbid cta \<mapsto> cta)) Map.empty ctas"

record wrapped =
  wr_messages :: "WrappedMessage list"
  wr_upsert :: upserts
  wr_insert :: "nat list"

definition WrapMessages :: "(string \<Rightarrow> row list) \<Rightarrow> wrapped" where
  "WrapMessages table =
     (let up0 = foldl add_range Map.empty (table ''LSInsertNewMessageRange'');
          up1 = foldl mark_read up0 (table ''LSMarkThreadRead'');
          up2 = foldl mark_read up1 (table ''LSMarkThreadReadV2'');
          up3 = foldl mark_read up2 (table ''LSDeleteThenInsertThread'');
          ws1 = foldl add_upsert_message
                  \<lparr>ws_messages = [], ws_messageMap = Map.empty, ws_upsert = up3\<rparr> (table ''LSUpsertMessage'');
          ms1 = (if table ''LSUpsertMessage'' = [] then ws_messages ws1
                 else attach MessageId add_reaction (ws_messageMap ws1) (ws_messages ws1) (table ''LSUpsertReaction''));
          ws2 = foldl add_insert_message (ws1\<lparr>ws_messages := ms1\<rparr>) (table ''LSInsertMessage'');
          messageMap = ws_messageMap ws2;
          ms2 = attach MessageId add_blob messageMap (ws_messages ws2) (table ''LSInsertBlobAttachment'');
          ms3 = attach MessageId add_attachment messageMap ms2 (table ''LSInsertAttachment'');
          ctaMap = cta_map (table ''LSInsertAttachmentCta'');
          ms4 = attach MessageId (add_xma ctaMap) messageMap ms3 (table ''LSInsertXmaAttachment'');
          ms5 = attach MessageId add_sticker messageMap ms4 (table ''LSInsertStickerAttachment'')
      in \<lparr>wr_messages = ms5, wr_upsert = ws_upsert ws1,
          wr_insert = [length ms1..<length (ws_messages ws2)]\<rparr>)"

subsection \<open>What the grouping should give\<close>

text \<open>The last row of a list with a given key; the messages in the order they are wrapped.\<close>

definition last_with :: "('r \<Rightarrow> 'k) \<Rightarrow> 'k \<Rightarrow> 'r list \<Rightarrow> 'r option" where
  "last_with key k rows = find (\<lambda>r. key r = k) (rev rows)"

definition positions :: "('r \<Rightarrow> bool) \<Rightarrow> 'r list \<Rightarrow> nat list" where
  "positions P rows = filter (\<lambda>i. P (rows ! i)) [0..<length rows]"

fun numbered :: "nat \<Rightarrow> row list \<Rightarrow> (string \<times> nat) list" where
  "numbered n [] = []"
| "numbered n (msg # msgs) = (MessageId msg, n) # numbered (Suc n) msgs"

text \<open>The last message with an id.\<close>

definition owner :: "row list \<Rightarrow> string \<Rightarrow> nat option" where
  "owner rows mid = map_of (rev (numbered 0 rows)) mid"

definition owned :: "row list \<Rightarrow> nat \<Rightarrow> row list \<Rightarrow> row list" where
  "owned msgs i rows = filter (\<lambda>r. owner msgs (MessageId r) = Some i) rows"

definition spec_upsert :: "(string \<Rightarrow> row list) \<Rightarrow> upserts" where
  "spec_upsert table k =
     (case last_with ThreadKey k (table ''LSInsertNewMessageRange'') of
        None \<Rightarrow> None
      | Some rng \<Rightarrow> Some
          \<lparr>um_Range = Some rng,
           um_Messages = positions (\<lambda>msg. ThreadKey msg = k) (table ''LSUpsertMessage''),
           um_MarkRead =
             (case last_with ThreadKey k (table ''LSMarkThreadRead'' @ table ''LSMarkThreadReadV2''
                     @ table ''LSDeleteThenInsertThread'') of
                None \<Rightarrow> False
              | Some read \<Rightarrow> sint (MaxTimestampMs rng) \<le> sint (LastReadWatermarkTimestampMs read))\<rparr>)"

definition spec_message :: "(string \<Rightarrow> row list) \<Rightarrow> nat \<Rightarrow> WrappedMessage" where
  "spec_message table i =
     (let ups = table ''LSUpsertMessage'';
          msgs = ups @ table ''LSInsertMessage'';
          up = i < length ups
      in \<lparr>wm_LSInsertMessage = (if up then ToInsert (msgs ! i) else msgs ! i), wm_IsUpsert = up,
          wm_BlobAttachments = owned msgs i (table ''LSInsertBlobAttachment''),
          wm_Attachments = owned msgs i (table ''LSInsertAttachment''),
          wm_XMAAttachments =
            map (\<lambda>r. \<lparr>wx_LSInsertXmaAttachment = r,
                      wx_CTA = last_with AttachmentFbid (AttachmentFbid r) (table ''LSInsertAttachmentCta'')\<rparr>)
              (owned msgs i (table ''LSInsertXmaAttachment'')),
          wm_Stickers = owned msgs i (table ''LSInsertStickerAttachment''),
          wm_Reactions = (if up then owned ups i (table ''LSUpsertReaction'') else []),
          wm_ThreadID = '''', wm_IsSubthreadStart = False\<rparr>)"

section \<open>Lemmas\<close>

subsection \<open>Maps filled by a loop\<close>

lemma find_snoc: "List.find P (xs @ ys) = (case List.find P xs of None \<Rightarrow> List.find P ys | Some x \<Rightarrow> Some x)"
  by (induction xs) auto

lemma last_with_Nil [simp]: "last_with key k [] = None"
  by (simp add: last_with_def)

lemma last_with_Cons:
  "last_with key k (r # rows) = (case last_with key k rows of None \<Rightarrow> if key r = k then Some r else None | Some x \<Rightarrow> Some x)"
  by (simp add: last_with_def find_snoc split: option.split)

lemma foldl_upd_last:
  "foldl (\<lambda>m r. m(key r \<mapsto> f r)) m rows k
     = (case last_with key k rows of None \<Rightarrow> m k | Some r \<Rightarrow> Some (f r))"
  by (induction rows arbitrary: m) (auto simp: last_with_Cons split: option.splits)

lemma cta_map_last: "cta_map ctas k = last_with AttachmentFbid k ctas"
  unfolding cta_map_def by (simp add: foldl_upd_last split: option.split)

subsection \<open>The upserts of each thread\<close>

lemma add_ranges:
  "foldl add_range Map.empty rngs k
     = map_option (\<lambda>rng. \<lparr>um_Range = Some rng, um_Messages = [], um_MarkRead = False\<rparr>) (last_with ThreadKey k rngs)"
proof -
  let ?new = "\<lambda>rng. \<lparr>um_Range = Some rng, um_Messages = [], um_MarkRead = False\<rparr>"
  have "foldl add_range Map.empty rngs = foldl (\<lambda>up rng. up(ThreadKey rng \<mapsto> ?new rng)) Map.empty rngs"
    by (rule foldl_cong) (simp_all add: add_range_def)
  then show ?thesis using foldl_upd_last [of ThreadKey ?new Map.empty rngs k] by (simp split: option.split)
qed

text \<open>One read receipt changes at most the flag of its own thread.\<close>

lemma mark_read_at:
  "mark_read up read k =
     (if ThreadKey read = k then
        map_option (\<lambda>um. case um_Range um of None \<Rightarrow> um | Some rng \<Rightarrow>
          um\<lparr>um_MarkRead := sint (MaxTimestampMs rng) \<le> sint (LastReadWatermarkTimestampMs read)\<rparr>) (up k)
      else up k)"
  by (auto simp: mark_read_def split: option.split)

lemma mark_reads:
  assumes "up k = Some um" and "um_Range um = Some rng"
  shows "foldl mark_read up reads k = Some (case last_with ThreadKey k reads of
      None \<Rightarrow> um
    | Some read \<Rightarrow> um\<lparr>um_MarkRead := sint (MaxTimestampMs rng) \<le> sint (LastReadWatermarkTimestampMs read)\<rparr>)"
  using assms
proof (induction reads arbitrary: up um)
  case (Cons read reads)
  define um' where "um' = (if ThreadKey read = k
      then um\<lparr>um_MarkRead := sint (MaxTimestampMs rng) \<le> sint (LastReadWatermarkTimestampMs read)\<rparr> else um)"
  have "mark_read up read k = Some um'" "um_Range um' = Some rng"
    using Cons.prems by (simp_all add: mark_read_at um'_def)
  note IH = Cons.IH [of "mark_read up read" um', OF this]
  show ?case unfolding foldl_Cons IH by (auto simp: last_with_Cons um'_def split: option.split)
qed simp

lemma mark_reads_None: "up k = None \<Longrightarrow> foldl mark_read up reads k = None"
  by (induction reads arbitrary: up) (simp_all add: mark_read_at)

lemma add_upsert_message_simps:
  "ws_messages (add_upsert_message ws msg) = ws_messages ws @ [new_wrapped (ToInsert msg) True]"
  "ws_upsert (add_upsert_message ws msg) k = map_option (\<lambda>um. um\<lparr>um_Messages := um_Messages um @
     (if ThreadKey msg = k then [length (ws_messages ws)] else [])\<rparr>) (ws_upsert ws k)"
  by (auto simp: add_upsert_message_def Let_def option.map_ident split: option.split)

lemma positions_Cons: "positions P (r # rs) = (if P r then [0] else []) @ map Suc (positions P rs)"
  by (simp add: positions_def upt_conv_Cons map_Suc_upt [symmetric] filter_map comp_def del: upt_Suc)

lemma upsert_messages:
  "ws_messages (foldl add_upsert_message ws msgs)
     = ws_messages ws @ map (\<lambda>msg. new_wrapped (ToInsert msg) True) msgs"
  by (induction msgs arbitrary: ws) (simp_all add: add_upsert_message_simps)

lemma upsert_messageMap:
  "ws_messageMap (foldl add_upsert_message ws msgs)
     = ws_messageMap ws ++ map_of (rev (numbered (length (ws_messages ws)) msgs))"
proof (induction msgs arbitrary: ws)
  case (Cons msg msgs)
  have "ws_messageMap (add_upsert_message ws msg) = (ws_messageMap ws)(MessageId msg \<mapsto> length (ws_messages ws))"
    by (simp add: add_upsert_message_def Let_def)
  then show ?case by (simp add: Cons add_upsert_message_simps(1)) (simp add: fun_eq_iff map_add_def split: option.split)
qed simp

lemma upsert_threads:
  "ws_upsert (foldl add_upsert_message ws msgs) k
     = map_option (\<lambda>um. um\<lparr>um_Messages := um_Messages um @
         map (\<lambda>i. length (ws_messages ws) + i) (positions (\<lambda>msg. ThreadKey msg = k) msgs)\<rparr>) (ws_upsert ws k)"
proof (induction msgs arbitrary: ws)
  case Nil
  then show ?case by (simp add: positions_def option.map_ident)
next
  case (Cons msg msgs)
  show ?case
    by (simp add: Cons add_upsert_message_simps positions_Cons option.map_comp comp_def)
qed

lemma insert_messages:
  "ws_messages (foldl add_insert_message ws msgs) = ws_messages ws @ map (\<lambda>msg. new_wrapped msg False) msgs"
  "ws_messageMap (foldl add_insert_message ws msgs)
     = ws_messageMap ws ++ map_of (rev (numbered (length (ws_messages ws)) msgs))"
proof (induction msgs arbitrary: ws)
  case (Cons msg msgs)
  case 1 show ?case using Cons(1) by (simp add: add_insert_message_def)
  case 2 show ?case
    using Cons(2) [of "add_insert_message ws msg"]
    by (simp add: add_insert_message_def) (simp add: fun_eq_iff map_add_def split: option.split)
qed simp_all

subsection \<open>Attachments\<close>

text \<open>
  A kind of attachment is an operation that appends to one list of the message, on messages it
  applies to; the loop that hangs such attachments then gives each message those that name it, in
  their order.
\<close>

locale attachment =
  fixes add :: "'r \<Rightarrow> WrappedMessage \<Rightarrow> WrappedMessage"
    and sel :: "WrappedMessage \<Rightarrow> 'x list"
    and item :: "'r \<Rightarrow> 'x"
    and takes :: "WrappedMessage \<Rightarrow> bool"
  assumes sel_add: "takes m \<Longrightarrow> sel (add r m) = sel m @ [item r]"
    and takes_add: "takes m \<Longrightarrow> takes (add r m)"
begin

lemma attach_sel:
  assumes "list_all takes ms" and "i < length ms"
  shows "sel (attach key add mm ms rows ! i) = sel (ms ! i) @ map item (filter (\<lambda>r. mm (key r) = Some i) rows)"
  using assms
proof (induction rows arbitrary: ms)
  case (Cons r rows)
  show ?case
  proof (cases "mm (key r)")
    case None
    with Cons show ?thesis by (simp add: attach_def)
  next
    case (Some a)
    let ?ms = "ms[a := add r (ms ! a)]"
    have "list_all takes ?ms"
      using Cons.prems(1) takes_add by (cases "a < length ms") (auto simp: list_all_length nth_list_update)
    from Cons.IH [OF this] Cons.prems Some sel_add show ?thesis
      by (cases "a = i") (auto simp: attach_def list_all_length)
  qed
qed (simp add: attach_def)

end

text \<open>What an operation leaves alone in a message, its loop leaves alone in every message.\<close>

locale attachment_frame =
  fixes add :: "'r \<Rightarrow> WrappedMessage \<Rightarrow> WrappedMessage" and view :: "WrappedMessage \<Rightarrow> 'v"
  assumes view_add: "view (add r m) = view m"
begin

lemma attach_view: "view (attach key add mm ms rows ! i) = view (ms ! i)"
proof (induction rows arbitrary: ms)
  case (Cons r rows)
  show ?case
  proof (cases "mm (key r)")
    case (Some a)
    have "view (ms[a := add r (ms ! a)] ! i) = view (ms ! i)"
      using view_add by (cases "a < length ms") (auto simp: nth_list_update list_update_beyond)
    then show ?thesis using Cons [of "ms[a := add r (ms ! a)]"] Some by (simp add: attach_def)
  qed (use Cons in \<open>simp add: attach_def\<close>)
qed (simp add: attach_def)

end

lemma length_attach [simp]: "length (attach key add mm ms rows) = length ms"
  unfolding attach_def by (induction rows arbitrary: ms) (simp_all split: option.split)

lemma attach_Nil [simp]: "attach key add mm [] rows = []"
  using length_attach [of key add mm "[]" rows] by (simp only: list.size length_0_conv)

interpretation reaction: attachment add_reaction wm_Reactions "\<lambda>r. r" wm_IsUpsert
  by unfold_locales (simp_all add: add_reaction_def)

interpretation blob: attachment add_blob wm_BlobAttachments "\<lambda>r. r" "\<lambda>_. True"
  by unfold_locales (simp_all add: add_blob_def)

interpretation att: attachment add_attachment wm_Attachments "\<lambda>r. r" "\<lambda>_. True"
  by unfold_locales (simp_all add: add_attachment_def)

interpretation xma: attachment "add_xma ctaMap" wm_XMAAttachments
    "\<lambda>r. \<lparr>wx_LSInsertXmaAttachment = r, wx_CTA = ctaMap (AttachmentFbid r)\<rparr>" "\<lambda>_. True" for ctaMap
  by unfold_locales (simp_all add: add_xma_def)

interpretation sticker: attachment add_sticker wm_Stickers "\<lambda>r. r" "\<lambda>_. True"
  by unfold_locales (simp_all add: add_sticker_def)

interpretation reaction_frame: attachment_frame add_reaction "\<lambda>m. (wm_LSInsertMessage m, wm_IsUpsert m,
    wm_BlobAttachments m, wm_Attachments m, wm_XMAAttachments m, wm_Stickers m, wm_ThreadID m, wm_IsSubthreadStart m)"
  by unfold_locales (simp add: add_reaction_def)

interpretation blob_frame: attachment_frame add_blob "\<lambda>m. (wm_LSInsertMessage m, wm_IsUpsert m,
    wm_Attachments m, wm_XMAAttachments m, wm_Stickers m, wm_Reactions m, wm_ThreadID m, wm_IsSubthreadStart m)"
  by unfold_locales (simp add: add_blob_def)

interpretation att_frame: attachment_frame add_attachment "\<lambda>m. (wm_LSInsertMessage m, wm_IsUpsert m,
    wm_BlobAttachments m, wm_XMAAttachments m, wm_Stickers m, wm_Reactions m, wm_ThreadID m, wm_IsSubthreadStart m)"
  by unfold_locales (simp add: add_attachment_def)

interpretation xma_frame: attachment_frame "add_xma ctaMap" "\<lambda>m. (wm_LSInsertMessage m, wm_IsUpsert m,
    wm_BlobAttachments m, wm_Attachments m, wm_Stickers m, wm_Reactions m, wm_ThreadID m, wm_IsSubthreadStart m)" for ctaMap
  by unfold_locales (simp add: add_xma_def)

interpretation sticker_frame: attachment_frame add_sticker "\<lambda>m. (wm_LSInsertMessage m, wm_IsUpsert m,
    wm_BlobAttachments m, wm_Attachments m, wm_XMAAttachments m, wm_Reactions m, wm_ThreadID m, wm_IsSubthreadStart m)"
  by unfold_locales (simp add: add_sticker_def)

lemmas attach_views = blob_frame.attach_view att_frame.attach_view xma_frame.attach_view sticker_frame.attach_view

subsection \<open>The whole grouping\<close>

lemma owner_append:
  "owner (us @ is) = owner us ++ map_of (rev (numbered (length us) is))"
proof -
  have "numbered n (us @ is) = numbered n us @ numbered (n + length us) is" for n
    by (induction us arbitrary: n) simp_all
  then show ?thesis by (simp add: owner_def fun_eq_iff map_add_def split: option.split)
qed

lemma new_wrapped_simps:
  "wm_LSInsertMessage (new_wrapped r u) = r" "wm_IsUpsert (new_wrapped r u) = u" "wm_BlobAttachments (new_wrapped r u) = []"
  "wm_Attachments (new_wrapped r u) = []" "wm_XMAAttachments (new_wrapped r u) = []" "wm_Stickers (new_wrapped r u) = []"
  "wm_Reactions (new_wrapped r u) = []" "wm_ThreadID (new_wrapped r u) = ''''" "\<not> wm_IsSubthreadStart (new_wrapped r u)"
  by (simp_all add: new_wrapped_def)

lemma wrapped_upserts:
  fixes table :: "string \<Rightarrow> row list"
  defines "up0 \<equiv> foldl mark_read (foldl mark_read (foldl mark_read
    (foldl add_range Map.empty (table ''LSInsertNewMessageRange'')) (table ''LSMarkThreadRead''))
    (table ''LSMarkThreadReadV2'')) (table ''LSDeleteThenInsertThread'')"
  shows "ws_upsert (foldl add_upsert_message \<lparr>ws_messages = [], ws_messageMap = mm, ws_upsert = up0\<rparr>
    (table ''LSUpsertMessage'')) k = spec_upsert table k"
proof -
  have up0: "up0 = foldl mark_read (foldl add_range Map.empty (table ''LSInsertNewMessageRange''))
      (table ''LSMarkThreadRead'' @ table ''LSMarkThreadReadV2'' @ table ''LSDeleteThenInsertThread'')"
    by (simp add: up0_def)
  show ?thesis
  proof (cases "last_with ThreadKey k (table ''LSInsertNewMessageRange'')")
    case None
    then have "up0 k = None" by (simp add: up0 add_ranges mark_reads_None del: foldl_append)
    with None show ?thesis by (simp add: upsert_threads spec_upsert_def)
  next
    case (Some rng)
    let ?um = "\<lparr>um_Range = Some rng, um_Messages = [], um_MarkRead = False\<rparr>"
    have "foldl add_range Map.empty (table ''LSInsertNewMessageRange'') k = Some ?um"
      using Some by (simp add: add_ranges)
    from mark_reads [of "foldl add_range Map.empty (table ''LSInsertNewMessageRange'')" k ?um rng, OF this] show ?thesis
      by (simp add: Some up0 upsert_threads spec_upsert_def split: option.split del: foldl_append)
  qed
qed

lemma wrapped_message:
  fixes table :: "string \<Rightarrow> row list"
  defines "us \<equiv> table ''LSUpsertMessage''" and "is \<equiv> table ''LSInsertMessage''"
  assumes ms: "ms = attach MessageId add_reaction (owner us)
      (map (\<lambda>msg. new_wrapped (ToInsert msg) True) us) rs @ map (\<lambda>msg. new_wrapped msg False) is"
    and rs: "rs = table ''LSUpsertReaction''" and i: "i < length us + length is"
  shows "attach MessageId add_sticker (owner (us @ is))
      (attach MessageId (add_xma (cta_map (table ''LSInsertAttachmentCta''))) (owner (us @ is))
        (attach MessageId add_attachment (owner (us @ is))
          (attach MessageId add_blob (owner (us @ is)) ms (table ''LSInsertBlobAttachment''))
          (table ''LSInsertAttachment''))
        (table ''LSInsertXmaAttachment''))
      (table ''LSInsertStickerAttachment'') ! i = spec_message table i"
proof -
  have len: "length ms = length us + length is" by (simp add: ms)
  have all: "list_all (\<lambda>_. True) xs" for xs :: "WrappedMessage list" by (simp add: list_all_iff)
  have m: "ms ! i = (if i < length us then
        (new_wrapped (ToInsert (us ! i)) True)\<lparr>wm_Reactions := owned us i rs\<rparr> else new_wrapped (is ! (i - length us)) False)"
  proof (cases "i < length us")
    case True
    let ?ups = "map (\<lambda>msg. new_wrapped (ToInsert msg) True) us"
    have "list_all wm_IsUpsert ?ups" by (simp add: list_all_iff new_wrapped_simps)
    from reaction.attach_sel [OF this, of i MessageId "owner us" rs] reaction_frame.attach_view [of MessageId "owner us" ?ups rs i]
    have "attach MessageId add_reaction (owner us) ?ups rs ! i
        = (new_wrapped (ToInsert (us ! i)) True)\<lparr>wm_Reactions := owned us i rs\<rparr>"
      using True by (simp add: new_wrapped_simps owned_def)
    then show ?thesis using True by (simp add: ms nth_append)
  qed (use i in \<open>simp add: ms nth_append\<close>)
  show ?thesis
    unfolding spec_message_def Let_def
    by (rule WrappedMessage.equality)
      (use i in \<open>simp_all add: attach_views [unfolded prod.inject] blob.attach_sel [OF all] att.attach_sel [OF all]
        xma.attach_sel [OF all] sticker.attach_sel [OF all] len m new_wrapped_simps nth_append owned_def
        cta_map_last rs us_def is_def\<close>)
qed

lemma WrapMessages_spec:
  "WrapMessages table =
     \<lparr>wr_messages = map (spec_message table) [0..<length (table ''LSUpsertMessage'') + length (table ''LSInsertMessage'')],
      wr_upsert = spec_upsert table,
      wr_insert = [length (table ''LSUpsertMessage'')..<
        length (table ''LSUpsertMessage'') + length (table ''LSInsertMessage'')]\<rparr>"
proof -
  let ?us = "table ''LSUpsertMessage''" and ?is = "table ''LSInsertMessage''" and ?rs = "table ''LSUpsertReaction''"
  let ?ups = "map (\<lambda>msg. new_wrapped (ToInsert msg) True) ?us"
  define up where "up = foldl mark_read (foldl mark_read (foldl mark_read
    (foldl add_range Map.empty (table ''LSInsertNewMessageRange'')) (table ''LSMarkThreadRead''))
    (table ''LSMarkThreadReadV2'')) (table ''LSDeleteThenInsertThread'')"
  define ws1 where "ws1 = foldl add_upsert_message \<lparr>ws_messages = [], ws_messageMap = Map.empty, ws_upsert = up\<rparr> ?us"
  define ms1 where "ms1 = (if ?us = [] then ws_messages ws1
    else attach MessageId add_reaction (ws_messageMap ws1) (ws_messages ws1) ?rs)"
  define ws2 where "ws2 = foldl add_insert_message (ws1\<lparr>ws_messages := ms1\<rparr>) ?is"
  have mm1: "ws_messageMap ws1 = owner ?us"
    by (simp add: ws1_def upsert_messageMap fun_eq_iff owner_def)
  have ms1: "ms1 = attach MessageId add_reaction (owner ?us) ?ups ?rs"
    by (simp add: ms1_def mm1) (simp add: ws1_def upsert_messages)
  have up1: "ws_upsert ws1 = spec_upsert table"
    using wrapped_upserts [where table = table] by (simp add: ws1_def up_def fun_eq_iff)
  have ms2: "ws_messages ws2 = ms1 @ map (\<lambda>msg. new_wrapped msg False) ?is"
    by (simp add: ws2_def insert_messages)
  have mm2: "ws_messageMap ws2 = owner (?us @ ?is)"
    by (simp add: ws2_def insert_messages mm1 owner_append ms1)
  note msgs = wrapped_message [where ms = "ws_messages ws2" and table = table, OF ms2 [unfolded ms1] refl, unfolded ms2 ms1]
  have wrap: "WrapMessages table = \<lparr>wr_messages =
      attach MessageId add_sticker (owner (?us @ ?is))
        (attach MessageId (add_xma (cta_map (table ''LSInsertAttachmentCta''))) (owner (?us @ ?is))
          (attach MessageId add_attachment (owner (?us @ ?is))
            (attach MessageId add_blob (owner (?us @ ?is)) (ws_messages ws2) (table ''LSInsertBlobAttachment''))
            (table ''LSInsertAttachment''))
          (table ''LSInsertXmaAttachment''))
        (table ''LSInsertStickerAttachment''),
      wr_upsert = ws_upsert ws1, wr_insert = [length ms1..<length (ws_messages ws2)]\<rparr>"
    unfolding WrapMessages_def Let_def up_def [symmetric] ws1_def [symmetric] ms1_def [symmetric]
      ws2_def [symmetric] mm2 ..
  show ?thesis
    unfolding wrap up1 by (auto simp: ms1 ms2 msgs intro!: nth_equalityI)
qed

section \<open>Properties\<close>

text \<open>
  C4. Grouping a table gives exactly what its rows say: one wrapped message per upserted message, then
  one per inserted message, in their order; every attachment of each kind hangs, once and in order, on the
  last message with its message id, with the last call to action of its attachment id; reactions only
  on upserted messages; and the upserts of a thread are the positions of its upserted messages under the
  last range of the thread, marked read by the last read receipt of the thread, if there is one.
\<close>

theorem WrapMessages_groups_rows:
  "WrapMessages table =
     \<lparr>wr_messages = map (spec_message table) [0..<length (table ''LSUpsertMessage'') + length (table ''LSInsertMessage'')],
      wr_upsert = spec_upsert table,
      wr_insert = [length (table ''LSUpsertMessage'')..<
        length (table ''LSUpsertMessage'') + length (table ''LSInsertMessage'')]\<rparr>"
  by (rule WrapMessages_spec)

end
