(* ===== verification/Meta_Ids.thy ===== *)
theory Meta_Ids
  imports Go_Prelude
begin

text \<open>
  The identifiers the bridge stores: \<^verbatim>\<open>pkg/metaid\<close> (user, portal, message and media identifiers), the
  thread types of \<^verbatim>\<open>table/enums.go\<close> and the keys of \<^verbatim>\<open>connector/ids.go\<close>. WhatsApp addresses come from
  another module, so their operations are an argument, the record \<open>jid_ops\<close>.
\<close>

section \<open>Model\<close>

subsection \<open>WhatsApp addresses\<close>

record 'jid jid_ops =
  jo_String :: "'jid \<Rightarrow> string"
  jo_ToNonAD :: "'jid \<Rightarrow> 'jid"
  jo_ParseJID :: "string \<Rightarrow> 'jid option"
  jo_User :: "'jid \<Rightarrow> string"
  jo_UserInt :: "'jid \<Rightarrow> uint64"
  jo_Server :: "'jid \<Rightarrow> string"
  jo_JID :: "string \<Rightarrow> string \<Rightarrow> 'jid"
  jo_GroupServer :: string
  jo_MessengerServer :: string
  jo_DefaultUserServer :: string

subsection \<open>User, portal and message identifiers (ids.go)\<close>

type_synonym UserID = string
type_synonym UserLoginID = string
type_synonym PortalID = string
type_synonym MessageID = string
type_synonym PartID = string

definition MakeWAUserID :: "'jid jid_ops \<Rightarrow> 'jid \<Rightarrow> UserID" where
  "MakeWAUserID jo jid = format_uint (unat (jo_UserInt jo jid))"

definition MakeUserID :: "int64 \<Rightarrow> UserID" where
  "MakeUserID user = (if user = 0 then '''' else format_int (sint user))"

datatype id_error = ErrSign | ErrNum num_error

definition ParseIDFromString :: "string \<Rightarrow> id_error + int" where
  "ParseIDFromString ident =
     (if has_prefix ident ''+'' \<or> has_prefix ident ''-'' then Inl ErrSign
      else (case parse_int ident of (i, None) \<Rightarrow> Inr i | (_, Some e) \<Rightarrow> Inl (ErrNum e)))"

definition MakeUserLoginID :: "int64 \<Rightarrow> UserLoginID" where
  "MakeUserLoginID user = MakeUserID user"

definition MakeWAPortalID :: "'jid jid_ops \<Rightarrow> 'jid \<Rightarrow> PortalID" where
  "MakeWAPortalID jo jid = jo_User jo jid"

definition MakeFBPortalID :: "int64 \<Rightarrow> PortalID" where
  "MakeFBPortalID portal = format_int (sint portal)"

definition ParseUserID :: "UserID \<Rightarrow> int64" where
  "ParseUserID user = word_of_int (fst (parse_int user))"

definition ParseUserLoginID :: "UserLoginID \<Rightarrow> int64" where
  "ParseUserLoginID user = word_of_int (fst (parse_int user))"

definition ParseFBPortalID :: "PortalID \<Rightarrow> int64" where
  "ParseFBPortalID portal = word_of_int (fst (parse_int portal))"

definition ParseWAPortalID :: "'jid jid_ops \<Rightarrow> PortalID \<Rightarrow> string \<Rightarrow> 'jid" where
  "ParseWAPortalID jo portal server = jo_JID jo portal server"

datatype 'jid ParsedMessageID = ParsedWAMessageID (Chat: 'jid) (Sender: 'jid) (WAID: string) | ParsedFBMessageID (FBID: string)

definition MessageIDPrefixFB :: string where "MessageIDPrefixFB = ''fb''"
definition MessageIDPrefixWA :: string where "MessageIDPrefixWA = ''wa''"

fun ParsedMessageID_String :: "'jid jid_ops \<Rightarrow> 'jid ParsedMessageID \<Rightarrow> string" where
  "ParsedMessageID_String jo (ParsedWAMessageID chat sender ident) =
     MessageIDPrefixWA @ '':'' @ jo_String jo chat @ '':'' @ jo_String jo (jo_ToNonAD jo sender) @ '':'' @ ident"
| "ParsedMessageID_String jo (ParsedFBMessageID ident) = MessageIDPrefixFB @ '':'' @ ident"

definition MakeWAMessageID :: "'jid jid_ops \<Rightarrow> 'jid \<Rightarrow> 'jid \<Rightarrow> string \<Rightarrow> MessageID" where
  "MakeWAMessageID jo chat sender ident =
     MessageIDPrefixWA @ '':'' @ jo_String jo chat @ '':'' @ jo_String jo (jo_ToNonAD jo sender) @ '':'' @ ident"

definition MakeFBMessageID :: "string \<Rightarrow> MessageID" where
  "MakeFBMessageID messageID = MessageIDPrefixFB @ '':'' @ messageID"

definition MakeMessagePartID :: "int \<Rightarrow> PartID" where
  "MakeMessagePartID i = (if i = 0 then '''' else format_int i)"

definition MakeMessageID :: "'jid jid_ops \<Rightarrow> 'jid ParsedMessageID \<Rightarrow> MessageID" where
  "MakeMessageID jo parsed = ParsedMessageID_String jo parsed"

definition ParseMessageID :: "'jid jid_ops \<Rightarrow> MessageID \<Rightarrow> 'jid ParsedMessageID option" where
  "ParseMessageID jo messageID =
     (let parts = splitn messageID CHR '':'' 4 in
      if length parts = 2 \<and> parts ! 0 = MessageIDPrefixFB then Some (ParsedFBMessageID (parts ! 1))
      else if length parts = 4 \<and> parts ! 0 = MessageIDPrefixWA then
        (case jo_ParseJID jo (parts ! 1) of
           None \<Rightarrow> None
         | Some chat \<Rightarrow>
             (case jo_ParseJID jo (parts ! 2) of
                None \<Rightarrow> None
              | Some sender \<Rightarrow> Some (ParsedWAMessageID chat sender (parts ! 3))))
      else None)"

subsection \<open>Media identifiers (mediaid.go)\<close>

type_synonym DirectMediaType = byte

definition DirectMediaTypeMetaV1 :: DirectMediaType where "DirectMediaTypeMetaV1 = 2"
definition DirectMediaTypeWhatsAppV1 :: DirectMediaType where "DirectMediaTypeWhatsAppV1 = 3"
definition DirectMediaTypeMetaV2 :: DirectMediaType where "DirectMediaTypeMetaV2 = 4"
definition DirectMediaTypeWhatsAppV2 :: DirectMediaType where "DirectMediaTypeWhatsAppV2 = 5"

definition isSupported :: "DirectMediaType \<Rightarrow> bool" where
  "isSupported t \<longleftrightarrow>
     t = DirectMediaTypeMetaV1 \<or> t = DirectMediaTypeWhatsAppV1 \<or> t = DirectMediaTypeMetaV2 \<or> t = DirectMediaTypeWhatsAppV2"

definition includesPartID :: "DirectMediaType \<Rightarrow> bool" where
  "includesPartID t \<longleftrightarrow> \<not> (t = DirectMediaTypeMetaV1 \<or> t = DirectMediaTypeWhatsAppV1)"

record MediaInfo =
  mi_Type :: DirectMediaType
  mi_UserID :: UserLoginID
  mi_MessageID :: MessageID
  mi_PartID :: PartID

definition MakeMediaID :: "DirectMediaType \<Rightarrow> UserLoginID \<Rightarrow> MessageID \<Rightarrow> PartID \<Rightarrow> bytes" where
  "MakeMediaID mediaType userID messageID partID =
     [mediaType] @ be_of 8 (unat (ParseUserLoginID userID)) @
     [word_of_nat (length messageID)] @ bytes_of_string messageID @
     (if includesPartID mediaType then [word_of_nat (length partID)] @ bytes_of_string partID else [])"

datatype media_error = TooShort string | UnrecognizedType DirectMediaType

text \<open>The closures \<open>read\<close> and \<open>readOne\<close> on what is left of the identifier.\<close>

definition media_read :: "nat \<Rightarrow> string \<Rightarrow> bytes \<Rightarrow> media_error + bytes \<times> bytes" where
  "media_read sz what b = (if length b < sz then Inl (TooShort what) else Inr (take sz b, drop sz b))"

definition media_readOne :: "string \<Rightarrow> bytes \<Rightarrow> media_error + byte \<times> bytes" where
  "media_readOne what b =
     (case media_read 1 what b of Inl e \<Rightarrow> Inl e | Inr (c, rest) \<Rightarrow> Inr (c ! 0, rest))"

definition ParseMediaID :: "bytes \<Rightarrow> media_error + MediaInfo" where
  "ParseMediaID mediaID =
     (case media_readOne ''media type'' mediaID of
        Inl e \<Rightarrow> Inl e
      | Inr (t, b1) \<Rightarrow>
     if \<not> isSupported t then Inl (UnrecognizedType t)
     else (case media_read 8 ''user id'' b1 of
        Inl e \<Rightarrow> Inl e
      | Inr (u, b2) \<Rightarrow>
     (case media_readOne ''message id length'' b2 of
        Inl e \<Rightarrow> Inl e
      | Inr (messageIDLength, b3) \<Rightarrow>
     (case media_read (unat messageIDLength) ''message id'' b3 of
        Inl e \<Rightarrow> Inl e
      | Inr (messageID, b4) \<Rightarrow>
     let info = \<lparr>mi_Type = t, mi_UserID = MakeUserLoginID (word_of_nat (be_to u)),
                  mi_MessageID = string_of_bytes messageID, mi_PartID = ''''\<rparr>
     in if includesPartID t then
          (case media_readOne ''part id length'' b4 of
             Inl e \<Rightarrow> Inl e
           | Inr (partIDLength, b5) \<Rightarrow>
          (case media_read (unat partIDLength) ''part id'' b5 of
             Inl e \<Rightarrow> Inl e
           | Inr (partID, _) \<Rightarrow> Inr (info\<lparr>mi_PartID := string_of_bytes partID\<rparr>)))
        else Inr info))))"

subsection \<open>Thread types (table/enums.go) and portal keys (connector/ids.go, metaid/dbmeta.go)\<close>

type_synonym ThreadType = int64

definition UNKNOWN_THREAD_TYPE :: ThreadType where "UNKNOWN_THREAD_TYPE = 0"
definition ONE_TO_ONE :: ThreadType where "ONE_TO_ONE = 1"
definition TINCAN_ONE_TO_ONE :: ThreadType where "TINCAN_ONE_TO_ONE = 7"
definition CARRIER_MESSAGING_ONE_TO_ONE :: ThreadType where "CARRIER_MESSAGING_ONE_TO_ONE = 10"
definition TINCAN_ONE_TO_ONE_DISAPPEARING :: ThreadType where "TINCAN_ONE_TO_ONE_DISAPPEARING = 13"
definition ENCRYPTED_OVER_WA_ONE_TO_ONE :: ThreadType where "ENCRYPTED_OVER_WA_ONE_TO_ONE = 15"
definition ENCRYPTED_OVER_WA_GROUP :: ThreadType where "ENCRYPTED_OVER_WA_GROUP = 16"
definition AI_BOT :: ThreadType where "AI_BOT = 201"

definition IsOneToOne :: "ThreadType \<Rightarrow> bool" where
  "IsOneToOne tt \<longleftrightarrow> tt = ONE_TO_ONE \<or> tt = TINCAN_ONE_TO_ONE \<or> tt = CARRIER_MESSAGING_ONE_TO_ONE \<or>
     tt = TINCAN_ONE_TO_ONE_DISAPPEARING \<or> tt = ENCRYPTED_OVER_WA_ONE_TO_ONE \<or> tt = AI_BOT"

definition IsWhatsApp :: "ThreadType \<Rightarrow> bool" where
  "IsWhatsApp tt \<longleftrightarrow> tt = ENCRYPTED_OVER_WA_GROUP \<or> tt = ENCRYPTED_OVER_WA_ONE_TO_ONE"

record PortalMetadata =
  pmd_ThreadType :: ThreadType
  pmd_WhatsAppServer :: string
  pmd_EphemeralSettingTimestamp :: int64

definition PortalMetadata_JID :: "'jid jid_ops \<Rightarrow> PortalMetadata \<Rightarrow> PortalID \<Rightarrow> 'jid" where
  "PortalMetadata_JID jo meta portal =
     (if pmd_WhatsAppServer meta = '''' then
        if pmd_ThreadType meta = ENCRYPTED_OVER_WA_GROUP then jo_JID jo portal (jo_GroupServer jo)
        else jo_JID jo portal (jo_MessengerServer jo)
      else ParseWAPortalID jo portal (pmd_WhatsAppServer meta))"

record EventSender =
  es_IsFromMe :: bool
  es_Sender :: UserID
  es_SenderLogin :: UserLoginID

definition selfEventSender :: "UserLoginID \<Rightarrow> EventSender" where
  "selfEventSender login = \<lparr>es_IsFromMe = True, es_Sender = login, es_SenderLogin = login\<rparr>"

definition makeEventSender :: "UserLoginID \<Rightarrow> int64 \<Rightarrow> EventSender" where
  "makeEventSender login ident = \<lparr>es_IsFromMe = (MakeUserLoginID ident = login), es_Sender = MakeUserID ident,
     es_SenderLogin = MakeUserLoginID ident\<rparr>"

definition makeWAEventSender :: "'jid jid_ops \<Rightarrow> UserLoginID \<Rightarrow> 'jid \<Rightarrow> EventSender" where
  "makeWAEventSender jo login sender = makeEventSender login (jo_UserInt jo sender)"

record PortalKey =
  pk_ID :: PortalID
  pk_Receiver :: UserLoginID

definition makeWAPortalKey :: "'jid jid_ops \<Rightarrow> bool \<Rightarrow> UserLoginID \<Rightarrow> 'jid \<Rightarrow> PortalKey" where
  "makeWAPortalKey jo splitPortals login chatJID =
     \<lparr>pk_ID = MakeWAPortalID jo chatJID,
      pk_Receiver = (if splitPortals \<or> jo_Server jo chatJID = jo_MessengerServer jo \<or> jo_Server jo chatJID = jo_DefaultUserServer jo
        then login else '''')\<rparr>"

definition makeFBPortalKey :: "bool \<Rightarrow> UserLoginID \<Rightarrow> int64 \<Rightarrow> ThreadType \<Rightarrow> PortalKey" where
  "makeFBPortalKey splitPortals login threadID threadType =
     \<lparr>pk_ID = MakeFBPortalID threadID,
      pk_Receiver = (if splitPortals \<or> threadType = UNKNOWN_THREAD_TYPE \<or> IsOneToOne threadType then login else '''')\<rparr>"

section \<open>Lemmas\<close>

lemma ParseUserID_MakeUserID: "ParseUserID (MakeUserID user) = user" "ParseUserLoginID (MakeUserLoginID user) = user"
    "ParseFBPortalID (MakeFBPortalID user) = user"
proof -
  have "parse_int '''' = (0, Some ErrSyntax)" by (simp add: parse_int_def)
  then show "ParseUserID (MakeUserID user) = user" "ParseUserLoginID (MakeUserLoginID user) = user"
      "ParseFBPortalID (MakeFBPortalID user) = user"
    by (simp_all add: ParseUserID_def MakeUserID_def ParseUserLoginID_def MakeUserLoginID_def ParseFBPortalID_def MakeFBPortalID_def)
qed

interpretation user_ids: print_parse MakeUserID "\<lambda>s. Some (ParseUserID s)" "\<lambda>_. True"
  by unfold_locales (simp add: ParseUserID_MakeUserID)

interpretation portal_ids: print_parse MakeFBPortalID "\<lambda>s. Some (ParseFBPortalID s)" "\<lambda>_. True"
  by unfold_locales (simp add: ParseUserID_MakeUserID)

text \<open>Cutting a text of parts without the separator.\<close>

lemma split_at_in: "c \<in> set s \<Longrightarrow> \<exists>a b. split_at c s = Some (a, b)"
  by (induction s) auto

lemma splitn_fb: "splitn (''fb:'' @ i) CHR '':'' 4 = ''fb'' # splitn_cuts 2 CHR '':'' i"
  by (simp add: splitn_def eval_nat_numeral)

lemma splitn_wa:
  assumes "CHR '':'' \<notin> set a" and "CHR '':'' \<notin> set b"
  shows "splitn (''wa:'' @ a @ '':'' @ b @ '':'' @ i) CHR '':'' 4 = [''wa'', a, b, i]"
  using split_at_append [OF assms(1)] split_at_append [OF assms(2)]
  by (simp add: splitn_def eval_nat_numeral)

lemma ParseMessageID_FB:
  "ParseMessageID jo (MakeFBMessageID i) = (if CHR '':'' \<in> set i then None else Some (ParsedFBMessageID i))"
proof -
  have "ParseMessageID jo (MakeFBMessageID i) =
      (if length (splitn_cuts 2 CHR '':'' i) = 1 then Some (ParsedFBMessageID (hd (splitn_cuts 2 CHR '':'' i))) else None)"
    unfolding ParseMessageID_def MakeFBMessageID_def MessageIDPrefixFB_def MessageIDPrefixWA_def Let_def
    using splitn_fb [of i] by (auto simp: hd_conv_nth length_Suc_conv)
  also have "\<dots> = (if CHR '':'' \<in> set i then None else Some (ParsedFBMessageID i))"
    using split_at_in [of "CHR '':''" i] by (auto simp: numeral_2_eq_2 split_at_None split: option.split)
  finally show ?thesis .
qed

lemma ParseMessageID_WA:
  assumes "CHR '':'' \<notin> set (jo_String jo chat)" "CHR '':'' \<notin> set (jo_String jo (jo_ToNonAD jo sender))"
    and "jo_ParseJID jo (jo_String jo chat) = Some chat"
    and "jo_ParseJID jo (jo_String jo (jo_ToNonAD jo sender)) = Some (jo_ToNonAD jo sender)"
  shows "ParseMessageID jo (MakeWAMessageID jo chat sender i) = Some (ParsedWAMessageID chat (jo_ToNonAD jo sender) i)"
  using splitn_wa [OF assms(1,2), of i] assms(3,4)
  by (simp add: ParseMessageID_def MakeWAMessageID_def MessageIDPrefixFB_def MessageIDPrefixWA_def Let_def)

lemma media_read_append: "length a = n \<Longrightarrow> media_read n w (a @ b) = Inr (a, b)"
  by (simp add: media_read_def)

lemma media_readOne_Cons [simp]: "media_readOne w (c # b) = Inr (c, b)"
  by (simp add: media_readOne_def media_read_def)

lemma word_of_nat_byte: "n < 256 \<Longrightarrow> unat (word_of_nat n :: byte) = n"
  by (simp add: unat_of_nat)

lemma ParseMediaID_MakeMediaID:
  assumes "isSupported t" and "length m < 256" and "includesPartID t \<Longrightarrow> length p < 256"
  shows "ParseMediaID (MakeMediaID t (MakeUserLoginID u) m p @ rest) =
    Inr \<lparr>mi_Type = t, mi_UserID = MakeUserLoginID u, mi_MessageID = m, mi_PartID = (if includesPartID t then p else '''')\<rparr>"
proof -
  have "unat u < 2 ^ 64" using unsigned_less [of u] by simp
  then have u: "word_of_nat (be_to (be_of 8 (unat u))) = u" by (simp add: be_to_be_of mod_less del: be_of.simps)
  have read: "media_read 8 w (be_of 8 x @ r) = Inr (be_of 8 x, r)" for w x r
    by (rule media_read_append) simp
  have read': "media_read (unat (word_of_nat (length s) :: byte)) w (bytes_of_string s @ r) = Inr (bytes_of_string s, r)"
    if "length s < 256" for s w r
    using that by (intro media_read_append) (simp add: word_of_nat_byte)
  show ?thesis
    using assms by (simp add: ParseMediaID_def MakeMediaID_def ParseUserID_MakeUserID read read' u Let_def del: be_of.simps)
qed

section \<open>Properties\<close>

text \<open>
  C36. Message identifiers survive being stored. A Facebook identifier is parsed back exactly when it has no
  colon (with one, parsing refuses it); a WhatsApp identifier is parsed back with the sender
  reduced to its account, whatever its message part, given addresses that print without a colon and parse back.
\<close>

theorem message_id_roundtrip:
  "ParseMessageID jo (MakeMessageID jo (ParsedFBMessageID i)) =
     (if CHR '':'' \<in> set i then None else Some (ParsedFBMessageID i)) \<and>
   (CHR '':'' \<notin> set (jo_String jo chat) \<and> CHR '':'' \<notin> set (jo_String jo (jo_ToNonAD jo sender)) \<and>
    jo_ParseJID jo (jo_String jo chat) = Some chat \<and>
    jo_ParseJID jo (jo_String jo (jo_ToNonAD jo sender)) = Some (jo_ToNonAD jo sender) \<longrightarrow>
    ParseMessageID jo (MakeMessageID jo (ParsedWAMessageID chat sender i)) =
      Some (ParsedWAMessageID chat (jo_ToNonAD jo sender) i))"
  using ParseMessageID_FB [of jo i] ParseMessageID_WA [of jo chat sender i]
  by (simp add: MakeMessageID_def MakeFBMessageID_def MakeWAMessageID_def)

text \<open>Addresses as a user and a server around an at sign.\<close>

definition plain_jid_ops :: "(string \<times> string) jid_ops" where
  "plain_jid_ops = \<lparr>jo_String = (\<lambda>(u, s). u @ ''@'' @ s), jo_ToNonAD = id, jo_ParseJID = split_at CHR ''@'',
     jo_User = fst, jo_UserInt = (\<lambda>(u, s). word_of_int (fst (parse_int u))), jo_Server = snd, jo_JID = Pair,
     jo_GroupServer = ''g.us'', jo_MessengerServer = ''msgr'', jo_DefaultUserServer = ''s.whatsapp.net''\<rparr>"

theorem message_id_roundtrip_witness:
  "ParseMessageID plain_jid_ops (MakeMessageID plain_jid_ops (ParsedWAMessageID (''12'', ''g.us'') (''34'', ''msgr'') ''A:B'')) =
     Some (ParsedWAMessageID (''12'', ''g.us'') (''34'', ''msgr'') ''A:B'')"
  using message_id_roundtrip [of plain_jid_ops "''A:B''" "(''12'', ''g.us'')" "(''34'', ''msgr'')"]
  by (simp add: plain_jid_ops_def)

text \<open>
  A media identifier of a supported kind carries the login, the message and, in the kinds of version 2, the part: parsing
  the identifier, followed by anything, gives them back, for message and part identifiers of fewer
  than 256 bytes, the limit of their length bytes.
\<close>

theorem media_id_roundtrip:
  assumes "isSupported t" and "length m < 256" and "includesPartID t \<longrightarrow> length p < 256"
  shows "ParseMediaID (MakeMediaID t (MakeUserLoginID u) m p @ rest) =
    Inr \<lparr>mi_Type = t, mi_UserID = MakeUserLoginID u, mi_MessageID = m, mi_PartID = (if includesPartID t then p else '''')\<rparr>"
  using assms by (simp add: ParseMediaID_MakeMediaID)

theorem media_id_roundtrip_witness:
  "ParseMediaID (MakeMediaID DirectMediaTypeMetaV2 (MakeUserLoginID 42) ''fb:x'' ''1'' @ [0]) =
    Inr \<lparr>mi_Type = DirectMediaTypeMetaV2, mi_UserID = MakeUserLoginID 42, mi_MessageID = ''fb:x'', mi_PartID = ''1''\<rparr>"
  using media_id_roundtrip [of DirectMediaTypeMetaV2 "''fb:x''" "''1''" 42 "[0]"]
  by (simp add: isSupported_def includesPartID_def DirectMediaTypeMetaV1_def DirectMediaTypeMetaV2_def DirectMediaTypeWhatsAppV1_def)

end
