(* ===== verification/Mentions.thy ===== *)
theory Mentions
  imports Lightspeed Go_Json Meta_Ids "HOL-Library.Multiset"
begin

text \<open>
  Mentions in messages: the comma-separated lists of \<^verbatim>\<open>socket/threads.go\<close> and the conversion to HTML of
  \<^verbatim>\<open>msgconv/mentions.go\<close>, whose positions count UTF-16 code units. Looking a user up and escaping HTML are done by other
  modules and are arguments. \<open>Panic\<close> is the panic of a slice expression.
\<close>

section \<open>Model\<close>

subsection \<open>Mention lists (socket/threads.go)\<close>

type_synonym MentionType = string

definition MentionTypePerson :: MentionType where "MentionTypePerson = ''p''"
definition MentionTypeSilent :: MentionType where "MentionTypeSilent = ''s''"
definition MentionTypeThread :: MentionType where "MentionTypeThread = ''t''"

record MentionData =
  md_MentionIDs :: string
  md_MentionOffsets :: string
  md_MentionLengths :: string
  md_MentionTypes :: string

record Mention =
  mn_ID :: int
  mn_Offset :: int
  mn_Length :: int
  mn_Type :: MentionType

datatype mention_error = MismatchingLengths | BadUserID nat num_error | BadOffset nat num_error | BadLength nat num_error

fun parse_mentions ::
  "nat \<Rightarrow> string list \<Rightarrow> string list \<Rightarrow> string list \<Rightarrow> string list \<Rightarrow> mention_error + Mention list" where
  "parse_mentions i (u # us) (off # offs) (l # ls) (t # ts) =
     (case parse_int u of
        (_, Some e) \<Rightarrow> Inl (BadUserID (i + 1) e)
      | (userID, None) \<Rightarrow>
     (case Atoi off of
        (_, Some e) \<Rightarrow> Inl (BadOffset (i + 1) e)
      | (offset, None) \<Rightarrow>
     (case Atoi l of
        (_, Some e) \<Rightarrow> Inl (BadLength (i + 1) e)
      | (len, None) \<Rightarrow>
     (case parse_mentions (i + 1) us offs ls ts of
        Inl e \<Rightarrow> Inl e
      | Inr ms \<Rightarrow> Inr (\<lparr>mn_ID = userID, mn_Offset = offset, mn_Length = len, mn_Type = t\<rparr> # ms)))))"
| "parse_mentions i _ _ _ _ = Inr []"

text \<open>\<open>sort.Sort\<close> by offset. Go leaves the order of equal offsets open; the model keeps it.\<close>

definition sort_mentions :: "Mention list \<Rightarrow> Mention list" where
  "sort_mentions ms = sort_key mn_Offset ms"

text \<open>A nil receiver and a nil result are \<open>None\<close>.\<close>

definition MentionData_Parse :: "MentionData option \<Rightarrow> mention_error + Mention list option" where
  "MentionData_Parse md =
     (case md of
        None \<Rightarrow> Inr None
      | Some d \<Rightarrow>
          if length (md_MentionIDs d) = 0 then Inr None
          else
            (let mentionIDs = split_all (md_MentionIDs d) CHR '','';
                 mentionOffsets = split_all (md_MentionOffsets d) CHR '','';
                 mentionLengths = split_all (md_MentionLengths d) CHR '','';
                 mentionTypes = split_all (md_MentionTypes d) CHR '',''
             in if length mentionIDs \<noteq> length mentionOffsets \<or> length mentionOffsets \<noteq> length mentionLengths \<or>
                   length mentionLengths \<noteq> length mentionTypes then Inl MismatchingLengths
                else
                  (case parse_mentions 0 mentionIDs mentionOffsets mentionLengths mentionTypes of
                     Inl e \<Rightarrow> Inl e
                   | Inr ms \<Rightarrow> Inr (Some (sort_mentions ms)))))"

fun join_comma :: "string list \<Rightarrow> string" where
  "join_comma [] = ''''"
| "join_comma [s] = s"
| "join_comma (s # ss) = s @ '','' @ join_comma ss"

definition Mentions_ToData :: "Mention list \<Rightarrow> MentionData" where
  "Mentions_ToData m = \<lparr>md_MentionIDs = join_comma (map (\<lambda>x. format_int (mn_ID x)) m),
     md_MentionOffsets = join_comma (map (\<lambda>x. format_int (mn_Offset x)) m),
     md_MentionLengths = join_comma (map (\<lambda>x. format_int (mn_Length x)) m),
     md_MentionTypes = join_comma (map mn_Type m)\<rparr>"

subsection \<open>UTF-16 (msgconv/mentions.go)\<close>

type_synonym UTF16String = "nat list"

fun runes_of :: "nat \<Rightarrow> string \<Rightarrow> nat list" where
  "runes_of 0 s = []"
| "runes_of (Suc fuel) s =
     (if s = [] then [] else case decode_rune s of (r, n) \<Rightarrow> r # runes_of fuel (drop n s))"

text \<open>\<open>utf16.Encode\<close> and \<open>utf16.Decode\<close>; a lone surrogate and a value out of range become U+FFFD.\<close>

fun utf16_encode :: "nat list \<Rightarrow> UTF16String" where
  "utf16_encode [] = []"
| "utf16_encode (r # rs) =
     (if r < 0xD800 \<or> 0xE000 \<le> r \<and> r < 0x10000 then [r]
      else if 0x10000 \<le> r \<and> r \<le> 0x10FFFF then [0xD800 + (r - 0x10000) div 1024, 0xDC00 + (r - 0x10000) mod 1024]
      else [rune_error]) @ utf16_encode rs"

fun utf16_decode :: "UTF16String \<Rightarrow> nat list" where
  "utf16_decode [] = []"
| "utf16_decode (u # us) =
     (if u < 0xD800 \<or> 0xE000 \<le> u then u # utf16_decode us
      else if u < 0xDC00 then
        (case us of
           v # vs \<Rightarrow> if 0xDC00 \<le> v \<and> v < 0xE000
             then (0x10000 + (u - 0xD800) * 1024 + (v - 0xDC00)) # utf16_decode vs else rune_error # utf16_decode us
         | [] \<Rightarrow> [rune_error])
      else rune_error # utf16_decode us)"

definition NewUTF16String :: "string \<Rightarrow> UTF16String" where
  "NewUTF16String s = utf16_encode (runes_of (length s) s)"

definition UTF16String_String :: "UTF16String \<Rightarrow> string" where
  "UTF16String_String u = concat (map encode_rune (utf16_decode u))"

subsection \<open>Conversion to HTML\<close>

text \<open>The builder's contents as the pieces written to it: escaped text, or a link around it.\<close>

datatype piece = Plain UTF16String | Anchor (a_link: string) (a_text: UTF16String)

fun piece_units :: "piece \<Rightarrow> UTF16String" where
  "piece_units (Plain u) = u" | "piece_units (Anchor l u) = u"

fun piece_html :: "(string \<Rightarrow> string) \<Rightarrow> piece \<Rightarrow> string" where
  "piece_html TextToHTML (Plain u) = TextToHTML (UTF16String_String u)"
| "piece_html TextToHTML (Anchor l u) =
     ''<a href='' @ [CHR 0x22] @ l @ [CHR 0x22] @ ''>'' @ TextToHTML (UTF16String_String u) @ ''</a>''"

text \<open>Go's \<^verbatim>\<open>int\<close> addition wraps.\<close>

definition int_add :: "int \<Rightarrow> int \<Rightarrow> int" where
  "int_add a b = sint (word_of_int (a + b) :: int64)"

definition go_units :: "UTF16String \<Rightarrow> int \<Rightarrow> int \<Rightarrow> UTF16String outcome" where
  "go_units u a b = (if 0 \<le> a \<and> a \<le> b \<and> b \<le> int (length u) then Ret (drop (nat a) (take (nat b) u)) else Panic)"

text \<open>\<open>userInfo\<close> is \<open>getBasicUserInfo\<close>: the Matrix user and its link, or an error.\<close>

record mention_state =
  ms_prevEnd :: int
  ms_output :: "piece list"
  ms_mentioned :: "string list"

definition convert_mention ::
  "(UserID \<Rightarrow> (string \<times> string) option) \<Rightarrow> UTF16String \<Rightarrow> Mention \<Rightarrow> mention_state \<Rightarrow> mention_state outcome" where
  "convert_mention userInfo utf16Text mention s =
     (if mn_Offset mention < ms_prevEnd s then Ret s
      else if mn_Offset mention \<ge> int (length utf16Text) then Ret s
      else
        (let end0 = int_add (mn_Offset mention) (mn_Length mention);
             end' = (if end0 > int (length utf16Text) then int (length utf16Text) else end0)
         in if mn_Type mention = MentionTypePerson then
              (case userInfo (MakeUserID (word_of_int (mn_ID mention))) of
                 None \<Rightarrow> Ret s
               | Some (mxid, mentionLink) \<Rightarrow>
                   (let s1 = s\<lparr>ms_mentioned := ms_mentioned s @ [mxid]\<rparr>
                    in if mentionLink = '''' then Ret s1
                       else
                         bind_out (go_units utf16Text (ms_prevEnd s) (mn_Offset mention)) (\<lambda>before.
                         bind_out (go_units utf16Text (mn_Offset mention) end') (\<lambda>name.
                         Ret (s1\<lparr>ms_output := ms_output s @ [Plain before, Anchor mentionLink name], ms_prevEnd := end'\<rparr>)))))
            else Ret s))"

fun convert_mentions ::
  "(UserID \<Rightarrow> (string \<times> string) option) \<Rightarrow> UTF16String \<Rightarrow> Mention list \<Rightarrow> mention_state \<Rightarrow> mention_state outcome" where
  "convert_mentions userInfo utf16Text [] s = Ret s"
| "convert_mentions userInfo utf16Text (m # ms) s =
     bind_out (convert_mention userInfo utf16Text m s) (convert_mentions userInfo utf16Text ms)"

text \<open>\<open>mc_Mentions\<close> lists the users passed to \<open>Mentions.Add\<close>, in order.\<close>

record MessageContent =
  mc_Body :: string
  mc_FormattedBody :: "string option"
  mc_Mentions :: "string list"

definition MetaToMatrixText ::
  "(UserID \<Rightarrow> (string \<times> string) option) \<Rightarrow> (string \<Rightarrow> string) \<Rightarrow> string \<Rightarrow> MentionData option \<Rightarrow> MessageContent outcome" where
  "MetaToMatrixText userInfo TextToHTML text rawMentions =
     (case MentionData_Parse rawMentions of
        Inr (Some mentions) \<Rightarrow>
          (let utf16Text = NewUTF16String text
           in bind_out (convert_mentions userInfo utf16Text mentions \<lparr>ms_prevEnd = 0, ms_output = [], ms_mentioned = []\<rparr>) (\<lambda>s.
              bind_out (go_units utf16Text (ms_prevEnd s) (int (length utf16Text))) (\<lambda>rest.
              Ret \<lparr>mc_Body = text,
                   mc_FormattedBody = Some (concat (map (piece_html TextToHTML) (ms_output s @ [Plain rest]))),
                   mc_Mentions = ms_mentioned s\<rparr>)))
      | _ \<Rightarrow> Ret \<lparr>mc_Body = text, mc_FormattedBody = None, mc_Mentions = []\<rparr>)"

section \<open>Lemmas\<close>

subsection \<open>Lists\<close>

lemma splitn_cuts_join:
  "ss \<noteq> [] \<Longrightarrow> list_all (\<lambda>s. CHR '','' \<notin> set s) ss \<Longrightarrow> length ss \<le> Suc k \<Longrightarrow> splitn_cuts k CHR '','' (join_comma ss) = ss"
proof (induction ss arbitrary: k rule: join_comma.induct)
  case (2 s)
  then show ?case by (cases k) (simp_all add: split_at_None)
next
  case (3 s t ss)
  then obtain j where k: "k = Suc j" by (cases k) auto
  from 3 show ?case by (simp add: k split_at_append)
qed simp

lemma length_join_comma: "length ss \<le> Suc (length (join_comma ss))"
  by (induction ss rule: join_comma.induct) auto

lemma split_all_join: "ss \<noteq> [] \<Longrightarrow> list_all (\<lambda>s. CHR '','' \<notin> set s) ss \<Longrightarrow> split_all (join_comma ss) CHR '','' = ss"
  by (simp add: split_all_def splitn_cuts_join length_join_comma)

lemma format_int_no_comma: "CHR '','' \<notin> set (format_int i)"
proof -
  have "CHR '','' \<noteq> char_of_digit d" if "d < 10" for d
  proof -
    have "digit_of_char (CHR '','') = None" by code_simp
    with digit_of_char_of_digit [OF that] show ?thesis by auto
  qed
  then show ?thesis by (auto simp: format_int_def format_uint_def dest!: digits_of_nat_less)
qed

definition mention_ok :: "Mention \<Rightarrow> bool" where
  "mention_ok m \<longleftrightarrow> (\<forall>i \<in> {mn_ID m, mn_Offset m, mn_Length m}. - (2 ^ 63) \<le> i \<and> i < 2 ^ 63) \<and> CHR '','' \<notin> set (mn_Type m)"

lemma parse_mentions_formatted:
  "list_all mention_ok ms \<Longrightarrow> parse_mentions i (map (\<lambda>x. format_int (mn_ID x)) ms) (map (\<lambda>x. format_int (mn_Offset x)) ms)
     (map (\<lambda>x. format_int (mn_Length x)) ms) (map mn_Type ms) = Inr ms"
  by (induction ms arbitrary: i) (simp_all add: mention_ok_def parse_int_format_int Atoi_def)

lemma MentionData_Parse_ToData:
  assumes "list_all mention_ok ms" and "ms \<noteq> []"
  shows "MentionData_Parse (Some (Mentions_ToData ms)) = Inr (Some (sort_mentions ms))"
proof -
  have ids: "join_comma (map (\<lambda>x. format_int (mn_ID x)) ms) \<noteq> []"
    using assms(2) by (cases ms rule: remdups_adj.cases) (auto simp: format_int_def)
  have split: "split_all (join_comma (map f ms)) CHR '','' = map f ms" if "\<And>x. x \<in> set ms \<Longrightarrow> CHR '','' \<notin> set (f x)" for f
    using assms(2) that by (intro split_all_join) (auto simp: list_all_iff)
  have types: "CHR '','' \<notin> set (mn_Type x)" if "x \<in> set ms" for x
    using assms(1) that by (auto simp: list_all_iff mention_ok_def)
  show ?thesis
    using ids parse_mentions_formatted [OF assms(1)] split [OF types]
    by (simp add: MentionData_Parse_def Mentions_ToData_def split format_int_no_comma Let_def)
qed

subsection \<open>UTF-16\<close>

definition scalar :: "nat \<Rightarrow> bool" where
  "scalar r \<longleftrightarrow> r < 0xD800 \<or> 0xE000 \<le> r \<and> r \<le> 0x10FFFF"

lemma utf16_decode_encode: "list_all scalar rs \<Longrightarrow> utf16_decode (utf16_encode rs) = rs"
proof (induction rs)
  case (Cons r rs)
  then have IH: "utf16_decode (utf16_encode rs) = rs" and r: "scalar r" by simp_all
  show ?case
  proof (cases "r < 0x10000")
    case True
    with r IH show ?thesis by (auto simp: scalar_def)
  next
    case False
    let ?d = "r - 0x10000"
    have d: "?d < 0x100000" using False r by (auto simp: scalar_def)
    then have hi: "?d div 1024 < 1024" by (simp add: div_less_iff_less_mult)
    have "?d div 1024 * 1024 + ?d mod 1024 = ?d" by simp
    with False r IH hi show ?thesis by (simp add: scalar_def)
  qed
qed simp

subsection \<open>Pieces\<close>

definition pieces_ok :: "UTF16String \<Rightarrow> mention_state \<Rightarrow> bool" where
  "pieces_ok u s \<longleftrightarrow> 0 \<le> ms_prevEnd s \<and> ms_prevEnd s \<le> int (length u) \<and>
     concat (map piece_units (ms_output s)) = take (nat (ms_prevEnd s)) u"

definition span_ok :: "Mention \<Rightarrow> bool" where
  "span_ok m \<longleftrightarrow> 0 \<le> mn_Length m \<and> mn_Offset m + mn_Length m < 2 ^ 63"

lemma int_add_small: "- (2 ^ 63) \<le> a + b \<Longrightarrow> a + b < 2 ^ 63 \<Longrightarrow> int_add a b = a + b"
proof -
  have "sint (word_of_int x :: int64) = x" if "- (2 ^ 63) \<le> x" "x < 2 ^ 63" for x
    using that signed_take_bit_int_eq_self [of 63 x] by (simp add: signed_of_int)
  then show "- (2 ^ 63) \<le> a + b \<Longrightarrow> a + b < 2 ^ 63 \<Longrightarrow> int_add a b = a + b" unfolding int_add_def by blast
qed

lemma take_units: "a \<le> b \<Longrightarrow> take a u @ drop a (take b u) = take b u"
  by (metis append_take_drop_id min.absorb_iff1 take_take)

lemma convert_mention_ok:
  assumes "pieces_ok u s" and "span_ok m"
  shows "\<exists>s'. convert_mention userInfo u m s = Ret s' \<and> pieces_ok u s'"
proof (cases "mn_Offset m < ms_prevEnd s \<or> mn_Offset m \<ge> int (length u)")
  case True
  with assms(1) show ?thesis by (auto simp: convert_mention_def)
next
  case False
  define e where "e = (if int_add (mn_Offset m) (mn_Length m) > int (length u) then int (length u) else int_add (mn_Offset m) (mn_Length m))"
  have p: "0 \<le> ms_prevEnd s" "ms_prevEnd s \<le> mn_Offset m" "mn_Offset m < int (length u)"
    using False assms(1) by (auto simp: pieces_ok_def)
  have "int_add (mn_Offset m) (mn_Length m) = mn_Offset m + mn_Length m"
    using p assms(2) by (intro int_add_small) (simp_all add: span_ok_def)
  then have e: "mn_Offset m \<le> e" "e \<le> int (length u)" using p assms(2) by (auto simp: e_def span_ok_def)
  have cut: "take (nat (ms_prevEnd s)) u @ drop (nat (ms_prevEnd s)) (take (nat (mn_Offset m)) u) @
      drop (nat (mn_Offset m)) (take (nat e) u) = take (nat e) u"
    using p e by (simp add: take_units flip: append_assoc)
  have out: "pieces_ok u (s1\<lparr>ms_output := ms_output s @ [Plain (drop (nat (ms_prevEnd s)) (take (nat (mn_Offset m)) u)),
      Anchor l (drop (nat (mn_Offset m)) (take (nat e) u))], ms_prevEnd := e\<rparr>)" for s1 l
    using assms(1) p e cut by (simp add: pieces_ok_def)
  have "go_units u (ms_prevEnd s) (mn_Offset m) = Ret (drop (nat (ms_prevEnd s)) (take (nat (mn_Offset m)) u))"
      "go_units u (mn_Offset m) e = Ret (drop (nat (mn_Offset m)) (take (nat e) u))"
    using p e by (simp_all add: go_units_def)
  with False out assms(1) show ?thesis
    unfolding convert_mention_def Let_def e_def [symmetric] by (auto simp: pieces_ok_def split: option.split)
qed

lemma convert_mentions_ok:
  "pieces_ok u s \<Longrightarrow> list_all span_ok ms \<Longrightarrow> \<exists>s'. convert_mentions userInfo u ms s = Ret s' \<and> pieces_ok u s'"
proof (induction ms arbitrary: s)
  case (Cons m ms)
  from convert_mention_ok [OF Cons.prems(1), of m userInfo] Cons.prems(2) obtain s1
    where "convert_mention userInfo u m s = Ret s1" "pieces_ok u s1" by auto
  with Cons.IH [of s1] Cons.prems(2) show ?case by simp
qed simp

section \<open>Properties\<close>

text \<open>
  C34. Mentions with non-negative lengths that do not overflow never panic the conversion and never change the text:
  the pieces of the formatted body, the plain ones and those inside links, put together
  are exactly the UTF-16 text of the message, whatever mentions overlap, lie outside the text or name unknown users.
\<close>

theorem mentions_keep_the_text:
  assumes "MentionData_Parse raw = Inr (Some ms)" and "list_all span_ok ms"
  shows "\<exists>ps users. MetaToMatrixText userInfo TextToHTML text raw =
      Ret \<lparr>mc_Body = text, mc_FormattedBody = Some (concat (map (piece_html TextToHTML) ps)), mc_Mentions = users\<rparr> \<and>
    concat (map piece_units ps) = NewUTF16String text"
proof -
  let ?u = "NewUTF16String text" and ?s0 = "\<lparr>ms_prevEnd = 0, ms_output = [], ms_mentioned = []\<rparr>"
  have "pieces_ok ?u ?s0" by (simp add: pieces_ok_def)
  from convert_mentions_ok [OF this assms(2), of userInfo] obtain s
    where s: "convert_mentions userInfo ?u ms ?s0 = Ret s" "pieces_ok ?u s" by blast
  let ?rest = "drop (nat (ms_prevEnd s)) ?u"
  have "go_units ?u (ms_prevEnd s) (int (length ?u)) = Ret ?rest"
    using s(2) by (simp add: go_units_def pieces_ok_def)
  with s assms(1) show ?thesis
    by (intro exI [of _ "ms_output s @ [Plain ?rest]"] exI [of _ "ms_mentioned s"])
      (simp add: MetaToMatrixText_def pieces_ok_def Let_def)
qed

theorem mentions_keep_the_text_witness:
  "\<exists>ps users. MetaToMatrixText (\<lambda>_. Some (''@a:b'', ''https://matrix.to/'')) id ''hi Ann''
      (Some (Mentions_ToData [\<lparr>mn_ID = 5, mn_Offset = 3, mn_Length = 3, mn_Type = ''p''\<rparr>])) =
      Ret \<lparr>mc_Body = ''hi Ann'', mc_FormattedBody = Some (concat (map (piece_html id) ps)), mc_Mentions = users\<rparr> \<and>
    concat (map piece_units ps) = NewUTF16String ''hi Ann''"
proof (rule mentions_keep_the_text)
  show "MentionData_Parse (Some (Mentions_ToData [\<lparr>mn_ID = 5, mn_Offset = 3, mn_Length = 3, mn_Type = ''p''\<rparr>])) =
      Inr (Some [\<lparr>mn_ID = 5, mn_Offset = 3, mn_Length = 3, mn_Type = ''p''\<rparr>])"
    by (subst MentionData_Parse_ToData) (simp_all add: mention_ok_def sort_mentions_def)
qed (simp add: span_ok_def)

text \<open>
  C38. A mention of a known person with a negative length, which the parser accepts, panics the
  conversion of the message.
\<close>

theorem negative_mention_length_panics:
  assumes "- (2 ^ 63) \<le> i" "i < 2 ^ 63" and "userInfo (MakeUserID (word_of_int i)) = Some (mxid, link)" and "link \<noteq> ''''"
    and "0 \<le> off" and "off < int (length (NewUTF16String text))" and "off < 2 ^ 63" and "- (2 ^ 63) \<le> len" and "len < 0"
  shows "MetaToMatrixText userInfo TextToHTML text
      (Some (Mentions_ToData [\<lparr>mn_ID = i, mn_Offset = off, mn_Length = len, mn_Type = MentionTypePerson\<rparr>])) = Panic"
proof -
  let ?m = "\<lparr>mn_ID = i, mn_Offset = off, mn_Length = len, mn_Type = MentionTypePerson\<rparr>"
  have "mention_ok ?m" using assms by (auto simp: mention_ok_def MentionTypePerson_def)
  then have parse: "MentionData_Parse (Some (Mentions_ToData [?m])) = Inr (Some [?m])"
    by (subst MentionData_Parse_ToData) (simp_all add: sort_mentions_def)
  have add: "int_add off len = off + len" using assms by (intro int_add_small) simp_all
  have "go_units (NewUTF16String text) 0 off = Ret (take (nat off) (NewUTF16String text))"
    using assms(5,6) by (simp add: go_units_def)
  then have "convert_mention userInfo (NewUTF16String text) ?m \<lparr>ms_prevEnd = 0, ms_output = [], ms_mentioned = []\<rparr> = Panic"
    using assms(3-6,9) by (simp add: convert_mention_def add Let_def go_units_def)
  then show ?thesis unfolding MetaToMatrixText_def parse by (simp add: Let_def)
qed

theorem negative_mention_length_panics_witness:
  "MetaToMatrixText (\<lambda>_. Some (''@a:b'', ''https://matrix.to/'')) id ''hi''
     (Some (Mentions_ToData [\<lparr>mn_ID = 5, mn_Offset = 1, mn_Length = - 1, mn_Type = MentionTypePerson\<rparr>])) = Panic"
proof (rule negative_mention_length_panics [where mxid = "''@a:b''" and link = "''https://matrix.to/''"])
  have "length (NewUTF16String ''hi'') = 2" by (simp add: NewUTF16String_def decode_rune.simps code_def)
  then show "1 < int (length (NewUTF16String ''hi''))" by simp
qed simp_all

text \<open>
  Mentions that were serialised are parsed back, in order of their offsets: the result is a
  permutation of the list, sorted by offset. And the UTF-16 text of any Unicode text decodes to that text.
\<close>

theorem mentions_roundtrip:
  assumes "list_all mention_ok ms" and "ms \<noteq> []" and "list_all scalar rs"
  shows "\<exists>ms'. MentionData_Parse (Some (Mentions_ToData ms)) = Inr (Some ms') \<and>
      mset ms' = mset ms \<and> sorted (map mn_Offset ms') \<and> utf16_decode (utf16_encode rs) = rs"
  using MentionData_Parse_ToData [OF assms(1,2)] utf16_decode_encode [OF assms(3)] by (simp add: sort_mentions_def)

theorem mentions_roundtrip_witness:
  "\<exists>ms'. MentionData_Parse (Some (Mentions_ToData [\<lparr>mn_ID = 5, mn_Offset = 7, mn_Length = 3, mn_Type = ''p''\<rparr>,
        \<lparr>mn_ID = 6, mn_Offset = 2, mn_Length = 1, mn_Type = ''t''\<rparr>])) = Inr (Some ms') \<and>
      mset ms' = {#\<lparr>mn_ID = 5, mn_Offset = 7, mn_Length = 3, mn_Type = ''p''\<rparr>, \<lparr>mn_ID = 6, mn_Offset = 2, mn_Length = 1, mn_Type = ''t''\<rparr>#} \<and>
      sorted (map mn_Offset ms') \<and> utf16_decode (utf16_encode [0x41, 0x1F600]) = [0x41, 0x1F600]"
  using mentions_roundtrip [of "[\<lparr>mn_ID = 5, mn_Offset = 7, mn_Length = 3, mn_Type = ''p''\<rparr>,
        \<lparr>mn_ID = 6, mn_Offset = 2, mn_Length = 1, mn_Type = ''t''\<rparr>]" "[0x41, 0x1F600]"]
  by (simp add: mention_ok_def scalar_def del: utf16_encode.simps)

end
