(* ===== verification/Methods.thy ===== *)
theory Methods
  imports Go_Base64 Go_Json
begin

text \<open>
  \<^verbatim>\<open>methods/methods.go\<close>: the identifiers the client generates and the identifiers of Facebook messages. The clock
  and the random source are arguments.
\<close>

section \<open>Model\<close>

subsection \<open>Epoch and session identifiers\<close>

record epoch_state =
  lastTimestamp :: int64
  counter :: int64

definition GenerateEpochID :: "int64 \<Rightarrow> epoch_state \<Rightarrow> int64 \<times> epoch_state" where
  "GenerateEpochID timestamp s =
     (let s' = (if timestamp = lastTimestamp s then s\<lparr>counter := counter s + 1\<rparr>
                else s\<lparr>lastTimestamp := timestamp, counter := 0\<rparr>)
      in (push_bit 22 timestamp OR push_bit 12 (counter s') OR 42, s'))"

definition GenerateTimestampString :: "int64 \<Rightarrow> string" where
  "GenerateTimestampString now = format_int (sint now)"

definition GenerateSessionID :: "(int \<Rightarrow> int) \<Rightarrow> int" where
  "GenerateSessionID int63n =
     (let min = 2171078810009599; max = 4613554604867583 in int63n (max - min + 1) + min)"

text \<open>The random strings and the bytes of the UUID are arguments.\<close>

definition to_lower :: "string \<Rightarrow> string" where
  "to_lower = map (\<lambda>c. if code CHR ''A'' \<le> code c \<and> code c \<le> code CHR ''Z'' then char_of (code c + 32) else c)"

definition GenerateWebsessionID :: "bool \<Rightarrow> string \<Rightarrow> string \<Rightarrow> string \<Rightarrow> string" where
  "GenerateWebsessionID loggedIn r1 r2 r3 =
     to_lower (if loggedIn then r1 @ '':'' @ r2 @ '':'' @ r3 else '':'' @ r1 @ '':'' @ r2)"

definition GenerateTraceID :: "bytes \<Rightarrow> string" where
  "GenerateTraceID uuid = ''#'' @ EncodeToString RawURLEncoding uuid"

definition GenerateMachineID :: "string \<Rightarrow> string" where
  "GenerateMachineID r = to_lower r"

subsection \<open>Message identifiers\<close>

definition MetaEpochMS :: int where "MetaEpochMS = 1072915200000"

text \<open>The time is the number of milliseconds the code takes of it.\<close>

record MetaMessageID =
  mm_ChatType :: nat
  mm_ChatID :: int64
  mm_Time :: int64
  mm_TxnID :: int64

definition put_at :: "nat \<Rightarrow> bytes \<Rightarrow> bytes \<Rightarrow> bytes" where
  "put_at i bs body = take i body @ bs @ drop (i + length bs) body"

definition MetaMessageID_String :: "MetaMessageID option \<Rightarrow> string" where
  "MetaMessageID_String mmi =
     (case mmi of
        None \<Rightarrow> ''''
      | Some m \<Rightarrow>
          (let body = replicate 21 0;
               body = put_at 5 (be_of 8 (unat (mm_Time m - word_of_int MetaEpochMS))) body;
               body = put_at 0 (be_of 8 (unat (mm_ChatID m))) body;
               body = put_at 13 (be_of 8 (unat (mm_TxnID m))) body
           in ''mid.$'' @ encode_rune (mm_ChatType m) @ EncodeToString RawURLEncoding body))"

datatype mid_error = InvalidPrefix | DecodeFailed | UnexpectedLength nat

definition ParseMessageIDFull :: "string \<Rightarrow> mid_error + MetaMessageID" where
  "ParseMessageIDFull messageID =
     (if \<not> has_prefix messageID ''mid.$'' \<or> length messageID < 6 then Inl InvalidPrefix
      else
        (case DecodeString RawURLEncoding (drop 6 messageID) of
           None \<Rightarrow> Inl DecodeFailed
         | Some payload \<Rightarrow>
             if length payload \<noteq> 21 then Inl (UnexpectedLength (length payload))
             else
               (let timestampBuf = replicate 3 0 @ take 5 (drop 8 payload)
                in Inr \<lparr>mm_ChatType = code (messageID ! 5), mm_ChatID = word_of_nat (be_to (take 8 payload)),
                        mm_Time = word_of_nat (be_to timestampBuf) + word_of_int MetaEpochMS,
                        mm_TxnID = word_of_nat (be_to (take 8 (drop 13 payload)))\<rparr>)))"

definition ParseMessageID_time :: "string \<Rightarrow> mid_error + int64" where
  "ParseMessageID_time messageID =
     (case ParseMessageIDFull messageID of Inl e \<Rightarrow> Inl e | Inr ident \<Rightarrow> Inr (mm_Time ident))"

section \<open>Lemmas\<close>

subsection \<open>Epoch identifiers\<close>

fun epoch_ids :: "epoch_state \<Rightarrow> int64 list \<Rightarrow> int64 list" where
  "epoch_ids s [] = []"
| "epoch_ids s (t # ts) = (case GenerateEpochID t s of (i, s') \<Rightarrow> i # epoch_ids s' ts)"

lemma nat_or_low:
  fixes a b :: nat
  assumes "b < 2 ^ n"
  shows "(a * 2 ^ n) OR b = a * 2 ^ n + b"
proof -
  have "take_bit n b = b" using assms by (simp add: take_bit_nat_eq_self_iff)
  then have "\<not> bit b m" if "n \<le> m" for m using that by (metis bit_take_bit_iff not_less)
  then have "push_bit n a AND b = 0"
    by (auto simp: bit_eq_iff bit_and_iff bit_push_bit_iff)
  then show ?thesis by (simp add: disjunctive_add_eq_or [symmetric] push_bit_eq_mult)
qed

lemma unat_shift64:
  fixes w :: int64
  assumes "unat w * 2 ^ n < 2 ^ 64"
  shows "unat (push_bit n w) = unat w * 2 ^ n"
  using assms by (simp add: unsigned_push_bit_eq [where n = n] push_bit_eq_mult [where 'a = nat] take_bit_nat_eq_self_iff)

lemma epoch_id_unat:
  fixes t c :: int64
  assumes "unat t < 2 ^ 41" and "unat c < 1024"
  shows "unat (push_bit 22 t OR push_bit 12 c OR 42) = unat t * 2 ^ 22 + unat c * 2 ^ 12 + 42"
proof -
  have t: "unat (push_bit 22 t) = unat t * 2 ^ 22" by (rule unat_shift64) (use assms(1) in simp)
  have c: "unat (push_bit 12 c) = unat c * 2 ^ 12" by (rule unat_shift64) (use assms(2) in simp)
  have "unat (push_bit 22 t OR push_bit 12 c OR 42) = unat (push_bit 22 t) OR unat (push_bit 12 c) OR unat (42 :: int64)"
    by (simp only: unsigned_or_eq)
  also have "\<dots> = unat t * 2 ^ 22 OR (unat c * 2 ^ 12 OR 42)"
    by (simp only: t c) simp
  also have "unat c * 2 ^ 12 OR 42 = unat c * 2 ^ 12 + 42"
    by (rule nat_or_low) simp
  also have "unat t * 2 ^ 22 OR (unat c * 2 ^ 12 + 42) = unat t * 2 ^ 22 + (unat c * 2 ^ 12 + 42)"
    by (rule nat_or_low) (use assms(2) in simp)
  finally show ?thesis by simp
qed

text \<open>The clock does not go back, stays below the year 2039, and gives a millisecond at most 1024 times.\<close>

definition clock_ok :: "epoch_state \<Rightarrow> int64 list \<Rightarrow> bool" where
  "clock_ok s ts \<longleftrightarrow>
     sorted (map unat (lastTimestamp s # ts)) \<and> (\<forall>t \<in> set ts. unat t < 2 ^ 41) \<and>
     unat (counter s) + count_list ts (lastTimestamp s) < 1024 \<and>
     (\<forall>t \<in> set ts. t \<noteq> lastTimestamp s \<longrightarrow> count_list ts t \<le> 1024)"

definition epoch_value :: "epoch_state \<Rightarrow> nat" where
  "epoch_value s = unat (lastTimestamp s) * 2 ^ 22 + unat (counter s) * 2 ^ 12 + 42"

lemma GenerateEpochID_step:
  assumes "clock_ok s (t # ts)" and gen: "GenerateEpochID t s = (i, s')"
  shows "clock_ok s' ts" and "unat i = epoch_value s'" and "epoch_value s < epoch_value s'"
proof -
  have t: "unat t < 2 ^ 41" "unat (lastTimestamp s) \<le> unat t" using assms(1) by (auto simp: clock_ok_def)
  have c: "unat (counter s) < 1024" using assms(1) by (simp add: clock_ok_def)
  have i: "i = push_bit 22 t OR push_bit 12 (counter s') OR 42" "lastTimestamp s' = t"
    using gen by (auto simp: GenerateEpochID_def Let_def split: if_splits)
  show "clock_ok s' ts"
  proof (cases "t = lastTimestamp s")
    case True
    then have s': "s' = s\<lparr>counter := counter s + 1\<rparr>" using gen by (simp add: GenerateEpochID_def Let_def)
    have "unat (counter s + 1) = unat (counter s) + 1" using c by (simp add: unat_word_ariths)
    with True assms(1) show ?thesis by (auto simp: s' clock_ok_def)
  next
    case False
    then have s': "s' = s\<lparr>lastTimestamp := t, counter := 0\<rparr>" using gen by (auto simp: GenerateEpochID_def Let_def)
    from False assms(1) show ?thesis by (fastforce simp: s' clock_ok_def split: if_splits)
  qed
  then have "unat (counter s') < 1024" by (simp add: clock_ok_def)
  then show "unat i = epoch_value s'" using epoch_id_unat [of t "counter s'"] t(1) by (simp add: i epoch_value_def)
  show "epoch_value s < epoch_value s'"
  proof (cases "t = lastTimestamp s")
    case True
    then have "counter s' = counter s + 1" using gen by (auto simp: GenerateEpochID_def Let_def)
    moreover have "unat (counter s + 1) = unat (counter s) + 1" using c by (simp add: unat_word_ariths)
    ultimately show ?thesis using True i(2) by (simp add: epoch_value_def)
  next
    case False
    then have "unat (lastTimestamp s) < unat t" using t(2) by (simp add: word_unat_eq_iff)
    then have "(unat (lastTimestamp s) + 1) * 2 ^ 22 \<le> unat t * 2 ^ 22" by (intro mult_le_mono1) simp
    with c show ?thesis by (simp add: epoch_value_def i(2))
  qed
qed

lemma epoch_ids_increasing:
  "clock_ok s ts \<Longrightarrow> sorted_wrt (<) (map unat (epoch_ids s ts)) \<and> (\<forall>i \<in> set (epoch_ids s ts). epoch_value s < unat i)"
proof (induction ts arbitrary: s)
  case (Cons t ts)
  obtain i s' where gen: "GenerateEpochID t s = (i, s')" by (cases "GenerateEpochID t s")
  note step = GenerateEpochID_step [OF Cons.prems gen]
  from Cons.IH [OF step(1)] step(2,3) gen show ?case by fastforce
qed simp

subsection \<open>Message identifiers\<close>

lemma be_to_zeros: "be_to (replicate n 0 @ bs) = be_to bs"
  by (induction n) (simp_all add: be_to_def)

lemma drop_be_of: "k \<le> n \<Longrightarrow> x < 256 ^ k \<Longrightarrow> be_of n x = replicate (n - k) 0 @ be_of k x"
proof -
  assume "k \<le> n" "x < 256 ^ k"
  then have "be_to (replicate (n - k) 0 @ be_of k x) = x" by (simp add: be_to_zeros be_to_be_of)
  moreover have "length (replicate (n - k) 0 @ be_of k x) = n" using \<open>k \<le> n\<close> by simp
  ultimately show ?thesis using be_of_be_to [of "replicate (n - k) 0 @ be_of k x" n] by simp
qed

lemma message_body:
  assumes "t < 2 ^ 40"
  shows "put_at 13 (be_of 8 x) (put_at 0 (be_of 8 c) (put_at 5 (be_of 8 t) (replicate 21 0))) =
    be_of 8 c @ be_of 5 t @ be_of 8 x"
proof -
  have "be_of 8 t = replicate 3 0 @ be_of 5 t" using drop_be_of [of 5 8 t] assms by simp
  then show ?thesis by (simp add: put_at_def del: be_of.simps)
qed

lemma word_of_be: "word_of_nat (be_to (be_of 8 (unat (w :: int64)))) = w"
proof -
  have "unat w < 2 ^ 64" using unsigned_less [of w] by simp
  then show ?thesis by (simp add: be_to_be_of mod_less del: be_of.simps)
qed

lemma ParseMessageIDFull_String:
  assumes "mm_ChatType m < 128" and "unat (mm_Time m - word_of_int MetaEpochMS) < 2 ^ 40"
  shows "ParseMessageIDFull (MetaMessageID_String (Some m)) = Inr m"
proof -
  let ?t = "mm_Time m - word_of_int MetaEpochMS"
  let ?body = "be_of 8 (unat (mm_ChatID m)) @ be_of 5 (unat ?t) @ be_of 8 (unat (mm_TxnID m))"
  have s: "MetaMessageID_String (Some m) = ''mid.$'' @ [char_of (mm_ChatType m)] @ EncodeToString RawURLEncoding ?body"
    using assms(1) by (simp add: MetaMessageID_String_def message_body [OF assms(2)] encode_rune_def Let_def del: be_of.simps)
  have "be_to (replicate 3 0 @ be_of 5 (unat ?t)) = unat ?t"
    using assms(2) by (simp add: be_to_zeros be_to_be_of mod_less del: be_of.simps)
  then have time: "word_of_nat (be_to (replicate 3 0 @ be_of 5 (unat ?t))) + word_of_int MetaEpochMS = mm_Time m" by simp
  have code: "code (char_of (mm_ChatType m)) = mm_ChatType m" using assms(1) by (simp add: code_def)
  show ?thesis
    unfolding s using b64url.parse_print [of ?body] time
    by (simp add: ParseMessageIDFull_def has_prefix_def code word_of_be del: be_of.simps)
qed

interpretation meta_message_ids: print_parse "\<lambda>m. MetaMessageID_String (Some m)"
    "\<lambda>s. case ParseMessageIDFull s of Inr m \<Rightarrow> Some m | Inl _ \<Rightarrow> None"
    "\<lambda>m. mm_ChatType m < 128 \<and> unat (mm_Time m - word_of_int MetaEpochMS) < 2 ^ 40"
  by unfold_locales (simp add: ParseMessageIDFull_String)

section \<open>Properties\<close>

text \<open>
  C37. Epoch identifiers are strictly increasing, hence never repeated, while the clock does not go back,
  gives a millisecond at most 1024 times (the ten bits of the counter) and stays below \<open>2 ^ 41\<close>.
\<close>

theorem epoch_ids_strictly_increase:
  assumes "clock_ok s ts"
  shows "sorted_wrt (<) (map unat (epoch_ids s ts)) \<and> distinct (epoch_ids s ts)"
  using epoch_ids_increasing [OF assms] strict_sorted_iff [of "map unat (epoch_ids s ts)"]
  by (simp add: distinct_map)

theorem epoch_ids_strictly_increase_witness:
  "sorted_wrt (<) (map unat (epoch_ids \<lparr>lastTimestamp = 0, counter = 0\<rparr> [1735689600000, 1735689600000, 1735689600001])) \<and>
   distinct (epoch_ids \<lparr>lastTimestamp = 0, counter = 0\<rparr> [1735689600000, 1735689600000, 1735689600001])"
  by (rule epoch_ids_strictly_increase) (simp add: clock_ok_def)

text \<open>
  A Facebook message identifier is parsed back to the chat type, chat, time and transaction it was made
  from, for an ASCII chat type and a time within the forty bits the format has, counted from the epoch
  of the service. The writing order matters: the time is written first and its high bytes are covered by the chat.
\<close>

theorem meta_message_id_roundtrip:
  assumes "mm_ChatType m < 128" and "unat (mm_Time m - word_of_int MetaEpochMS) < 2 ^ 40"
  shows "ParseMessageIDFull (MetaMessageID_String (Some m)) = Inr m \<and>
    ParseMessageID_time (MetaMessageID_String (Some m)) = Inr (mm_Time m)"
  using ParseMessageIDFull_String [OF assms] by (simp add: ParseMessageID_time_def)

theorem meta_message_id_roundtrip_witness:
  "ParseMessageIDFull (MetaMessageID_String (Some \<lparr>mm_ChatType = 99, mm_ChatID = 7, mm_Time = 1735689600000, mm_TxnID = - 1\<rparr>)) =
    Inr \<lparr>mm_ChatType = 99, mm_ChatID = 7, mm_Time = 1735689600000, mm_TxnID = - 1\<rparr>"
  using meta_message_id_roundtrip [of "\<lparr>mm_ChatType = 99, mm_ChatID = 7, mm_Time = 1735689600000, mm_TxnID = - 1\<rparr>"]
  by (simp add: MetaEpochMS_def)

end
