(* ===== verification/Tasks.thy ===== *)
theory Tasks
  imports Mentions Methods "HOL-Library.AList" "HOL-Library.List_Lexorder" "HOL-Library.Char_ord"
begin

text \<open>
  \<^verbatim>\<open>pkg/messagix/socket\<close>: the task structs a client sends, as records with the JSON document \<^verbatim>\<open>encoding/json\<close> makes of
  them, their labels and their queues. A nil slice or pointer is \<open>None\<close>; a field of type \<^verbatim>\<open>any\<close> is the JSON value
  stored in it; the clock is the argument \<open>now\<close>, in milliseconds.
\<close>

section \<open>Encoding\<close>

definition j_int :: "'a::len word \<Rightarrow> json" where
  "j_int n = JNum (format_int (sint n))"

definition j_slice :: "('a \<Rightarrow> json) \<Rightarrow> 'a list option \<Rightarrow> json" where
  "j_slice f xs = (case xs of None \<Rightarrow> JNull | Some ys \<Rightarrow> JArr (map f ys))"

definition j_ptr :: "('a \<Rightarrow> json) \<Rightarrow> 'a option \<Rightarrow> json" where
  "j_ptr f x = (case x of None \<Rightarrow> JNull | Some y \<Rightarrow> f y)"

text \<open>A map is printed in the order of its keys.\<close>

definition j_int_map :: "(string \<times> int64) list option \<Rightarrow> json" where
  "j_int_map m = (case m of None \<Rightarrow> JNull
     | Some kvs \<Rightarrow> JObj (map (\<lambda>(k, v). (k, j_int v)) (sort_key fst (AList.clearjunk kvs))))"

definition omit_if :: "bool \<Rightarrow> 'a \<Rightarrow> 'a list" where
  "omit_if b x = (if b then [] else [x])"

section \<open>Labels (task.go)\<close>

definition TaskLabels :: "(string \<times> string) list" where
  "TaskLabels =
    [(''UpdatePresence'', ''3''), (''ThreadMarkRead'', ''21''), (''AddParticipantsTask'', ''23''),
     (''UpdateAdminTask'', ''25''), (''SendReactionTask'', ''29''), (''SearchUserTask'', ''30''),
     (''SearchUserSecondaryTask'', ''31''), (''RenameThreadTask'', ''32''), (''DeleteMessageTask'', ''33''),
     (''SetThreadImageTask'', ''37''), (''SendMessageTask'', ''46''), (''ReportAppStateTask'', ''123''),
     (''CreateGroupTask'', ''130''), (''RemoveParticipantTask'', ''140''), (''MuteThreadTask'', ''144''),
     (''FetchThreadsTask'', ''145''), (''DeleteThreadTask'', ''146''), (''DeleteMessageMeOnlyTask'', ''155''),
     (''CreatePollTask'', ''163''), (''UpdatePollTask'', ''164''), (''GetContactsFullTask'', ''207''),
     (''CreateThreadTask'', ''209''), (''FetchMessagesTask'', ''228''), (''FetchCommunityMemberList'', ''355''),
     (''CreateWhatsAppThreadTask'', ''388''), (''GetContactsTask'', ''452''), (''CommunityThreadHoleDetection'',
     ''501''), (''FetchReactionsV2UserList'', ''577''), (''SendReactionV2'', ''604''),
     (''DeleteCommunitySubThread'', ''639''), (''CreateCommunitySubThread'', ''665''),
     (''FetchAdditionalThreadData'', ''733''), (''EditMessageTask'', ''742'')]"

text \<open>A missing key of a Go map gives the empty string.\<close>

definition label_of :: "string \<Rightarrow> string" where
  "label_of k = (case map_of TaskLabels k of Some l \<Rightarrow> l | None \<Rightarrow> '''')"

section \<open>Task structs\<close>

definition MentionData_json :: "MentionData \<Rightarrow> json" where
  "MentionData_json t = JObj
    [(''mention_ids'', JStr (md_MentionIDs t)), (''mention_offsets'', JStr (md_MentionOffsets t)),
     (''mention_lengths'', JStr (md_MentionLengths t)), (''mention_types'', JStr (md_MentionTypes t))]"

record ReplyMetaData =
  rmd_ReplyMessageId :: string
  rmd_ReplySourceType :: int64
  rmd_ReplyType :: int64
  rmd_ReplySender :: int64

definition ReplyMetaData_json :: "ReplyMetaData \<Rightarrow> json" where
  "ReplyMetaData_json t = JObj
    ([(''reply_source_id'', JStr (rmd_ReplyMessageId t)), (''reply_source_type'', j_int (rmd_ReplySourceType t)),
      (''reply_type'', j_int (rmd_ReplyType t))])"

record CreateGroupPayload =
  cgp_ThreadID :: int64
  cgp_OTID :: string
  cgp_Source :: int64
  cgp_SendType :: int64

definition CreateGroupPayload_json :: "CreateGroupPayload \<Rightarrow> json" where
  "CreateGroupPayload_json t = JObj
    ([(''thread_id'', j_int (cgp_ThreadID t)), (''otid'', JStr (cgp_OTID t)), (''source'', j_int (cgp_Source t)),
      (''send_type'', j_int (cgp_SendType t))])"

record SendMessageTask =
  smt_ThreadId :: int64
  smt_Otid :: int64
  smt_Source :: int64
  smt_SendType :: int64
  smt_AttachmentFBIds :: "int64 list option"
  smt_SyncGroup :: int64
  smt_ReplyMetaData :: "ReplyMetaData option"
  smt_MentionData :: "MentionData option"
  smt_Text :: string
  smt_HotEmojiSize :: "32 word"
  smt_StickerId :: int64
  smt_InitiatingSource :: int64
  smt_SkipUrlPreviewGen :: "32 word"
  smt_TextHasLinks :: "32 word"
  smt_StripForwardedMsgCaption :: "32 word"
  smt_ForwardedMsgId :: string
  smt_MultiTabEnv :: "32 word"
  smt_Url :: string
  smt_AttributionAppId :: int64

definition SendMessageTask_json :: "SendMessageTask \<Rightarrow> json" where
  "SendMessageTask_json t = JObj
    ([(''thread_id'', j_int (smt_ThreadId t)), (''otid'', JStr (format_int (sint (smt_Otid t)))), (''source'',
      j_int (smt_Source t)), (''send_type'', j_int (smt_SendType t))] @
     omit_if (smt_AttachmentFBIds t \<in> {None, Some []}) (''attachment_fbids'', j_slice j_int
      (smt_AttachmentFBIds t)) @
     [(''sync_group'', j_int (smt_SyncGroup t))] @
     omit_if (smt_ReplyMetaData t = None) (''reply_metadata'', j_ptr ReplyMetaData_json (smt_ReplyMetaData t)) @
     omit_if (smt_MentionData t = None) (''mention_data'', j_ptr MentionData_json (smt_MentionData t)) @
     omit_if (smt_Text t = '''') (''text'', JStr (smt_Text t)) @
     omit_if (smt_HotEmojiSize t = 0) (''hot_emoji_size'', j_int (smt_HotEmojiSize t)) @
     omit_if (smt_StickerId t = 0) (''sticker_id'', j_int (smt_StickerId t)) @
     omit_if (smt_InitiatingSource t = 0) (''initiating_source'', j_int (smt_InitiatingSource t)) @
     [(''skip_url_preview_gen'', j_int (smt_SkipUrlPreviewGen t)), (''text_has_links'', j_int (smt_TextHasLinks
      t))] @
     omit_if (smt_StripForwardedMsgCaption t = 0) (''strip_forwarded_msg_caption'', j_int
      (smt_StripForwardedMsgCaption t)) @
     omit_if (smt_ForwardedMsgId t = '''') (''forwarded_msg_id'', JStr (smt_ForwardedMsgId t)) @
     [(''multitab_env'', j_int (smt_MultiTabEnv t))] @
     omit_if (smt_Url t = '''') (''url'', JStr (smt_Url t)) @
     omit_if (smt_AttributionAppId t = 0) (''attribution_app_id'', j_int (smt_AttributionAppId t)))"

record CreatePollTask =
  cpt_QuestionText :: string
  cpt_ThreadKey :: int64
  cpt_Options :: "string list option"
  cpt_SyncGroup :: int64

definition CreatePollTask_json :: "CreatePollTask \<Rightarrow> json" where
  "CreatePollTask_json t = JObj
    ([(''question_text'', JStr (cpt_QuestionText t)), (''thread_key'', j_int (cpt_ThreadKey t)), (''options'',
      j_slice JStr (cpt_Options t)), (''sync_group'', j_int (cpt_SyncGroup t))])"

record UpdatePollTask =
  upt_ThreadKey :: int64
  upt_PollID :: int64
  upt_AddedOptions :: "(string \<times> int64) list option list option"
  upt_SelectedOptions :: "int64 list option"
  upt_SyncGroup :: int64

definition UpdatePollTask_json :: "UpdatePollTask \<Rightarrow> json" where
  "UpdatePollTask_json t = JObj
    ([(''thread_key'', j_int (upt_ThreadKey t)), (''poll_id'', j_int (upt_PollID t)), (''added_options'', j_slice
      j_int_map (upt_AddedOptions t)), (''selected_options'', j_slice j_int (upt_SelectedOptions t)),
      (''sync_group'', j_int (upt_SyncGroup t))])"

record ThreadMarkReadTask =
  tmrt_ThreadId :: int64
  tmrt_LastReadWatermarkTs :: int64
  tmrt_SyncGroup :: int64

definition ThreadMarkReadTask_json :: "ThreadMarkReadTask \<Rightarrow> json" where
  "ThreadMarkReadTask_json t = JObj
    ([(''thread_id'', j_int (tmrt_ThreadId t)), (''last_read_watermark_ts'', j_int (tmrt_LastReadWatermarkTs t)),
      (''sync_group'', j_int (tmrt_SyncGroup t))])"

record FetchMessagesTask =
  fmt_ThreadKey :: int64
  fmt_Direction :: int64
  fmt_ReferenceTimestampMs :: int64
  fmt_ReferenceMessageId :: string
  fmt_SyncGroup :: int64
  fmt_Cursor :: string

definition FetchMessagesTask_json :: "FetchMessagesTask \<Rightarrow> json" where
  "FetchMessagesTask_json t = JObj
    ([(''thread_key'', j_int (fmt_ThreadKey t)), (''direction'', j_int (fmt_Direction t)),
      (''reference_timestamp_ms'', j_int (fmt_ReferenceTimestampMs t)), (''reference_message_id'', JStr
      (fmt_ReferenceMessageId t)), (''sync_group'', j_int (fmt_SyncGroup t)), (''cursor'', JStr (fmt_Cursor t))])"

record MuteThreadTask =
  mtt_ThreadKey :: int64
  mtt_MailboxType :: int64
  mtt_MuteExpireTimeMS :: int64
  mtt_SyncGroup :: int64

definition MuteThreadTask_json :: "MuteThreadTask \<Rightarrow> json" where
  "MuteThreadTask_json t = JObj
    ([(''thread_key'', j_int (mtt_ThreadKey t)), (''mailbox_type'', j_int (mtt_MailboxType t)),
      (''mute_expire_time_ms'', j_int (mtt_MuteExpireTimeMS t)), (''sync_group'', j_int (mtt_SyncGroup t))])"

record RenameThreadTask =
  rtt_ThreadKey :: int64
  rtt_ThreadName :: string
  rtt_SyncGroup :: int64

definition RenameThreadTask_json :: "RenameThreadTask \<Rightarrow> json" where
  "RenameThreadTask_json t = JObj
    ([(''thread_key'', j_int (rtt_ThreadKey t)), (''thread_name'', JStr (rtt_ThreadName t)), (''sync_group'', j_int
      (rtt_SyncGroup t))])"

record SetThreadImageTask =
  stit_ThreadKey :: int64
  stit_ImageID :: int64
  stit_SyncGroup :: int64

definition SetThreadImageTask_json :: "SetThreadImageTask \<Rightarrow> json" where
  "SetThreadImageTask_json t = JObj
    ([(''thread_key'', j_int (stit_ThreadKey t)), (''image_id'', j_int (stit_ImageID t)), (''sync_group'', j_int
      (stit_SyncGroup t))])"

record EditMessageTask =
  emt_MessageID :: string
  emt_Text :: string

definition EditMessageTask_json :: "EditMessageTask \<Rightarrow> json" where
  "EditMessageTask_json t = JObj
    ([(''message_id'', JStr (emt_MessageID t)), (''text'', JStr (emt_Text t))])"

record UpdateAdminTask =
  uat_ThreadKey :: int64
  uat_ContactID :: int64
  uat_IsAdmin :: int64

definition UpdateAdminTask_json :: "UpdateAdminTask \<Rightarrow> json" where
  "UpdateAdminTask_json t = JObj
    ([(''thread_key'', j_int (uat_ThreadKey t)), (''contact_id'', j_int (uat_ContactID t)), (''is_admin'', j_int
      (uat_IsAdmin t))])"

record RemoveParticipantTask =
  rpt_ThreadID :: int64
  rpt_ContactID :: int64

definition RemoveParticipantTask_json :: "RemoveParticipantTask \<Rightarrow> json" where
  "RemoveParticipantTask_json t = JObj
    ([(''thread_id'', j_int (rpt_ThreadID t)), (''contact_id'', j_int (rpt_ContactID t))])"

record AddParticipantsTask =
  apt_ThreadKey :: int64
  apt_ContactIDs :: "int64 list option"
  apt_SyncGroup :: int64

definition AddParticipantsTask_json :: "AddParticipantsTask \<Rightarrow> json" where
  "AddParticipantsTask_json t = JObj
    ([(''thread_key'', j_int (apt_ThreadKey t)), (''contact_ids'', j_slice j_int (apt_ContactIDs t)),
      (''sync_group'', j_int (apt_SyncGroup t))])"

record CreateThreadTask =
  ctt_ThreadFBID :: int64
  ctt_ForceUpsert :: int64
  ctt_UseOpenMessengerTransport :: int64
  ctt_SyncGroup :: int64
  ctt_MetadataOnly :: int64
  ctt_PreviewOnly :: int64

definition CreateThreadTask_json :: "CreateThreadTask \<Rightarrow> json" where
  "CreateThreadTask_json t = JObj
    ([(''thread_fbid'', j_int (ctt_ThreadFBID t)), (''force_upsert'', j_int (ctt_ForceUpsert t)),
      (''use_open_messenger_transport'', j_int (ctt_UseOpenMessengerTransport t)), (''sync_group'', j_int
      (ctt_SyncGroup t)), (''metadata_only'', j_int (ctt_MetadataOnly t)), (''preview_only'', j_int (ctt_PreviewOnly
      t))])"

record CreateGroupTask =
  cgt_Participants :: "int64 list option"
  cgt_SendPayload :: CreateGroupPayload

definition CreateGroupTask_json :: "CreateGroupTask \<Rightarrow> json" where
  "CreateGroupTask_json t = JObj
    ([(''participants'', j_slice j_int (cgt_Participants t)), (''send_payload'', CreateGroupPayload_json
      (cgt_SendPayload t))])"

record DeleteThreadTask =
  dtt_ThreadKey :: int64
  dtt_RemoveType :: int64
  dtt_SyncGroup :: int64

definition DeleteThreadTask_json :: "DeleteThreadTask \<Rightarrow> json" where
  "DeleteThreadTask_json t = JObj
    ([(''thread_key'', j_int (dtt_ThreadKey t)), (''remove_type'', j_int (dtt_RemoveType t)), (''sync_group'',
      j_int (dtt_SyncGroup t))])"

record CreateWhatsAppThreadTask =
  cwatt_WAJID :: int64
  cwatt_OfflineThreadKey :: int64
  cwatt_ThreadType :: int64
  cwatt_FolderType :: int64
  cwatt_BumpTimestampMS :: int64
  cwatt_TAMThreadSubtype :: int64

definition CreateWhatsAppThreadTask_json :: "CreateWhatsAppThreadTask \<Rightarrow> json" where
  "CreateWhatsAppThreadTask_json t = JObj
    ([(''wa_jid'', j_int (cwatt_WAJID t)), (''offline_thread_key'', j_int (cwatt_OfflineThreadKey t)),
      (''thread_type'', j_int (cwatt_ThreadType t)), (''folder_type'', j_int (cwatt_FolderType t)),
      (''bump_timestamp_ms'', j_int (cwatt_BumpTimestampMS t)), (''tam_thread_subtype'', j_int
      (cwatt_TAMThreadSubtype t))])"

record FetchCommunityMemberList =
  fcml_CommunityID :: int64
  fcml_Roles :: "int64 list option"
  fcml_FetchAdminsOnly :: int64
  fcml_Cursor :: string
  fcml_Source :: int64
  fcml_ThreadKey :: int64
  fcml_SearchText :: "string option"
  fcml_ThreadRoles :: "int64 list option"
  fcml_GroupThreadID :: "int64 option"
  fcml_RequestID :: int64

definition FetchCommunityMemberList_json :: "FetchCommunityMemberList \<Rightarrow> json" where
  "FetchCommunityMemberList_json t = JObj
    ([(''community_id'', j_int (fcml_CommunityID t)), (''roles'', j_slice j_int (fcml_Roles t)),
      (''fetch_admins_only'', j_int (fcml_FetchAdminsOnly t)), (''cursor'', JStr (fcml_Cursor t)), (''source'',
      j_int (fcml_Source t)), (''thread_key'', j_int (fcml_ThreadKey t)), (''search_text'', j_ptr JStr
      (fcml_SearchText t)), (''thread_roles'', j_slice j_int (fcml_ThreadRoles t)), (''group_thread_id'', j_ptr
      j_int (fcml_GroupThreadID t)), (''request_id'', j_int (fcml_RequestID t))])"

record FetchAdditionalThreadData =
  fatd_ThreadKey :: int64

definition FetchAdditionalThreadData_json :: "FetchAdditionalThreadData \<Rightarrow> json" where
  "FetchAdditionalThreadData_json t = JObj
    ([(''thread_key'', j_int (fatd_ThreadKey t))])"

record CreateCommunitySubThread =
  ccst_ClientMutationID :: int64
  ccst_CommunityID :: int64
  ccst_ParentMessageID :: string
  ccst_ParentThreadID :: int64

definition CreateCommunitySubThread_json :: "CreateCommunitySubThread \<Rightarrow> json" where
  "CreateCommunitySubThread_json t = JObj
    ([(''client_mutation_id'', j_int (ccst_ClientMutationID t)), (''community_id'', j_int (ccst_CommunityID t)),
      (''parent_message_id'', JStr (ccst_ParentMessageID t)), (''parent_thread_id'', j_int (ccst_ParentThreadID t))])"

record DeleteCommunitySubThread =
  dcst_ThreadKey :: int64
  dcst_ActorID :: int64
  dcst_SyncGroup :: int64

definition DeleteCommunitySubThread_json :: "DeleteCommunitySubThread \<Rightarrow> json" where
  "DeleteCommunitySubThread_json t = JObj
    ([(''thread_key'', j_int (dcst_ThreadKey t)), (''actor_id'', j_int (dcst_ActorID t)), (''sync_group'', j_int
      (dcst_SyncGroup t))])"

record CommunityThreadHoleDetection =
  cthd_ThreadID :: int64
  cthd_PreviousTQSeqID :: int64
  cthd_CurrentTQSeqID :: int64
  cthd_DeltaType :: int64

definition CommunityThreadHoleDetection_json :: "CommunityThreadHoleDetection \<Rightarrow> json" where
  "CommunityThreadHoleDetection_json t = JObj
    ([(''thread_id'', j_int (cthd_ThreadID t)), (''previous_tq_seq_id'', j_int (cthd_PreviousTQSeqID t)),
      (''current_tq_seq_id'', j_int (cthd_CurrentTQSeqID t)), (''delta_type'', j_int (cthd_DeltaType t))])"

record FetchThreadsTask =
  ftt_IsAfter :: int64
  ftt_ParentThreadKey :: int64
  ftt_ReferenceThreadKey :: int64
  ftt_ReferenceActivityTimestamp :: int64
  ftt_AdditionalPagesToFetch :: int64
  ftt_Cursor :: json
  ftt_MessagingTag :: json
  ftt_SyncGroup :: int64

definition FetchThreadsTask_json :: "FetchThreadsTask \<Rightarrow> json" where
  "FetchThreadsTask_json t = JObj
    ([(''is_after'', j_int (ftt_IsAfter t)), (''parent_thread_key'', j_int (ftt_ParentThreadKey t)),
      (''reference_thread_key'', j_int (ftt_ReferenceThreadKey t)), (''reference_activity_timestamp'', j_int
      (ftt_ReferenceActivityTimestamp t)), (''additional_pages_to_fetch'', j_int (ftt_AdditionalPagesToFetch t)),
      (''cursor'', ftt_Cursor t), (''messaging_tag'', ftt_MessagingTag t), (''sync_group'', j_int (ftt_SyncGroup
      t))])"

record SendReactionTask =
  srt_ThreadKey :: int64
  srt_TimestampMs :: int64
  srt_MessageID :: string
  srt_ActorID :: int64
  srt_Reaction :: string
  srt_ReactionStyle :: json
  srt_SyncGroup :: int64
  srt_SendAttribution :: int64

definition SendReactionTask_json :: "SendReactionTask \<Rightarrow> json" where
  "SendReactionTask_json t = JObj
    (omit_if (srt_ThreadKey t = 0) (''thread_key'', j_int (srt_ThreadKey t)) @
     [(''timestamp_ms'', j_int (srt_TimestampMs t)), (''message_id'', JStr (srt_MessageID t)), (''actor_id'', j_int
      (srt_ActorID t)), (''reaction'', JStr (srt_Reaction t)), (''reaction_style'', srt_ReactionStyle t),
      (''sync_group'', j_int (srt_SyncGroup t)), (''send_attribution'', j_int (srt_SendAttribution t))])"

record DeleteMessageTask =
  dmt_MessageId :: string

definition DeleteMessageTask_json :: "DeleteMessageTask \<Rightarrow> json" where
  "DeleteMessageTask_json t = JObj
    ([(''message_id'', JStr (dmt_MessageId t))])"

record DeleteMessageMeOnlyTask =
  dmmot_ThreadKey :: int64
  dmmot_MessageId :: string

definition DeleteMessageMeOnlyTask_json :: "DeleteMessageMeOnlyTask \<Rightarrow> json" where
  "DeleteMessageMeOnlyTask_json t = JObj
    (omit_if (dmmot_ThreadKey t = 0) (''thread_key'', j_int (dmmot_ThreadKey t)) @
     [(''message_id'', JStr (dmmot_MessageId t))])"

record FetchReactionsV2UserList =
  frvul_ThreadID :: int64
  frvul_MessageID :: string
  frvul_ReactionFBID :: "int64 option"
  frvul_Cursor :: "string option"
  frvul_SyncGroup :: int64

definition FetchReactionsV2UserList_json :: "FetchReactionsV2UserList \<Rightarrow> json" where
  "FetchReactionsV2UserList_json t = JObj
    ([(''thread_id'', j_int (frvul_ThreadID t)), (''message_id'', JStr (frvul_MessageID t)), (''reaction_fbid'',
      j_ptr j_int (frvul_ReactionFBID t)), (''cursor'', j_ptr JStr (frvul_Cursor t)), (''sync_group'', j_int
      (frvul_SyncGroup t))])"

record SendReactionV2Task =
  srvt_ThreadID :: int64
  srvt_MessageID :: string
  srvt_MessageTimestamp :: int64
  srvt_ActorID :: int64
  srvt_ReactionFBID :: int64
  srvt_ReactionStyle :: int64
  srvt_CurrentCount :: int64
  srvt_ViewerIsReactor :: int64
  srvt_Operation :: int64
  srvt_ReactionLiteral :: string
  srvt_EntryPoint :: json
  srvt_SyncGroup :: int64

definition SendReactionV2Task_json :: "SendReactionV2Task \<Rightarrow> json" where
  "SendReactionV2Task_json t = JObj
    ([(''thread_id'', j_int (srvt_ThreadID t)), (''message_id'', JStr (srvt_MessageID t)), (''message_timestamp'',
      j_int (srvt_MessageTimestamp t)), (''actor_id'', j_int (srvt_ActorID t)), (''reaction_fbid'', j_int
      (srvt_ReactionFBID t)), (''reaction_style'', j_int (srvt_ReactionStyle t)), (''current_count'', j_int
      (srvt_CurrentCount t)), (''viewer_is_reactor'', j_int (srvt_ViewerIsReactor t)), (''operation'', j_int
      (srvt_Operation t)), (''reaction_literal'', JStr (srvt_ReactionLiteral t)), (''entry_point'', srvt_EntryPoint
      t), (''sync_group'', j_int (srvt_SyncGroup t))])"

record GetContactsTask =
  gct_Limit :: int64

definition GetContactsTask_json :: "GetContactsTask \<Rightarrow> json" where
  "GetContactsTask_json t = JObj
    (omit_if (gct_Limit t = 0) (''limit'', j_int (gct_Limit t)))"

record GetContactsFullTask =
  gcft_ContactID :: int64

definition GetContactsFullTask_json :: "GetContactsFullTask \<Rightarrow> json" where
  "GetContactsFullTask_json t = JObj
    ([(''contact_id'', j_int (gcft_ContactID t))])"

record SearchUserTask =
  sut_Query :: string
  sut_SupportedTypes :: "int64 list option"
  sut_SessionID :: json
  sut_SurfaceType :: int64
  sut_SelectedParticipants :: "int64 list option"
  sut_GroupID :: "int64 option"
  sut_CommunityID :: "int64 option"
  sut_QueryID :: "int64 option"
  sut_Secondary :: bool

definition SearchUserTask_json :: "SearchUserTask \<Rightarrow> json" where
  "SearchUserTask_json t = JObj
    ([(''query'', JStr (sut_Query t)), (''supported_types'', j_slice j_int (sut_SupportedTypes t)),
      (''session_id'', sut_SessionID t), (''surface_type'', j_int (sut_SurfaceType t)), (''selected_participants'',
      j_slice j_int (sut_SelectedParticipants t)), (''group_id'', j_ptr j_int (sut_GroupID t)), (''community_id'',
      j_ptr j_int (sut_CommunityID t)), (''query_id'', j_ptr j_int (sut_QueryID t))])"

record UpdatePresenceTask =
  upt2_ThreadKey :: int64
  upt2_IsGroupThread :: int64
  upt2_IsTyping :: int64
  upt2_Attribution :: int64
  upt2_SyncGroup :: int64
  upt2_ThreadType :: int64

definition UpdatePresenceTask_json :: "UpdatePresenceTask \<Rightarrow> json" where
  "UpdatePresenceTask_json t = JObj
    (omit_if (upt2_ThreadKey t = 0) (''thread_key'', j_int (upt2_ThreadKey t)) @
     [(''is_group_thread'', j_int (upt2_IsGroupThread t)), (''is_typing'', j_int (upt2_IsTyping t)),
      (''attribution'', j_int (upt2_Attribution t)), (''sync_group'', j_int (upt2_SyncGroup t)), (''thread_type'',
      j_int (upt2_ThreadType t))])"

record ReportAppStateTask =
  rast_AppState :: int64
  rast_RequestID :: string

definition ReportAppStateTask_json :: "ReportAppStateTask \<Rightarrow> json" where
  "ReportAppStateTask_json t = JObj
    ([(''app_state'', j_int (rast_AppState t)), (''request_id'', JStr (rast_RequestID t))])"

section \<open>Labels and queues of the tasks\<close>

definition SendMessageTask_GetLabel :: "SendMessageTask \<Rightarrow> string" where
  "SendMessageTask_GetLabel t = label_of ''SendMessageTask''"

definition SendMessageTask_Create :: "SendMessageTask \<Rightarrow> SendMessageTask \<times> json option \<times> bool" where
  "SendMessageTask_Create t = (t, Some (JStr (format_int (sint (smt_ThreadId t)))), False)"

definition CreatePollTask_GetLabel :: "CreatePollTask \<Rightarrow> string" where
  "CreatePollTask_GetLabel t = label_of ''CreatePollTask''"

definition CreatePollTask_Create :: "CreatePollTask \<Rightarrow> CreatePollTask \<times> json option \<times> bool" where
  "CreatePollTask_Create t = (t, Some (JStr ''poll_creation''), False)"

definition UpdatePollTask_GetLabel :: "UpdatePollTask \<Rightarrow> string" where
  "UpdatePollTask_GetLabel t = label_of ''UpdatePollTask''"

definition UpdatePollTask_Create :: "UpdatePollTask \<Rightarrow> UpdatePollTask \<times> json option \<times> bool" where
  "UpdatePollTask_Create t = (t, Some (JStr ''poll_update''), False)"

definition ThreadMarkReadTask_GetLabel :: "ThreadMarkReadTask \<Rightarrow> string" where
  "ThreadMarkReadTask_GetLabel t = label_of ''ThreadMarkRead''"

definition ThreadMarkReadTask_Create :: "ThreadMarkReadTask \<Rightarrow> ThreadMarkReadTask \<times> json option \<times> bool" where
  "ThreadMarkReadTask_Create t = (t, Some (JStr (format_int (sint (tmrt_ThreadId t)))), False)"

definition FetchMessagesTask_GetLabel :: "FetchMessagesTask \<Rightarrow> string" where
  "FetchMessagesTask_GetLabel t = label_of ''FetchMessagesTask''"

definition FetchMessagesTask_Create :: "FetchMessagesTask \<Rightarrow> FetchMessagesTask \<times> json option \<times> bool" where
  "FetchMessagesTask_Create t = (t, Some (JStr (''mrq.'' @ format_int (sint (fmt_ThreadKey t)))), False)"

definition MuteThreadTask_GetLabel :: "MuteThreadTask \<Rightarrow> string" where
  "MuteThreadTask_GetLabel t = label_of ''MuteThreadTask''"

definition MuteThreadTask_Create :: "MuteThreadTask \<Rightarrow> MuteThreadTask \<times> json option \<times> bool" where
  "MuteThreadTask_Create t = (t, Some (JStr (format_int (sint (mtt_ThreadKey t)))), False)"

definition RenameThreadTask_GetLabel :: "RenameThreadTask \<Rightarrow> string" where
  "RenameThreadTask_GetLabel t = label_of ''RenameThreadTask''"

definition RenameThreadTask_Create :: "RenameThreadTask \<Rightarrow> RenameThreadTask \<times> json option \<times> bool" where
  "RenameThreadTask_Create t = (t, Some (JStr (format_int (sint (rtt_ThreadKey t)))), False)"

definition SetThreadImageTask_GetLabel :: "SetThreadImageTask \<Rightarrow> string" where
  "SetThreadImageTask_GetLabel t = label_of ''SetThreadImageTask''"

definition SetThreadImageTask_Create :: "SetThreadImageTask \<Rightarrow> SetThreadImageTask \<times> json option \<times> bool" where
  "SetThreadImageTask_Create t = (t, Some (JStr ''thread_image''), False)"

definition EditMessageTask_GetLabel :: "EditMessageTask \<Rightarrow> string" where
  "EditMessageTask_GetLabel t = label_of ''EditMessageTask''"

definition EditMessageTask_Create :: "EditMessageTask \<Rightarrow> EditMessageTask \<times> json option \<times> bool" where
  "EditMessageTask_Create t = (t, Some (JStr ''edit_message''), False)"

definition UpdateAdminTask_GetLabel :: "UpdateAdminTask \<Rightarrow> string" where
  "UpdateAdminTask_GetLabel t = label_of ''UpdateAdminTask''"

definition UpdateAdminTask_Create :: "UpdateAdminTask \<Rightarrow> UpdateAdminTask \<times> json option \<times> bool" where
  "UpdateAdminTask_Create t = (t, Some (JStr ''admin_status''), False)"

definition RemoveParticipantTask_GetLabel :: "RemoveParticipantTask \<Rightarrow> string" where
  "RemoveParticipantTask_GetLabel t = label_of ''RemoveParticipantTask''"

definition RemoveParticipantTask_Create :: "RemoveParticipantTask \<Rightarrow> RemoveParticipantTask \<times> json option \<times> bool" where
  "RemoveParticipantTask_Create t = (t, Some (JStr ''remove_participant_v2''), False)"

definition AddParticipantsTask_GetLabel :: "AddParticipantsTask \<Rightarrow> string" where
  "AddParticipantsTask_GetLabel t = label_of ''AddParticipantsTask''"

definition AddParticipantsTask_Create :: "AddParticipantsTask \<Rightarrow> AddParticipantsTask \<times> json option \<times> bool" where
  "AddParticipantsTask_Create t = (t, Some (JStr (format_int (sint (apt_ThreadKey t)))), False)"

definition CreateThreadTask_GetLabel :: "CreateThreadTask \<Rightarrow> string" where
  "CreateThreadTask_GetLabel t = label_of ''CreateThreadTask''"

definition CreateThreadTask_Create :: "CreateThreadTask \<Rightarrow> CreateThreadTask \<times> json option \<times> bool" where
  "CreateThreadTask_Create t = (t, Some (JStr (format_int (sint (ctt_ThreadFBID t)))), False)"

definition CreateGroupTask_GetLabel :: "CreateGroupTask \<Rightarrow> string" where
  "CreateGroupTask_GetLabel t = label_of ''CreateGroupTask''"

definition CreateGroupTask_Create :: "CreateGroupTask \<Rightarrow> CreateGroupTask \<times> json option \<times> bool" where
  "CreateGroupTask_Create t = (t, Some (JStr (format_int (sint (cgp_ThreadID (cgt_SendPayload t))))), False)"

definition DeleteThreadTask_GetLabel :: "DeleteThreadTask \<Rightarrow> string" where
  "DeleteThreadTask_GetLabel t = label_of ''DeleteThreadTask''"

definition DeleteThreadTask_Create :: "DeleteThreadTask \<Rightarrow> DeleteThreadTask \<times> json option \<times> bool" where
  "DeleteThreadTask_Create t = (t, Some (JStr (format_int (sint (dtt_ThreadKey t)))), False)"

definition CreateWhatsAppThreadTask_GetLabel :: "CreateWhatsAppThreadTask \<Rightarrow> string" where
  "CreateWhatsAppThreadTask_GetLabel t = label_of ''CreateWhatsAppThreadTask''"

definition CreateWhatsAppThreadTask_Create :: "CreateWhatsAppThreadTask \<Rightarrow> CreateWhatsAppThreadTask \<times> json option \<times> bool" where
  "CreateWhatsAppThreadTask_Create t = (t, Some (JStr (format_int (sint (cwatt_OfflineThreadKey t)))), False)"

definition FetchCommunityMemberList_GetLabel :: "FetchCommunityMemberList \<Rightarrow> string" where
  "FetchCommunityMemberList_GetLabel t = label_of ''FetchCommunityMemberList''"

definition FetchCommunityMemberList_Create :: "FetchCommunityMemberList \<Rightarrow> FetchCommunityMemberList \<times> json option \<times> bool" where
  "FetchCommunityMemberList_Create t = (t, Some (JStr ''fetch_community_member_list''), False)"

definition FetchAdditionalThreadData_GetLabel :: "FetchAdditionalThreadData \<Rightarrow> string" where
  "FetchAdditionalThreadData_GetLabel t = label_of ''FetchAdditionalThreadData''"

definition FetchAdditionalThreadData_Create :: "FetchAdditionalThreadData \<Rightarrow> FetchAdditionalThreadData \<times> json option \<times> bool" where
  "FetchAdditionalThreadData_Create t =
     (t, Some (JStr (''fetch_additional_thread_data_'' @ format_int (sint (fatd_ThreadKey t)))), False)"

definition CreateCommunitySubThread_GetLabel :: "CreateCommunitySubThread \<Rightarrow> string" where
  "CreateCommunitySubThread_GetLabel t = label_of ''CreateCommunitySubThread''"

definition CreateCommunitySubThread_Create :: "CreateCommunitySubThread \<Rightarrow> CreateCommunitySubThread \<times> json option \<times> bool" where
  "CreateCommunitySubThread_Create t =
     (t, Some (JStr (''create_community_sub_thread_'' @ format_int (sint (ccst_ParentThreadID t)))), False)"

definition DeleteCommunitySubThread_GetLabel :: "DeleteCommunitySubThread \<Rightarrow> string" where
  "DeleteCommunitySubThread_GetLabel t = label_of ''DeleteCommunitySubThread''"

definition DeleteCommunitySubThread_Create :: "DeleteCommunitySubThread \<Rightarrow> DeleteCommunitySubThread \<times> json option \<times> bool" where
  "DeleteCommunitySubThread_Create t = (t, Some (JStr (format_int (sint (dcst_ThreadKey t)))), False)"

definition CommunityThreadHoleDetection_GetLabel :: "CommunityThreadHoleDetection \<Rightarrow> string" where
  "CommunityThreadHoleDetection_GetLabel t = label_of ''CommunityThreadHoleDetection''"

definition CommunityThreadHoleDetection_Create :: "CommunityThreadHoleDetection \<Rightarrow> CommunityThreadHoleDetection \<times> json option \<times> bool" where
  "CommunityThreadHoleDetection_Create t =
     (t, Some (JStr (''cm_thread_hole_detection'' @ format_int (sint (cthd_ThreadID t)))), False)"

definition FetchThreadsTask_GetLabel :: "FetchThreadsTask \<Rightarrow> string" where
  "FetchThreadsTask_GetLabel t = label_of ''FetchThreadsTask''"

definition FetchThreadsTask_Create :: "FetchThreadsTask \<Rightarrow> FetchThreadsTask \<times> json option \<times> bool" where
  "FetchThreadsTask_Create t = (t, Some (JStr ''trq''), False)"

definition SendReactionTask_GetLabel :: "SendReactionTask \<Rightarrow> string" where
  "SendReactionTask_GetLabel t = label_of ''SendReactionTask''"

definition SendReactionTask_Create :: "int64 \<Rightarrow> SendReactionTask \<Rightarrow> SendReactionTask \<times> json option \<times> bool" where
  "SendReactionTask_Create now t =
     (t\<lparr>srt_TimestampMs := now, srt_SyncGroup := 1\<rparr>, Some (JArr [JStr ''reaction'', JStr (srt_MessageID t)]), True)"

definition DeleteMessageTask_GetLabel :: "DeleteMessageTask \<Rightarrow> string" where
  "DeleteMessageTask_GetLabel t = label_of ''DeleteMessageTask''"

definition DeleteMessageTask_Create :: "DeleteMessageTask \<Rightarrow> DeleteMessageTask \<times> json option \<times> bool" where
  "DeleteMessageTask_Create t = (t, Some (JStr ''unsend_message''), False)"

definition DeleteMessageMeOnlyTask_GetLabel :: "DeleteMessageMeOnlyTask \<Rightarrow> string" where
  "DeleteMessageMeOnlyTask_GetLabel t = label_of ''DeleteMessageMeOnlyTask''"

definition DeleteMessageMeOnlyTask_Create :: "DeleteMessageMeOnlyTask \<Rightarrow> DeleteMessageMeOnlyTask \<times> json option \<times> bool" where
  "DeleteMessageMeOnlyTask_Create t = (t, Some (JStr ''155''), False)"

definition FetchReactionsV2UserList_GetLabel :: "FetchReactionsV2UserList \<Rightarrow> string" where
  "FetchReactionsV2UserList_GetLabel t = label_of ''FetchReactionsV2UserList''"

definition FetchReactionsV2UserList_Create :: "FetchReactionsV2UserList \<Rightarrow> FetchReactionsV2UserList \<times> json option \<times> bool" where
  "FetchReactionsV2UserList_Create t = (t, Some (JStr ''fetch_reactions_v2_details_users_list''), False)"

definition SendReactionV2Task_GetLabel :: "SendReactionV2Task \<Rightarrow> string" where
  "SendReactionV2Task_GetLabel t = label_of ''SendReactionV2''"

definition SendReactionV2Task_Create :: "SendReactionV2Task \<Rightarrow> SendReactionV2Task \<times> json option \<times> bool" where
  "SendReactionV2Task_Create t = (t, Some (JArr [JStr ''reaction_v2'', JStr (srvt_MessageID t)]), True)"

definition GetContactsTask_GetLabel :: "GetContactsTask \<Rightarrow> string" where
  "GetContactsTask_GetLabel t = label_of ''GetContactsTask''"

definition GetContactsTask_Create :: "int64 \<Rightarrow> GetContactsTask \<Rightarrow> GetContactsTask \<times> json option \<times> bool" where
  "GetContactsTask_Create now t =
     (t, Some (JArr [JStr ''search_contacts'', JStr (GenerateTimestampString now)]), False)"

definition GetContactsFullTask_GetLabel :: "GetContactsFullTask \<Rightarrow> string" where
  "GetContactsFullTask_GetLabel t = label_of ''GetContactsFullTask''"

definition GetContactsFullTask_Create :: "GetContactsFullTask \<Rightarrow> GetContactsFullTask \<times> json option \<times> bool" where
  "GetContactsFullTask_Create t = (t, Some (JStr ''cpq_v2''), False)"

definition SearchUserTask_GetLabel :: "SearchUserTask \<Rightarrow> string" where
  "SearchUserTask_GetLabel t =
     (if sut_Secondary t then label_of ''SearchUserSecondaryTask'' else label_of ''SearchUserTask'')"

definition SearchUserTask_Create :: "int64 \<Rightarrow> SearchUserTask \<Rightarrow> SearchUserTask \<times> json option \<times> bool" where
  "SearchUserTask_Create now t = (if sut_Secondary t then (t, Some (JStr ''search_secondary''), False)
      else (t, Some (JArr [JStr ''search_primary'', j_int now]), True))"

definition UpdatePresenceTask_GetLabel :: "UpdatePresenceTask \<Rightarrow> string" where
  "UpdatePresenceTask_GetLabel t = label_of ''UpdatePresence''"

definition UpdatePresenceTask_Create :: "UpdatePresenceTask \<Rightarrow> UpdatePresenceTask \<times> json option \<times> bool" where
  "UpdatePresenceTask_Create t = (t, None, False)"

definition ReportAppStateTask_GetLabel :: "ReportAppStateTask \<Rightarrow> string" where
  "ReportAppStateTask_GetLabel t = label_of ''ReportAppStateTask''"

definition ReportAppStateTask_Create :: "ReportAppStateTask \<Rightarrow> ReportAppStateTask \<times> json option \<times> bool" where
  "ReportAppStateTask_Create t = (t, Some (JStr ''ls_presence_report_app_state''), False)"

section \<open>The Task interface\<close>

text \<open>\<open>Create\<close> gives the payload, which is the task itself, the queue name if it is not nil, and whether the
  queue name is to be marshalled.\<close>

datatype Task =
    SendMessageTask SendMessageTask
  | CreatePollTask CreatePollTask
  | UpdatePollTask UpdatePollTask
  | ThreadMarkReadTask ThreadMarkReadTask
  | FetchMessagesTask FetchMessagesTask
  | MuteThreadTask MuteThreadTask
  | RenameThreadTask RenameThreadTask
  | SetThreadImageTask SetThreadImageTask
  | EditMessageTask EditMessageTask
  | UpdateAdminTask UpdateAdminTask
  | RemoveParticipantTask RemoveParticipantTask
  | AddParticipantsTask AddParticipantsTask
  | CreateThreadTask CreateThreadTask
  | CreateGroupTask CreateGroupTask
  | DeleteThreadTask DeleteThreadTask
  | CreateWhatsAppThreadTask CreateWhatsAppThreadTask
  | FetchCommunityMemberList FetchCommunityMemberList
  | FetchAdditionalThreadData FetchAdditionalThreadData
  | CreateCommunitySubThread CreateCommunitySubThread
  | DeleteCommunitySubThread DeleteCommunitySubThread
  | CommunityThreadHoleDetection CommunityThreadHoleDetection
  | FetchThreadsTask FetchThreadsTask
  | SendReactionTask SendReactionTask
  | DeleteMessageTask DeleteMessageTask
  | DeleteMessageMeOnlyTask DeleteMessageMeOnlyTask
  | FetchReactionsV2UserList FetchReactionsV2UserList
  | SendReactionV2Task SendReactionV2Task
  | GetContactsTask GetContactsTask
  | GetContactsFullTask GetContactsFullTask
  | SearchUserTask SearchUserTask
  | UpdatePresenceTask UpdatePresenceTask
  | ReportAppStateTask ReportAppStateTask

fun Task_json :: "Task \<Rightarrow> json" where
  "Task_json (SendMessageTask t) = SendMessageTask_json t"
| "Task_json (CreatePollTask t) = CreatePollTask_json t"
| "Task_json (UpdatePollTask t) = UpdatePollTask_json t"
| "Task_json (ThreadMarkReadTask t) = ThreadMarkReadTask_json t"
| "Task_json (FetchMessagesTask t) = FetchMessagesTask_json t"
| "Task_json (MuteThreadTask t) = MuteThreadTask_json t"
| "Task_json (RenameThreadTask t) = RenameThreadTask_json t"
| "Task_json (SetThreadImageTask t) = SetThreadImageTask_json t"
| "Task_json (EditMessageTask t) = EditMessageTask_json t"
| "Task_json (UpdateAdminTask t) = UpdateAdminTask_json t"
| "Task_json (RemoveParticipantTask t) = RemoveParticipantTask_json t"
| "Task_json (AddParticipantsTask t) = AddParticipantsTask_json t"
| "Task_json (CreateThreadTask t) = CreateThreadTask_json t"
| "Task_json (CreateGroupTask t) = CreateGroupTask_json t"
| "Task_json (DeleteThreadTask t) = DeleteThreadTask_json t"
| "Task_json (CreateWhatsAppThreadTask t) = CreateWhatsAppThreadTask_json t"
| "Task_json (FetchCommunityMemberList t) = FetchCommunityMemberList_json t"
| "Task_json (FetchAdditionalThreadData t) = FetchAdditionalThreadData_json t"
| "Task_json (CreateCommunitySubThread t) = CreateCommunitySubThread_json t"
| "Task_json (DeleteCommunitySubThread t) = DeleteCommunitySubThread_json t"
| "Task_json (CommunityThreadHoleDetection t) = CommunityThreadHoleDetection_json t"
| "Task_json (FetchThreadsTask t) = FetchThreadsTask_json t"
| "Task_json (SendReactionTask t) = SendReactionTask_json t"
| "Task_json (DeleteMessageTask t) = DeleteMessageTask_json t"
| "Task_json (DeleteMessageMeOnlyTask t) = DeleteMessageMeOnlyTask_json t"
| "Task_json (FetchReactionsV2UserList t) = FetchReactionsV2UserList_json t"
| "Task_json (SendReactionV2Task t) = SendReactionV2Task_json t"
| "Task_json (GetContactsTask t) = GetContactsTask_json t"
| "Task_json (GetContactsFullTask t) = GetContactsFullTask_json t"
| "Task_json (SearchUserTask t) = SearchUserTask_json t"
| "Task_json (UpdatePresenceTask t) = UpdatePresenceTask_json t"
| "Task_json (ReportAppStateTask t) = ReportAppStateTask_json t"

fun GetLabel :: "Task \<Rightarrow> string" where
  "GetLabel (SendMessageTask t) = SendMessageTask_GetLabel t"
| "GetLabel (CreatePollTask t) = CreatePollTask_GetLabel t"
| "GetLabel (UpdatePollTask t) = UpdatePollTask_GetLabel t"
| "GetLabel (ThreadMarkReadTask t) = ThreadMarkReadTask_GetLabel t"
| "GetLabel (FetchMessagesTask t) = FetchMessagesTask_GetLabel t"
| "GetLabel (MuteThreadTask t) = MuteThreadTask_GetLabel t"
| "GetLabel (RenameThreadTask t) = RenameThreadTask_GetLabel t"
| "GetLabel (SetThreadImageTask t) = SetThreadImageTask_GetLabel t"
| "GetLabel (EditMessageTask t) = EditMessageTask_GetLabel t"
| "GetLabel (UpdateAdminTask t) = UpdateAdminTask_GetLabel t"
| "GetLabel (RemoveParticipantTask t) = RemoveParticipantTask_GetLabel t"
| "GetLabel (AddParticipantsTask t) = AddParticipantsTask_GetLabel t"
| "GetLabel (CreateThreadTask t) = CreateThreadTask_GetLabel t"
| "GetLabel (CreateGroupTask t) = CreateGroupTask_GetLabel t"
| "GetLabel (DeleteThreadTask t) = DeleteThreadTask_GetLabel t"
| "GetLabel (CreateWhatsAppThreadTask t) = CreateWhatsAppThreadTask_GetLabel t"
| "GetLabel (FetchCommunityMemberList t) = FetchCommunityMemberList_GetLabel t"
| "GetLabel (FetchAdditionalThreadData t) = FetchAdditionalThreadData_GetLabel t"
| "GetLabel (CreateCommunitySubThread t) = CreateCommunitySubThread_GetLabel t"
| "GetLabel (DeleteCommunitySubThread t) = DeleteCommunitySubThread_GetLabel t"
| "GetLabel (CommunityThreadHoleDetection t) = CommunityThreadHoleDetection_GetLabel t"
| "GetLabel (FetchThreadsTask t) = FetchThreadsTask_GetLabel t"
| "GetLabel (SendReactionTask t) = SendReactionTask_GetLabel t"
| "GetLabel (DeleteMessageTask t) = DeleteMessageTask_GetLabel t"
| "GetLabel (DeleteMessageMeOnlyTask t) = DeleteMessageMeOnlyTask_GetLabel t"
| "GetLabel (FetchReactionsV2UserList t) = FetchReactionsV2UserList_GetLabel t"
| "GetLabel (SendReactionV2Task t) = SendReactionV2Task_GetLabel t"
| "GetLabel (GetContactsTask t) = GetContactsTask_GetLabel t"
| "GetLabel (GetContactsFullTask t) = GetContactsFullTask_GetLabel t"
| "GetLabel (SearchUserTask t) = SearchUserTask_GetLabel t"
| "GetLabel (UpdatePresenceTask t) = UpdatePresenceTask_GetLabel t"
| "GetLabel (ReportAppStateTask t) = ReportAppStateTask_GetLabel t"

fun Create :: "int64 \<Rightarrow> Task \<Rightarrow> Task \<times> json option \<times> bool" where
  "Create now (SendMessageTask t) = map_prod SendMessageTask id (SendMessageTask_Create t)"
| "Create now (CreatePollTask t) = map_prod CreatePollTask id (CreatePollTask_Create t)"
| "Create now (UpdatePollTask t) = map_prod UpdatePollTask id (UpdatePollTask_Create t)"
| "Create now (ThreadMarkReadTask t) = map_prod ThreadMarkReadTask id (ThreadMarkReadTask_Create t)"
| "Create now (FetchMessagesTask t) = map_prod FetchMessagesTask id (FetchMessagesTask_Create t)"
| "Create now (MuteThreadTask t) = map_prod MuteThreadTask id (MuteThreadTask_Create t)"
| "Create now (RenameThreadTask t) = map_prod RenameThreadTask id (RenameThreadTask_Create t)"
| "Create now (SetThreadImageTask t) = map_prod SetThreadImageTask id (SetThreadImageTask_Create t)"
| "Create now (EditMessageTask t) = map_prod EditMessageTask id (EditMessageTask_Create t)"
| "Create now (UpdateAdminTask t) = map_prod UpdateAdminTask id (UpdateAdminTask_Create t)"
| "Create now (RemoveParticipantTask t) = map_prod RemoveParticipantTask id (RemoveParticipantTask_Create t)"
| "Create now (AddParticipantsTask t) = map_prod AddParticipantsTask id (AddParticipantsTask_Create t)"
| "Create now (CreateThreadTask t) = map_prod CreateThreadTask id (CreateThreadTask_Create t)"
| "Create now (CreateGroupTask t) = map_prod CreateGroupTask id (CreateGroupTask_Create t)"
| "Create now (DeleteThreadTask t) = map_prod DeleteThreadTask id (DeleteThreadTask_Create t)"
| "Create now (CreateWhatsAppThreadTask t) = map_prod CreateWhatsAppThreadTask id (CreateWhatsAppThreadTask_Create t)"
| "Create now (FetchCommunityMemberList t) = map_prod FetchCommunityMemberList id (FetchCommunityMemberList_Create t)"
| "Create now (FetchAdditionalThreadData t) = map_prod FetchAdditionalThreadData id (FetchAdditionalThreadData_Create t)"
| "Create now (CreateCommunitySubThread t) = map_prod CreateCommunitySubThread id (CreateCommunitySubThread_Create t)"
| "Create now (DeleteCommunitySubThread t) = map_prod DeleteCommunitySubThread id (DeleteCommunitySubThread_Create t)"
| "Create now (CommunityThreadHoleDetection t) = map_prod CommunityThreadHoleDetection id (CommunityThreadHoleDetection_Create t)"
| "Create now (FetchThreadsTask t) = map_prod FetchThreadsTask id (FetchThreadsTask_Create t)"
| "Create now (SendReactionTask t) = map_prod SendReactionTask id (SendReactionTask_Create now t)"
| "Create now (DeleteMessageTask t) = map_prod DeleteMessageTask id (DeleteMessageTask_Create t)"
| "Create now (DeleteMessageMeOnlyTask t) = map_prod DeleteMessageMeOnlyTask id (DeleteMessageMeOnlyTask_Create t)"
| "Create now (FetchReactionsV2UserList t) = map_prod FetchReactionsV2UserList id (FetchReactionsV2UserList_Create t)"
| "Create now (SendReactionV2Task t) = map_prod SendReactionV2Task id (SendReactionV2Task_Create t)"
| "Create now (GetContactsTask t) = map_prod GetContactsTask id (GetContactsTask_Create now t)"
| "Create now (GetContactsFullTask t) = map_prod GetContactsFullTask id (GetContactsFullTask_Create t)"
| "Create now (SearchUserTask t) = map_prod SearchUserTask id (SearchUserTask_Create now t)"
| "Create now (UpdatePresenceTask t) = map_prod UpdatePresenceTask id (UpdatePresenceTask_Create t)"
| "Create now (ReportAppStateTask t) = map_prod ReportAppStateTask id (ReportAppStateTask_Create t)"

end
