(* ===== verification/Task_Manager.thy ===== *)
theory Task_Manager
  imports Tasks
begin

text \<open>
  \<^verbatim>\<open>taskManager.go\<close>, \<^verbatim>\<open>socket/task.go\<close>, \<^verbatim>\<open>socket/socket.go\<close> and the task identifiers of \<^verbatim>\<open>client.go\<close>: tasks are collected
  with fresh identifiers and sent as one document. Marshalling cannot fail on these types, so the error branches
  behind \<open>json.Marshal\<close> do not occur.
\<close>

section \<open>Model\<close>

subsection \<open>Documents\<close>

record TaskData =
  td_FailureCount :: "int64 option"
  td_Label :: string
  td_Payload :: "json option"
  td_QueueName :: "json option"
  td_TaskId :: int64

text \<open>A field of type \<^verbatim>\<open>any\<close> is omitted when it is nil, not when the value in it is empty.\<close>

definition TaskData_json :: "TaskData \<Rightarrow> json" where
  "TaskData_json d = JObj
     ([(''failure_count'', j_ptr j_int (td_FailureCount d))] @
      omit_if (td_Label d = '''') (''label'', JStr (td_Label d)) @
      omit_if (td_Payload d = None) (''payload'', j_ptr id (td_Payload d)) @
      omit_if (td_QueueName d = None) (''queue_name'', j_ptr id (td_QueueName d)) @
      [(''task_id'', j_int (td_TaskId d))])"

record StatelessTaskData =
  sd_Label :: string
  sd_Payload :: "json option"
  sd_Version :: string

definition StatelessTaskData_json :: "StatelessTaskData \<Rightarrow> json" where
  "StatelessTaskData_json d = JObj
     (omit_if (sd_Label d = '''') (''label'', JStr (sd_Label d)) @
      omit_if (sd_Payload d = None) (''payload'', j_ptr id (sd_Payload d)) @
      omit_if (sd_Version d = '''') (''version'', JStr (sd_Version d)))"

record TaskPayload =
  tp_EpochId :: int64
  tp_DataTraceId :: string
  tp_Tasks :: "TaskData list"
  tp_VersionId :: string

definition TaskPayload_json :: "TaskPayload \<Rightarrow> json" where
  "TaskPayload_json p = JObj
     ([(''epoch_id'', j_int (tp_EpochId p))] @
      omit_if (tp_DataTraceId p = '''') (''data_trace_id'', JStr (tp_DataTraceId p)) @
      omit_if (tp_Tasks p = []) (''tasks'', JArr (map TaskData_json (tp_Tasks p))) @
      [(''version_id'', JStr (tp_VersionId p))])"

subsection \<open>Task identifiers (client.go)\<close>

text \<open>The active tasks of the client. The loop looks for the first identifier that is not in use.\<close>

function first_unused :: "nat list \<Rightarrow> nat \<Rightarrow> nat" where
  "first_unused activeTasks i = (if i \<in> set activeTasks then first_unused activeTasks (Suc i) else i)"
  by pat_completeness auto

termination
proof (relation "measure (\<lambda>(active, i). card {k \<in> set active. i \<le> k})")
  fix active :: "nat list" and i
  assume "i \<in> set active"
  then have mem: "i \<in> {k \<in> set active. i \<le> k}" "i \<notin> {k \<in> set active. Suc i \<le> k}" by simp_all
  have "{k \<in> set active. Suc i \<le> k} \<subseteq> {k \<in> set active. i \<le> k}" using Suc_leD by blast
  then have "{k \<in> set active. Suc i \<le> k} \<subset> {k \<in> set active. i \<le> k}" using mem by blast
  then have "card {k \<in> set active. Suc i \<le> k} < card {k \<in> set active. i \<le> k}"
    by (rule psubset_card_mono [rotated]) simp
  then show "((active, Suc i), active, i) \<in> measure (\<lambda>(active, i). card {k \<in> set active. i \<le> k})"
    by simp
qed simp

declare first_unused.simps [simp del]

definition getTaskID :: "nat list \<Rightarrow> nat \<times> nat list" where
  "getTaskID activeTasks = (let i = first_unused activeTasks 0 in (i, activeTasks @ [i]))"

subsection \<open>The task manager\<close>

record TaskManager =
  tm_currTasks :: "TaskData list"
  tm_traceId :: string

definition newTaskManager :: TaskManager where
  "newTaskManager = \<lparr>tm_currTasks = [], tm_traceId = ''''\<rparr>"

definition setTraceId :: "string \<Rightarrow> TaskManager \<Rightarrow> TaskManager" where
  "setTraceId traceId tm = tm\<lparr>tm_traceId := traceId\<rparr>"

definition FinalizePayload :: "int64 \<Rightarrow> int64 \<Rightarrow> epoch_state \<Rightarrow> TaskManager \<Rightarrow> string \<times> TaskManager \<times> epoch_state" where
  "FinalizePayload now versionID e tm =
     (let (epochId, e') = GenerateEpochID now e;
          p = \<lparr>tp_EpochId = epochId, tp_DataTraceId = tm_traceId tm, tp_Tasks = tm_currTasks tm,
               tp_VersionId = format_int (sint versionID)\<rparr>
      in (marshal (TaskPayload_json p), tm\<lparr>tm_currTasks := []\<rparr>, e'))"

definition GetTaskID :: "nat list \<Rightarrow> int64 \<times> nat list" where
  "GetTaskID activeTasks = map_prod of_nat id (getTaskID activeTasks)"

definition AddNewTask :: "int64 \<Rightarrow> Task \<Rightarrow> TaskManager \<times> nat list \<Rightarrow> TaskManager \<times> nat list" where
  "AddNewTask now task = (\<lambda>(tm, activeTasks).
     let (payload, queueName, marshalQueueName) = Create now task;
         label = GetLabel payload
     in case queueName of
          None \<Rightarrow> (tm, activeTasks)
        | Some queue \<Rightarrow>
            (let payloadMarshalled = marshal (Task_json payload);
                 queue' = (if marshalQueueName then JStr (marshal queue) else queue);
                 (taskId, activeTasks') = GetTaskID activeTasks;
                 taskData = \<lparr>td_FailureCount = None, td_Label = label, td_Payload = Some (JStr payloadMarshalled),
                   td_QueueName = Some queue', td_TaskId = taskId\<rparr>
             in (tm\<lparr>tm_currTasks := tm_currTasks tm @ [taskData]\<rparr>, activeTasks')))"

text \<open>The loops that add several tasks, each with the time at which its \<open>Create\<close> runs.\<close>

definition add_tasks :: "(int64 \<times> Task) list \<Rightarrow> TaskManager \<times> nat list \<Rightarrow> TaskManager \<times> nat list" where
  "add_tasks nts s = foldl (\<lambda>s (now, t). AddNewTask now t s) s nts"

text \<open>\<open>ExecuteStatelessTask\<close> up to its request: the text to send, or \<open>None\<close> for a task that has a queue.\<close>

definition stateless_payload :: "int64 \<Rightarrow> int64 \<Rightarrow> Task \<Rightarrow> string option" where
  "stateless_payload now versionID task =
     (let (innerPayload, queueName, _) = Create now task;
          label = GetLabel innerPayload
      in if queueName \<noteq> None then None
         else Some (marshal (StatelessTaskData_json \<lparr>sd_Label = label,
                sd_Payload = Some (JStr (marshal (Task_json innerPayload))),
                sd_Version = format_int (sint versionID)\<rparr>)))"

section \<open>Lemmas\<close>

subsection \<open>Identifiers\<close>

lemma first_unused_fresh: "first_unused active i \<notin> set active"
  by (induction active i rule: first_unused.induct) (subst first_unused.simps, simp)

lemma first_unused_least: "i \<le> j \<Longrightarrow> j < first_unused active i \<Longrightarrow> j \<in> set active"
proof (induction active i rule: first_unused.induct)
  case (1 active i)
  show ?case
  proof (cases "i \<in> set active")
    case True
    then have "first_unused active i = first_unused active (Suc i)" by (subst first_unused.simps) simp
    then show ?thesis using 1 True by (cases "i = j") auto
  next
    case False
    then have "first_unused active i = i" by (subst first_unused.simps) simp
    then show ?thesis using 1 by simp
  qed
qed

lemma first_unused_upto [simp]: "first_unused [0..<n] 0 = n"
proof (rule antisym)
  show "first_unused [0..<n] 0 \<le> n"
    using first_unused_least [of 0 n "[0..<n]"] by (cases "n < first_unused [0..<n] 0") auto
  show "n \<le> first_unused [0..<n] 0"
    using first_unused_fresh [of "[0..<n]" 0] by simp
qed

lemma getTaskID_upto [simp]: "getTaskID [0..<n] = (n, [0..<Suc n])"
  by (simp add: getTaskID_def)

subsection \<open>Labels and queues\<close>

lemmas task_labels =
  SendMessageTask_GetLabel_def CreatePollTask_GetLabel_def UpdatePollTask_GetLabel_def
  ThreadMarkReadTask_GetLabel_def FetchMessagesTask_GetLabel_def MuteThreadTask_GetLabel_def
  RenameThreadTask_GetLabel_def SetThreadImageTask_GetLabel_def EditMessageTask_GetLabel_def
  UpdateAdminTask_GetLabel_def RemoveParticipantTask_GetLabel_def AddParticipantsTask_GetLabel_def
  CreateThreadTask_GetLabel_def CreateGroupTask_GetLabel_def DeleteThreadTask_GetLabel_def
  CreateWhatsAppThreadTask_GetLabel_def FetchCommunityMemberList_GetLabel_def
  FetchAdditionalThreadData_GetLabel_def CreateCommunitySubThread_GetLabel_def
  DeleteCommunitySubThread_GetLabel_def CommunityThreadHoleDetection_GetLabel_def
  FetchThreadsTask_GetLabel_def SendReactionTask_GetLabel_def DeleteMessageTask_GetLabel_def
  DeleteMessageMeOnlyTask_GetLabel_def FetchReactionsV2UserList_GetLabel_def
  SendReactionV2Task_GetLabel_def GetContactsTask_GetLabel_def GetContactsFullTask_GetLabel_def
  SearchUserTask_GetLabel_def UpdatePresenceTask_GetLabel_def ReportAppStateTask_GetLabel_def

lemmas task_creates =
  SendMessageTask_Create_def CreatePollTask_Create_def UpdatePollTask_Create_def
  ThreadMarkReadTask_Create_def FetchMessagesTask_Create_def MuteThreadTask_Create_def
  RenameThreadTask_Create_def SetThreadImageTask_Create_def EditMessageTask_Create_def
  UpdateAdminTask_Create_def RemoveParticipantTask_Create_def AddParticipantsTask_Create_def
  CreateThreadTask_Create_def CreateGroupTask_Create_def DeleteThreadTask_Create_def
  CreateWhatsAppThreadTask_Create_def FetchCommunityMemberList_Create_def
  FetchAdditionalThreadData_Create_def CreateCommunitySubThread_Create_def
  DeleteCommunitySubThread_Create_def CommunityThreadHoleDetection_Create_def
  FetchThreadsTask_Create_def SendReactionTask_Create_def DeleteMessageTask_Create_def
  DeleteMessageMeOnlyTask_Create_def FetchReactionsV2UserList_Create_def
  SendReactionV2Task_Create_def GetContactsTask_Create_def GetContactsFullTask_Create_def
  SearchUserTask_Create_def UpdatePresenceTask_Create_def ReportAppStateTask_Create_def

lemma GetLabel_nonempty: "GetLabel t \<noteq> ''''"
  by (cases t) (simp_all add: task_labels label_of_def TaskLabels_def)

lemma GetLabel_ascii: "ascii (GetLabel t)"
  by (cases t) (simp_all add: task_labels label_of_def TaskLabels_def ascii_def code_def)

text \<open>A presence update is the only task without a queue.\<close>

lemma Create_stateless: "fst (snd (Create now t)) = None \<longleftrightarrow> (\<exists>p. t = UpdatePresenceTask p)"
  by (cases t) (simp_all add: task_creates)

lemma GetLabel_Create [simp]: "GetLabel (fst (Create now t)) = GetLabel t"
  by (cases t) (simp_all add: task_labels task_creates)

subsection \<open>The documents are plain ASCII\<close>

lemma ascii_append [simp]: "ascii (s @ t) \<longleftrightarrow> ascii s \<and> ascii t"
  by (simp add: ascii_def)

lemma ascii_Cons [simp]: "ascii (c # s) \<longleftrightarrow> code c < 0x80 \<and> ascii s"
  by (simp add: ascii_def)

lemma ascii_Nil [simp]: "ascii []"
  by (simp add: ascii_def)

lemma ascii_u_escape: "ascii (u_escape r)"
proof -
  have "code (hex_digit (n mod 16)) < 128" for n
  proof -
    have "n mod 16 < 16" by simp
    then have "hex_digit (n mod 16) = char_of (if n mod 16 < 10 then 48 + n mod 16 else 87 + n mod 16)"
      by (simp add: hex_digit_def)
    moreover have "n mod 16 < 41" using \<open>n mod 16 < 16\<close> by linarith
    ultimately show ?thesis by (simp add: code_def)
  qed
  then show ?thesis by (simp add: u_escape_def backslash_def code_def)
qed

lemma ascii_escape_ascii: "code c < 0x80 \<Longrightarrow> ascii (escape_ascii c)"
proof -
  assume c: "code c < 0x80"
  have letters: "code backslash < 128" "code CHR ''b'' < 128" "code CHR ''f'' < 128" "code CHR ''n'' < 128"
    "code CHR ''r'' < 128" "code CHR ''t'' < 128"
    by (simp_all add: code_def backslash_def)
  show ?thesis
    unfolding escape_ascii_def by (simp only: ascii_Cons ascii_Nil letters c ascii_u_escape simp_thms if_cancel split: if_split)
qed

lemma ascii_escape_loop: "ascii s \<Longrightarrow> ascii (escape_loop 0 s)"
  by (induction s) (simp_all add: ascii_escape_ascii)

lemma num_char_ascii: "is_num_char c \<Longrightarrow> code c < 128"
  by (auto simp: is_num_char_def is_digit_def code_def)

lemma ascii_token_text: "token_ok t \<Longrightarrow> ascii (token_text t)"
proof (cases t)
  case (TNum n)
  assume "token_ok t"
  then show ?thesis using TNum by (auto simp: ascii_def list_all_iff num_char_ascii)
next
  case (TStr s)
  assume "token_ok t"
  then show ?thesis using TStr by (simp add: print_string_def ascii_escape_loop) (simp add: quote_def code_def)
qed (simp_all add: code_def)

lemma ascii_concat [simp]: "ascii (concat ss) \<longleftrightarrow> list_all ascii ss"
  by (induction ss) simp_all

lemma ascii_marshal: "json_ok j \<Longrightarrow> ascii (marshal j)"
  using token_ok_tokens_of [of j] by (auto simp: marshal_def list_all_iff ascii_token_text)

lemma ascii_format_int [simp]: "ascii (format_int i)"
  using json_ok_format_int [of i] by (auto simp: ascii_def list_all_iff num_char_ascii)

lemma json_ok_j_int [simp]: "json_ok (j_int n)"
  unfolding j_int_def by (rule json_ok_format_int)

subsection \<open>What a task puts on the wire\<close>

lemma Create_json_ok:
  assumes "json_ok (Task_json t)"
  shows "json_ok (Task_json (fst (Create now t)))"
  using assms by (cases t) (simp_all add: task_creates SendReactionTask_json_def)

lemma Create_queue_ok:
  assumes "json_ok (Task_json t)" and "fst (snd (Create now t)) = Some q"
  shows "json_ok q"
  using assms
  by (cases t) (auto simp: task_creates SendReactionTask_json_def SendReactionV2Task_json_def code_def
      GenerateTimestampString_def split: if_splits)

text \<open>The members of an entry of the \<^verbatim>\<open>tasks\<close> array that depend on the task.\<close>

fun member :: "json \<Rightarrow> string \<Rightarrow> json option" where
  "member (JObj ms) k = map_of ms k"
| "member _ k = None"

definition carries :: "int64 \<times> Task \<Rightarrow> json \<Rightarrow> bool" where
  "carries nt j \<longleftrightarrow> (case nt of (now, t) \<Rightarrow>
     member j ''label'' = Some (JStr (GetLabel t)) \<and> member j ''failure_count'' = Some JNull \<and>
     (\<exists>text. member j ''payload'' = Some (JStr text) \<and> unmarshal text = Some (Task_json (fst (Create now t)))) \<and>
     (\<exists>q. fst (snd (Create now t)) = Some q \<and>
        (if snd (snd (Create now t)) then \<exists>text. member j ''queue_name'' = Some (JStr text) \<and> unmarshal text = Some q
         else member j ''queue_name'' = Some q)))"

definition queued :: "(int64 \<times> Task) list \<Rightarrow> (int64 \<times> Task) list" where
  "queued nts = filter (\<lambda>(now, t). fst (snd (Create now t)) \<noteq> None) nts"

lemma AddNewTask_none: "fst (snd (Create now t)) = None \<Longrightarrow> AddNewTask now t (tm, active) = (tm, active)"
  by (simp add: AddNewTask_def split_def)

lemma AddNewTask_some:
  assumes ok: "json_ok (Task_json t)" and q: "fst (snd (Create now t)) = Some q"
  shows "\<exists>d. AddNewTask now t (tm, active) = (tm\<lparr>tm_currTasks := tm_currTasks tm @ [d]\<rparr>, active @ [first_unused active 0])
    \<and> td_TaskId d = of_nat (first_unused active 0) \<and> carries (now, t) (TaskData_json d) \<and> json_ok (TaskData_json d)"
proof -
  let ?p = "fst (Create now t)" and ?b = "snd (snd (Create now t))"
  let ?q = "if ?b then JStr (marshal q) else q"
  define d where "d = \<lparr>td_FailureCount = None, td_Label = GetLabel t, td_Payload = Some (JStr (marshal (Task_json ?p))),
    td_QueueName = Some ?q, td_TaskId = of_nat (first_unused active 0)\<rparr>"
  have p: "json_ok (Task_json ?p)" by (rule Create_json_ok [OF ok])
  have qok: "json_ok q" by (rule Create_queue_ok [OF ok q])
  have "AddNewTask now t (tm, active) = (tm\<lparr>tm_currTasks := tm_currTasks tm @ [d]\<rparr>, active @ [first_unused active 0])"
    by (simp add: AddNewTask_def split_def q GetTaskID_def getTaskID_def Let_def d_def)
  moreover have "carries (now, t) (TaskData_json d)"
    by (simp add: carries_def d_def TaskData_json_def omit_if_def j_ptr_def GetLabel_nonempty q unmarshal_marshal [OF p]
        unmarshal_marshal [OF qok])
  moreover have "json_ok (TaskData_json d)"
    using ascii_marshal [OF p] ascii_marshal [OF qok] qok
    by (simp add: d_def TaskData_json_def omit_if_def j_ptr_def GetLabel_ascii) (simp add: code_def)
  ultimately show ?thesis by (intro exI [of _ d]) (simp add: d_def)
qed

lemma add_tasks_entries:
  assumes "\<forall>(now, t) \<in> set nts. json_ok (Task_json t)"
  shows "\<exists>ds ids. add_tasks nts (tm, active) = (tm\<lparr>tm_currTasks := tm_currTasks tm @ ds\<rparr>, active @ ids) \<and>
    map td_TaskId ds = map of_nat ids \<and> distinct ids \<and> set ids \<inter> set active = {} \<and>
    list_all2 (\<lambda>nt d. carries nt (TaskData_json d) \<and> json_ok (TaskData_json d)) (queued nts) ds"
  using assms
proof (induction nts arbitrary: tm active)
  case Nil
  show ?case by (intro exI [of _ "[]"]) (simp add: add_tasks_def queued_def)
next
  case (Cons nt nts)
  obtain now t where nt: "nt = (now, t)" by (cases nt)
  have ok: "json_ok (Task_json t)" and oks: "\<forall>(now, t) \<in> set nts. json_ok (Task_json t)"
    using Cons.prems nt by auto
  have step: "add_tasks (nt # nts) s = add_tasks nts (AddNewTask now t s)" for s
    by (simp add: add_tasks_def nt)
  show ?case
  proof (cases "fst (snd (Create now t))")
    case None
    then have "queued (nt # nts) = queued nts" by (simp add: queued_def nt)
    then show ?thesis using Cons.IH [OF oks] by (simp add: step AddNewTask_none [OF None])
  next
    case (Some q)
    let ?i = "first_unused active 0"
    obtain d where d: "AddNewTask now t (tm, active) = (tm\<lparr>tm_currTasks := tm_currTasks tm @ [d]\<rparr>, active @ [?i])"
      "td_TaskId d = of_nat ?i" "carries (now, t) (TaskData_json d)" "json_ok (TaskData_json d)"
      using AddNewTask_some [OF ok Some] by blast
    obtain ds ids where ds: "add_tasks nts (tm\<lparr>tm_currTasks := tm_currTasks tm @ [d]\<rparr>, active @ [?i])
        = (tm\<lparr>tm_currTasks := (tm_currTasks tm @ [d]) @ ds\<rparr>, (active @ [?i]) @ ids)"
      "map td_TaskId ds = map of_nat ids" "distinct ids" "set ids \<inter> set (active @ [?i]) = {}"
      "list_all2 (\<lambda>nt d. carries nt (TaskData_json d) \<and> json_ok (TaskData_json d)) (queued nts) ds"
      using Cons.IH [OF oks, of "tm\<lparr>tm_currTasks := tm_currTasks tm @ [d]\<rparr>" "active @ [?i]"] by auto
    have "queued (nt # nts) = nt # queued nts" by (simp add: queued_def nt Some)
    moreover have "add_tasks (nt # nts) (tm, active) = (tm\<lparr>tm_currTasks := tm_currTasks tm @ d # ds\<rparr>, active @ ?i # ids)"
      using ds(1) by (simp add: step d(1))
    ultimately show ?thesis
      using d(2-) ds(2-) first_unused_fresh [of active 0]
      by (intro exI [of _ "d # ds"] exI [of _ "?i # ids"]) (simp add: nt)
  qed
qed

section \<open>Properties\<close>


definition sample_tasks :: "(int64 \<times> Task) list" where
  "sample_tasks = [(5, EditMessageTask \<lparr>emt_MessageID = ''mid.1'', emt_Text = ''hi''\<rparr>),
     (5, UpdatePresenceTask \<lparr>upt2_ThreadKey = 1, upt2_IsGroupThread = 0, upt2_IsTyping = 1, upt2_Attribution = 0,
       upt2_SyncGroup = 1, upt2_ThreadType = 1\<rparr>),
     (6, GetContactsTask \<lparr>gct_Limit = 100\<rparr>)]"


text \<open>
  Every task has a label, and tasks are of two kinds: \<open>AddNewTask\<close> leaves out the presence updates and only
  those, and \<open>ExecuteStatelessTask\<close> refuses every other task.
\<close>

theorem stateless_tasks:
  "GetLabel t \<noteq> '''' \<and>
   (fst (AddNewTask now t (tm, active)) = tm \<longleftrightarrow> (\<exists>p. t = UpdatePresenceTask p)) \<and>
   (stateless_payload now versionID t = None \<longleftrightarrow> (\<nexists>p. t = UpdatePresenceTask p))"
proof (intro conjI)
  show "GetLabel t \<noteq> ''''" by (rule GetLabel_nonempty)
  show "stateless_payload now versionID t = None \<longleftrightarrow> (\<nexists>p. t = UpdatePresenceTask p)"
    by (simp add: stateless_payload_def split_def Let_def flip: Create_stateless [of now])
  have "fst (AddNewTask now t (tm, active)) = tm \<longleftrightarrow> fst (snd (Create now t)) = None"
    by (cases tm; cases "fst (snd (Create now t))") (simp_all add: AddNewTask_def split_def Let_def)
  then show "fst (AddNewTask now t (tm, active)) = tm \<longleftrightarrow> (\<exists>p. t = UpdatePresenceTask p)"
    by (simp only: Create_stateless)
qed

end
