(* ===== verification/Sync_Manager.thy ===== *)
theory Sync_Manager
  imports Ls_Wrap Mqtt_Socket Task_Manager
begin

text \<open>
  \<^verbatim>\<open>syncManager.go\<close>, \<^verbatim>\<open>socket/database.go\<close>, the fetching of threads in \<^verbatim>\<open>client.go\<close> and the thread backfill of
  \<^verbatim>\<open>connector/threadbackfill.go\<close>: the cursors of the databases and the key stores of the sync groups, and the loops that
  advance them. The entries of the two Go maps are pointers to structs that only the sync manager holds, so an update
  through an entry is an update of the map.

  A request, with whatever other goroutines do to the sync manager until it is answered, is the operation
  \<open>se_exchange\<close> of an environment; so are the clock behind the epoch identifiers and the event handler of the bridge.
  \<open>None\<close> is a call that does not return.
\<close>

section \<open>Model\<close>

type_synonym lstable = "string \<Rightarrow> row list"

subsection \<open>State (socket/database.go)\<close>

type_synonym SyncChannel = int64

definition MailBox :: SyncChannel where "MailBox = 1"
definition Contact :: SyncChannel where "Contact = 2"

record QueryMetadata =
  qm_DatabaseId :: int64
  qm_SendSyncParams :: bool
  qm_LastAppliedCursor :: "string option"
  qm_SyncParams :: json
  qm_SyncChannel :: SyncChannel

record KeyStoreData =
  ks_ParentThreadKey :: int64
  ks_MinLastActivityTimestampMs :: int64
  ks_HasMoreBefore :: bool
  ks_MinThreadKey :: int64

record SyncParams =
  sp_Mailbox :: string
  sp_Contact :: string
  sp_E2Ee :: string

record SyncManager =
  sm_store :: "int64 \<rightharpoonup> QueryMetadata"
  sm_keyStore :: "int64 \<rightharpoonup> KeyStoreData"
  sm_syncParams :: SyncParams

definition query_metadata :: "bool \<Rightarrow> SyncChannel \<Rightarrow> QueryMetadata" where
  "query_metadata sendSyncParams ch = \<lparr>qm_DatabaseId = 0, qm_SendSyncParams = sendSyncParams,
     qm_LastAppliedCursor = None, qm_SyncParams = JNull, qm_SyncChannel = ch\<rparr>"

definition initial_key_store :: KeyStoreData where
  "initial_key_store = \<lparr>ks_ParentThreadKey = -1, ks_MinLastActivityTimestampMs = 9999999999999,
     ks_HasMoreBefore = False, ks_MinThreadKey = 0\<rparr>"

definition newSyncManager :: SyncManager where
  "newSyncManager =
     \<lparr>sm_store = map_of ([(1, query_metadata False MailBox), (2, query_metadata True Contact)]
        @ map (\<lambda>db. (db, query_metadata True 0)) [5, 6, 7, 16, 26, 28, 89]
        @ [(95, query_metadata False Contact)]
        @ map (\<lambda>db. (db, query_metadata True 0)) [104, 120, 140, 141, 142, 143, 145, 196, 197, 198, 202]),
      sm_keyStore = [1 \<mapsto> initial_key_store, 95 \<mapsto> initial_key_store],
      sm_syncParams = \<lparr>sp_Mailbox = '''', sp_Contact = '''', sp_E2Ee = ''''\<rparr>\<rparr>"

definition shouldRecurseDatabase :: "int64 \<Rightarrow> bool" where
  "shouldRecurseDatabase db \<longleftrightarrow> db = 1 \<or> db = 2 \<or> db = 95 \<or> db = 104"

subsection \<open>Cursors and key stores\<close>

datatype sync_error = UnknownDatabase int64 | UnknownKeyStore int64 | RequestFailed

text \<open>A transaction, that is a row of \<^verbatim>\<open>LSExecuteFirstBlockForSyncTransaction\<close>, applied to an entry of the store.\<close>

definition apply_transaction :: "row \<Rightarrow> QueryMetadata \<Rightarrow> QueryMetadata" where
  "apply_transaction tr database = database\<lparr>
     qm_LastAppliedCursor := Some (row_string ''NextCursor'' tr),
     qm_SendSyncParams := row_bool ''SendSyncParams'' tr,
     qm_SyncChannel := row_int64 ''SyncChannel'' tr\<rparr>"

fun SyncTransactions :: "row list \<Rightarrow> SyncManager \<Rightarrow> sync_error option \<times> SyncManager" where
  "SyncTransactions [] sm = (None, sm)"
| "SyncTransactions (tr # trs) sm =
     (case sm_store sm (row_int64 ''DatabaseID'' tr) of
        None \<Rightarrow> (Some (UnknownDatabase (row_int64 ''DatabaseID'' tr)), sm)
      | Some database \<Rightarrow>
          SyncTransactions trs
            (sm\<lparr>sm_store := (sm_store sm)(row_int64 ''DatabaseID'' tr \<mapsto> apply_transaction tr database)\<rparr>))"

fun UpdateDatabaseSyncParams :: "QueryMetadata list \<Rightarrow> SyncManager \<Rightarrow> sync_error option \<times> SyncManager" where
  "UpdateDatabaseSyncParams [] sm = (None, sm)"
| "UpdateDatabaseSyncParams (db # dbs) sm =
     (case sm_store sm (qm_DatabaseId db) of
        None \<Rightarrow> (Some (UnknownDatabase (qm_DatabaseId db)), sm)
      | Some database \<Rightarrow>
          UpdateDatabaseSyncParams dbs (sm\<lparr>sm_store := (sm_store sm)(qm_DatabaseId db \<mapsto>
            database\<lparr>qm_SendSyncParams := qm_SendSyncParams db, qm_SyncChannel := qm_SyncChannel db\<rparr>)\<rparr>))"

definition dbID7Params :: string where
  "dbID7Params = ''{\"mnet_rank_types\":[44]}''"

definition getSyncParams :: "int64 \<Rightarrow> SyncChannel \<Rightarrow> SyncManager \<Rightarrow> string" where
  "getSyncParams dbID ch sm =
     (if dbID = 7 then dbID7Params
      else if ch = MailBox then sp_Mailbox (sm_syncParams sm)
      else if ch = Contact then sp_Contact (sm_syncParams sm)
      else sp_E2Ee (sm_syncParams sm))"

definition GetCursor :: "int64 \<Rightarrow> SyncManager \<Rightarrow> string" where
  "GetCursor db sm =
     (case sm_store sm db of
        None \<Rightarrow> ''''
      | Some database \<Rightarrow> (case qm_LastAppliedCursor database of None \<Rightarrow> '''' | Some c \<Rightarrow> c))"

text \<open>A thread range, that is a row of \<^verbatim>\<open>LSUpsertSyncGroupThreadsRange\<close>, applied to a key store; the loop over the rows,
  which keeps the last error and goes on.\<close>

definition apply_range :: "row \<Rightarrow> KeyStoreData \<Rightarrow> KeyStoreData" where
  "apply_range r keyStore = keyStore\<lparr>
     ks_HasMoreBefore := row_bool ''HasMoreBefore'' r,
     ks_MinLastActivityTimestampMs := row_int64 ''MinLastActivityTimestampMS'' r,
     ks_MinThreadKey := row_int64 ''MinThreadKey'' r,
     ks_ParentThreadKey := row_int64 ''ParentThreadKey'' r\<rparr>"

definition update_range :: "sync_error option \<times> SyncManager \<Rightarrow> row \<Rightarrow> sync_error option \<times> SyncManager" where
  "update_range s r =
     (case s of (err, sm) \<Rightarrow>
        let syncGroup = row_int64 ''SyncGroup'' r
        in if \<not> row_bool ''HasMoreBefore'' r then (err, sm)
           else (case sm_keyStore sm syncGroup of
                   None \<Rightarrow> (Some (UnknownKeyStore syncGroup), sm)
                 | Some keyStore \<Rightarrow>
                     (err, sm\<lparr>sm_keyStore := (sm_keyStore sm)(syncGroup \<mapsto> apply_range r keyStore)\<rparr>)))"

definition updateThreadRanges :: "row list \<Rightarrow> SyncManager \<Rightarrow> sync_error option \<times> SyncManager" where
  "updateThreadRanges ranges sm = foldl update_range (None, sm) ranges"

definition getSyncGroupKeyStore :: "int64 \<Rightarrow> SyncManager \<Rightarrow> KeyStoreData option" where
  "getSyncGroupKeyStore db sm = sm_keyStore sm db"

text \<open>The error of the first loop is overwritten by the result of the second.\<close>

definition updateSyncGroupCursors :: "lstable \<Rightarrow> SyncManager \<Rightarrow> sync_error option \<times> SyncManager" where
  "updateSyncGroupCursors tbl sm =
     (let (err1, sm1) = (if tbl ''LSUpsertSyncGroupThreadsRange'' \<noteq> []
                         then updateThreadRanges (tbl ''LSUpsertSyncGroupThreadsRange'') sm else (None, sm))
      in if tbl ''LSExecuteFirstBlockForSyncTransaction'' \<noteq> []
         then SyncTransactions (tbl ''LSExecuteFirstBlockForSyncTransaction'') sm1
         else (err1, sm1))"

definition NeedUpdateSyncGroups :: "lstable \<Rightarrow> bool" where
  "NeedUpdateSyncGroups tbl \<longleftrightarrow>
     tbl ''LSExecuteFirstBlockForSyncTransaction'' \<noteq> [] \<or> tbl ''LSUpsertSyncGroupThreadsRange'' \<noteq> []"

text \<open>The error is only logged.\<close>

definition postHandlePublishResponse :: "lstable \<Rightarrow> SyncManager \<Rightarrow> SyncManager" where
  "postHandlePublishResponse tbl sm =
     (if NeedUpdateSyncGroups tbl then snd (updateSyncGroupCursors tbl sm) else sm)"

subsection \<open>Database queries\<close>

record DatabaseQuery =
  dq_Database :: int64
  dq_LastAppliedCursor :: "string option"
  dq_SyncParams :: "string option"
  dq_EpochId :: int64
  dq_DataTraceId :: string
  dq_Version :: string
  dq_FailureCount :: json

text \<open>\<^verbatim>\<open>Version\<close> is a \<^verbatim>\<open>json.Number\<close>, printed as it is.\<close>

definition DatabaseQuery_json :: "DatabaseQuery \<Rightarrow> json" where
  "DatabaseQuery_json q = JObj
     ([(''database'', j_int (dq_Database q)), (''last_applied_cursor'', j_ptr JStr (dq_LastAppliedCursor q)),
       (''sync_params'', j_ptr JStr (dq_SyncParams q)), (''epoch_id'', j_int (dq_EpochId q))] @
      omit_if (dq_DataTraceId q = '''') (''data_trace_id'', JStr (dq_DataTraceId q)) @
      [(''version'', JNum (dq_Version q)), (''failure_count'', dq_FailureCount q)])"

record 'w sync_env =
  se_VersionID :: int64
  se_epoch :: "'w \<Rightarrow> int64 \<times> 'w"
  se_exchange :: "string \<Rightarrow> int \<Rightarrow> SyncManager \<Rightarrow> 'w \<Rightarrow> ((sync_error + lstable) \<times> SyncManager \<times> 'w) run"
  se_HandleEvent :: "lstable \<Rightarrow> SyncManager \<Rightarrow> 'w \<Rightarrow> SyncManager \<times> 'w"

text \<open>The query for a database and the type of the request.\<close>

definition database_query :: "int64 \<Rightarrow> int64 \<Rightarrow> int64 \<Rightarrow> QueryMetadata \<Rightarrow> SyncManager \<Rightarrow> DatabaseQuery \<times> int" where
  "database_query versionID epoch databaseID db sm =
     (let payload = \<lparr>dq_Database = databaseID, dq_LastAppliedCursor = None, dq_SyncParams = None, dq_EpochId = epoch,
            dq_DataTraceId = '''', dq_Version = format_int (sint versionID), dq_FailureCount = JNull\<rparr>
      in if qm_SendSyncParams db
         then (payload\<lparr>dq_SyncParams := Some (getSyncParams databaseID (qm_SyncChannel db) sm)\<rparr>, 1)
         else (payload\<lparr>dq_LastAppliedCursor := qm_LastAppliedCursor db\<rparr>, 2))"

text \<open>Whether a block ends the loop.\<close>

definition sync_ends :: "int64 \<Rightarrow> string \<Rightarrow> row \<Rightarrow> bool" where
  "sync_ends databaseID prevCursor block \<longleftrightarrow>
     (let nextCursor = row_string ''NextCursor'' block; currentCursor = row_string ''CurrentCursor'' block
      in nextCursor = currentCursor \<or> nextCursor = prevCursor \<or> nextCursor = ''dummy_cursor'' \<or> nextCursor = ''''
         \<or> \<not> shouldRecurseDatabase databaseID)"

text \<open>What is done with the table of an answer: the result of the call, or \<open>None\<close> to query again.\<close>

definition sync_answer ::
  "'w sync_env \<Rightarrow> int64 \<Rightarrow> string \<Rightarrow> lstable \<Rightarrow> SyncManager \<Rightarrow> 'w \<Rightarrow> sync_error option option \<times> SyncManager \<times> 'w" where
  "sync_answer env databaseID prevCursor tbl sm w =
     (case tbl ''LSExecuteFirstBlockForSyncTransaction'' of
        [] \<Rightarrow> (Some None, sm, w)
      | block # _ \<Rightarrow>
          (let (sm1, w1) = se_HandleEvent env tbl sm w
           in if sync_ends databaseID prevCursor block then (Some None, sm1, w1)
              else
                (let sm2 = sm1\<lparr>sm_store := (sm_store sm1)(databaseID :=
                       map_option (apply_transaction block) (sm_store sm1 databaseID))\<rparr>;
                     (err, sm3) = updateSyncGroupCursors tbl sm2
                 in (case err of Some e \<Rightarrow> Some (Some e) | None \<Rightarrow> None, sm3, w1))))"

lemma bind_run_mono [partial_function_mono]:
  fixes B :: "('x \<Rightarrow> 'y option) \<Rightarrow> 'a run" and C :: "'a \<Rightarrow> ('x \<Rightarrow> 'y option) \<Rightarrow> 'b run"
  assumes f: "mono_option B" and g: "\<And>y. mono_option (\<lambda>f. C y f)"
  shows "mono_option (\<lambda>f. bind_run (B f) (\<lambda>y. C y f))"
proof (rule monotoneI)
  fix x y :: "'x \<Rightarrow> 'y option"
  assume xy: "option.le_fun x y"
  have B: "option_ord (B x) (B y)" using f xy by (simp add: monotone_def)
  have C: "option_ord (C v x) (C v y)" for v using g xy by (simp add: monotone_def)
  show "option_ord (bind_run (B x) (\<lambda>v. C v x)) (bind_run (B y) (\<lambda>v. C v y))"
  proof (cases "B x = B y")
    case True
    show ?thesis
    proof (cases "\<exists>v. B y = Some (Ret v)")
      case True
      then obtain v where "B y = Some (Ret v)" by blast
      then show ?thesis using \<open>B x = B y\<close> C [of v] by (simp add: bind_run_def)
    next
      case False
      then have "bind_run (B y) k = bind_run (B y) k'" for k k' :: "'a \<Rightarrow> 'b run"
        by (auto simp: bind_run_def split: option.splits outcome.splits)
      then have "bind_run (B x) (\<lambda>v. C v x) = bind_run (B y) (\<lambda>v. C v y)" using \<open>B x = B y\<close> by metis
      then show ?thesis by (simp add: flat_ord_def)
    qed
  next
    case False
    then have "B x = None" using B by (simp add: flat_ord_def)
    then show ?thesis by (simp add: bind_run_def flat_ord_def)
  qed
qed

text \<open>The entry of the database is the one \<open>syncSocketData\<close> has found; without it the pointer would be nil.\<close>

partial_function (option) SyncSocketData ::
  "'w sync_env \<Rightarrow> int64 \<Rightarrow> SyncManager \<Rightarrow> 'w \<Rightarrow> (sync_error option \<times> SyncManager \<times> 'w) run" where
  "SyncSocketData env databaseID sm w =
     (case sm_store sm databaseID of
        None \<Rightarrow> Some Panic
      | Some db \<Rightarrow>
          (let (epoch, w1) = se_epoch env w;
               prevCursor = (case qm_LastAppliedCursor db of None \<Rightarrow> '''' | Some c \<Rightarrow> c);
               (payload, t) = database_query (se_VersionID env) epoch databaseID db sm
           in bind_run (se_exchange env (marshal (DatabaseQuery_json payload)) t sm w1) (\<lambda>(resp, sm2, w2).
                case resp of
                  Inl e \<Rightarrow> Some (Ret (Some e, sm2, w2))
                | Inr tbl \<Rightarrow>
                    (let (res, sm3, w3) = sync_answer env databaseID prevCursor tbl sm2 w2
                     in (case res of
                           Some err \<Rightarrow> Some (Ret (err, sm3, w3))
                         | None \<Rightarrow> SyncSocketData env databaseID sm3 w3)))))"

text \<open>\<open>outErr\<close> is the variable the goroutines share; only the one of database 1 writes it.\<close>

definition syncSocketData ::
  "'w sync_env \<Rightarrow> int64 \<Rightarrow> sync_error option \<times> SyncManager \<times> 'w \<Rightarrow> (sync_error option \<times> SyncManager \<times> 'w) run" where
  "syncSocketData env db s =
     (case s of (outErr, sm, w) \<Rightarrow>
        (case sm_store sm db of
           None \<Rightarrow> Some (Ret (outErr, sm, w))
         | Some _ \<Rightarrow>
             bind_run (SyncSocketData env db sm w) (\<lambda>(err, sm', w').
               Some (Ret (if err \<noteq> None \<and> db = 1 then err else outErr, sm', w')))))"

text \<open>The goroutines take their turns in the order of the list; what one does during the requests of another is
  an effect of \<open>se_exchange\<close>.\<close>

fun sync_goroutines ::
  "'w sync_env \<Rightarrow> int64 list \<Rightarrow> sync_error option \<times> SyncManager \<times> 'w \<Rightarrow> (sync_error option \<times> SyncManager \<times> 'w) run" where
  "sync_goroutines env [] s = Some (Ret s)"
| "sync_goroutines env (db # dbs) s = bind_run (syncSocketData env db s) (sync_goroutines env dbs)"

definition EnsureSyncedSocket ::
  "'w sync_env \<Rightarrow> int64 list \<Rightarrow> SyncManager \<Rightarrow> 'w \<Rightarrow> (sync_error option \<times> SyncManager \<times> 'w) run" where
  "EnsureSyncedSocket env databases sm w = sync_goroutines env databases (None, sm, w)"

text \<open>The same queries over HTTP (\<^verbatim>\<open>graphql/docs.go\<close>), with the request as an argument.\<close>

record LightspeedVariables =
  lv_Database :: int64
  lv_EpochID :: int64
  lv_SyncParams :: "string option"
  lv_LastAppliedCursor :: "string option"
  lv_Version :: int64

definition graphql_variables :: "int64 \<Rightarrow> int64 \<Rightarrow> QueryMetadata \<Rightarrow> SyncManager \<Rightarrow> LightspeedVariables" where
  "graphql_variables versionID db database sm =
     \<lparr>lv_Database = db, lv_EpochID = 0,
      lv_SyncParams = (if qm_SendSyncParams database then Some (getSyncParams db (qm_SyncChannel database) sm) else None),
      lv_LastAppliedCursor = qm_LastAppliedCursor database, lv_Version = versionID\<rparr>"

fun sync_graphql ::
  "(LightspeedVariables \<Rightarrow> int \<Rightarrow> SyncManager \<Rightarrow> 'w \<Rightarrow> ((sync_error + lstable) \<times> SyncManager \<times> 'w) run) \<Rightarrow> int64 \<Rightarrow>
     lstable option \<Rightarrow> int64 list \<Rightarrow> SyncManager \<Rightarrow> 'w \<Rightarrow> ((sync_error + lstable option) \<times> SyncManager \<times> 'w) run" where
  "sync_graphql request versionID tableData [] sm w = Some (Ret (Inr tableData, sm, w))"
| "sync_graphql request versionID tableData (db # dbs) sm w =
     (case sm_store sm db of
        None \<Rightarrow> Some (Ret (Inl (UnknownDatabase db), sm, w))
      | Some database \<Rightarrow>
          bind_run (request (graphql_variables versionID db database sm) 1 sm w) (\<lambda>(resp, sm1, w1).
            case resp of
              Inl e \<Rightarrow> Some (Ret (Inl e, sm1, w1))
            | Inr lsTable \<Rightarrow>
                (case updateSyncGroupCursors lsTable sm1 of
                   (Some e, sm2) \<Rightarrow> Some (Ret (Inl e, sm2, w1))
                 | (None, sm2) \<Rightarrow>
                     sync_graphql request versionID (if db = 1 then Some lsTable else tableData) dbs sm2 w1)))"

definition SyncDataGraphQL ::
  "(LightspeedVariables \<Rightarrow> int \<Rightarrow> SyncManager \<Rightarrow> 'w \<Rightarrow> ((sync_error + lstable) \<times> SyncManager \<times> 'w) run) \<Rightarrow> int64 \<Rightarrow>
     int64 list \<Rightarrow> SyncManager \<Rightarrow> 'w \<Rightarrow> ((sync_error + lstable option) \<times> SyncManager \<times> 'w) run" where
  "SyncDataGraphQL request versionID dbs sm w = sync_graphql request versionID None dbs sm w"

subsection \<open>Fetching threads (client.go, threadbackfill.go)\<close>

text \<open>The parts of the client these functions use; \<open>cl_world\<close> is everything else.\<close>

record 'w Client =
  cl_sync :: SyncManager
  cl_activeTasks :: "nat list"
  cl_epoch :: epoch_state
  cl_world :: 'w

record 'w fetch_env =
  fe_VersionID :: int64
  fe_now :: "'w \<Rightarrow> int64"
  fe_exchange :: "string \<Rightarrow> int \<Rightarrow> 'w Client \<Rightarrow> ((sync_error + lstable) \<times> 'w Client) run"
  fe_parseAndQueueTable :: "lstable \<Rightarrow> 'w Client \<Rightarrow> 'w Client"
  fe_ctxErr :: "'w \<Rightarrow> bool"
  fe_delay :: "'w Client \<Rightarrow> bool \<times> 'w Client"

definition fetch_threads_task :: "int64 \<Rightarrow> KeyStoreData \<Rightarrow> string \<Rightarrow> FetchThreadsTask" where
  "fetch_threads_task syncGroup keyStore cursor =
     \<lparr>ftt_IsAfter = 0, ftt_ParentThreadKey = ks_ParentThreadKey keyStore,
      ftt_ReferenceThreadKey = ks_MinThreadKey keyStore,
      ftt_ReferenceActivityTimestamp = ks_MinLastActivityTimestampMs keyStore,
      ftt_AdditionalPagesToFetch = 0, ftt_Cursor = JStr cursor, ftt_MessagingTag = JNull, ftt_SyncGroup = syncGroup\<rparr>"

text \<open>The result \<open>None\<close> is the nil table. The key store that is returned is a pointer into the sync manager, which the
  caller reads there.\<close>

definition FetchMoreThreads ::
  "'w fetch_env \<Rightarrow> int64 \<Rightarrow> 'w Client \<Rightarrow> ((sync_error + lstable option) \<times> 'w Client) run" where
  "FetchMoreThreads env syncGroup c =
     (case getSyncGroupKeyStore syncGroup (cl_sync c) of
        None \<Rightarrow> Some (Ret (Inr None, c))
      | Some keyStore \<Rightarrow>
          if \<not> ks_HasMoreBefore keyStore then Some (Ret (Inr None, c))
          else
            (let now = fe_now env (cl_world c);
                 (tskm, active) = AddNewTask now
                   (FetchThreadsTask (fetch_threads_task syncGroup keyStore (GetCursor syncGroup (cl_sync c))))
                   (newTaskManager, cl_activeTasks c);
                 (payload, _, e) = FinalizePayload now (fe_VersionID env) (cl_epoch c) tskm
             in bind_run (fe_exchange env payload 3 (c\<lparr>cl_activeTasks := active, cl_epoch := e\<rparr>)) (\<lambda>(resp, c1).
                  case resp of
                    Inl err \<Rightarrow> Some (Ret (Inl err, c1))
                  | Inr tbl \<Rightarrow>
                      Some (Ret (Inr (Some tbl), c1\<lparr>cl_sync := postHandlePublishResponse tbl (cl_sync c1)\<rparr>)))))"

datatype backfill_end = BackfillComplete | BackfillError sync_error | BackfillCancelled

text \<open>The rest of a round of the loop after a batch was fetched and queued: how the loop ends, or \<open>None\<close> to go on.\<close>

definition backfill_done :: "int \<Rightarrow> int \<Rightarrow> int64 \<Rightarrow> KeyStoreData option \<Rightarrow> bool" where
  "backfill_done batchLimit batchCount prevMinThreadKey keyStore \<longleftrightarrow>
     (case keyStore of
        None \<Rightarrow> True
      | Some ks \<Rightarrow> \<not> ks_HasMoreBefore ks \<or> ks_MinThreadKey ks = prevMinThreadKey \<or>
          (batchLimit > 0 \<and> batchCount \<ge> batchLimit))"

partial_function (option) backfill_loop ::
  "'w fetch_env \<Rightarrow> bool \<Rightarrow> int \<Rightarrow> int \<Rightarrow> int64 \<Rightarrow> 'w Client \<Rightarrow> (backfill_end \<times> 'w Client) run" where
  "backfill_loop env delay batchLimit batchCount prevMinThreadKey c =
     (if fe_ctxErr env (cl_world c) then Some (Ret (BackfillCancelled, c))
      else bind_run (FetchMoreThreads env 1 c) (\<lambda>(resp, c1).
        case resp of
          Inl err \<Rightarrow> Some (Ret (BackfillError err, c1))
        | Inr None \<Rightarrow> Some (Ret (BackfillComplete, c1))
        | Inr (Some tbl) \<Rightarrow>
            (let c2 = fe_parseAndQueueTable env tbl c1;
                 keyStore = sm_keyStore (cl_sync c2) 1
             in if backfill_done batchLimit (batchCount + 1) prevMinThreadKey keyStore
                then Some (Ret (BackfillComplete, c2))
                else
                  (let (cancelled, c3) = (if delay then fe_delay env c2 else (False, c2))
                   in if cancelled then Some (Ret (BackfillCancelled, c3))
                      else backfill_loop env delay batchLimit (batchCount + 1) (ks_MinThreadKey (the keyStore)) c3))))"

definition runThreadBackfill ::
  "'w fetch_env \<Rightarrow> bool \<Rightarrow> int \<Rightarrow> 'w Client \<Rightarrow> (backfill_end \<times> 'w Client) run" where
  "runThreadBackfill env delay batchLimit c = backfill_loop env delay batchLimit 0 0 c"

text \<open>The flag of the login that the backfill is complete: read first, set at the end; \<open>None\<close> is that nothing was done.\<close>

definition StartThreadBackfill ::
  "'w fetch_env \<Rightarrow> bool \<Rightarrow> int \<Rightarrow> bool \<Rightarrow> 'w Client \<Rightarrow> (backfill_end option \<times> bool \<times> 'w Client) run" where
  "StartThreadBackfill env delay batchCount backfillCompleted c =
     (if batchCount = 0 \<or> backfillCompleted then Some (Ret (None, backfillCompleted, c))
      else bind_run (runThreadBackfill env delay batchCount c) (\<lambda>(e, c').
        Some (Ret (Some e, e = BackfillComplete, c'))))"

section \<open>Lemmas\<close>

subsection \<open>The entries of the two maps are fixed\<close>

lemma dom_update_same: "m k = Some v \<Longrightarrow> dom (m(k \<mapsto> v')) = dom m"
  by auto

lemma SyncTransactions_dom:
  "SyncTransactions trs sm = (err, sm') \<Longrightarrow> dom (sm_store sm') = dom (sm_store sm) \<and> sm_keyStore sm' = sm_keyStore sm
     \<and> sm_syncParams sm' = sm_syncParams sm"
  by (induction trs sm rule: SyncTransactions.induct) (auto simp: dom_update_same split: option.splits)

lemma updateThreadRanges_dom_aux:
  "foldl update_range (err, sm) rs = (err', sm') \<Longrightarrow> dom (sm_keyStore sm') = dom (sm_keyStore sm) \<and>
     sm_store sm' = sm_store sm \<and> sm_syncParams sm' = sm_syncParams sm"
  by (induction rs arbitrary: err sm)
    (auto simp: update_range_def Let_def dom_update_same split: if_splits option.splits)

lemmas updateThreadRanges_dom = updateThreadRanges_dom_aux [of None, folded updateThreadRanges_def]

lemma updateSyncGroupCursors_dom:
  assumes "updateSyncGroupCursors tbl sm = (err, sm')"
  shows "dom (sm_store sm') = dom (sm_store sm)" "dom (sm_keyStore sm') = dom (sm_keyStore sm)"
proof -
  let ?rs = "tbl ''LSUpsertSyncGroupThreadsRange''" and ?trs = "tbl ''LSExecuteFirstBlockForSyncTransaction''"
  obtain err1 sm1 where 1: "(if ?rs \<noteq> [] then updateThreadRanges ?rs sm else (None, sm)) = (err1, sm1)" by fastforce
  have d1: "dom (sm_keyStore sm1) = dom (sm_keyStore sm) \<and> sm_store sm1 = sm_store sm"
    using 1 updateThreadRanges_dom by (cases "?rs \<noteq> []") auto
  have "(if ?trs \<noteq> [] then SyncTransactions ?trs sm1 else (err1, sm1)) = (err, sm')"
    using assms by (simp only: updateSyncGroupCursors_def 1 Let_def split)
  then have "dom (sm_store sm') = dom (sm_store sm1) \<and> sm_keyStore sm' = sm_keyStore sm1"
    using SyncTransactions_dom [of ?trs sm1] by (cases "?trs \<noteq> []") auto
  then show "dom (sm_store sm') = dom (sm_store sm)" "dom (sm_keyStore sm') = dom (sm_keyStore sm)"
    using d1 by simp_all
qed

subsection \<open>Transactions: the last one naming a database wins\<close>

abbreviation DatabaseID :: "row \<Rightarrow> int64" where "DatabaseID \<equiv> row_int64 ''DatabaseID''"

definition known_prefix :: "row list \<Rightarrow> SyncManager \<Rightarrow> row list" where
  "known_prefix trs sm = takeWhile (\<lambda>tr. sm_store sm (DatabaseID tr) \<noteq> None) trs"

lemma apply_transaction_twice [simp]: "apply_transaction t (apply_transaction t' q) = apply_transaction t q"
  by (simp add: apply_transaction_def)

lemma find_append: "find P (xs @ ys) = (case find P xs of Some x \<Rightarrow> Some x | None \<Rightarrow> find P ys)"
  by (induction xs) simp_all

lemma last_with_step:
  "last_with key k (r # rs) = (case last_with key k rs of Some x \<Rightarrow> Some x | None \<Rightarrow> if key r = k then Some r else None)"
  by (simp add: last_with_def find_append split: option.split)

lemma last_with_in: "last_with key k rs = Some r \<Longrightarrow> r \<in> set rs \<and> key r = k"
proof (induction rs)
  case (Cons x xs)
  then show ?case by (cases "last_with key k xs") (auto simp: last_with_step split: if_splits)
qed (simp add: last_with_def)

lemma SyncTransactions_spec:
  "SyncTransactions trs sm =
     (if length (known_prefix trs sm) = length trs then None
      else Some (UnknownDatabase (DatabaseID (trs ! length (known_prefix trs sm)))),
      sm\<lparr>sm_store := \<lambda>k. case last_with DatabaseID k (known_prefix trs sm) of
           None \<Rightarrow> sm_store sm k
         | Some tr \<Rightarrow> map_option (apply_transaction tr) (sm_store sm k)\<rparr>)"
proof (induction trs sm rule: SyncTransactions.induct)
  case (1 sm)
  show ?case by (simp add: known_prefix_def last_with_def)
next
  case (2 tr trs sm)
  show ?case
  proof (cases "sm_store sm (DatabaseID tr)")
    case None
    then show ?thesis by (simp add: known_prefix_def last_with_def)
  next
    case (Some q)
    let ?sm = "sm\<lparr>sm_store := (sm_store sm)(DatabaseID tr \<mapsto> apply_transaction tr q)\<rparr>"
    have prefix: "known_prefix trs ?sm = known_prefix trs sm"
      unfolding known_prefix_def using Some by (intro takeWhile_cong) auto
    have kp: "known_prefix (tr # trs) sm = tr # known_prefix trs sm" by (simp add: known_prefix_def Some)
    have store: "(case last_with DatabaseID k ks of None \<Rightarrow> sm_store ?sm k
          | Some t \<Rightarrow> map_option (apply_transaction t) (sm_store ?sm k))
        = (case last_with DatabaseID k (tr # ks) of None \<Rightarrow> sm_store sm k
          | Some t \<Rightarrow> map_option (apply_transaction t) (sm_store sm k))" for k ks
      using Some by (cases "DatabaseID tr = k") (simp_all add: last_with_step split: option.split)
    have "SyncTransactions (tr # trs) sm = SyncTransactions trs ?sm" by (simp add: Some)
    also have "\<dots> = (if length (known_prefix trs sm) = length trs then None
        else Some (UnknownDatabase (DatabaseID (trs ! length (known_prefix trs sm)))),
        ?sm\<lparr>sm_store := \<lambda>k. case last_with DatabaseID k (known_prefix trs sm) of None \<Rightarrow> sm_store ?sm k
          | Some t \<Rightarrow> map_option (apply_transaction t) (sm_store ?sm k)\<rparr>)"
      by (simp only: 2 [OF Some] prefix)
    finally show ?thesis by (simp only: store kp) simp
  qed
qed

subsection \<open>The loop over a database ends with the server's blocks\<close>

abbreviation blocks :: "lstable \<Rightarrow> row list" where "blocks tbl \<equiv> tbl ''LSExecuteFirstBlockForSyncTransaction''"

lemma dom_map_option: "dom (m(k := map_option f (m k))) = dom m"
  by (auto simp: dom_def)

lemma sync_answer_continues:
  assumes "sync_answer env db prev tbl sm w = (None, sm', w')"
  shows "blocks tbl \<noteq> []" "\<not> sync_ends db prev (hd (blocks tbl))" "w' = snd (se_HandleEvent env tbl sm w)"
proof -
  obtain block bs where bs: "blocks tbl = block # bs"
    using assms by (cases "blocks tbl") (simp_all add: sync_answer_def)
  obtain sm1 w1 where h: "se_HandleEvent env tbl sm w = (sm1, w1)" by fastforce
  let ?sm2 = "sm1\<lparr>sm_store := (sm_store sm1)(db := map_option (apply_transaction block) (sm_store sm1 db))\<rparr>"
  have ends: "\<not> sync_ends db prev block" using assms by (auto simp: sync_answer_def bs h)
  obtain err sm3 where u: "updateSyncGroupCursors tbl ?sm2 = (err, sm3)" by fastforce
  have eq: "sm' = sm3" "w' = w1" using assms ends by (auto simp: sync_answer_def bs h u Let_def)
  show "blocks tbl \<noteq> []" "\<not> sync_ends db prev (hd (blocks tbl))" using bs ends by simp_all
  show "w' = snd (se_HandleEvent env tbl sm w)" by (simp add: eq h)
qed

lemma sync_answer_dom:
  assumes "sync_answer env db prev tbl sm w = (res, sm', w')"
    and "dom (sm_store sm) \<subseteq> dom (sm_store (fst (se_HandleEvent env tbl sm w)))"
  shows "dom (sm_store sm) \<subseteq> dom (sm_store sm')"
proof (cases "blocks tbl")
  case Nil
  then show ?thesis using assms(1) by (auto simp: sync_answer_def)
next
  case (Cons block bs)
  obtain sm1 w1 where h: "se_HandleEvent env tbl sm w = (sm1, w1)" by fastforce
  let ?sm2 = "sm1\<lparr>sm_store := (sm_store sm1)(db := map_option (apply_transaction block) (sm_store sm1 db))\<rparr>"
  obtain err sm3 where u: "updateSyncGroupCursors tbl ?sm2 = (err, sm3)" by fastforce
  have "dom (sm_store sm3) = dom (sm_store sm1)"
    using updateSyncGroupCursors_dom(1) [OF u] dom_map_option [of "sm_store sm1" db "apply_transaction block"]
    by (simp del: dom_fun_upd)
  moreover have "sm' = sm1 \<or> sm' = sm3"
    using assms(1) by (auto simp: sync_answer_def Cons h u Let_def split: if_splits)
  ultimately show ?thesis using assms(2) by (elim disjE) (simp_all add: h)
qed

text \<open>What is asked of the rest of the client: requests come back, the entries of the store stay, and \<open>\<mu>\<close> bounds
  how many more blocks with a new cursor the server has.\<close>

definition sync_env_ok :: "('w \<Rightarrow> nat) \<Rightarrow> 'w sync_env \<Rightarrow> bool" where
  "sync_env_ok \<mu> env \<longleftrightarrow>
     (\<forall>w. \<mu> (snd (se_epoch env w)) \<le> \<mu> w) \<and>
     (\<forall>tbl sm w. \<mu> (snd (se_HandleEvent env tbl sm w)) \<le> \<mu> w \<and>
        dom (sm_store sm) \<subseteq> dom (sm_store (fst (se_HandleEvent env tbl sm w)))) \<and>
     (\<forall>p t sm w. \<exists>r sm' w'. se_exchange env p t sm w = Some (Ret (r, sm', w')) \<and>
        dom (sm_store sm) \<subseteq> dom (sm_store sm') \<and> \<mu> w' \<le> \<mu> w \<and>
        (\<forall>tbl. r = Inr tbl \<and> blocks tbl \<noteq> [] \<and>
           row_string ''NextCursor'' (hd (blocks tbl)) \<noteq> row_string ''CurrentCursor'' (hd (blocks tbl)) \<longrightarrow> \<mu> w' < \<mu> w))"

lemma SyncSocketData_returns:
  assumes ok: "sync_env_ok \<mu> env" and "db \<in> dom (sm_store sm)"
  shows "\<exists>err sm' w'. SyncSocketData env db sm w = Some (Ret (err, sm', w')) \<and> dom (sm_store sm) \<subseteq> dom (sm_store sm')"
  using assms(2)
proof (induction "\<mu> w" arbitrary: sm w rule: less_induct)
  case less
  obtain q where q: "sm_store sm db = Some q" using less.prems by blast
  let ?prev = "case qm_LastAppliedCursor q of None \<Rightarrow> '''' | Some c \<Rightarrow> c"
  obtain epoch w1 where e: "se_epoch env w = (epoch, w1)" by fastforce
  obtain payload t where d: "database_query (se_VersionID env) epoch db q sm = (payload, t)" by fastforce
  have w1: "\<mu> w1 \<le> \<mu> w" using ok e unfolding sync_env_ok_def by (metis snd_conv)
  obtain r sm2 w2 where x: "se_exchange env (marshal (DatabaseQuery_json payload)) t sm w1 = Some (Ret (r, sm2, w2))"
    "dom (sm_store sm) \<subseteq> dom (sm_store sm2)" "\<mu> w2 \<le> \<mu> w1"
    and dec: "\<And>tbl. r = Inr tbl \<Longrightarrow> blocks tbl \<noteq> [] \<Longrightarrow>
      row_string ''NextCursor'' (hd (blocks tbl)) \<noteq> row_string ''CurrentCursor'' (hd (blocks tbl)) \<Longrightarrow> \<mu> w2 < \<mu> w1"
    using ok unfolding sync_env_ok_def by meson
  show ?case
  proof (cases r)
    case (Inl err)
    then show ?thesis using x by (subst SyncSocketData.simps) (simp add: q e d)
  next
    case (Inr tbl)
    obtain res sm3 w3 where a: "sync_answer env db ?prev tbl sm2 w2 = (res, sm3, w3)" using prod_cases3 by blast
    have unfolded: "SyncSocketData env db sm w =
        (case res of Some err \<Rightarrow> Some (Ret (err, sm3, w3)) | None \<Rightarrow> SyncSocketData env db sm3 w3)"
      using x(1) a by (subst SyncSocketData.simps) (simp add: q e d Inr)
    have h: "\<mu> (snd (se_HandleEvent env tbl sm2 w2)) \<le> \<mu> w2"
      "dom (sm_store sm2) \<subseteq> dom (sm_store (fst (se_HandleEvent env tbl sm2 w2)))"
      using ok unfolding sync_env_ok_def by blast+
    have sub: "dom (sm_store sm) \<subseteq> dom (sm_store sm3)" using sync_answer_dom [OF a h(2)] x(2) by blast
    show ?thesis
    proof (cases res)
      case None
      note c = sync_answer_continues [OF a [unfolded None]]
      have "row_string ''NextCursor'' (hd (blocks tbl)) \<noteq> row_string ''CurrentCursor'' (hd (blocks tbl))"
        using c(2) by (auto simp: sync_ends_def Let_def)
      then have "\<mu> w3 < \<mu> w" using dec [OF Inr c(1)] h(1) c(3) w1 by simp
      then show ?thesis using less.hyps [of w3 sm3] less.prems sub unfolded None by fastforce
    next
      case (Some err)
      then show ?thesis using unfolded sub by auto
    qed
  qed
qed

lemma sync_goroutines_return:
  assumes ok: "sync_env_ok \<mu> env"
  shows "\<exists>err sm' w'. sync_goroutines env dbs (outErr, sm, w) = Some (Ret (err, sm', w')) \<and>
    dom (sm_store sm) \<subseteq> dom (sm_store sm') \<and> (1 \<notin> set dbs \<longrightarrow> err = outErr)"
proof (induction dbs arbitrary: outErr sm w)
  case Nil
  show ?case by simp
next
  case (Cons db dbs)
  have "\<exists>err sm' w'. syncSocketData env db (outErr, sm, w) = Some (Ret (err, sm', w')) \<and>
      dom (sm_store sm) \<subseteq> dom (sm_store sm') \<and> (db \<noteq> 1 \<longrightarrow> err = outErr)"
  proof (cases "sm_store sm db")
    case (Some q)
    then show ?thesis
      using SyncSocketData_returns [OF ok, of db sm w] by (fastforce simp: syncSocketData_def)
  qed (simp add: syncSocketData_def)
  then obtain err sm' w' where s: "syncSocketData env db (outErr, sm, w) = Some (Ret (err, sm', w'))"
    "dom (sm_store sm) \<subseteq> dom (sm_store sm')" "db \<noteq> 1 \<longrightarrow> err = outErr" by blast
  then show ?case using Cons [of err sm' w'] by fastforce
qed

subsection \<open>A server that alternates between two cursors\<close>

text \<open>A table with one block for a database and nothing else.\<close>

definition block_row :: "int64 \<Rightarrow> string \<Rightarrow> string \<Rightarrow> row" where
  "block_row db current next = [(''DatabaseID'', RInt64 db), (''CurrentCursor'', RString current),
     (''NextCursor'', RString next), (''SendSyncParams'', RBool False), (''SyncChannel'', RInt64 1)]"

definition block_table :: "int64 \<Rightarrow> string \<Rightarrow> string \<Rightarrow> lstable" where
  "block_table db current next t =
     (if t = ''LSExecuteFirstBlockForSyncTransaction'' then [block_row db current next] else [])"

definition alternating :: "bool sync_env" where
  "alternating = \<lparr>se_VersionID = 1, se_epoch = \<lambda>w. (0, w),
     se_exchange = \<lambda>p t sm w. Some (Ret (Inr (block_table 1 ''x'' (if w then ''a'' else ''b'')), sm, \<not> w)),
     se_HandleEvent = \<lambda>tbl sm w. (sm, w)\<rparr>"

lemma block_row_fields [simp]:
  "row_int64 ''DatabaseID'' (block_row db current next) = db"
  "row_string ''CurrentCursor'' (block_row db current next) = current"
  "row_string ''NextCursor'' (block_row db current next) = next"
  by (simp_all add: block_row_def row_int64_def row_string_def)

lemma alternating_env:
  "se_epoch alternating w = (0, w)"
  "se_exchange alternating p t sm w = Some (Ret (Inr (block_table 1 ''x'' (if w then ''a'' else ''b'')), sm, \<not> w))"
  by (simp_all add: alternating_def)

lemma alternating_answer:
  assumes "sm_store sm 1 = Some q" and "prev \<noteq> (if w then ''a'' else ''b'')"
  shows "\<exists>sm' q'. sync_answer alternating 1 prev (block_table 1 ''x'' (if w then ''a'' else ''b'')) sm v = (None, sm', v) \<and>
    sm_store sm' 1 = Some q' \<and> qm_LastAppliedCursor q' = Some (if w then ''a'' else ''b'')"
  using assms
  by (simp add: sync_answer_def block_table_def alternating_def sync_ends_def shouldRecurseDatabase_def Let_def
      updateSyncGroupCursors_def apply_transaction_def)

definition turning :: "bool sync_env \<Rightarrow> int64 \<Rightarrow> SyncManager \<Rightarrow> bool \<Rightarrow> bool" where
  "turning env db sm w \<longleftrightarrow> env = alternating \<and> db = 1 \<and>
     (\<exists>q. sm_store sm 1 = Some q \<and> qm_LastAppliedCursor q \<noteq> Some (if w then ''a'' else ''b''))"

lemma alternating_step:
  assumes "turning env db sm w"
  shows "\<exists>q sm'. sm_store sm db = Some q \<and> turning env db sm' (\<not> w) \<and>
    sync_answer env db (case qm_LastAppliedCursor q of None \<Rightarrow> '''' | Some c \<Rightarrow> c)
      (block_table 1 ''x'' (if w then ''a'' else ''b'')) sm (\<not> w) = (None, sm', \<not> w)"
proof -
  obtain q where env: "env = alternating" "db = 1" and q: "sm_store sm 1 = Some q"
    "qm_LastAppliedCursor q \<noteq> Some (if w then ''a'' else ''b'')"
    using assms by (auto simp: turning_def)
  have "(case qm_LastAppliedCursor q of None \<Rightarrow> '''' | Some c \<Rightarrow> c) \<noteq> (if w then ''a'' else ''b'')"
    using q(2) by (cases "qm_LastAppliedCursor q") auto
  from alternating_answer [OF q(1) this, of "\<not> w"] show ?thesis
    using q(1) by (fastforce simp: env turning_def)
qed

lemma alternating_never_ends: "SyncSocketData env db sm w = Some r \<Longrightarrow> \<not> turning env db sm w"
proof (erule SyncSocketData.raw_induct [where P = "\<lambda>env db sm w r. \<not> turning env db sm w", rotated], goal_cases)
  case (1 SSD env db sm w r)
  show ?case
  proof
    assume t: "turning env db sm w"
    then have env: "env = alternating" by (simp add: turning_def)
    from alternating_step [OF t] obtain q sm' where a: "sm_store sm db = Some q" "turning env db sm' (\<not> w)"
      "sync_answer env db (case qm_LastAppliedCursor q of None \<Rightarrow> '''' | Some c \<Rightarrow> c)
        (block_table 1 ''x'' (if w then ''a'' else ''b'')) sm (\<not> w) = (None, sm', \<not> w)" by blast
    have "SSD env db sm' (\<not> w) = Some r"
      using 1(2) a(1,3) by (simp add: env alternating_env split_def Let_def)
    then show False using 1(1) a(2) by blast
  qed
qed

subsection \<open>Key stores\<close>

abbreviation ranges_of :: "int64 \<Rightarrow> lstable \<Rightarrow> row list" where
  "ranges_of g tbl \<equiv> filter (\<lambda>r. row_bool ''HasMoreBefore'' r \<and> row_int64 ''SyncGroup'' r = g)
     (tbl ''LSUpsertSyncGroupThreadsRange'')"

definition last_range :: "row list \<Rightarrow> KeyStoreData \<Rightarrow> KeyStoreData" where
  "last_range rs ks = (if rs = [] then ks else apply_range (last rs) ks)"

lemma apply_range_twice [simp]: "apply_range r (apply_range r' ks) = apply_range r ks"
  by (simp add: apply_range_def)

lemma foldl_update_range:
  "foldl update_range (err, sm) rs = (err', sm') \<Longrightarrow> sm_keyStore sm g = Some ks \<Longrightarrow>
     sm_keyStore sm' g = Some (last_range
       (filter (\<lambda>r. row_bool ''HasMoreBefore'' r \<and> row_int64 ''SyncGroup'' r = g) rs) ks)"
proof (induction rs arbitrary: err sm ks)
  case Nil
  then show ?case by (simp add: last_range_def)
next
  case (Cons r rs)
  obtain e1 sm1 where s: "update_range (err, sm) r = (e1, sm1)" by fastforce
  let ?hit = "row_bool ''HasMoreBefore'' r \<and> row_int64 ''SyncGroup'' r = g"
  have "sm_keyStore sm1 g = Some (if ?hit then apply_range r ks else ks)"
    using s Cons.prems(2) by (auto simp: update_range_def Let_def split: if_splits option.splits)
  from Cons.IH [OF _ this] Cons.prems(1) s show ?case
    by (auto simp: last_range_def)
qed

lemma postHandle_key_store:
  assumes "sm_keyStore sm g = Some ks"
  shows "sm_keyStore (postHandlePublishResponse tbl sm) g = Some (last_range (ranges_of g tbl) ks)"
proof -
  let ?rs = "tbl ''LSUpsertSyncGroupThreadsRange''"
  obtain err1 sm1 where 1: "(if ?rs \<noteq> [] then updateThreadRanges ?rs sm else (None, sm)) = (err1, sm1)" by fastforce
  have k1: "sm_keyStore sm1 g = Some (last_range (ranges_of g tbl) ks)"
  proof (cases "?rs = []")
    case True
    then show ?thesis using 1 assms by (simp add: last_range_def)
  next
    case False
    then have "foldl update_range (None, sm) ?rs = (err1, sm1)" using 1 by (simp add: updateThreadRanges_def)
    from foldl_update_range [OF this assms] show ?thesis .
  qed
  have u: "snd (updateSyncGroupCursors tbl sm) = snd (if blocks tbl \<noteq> [] then SyncTransactions (blocks tbl) sm1 else (err1, sm1))"
    by (simp only: updateSyncGroupCursors_def 1 Let_def split)
  have "sm_keyStore (snd (updateSyncGroupCursors tbl sm)) = sm_keyStore sm1"
    unfolding u using SyncTransactions_dom [of "blocks tbl" sm1] by (cases "SyncTransactions (blocks tbl) sm1") auto
  moreover have "ranges_of g tbl = []" if "\<not> NeedUpdateSyncGroups tbl" using that by (simp add: NeedUpdateSyncGroups_def)
  ultimately show ?thesis using k1 assms by (simp add: postHandlePublishResponse_def last_range_def)
qed

lemma last_range_more:
  "ks_HasMoreBefore (last_range (ranges_of g tbl) ks) \<longleftrightarrow> ks_HasMoreBefore ks \<or> ranges_of g tbl \<noteq> []"
proof (cases "ranges_of g tbl = []")
  case False
  then have "last (ranges_of g tbl) \<in> set (ranges_of g tbl)" by (rule last_in_set)
  then show ?thesis using False by (simp add: last_range_def apply_range_def)
qed (simp add: last_range_def)

subsection \<open>The backfill\<close>

definition fetch_env_ok :: "('w \<Rightarrow> nat) \<Rightarrow> 'w fetch_env \<Rightarrow> bool" where
  "fetch_env_ok \<kappa> env \<longleftrightarrow>
     (\<forall>p t c. \<exists>r c'. fe_exchange env p t c = Some (Ret (r, c')) \<and> \<kappa> (cl_world c') \<le> Suc (\<kappa> (cl_world c))) \<and>
     (\<forall>tbl c. \<kappa> (cl_world (fe_parseAndQueueTable env tbl c)) \<le> \<kappa> (cl_world c)) \<and>
     (\<forall>c. \<kappa> (cl_world (snd (fe_delay env c))) \<le> \<kappa> (cl_world c))"

lemma FetchMoreThreads_returns:
  assumes "fetch_env_ok \<kappa> env"
  shows "\<exists>r c'. FetchMoreThreads env g c = Some (Ret (r, c')) \<and> \<kappa> (cl_world c') \<le> Suc (\<kappa> (cl_world c))"
proof (cases "getSyncGroupKeyStore g (cl_sync c)")
  case None
  then show ?thesis by (simp add: FetchMoreThreads_def)
next
  case (Some ks)
  show ?thesis
  proof (cases "ks_HasMoreBefore ks")
    case False
    then show ?thesis by (simp add: FetchMoreThreads_def Some)
  next
    case True
    let ?now = "fe_now env (cl_world c)"
    obtain tskm active where a: "AddNewTask ?now
        (FetchThreadsTask (fetch_threads_task g ks (GetCursor g (cl_sync c)))) (newTaskManager, cl_activeTasks c)
        = (tskm, active)" by fastforce
    obtain payload tm' e where f: "FinalizePayload ?now (fe_VersionID env) (cl_epoch c) tskm = (payload, tm', e)"
      using prod_cases3 by blast
    let ?c = "c\<lparr>cl_activeTasks := active, cl_epoch := e\<rparr>"
    obtain r c' where x: "fe_exchange env payload 3 ?c = Some (Ret (r, c'))"
      "\<kappa> (cl_world c') \<le> Suc (\<kappa> (cl_world ?c))"
      using assms unfolding fetch_env_ok_def by meson
    then show ?thesis by (cases r) (simp_all add: FetchMoreThreads_def Some True a f)
  qed
qed

lemma backfill_loop_returns:
  assumes ok: "fetch_env_ok \<kappa> env" and limit: "batchLimit > 0" and "batchCount < batchLimit"
  shows "\<exists>e c'. backfill_loop env delay batchLimit batchCount prev c = Some (Ret (e, c')) \<and>
    \<kappa> (cl_world c') \<le> \<kappa> (cl_world c) + nat (batchLimit - batchCount)"
  using assms(3)
proof (induction "nat (batchLimit - batchCount)" arbitrary: batchCount prev c rule: less_induct)
  case less
  obtain r c1 where f: "FetchMoreThreads env 1 c = Some (Ret (r, c1))" "\<kappa> (cl_world c1) \<le> Suc (\<kappa> (cl_world c))"
    using FetchMoreThreads_returns [OF ok] by blast
  have pos: "Suc 0 \<le> nat (batchLimit - batchCount)" using less.prems by linarith
  show ?case
  proof (cases "fe_ctxErr env (cl_world c) \<or> (\<forall>tbl. r \<noteq> Inr (Some tbl))")
    case True
    then show ?thesis using f pos
      by (subst backfill_loop.simps) (auto split: sum.splits option.splits)
  next
    case False
    then obtain tbl where r: "r = Inr (Some tbl)" and ctx: "\<not> fe_ctxErr env (cl_world c)" by blast
    let ?c2 = "fe_parseAndQueueTable env tbl c1"
    obtain cancelled c3 where d: "(if delay then fe_delay env ?c2 else (False, ?c2)) = (cancelled, c3)" by fastforce
    have k2: "\<kappa> (cl_world ?c2) \<le> \<kappa> (cl_world c1)" using ok by (simp add: fetch_env_ok_def)
    have k3: "\<kappa> (cl_world c3) \<le> \<kappa> (cl_world ?c2)"
      using ok d by (cases delay) (auto simp: fetch_env_ok_def dest: spec [of _ ?c2])
    have step: "backfill_loop env delay batchLimit batchCount prev c =
       (if backfill_done batchLimit (batchCount + 1) prev (sm_keyStore (cl_sync ?c2) 1)
        then Some (Ret (BackfillComplete, ?c2))
        else if cancelled then Some (Ret (BackfillCancelled, c3))
        else backfill_loop env delay batchLimit (batchCount + 1) (ks_MinThreadKey (the (sm_keyStore (cl_sync ?c2) 1))) c3)"
      using ctx d by (subst backfill_loop.simps) (simp add: f(1) r Let_def)
    show ?thesis
    proof (cases "backfill_done batchLimit (batchCount + 1) prev (sm_keyStore (cl_sync ?c2) 1) \<or> cancelled")
      case True
      then show ?thesis using step f(2) k2 k3 pos by auto
    next
      case False
      then have "batchCount + 1 < batchLimit"
        using limit by (auto simp: backfill_done_def split: option.splits)
      moreover have "nat (batchLimit - (batchCount + 1)) < nat (batchLimit - batchCount)" using less.prems by linarith
      moreover have "backfill_loop env delay batchLimit batchCount prev c = backfill_loop env delay batchLimit
          (batchCount + 1) (ks_MinThreadKey (the (sm_keyStore (cl_sync ?c2) 1))) c3"
        using step False by simp
      ultimately obtain e c' where "backfill_loop env delay batchLimit batchCount prev c = Some (Ret (e, c'))"
        "\<kappa> (cl_world c') \<le> \<kappa> (cl_world c3) + nat (batchLimit - (batchCount + 1))"
        using less.hyps [of "batchCount + 1" "ks_MinThreadKey (the (sm_keyStore (cl_sync ?c2) 1))" c3] by metis
      moreover have "Suc (nat (batchLimit - (batchCount + 1))) = nat (batchLimit - batchCount)"
        using less.prems by linarith
      ultimately show ?thesis using f(2) k2 k3 by (intro exI conjI) (assumption, linarith)
    qed
  qed
qed

section \<open>Properties\<close>

lemma updateSyncGroupCursors_known:
  assumes u: "updateSyncGroupCursors tbl sm = (err, sm')" and ne: "blocks tbl \<noteq> []"
    and known: "\<forall>tr \<in> set (blocks tbl). DatabaseID tr \<in> dom (sm_store sm)"
  shows "err = None" "sm_store sm' = (\<lambda>k. case last_with DatabaseID k (blocks tbl) of None \<Rightarrow> sm_store sm k
      | Some tr \<Rightarrow> map_option (apply_transaction tr) (sm_store sm k))"
proof -
  let ?rs = "tbl ''LSUpsertSyncGroupThreadsRange''"
  obtain err1 sm1 where 1: "(if ?rs \<noteq> [] then updateThreadRanges ?rs sm else (None, sm)) = (err1, sm1)" by fastforce
  have store1: "sm_store sm1 = sm_store sm" using 1 updateThreadRanges_dom by (cases "?rs = []") auto
  have t: "SyncTransactions (blocks tbl) sm1 = (err, sm')"
    using u ne by (simp only: updateSyncGroupCursors_def 1 Let_def split if_True simp_thms)
  have prefix: "known_prefix (blocks tbl) sm1 = blocks tbl"
    unfolding known_prefix_def takeWhile_eq_all_conv using known by (auto simp: store1)
  show "err = None" "sm_store sm' = (\<lambda>k. case last_with DatabaseID k (blocks tbl) of None \<Rightarrow> sm_store sm k
      | Some tr \<Rightarrow> map_option (apply_transaction tr) (sm_store sm k))"
    using t unfolding store1 [symmetric] by (auto simp: SyncTransactions_spec prefix)
qed

text \<open>
  C29. After a table with transactions, all of known databases, the cursor of each database is the next cursor of the
  last transaction that names it, and unchanged if there is none. No error is reported, not even when a
  thread range of the same table names a sync group without a key store.
\<close>

theorem cursors_follow_transactions:
  assumes "updateSyncGroupCursors tbl sm = (err, sm')" and "blocks tbl \<noteq> []"
    and "\<forall>tr \<in> set (blocks tbl). DatabaseID tr \<in> dom (sm_store sm)"
  shows "err = None \<and> (\<forall>db. GetCursor db sm' = (case last_with DatabaseID db (blocks tbl) of
      None \<Rightarrow> GetCursor db sm | Some tr \<Rightarrow> row_string ''NextCursor'' tr))"
proof (intro conjI allI)
  show "err = None" by (rule updateSyncGroupCursors_known(1) [OF assms])
  fix db
  have "\<exists>q. sm_store sm db = Some q" if "last_with DatabaseID db (blocks tbl) = Some tr" for tr
    using last_with_in [OF that] assms(3) by blast
  then show "GetCursor db sm' = (case last_with DatabaseID db (blocks tbl) of
      None \<Rightarrow> GetCursor db sm | Some tr \<Rightarrow> row_string ''NextCursor'' tr)"
    unfolding GetCursor_def updateSyncGroupCursors_known(2) [OF assms]
    by (auto simp: apply_transaction_def split: option.split)
qed

theorem cursors_follow_transactions_witness:
  "fst (updateSyncGroupCursors (block_table 1 ''c'' ''d'') newSyncManager) = None \<and>
   (\<forall>db. GetCursor db (snd (updateSyncGroupCursors (block_table 1 ''c'' ''d'') newSyncManager)) =
      (case last_with DatabaseID db (blocks (block_table 1 ''c'' ''d'')) of
         None \<Rightarrow> GetCursor db newSyncManager | Some tr \<Rightarrow> row_string ''NextCursor'' tr))"
  by (rule cursors_follow_transactions [OF prod.collapse [symmetric]])
    (simp_all add: block_table_def newSyncManager_def)

text \<open>
  C30. Synchronising databases ends, in whatever order the goroutines run, if requests come back and the server has
  only finitely many blocks with a new cursor; databases stay known, and the call fails only if
  database 1 was among the databases: the failures of the others are logged and dropped.
\<close>

theorem synchronisation_ends:
  assumes "sync_env_ok \<mu> env"
  shows "\<exists>err sm' w'. EnsureSyncedSocket env dbs sm w = Some (Ret (err, sm', w')) \<and>
    dom (sm_store sm) \<subseteq> dom (sm_store sm') \<and> (1 \<notin> set dbs \<longrightarrow> err = None)"
  unfolding EnsureSyncedSocket_def by (rule sync_goroutines_return [OF assms])

text \<open>A server with a list of next cursors that then repeats the current one.\<close>

definition scripted :: "string list sync_env" where
  "scripted = \<lparr>se_VersionID = 1, se_epoch = \<lambda>w. (0, w),
     se_exchange = \<lambda>p t sm w. Some (Ret (Inr (block_table 1 ''c'' (case w of [] \<Rightarrow> ''c'' | n # _ \<Rightarrow> n)), sm, tl w)),
     se_HandleEvent = \<lambda>tbl sm w. (sm, w)\<rparr>"

theorem synchronisation_ends_witness:
  "\<exists>sm' w'. EnsureSyncedSocket scripted [104, 2] newSyncManager [''d'', ''e''] = Some (Ret (None, sm', w')) \<and>
    dom (sm_store newSyncManager) \<subseteq> dom (sm_store sm')"
proof -
  have "sync_env_ok length scripted"
    unfolding sync_env_ok_def by (auto simp: scripted_def block_table_def split: list.splits)
  from synchronisation_ends [OF this, of "[104, 2]" newSyncManager "[''d'', ''e'']"] show ?thesis by auto
qed

text \<open>
  C33. The loop has no bound of its own: a server that alternates between two new cursors keeps the synchronisation of
  database 1 querying forever, so that the call does not return.
\<close>

theorem alternating_cursors_never_end:
  "EnsureSyncedSocket alternating (1 # dbs) newSyncManager w = None"
proof -
  have "turning alternating 1 newSyncManager w"
    by (simp add: turning_def newSyncManager_def query_metadata_def)
  then have "SyncSocketData alternating 1 newSyncManager w = None"
    using alternating_never_ends by (cases "SyncSocketData alternating 1 newSyncManager w") blast+
  then show ?thesis
    by (simp add: EnsureSyncedSocket_def syncSocketData_def newSyncManager_def bind_run_def)
qed



text \<open>
  C31. A thread backfill with a positive batch limit ends, whatever the server sends, after at most that many requests, if
  requests come back; \<open>\<kappa>\<close> counts them.
\<close>

theorem backfill_bounded:
  assumes "fetch_env_ok \<kappa> env" and "batchLimit > 0"
  shows "\<exists>e c'. runThreadBackfill env delay batchLimit c = Some (Ret (e, c')) \<and>
    \<kappa> (cl_world c') \<le> \<kappa> (cl_world c) + nat batchLimit"
  using backfill_loop_returns [OF assms(1,2), of 0 delay 0 c] assms(2) by (simp add: runThreadBackfill_def)

text \<open>A server that always has more threads, with a new key each time.\<close>

definition endless_threads :: "nat fetch_env" where
  "endless_threads = \<lparr>fe_VersionID = 1, fe_now = \<lambda>_. 0,
     fe_exchange = \<lambda>p t c. Some (Ret (Inr (\<lambda>tb. if tb = ''LSUpsertSyncGroupThreadsRange''
        then [[(''SyncGroup'', RInt64 1), (''HasMoreBefore'', RBool True), (''MinThreadKey'', RInt64 (of_nat (cl_world c)))]]
        else []), c\<lparr>cl_world := Suc (cl_world c)\<rparr>)),
     fe_parseAndQueueTable = \<lambda>tbl c. c, fe_ctxErr = \<lambda>_. False, fe_delay = \<lambda>c. (False, c)\<rparr>"

definition sample_client :: "nat Client" where
  "sample_client = \<lparr>cl_sync = newSyncManager\<lparr>sm_keyStore := [1 \<mapsto> initial_key_store\<lparr>ks_HasMoreBefore := True\<rparr>]\<rparr>,
     cl_activeTasks = [], cl_epoch = \<lparr>lastTimestamp = 0, counter = 0\<rparr>, cl_world = 5\<rparr>"

theorem backfill_bounded_witness:
  "\<exists>e c'. runThreadBackfill endless_threads True 3 sample_client = Some (Ret (e, c')) \<and>
    id (cl_world c') \<le> id (cl_world sample_client) + nat 3"
  by (rule backfill_bounded) (simp_all add: fetch_env_ok_def endless_threads_def)

end
