(* ===== verification/Bitmap.thy ===== *)
theory Bitmap
  imports Go_Prelude
begin

text \<open>
  \<^verbatim>\<open>crypto/bitmap.go\<close>: the bitmap of loaded modules, its run-length code and its base-64 text. \<open>None\<close> is the
  panic of an index out of range.
\<close>

section \<open>Model\<close>

definition charMap :: string where
  "charMap = ''0123456789abcdefghijklmnopqrstuvwxyzABCDEFGHIJKLMNOPQRSTUVWXYZ-_''"

record Bitmap =
  BMap :: "int list"
  CompressedStr :: string

definition NewBitmap :: Bitmap where
  "NewBitmap = \<lparr>BMap = [], CompressedStr = ''''\<rparr>"

definition max_index :: "int list \<Rightarrow> int" where
  "max_index data = foldl (\<lambda>m index. if index > m then index else m) (-1) data"

fun set_bits :: "int list \<Rightarrow> Bitmap \<Rightarrow> Bitmap option" where
  "set_bits [] b = Some b"
| "set_bits (index # data) b =
     (if index < 0 \<or> nat index \<ge> length (BMap b) then None
      else
        let b1 = (if BMap b ! nat index = 0 \<and> CompressedStr b \<noteq> '''' then b\<lparr>CompressedStr := ''''\<rparr> else b)
        in set_bits data (b1\<lparr>BMap := (BMap b1)[nat index := 1]\<rparr>))"

definition Update :: "int list \<Rightarrow> Bitmap \<Rightarrow> Bitmap option" where
  "Update data b =
     (let maxIndex = max_index data;
          b1 = (if maxIndex \<ge> int (length (BMap b))
                then b\<lparr>BMap := BMap b @ replicate (nat (maxIndex + 1) - length (BMap b)) 0\<rparr> else b)
      in set_bits data b1)"

text \<open>\<open>strconv.FormatInt(n, 2)\<close> and \<open>strconv.ParseInt(s, 2, 64)\<close> on six binary digits.\<close>

fun format_binary :: "nat \<Rightarrow> string" where
  "format_binary n = (if n < 2 then [char_of_digit n] else format_binary (n div 2) @ [char_of_digit (n mod 2)])"

declare format_binary.simps [simp del]

definition parse_binary :: "string \<Rightarrow> nat" where
  "parse_binary s = foldl (\<lambda>n c. 2 * n + (if c = CHR ''1'' then 1 else 0)) 0 s"

definition encodeRunLength :: "nat \<Rightarrow> string" where
  "encodeRunLength num = (let binaryStr = format_binary num in replicate (length binaryStr - 1) CHR ''0'' @ binaryStr)"

text \<open>The loop over the rest of the bitmap, with the current run.\<close>

fun runs :: "nat \<Rightarrow> int \<Rightarrow> int list \<Rightarrow> string" where
  "runs count lastValue [] = (if count > 0 then encodeRunLength count else [])"
| "runs count lastValue (currentValue # rest) =
     (if currentValue = lastValue then runs (count + 1) lastValue rest
      else encodeRunLength count @ runs 1 currentValue rest)"

definition pad6 :: "string \<Rightarrow> string" where
  "pad6 s = s @ replicate ((6 - length s mod 6) mod 6) CHR ''0''"

function sextets :: "string \<Rightarrow> string" where
  "sextets s = (if s = [] then [] else charMap ! parse_binary (take 6 s) # sextets (drop 6 s))"
  by pat_completeness auto

termination sextets
  by (relation "measure length") auto

declare sextets.simps [simp del]

definition encodeBase64 :: "string \<Rightarrow> string" where
  "encodeBase64 binaryStr = sextets (pad6 binaryStr)"

definition ToCompressedString :: "Bitmap \<Rightarrow> Bitmap" where
  "ToCompressedString b =
     (if BMap b = [] then b
      else if CompressedStr b \<noteq> '''' then b
      else b\<lparr>CompressedStr := encodeBase64 (format_int (BMap b ! 0) @ runs 1 (BMap b ! 0) (tl (BMap b)))\<rparr>)"

subsection \<open>Reading a compressed bitmap\<close>

text \<open>The inverse that a server applies: six bits per character, then the first bit and the runs. A rest
  without a one is padding.\<close>

fun char_index :: "char \<Rightarrow> string \<Rightarrow> nat" where
  "char_index c [] = 0"
| "char_index c (x # xs) = (if x = c then 0 else Suc (char_index c xs))"

definition bits6 :: "nat \<Rightarrow> string" where
  "bits6 n = map (\<lambda>i. if odd (n div 2 ^ (5 - i)) then CHR ''1'' else CHR ''0'') [0..<6]"

definition decodeBase64 :: "string \<Rightarrow> string" where
  "decodeBase64 s = concat (map (\<lambda>c. bits6 (char_index c charMap)) s)"

definition decodeRunLength :: "string \<Rightarrow> (nat \<times> string) option" where
  "decodeRunLength s =
     (let z = length (takeWhile (\<lambda>c. c = CHR ''0'') s)
      in if z < length s then Some (parse_binary (take (Suc z) (drop z s)), drop (2 * z + 1) s) else None)"

function expand_runs :: "int \<Rightarrow> string \<Rightarrow> int list" where
  "expand_runs v s =
     (case decodeRunLength s of None \<Rightarrow> [] | Some (n, rest) \<Rightarrow> replicate n v @ expand_runs (1 - v) rest)"
  by pat_completeness auto

termination expand_runs
  by (relation "measure (\<lambda>(v, s). length s)")
    (auto simp: decodeRunLength_def Let_def split: if_splits)

declare expand_runs.simps [simp del]

definition decompress :: "string \<Rightarrow> int list" where
  "decompress s =
     (case decodeBase64 s of [] \<Rightarrow> [] | c # bits \<Rightarrow> expand_runs (if c = CHR ''1'' then 1 else 0) bits)"

definition compress :: "int list \<Rightarrow> string" where
  "compress bmap = encodeBase64 (format_int (bmap ! 0) @ runs 1 (bmap ! 0) (tl bmap))"

text \<open>A bitmap holds bits, and a cached text is the text of its bits.\<close>

definition bitmap_ok :: "Bitmap \<Rightarrow> bool" where
  "bitmap_ok b \<longleftrightarrow> list_all (\<lambda>v. v = 0 \<or> v = 1) (BMap b) \<and>
     (CompressedStr b = '''' \<or> BMap b \<noteq> [] \<and> CompressedStr b = compress (BMap b))"

section \<open>Lemmas\<close>

subsection \<open>The base-64 text\<close>

definition bit_string :: "string \<Rightarrow> bool" where
  "bit_string s \<longleftrightarrow> set s \<subseteq> {CHR ''0'', CHR ''1''}"

lemma bits6_parse_binary: "length x = 6 \<Longrightarrow> bit_string x \<Longrightarrow> bits6 (parse_binary x) = x \<and> parse_binary x < 64"
proof -
  assume "length x = 6" "bit_string x"
  then have "x \<in> set (List.n_lists 6 ''01'')" by (auto simp: set_n_lists bit_string_def)
  moreover have "list_all (\<lambda>x. bits6 (parse_binary x) = x \<and> parse_binary x < 64) (List.n_lists 6 ''01'')" by code_simp
  ultimately show ?thesis by (simp add: list_all_iff)
qed

lemma char_index_charMap: "k < 64 \<Longrightarrow> char_index (charMap ! k) charMap = k"
proof -
  have "list_all (\<lambda>k. char_index (charMap ! k) charMap = k) [0..<64]" by code_simp
  then show "k < 64 \<Longrightarrow> char_index (charMap ! k) charMap = k" by (simp add: list_all_iff)
qed

lemma decodeBase64_sextets: "length s mod 6 = 0 \<Longrightarrow> bit_string s \<Longrightarrow> decodeBase64 (sextets s) = s"
proof (induction s rule: sextets.induct)
  case (1 s)
  show ?case
  proof (cases "s = []")
    case True
    then show ?thesis by (simp add: sextets.simps decodeBase64_def)
  next
    case False
    with "1.prems"(1) have len: "6 \<le> length s" by (cases "length s < 6") auto
    then have "length (drop 6 s) mod 6 = 0" using "1.prems"(1) by (simp add: le_mod_geq)
    moreover have bs: "bit_string (take 6 s)" "bit_string (drop 6 s)"
      using "1.prems"(2) by (auto simp: bit_string_def dest: in_set_takeD in_set_dropD)
    ultimately have "decodeBase64 (sextets (drop 6 s)) = drop 6 s" using "1.IH" [OF False] by simp
    moreover have "bits6 (char_index (charMap ! parse_binary (take 6 s)) charMap) = take 6 s"
      using bits6_parse_binary [OF _ bs(1)] len by (simp add: char_index_charMap)
    ultimately show ?thesis using False by (simp add: sextets.simps [of s] decodeBase64_def)
  qed
qed

lemma pad6_length: "length (pad6 s) mod 6 = 0"
proof -
  have "(r + (6 - r) mod 6) mod 6 = 0" if "r < 6" for r :: nat
  proof (cases "r = 0")
    case False
    then have "(6 - r) mod 6 = 6 - r" by simp
    with that show ?thesis by simp
  qed simp
  from this [of "length s mod 6"] show ?thesis
    by (simp add: pad6_def mod_add_left_eq)
qed

lemma decodeBase64_encodeBase64: "bit_string s \<Longrightarrow> decodeBase64 (encodeBase64 s) = pad6 s"
  unfolding encodeBase64_def by (rule decodeBase64_sextets [OF pad6_length]) (auto simp: bit_string_def pad6_def)

subsection \<open>Run lengths\<close>

lemma char_of_digit_bit [simp]: "char_of_digit 0 = CHR ''0''" "char_of_digit (Suc 0) = CHR ''1''"
  by code_simp+

lemma format_binary_props:
  "bit_string (format_binary n) \<and> parse_binary (format_binary n) = n \<and> format_binary n \<noteq> [] \<and>
   (0 < n \<longrightarrow> hd (format_binary n) = CHR ''1'')"
proof (induction n rule: format_binary.induct)
  case (1 n)
  show ?case
  proof (cases "n < 2")
    case True
    then have "n = 0 \<or> n = 1" by auto
    then show ?thesis by (auto simp: format_binary.simps [of n] bit_string_def parse_binary_def)
  next
    case False
    have "n mod 2 = 0 \<or> n mod 2 = 1" by auto
    then have "bit_string [char_of_digit (n mod 2)]"
        "(if char_of_digit (n mod 2) = CHR ''1'' then 1 else 0) = n mod 2"
      by (auto simp: bit_string_def)
    with 1 [OF False] False show ?thesis
      by (auto simp: format_binary.simps [of n] parse_binary_def bit_string_def div_greater_zero_iff)
  qed
qed

lemma takeWhile_replicate_append: "\<not> P x \<Longrightarrow> P y \<Longrightarrow> takeWhile P (replicate k y @ x # xs) = replicate k y"
  by (induction k) auto

lemma decodeRunLength_encodeRunLength:
  assumes "0 < n"
  shows "decodeRunLength (encodeRunLength n @ rest) = Some (n, rest)"
proof -
  obtain b where b: "format_binary n = CHR ''1'' # b" and p: "parse_binary (CHR ''1'' # b) = n"
    using format_binary_props [of n] assms by (cases "format_binary n") auto
  then show ?thesis
    by (simp add: decodeRunLength_def encodeRunLength_def takeWhile_replicate_append p)
qed

lemma decodeRunLength_zeros: "decodeRunLength (replicate k CHR ''0'') = None"
  by (simp add: decodeRunLength_def takeWhile_replicate)

lemma expand_runs_runs:
  assumes "list_all (\<lambda>v. v = 0 \<or> v = 1) bs" and "v = 0 \<or> v = 1" and "0 < count"
  shows "expand_runs v (runs count v bs @ replicate k CHR ''0'') = replicate count v @ bs"
  using assms
proof (induction bs arbitrary: count v)
  case Nil
  then show ?case
    by (simp add: expand_runs.simps [of v] expand_runs.simps [of "1 - v"] decodeRunLength_encodeRunLength decodeRunLength_zeros)
next
  case (Cons c bs)
  show ?case
  proof (cases "c = v")
    case True
    then show ?thesis using Cons.IH [of v "count + 1"] Cons.prems by (simp add: replicate_append_same [symmetric])
  next
    case False
    then have "c = 1 - v" using Cons.prems by auto
    with False Cons.IH [of c 1] Cons.prems show ?thesis
      by (simp add: expand_runs.simps [of v] decodeRunLength_encodeRunLength)
  qed
qed

lemma bit_string_runs: "bit_string (runs count v bs)"
proof -
  have "bit_string (encodeRunLength n)" for n
    using format_binary_props [of n] by (auto simp: encodeRunLength_def bit_string_def Let_def)
  then show ?thesis by (induction bs arbitrary: count v) (auto simp: bit_string_def)
qed

lemma decompress_compress:
  assumes "list_all (\<lambda>v. v = 0 \<or> v = 1) bmap" and "bmap \<noteq> []"
  shows "decompress (compress bmap) = bmap"
proof -
  obtain v bs where bm: "bmap = v # bs" using assms(2) by (cases bmap) auto
  then have v: "v = 0 \<or> v = 1" and bs: "list_all (\<lambda>v. v = 0 \<or> v = 1) bs" using assms(1) by auto
  have f: "format_int v = (if v = 1 then ''1'' else ''0'')"
    using v by (auto simp: format_int_def format_uint_def digits_of_nat.simps)
  let ?s = "format_int v @ runs 1 v bs"
  have "bit_string ?s" using bit_string_runs [of 1 v bs] v by (auto simp: bit_string_def f)
  then have "decodeBase64 (compress bmap) = pad6 ?s" by (simp add: compress_def bm decodeBase64_encodeBase64)
  also have "\<dots> = (if v = 1 then CHR ''1'' else CHR ''0'') # runs 1 v bs @ replicate ((6 - length ?s mod 6) mod 6) CHR ''0''"
    by (simp add: pad6_def f)
  finally show ?thesis
    using expand_runs_runs [OF bs v, of 1 "(6 - length ?s mod 6) mod 6"] v by (auto simp: decompress_def bm)
qed

subsection \<open>The cached text\<close>

lemma max_index_ge:
  assumes "i \<in> set data"
  shows "i \<le> max_index data"
proof -
  have "m \<le> foldl (\<lambda>m index. if index > m then index else m) m xs \<and>
      (\<forall>x \<in> set xs. x \<le> foldl (\<lambda>m index. if index > m then index else m) m xs)" for m :: int and xs
    by (induction xs arbitrary: m) (auto, (meson order_trans linorder_not_le less_imp_le)+)
  with assms show ?thesis by (simp add: max_index_def)
qed

lemma max_index_mem: "max_index data = -1 \<or> max_index data \<in> set data"
proof -
  have "foldl (\<lambda>m index. if index > m then index else m) m xs = m \<or>
      foldl (\<lambda>m index. if index > m then index else m) m xs \<in> set xs" for m :: int and xs
    by (induction xs arbitrary: m) auto
  then show ?thesis unfolding max_index_def by blast
qed

definition with_ones :: "int list \<Rightarrow> int list \<Rightarrow> int list" where
  "with_ones data bm = map (\<lambda>j. if int j \<in> set data then 1 else bm ! j) [0..<length bm]"

lemma with_ones_Cons: "0 \<le> i \<Longrightarrow> with_ones data (bm[nat i := 1]) = with_ones (i # data) bm"
  by (auto simp: with_ones_def nth_list_update)

lemma set_bits_spec:
  assumes "\<forall>i \<in> set data. 0 \<le> i \<and> nat i < length (BMap b)"
  shows "set_bits data b = Some (b\<lparr>BMap := with_ones data (BMap b),
    CompressedStr := (if \<exists>i \<in> set data. BMap b ! nat i = 0 then '''' else CompressedStr b)\<rparr>)"
  using assms
proof (induction data arbitrary: b)
  case Nil
  then show ?case by (simp add: with_ones_def map_nth)
next
  case (Cons i data)
  let ?b = "(if BMap b ! nat i = 0 \<and> CompressedStr b \<noteq> '''' then b\<lparr>CompressedStr := ''''\<rparr> else b)"
  let ?c = "?b\<lparr>BMap := (BMap ?b)[nat i := 1]\<rparr>"
  have i: "0 \<le> i" "nat i < length (BMap b)" using Cons.prems by auto
  have bm: "BMap ?c = (BMap b)[nat i := 1]" by simp
  have "\<forall>j \<in> set data. 0 \<le> j \<and> nat j < length (BMap ?c)" using Cons.prems by simp
  from Cons.IH [OF this] i have "set_bits (i # data) b = Some (?c\<lparr>BMap := with_ones data (BMap ?c),
      CompressedStr := (if \<exists>j \<in> set data. BMap ?c ! nat j = 0 then '''' else CompressedStr ?c)\<rparr>)"
    by (simp add: Let_def)
  moreover have "(if \<exists>j \<in> set data. BMap ?c ! nat j = 0 then '''' else CompressedStr ?c) =
      (if \<exists>j \<in> set (i # data). BMap b ! nat j = 0 then '''' else CompressedStr b)"
    using i Cons.prems by (auto simp: bm nth_list_update) 
  ultimately show ?case by (simp only: bm with_ones_Cons [OF i(1)]) simp
qed

lemma set_bits_None: "\<exists>i \<in> set data. i < 0 \<Longrightarrow> set_bits data b = None"
  by (induction data arbitrary: b) (auto simp: Let_def)

lemma Update_spec:
  assumes "bitmap_ok b" and "\<forall>i \<in> set data. 0 \<le> i"
  shows "\<exists>b'. Update data b = Some b' \<and> bitmap_ok b' \<and>
    BMap b' = with_ones data (BMap b @ replicate (nat (max_index data + 1) - length (BMap b)) 0)"
proof -
  let ?n = "nat (max_index data + 1) - length (BMap b)"
  let ?b = "b\<lparr>BMap := BMap b @ replicate ?n 0\<rparr>"
  have b1: "(if max_index data \<ge> int (length (BMap b)) then ?b else b) = ?b" by (cases b) auto
  have range: "\<forall>i \<in> set data. 0 \<le> i \<and> nat i < length (BMap ?b)"
    using assms(2) max_index_ge [of _ data] by fastforce
  let ?cleared = "\<exists>i \<in> set data. BMap ?b ! nat i = 0"
  let ?r = "?b\<lparr>BMap := with_ones data (BMap ?b), CompressedStr := (if ?cleared then '''' else CompressedStr b)\<rparr>"
  have upd: "Update data b = Some ?r"
    using set_bits_spec [OF range] by (simp only: Update_def Let_def b1) simp
  have bits: "list_all (\<lambda>v. v = 0 \<or> v = 1) (BMap ?b)" using assms(1) by (auto simp: bitmap_ok_def list_all_iff)
  then have "list_all (\<lambda>v. v = 0 \<or> v = 1) (BMap ?r)" by (simp add: with_ones_def list_all_length)
  moreover have "CompressedStr ?r = '''' \<or> BMap ?r \<noteq> [] \<and> CompressedStr ?r = compress (BMap ?r)"
  proof (cases ?cleared)
    case False
    have "?n = 0"
    proof (rule ccontr)
      assume n: "?n \<noteq> 0"
      then have "max_index data \<in> set data" using max_index_mem [of data] by auto
      moreover have "\<not> nat (max_index data) < length (BMap b)" "nat (max_index data) - length (BMap b) < ?n"
        using n by linarith+
      then have "BMap ?b ! nat (max_index data) = 0" by (simp add: nth_append)
      ultimately show False using False by blast
    qed
    moreover have "with_ones data (BMap ?b) = BMap ?b"
    proof (rule nth_equalityI)
      fix j assume "j < length (with_ones data (BMap ?b))"
      then have j: "j < length (BMap ?b)" by (simp add: with_ones_def)
      show "with_ones data (BMap ?b) ! j = BMap ?b ! j"
      proof (cases "int j \<in> set data")
        case True
        with False have "BMap ?b ! nat (int j) \<noteq> 0" by blast
        moreover have "BMap ?b ! j = 0 \<or> BMap ?b ! j = 1" using bits j unfolding list_all_length by blast
        ultimately have "BMap ?b ! j = 1" by simp
        with True j show ?thesis by (simp add: with_ones_def)
      qed (use j in \<open>simp add: with_ones_def\<close>)
    qed (simp add: with_ones_def)
    ultimately show ?thesis using assms(1) False by (simp add: bitmap_ok_def)
  qed simp
  ultimately have "bitmap_ok ?r" unfolding bitmap_ok_def by blast
  with upd show ?thesis by (intro exI [of _ ?r]) simp
qed

lemma ToCompressedString_ok:
  assumes "bitmap_ok b"
  shows "bitmap_ok (ToCompressedString b)" and "BMap (ToCompressedString b) = BMap b"
    and "BMap b \<noteq> [] \<Longrightarrow> CompressedStr (ToCompressedString b) = compress (BMap b)"
  using assms by (auto simp: ToCompressedString_def bitmap_ok_def compress_def)

section \<open>Properties\<close>



end
