(* ===== verification/Bloks_Script.thy ===== *)
theory Bloks_Script
  imports Go_Float
begin

text \<open>
  The scripts of Bloks pages (\<^verbatim>\<open>bloks/script.go\<close>, \<^verbatim>\<open>bloks/minify.go\<close>): the syntax tree, the parser, the
  expansion of minified names and the literals. A position of the parser is the text that is left
  from it; the positions that accompany an error are dropped, as every caller does. The parser has
  fuel, and the length of the text is enough. A \<^verbatim>\<open>*BloksScriptLiteral\<close> is \<open>None\<close> where it can be nil.
\<close>

section \<open>Model\<close>

subsection \<open>Values and nodes\<close>

text \<open>
  The dynamic types a literal can hold. Dictionaries, lambdas, element references and bundle
  references are pointers in Go: addresses. Slices are never updated in place, so they are lists.
\<close>

type_synonym addr = nat

datatype bval = BNil | BBool bool | BStr string | BInt int64 | BFloat rat | BArr "bval option list"
  | BDict addr | BLambda addr | BElem addr | BBundle addr | BIllegal

datatype bnode = NLit "bval option" | NCall string "bnode list"

datatype parse_error = EofAtToplevel | EndOfFuncall | BadFuncName | BadCharInName | EofInName
  | BadNumber num_error | BadCharInNumber | BackslashAtEof | EofInUnicode | BadUnicode
  | UnterminatedString | UnknownChar

datatype 'a parse_result = PFuel | PPanic | PErr parse_error | POk 'a string

subsection \<open>Literals\<close>

definition white :: "char \<Rightarrow> bool" where
  "white c \<longleftrightarrow> c = CHR 0x09 \<or> c = CHR '' '' \<or> c = CHR '',''"

text \<open>The loop that moves \<open>start\<close> to the first character that is not white; without one it stays.\<close>

definition skip_white :: "string \<Rightarrow> string" where
  "skip_white s = (if list_all white s then s else dropWhile white s)"

definition delimiter :: "char \<Rightarrow> bool" where
  "delimiter c \<longleftrightarrow> c = CHR '' '' \<or> c = CHR ''('' \<or> c = CHR '')'' \<or> c = CHR '',''"

definition number_char :: "char \<Rightarrow> bool" where
  "number_char c \<longleftrightarrow> is_digit c \<or> c = CHR ''-'' \<or> c = CHR ''.''"

text \<open>
  \<^verbatim>\<open>strconv.ParseFloat\<close> on the characters the scanner lets through: a sign, digits with at most one
  point among or around them, at least one digit.
\<close>

definition parse_decimal :: "string \<Rightarrow> num_error + rat" where
  "parse_decimal s =
     (let t = (if s \<noteq> [] \<and> hd s = CHR ''-'' then tl s else s);
          ints = takeWhile is_digit t; rest = dropWhile is_digit t;
          frac = (if rest \<noteq> [] \<and> hd rest = CHR ''.'' then tl rest else rest)
      in if ints @ frac \<noteq> [] \<and> list_all is_digit frac
         then (case ParseFloat s of None \<Rightarrow> Inl ErrRange | Some r \<Rightarrow> Inr r)
         else Inl ErrSyntax)"

definition parse_number :: "string \<Rightarrow> parse_error + bval" where
  "parse_number s =
     (if CHR ''.'' \<in> set s then
        (case parse_decimal s of Inl e \<Rightarrow> Inl (BadNumber e) | Inr r \<Rightarrow> Inr (BFloat r))
      else
        (case parse_int s of (i, None) \<Rightarrow> Inr (BInt (word_of_int i)) | (_, Some e) \<Rightarrow> Inl (BadNumber e)))"

text \<open>A \<^verbatim>\<open>\u\<close> escape: \<^verbatim>\<open>strconv.Unquote\<close> takes four hexadecimal digits that are not a surrogate.\<close>

definition unquote_rune :: "char \<Rightarrow> char \<Rightarrow> char \<Rightarrow> char \<Rightarrow> string option" where
  "unquote_rune a b c d =
     (case hex4 a b c d of
        None \<Rightarrow> None
      | Some r \<Rightarrow> if 0xD800 \<le> r \<and> r \<le> 0xDFFF then None else Some (encode_rune r))"

text \<open>The loop over the body of a string, with the bytes collected so far.\<close>

fun parse_string :: "string \<Rightarrow> string \<Rightarrow> string parse_result" where
  "parse_string chars [] = PErr UnterminatedString"
| "parse_string chars (c # s) =
     (if c = backslash then
        (case s of
           [] \<Rightarrow> PErr BackslashAtEof
         | e # r \<Rightarrow>
             if e = CHR ''n'' then parse_string (chars @ [CHR 0x0A]) r
             else if e = CHR ''u'' then
               (case r of
                  w # x # y # z # q # t \<Rightarrow>
                    (case unquote_rune w x y z of
                       None \<Rightarrow> PErr BadUnicode
                     | Some rune \<Rightarrow> parse_string (chars @ rune) (q # t))
                | _ \<Rightarrow> PErr EofInUnicode)
             else parse_string (chars @ [e]) r)
      else if c = quote then POk chars s
      else parse_string (chars @ [c]) s)"

text \<open>\<^verbatim>\<open>BloksScriptLiteral.Parse\<close>. It reads the character at \<open>start\<close> without a check: a panic at the end.\<close>

definition Literal_Parse :: "string \<Rightarrow> bval parse_result" where
  "Literal_Parse code0 =
     (let s = skip_white code0; num = takeWhile number_char s; rest = dropWhile number_char s
      in if num \<noteq> [] \<and> rest \<noteq> [] then
           (if delimiter (hd rest)
            then (case parse_number num of Inl e \<Rightarrow> PErr e | Inr v \<Rightarrow> POk v rest)
            else PErr BadCharInNumber)
         else if s = [] then PPanic
         else if hd s = quote then
           (case parse_string [] (tl s) of
              POk t r \<Rightarrow> POk (BStr t) r | PErr e \<Rightarrow> PErr e | PPanic \<Rightarrow> PPanic | PFuel \<Rightarrow> PFuel)
         else if length s > 4 \<and> take 4 s = ''null'' then POk BNil (drop 4 s)
         else if length s > 4 \<and> take 4 s = ''true'' then POk (BBool True) (drop 4 s)
         else if length s > 5 \<and> take 5 s = ''false'' then POk (BBool False) (drop 5 s)
         else PErr UnknownChar)"

subsection \<open>Calls\<close>

definition name_char :: "char \<Rightarrow> bool" where
  "name_char c \<longleftrightarrow> (97 \<le> code c \<and> code c \<le> 122) \<or> (65 \<le> code c \<and> code c \<le> 90) \<or> is_digit c
     \<or> c = CHR ''.'' \<or> c = CHR ''_''"

text \<open>The name after the opening parenthesis, and what is left after it.\<close>

definition parse_name :: "string \<Rightarrow> string parse_result" where
  "parse_name code0 =
     (let s = skip_white code0; name = takeWhile name_char s; rest = dropWhile name_char s
      in if rest = [] then PErr EofInName
         else if \<not> delimiter (hd rest) then PErr BadCharInName
         else if name = [] then PErr BadFuncName
         else POk name rest)"

text \<open>
  \<^verbatim>\<open>BloksScriptNode.ParseAny\<close>, \<^verbatim>\<open>BloksScriptFuncall.Parse\<close> and the loop over the arguments. A closing
  parenthesis is the error \<^verbatim>\<open>ErrParseEndOfFuncall\<close>, which the loop turns into the end of the call.
\<close>

fun ParseAny :: "nat \<Rightarrow> string \<Rightarrow> bnode parse_result"
  and Funcall_Parse :: "nat \<Rightarrow> string \<Rightarrow> bnode parse_result"
  and parse_args :: "nat \<Rightarrow> string \<Rightarrow> bnode list \<Rightarrow> string \<Rightarrow> bnode parse_result"
where
  "ParseAny 0 s = PFuel"
| "ParseAny (Suc n) s =
     (case dropWhile white s of
        [] \<Rightarrow> PErr EofAtToplevel
      | c # r \<Rightarrow>
          if c = CHR ''('' then Funcall_Parse n r
          else if c = CHR '')'' then PErr EndOfFuncall
          else (case Literal_Parse (c # r) of
                  POk v q \<Rightarrow> POk (NLit (Some v)) q | PErr e \<Rightarrow> PErr e | PPanic \<Rightarrow> PPanic | PFuel \<Rightarrow> PFuel))"
| "Funcall_Parse n s =
     (case parse_name s of
        POk name r \<Rightarrow> parse_args n name [] r | PErr e \<Rightarrow> PErr e | PPanic \<Rightarrow> PPanic | PFuel \<Rightarrow> PFuel)"
| "parse_args 0 name args s = PFuel"
| "parse_args (Suc n) name args s =
     (case ParseAny n s of
        POk arg r \<Rightarrow> parse_args n name (args @ [arg]) r
      | PErr e \<Rightarrow>
          if e = EndOfFuncall then POk (NCall name args) (tl (dropWhile white s)) else PErr e
      | PPanic \<Rightarrow> PPanic
      | PFuel \<Rightarrow> PFuel)"

text \<open>\<^verbatim>\<open>BloksTreeScript.Parse\<close>: the first node of the text; what follows it is ignored.\<close>

definition Script_Parse :: "string \<Rightarrow> bnode parse_result" where
  "Script_Parse s = ParseAny (2 * length s + 2) s"

subsection \<open>Expansion of minified names\<close>

record Unminifier =
  um_Functions :: "string \<rightharpoonup> string"
  um_Components :: "string \<rightharpoonup> string"
  um_Properties :: "string \<rightharpoonup> (string \<rightharpoonup> string)"
  um_Variables :: "string \<rightharpoonup> string"

text \<open>\<^verbatim>\<open>if real, ok := m[k]; ok && len(real) > 0\<close>.\<close>

definition real_name :: "(string \<rightharpoonup> string) \<Rightarrow> string \<Rightarrow> string" where
  "real_name m k = (case m k of Some name \<Rightarrow> if name = [] then k else name | None \<Rightarrow> k)"

definition Literal_Unminify :: "Unminifier \<Rightarrow> bval option \<Rightarrow> bval option" where
  "Literal_Unminify m lit = (case lit of Some (BStr str) \<Rightarrow> Some (BStr (real_name (um_Variables m) str)) | _ \<Rightarrow> lit)"

fun Node_Unminify :: "Unminifier \<Rightarrow> bnode \<Rightarrow> bnode" where
  "Node_Unminify m (NLit lit) = NLit (Literal_Unminify m lit)"
| "Node_Unminify m (NCall f args) = NCall (real_name (um_Functions m) f) (map (Node_Unminify m) args)"

text \<open>\<^verbatim>\<open>GetUnminifier\<close>: the embedded table with the names of the bundle's variables (id and key).\<close>

definition GetUnminifier :: "Unminifier \<Rightarrow> (string \<times> string) list \<Rightarrow> Unminifier" where
  "GetUnminifier cached variables =
     cached\<lparr>um_Variables := foldl (\<lambda>m (i, name). if name = [] then m else m(i \<mapsto> name)) Map.empty variables\<rparr>"

subsection \<open>Truth\<close>

text \<open>
  \<^verbatim>\<open>IsTruthy\<close> on the value of a literal. Its case for integers is \<^verbatim>\<open>int\<close>, a type no literal holds: the
  integers of scripts are \<^verbatim>\<open>int64\<close> and fall to the last line.
\<close>

fun IsTruthy :: "bval \<Rightarrow> bool" where
  "IsTruthy (BBool b) = b"
| "IsTruthy (BStr s) = (length s > 0)"
| "IsTruthy BNil = False"
| "IsTruthy _ = True"

section \<open>The parser always answers\<close>

definition answered :: "'a parse_result \<Rightarrow> string \<Rightarrow> bool" where
  "answered r s \<longleftrightarrow> (case r of PErr e \<Rightarrow> True | POk v q \<Rightarrow> length q < length s | _ \<Rightarrow> False)"

lemma answered_simps [simp]:
  "answered (PErr e) s" "answered (POk v q) s \<longleftrightarrow> length q < length s" "\<not> answered PPanic s" "\<not> answered PFuel s"
  by (simp_all add: answered_def)

lemma answered_mono: "answered r s \<Longrightarrow> length s \<le> length t \<Longrightarrow> answered r t"
  by (cases r) simp_all

lemma parse_string_answered: "answered (parse_string chars s) (c # s)"
proof (induction "length s" arbitrary: chars s rule: less_induct)
  case less
  have IH: "answered (parse_string ch t) (c # s)" if "length t < length s" for ch t
    by (rule answered_mono [OF less(1) [OF that]]) (use that in simp)
  show ?case
  proof (cases s)
    case (Cons d t)
    show ?thesis using IH [unfolded Cons] unfolding Cons
      by (subst parse_string.simps(2)) (auto simp del: parse_string.simps split: list.splits option.splits)
  qed simp
qed

lemma skip_white_hd: "s \<noteq> [] \<Longrightarrow> \<not> white (hd s) \<Longrightarrow> skip_white s = s"
  by (cases s) (simp_all add: skip_white_def)

lemma length_skip_white: "length (skip_white s) \<le> length s"
  by (simp add: skip_white_def length_dropWhile_le)

lemma Literal_Parse_answered:
  assumes "s \<noteq> []" and "\<not> white (hd s)"
  shows "answered (Literal_Parse s) s"
proof -
  have sw: "skip_white s = s" using assms by (rule skip_white_hd)
  have len: "length (dropWhile number_char s) < length s" if "takeWhile number_char s \<noteq> []"
  proof -
    have "length (takeWhile number_char s) + length (dropWhile number_char s) = length s"
      by (metis length_append takeWhile_dropWhile_id)
    with that show ?thesis by (cases "takeWhile number_char s") auto
  qed
  have "answered (parse_string [] (tl s)) s"
    using parse_string_answered [of "[]" "tl s" "hd s"] assms by simp
  then show ?thesis using assms len
    by (cases "parse_string [] (tl s)") (auto simp: Literal_Parse_def sw Let_def split: sum.splits)
qed

lemma parse_name_answered: "answered (parse_name s) s"
proof -
  have "length (takeWhile name_char (skip_white s)) + length (dropWhile name_char (skip_white s)) = length (skip_white s)"
    by (metis length_append takeWhile_dropWhile_id)
  moreover have "length (skip_white s) \<le> length s" by (rule length_skip_white)
  ultimately show ?thesis
    by (cases "takeWhile name_char (skip_white s)") (auto simp: parse_name_def Let_def)
qed

lemma parse_fuel:
  "(2 * length s + 2 \<le> n \<longrightarrow> answered (ParseAny n s) s) \<and>
   (2 * length s + 3 \<le> n \<longrightarrow> answered (parse_args n name args s) s)"
proof (induction n arbitrary: s name args)
  case (Suc n)
  have any: "answered (ParseAny (Suc n) s) s" if n: "2 * length s + 2 \<le> Suc n" for s
  proof (cases "dropWhile white s")
    case (Cons c r)
    have "length (c # r) \<le> length s" using length_dropWhile_le [of white s] Cons by simp
    moreover have "\<not> white c" using Cons by (metis hd_dropWhile list.distinct(1) list.sel(1))
    moreover have "answered (Funcall_Parse n r) r"
    proof (cases "parse_name r")
      case (POk name q)
      then have "length q < length r" using parse_name_answered [of r] by simp
      then have "answered (parse_args n name [] q) q" using Suc.IH n \<open>length (c # r) \<le> length s\<close> by simp
      with POk \<open>length q < length r\<close> show ?thesis by (auto elim: answered_mono)
    qed (use parse_name_answered [of r] in auto)
    moreover have "answered (Literal_Parse (c # r)) (c # r)" using \<open>\<not> white c\<close> by (simp add: Literal_Parse_answered)
    ultimately have "answered (Funcall_Parse n r) s" "answered (Literal_Parse (c # r)) s"
      by (auto elim: answered_mono simp del: Funcall_Parse.simps)
    then show ?thesis using Cons
      by (cases "Literal_Parse (c # r)") (auto simp del: Funcall_Parse.simps)
  qed (simp del: dropWhile_eq_Nil_conv)
  have "answered (parse_args (Suc n) name args s) s" if n: "2 * length s + 3 \<le> Suc n" for s name args
  proof -
    have a: "answered (ParseAny n s) s" using Suc.IH n by simp
    show ?thesis
    proof (cases "ParseAny n s")
      case (POk arg r)
      with a have "length r < length s" by simp
      then have "answered (parse_args n name (args @ [arg]) r) r" using Suc.IH n by simp
      with POk \<open>length r < length s\<close> show ?thesis by (auto elim: answered_mono)
    next
      case (PErr e)
      have "length (tl (dropWhile white s)) < length s" if "e = EndOfFuncall"
      proof -
        obtain k where "n = Suc k" using n by (cases n) auto
        then have "dropWhile white s \<noteq> []" using PErr that
          by (cases "dropWhile white s") (simp_all del: dropWhile_eq_Nil_conv)
        then show ?thesis using length_dropWhile_le [of white s] by (cases "dropWhile white s") auto
      qed
      with PErr show ?thesis by simp
    qed (use a in auto)
  qed
  with any show ?case by blast
qed simp

section \<open>The text of a node\<close>

text \<open>A compact text for a node, in the syntax the parser reads.\<close>

definition escape_char :: "char \<Rightarrow> string" where
  "escape_char c = (if c = quote \<or> c = backslash then [backslash, c] else [c])"

fun literal_text :: "bval \<Rightarrow> string" where
  "literal_text (BBool b) = (if b then ''true'' else ''false'')"
| "literal_text (BStr s) = quote # concat (map escape_char s) @ [quote]"
| "literal_text (BInt i) = format_int (sint i)"
| "literal_text _ = ''null''"

fun node_text :: "bnode \<Rightarrow> string" where
  "node_text (NLit lit) = literal_text (case lit of Some v \<Rightarrow> v | None \<Rightarrow> BNil)"
| "node_text (NCall f args) = CHR ''('' # f @ concat (map (\<lambda>a. CHR '' '' # node_text a) args) @ '')''"

text \<open>The nodes the parser builds, floats aside.\<close>

fun literal_ok :: "bval option \<Rightarrow> bool" where
  "literal_ok (Some BNil) \<longleftrightarrow> True"
| "literal_ok (Some (BBool b)) \<longleftrightarrow> True"
| "literal_ok (Some (BStr s)) \<longleftrightarrow> True"
| "literal_ok (Some (BInt i)) \<longleftrightarrow> True"
| "literal_ok _ \<longleftrightarrow> False"

fun node_ok :: "bnode \<Rightarrow> bool" where
  "node_ok (NLit lit) \<longleftrightarrow> literal_ok lit"
| "node_ok (NCall f args) \<longleftrightarrow> f \<noteq> [] \<and> list_all name_char f \<and> list_all node_ok args"

lemma parse_string_escape:
  "parse_string chars (concat (map escape_char s) @ quote # rest) = POk (chars @ s) rest"
  by (induction s arbitrary: chars) (auto simp: escape_char_def, auto simp: quote_def backslash_def)

lemma delimiter_chars: "delimiter c \<Longrightarrow> \<not> number_char c \<and> \<not> name_char c"
  by (auto simp: delimiter_def number_char_def name_char_def is_digit_def code_def)

lemma format_int_number_chars: "list_all number_char (format_int i)" "CHR ''.'' \<notin> set (format_int i)"
proof -
  have "list_all is_digit (format_uint n)" for n by (rule format_uint_digits)
  moreover have "\<not> is_digit (CHR ''.'')" by (simp add: is_digit_def code_def)
  ultimately show "list_all number_char (format_int i)" "CHR ''.'' \<notin> set (format_int i)"
    by (auto simp: format_int_def number_char_def list_all_iff)
qed

lemma format_int_nonempty: "format_int i \<noteq> []"
  by (simp add: format_int_def)

lemma hd_format_int: "number_char (hd (format_int i))"
  using format_int_number_chars(1) [of i] format_int_nonempty [of i] by (cases "format_int i") auto

lemma Literal_Parse_text:
  assumes "literal_ok (Some v)" and "delimiter d"
  shows "Literal_Parse (literal_text v @ d # rest) = POk v (d # rest)"
proof (cases v)
  case (BInt i)
  let ?n = "format_int (sint i)"
  have d: "\<not> number_char d" using assms(2) by (simp add: delimiter_chars)
  have "skip_white (?n @ d # rest) = ?n @ d # rest"
  proof (rule skip_white_hd)
    show "\<not> white (hd (?n @ d # rest))"
      using hd_format_int [of "sint i"] format_int_nonempty [of "sint i"]
      by (auto simp: white_def number_char_def is_digit_def code_def)
  qed simp
  moreover have "takeWhile number_char (?n @ d # rest) = ?n" "dropWhile number_char (?n @ d # rest) = d # rest"
    using format_int_number_chars(1) d by (auto intro!: takeWhile_num dropWhile_num)
  moreover have "parse_number ?n = Inr (BInt i)"
    using format_int_number_chars(2) sint_range_size [of i]
    by (simp add: parse_number_def parse_int_format_int word_size)
  ultimately show ?thesis
    unfolding Literal_Parse_def using BInt assms(2) format_int_nonempty [of "sint i"]
    by (simp only: Let_def literal_text.simps) simp
next
  case (BStr s)
  have "skip_white (literal_text v @ d # rest) = literal_text v @ d # rest"
    by (rule skip_white_hd) (simp_all add: BStr white_def quote_def)
  then show ?thesis
    using BStr by (simp add: Literal_Parse_def Let_def parse_string_escape)
      (simp add: number_char_def is_digit_def code_def quote_def)
qed (use assms in \<open>simp_all add: Literal_Parse_def Let_def skip_white_def white_def number_char_def
    is_digit_def code_def quote_def split: if_splits\<close>)

lemma ParseAny_white: "0 < n \<Longrightarrow> white c \<Longrightarrow> ParseAny n (c # s) = ParseAny n s"
  by (cases n) simp_all

definition parses :: "bnode \<Rightarrow> bool" where
  "parses v \<longleftrightarrow> (\<forall>n d rest. 2 * length (node_text v) + 2 \<le> n \<longrightarrow> delimiter d \<longrightarrow>
     ParseAny n (node_text v @ d # rest) = POk v (d # rest))"

definition args_text :: "bnode list \<Rightarrow> string" where
  "args_text args = concat (map (\<lambda>a. CHR '' '' # node_text a) args) @ '')''"

lemma args_text_delimiter: "\<exists>d q. delimiter d \<and> args_text args = d # q"
  by (cases args) (simp_all add: args_text_def delimiter_def)

lemma parse_args_text:
  assumes "list_all parses args" and "2 * length (args_text args) + 1 \<le> n"
  shows "parse_args n name acc (args_text args @ rest) = POk (NCall name (acc @ args)) rest"
  using assms
proof (induction args arbitrary: acc n)
  case Nil
  then obtain k where "n = Suc (Suc k)" by (auto simp: args_text_def numeral_2_eq_2 Suc_le_eq dest!: less_imp_Suc_add)
  then show ?case by (simp add: args_text_def white_def)
next
  case (Cons a args)
  obtain k where n: "n = Suc k" using Cons.prems(2) by (cases n) (auto simp: args_text_def)
  obtain d q where dq: "delimiter d" "args_text args = d # q" using args_text_delimiter [of args] by blast
  have split: "args_text (a # args) = CHR '' '' # node_text a @ args_text args" by (simp add: args_text_def)
  have "0 < length (args_text args)" using dq by simp
  then have "2 * length (node_text a) + 2 \<le> k" "0 < k" "2 * length (args_text args) + 1 \<le> k"
    using Cons.prems(2) by (simp_all add: n split)
  moreover have "parses a" using Cons.prems by simp
  ultimately have "ParseAny k (args_text (a # args) @ rest) = POk a (args_text args @ rest)"
    using dq by (simp add: split ParseAny_white white_def parses_def)
  with \<open>2 * length (args_text args) + 1 \<le> k\<close> Cons show ?case by (simp add: n)
qed

lemma parse_name_text:
  assumes "f \<noteq> []" and "list_all name_char f" and "delimiter d"
  shows "parse_name (f @ d # rest) = POk f (d # rest)"
proof -
  have "skip_white (f @ d # rest) = f @ d # rest"
    using assms by (intro skip_white_hd)
      (cases f; auto simp: white_def name_char_def is_digit_def code_def)+
  moreover have "takeWhile name_char (f @ d # rest) = f" "dropWhile name_char (f @ d # rest) = d # rest"
    using assms delimiter_chars by (auto intro!: takeWhile_num dropWhile_num)
  ultimately show ?thesis
    unfolding parse_name_def using assms by (simp only: Let_def) simp
qed

lemma Funcall_Parse_text:
  assumes "f \<noteq> []" and "list_all name_char f" and "list_all parses args" and "2 * length (args_text args) + 1 \<le> n"
  shows "Funcall_Parse n (f @ args_text args @ rest) = POk (NCall f args) rest"
proof -
  obtain d q where "delimiter d" "args_text args = d # q" using args_text_delimiter [of args] by blast
  then have "parse_name (f @ args_text args @ rest) = POk f (args_text args @ rest)"
    using parse_name_text assms(1,2) by simp
  then show ?thesis using parse_args_text [OF assms(3,4)] by simp
qed

lemma node_text_call: "node_text (NCall f args) = CHR ''('' # f @ args_text args"
  by (simp add: args_text_def)

lemma ParseAny_call:
  assumes "node_ok (NCall f args)" and "list_all parses args"
    and "2 * length (node_text (NCall f args)) + 2 \<le> n"
  shows "ParseAny n (node_text (NCall f args) @ rest) = POk (NCall f args) rest"
proof -
  obtain k where n: "n = Suc k" using assms(3) by (cases n) auto
  then have "Funcall_Parse k (f @ args_text args @ rest) = POk (NCall f args) rest"
    using assms by (intro Funcall_Parse_text) (simp_all add: node_text_call del: node_text.simps)
  then show ?thesis by (simp add: n node_text_call white_def del: node_text.simps Funcall_Parse.simps)
qed

lemma literal_text_start:
  assumes "literal_ok (Some v)"
  shows "\<exists>c q. literal_text v = c # q \<and> \<not> white c \<and> c \<noteq> CHR ''('' \<and> c \<noteq> CHR '')''"
proof (cases v)
  case (BInt i)
  obtain c q where "format_int (sint i) = c # q" using format_int_nonempty by (cases "format_int (sint i)") auto
  moreover from this have "number_char c" using hd_format_int [of "sint i"] by simp
  ultimately show ?thesis using BInt
    by (auto simp: white_def number_char_def is_digit_def code_def)
qed (use assms in \<open>auto simp: white_def quote_def\<close>)

lemma parses_all: "node_ok v \<Longrightarrow> parses v"
proof (induction v)
  case (NLit lit)
  then obtain v where v: "lit = Some v" by (cases lit) auto
  show ?case unfolding parses_def
  proof (intro allI impI)
    fix n d rest assume "2 * length (node_text (NLit lit)) + 2 \<le> n" and d: "delimiter d"
    then obtain k where n: "n = Suc k" by (cases n) auto
    obtain c q where "literal_text v = c # q" "\<not> white c" "c \<noteq> CHR ''(''" "c \<noteq> CHR '')''"
      using literal_text_start NLit v by fastforce
    moreover have "Literal_Parse (literal_text v @ d # rest) = POk v (d # rest)"
      using NLit v d by (intro Literal_Parse_text) simp_all
    ultimately show "ParseAny n (node_text (NLit lit) @ d # rest) = POk (NLit lit) (d # rest)"
      using v by (simp add: n)
  qed
next
  case (NCall f args)
  then have "list_all parses args" by (auto simp: list_all_iff)
  with NCall show ?case by (simp add: parses_def ParseAny_call del: node_text.simps)
qed

lemma Script_Parse_text:
  assumes "node_ok (NCall f args)"
  shows "Script_Parse (node_text (NCall f args) @ rest) = POk (NCall f args) rest"
  unfolding Script_Parse_def using assms parses_all
  by (intro ParseAny_call) (auto simp: list_all_iff simp del: node_text.simps)

text \<open>The scripts as a printer with its parser: calls whose text is parsed to its end.\<close>

definition parse_whole :: "string \<Rightarrow> bnode option" where
  "parse_whole s = (case Script_Parse s of POk v [] \<Rightarrow> Some v | _ \<Rightarrow> None)"

fun call_ok :: "bnode \<Rightarrow> bool" where
  "call_ok (NLit lit) \<longleftrightarrow> False"
| "call_ok (NCall f args) \<longleftrightarrow> node_ok (NCall f args)"

interpretation script_text: print_parse node_text parse_whole call_ok
proof
  fix v assume "call_ok v"
  then show "parse_whole (node_text v) = Some v"
    using Script_Parse_text [where rest = "[]"] by (cases v) (auto simp: parse_whole_def simp del: node_text.simps node_ok.simps)
qed

section \<open>Properties\<close>


definition sample_call :: bnode where
  "sample_call =
     NCall ''bk.action.core.If''
       [NCall ''bk.action.i64.Lt'' [NLit (Some (BInt (- 3))), NLit (Some (BInt 7))],
        NLit (Some (BStr [CHR ''a'', CHR 0x22, CHR 0x5C, CHR 0x0A])), NLit (Some BNil)]"


end
