(* ===== verification/Bloks_Interp.thy ===== *)
theory Bloks_Interp
  imports Bloks_Script Go_Base64 "HOL-Library.AList" "HOL-Library.List_Lexorder" "HOL-Library.Char_ord"
begin

text \<open>
  The interpreter of Bloks scripts (\<^verbatim>\<open>bloks/interp.go\<close>). One definition per case of the switch in
  \<^verbatim>\<open>Evaluate\<close>, each over the evaluator \<open>ev\<close> it calls back; \<open>Evaluate\<close> ties the knot with fuel, because a
  script may call itself for ever. Dictionaries, lambdas, element references and argument arrays
  live in heaps of the state. The bridge, that is the functions the interpreter calls to act on the
  world, is a record of state transformers over a state that carries the caller's own \<open>'w\<close>; the
  library functions whose results are not modelled (regular expressions, the text of a float, the
  JSON of a pointer, the order in which \<^verbatim>\<open>range\<close> visits a map) are fields of a second record.
\<close>

section \<open>Model\<close>

subsection \<open>State\<close>

type_synonym literal = "bval option"
type_synonym dict = "(string \<times> literal) list"

record BloksLambda =
  lam_Body :: bnode
  lam_BoundArgs :: "literal list"

record 'w istate =
  is_Scripts :: "string \<rightharpoonup> addr"
  is_Payloads :: "string \<rightharpoonup> addr"
  is_LocalVars :: "string \<rightharpoonup> literal"
  is_GlobalVars :: "string \<rightharpoonup> literal"
  is_dicts :: "dict list"
  is_lambdas :: "BloksLambda list"
  is_elems :: "nat list"
  is_args :: "literal list list"
  is_texts :: "nat \<rightharpoonup> string"
  is_world :: 'w

text \<open>\<open>is_elems\<close> gives the component of an element reference, \<open>is_texts\<close> the \<^verbatim>\<open>textContent\<close> of a component.\<close>

datatype ierror = ECast string | ENoScript string | EMapLengths | ENonStringKey | ENoText | EBadRuntime int64
  | ERuntimeArgs nat | ENonString | ENonRef | ENonRefCall string | ENonFuncall string | ENonTree string string
  | ETreeArgs string nat | ENoProp string "ierror option" | EJson | ERegex | ENull | EBadType | ETypeMismatch
  | ENoPayload string | ECheckpoint string | EDialog string | EUnimplemented string nat | EBridge string
  | EVarType string | EVar string ierror | EWrap string ierror

datatype ('w, 'a) ires = IFuel | IPanic | IFail ierror "'w istate" | IVal 'a "'w istate"

type_synonym ('w, 'a) comp = "'w istate \<Rightarrow> ('w, 'a) ires"

definition ret :: "'a \<Rightarrow> ('w, 'a) comp" where
  "ret v s = IVal v s"

definition fail :: "ierror \<Rightarrow> ('w, 'a) comp" where
  "fail e s = IFail e s"

definition panic :: "('w, 'a) comp" where
  "panic s = IPanic"

definition bnd :: "('w, 'a) comp \<Rightarrow> ('a \<Rightarrow> ('w, 'b) comp) \<Rightarrow> ('w, 'b) comp" where
  "bnd m f s = (case m s of IFuel \<Rightarrow> IFuel | IPanic \<Rightarrow> IPanic | IFail e t \<Rightarrow> IFail e t | IVal v t \<Rightarrow> f v t)"

definition gets :: "('w istate \<Rightarrow> 'a) \<Rightarrow> ('w, 'a) comp" where
  "gets f s = IVal (f s) s"

definition modify :: "('w istate \<Rightarrow> 'w istate) \<Rightarrow> ('w, unit) comp" where
  "modify f s = IVal () (f s)"

text \<open>\<^verbatim>\<open>x, err := f(); if err != nil { lastErr = err; continue }\<close>: the error as a value.\<close>

definition attempt :: "('w, 'a) comp \<Rightarrow> ('w, ierror + 'a) comp" where
  "attempt m s = (case m s of IFuel \<Rightarrow> IFuel | IPanic \<Rightarrow> IPanic | IFail e t \<Rightarrow> IVal (Inl e) t | IVal v t \<Rightarrow> IVal (Inr v) t)"

text \<open>The value of a literal (a nil pointer panics) and an argument of a call (a missing one panics).\<close>

definition Value :: "literal \<Rightarrow> ('w, bval) comp" where
  "Value lit = (case lit of None \<Rightarrow> panic | Some v \<Rightarrow> ret v)"

definition arg :: "bnode list \<Rightarrow> nat \<Rightarrow> ('w, bnode) comp" where
  "arg args k = (if k < length args then ret (args ! k) else panic)"

text \<open>The context: the address of the ambient argument array, if there is one.\<close>

type_synonym ictx = "addr option"

definition maxInterpArgs :: nat where "maxInterpArgs = 100"

text \<open>
  The closures \<^verbatim>\<open>Evaluate\<close> hands to the bridge capture the context and the lambda to apply: they are that pair, and
  \<open>run_callback\<close> below is what calling one does.
\<close>

type_synonym closure = "ictx \<times> addr"

record 'w InterpBridge =
  br_DeviceID :: string
  br_FamilyDeviceID :: string
  br_MachineID :: string
  br_EncryptPassword :: "string \<Rightarrow> ('w, string) comp"
  br_SIMPhones :: bval
  br_DeviceEmails :: bval
  br_IsAppInstalled :: "string \<Rightarrow> string list \<Rightarrow> bool"
  br_HasAppPermissions :: "string list \<Rightarrow> bool"
  br_GetSecureNonces :: "string list"
  br_DoRPC :: "ictx \<Rightarrow> string \<Rightarrow> (string \<rightharpoonup> string) \<Rightarrow> bool \<Rightarrow> closure option \<Rightarrow> ('w, unit) comp"
  br_DisplayNewScreen :: "ictx \<Rightarrow> string \<Rightarrow> addr \<Rightarrow> ('w, unit) comp"
  br_HandleLoginResponse :: "string \<Rightarrow> ('w, unit) comp"
  br_StartTimer :: "string \<Rightarrow> int64 \<Rightarrow> closure \<Rightarrow> ('w, unit) comp"
  br_OpenURL :: "string \<Rightarrow> ('w, unit) comp"
  br_HandleVariableChange :: "string \<Rightarrow> literal \<Rightarrow> ('w, unit) comp"

text \<open>What the cases use of the libraries.\<close>

record golib =
  gl_regexp :: "string \<Rightarrow> (string \<Rightarrow> bool) option"
  gl_float_text :: "rat \<Rightarrow> string"
  gl_pointer_json :: "bval \<Rightarrow> json option"
  gl_range :: "dict \<Rightarrow> dict"

type_synonym 'w evaluator = "ictx \<Rightarrow> bnode \<Rightarrow> ('w, literal) comp"

subsection \<open>Heaps\<close>

definition BloksNull :: literal where "BloksNull = Some BNil"
definition BloksNothing :: literal where "BloksNothing = Some BIllegal"

definition new_dict :: "dict \<Rightarrow> ('w, literal) comp" where
  "new_dict d = bnd (gets (\<lambda>s. length (is_dicts s)))
     (\<lambda>a. bnd (modify (\<lambda>s. s\<lparr>is_dicts := is_dicts s @ [d]\<rparr>)) (\<lambda>_. ret (Some (BDict a))))"

definition new_lambda :: "BloksLambda \<Rightarrow> ('w, literal) comp" where
  "new_lambda l = bnd (gets (\<lambda>s. length (is_lambdas s)))
     (\<lambda>a. bnd (modify (\<lambda>s. s\<lparr>is_lambdas := is_lambdas s @ [l]\<rparr>)) (\<lambda>_. ret (Some (BLambda a))))"

definition new_args :: "literal list \<Rightarrow> ('w, ictx) comp" where
  "new_args xs = bnd (gets (\<lambda>s. length (is_args s)))
     (\<lambda>a. bnd (modify (\<lambda>s. s\<lparr>is_args := is_args s @ [xs]\<rparr>)) (\<lambda>_. ret (Some a)))"

text \<open>Reading through a pointer. A dangling address cannot occur in Go; it is a panic here.\<close>

definition deref :: "('w istate \<Rightarrow> 'a list) \<Rightarrow> addr \<Rightarrow> ('w, 'a) comp" where
  "deref heap a = bnd (gets heap) (\<lambda>h. if a < length h then ret (h ! a) else panic)"

subsection \<open>Casts\<close>

fun as_string :: "bval \<Rightarrow> string option" where
  "as_string (BStr s) = Some s" | "as_string _ = None"

fun as_int64 :: "bval \<Rightarrow> int64 option" where
  "as_int64 (BInt i) = Some i" | "as_int64 _ = None"

fun as_array :: "bval \<Rightarrow> literal list option" where
  "as_array (BArr xs) = Some xs" | "as_array _ = None"

fun as_dict :: "bval \<Rightarrow> addr option" where
  "as_dict (BDict a) = Some a" | "as_dict _ = None"

fun as_lambda :: "bval \<Rightarrow> addr option" where
  "as_lambda (BLambda a) = Some a" | "as_lambda _ = None"

fun as_elem :: "bval \<Rightarrow> addr option" where
  "as_elem (BElem a) = Some a" | "as_elem _ = None"

fun as_bundle :: "bval \<Rightarrow> addr option" where
  "as_bundle (BBundle a) = Some a" | "as_bundle _ = None"

definition evalAs :: "(bval \<Rightarrow> 'a option) \<Rightarrow> 'w evaluator \<Rightarrow> ictx \<Rightarrow> bnode \<Rightarrow> string \<Rightarrow> ('w, 'a) comp" where
  "evalAs cast ev ctx form whr =
     bnd (ev ctx form) (\<lambda>lit. bnd (Value lit)
       (\<lambda>v. case cast v of Some x \<Rightarrow> ret x | None \<Rightarrow> fail (ECast whr)))"

text \<open>The argument at an index, evaluated, and cast.\<close>

definition eval_arg :: "'w evaluator \<Rightarrow> ictx \<Rightarrow> bnode list \<Rightarrow> nat \<Rightarrow> ('w, literal) comp" where
  "eval_arg ev ctx args k = bnd (arg args k) (ev ctx)"

definition arg_as ::
  "(bval \<Rightarrow> 'a option) \<Rightarrow> 'w evaluator \<Rightarrow> ictx \<Rightarrow> bnode list \<Rightarrow> nat \<Rightarrow> string \<Rightarrow> ('w, 'a) comp" where
  "arg_as cast ev ctx args k whr = bnd (arg args k) (\<lambda>form. evalAs cast ev ctx form whr)"

subsection \<open>Control\<close>

definition ev_If :: "'w evaluator \<Rightarrow> ictx \<Rightarrow> bnode list \<Rightarrow> ('w, literal) comp" where
  "ev_If ev ctx args =
     bnd (eval_arg ev ctx args 0) (\<lambda>cond. bnd (Value cond)
       (\<lambda>c. if IsTruthy c then eval_arg ev ctx args 1 else eval_arg ev ctx args 2))"

definition ev_Or :: "'w evaluator \<Rightarrow> ictx \<Rightarrow> bnode list \<Rightarrow> ('w, literal) comp" where
  "ev_Or ev ctx args =
     bnd (eval_arg ev ctx args 0) (\<lambda>first. bnd (Value first)
       (\<lambda>v. if IsTruthy v then ret first else eval_arg ev ctx args 1))"

definition ev_And :: "'w evaluator \<Rightarrow> ictx \<Rightarrow> bnode list \<Rightarrow> ('w, literal) comp" where
  "ev_And ev ctx args =
     bnd (eval_arg ev ctx args 0) (\<lambda>first. bnd (Value first)
       (\<lambda>v. if \<not> IsTruthy v then ret first else eval_arg ev ctx args 1))"

definition ev_Not :: "'w evaluator \<Rightarrow> ictx \<Rightarrow> bnode list \<Rightarrow> ('w, literal) comp" where
  "ev_Not ev ctx args =
     bnd (eval_arg ev ctx args 0) (\<lambda>a. bnd (Value a) (\<lambda>v. ret (Some (BBool (\<not> IsTruthy v)))))"

fun ev_TakeLast :: "'w evaluator \<Rightarrow> ictx \<Rightarrow> literal \<Rightarrow> bnode list \<Rightarrow> ('w, literal) comp" where
  "ev_TakeLast ev ctx result [] = ret result"
| "ev_TakeLast ev ctx result (a # args) = bnd (ev ctx a) (\<lambda>r. ev_TakeLast ev ctx r args)"

subsection \<open>Functions and their arguments\<close>

text \<open>The loop of \<^verbatim>\<open>Apply\<close>: the results go into the new array from \<open>pos\<close> on; past its end is a panic.\<close>

fun apply_args :: "'w evaluator \<Rightarrow> ictx \<Rightarrow> nat \<Rightarrow> literal list \<Rightarrow> bnode list \<Rightarrow> ('w, literal list) comp" where
  "apply_args ev ctx pos newArgs [] = ret newArgs"
| "apply_args ev ctx pos newArgs (a # args) =
     bnd (ev ctx a) (\<lambda>r. if pos < length newArgs then apply_args ev ctx (Suc pos) (newArgs[pos := r]) args else panic)"

text \<open>\<^verbatim>\<open>make([]*BloksScriptLiteral, maxInterpArgs)\<close> followed by \<^verbatim>\<open>copy\<close>.\<close>

definition copy_args :: "literal list \<Rightarrow> literal list" where
  "copy_args bound = take maxInterpArgs bound @ replicate (maxInterpArgs - length bound) None"

definition ev_Apply :: "'w evaluator \<Rightarrow> ictx \<Rightarrow> bnode list \<Rightarrow> ('w, literal) comp" where
  "ev_Apply ev ctx args =
     bnd (arg_as as_lambda ev ctx args 0 ''apply'') (\<lambda>a. bnd (deref is_lambdas a) (\<lambda>fn.
       bnd (apply_args ev ctx (length (lam_BoundArgs fn)) (copy_args (lam_BoundArgs fn)) (tl args)) (\<lambda>newArgs.
         bnd (new_args newArgs) (\<lambda>ctx'. ev ctx' (lam_Body fn)))))"

definition ev_FuncConst :: "bnode list \<Rightarrow> ('w, literal) comp" where
  "ev_FuncConst args = bnd (arg args 0) (\<lambda>body. new_lambda \<lparr>lam_Body = body, lam_BoundArgs = []\<rparr>)"

definition ambientArgs :: "ictx \<Rightarrow> ('w, literal list) comp" where
  "ambientArgs ctx = (case ctx of None \<Rightarrow> ret (replicate maxInterpArgs None) | Some a \<Rightarrow> deref is_args a)"

definition in_range :: "int64 \<Rightarrow> 'a list \<Rightarrow> bool" where
  "in_range i xs \<longleftrightarrow> 0 \<le> sint i \<and> nat (sint i) < length xs"

definition ev_GetArg :: "'w evaluator \<Rightarrow> ictx \<Rightarrow> bnode list \<Rightarrow> ('w, literal) comp" where
  "ev_GetArg ev ctx args =
     bnd (arg_as as_int64 ev ctx args 0 ''getarg'') (\<lambda>i. bnd (ambientArgs ctx)
       (\<lambda>xs. if in_range i xs then ret (xs ! nat (sint i)) else panic))"

definition ev_SetArg :: "'w evaluator \<Rightarrow> ictx \<Rightarrow> bnode list \<Rightarrow> ('w, literal) comp" where
  "ev_SetArg ev ctx args =
     bnd (arg_as as_int64 ev ctx args 0 ''setarg'') (\<lambda>i. bnd (eval_arg ev ctx args 1) (\<lambda>v.
       case ctx of
         None \<Rightarrow> panic
       | Some a \<Rightarrow> bnd (deref is_args a) (\<lambda>xs.
           if in_range i xs
           then bnd (modify (\<lambda>s. s\<lparr>is_args := (is_args s)[a := xs[nat (sint i) := v]]\<rparr>)) (\<lambda>_. ret BloksNothing)
           else panic)))"

definition ev_Bind :: "'w evaluator \<Rightarrow> ictx \<Rightarrow> bnode list \<Rightarrow> ('w, literal) comp" where
  "ev_Bind ev ctx args =
     bnd (arg_as as_lambda ev ctx args 0 ''bind'') (\<lambda>a. bnd (arg_as as_array ev ctx args 1 ''bind'') (\<lambda>newArgs.
       bnd (deref is_lambdas a) (\<lambda>fn. new_lambda (fn\<lparr>lam_BoundArgs := newArgs\<rparr>))))"

subsection \<open>Variables and scripts\<close>

definition ev_GetVariable :: "'w evaluator \<Rightarrow> ictx \<Rightarrow> bnode list \<Rightarrow> ('w, literal) comp" where
  "ev_GetVariable ev ctx args =
     bnd (arg_as as_string ev ctx args 0 ''getvar2'') (\<lambda>varname.
       gets (\<lambda>s. case is_LocalVars s varname of
                   Some v \<Rightarrow> v
                 | None \<Rightarrow> (case is_GlobalVars s varname of Some v \<Rightarrow> v | None \<Rightarrow> BloksNull)))"

definition ev_WriteLocal :: "'w evaluator \<Rightarrow> ictx \<Rightarrow> bnode list \<Rightarrow> ('w, literal) comp" where
  "ev_WriteLocal ev ctx args =
     bnd (arg_as as_string ev ctx args 0 ''writelocalstate'') (\<lambda>varname. bnd (eval_arg ev ctx args 1) (\<lambda>value.
       bnd (modify (\<lambda>s. s\<lparr>is_LocalVars := (is_LocalVars s)(varname \<mapsto> value)\<rparr>)) (\<lambda>_. ret BloksNothing)))"

definition set_global :: "string \<Rightarrow> literal \<Rightarrow> ('w, unit) comp" where
  "set_global varname value = modify (\<lambda>s. s\<lparr>is_GlobalVars := (is_GlobalVars s)(varname \<mapsto> value)\<rparr>)"

definition ev_WriteGlobal :: "'w InterpBridge \<Rightarrow> 'w evaluator \<Rightarrow> ictx \<Rightarrow> bnode list \<Rightarrow> ('w, literal) comp" where
  "ev_WriteGlobal br ev ctx args =
     bnd (arg_as as_string ev ctx args 0 ''writegcs'') (\<lambda>varname. bnd (eval_arg ev ctx args 1) (\<lambda>value.
       bnd (set_global varname value) (\<lambda>_. bnd (br_HandleVariableChange br varname value) (\<lambda>_. ret BloksNothing))))"

definition ev_GetScript :: "'w evaluator \<Rightarrow> ictx \<Rightarrow> bnode list \<Rightarrow> ('w, literal) comp" where
  "ev_GetScript ev ctx args =
     bnd (arg_as as_string ev ctx args 0 ''getscript'') (\<lambda>name. bnd (gets is_Scripts) (\<lambda>scripts.
       case scripts name of None \<Rightarrow> fail (ENoScript name) | Some a \<Rightarrow> ret (Some (BLambda a))))"

definition ev_GetPayload :: "'w evaluator \<Rightarrow> ictx \<Rightarrow> bnode list \<Rightarrow> ('w, literal) comp" where
  "ev_GetPayload ev ctx args =
     bnd (arg_as as_string ev ctx args 0 ''getpayload'') (\<lambda>name. bnd (gets is_Payloads) (\<lambda>payloads.
       case payloads name of None \<Rightarrow> fail (ENoPayload name) | Some a \<Rightarrow> ret (Some (BBundle a))))"

text \<open>The variable a reference names: the argument must be a call of \<^verbatim>\<open>GetVariable2\<close> in the text.\<close>

definition ref_name :: "'w evaluator \<Rightarrow> ictx \<Rightarrow> bnode list \<Rightarrow> ('w, string) comp" where
  "ref_name ev ctx args =
     bnd (arg args 0) (\<lambda>ref. case ref of
         NLit _ \<Rightarrow> fail ENonRef
       | NCall f rargs \<Rightarrow>
           if f \<noteq> ''bk.action.bloks.GetVariable2'' then fail (ENonRefCall f)
           else arg_as as_string ev ctx rargs 0 ''ref.read'')"

definition ev_RefRead :: "'w evaluator \<Rightarrow> ictx \<Rightarrow> bnode list \<Rightarrow> ('w, literal) comp" where
  "ev_RefRead ev ctx args =
     bnd (ref_name ev ctx args) (\<lambda>varname.
       gets (\<lambda>s. case is_GlobalVars s varname of Some v \<Rightarrow> v | None \<Rightarrow> BloksNull))"

definition ev_RefWrite :: "'w evaluator \<Rightarrow> ictx \<Rightarrow> bnode list \<Rightarrow> ('w, literal) comp" where
  "ev_RefWrite ev ctx args =
     bnd (ref_name ev ctx args) (\<lambda>varname. bnd (eval_arg ev ctx args 1) (\<lambda>value.
       bnd (set_global varname value) (\<lambda>_. ret BloksNothing)))"

subsection \<open>Comparisons, types and numbers\<close>

text \<open>Go's \<^verbatim>\<open>==\<close> on interface values: two slices or two maps cannot be compared and panic.\<close>

fun go_eq :: "bval \<Rightarrow> bval \<Rightarrow> bool option" where
  "go_eq (BArr _) (BArr _) = None"
| "go_eq (BDict _) (BDict _) = None"
| "go_eq v w = Some (v = w)"

definition ev_Eq :: "'w evaluator \<Rightarrow> ictx \<Rightarrow> bnode list \<Rightarrow> ('w, literal) comp" where
  "ev_Eq ev ctx args =
     bnd (eval_arg ev ctx args 0) (\<lambda>first. bnd (eval_arg ev ctx args 1) (\<lambda>second.
       bnd (Value first) (\<lambda>v. bnd (Value second) (\<lambda>w.
         case go_eq v w of None \<Rightarrow> panic | Some b \<Rightarrow> ret (Some (BBool b))))))"

definition ev_compare ::
  "(int \<Rightarrow> int \<Rightarrow> bool) \<Rightarrow> string \<Rightarrow> string \<Rightarrow> 'w evaluator \<Rightarrow> ictx \<Rightarrow> bnode list \<Rightarrow> ('w, literal) comp" where
  "ev_compare rel l r ev ctx args =
     bnd (arg_as as_int64 ev ctx args 0 l) (\<lambda>first. bnd (arg_as as_int64 ev ctx args 1 r) (\<lambda>second.
       ret (Some (BBool (rel (sint first) (sint second))))))"

fun getBloksType :: "bval \<Rightarrow> int64 option" where
  "getBloksType BNil = Some 0"
| "getBloksType (BBool _) = Some 1"
| "getBloksType (BStr _) = Some 2"
| "getBloksType (BInt _) = Some 3"
| "getBloksType (BFloat _) = Some 4"
| "getBloksType (BArr _) = Some 6"
| "getBloksType (BDict _) = Some 7"
| "getBloksType _ = None"

definition ev_AsNonnull :: "'w evaluator \<Rightarrow> ictx \<Rightarrow> bnode list \<Rightarrow> ('w, literal) comp" where
  "ev_AsNonnull ev ctx args =
     bnd (eval_arg ev ctx args 0) (\<lambda>result. bnd (Value result) (\<lambda>v. if v = BNil then fail ENull else ret result))"

definition ev_AssertType :: "'w evaluator \<Rightarrow> ictx \<Rightarrow> bnode list \<Rightarrow> ('w, literal) comp" where
  "ev_AssertType ev ctx args =
     bnd (eval_arg ev ctx args 0) (\<lambda>val. bnd (arg_as as_int64 ev ctx args 1 ''asserttype'') (\<lambda>expected.
       bnd (Value val) (\<lambda>v. case getBloksType v of
           None \<Rightarrow> fail EBadType
         | Some actual \<Rightarrow> if expected \<noteq> actual then fail ETypeMismatch else ret val)))"

definition ev_TypeOf :: "'w evaluator \<Rightarrow> ictx \<Rightarrow> bnode list \<Rightarrow> ('w, literal) comp" where
  "ev_TypeOf ev ctx args =
     bnd (eval_arg ev ctx args 0) (\<lambda>val. bnd (Value val) (\<lambda>v. case getBloksType v of
         None \<Rightarrow> fail EBadType | Some t \<Rightarrow> ret (Some (BInt t))))"

subsection \<open>Collections\<close>

fun eval_all :: "'w evaluator \<Rightarrow> ictx \<Rightarrow> bnode list \<Rightarrow> ('w, literal list) comp" where
  "eval_all ev ctx [] = ret []"
| "eval_all ev ctx (a # args) = bnd (ev ctx a) (\<lambda>r. bnd (eval_all ev ctx args) (\<lambda>rs. ret (r # rs)))"

definition ev_ArrayMake :: "'w evaluator \<Rightarrow> ictx \<Rightarrow> bnode list \<Rightarrow> ('w, literal) comp" where
  "ev_ArrayMake ev ctx args = bnd (eval_all ev ctx args) (\<lambda>rs. ret (Some (BArr rs)))"

definition ev_ArrayLength :: "'w evaluator \<Rightarrow> ictx \<Rightarrow> bnode list \<Rightarrow> ('w, literal) comp" where
  "ev_ArrayLength ev ctx args =
     bnd (arg_as as_array ev ctx args 0 ''array.length'') (\<lambda>xs. ret (Some (BInt (word_of_nat (length xs)))))"

fun map_make :: "dict \<Rightarrow> literal list \<Rightarrow> literal list \<Rightarrow> ('w, dict) comp" where
  "map_make result (k # ks) (v # vs) =
     bnd (Value k) (\<lambda>key. case as_string key of
         None \<Rightarrow> fail ENonStringKey | Some str \<Rightarrow> map_make (AList.update str v result) ks vs)"
| "map_make result _ _ = ret result"

definition ev_MapMake :: "'w evaluator \<Rightarrow> ictx \<Rightarrow> bnode list \<Rightarrow> ('w, literal) comp" where
  "ev_MapMake ev ctx args =
     bnd (arg_as as_array ev ctx args 0 ''map.make'') (\<lambda>first. bnd (arg_as as_array ev ctx args 1 ''map.make'') (\<lambda>second.
       if length first \<noteq> length second then fail EMapLengths
       else bnd (map_make [] first second) new_dict))"

definition ev_CallRuntime :: "'w evaluator \<Rightarrow> ictx \<Rightarrow> bnode list \<Rightarrow> ('w, literal) comp" where
  "ev_CallRuntime ev ctx args =
     bnd (arg_as as_int64 ev ctx args 0 ''callruntime'') (\<lambda>num.
       if num \<noteq> 6 then fail (EBadRuntime num)
       else if length args = 1 then new_dict []
       else if length args = 3 then
         bnd (arg_as as_string ev ctx args 1 ''callruntime'') (\<lambda>key. bnd (eval_arg ev ctx args 2) (\<lambda>val.
           new_dict [(key, val)]))
       else fail (ERuntimeArgs (length args)))"

definition ev_Put :: "'w evaluator \<Rightarrow> ictx \<Rightarrow> bnode list \<Rightarrow> ('w, literal) comp" where
  "ev_Put ev ctx args =
     bnd (arg_as as_dict ev ctx args 0 ''put'') (\<lambda>a. bnd (arg_as as_string ev ctx args 1 ''put'') (\<lambda>key.
       bnd (eval_arg ev ctx args 2) (\<lambda>val. bnd (deref is_dicts a) (\<lambda>d.
         bnd (modify (\<lambda>s. s\<lparr>is_dicts := (is_dicts s)[a := AList.update key val d]\<rparr>)) (\<lambda>_. ret BloksNothing)))))"

definition ev_InByVal :: "'w evaluator \<Rightarrow> ictx \<Rightarrow> bnode list \<Rightarrow> ('w, literal) comp" where
  "ev_InByVal ev ctx args =
     bnd (arg_as as_dict ev ctx args 0 ''put'') (\<lambda>a. bnd (arg_as as_string ev ctx args 1 ''put'') (\<lambda>key.
       bnd (deref is_dicts a) (\<lambda>d. ret (Some (BBool (map_of d key \<noteq> None))))))"

definition ev_MapGet :: "'w evaluator \<Rightarrow> ictx \<Rightarrow> bnode list \<Rightarrow> ('w, literal) comp" where
  "ev_MapGet ev ctx args =
     bnd (arg_as as_dict ev ctx args 0 ''merge'') (\<lambda>a. bnd (arg_as as_string ev ctx args 1 ''merge'') (\<lambda>key.
       bnd (deref is_dicts a) (\<lambda>d. ret (case map_of d key of Some v \<Rightarrow> v | None \<Rightarrow> BloksNull))))"

definition ev_Merge :: "'w evaluator \<Rightarrow> ictx \<Rightarrow> bnode list \<Rightarrow> ('w, literal) comp" where
  "ev_Merge ev ctx args =
     bnd (arg_as as_dict ev ctx args 0 ''merge'') (\<lambda>a. bnd (arg_as as_dict ev ctx args 1 ''merge'') (\<lambda>b.
       bnd (deref is_dicts a) (\<lambda>first. bnd (deref is_dicts b) (\<lambda>second.
         new_dict (foldl (\<lambda>m (k, v). AList.update k v m) first second)))))"

subsection \<open>JSON\<close>

text \<open>
  \<^verbatim>\<open>Flatten\<close>: dictionaries become maps of flattened values, but the items of an array are appended as the
  literals they are, and booleans become numbers only outside arrays. The fuel is one more than the
  number of dictionaries: a value that needs more contains itself, and \<^verbatim>\<open>Flatten\<close> never returns on it.
\<close>

datatype flat = FlMap "(string \<times> flat) list" | FlLiterals "literal list" | FlInt int | FlVal bval

datatype 'a flres = FlFuel | FlPanic | FlOk 'a

fun Flatten :: "dict list \<Rightarrow> bool \<Rightarrow> nat \<Rightarrow> bval \<Rightarrow> flat flres"
  and Flatten_members :: "dict list \<Rightarrow> bool \<Rightarrow> nat \<Rightarrow> dict \<Rightarrow> (string \<times> flat) list flres"
where
  "Flatten h fb 0 v = FlFuel"
| "Flatten h fb (Suc n) v =
     (case v of
        BDict a \<Rightarrow>
          if a < length h
          then (case Flatten_members h fb n (h ! a) of FlOk ms \<Rightarrow> FlOk (FlMap ms) | FlPanic \<Rightarrow> FlPanic | FlFuel \<Rightarrow> FlFuel)
          else FlPanic
      | BArr xs \<Rightarrow> FlOk (FlLiterals xs)
      | BBool b \<Rightarrow> FlOk (if \<not> fb then FlVal v else FlInt (if b then 1 else 0))
      | _ \<Rightarrow> FlOk (FlVal v))"
| "Flatten_members h fb n [] = FlOk []"
| "Flatten_members h fb n ((k, lit) # ms) =
     (case lit of
        None \<Rightarrow> FlPanic
      | Some v \<Rightarrow>
          (case Flatten h fb n v of
             FlOk x \<Rightarrow> (case Flatten_members h fb n ms of FlOk xs \<Rightarrow> FlOk ((k, x) # xs) | FlPanic \<Rightarrow> FlPanic | FlFuel \<Rightarrow> FlFuel)
           | FlPanic \<Rightarrow> FlPanic
           | FlFuel \<Rightarrow> FlFuel))"

text \<open>
  \<^verbatim>\<open>json.Marshal\<close> of what is left. A \<^verbatim>\<open>*BloksScriptLiteral\<close> is a struct whose embedded field is exported under
  the name of its type. The keys of maps are sorted; a cycle is an error.
\<close>

fun marshal_value :: "golib \<Rightarrow> dict list \<Rightarrow> nat \<Rightarrow> bval \<Rightarrow> json option"
  and marshal_literals :: "golib \<Rightarrow> dict list \<Rightarrow> nat \<Rightarrow> literal list \<Rightarrow> json list option"
  and marshal_members :: "golib \<Rightarrow> dict list \<Rightarrow> nat \<Rightarrow> dict \<Rightarrow> (string \<times> json) list option"
where
  "marshal_value lib h n BNil = Some JNull"
| "marshal_value lib h n (BBool b) = Some (JBool b)"
| "marshal_value lib h n (BStr s) = Some (JStr s)"
| "marshal_value lib h n (BInt i) = Some (JNum (format_int (sint i)))"
| "marshal_value lib h n (BFloat r) = Some (JNum (gl_float_text lib r))"
| "marshal_value lib h n (BArr xs) = map_option JArr (marshal_literals lib h n xs)"
| "marshal_value lib h n (BDict a) =
     (case n of
        0 \<Rightarrow> None
      | Suc k \<Rightarrow> if a < length h then map_option (\<lambda>ms. JObj (sort_key fst ms)) (marshal_members lib h k (h ! a)) else None)"
| "marshal_value lib h n BIllegal = Some (JObj [])"
| "marshal_value lib h n (BLambda a) = gl_pointer_json lib (BLambda a)"
| "marshal_value lib h n (BElem a) = gl_pointer_json lib (BElem a)"
| "marshal_value lib h n (BBundle a) = gl_pointer_json lib (BBundle a)"
| "marshal_literals lib h n [] = Some []"
| "marshal_literals lib h n (None # xs) = map_option ((#) JNull) (marshal_literals lib h n xs)"
| "marshal_literals lib h n (Some v # xs) =
     (case (marshal_value lib h n v, marshal_literals lib h n xs) of
        (Some j, Some js) \<Rightarrow> Some (JObj [(''BloksJavascriptValue'', j)] # js) | _ \<Rightarrow> None)"
| "marshal_members lib h n [] = Some []"
| "marshal_members lib h n ((k, None) # ms) = map_option ((#) (k, JNull)) (marshal_members lib h n ms)"
| "marshal_members lib h n ((k, Some v) # ms) =
     (case (marshal_value lib h n v, marshal_members lib h n ms) of
        (Some j, Some js) \<Rightarrow> Some ((k, JObj [(''BloksJavascriptValue'', j)]) # js) | _ \<Rightarrow> None)"

fun sequence :: "'a option list \<Rightarrow> 'a list option" where
  "sequence [] = Some []"
| "sequence (None # xs) = None"
| "sequence (Some x # xs) = map_option ((#) x) (sequence xs)"

fun marshal_flat :: "golib \<Rightarrow> dict list \<Rightarrow> flat \<Rightarrow> json option" where
  "marshal_flat lib h (FlMap ms) =
     map_option (\<lambda>js. JObj (sort_key fst (zip (map fst ms) js))) (sequence (map (\<lambda>m. marshal_flat lib h (snd m)) ms))"
| "marshal_flat lib h (FlLiterals xs) = map_option JArr (marshal_literals lib h (Suc (length h)) xs)"
| "marshal_flat lib h (FlInt i) = Some (JNum (format_int i))"
| "marshal_flat lib h (FlVal v) = marshal_value lib h (Suc (length h)) v"

definition ev_JsonEncode :: "golib \<Rightarrow> 'w evaluator \<Rightarrow> ictx \<Rightarrow> bnode list \<Rightarrow> ('w, literal) comp" where
  "ev_JsonEncode lib ev ctx args =
     bnd (eval_arg ev ctx args 0) (\<lambda>a. bnd (Value a) (\<lambda>v. bnd (gets is_dicts) (\<lambda>h.
       case Flatten h True (Suc (length h)) v of
         FlFuel \<Rightarrow> (\<lambda>s. IFuel)
       | FlPanic \<Rightarrow> panic
       | FlOk x \<Rightarrow> (case marshal_flat lib h x of None \<Rightarrow> fail EJson | Some j \<Rightarrow> ret (Some (BStr (marshal j)))))))"

subsection \<open>Strings and the device\<close>

definition ev_StringLength :: "'w evaluator \<Rightarrow> ictx \<Rightarrow> bnode list \<Rightarrow> ('w, literal) comp" where
  "ev_StringLength ev ctx args =
     bnd (arg_as as_string ev ctx args 0 ''string.length'') (\<lambda>str. ret (Some (BInt (word_of_nat (length str)))))"

definition ev_MatchesRegex :: "golib \<Rightarrow> 'w evaluator \<Rightarrow> ictx \<Rightarrow> bnode list \<Rightarrow> ('w, literal) comp" where
  "ev_MatchesRegex lib ev ctx args =
     bnd (arg_as as_string ev ctx args 0 ''regex'') (\<lambda>str. bnd (arg_as as_string ev ctx args 1 ''regex'') (\<lambda>regex.
       case gl_regexp lib regex of None \<Rightarrow> fail ERegex | Some r \<Rightarrow> ret (Some (BBool (r str)))))"

definition ev_EncryptPassword :: "'w InterpBridge \<Rightarrow> 'w evaluator \<Rightarrow> ictx \<Rightarrow> bnode list \<Rightarrow> ('w, literal) comp" where
  "ev_EncryptPassword br ev ctx args =
     bnd (arg_as as_string ev ctx args 0 ''encryptpassword'') (\<lambda>pass.
       bnd (br_EncryptPassword br pass) (\<lambda>enc. ret (Some (BStr enc))))"

definition ev_GetText :: "'w evaluator \<Rightarrow> ictx \<Rightarrow> bnode list \<Rightarrow> ('w, literal) comp" where
  "ev_GetText ev ctx args =
     bnd (arg_as as_elem ev ctx args 0 ''gettext'') (\<lambda>a. bnd (deref is_elems a) (\<lambda>c. bnd (gets is_texts) (\<lambda>texts.
       case texts c of None \<Rightarrow> fail ENoText | Some t \<Rightarrow> ret (Some (BStr t)))))"

fun strings_of_literals :: "literal list \<Rightarrow> ('w, string list) comp" where
  "strings_of_literals [] = ret []"
| "strings_of_literals (x # xs) =
     bnd (Value x) (\<lambda>v. case as_string v of
         None \<Rightarrow> fail ENonString
       | Some str \<Rightarrow> bnd (strings_of_literals xs) (\<lambda>strs. ret (str # strs)))"

definition ev_IsAppInstalled :: "'w InterpBridge \<Rightarrow> 'w evaluator \<Rightarrow> ictx \<Rightarrow> bnode list \<Rightarrow> ('w, literal) comp" where
  "ev_IsAppInstalled br ev ctx args =
     bnd (arg_as as_string ev ctx args 0 ''isappinstalled'') (\<lambda>url.
       bnd (arg_as as_array ev ctx args 1 ''isappinstalled'') (\<lambda>pkgids.
         bnd (strings_of_literals pkgids) (\<lambda>strs. ret (Some (BBool (br_IsAppInstalled br url strs))))))"

definition ev_CheckPermission :: "'w InterpBridge \<Rightarrow> 'w evaluator \<Rightarrow> ictx \<Rightarrow> bnode list \<Rightarrow> ('w, literal) comp" where
  "ev_CheckPermission br ev ctx args =
     bnd (arg_as as_array ev ctx args 0 ''checkpermissionstatus'') (\<lambda>perms.
       bnd (strings_of_literals perms) (\<lambda>strs. ret (Some (BBool (br_HasAppPermissions br strs)))))"

subsection \<open>Properties of a tree\<close>

text \<open>
  \<^verbatim>\<open>evalTreeProp35\<close> and \<^verbatim>\<open>evalTreeCallback\<close> read a call of \<^verbatim>\<open>tree.Make\<close> in the text: the component, then numbers and
  values in turn. The first wanted number whose value has the right type gives the answer.
\<close>

fun tree_loop ::
  "(int64 \<Rightarrow> bool) \<Rightarrow> (bval \<Rightarrow> 'a option) \<Rightarrow> 'w evaluator \<Rightarrow> ictx \<Rightarrow> string \<Rightarrow> ierror option \<Rightarrow> bnode list \<Rightarrow> ('w, 'a) comp"
where
  "tree_loop wanted cast ev ctx whr lastErr (k # v # rest) =
     bnd (evalAs as_int64 ev ctx k ''tree.make'') (\<lambda>attr.
       if \<not> wanted attr then tree_loop wanted cast ev ctx whr lastErr rest
       else bnd (attempt (evalAs cast ev ctx v ''tree.make'')) (\<lambda>r. case r of
           Inl e \<Rightarrow> tree_loop wanted cast ev ctx whr (Some e) rest
         | Inr data \<Rightarrow> ret data))"
| "tree_loop wanted cast ev ctx whr lastErr _ = fail (ENoProp whr lastErr)"

definition eval_tree ::
  "(int64 \<Rightarrow> bool) \<Rightarrow> (bval \<Rightarrow> 'a option) \<Rightarrow> 'w evaluator \<Rightarrow> ictx \<Rightarrow> bnode \<Rightarrow> string \<Rightarrow> ('w, 'a) comp" where
  "eval_tree wanted cast ev ctx form whr =
     (case form of
        NLit _ \<Rightarrow> fail (ENonFuncall whr)
      | NCall f args \<Rightarrow>
          if f \<noteq> ''bk.action.tree.Make'' then fail (ENonTree whr f)
          else if length args mod 2 \<noteq> 1 then fail (ETreeArgs whr (length args))
          else tree_loop wanted cast ev ctx whr None (tl args))"

definition evalTreeProp35 :: "'w evaluator \<Rightarrow> ictx \<Rightarrow> bnode \<Rightarrow> string \<Rightarrow> ('w, string) comp" where
  "evalTreeProp35 = eval_tree (\<lambda>attr. attr = 35 \<or> attr = 41 \<or> attr = 43) as_string"

definition evalTreeCallback :: "'w evaluator \<Rightarrow> ictx \<Rightarrow> bnode \<Rightarrow> string \<Rightarrow> ('w, addr) comp" where
  "evalTreeCallback = eval_tree (\<lambda>attr. attr = 36) as_lambda"

subsection \<open>Effects\<close>

fun flat_params :: "dict \<Rightarrow> ('w, string \<rightharpoonup> string) comp" where
  "flat_params [] = ret Map.empty"
| "flat_params ((k, lit) # ms) =
     bnd (Value lit) (\<lambda>v. case as_string v of
         None \<Rightarrow> fail ENonString
       | Some str \<Rightarrow> bnd (flat_params ms) (\<lambda>m. ret (m(k \<mapsto> str))))"


definition ev_AsyncAction :: "golib \<Rightarrow> 'w InterpBridge \<Rightarrow> 'w evaluator \<Rightarrow> ictx \<Rightarrow> bnode list \<Rightarrow> ('w, literal) comp" where
  "ev_AsyncAction lib br ev ctx args =
     bnd (arg_as as_string ev ctx args 0 ''asyncaction'') (\<lambda>name.
       bnd (arg_as as_dict ev ctx args 1 ''asyncaction'') (\<lambda>a. bnd (deref is_dicts a) (\<lambda>params.
         bnd (flat_params (gl_range lib params)) (\<lambda>flatParams.
           bnd (arg args 2) (\<lambda>tree. bnd (evalTreeCallback ev ctx tree ''asyncaction'') (\<lambda>cb.
             bnd (br_DoRPC br ctx name flatParams False (Some (ctx, cb))) (\<lambda>_. ret BloksNothing)))))))"

definition ev_PushScreen :: "golib \<Rightarrow> 'w InterpBridge \<Rightarrow> 'w evaluator \<Rightarrow> ictx \<Rightarrow> bnode list \<Rightarrow> ('w, literal) comp" where
  "ev_PushScreen lib br ev ctx args =
     bnd (arg args 0) (\<lambda>tree. bnd (evalTreeProp35 ev ctx tree ''pushscreen'') (\<lambda>name.
       bnd (arg_as as_dict ev ctx args 2 ''pushscreen'') (\<lambda>a. bnd (deref is_dicts a) (\<lambda>params.
         bnd (flat_params (gl_range lib params)) (\<lambda>flatParams.
           bnd (br_DoRPC br ctx name flatParams True None) (\<lambda>_. ret BloksNothing))))))"

definition ev_OpenSyncScreen :: "'w InterpBridge \<Rightarrow> 'w evaluator \<Rightarrow> ictx \<Rightarrow> bnode list \<Rightarrow> ('w, literal) comp" where
  "ev_OpenSyncScreen br ev ctx args =
     bnd (arg args 0) (\<lambda>tree. bnd (evalTreeProp35 ev ctx tree ''pushscreen'') (\<lambda>name.
       bnd (arg_as as_bundle ev ctx args 1 ''opensyncscreen'') (\<lambda>bundle.
         bnd (br_DisplayNewScreen br ctx name bundle) (\<lambda>_. ret BloksNothing))))"

definition ev_LoginResponse :: "'w InterpBridge \<Rightarrow> 'w evaluator \<Rightarrow> ictx \<Rightarrow> bnode list \<Rightarrow> ('w, literal) comp" where
  "ev_LoginResponse br ev ctx args =
     bnd (arg args 0) (\<lambda>tree. bnd (evalTreeProp35 ev ctx tree ''handleloginresponse'') (\<lambda>data.
       bnd (br_HandleLoginResponse br data) (\<lambda>_. ret BloksNothing)))"

text \<open>The interval in nanoseconds: an \<^verbatim>\<open>int64\<close> that wraps.\<close>

definition ev_TimerStart :: "'w InterpBridge \<Rightarrow> 'w evaluator \<Rightarrow> ictx \<Rightarrow> bnode list \<Rightarrow> ('w, literal) comp" where
  "ev_TimerStart br ev ctx args =
     bnd (arg_as as_int64 ev ctx args 1 ''timer.start'') (\<lambda>interval.
       bnd (arg_as as_lambda ev ctx args 3 ''timer.start'') (\<lambda>cb.
         bnd (arg_as as_string ev ctx args 4 ''timer.start'') (\<lambda>name.
           bnd (br_StartTimer br name (interval * 1000000) (ctx, cb)) (\<lambda>_. ret BloksNothing))))"

definition ev_OpenUrl :: "'w InterpBridge \<Rightarrow> 'w evaluator \<Rightarrow> ictx \<Rightarrow> bnode list \<Rightarrow> ('w, literal) comp" where
  "ev_OpenUrl br ev ctx args =
     bnd (arg_as as_string ev ctx args 0 ''openurl'') (\<lambda>url. bnd (br_OpenURL br url) (\<lambda>_. ret BloksNothing))"

definition ev_OpenDialog :: "'w evaluator \<Rightarrow> ictx \<Rightarrow> bnode list \<Rightarrow> ('w, literal) comp" where
  "ev_OpenDialog ev ctx args =
     bnd (arg args 0) (\<lambda>tree. bnd (evalTreeProp35 ev ctx tree ''opendialog'') (\<lambda>msg. fail (EDialog msg)))"

definition ev_SecureNonces :: "'w InterpBridge \<Rightarrow> ('w, literal) comp" where
  "ev_SecureNonces br = ret (Some (BArr (map (\<lambda>nonce. Some (BStr nonce)) (br_GetSecureNonces br))))"

text \<open>\<^verbatim>\<open>h9a\<close> applies its third argument to the encrypted first; \<^verbatim>\<open>GetByValOr\<close> is \<^verbatim>\<open>Or\<close> of a lookup.\<close>

definition ev_h9a :: "'w evaluator \<Rightarrow> ictx \<Rightarrow> bnode list \<Rightarrow> ('w, literal) comp" where
  "ev_h9a ev ctx args =
     bnd (arg args 2) (\<lambda>fn. bnd (arg args 0) (\<lambda>pass.
       ev ctx (NCall ''bk.action.core.Apply'' [fn, NCall ''bk.action.string.EncryptPassword'' [pass]])))"

definition ev_GetByValOr :: "'w evaluator \<Rightarrow> ictx \<Rightarrow> bnode list \<Rightarrow> ('w, literal) comp" where
  "ev_GetByValOr ev ctx args =
     bnd (arg args 0) (\<lambda>obj. bnd (arg args 1) (\<lambda>key. bnd (arg args 2) (\<lambda>alt.
       ev ctx (NCall ''bk.action.bool.Or'' [NCall ''bk.action.map.Get'' [obj, key], alt]))))"

subsection \<open>Checkpoints\<close>

record checkpointsFlowErrorData =
  cfd_URL :: string
  cfd_FlowID :: int
  cfd_UID :: int
  cfd_ShowNativeCheckpoints :: bool
  cfd_StartInternalWebviewFromURL :: bool

record checkpointsFlowError =
  cfe_UID :: int
  cfe_Code :: int
  cfe_Message :: json
  cfe_ErrorUserTitle :: string
  cfe_ErrorSubcode :: int
  cfe_ErrorUserMessage :: string
  cfe_ErrorData :: checkpointsFlowErrorData

text \<open>A value stored in an \<^verbatim>\<open>any\<close>: its numbers must fit a \<^verbatim>\<open>float64\<close>.\<close>

fun any_ok :: "json \<Rightarrow> bool" where
  "any_ok (JNum n) \<longleftrightarrow> ParseFloat n \<noteq> None"
| "any_ok (JArr js) \<longleftrightarrow> list_all any_ok js"
| "any_ok (JObj ms) \<longleftrightarrow> list_all (\<lambda>m. any_ok (snd m)) ms"
| "any_ok _ \<longleftrightarrow> True"

definition checkpointsFlowErrorData_store ::
  "string \<Rightarrow> json \<Rightarrow> checkpointsFlowErrorData \<Rightarrow> checkpointsFlowErrorData option" where
  "checkpointsFlowErrorData_store f v r =
     (if f = ''url'' then store_string v (\<lambda>x. r\<lparr>cfd_URL := x\<rparr>) r
      else if f = ''flow_id'' then store_int64 v (\<lambda>x. r\<lparr>cfd_FlowID := x\<rparr>) r
      else if f = ''uid'' then store_int64 v (\<lambda>x. r\<lparr>cfd_UID := x\<rparr>) r
      else if f = ''show_native_checkpoints'' then store_bool v (\<lambda>x. r\<lparr>cfd_ShowNativeCheckpoints := x\<rparr>) r
      else store_bool v (\<lambda>x. r\<lparr>cfd_StartInternalWebviewFromURL := x\<rparr>) r)"

definition checkpointsFlowError_store ::
  "string \<Rightarrow> json \<Rightarrow> checkpointsFlowError \<Rightarrow> checkpointsFlowError option" where
  "checkpointsFlowError_store f v r =
     (if f = ''uid'' then store_int64 v (\<lambda>x. r\<lparr>cfe_UID := x\<rparr>) r
      else if f = ''code'' then store_int64 v (\<lambda>x. r\<lparr>cfe_Code := x\<rparr>) r
      else if f = ''message'' then (if any_ok v then Some (r\<lparr>cfe_Message := v\<rparr>) else None)
      else if f = ''error_user_title'' then store_string v (\<lambda>x. r\<lparr>cfe_ErrorUserTitle := x\<rparr>) r
      else if f = ''error_subcode'' then store_int64 v (\<lambda>x. r\<lparr>cfe_ErrorSubcode := x\<rparr>) r
      else if f = ''error_user_msg'' then store_string v (\<lambda>x. r\<lparr>cfe_ErrorUserMessage := x\<rparr>) r
      else map_option (\<lambda>x. r\<lparr>cfe_ErrorData := x\<rparr>)
        (store_struct [''url'', ''flow_id'', ''uid'', ''show_native_checkpoints'', ''start_internal_webview_from_url'']
          checkpointsFlowErrorData_store v (cfe_ErrorData r)))"

definition zero_checkpointsFlowError :: checkpointsFlowError where
  "zero_checkpointsFlowError =
     \<lparr>cfe_UID = 0, cfe_Code = 0, cfe_Message = JNull, cfe_ErrorUserTitle = [], cfe_ErrorSubcode = 0,
      cfe_ErrorUserMessage = [],
      cfe_ErrorData = \<lparr>cfd_URL = [], cfd_FlowID = 0, cfd_UID = 0, cfd_ShowNativeCheckpoints = False,
        cfd_StartInternalWebviewFromURL = False\<rparr>\<rparr>"

definition checkpointsFlow_unmarshal :: "string \<Rightarrow> checkpointsFlowError option" where
  "checkpointsFlow_unmarshal s =
     (case unmarshal s of
        None \<Rightarrow> None
      | Some j \<Rightarrow> store_struct [''error''] (\<lambda>_ v r.
          store_struct [''uid'', ''code'', ''message'', ''error_user_title'', ''error_subcode'', ''error_user_msg'',
            ''error_data''] checkpointsFlowError_store v r) j zero_checkpointsFlowError)"

definition ev_Checkpoints :: "'w evaluator \<Rightarrow> ictx \<Rightarrow> bnode list \<Rightarrow> ('w, literal) comp" where
  "ev_Checkpoints ev ctx args =
     bnd (arg_as as_string ev ctx args 0 ''presentcheckpointsflow'') (\<lambda>flowB.
       case checkpointsFlow_unmarshal flowB of
         None \<Rightarrow> fail EJson
       | Some flow \<Rightarrow> fail (ECheckpoint (cfe_ErrorUserTitle flow @ '': '' @ cfe_ErrorUserMessage flow)))"

subsection \<open>The switch\<close>

datatype (plugins only: code) builtin = OpIf | OpOr | OpAnd | OpGetVariable | OpTakeLast | OpApply | OpFuncConst | OpGetArg | OpSetArg
  | OpEq | OpLt | OpGt | OpConst | OpGetScript | OpWriteLocal | OpWriteGlobal | OpArrayMake | OpMapMake | OpDeviceId
  | OpFamilyDeviceId | OpMachineId | OpEncryptPassword | OpGetText | OpNot | OpCallRuntime | OpPut | OpArrayLength
  | OpDarkMode | OpInByVal | OpSimPhones | OpDeviceEmails | OpIsAppInstalled | OpCheckPermission | OpSecureNonces
  | OpRefRead | OpRefWrite | OpAsyncAction | OpJsonEncode | OpMerge | OpMatchesRegex | OpBind | OpH9a
  | OpLoginResponse | OpMapGet | OpAsNonnull | OpAssertType | OpTypeOf | OpGetByValOr | OpOpenSyncScreen
  | OpGetPayload | OpPushScreen | OpStringLength | OpGe | OpLe | OpTimerStart | OpCheckpoints | OpOpenDialog
  | OpOpenUrl | OpIgnored

definition ignored_functions :: "string list" where
  "ignored_functions =
     [''bk.action.animated.Start'', ''bk.action.logging.LogEvent'', ''bk.action.LogFlytrapData'',
      ''bk.action.qpl.MarkerStartV2'', ''bk.action.qpl.MarkerAnnotate'', ''bk.action.bloks.ClearFocus'',
      ''bk.action.qpl.MarkerPoint'', ''bk.action.qpl.MarkerEndV2'', ''bk.action.bloks.DismissKeyboard'',
      ''bk.action.qpl.userflow.MarkPointV2'', ''bk.action.qpl.userflow.EndFlowSuccessV2'',
      ''bk.action.qpl.userflow.AnnotateV2'', ''bk.action.caa.reg.SaveCachedInfo'', ''bk.action.textinput.SetTextV2'',
      ''bk.action.caa.reg.SaveMachineID'', ''bk.action.caa.ShowLoggedInResetPassword'',
      ''bk.fx.action.FetchAllAvailableNativeAuthDataForCaller'']"

definition builtins :: "(string \<times> builtin) list" where
  "builtins =
     [(''bk.action.core.If'', OpIf), (''bk.action.bool.Or'', OpOr), (''bk.action.core.Coalesce'', OpOr),
      (''bk.action.bool.And'', OpAnd), (''bk.action.bloks.GetVariable2'', OpGetVariable),
      (''bk.action.bloks.GetVariableWithScope'', OpGetVariable), (''bk.action.core.TakeLast'', OpTakeLast),
      (''bk.action.core.Apply'', OpApply), (''bk.action.core.FuncConst'', OpFuncConst),
      (''bk.action.core.GetArg'', OpGetArg), (''bk.action.core.SetArg'', OpSetArg), (''bk.action.f32.Eq'', OpEq),
      (''bk.action.f32.Lt'', OpLt), (''bk.action.i64.Lt'', OpLt), (''bk.action.f32.Gt'', OpGt),
      (''bk.action.i64.Gt'', OpGt), (''bk.action.f32.Const'', OpConst), (''bk.action.bloks.GetScript'', OpGetScript),
      (''bk.action.bloks.WriteLocalState'', OpWriteLocal),
      (''bk.action.bloks.WriteGlobalConsistencyStore'', OpWriteGlobal), (''bk.action.array.Make'', OpArrayMake),
      (''bk.action.map.Make'', OpMapMake), (''bk.action.caa.login.GetUniqueDeviceId'', OpDeviceId),
      (''bk.fx.action.GetFamilyDeviceId'', OpFamilyDeviceId), (''bk.action.caa.FetchMachineID'', OpMachineId),
      (''bk.action.string.EncryptPassword'', OpEncryptPassword), (''bk.action.textinput.GetText'', OpGetText),
      (''bk.action.caa.GetPasswordText'', OpGetText), (''bk.action.bool.Not'', OpNot), (''null'', OpConst),
      (''bk.action.mins.CallRuntime'', OpCallRuntime), (''bk.action.array.Put'', OpPut),
      (''bk.action.mins.PutByVal'', OpPut), (''bk.action.array.Length'', OpArrayLength),
      (''ig.action.IsDarkModeEnabled'', OpDarkMode), (''bk.action.mins.InByVal'', OpInByVal),
      (''bk.action.caa.login.GetSimPhones'', OpSimPhones), (''bk.action.caa.login.GetDeviceEmails'', OpDeviceEmails),
      (''bk.action.bloks.IsAppInstalled'', OpIsAppInstalled), (''bk.action.CheckPermissionStatus'', OpCheckPermission),
      (''bk.action.ig.protection.GetSecureNonces'', OpSecureNonces), (''bk.action.ref.Make'', OpConst),
      (''bk.action.ref.Read'', OpRefRead), (''bk.action.ref.Write'', OpRefWrite),
      (''bk.action.bloks.AsyncActionWithDataManifestV2'', OpAsyncAction),
      (''bk.action.string.JsonEncode'', OpJsonEncode), (''bk.action.map.Merge'', OpMerge),
      (''bk.action.string.MatchesRegex'', OpMatchesRegex), (''bk.action.function.BindWithArrayV2'', OpBind),
      (''h9a'', OpH9a), (''bk.action.caa.HandleLoginResponseForContextChange'', OpLoginResponse),
      (''bk.action.i64.Const'', OpConst), (''bk.action.map.Get'', OpMapGet), (''bk.action.core.AsNonnull'', OpAsNonnull),
      (''bk.action.mins.AssertType'', OpAssertType), (''bk.action.mins.TypeOf'', OpTypeOf),
      (''bk.action.mins.GetByValOr'', OpGetByValOr), (''bk.action.fx.OpenSyncScreen'', OpOpenSyncScreen),
      (''bk.action.fx.PushSyncScreen'', OpOpenSyncScreen), (''bk.action.bloks.GetPayload'', OpGetPayload),
      (''bk.action.cds.PushScreen'', OpPushScreen), (''bk.action.string.Length'', OpStringLength),
      (''bk.action.mins.Ge'', OpGe), (''bk.action.mins.Le'', OpLe), (''bk.action.timer.Start'', OpTimerStart),
      (''bk.action.caa.PresentCheckpointsFlow'', OpCheckpoints), (''bk.action.dialog.OpenDialog'', OpOpenDialog),
      (''bk.action.navigation.OpenUrl'', OpOpenUrl)]
     @ map (\<lambda>f. (f, OpIgnored)) ignored_functions"

definition ev_builtin ::
  "golib \<Rightarrow> 'w InterpBridge \<Rightarrow> builtin \<Rightarrow> 'w evaluator \<Rightarrow> ictx \<Rightarrow> bnode list \<Rightarrow> ('w, literal) comp" where
  "ev_builtin lib br b ev ctx args =
     (case b of
        OpIf \<Rightarrow> ev_If ev ctx args
      | OpOr \<Rightarrow> ev_Or ev ctx args
      | OpAnd \<Rightarrow> ev_And ev ctx args
      | OpGetVariable \<Rightarrow> ev_GetVariable ev ctx args
      | OpTakeLast \<Rightarrow> ev_TakeLast ev ctx None args
      | OpApply \<Rightarrow> ev_Apply ev ctx args
      | OpFuncConst \<Rightarrow> ev_FuncConst args
      | OpGetArg \<Rightarrow> ev_GetArg ev ctx args
      | OpSetArg \<Rightarrow> ev_SetArg ev ctx args
      | OpEq \<Rightarrow> ev_Eq ev ctx args
      | OpLt \<Rightarrow> ev_compare (<) ''lt lhs'' ''lt rhs'' ev ctx args
      | OpGt \<Rightarrow> ev_compare (>) ''gt lhs'' ''gt rhs'' ev ctx args
      | OpConst \<Rightarrow> eval_arg ev ctx args 0
      | OpGetScript \<Rightarrow> ev_GetScript ev ctx args
      | OpWriteLocal \<Rightarrow> ev_WriteLocal ev ctx args
      | OpWriteGlobal \<Rightarrow> ev_WriteGlobal br ev ctx args
      | OpArrayMake \<Rightarrow> ev_ArrayMake ev ctx args
      | OpMapMake \<Rightarrow> ev_MapMake ev ctx args
      | OpDeviceId \<Rightarrow> ret (Some (BStr (br_DeviceID br)))
      | OpFamilyDeviceId \<Rightarrow> ret (Some (BStr (br_FamilyDeviceID br)))
      | OpMachineId \<Rightarrow> ret (Some (BStr (br_MachineID br)))
      | OpEncryptPassword \<Rightarrow> ev_EncryptPassword br ev ctx args
      | OpGetText \<Rightarrow> ev_GetText ev ctx args
      | OpNot \<Rightarrow> ev_Not ev ctx args
      | OpCallRuntime \<Rightarrow> ev_CallRuntime ev ctx args
      | OpPut \<Rightarrow> ev_Put ev ctx args
      | OpArrayLength \<Rightarrow> ev_ArrayLength ev ctx args
      | OpDarkMode \<Rightarrow> ret (Some (BBool False))
      | OpInByVal \<Rightarrow> ev_InByVal ev ctx args
      | OpSimPhones \<Rightarrow> ret (Some (br_SIMPhones br))
      | OpDeviceEmails \<Rightarrow> ret (Some (br_DeviceEmails br))
      | OpIsAppInstalled \<Rightarrow> ev_IsAppInstalled br ev ctx args
      | OpCheckPermission \<Rightarrow> ev_CheckPermission br ev ctx args
      | OpSecureNonces \<Rightarrow> ev_SecureNonces br
      | OpRefRead \<Rightarrow> ev_RefRead ev ctx args
      | OpRefWrite \<Rightarrow> ev_RefWrite ev ctx args
      | OpAsyncAction \<Rightarrow> ev_AsyncAction lib br ev ctx args
      | OpJsonEncode \<Rightarrow> ev_JsonEncode lib ev ctx args
      | OpMerge \<Rightarrow> ev_Merge ev ctx args
      | OpMatchesRegex \<Rightarrow> ev_MatchesRegex lib ev ctx args
      | OpBind \<Rightarrow> ev_Bind ev ctx args
      | OpH9a \<Rightarrow> ev_h9a ev ctx args
      | OpLoginResponse \<Rightarrow> ev_LoginResponse br ev ctx args
      | OpMapGet \<Rightarrow> ev_MapGet ev ctx args
      | OpAsNonnull \<Rightarrow> ev_AsNonnull ev ctx args
      | OpAssertType \<Rightarrow> ev_AssertType ev ctx args
      | OpTypeOf \<Rightarrow> ev_TypeOf ev ctx args
      | OpGetByValOr \<Rightarrow> ev_GetByValOr ev ctx args
      | OpOpenSyncScreen \<Rightarrow> ev_OpenSyncScreen br ev ctx args
      | OpGetPayload \<Rightarrow> ev_GetPayload ev ctx args
      | OpPushScreen \<Rightarrow> ev_PushScreen lib br ev ctx args
      | OpStringLength \<Rightarrow> ev_StringLength ev ctx args
      | OpGe \<Rightarrow> ev_compare (\<ge>) ''mins.ge'' ''mins.ge'' ev ctx args
      | OpLe \<Rightarrow> ev_compare (\<le>) ''mins.ge'' ''mins.ge'' ev ctx args
      | OpTimerStart \<Rightarrow> ev_TimerStart br ev ctx args
      | OpCheckpoints \<Rightarrow> ev_Checkpoints ev ctx args
      | OpOpenDialog \<Rightarrow> ev_OpenDialog ev ctx args
      | OpOpenUrl \<Rightarrow> ev_OpenUrl br ev ctx args
      | OpIgnored \<Rightarrow> ret BloksNothing)"

definition eval_form :: "golib \<Rightarrow> 'w InterpBridge \<Rightarrow> 'w evaluator \<Rightarrow> ictx \<Rightarrow> bnode \<Rightarrow> ('w, literal) comp" where
  "eval_form lib br ev ctx form =
     (case form of
        NLit lit \<Rightarrow> ret lit
      | NCall f args \<Rightarrow>
          (case map_of builtins f of
             None \<Rightarrow> fail (EUnimplemented f (length args))
           | Some b \<Rightarrow> ev_builtin lib br b ev ctx args))"

primrec Evaluate :: "nat \<Rightarrow> golib \<Rightarrow> 'w InterpBridge \<Rightarrow> ictx \<Rightarrow> bnode \<Rightarrow> ('w, literal) comp" where
  "Evaluate 0 lib br ctx form = (\<lambda>s. IFuel)"
| "Evaluate (Suc n) lib br ctx form = eval_form lib br (Evaluate n lib br) ctx form"

text \<open>Calling a closure: apply its lambda to the results, in the context of the call that made it.\<close>

definition run_callback :: "nat \<Rightarrow> golib \<Rightarrow> 'w InterpBridge \<Rightarrow> closure \<Rightarrow> literal list \<Rightarrow> ('w, unit) comp" where
  "run_callback n lib br c results =
     bnd (Evaluate n lib br (fst c) (NCall ''bk.action.core.Apply'' (NLit (Some (BLambda (snd c))) # map NLit results)))
       (\<lambda>_. ret ())"

subsection \<open>A new interpreter\<close>

text \<open>A decoded JSON value, as Go's \<^verbatim>\<open>any\<close> holds it.\<close>

datatype jsval = JsNil | JsBool bool | JsStr string | JsFloat rat | JsInt int64 | JsArr "jsval list"
  | JsMap "(string \<times> jsval) list"

fun FromJavaScript :: "jsval \<Rightarrow> ('w, literal) comp"
  and from_items :: "jsval list \<Rightarrow> ('w, literal list) comp"
  and from_members :: "(string \<times> jsval) list \<Rightarrow> ('w, dict) comp"
where
  "FromJavaScript JsNil = ret (Some BNil)"
| "FromJavaScript (JsBool b) = ret (Some (BBool b))"
| "FromJavaScript (JsStr s) = ret (Some (BStr s))"
| "FromJavaScript (JsFloat r) = ret (Some (BFloat r))"
| "FromJavaScript (JsInt i) = ret (Some (BInt i))"
| "FromJavaScript (JsArr js) = bnd (from_items js) (\<lambda>xs. ret (Some (BArr xs)))"
| "FromJavaScript (JsMap ms) = bnd (from_members ms) new_dict"
| "from_items [] = ret []"
| "from_items (j # js) = bnd (FromJavaScript j) (\<lambda>x. bnd (from_items js) (\<lambda>xs. ret (x # xs)))"
| "from_members [] = ret []"
| "from_members ((k, j) # ms) = bnd (FromJavaScript j) (\<lambda>x. bnd (from_members ms) (\<lambda>xs. ret ((k, x) # xs)))"

record BloksVariable =
  bv_ID :: string
  bv_Type :: string
  bv_Initial :: jsval
  bv_InitialScript :: "bnode option"

text \<open>The value of a variable goes to the locals or the globals; a global of the old page wins.\<close>

definition init_var :: "(string \<rightharpoonup> literal) option \<Rightarrow> BloksVariable \<Rightarrow> ('w, literal) comp \<Rightarrow> ('w, unit) comp" where
  "init_var old item m =
     (if bv_Type item = ''gs'' then
        (case Option.bind old (\<lambda>globals. globals (bv_ID item)) of
           Some oldval \<Rightarrow> set_global (bv_ID item) oldval
         | None \<Rightarrow> bnd m (set_global (bv_ID item)))
      else if bv_Type item = ''ls'' then
        bnd m (\<lambda>v. modify (\<lambda>s. s\<lparr>is_LocalVars := (is_LocalVars s)(bv_ID item \<mapsto> v)\<rparr>))
      else fail (EVarType (bv_Type item)))"

fun init_static :: "(string \<rightharpoonup> literal) option \<Rightarrow> BloksVariable list \<Rightarrow> ('w, unit) comp" where
  "init_static old [] = ret ()"
| "init_static old (item # items) =
     (case bv_InitialScript item of
        Some _ \<Rightarrow> init_static old items
      | None \<Rightarrow> bnd (init_var old item (FromJavaScript (bv_Initial item))) (\<lambda>_. init_static old items))"

text \<open>The second pass evaluates the script of every dynamic variable, even when the old value wins.\<close>

definition wrap_error :: "string \<Rightarrow> ('w, 'a) comp \<Rightarrow> ('w, 'a) comp" where
  "wrap_error name m s = (case m s of IFail e t \<Rightarrow> IFail (EVar name e) t | r \<Rightarrow> r)"

fun init_dynamic :: "nat \<Rightarrow> golib \<Rightarrow> 'w InterpBridge \<Rightarrow> ictx \<Rightarrow> (string \<rightharpoonup> literal) option \<Rightarrow> BloksVariable list \<Rightarrow> ('w, unit) comp"
where
  "init_dynamic n lib br ctx old [] = ret ()"
| "init_dynamic n lib br ctx old (item # items) =
     (case bv_InitialScript item of
        None \<Rightarrow> init_dynamic n lib br ctx old items
      | Some script \<Rightarrow> bnd (wrap_error (bv_ID item) (Evaluate n lib br ctx script)) (\<lambda>value.
          bnd (init_var old item (ret value)) (\<lambda>_. init_dynamic n lib br ctx old items)))"

fun new_scripts :: "(string \<times> bnode) list \<Rightarrow> ('w, unit) comp" where
  "new_scripts [] = ret ()"
| "new_scripts ((name, body) # ss) =
     bnd (new_lambda \<lparr>lam_Body = body, lam_BoundArgs = []\<rparr>) (\<lambda>lit.
       bnd (modify (\<lambda>s. s\<lparr>is_Scripts := (case lit of Some (BLambda a) \<Rightarrow> (is_Scripts s)(name \<mapsto> a) | _ \<Rightarrow> is_Scripts s)\<rparr>))
         (\<lambda>_. new_scripts ss))"

text \<open>
  The bridge as the caller gives it, functions missing where they are nil, and the functions \<^verbatim>\<open>NewInterpreter\<close> puts
  in their place. The two new identifiers and the SHA-256 of the empty string are arguments.
\<close>

record 'w bridge_options =
  bo_DeviceID :: string
  bo_FamilyDeviceID :: string
  bo_MachineID :: string
  bo_EncryptPassword :: "(string \<Rightarrow> ('w, string) comp) option"
  bo_SIMPhones :: bval
  bo_DeviceEmails :: bval
  bo_IsAppInstalled :: "(string \<Rightarrow> string list \<Rightarrow> bool) option"
  bo_HasAppPermissions :: "(string list \<Rightarrow> bool) option"
  bo_GetSecureNonces :: "string list option"
  bo_DoRPC :: "(ictx \<Rightarrow> string \<Rightarrow> (string \<rightharpoonup> string) \<Rightarrow> bool \<Rightarrow> closure option \<Rightarrow> ('w, unit) comp) option"
  bo_DisplayNewScreen :: "(ictx \<Rightarrow> string \<Rightarrow> addr \<Rightarrow> ('w, unit) comp) option"
  bo_HandleLoginResponse :: "(string \<Rightarrow> ('w, unit) comp) option"
  bo_StartTimer :: "(string \<Rightarrow> int64 \<Rightarrow> closure \<Rightarrow> ('w, unit) comp) option"
  bo_OpenURL :: "(string \<Rightarrow> ('w, unit) comp) option"
  bo_HandleVariableChange :: "(string \<Rightarrow> literal \<Rightarrow> ('w, unit) comp) option"

definition or_default :: "'a option \<Rightarrow> 'a \<Rightarrow> 'a" where
  "or_default x d = (case x of Some f \<Rightarrow> f | None \<Rightarrow> d)"

definition fake_password :: "bytes \<Rightarrow> string \<Rightarrow> ('w, string) comp" where
  "fake_password sha pw =
     ret (''#PWD_LIGHTSPEED_FAKE:'' @ EncodeToString StdEncoding (bytes_of_string pw @ sha))"

definition complete_bridge :: "string \<Rightarrow> string \<Rightarrow> bytes \<Rightarrow> 'w bridge_options \<Rightarrow> 'w InterpBridge" where
  "complete_bridge uuid1 uuid2 sha bo =
     \<lparr>br_DeviceID = (if bo_DeviceID bo = [] then uuid1 else bo_DeviceID bo),
      br_FamilyDeviceID = (if bo_FamilyDeviceID bo = [] then uuid2 else bo_FamilyDeviceID bo),
      br_MachineID = bo_MachineID bo,
      br_EncryptPassword = or_default (bo_EncryptPassword bo) (fake_password sha),
      br_SIMPhones = bo_SIMPhones bo, br_DeviceEmails = bo_DeviceEmails bo,
      br_IsAppInstalled = or_default (bo_IsAppInstalled bo) (\<lambda>_ _. False),
      br_HasAppPermissions = or_default (bo_HasAppPermissions bo) (\<lambda>_. False),
      br_GetSecureNonces = or_default (bo_GetSecureNonces bo) [],
      br_DoRPC = or_default (bo_DoRPC bo) (\<lambda>_ name _ _ _. fail (EBridge (''unhandled rpc '' @ name))),
      br_DisplayNewScreen = or_default (bo_DisplayNewScreen bo) (\<lambda>_ name _. fail (EBridge (''unhandled new screen '' @ name))),
      br_HandleLoginResponse = or_default (bo_HandleLoginResponse bo) (\<lambda>_. fail (EBridge ''unhandled login response'')),
      br_StartTimer = or_default (bo_StartTimer bo) (\<lambda>name _ _. fail (EBridge (''unhandled timer '' @ name))),
      br_OpenURL = or_default (bo_OpenURL bo) (\<lambda>url. fail (EBridge (''unhandled url '' @ url))),
      br_HandleVariableChange = or_default (bo_HandleVariableChange bo) (\<lambda>_ _. ret ())\<rparr>"

text \<open>
  \<^verbatim>\<open>NewInterpreter\<close> on the scripts, embedded payloads and variables of a bundle: the four tables are new, the
  heaps go on. \<open>old\<close> are the globals of the previous interpreter, \<open>mk\<close> completes the bridge.
\<close>

definition NewInterpreter ::
  "nat \<Rightarrow> golib \<Rightarrow> ('w bridge_options \<Rightarrow> 'w InterpBridge) \<Rightarrow> 'w bridge_options \<Rightarrow> ictx \<Rightarrow> (string \<times> bnode) list \<Rightarrow>
   (string \<times> addr) list \<Rightarrow> BloksVariable list \<Rightarrow> (string \<rightharpoonup> literal) option \<Rightarrow> ('w, 'w InterpBridge) comp" where
  "NewInterpreter n lib mk bo ctx scripts embedded variables old =
     bnd (modify (\<lambda>s. s\<lparr>is_Scripts := Map.empty, is_Payloads := map_of (rev embedded), is_LocalVars := Map.empty,
            is_GlobalVars := Map.empty\<rparr>)) (\<lambda>_.
       bnd (new_scripts scripts) (\<lambda>_. bnd (init_static old variables) (\<lambda>_.
         bnd (init_dynamic n lib (mk bo) ctx old variables) (\<lambda>_. ret (mk bo)))))"

text \<open>\<^verbatim>\<open>InterpBindThis\<close>: argument 0 becomes the component, in the ambient array if there is one.\<close>

definition InterpBindThis :: "ictx \<Rightarrow> nat \<Rightarrow> ('w, ictx) comp" where
  "InterpBindThis ctx this =
     bnd (gets (\<lambda>s. length (is_elems s))) (\<lambda>e. bnd (modify (\<lambda>s. s\<lparr>is_elems := is_elems s @ [this]\<rparr>)) (\<lambda>_.
       case ctx of
         None \<Rightarrow> new_args ((replicate maxInterpArgs None)[0 := Some (BElem e)])
       | Some a \<Rightarrow> bnd (deref is_args a) (\<lambda>xs.
           if xs = [] then panic
           else bnd (modify (\<lambda>s. s\<lparr>is_args := (is_args s)[a := xs[0 := Some (BElem e)]]\<rparr>)) (\<lambda>_. ret (Some a)))))"

end
