(* ===== verification/Bloks_Safe.thy ===== *)
theory Bloks_Safe
  imports Bloks_Interp "HOL-Library.Multiset"
begin

text \<open>
  Scripts that cannot bring the interpreter down. \<open>safe\<close> is a check on the text of a script: enough arguments
  for every call, argument numbers that are bound, comparisons with a scalar, no rebinding of functions.
  On a well-formed state a safe script gives a value, an error or runs for ever, but it never panics,
  and the state stays well-formed. The check is by the builtin of each call, the proof one lemma per
  case of the switch.
\<close>

section \<open>Well-formed states\<close>

text \<open>No pointer is nil and every address is allocated.\<close>

fun val_ok :: "'w istate \<Rightarrow> bval \<Rightarrow> bool" where
  "val_ok s (BArr xs) \<longleftrightarrow> list_all (\<lambda>x. case x of None \<Rightarrow> False | Some v \<Rightarrow> val_ok s v) xs"
| "val_ok s (BDict a) \<longleftrightarrow> a < length (is_dicts s)"
| "val_ok s (BLambda a) \<longleftrightarrow> a < length (is_lambdas s)"
| "val_ok s (BElem a) \<longleftrightarrow> a < length (is_elems s)"
| "val_ok s _ \<longleftrightarrow> True"

definition lit_ok :: "'w istate \<Rightarrow> literal \<Rightarrow> bool" where
  "lit_ok s lit \<longleftrightarrow> (case lit of None \<Rightarrow> False | Some v \<Rightarrow> val_ok s v)"

definition args_ok :: "'w istate \<Rightarrow> nat \<Rightarrow> addr \<Rightarrow> bool" where
  "args_ok s m a \<longleftrightarrow> a < length (is_args s) \<and> length (is_args s ! a) = maxInterpArgs \<and> m \<le> maxInterpArgs
     \<and> list_all (lit_ok s) (take m (is_args s ! a))"

text \<open>\<open>m\<close> arguments are bound in the context.\<close>

definition ctx_ok :: "'w istate \<Rightarrow> nat \<Rightarrow> ictx \<Rightarrow> bool" where
  "ctx_ok s m ctx \<longleftrightarrow> m = 0 \<or> (case ctx of None \<Rightarrow> False | Some a \<Rightarrow> args_ok s m a)"

section \<open>Safe scripts\<close>

fun arity :: "builtin \<Rightarrow> nat" where
  "arity b =
     (if b \<in> {OpTimerStart} then 5
      else if b \<in> {OpIf, OpPut, OpAsyncAction, OpH9a, OpGetByValOr, OpPushScreen} then 3
      else if b \<in> {OpOr, OpAnd, OpSetArg, OpEq, OpLt, OpGt, OpWriteLocal, OpWriteGlobal, OpMapMake, OpInByVal,
        OpIsAppInstalled, OpRefWrite, OpMerge, OpMatchesRegex, OpBind, OpMapGet, OpAssertType, OpOpenSyncScreen,
        OpGe, OpLe} then 2
      else if b \<in> {OpArrayMake, OpDeviceId, OpFamilyDeviceId, OpMachineId, OpDarkMode, OpSimPhones, OpDeviceEmails,
        OpSecureNonces, OpIgnored} then 0
      else 1)"

text \<open>A literal number below a bound, and a literal that Go can compare with anything.\<close>

fun index_below :: "nat \<Rightarrow> bnode \<Rightarrow> bool" where
  "index_below m (NLit (Some (BInt i))) \<longleftrightarrow> 0 \<le> sint i \<and> nat (sint i) < m"
| "index_below m _ \<longleftrightarrow> False"

fun scalar :: "bnode \<Rightarrow> bool" where
  "scalar (NLit (Some v)) \<longleftrightarrow> (case v of BArr _ \<Rightarrow> False | BDict _ \<Rightarrow> False | _ \<Rightarrow> True)"
| "scalar _ \<longleftrightarrow> False"

definition op_ok :: "nat \<Rightarrow> builtin \<Rightarrow> bnode list \<Rightarrow> bool" where
  "op_ok m b args \<longleftrightarrow> arity b \<le> length args \<and> b \<noteq> OpBind
     \<and> (b = OpGetArg \<longrightarrow> index_below m (args ! 0))
     \<and> (b = OpSetArg \<longrightarrow> 0 < m \<and> index_below maxInterpArgs (args ! 0))
     \<and> (b = OpEq \<longrightarrow> scalar (args ! 0) \<or> scalar (args ! 1))
     \<and> (b = OpApply \<longrightarrow> length args \<le> Suc maxInterpArgs)"

text \<open>The body of a function is checked with no argument bound; an unknown function is an error, not a panic.\<close>

fun safe :: "'w istate \<Rightarrow> nat \<Rightarrow> bnode \<Rightarrow> bool" where
  "safe s m (NLit lit) \<longleftrightarrow> lit_ok s lit"
| "safe s m (NCall f args) \<longleftrightarrow>
     (case map_of builtins f of
        None \<Rightarrow> list_all (safe s m) args
      | Some b \<Rightarrow> op_ok m b args \<and> list_all (safe s (if b = OpFuncConst then 0 else m)) args)"

definition state_ok :: "'w istate \<Rightarrow> bool" where
  "state_ok s \<longleftrightarrow>
     (\<forall>l \<in> ran (is_LocalVars s) \<union> ran (is_GlobalVars s). lit_ok s l)
     \<and> (\<forall>d \<in> set (is_dicts s). \<forall>m \<in> set d. lit_ok s (snd m))
     \<and> (\<forall>l \<in> set (is_lambdas s). safe s 0 (lam_Body l) \<and> lam_BoundArgs l = [])
     \<and> (\<forall>a \<in> ran (is_Scripts s). a < length (is_lambdas s))"

text \<open>The heaps only grow, and bound arguments stay bound.\<close>

definition heaps_le :: "'w istate \<Rightarrow> 'w istate \<Rightarrow> bool" where
  "heaps_le s t \<longleftrightarrow> length (is_dicts s) \<le> length (is_dicts t) \<and> length (is_lambdas s) \<le> length (is_lambdas t)
     \<and> length (is_elems s) \<le> length (is_elems t)"

definition grows :: "'w istate \<Rightarrow> 'w istate \<Rightarrow> bool" where
  "grows s t \<longleftrightarrow> heaps_le s t \<and> (\<forall>m a. args_ok s m a \<longrightarrow> args_ok t m a)"

section \<open>Growth\<close>

lemma lit_ok_simps [simp]: "\<not> lit_ok s None" "lit_ok s (Some v) \<longleftrightarrow> val_ok s v"
  by (simp_all add: lit_ok_def)

lemma val_ok_BArr [simp]: "val_ok s (BArr xs) \<longleftrightarrow> list_all (lit_ok s) xs"
  by (simp add: lit_ok_def [abs_def])

declare val_ok.simps(1) [simp del]

lemma grows_refl [simp]: "grows s s"
  by (simp add: grows_def heaps_le_def)

lemma grows_trans: "grows s t \<Longrightarrow> grows t u \<Longrightarrow> grows s u"
  by (auto simp: grows_def heaps_le_def)

lemma val_ok_le: "heaps_le s t \<Longrightarrow> val_ok s v \<Longrightarrow> val_ok t v"
proof (induction v)
  case (BArr xs)
  then show ?case by (auto simp: list_all_iff lit_ok_def split: option.splits)
qed (auto simp: heaps_le_def)

lemma lit_ok_le: "heaps_le s t \<Longrightarrow> lit_ok s l \<Longrightarrow> lit_ok t l"
  by (cases l) (auto intro: val_ok_le)

lemma lit_ok_grow: "grows s t \<Longrightarrow> lit_ok s l \<Longrightarrow> lit_ok t l"
  by (auto simp: grows_def intro: lit_ok_le)

lemma val_ok_grow: "val_ok s v \<Longrightarrow> grows s t \<Longrightarrow> grows t u \<Longrightarrow> val_ok u v"
  by (auto simp: grows_def intro: val_ok_le)

text \<open>A step that leaves the argument arrays alone, or adds one, grows the state if the heaps grow.\<close>

lemma grows_args: "heaps_le s t \<Longrightarrow> is_args t = is_args s @ xss \<Longrightarrow> grows s t"
  by (auto simp: grows_def args_ok_def nth_append list_all_iff intro: lit_ok_le)

lemma grows_args_update:
  assumes "heaps_le s t" and "is_args t = (is_args s)[a := (is_args s ! a)[i := v]]" and "lit_ok s v"
  shows "grows s t"
proof -
  have "list_all (lit_ok t) (take m (xs[i := v]))" if "list_all (lit_ok s) (take m xs)" for m xs
    using that assms(1,3) lit_ok_le by (auto simp: list_all_iff take_update_swap dest!: set_update_subset_insert [THEN subsetD])
  note upd = this
  have "args_ok t m b" if "args_ok s m b" for m b
  proof (cases "b = a")
    case True
    with that upd show ?thesis by (simp add: args_ok_def assms(2))
  next
    case False
    with that lit_ok_le [OF assms(1)] show ?thesis by (simp add: args_ok_def assms(2) list_all_iff)
  qed
  then show ?thesis using assms(1) by (simp add: grows_def)
qed

lemma lits_ok_grow: "grows s t \<Longrightarrow> list_all (lit_ok s) xs \<Longrightarrow> list_all (lit_ok t) xs"
  by (auto simp: list_all_iff intro: lit_ok_grow)

lemma ctx_ok_grow: "grows s t \<Longrightarrow> ctx_ok s m ctx \<Longrightarrow> ctx_ok t m ctx"
  by (auto simp: ctx_ok_def grows_def split: option.splits)

lemma safe_grow: "grows s t \<Longrightarrow> safe s m n \<Longrightarrow> safe t m n"
proof (induction n arbitrary: m)
  case (NLit l)
  then show ?case by (auto intro: lit_ok_grow)
next
  case (NCall f args)
  then show ?case by (cases "map_of builtins f") (auto simp: list_all_iff)
qed

lemma safes_grow: "grows s t \<Longrightarrow> list_all (safe s m) ns \<Longrightarrow> list_all (safe t m) ns"
  by (auto simp: list_all_iff intro: safe_grow)

section \<open>Computations that keep the state well-formed\<close>

text \<open>\<open>fl\<close> says whether the computation may run out of fuel.\<close>

definition runs :: "bool \<Rightarrow> ('a \<Rightarrow> 'w istate \<Rightarrow> bool) \<Rightarrow> ('w, 'a) comp \<Rightarrow> 'w istate \<Rightarrow> bool" where
  "runs fl Q m s \<longleftrightarrow>
     (case m s of
        IFuel \<Rightarrow> fl
      | IPanic \<Rightarrow> False
      | IFail e t \<Rightarrow> state_ok t \<and> grows s t
      | IVal v t \<Rightarrow> state_ok t \<and> grows s t \<and> Q v t)"

lemma runs_ret: "state_ok s \<Longrightarrow> Q v s \<Longrightarrow> runs fl Q (ret v) s"
  by (simp add: runs_def ret_def)

lemma runs_fail: "state_ok s \<Longrightarrow> runs fl Q (fail e) s"
  by (simp add: runs_def fail_def)

lemma runs_bnd:
  assumes "runs fl P m s" and "\<And>v t. state_ok t \<Longrightarrow> grows s t \<Longrightarrow> P v t \<Longrightarrow> runs fl Q (f v) t"
  shows "runs fl Q (bnd m f) s"
proof (cases "m s")
  case (IVal v t)
  with assms have "state_ok t" "grows s t" "runs fl Q (f v) t" by (auto simp: runs_def)
  with IVal show ?thesis
    by (auto simp: runs_def bnd_def split: ires.splits intro: grows_trans)
qed (use assms in \<open>auto simp: runs_def bnd_def\<close>)

lemma runs_attempt: "runs fl Q m s \<Longrightarrow> runs fl (\<lambda>r t. case r of Inl e \<Rightarrow> True | Inr v \<Rightarrow> Q v t) (attempt m) s"
  by (auto simp: runs_def attempt_def split: ires.splits)

lemma runs_weaken: "runs fl P m s \<Longrightarrow> (\<And>v t. P v t \<Longrightarrow> Q v t) \<Longrightarrow> runs fl Q m s"
  by (auto simp: runs_def split: ires.splits)

lemma runs_step_simps [simp]:
  "runs fl Q (bnd (ret v) f) s \<longleftrightarrow> runs fl Q (f v) s"
  "runs fl Q (bnd (gets g) f) s \<longleftrightarrow> runs fl Q (f (g s)) s"
  by (simp_all add: runs_def bnd_def ret_def gets_def)

lemma bnd_ret: "bnd m ret = m"
  by (auto simp: bnd_def ret_def fun_eq_iff split: ires.splits)

lemma runs_fuel [simp]: "runs fl Q (\<lambda>s. IFuel) s \<longleftrightarrow> fl"
  by (simp add: runs_def)

lemma runs_gets: "state_ok s \<Longrightarrow> Q (g s) s \<Longrightarrow> runs fl Q (gets g) s"
  by (simp add: runs_def gets_def)

lemma runs_deref: "a < length (h s) \<Longrightarrow> runs fl Q (bnd (deref h a) f) s \<longleftrightarrow> runs fl Q (f (h s ! a)) s"
  by (simp add: runs_def bnd_def deref_def ret_def gets_def)

lemma runs_modify:
  assumes "state_ok (g s)" and "grows s (g s)" and "runs fl Q (f ()) (g s)"
  shows "runs fl Q (bnd (modify g) f) s"
  using assms by (intro runs_bnd [where P = "\<lambda>_ t. t = g s"]) (auto simp: runs_def modify_def)

lemma runs_Value: "lit_ok s l \<Longrightarrow> (\<And>v. l = Some v \<Longrightarrow> val_ok s v \<Longrightarrow> runs fl Q (f v) s) \<Longrightarrow> runs fl Q (bnd (Value l) f) s"
  by (cases l) (simp_all add: Value_def)

lemma runs_arg: "k < length args \<Longrightarrow> runs fl Q (bnd (arg args k) f) s \<longleftrightarrow> runs fl Q (f (args ! k)) s"
  by (simp add: arg_def)

section \<open>Updates of the state\<close>

abbreviation lit :: "literal \<Rightarrow> 'w istate \<Rightarrow> bool" where "lit l s \<equiv> lit_ok s l"

lemma state_ok_grow:
  assumes "state_ok s" and "grows s t"
    and "ran (is_LocalVars t) \<subseteq> ran (is_LocalVars s) \<union> {l. lit_ok t l}"
    and "ran (is_GlobalVars t) \<subseteq> ran (is_GlobalVars s) \<union> {l. lit_ok t l}"
    and "\<And>d m. d \<in> set (is_dicts t) \<Longrightarrow> d \<notin> set (is_dicts s) \<Longrightarrow> m \<in> set d \<Longrightarrow> lit_ok t (snd m)"
    and "set (is_lambdas t) \<subseteq> set (is_lambdas s) \<union> {l. safe t 0 (lam_Body l) \<and> lam_BoundArgs l = []}"
    and "is_Scripts t = is_Scripts s"
  shows "state_ok t"
proof -
  have old: "\<forall>l \<in> ran (is_LocalVars s) \<union> ran (is_GlobalVars s). lit_ok t l"
    "\<forall>d \<in> set (is_dicts s). \<forall>m \<in> set d. lit_ok t (snd m)"
    "\<forall>l \<in> set (is_lambdas s). safe t 0 (lam_Body l) \<and> lam_BoundArgs l = []"
    using assms(1) lit_ok_grow [OF assms(2)] safe_grow [OF assms(2)] by (simp_all add: state_ok_def)
  have "length (is_lambdas s) \<le> length (is_lambdas t)" using assms(2) by (simp add: grows_def heaps_le_def)
  then have "\<forall>a \<in> ran (is_Scripts t). a < length (is_lambdas t)"
    using assms(1,7) by (auto simp: state_ok_def)
  moreover have "\<forall>l \<in> ran (is_LocalVars t) \<union> ran (is_GlobalVars t). lit_ok t l"
    using old(1) assms(3,4) by blast
  moreover have "\<forall>d \<in> set (is_dicts t). \<forall>m \<in> set d. lit_ok t (snd m)"
    using old(2) assms(5) by blast
  moreover have "\<forall>l \<in> set (is_lambdas t). safe t 0 (lam_Body l) \<and> lam_BoundArgs l = []"
    using old(3) assms(6) by blast
  ultimately show ?thesis unfolding state_ok_def by blast
qed

lemma ran_update_subset: "ran (m(k \<mapsto> v)) \<subseteq> ran m \<union> {v}"
  by (auto simp: ran_def)

lemma runs_new_dict:
  assumes "state_ok s" and "\<forall>m \<in> set d. lit_ok s (snd m)"
  shows "runs fl lit (new_dict d) s"
proof -
  let ?t = "s\<lparr>is_dicts := is_dicts s @ [d]\<rparr>"
  have g: "grows s ?t" by (rule grows_args [where xss = "[]"]) (simp_all add: heaps_le_def)
  have "state_ok ?t" by (rule state_ok_grow [OF assms(1) g]) (use assms(2) lit_ok_grow [OF g] in auto)
  then show ?thesis unfolding new_dict_def
    using g by (auto intro!: runs_modify runs_ret)
qed

lemma runs_new_lambda:
  assumes "state_ok s" and "safe s 0 body"
  shows "runs fl lit (new_lambda \<lparr>lam_Body = body, lam_BoundArgs = []\<rparr>) s"
proof -
  let ?t = "s\<lparr>is_lambdas := is_lambdas s @ [\<lparr>lam_Body = body, lam_BoundArgs = []\<rparr>]\<rparr>"
  have g: "grows s ?t" by (rule grows_args [where xss = "[]"]) (simp_all add: heaps_le_def)
  have "state_ok ?t" by (rule state_ok_grow [OF assms(1) g]) (use assms(2) safe_grow [OF g] in auto)
  then show ?thesis unfolding new_lambda_def
    using g by (auto intro!: runs_modify runs_ret)
qed

lemma runs_new_args:
  assumes "state_ok s"
  shows "runs fl (\<lambda>ctx t. ctx_ok t 0 ctx) (new_args xs) s"
proof -
  let ?t = "s\<lparr>is_args := is_args s @ [xs]\<rparr>"
  have g: "grows s ?t" by (rule grows_args [where xss = "[xs]"]) (simp_all add: heaps_le_def)
  have "state_ok ?t" by (rule state_ok_grow [OF assms(1) g]) auto
  then show ?thesis unfolding new_args_def
    using g by (auto intro!: runs_modify runs_ret simp: ctx_ok_def)
qed

lemma runs_set_global:
  assumes "state_ok s" and "lit_ok s v"
  shows "runs fl (\<lambda>_ _. True) (set_global k v) s"
proof -
  let ?t = "s\<lparr>is_GlobalVars := (is_GlobalVars s)(k \<mapsto> v)\<rparr>"
  have g: "grows s ?t" by (rule grows_args [where xss = "[]"]) (simp_all add: heaps_le_def)
  have "state_ok ?t"
    by (rule state_ok_grow [OF assms(1) g]) (use ran_update_subset [of "is_GlobalVars s" k v] lit_ok_grow [OF g assms(2)] in auto)
  with g show ?thesis by (simp add: runs_def set_global_def modify_def)
qed

lemma set_local_ok:
  assumes "state_ok s" and "lit_ok s v"
  shows "state_ok (s\<lparr>is_LocalVars := (is_LocalVars s)(k \<mapsto> v)\<rparr>)" (is "state_ok ?t")
    and "grows s (s\<lparr>is_LocalVars := (is_LocalVars s)(k \<mapsto> v)\<rparr>)"
proof -
  show g: "grows s ?t" by (rule grows_args [where xss = "[]"]) (simp_all add: heaps_le_def)
  show "state_ok ?t"
    by (rule state_ok_grow [OF assms(1) g]) (use ran_update_subset [of "is_LocalVars s" k v] lit_ok_grow [OF g assms(2)] in auto)
qed

lemma update_member: "m \<in> set (AList.update k v d) \<Longrightarrow> m \<in> set d \<or> m = (k, v)"
  by (induction d) (auto split: if_splits)

lemma put_ok:
  assumes "state_ok s" and "a < length (is_dicts s)" and "lit_ok s v"
  shows "state_ok (s\<lparr>is_dicts := (is_dicts s)[a := AList.update k v (is_dicts s ! a)]\<rparr>)" (is "state_ok ?t")
    and "grows s (s\<lparr>is_dicts := (is_dicts s)[a := AList.update k v (is_dicts s ! a)]\<rparr>)"
proof -
  show g: "grows s ?t" by (rule grows_args [where xss = "[]"]) (simp_all add: heaps_le_def)
  have "lit_ok ?t (snd m)" if "d \<in> set (is_dicts ?t)" "d \<notin> set (is_dicts s)" "m \<in> set d" for d m
  proof -
    have "d = AList.update k v (is_dicts s ! a)"
      using that set_update_subset_insert [of "is_dicts s" a] by auto
    with that(3) have "m \<in> set (is_dicts s ! a) \<or> m = (k, v)" using update_member by fast
    then have "lit_ok s (snd m)" using assms by (auto simp: state_ok_def)
    then show ?thesis by (rule lit_ok_grow [OF g])
  qed
  then show "state_ok ?t" by (intro state_ok_grow [OF assms(1) g]) auto
qed

lemma set_arg_ok:
  assumes "state_ok s" and "lit_ok s v"
  shows "state_ok (s\<lparr>is_args := (is_args s)[a := (is_args s ! a)[i := v]]\<rparr>)" (is "state_ok ?t")
    and "grows s (s\<lparr>is_args := (is_args s)[a := (is_args s ! a)[i := v]]\<rparr>)"
proof -
  show g: "grows s ?t" by (rule grows_args_update [where v = v]) (use assms in \<open>simp_all add: heaps_le_def\<close>)
  show "state_ok ?t" by (rule state_ok_grow [OF assms(1) g]) auto
qed

section \<open>Evaluating arguments\<close>

text \<open>
  Two modes. With \<open>None\<close> any safe script is evaluated and may run out of fuel. With \<open>Some n\<close> only scripts that
  need at most \<open>n\<close> units are evaluated, and none runs out: no function is applied, and nothing is encoded
  as JSON, because a dictionary that contains itself would never end.
\<close>

fun direct :: "bnode \<Rightarrow> bool" where
  "direct (NLit l) \<longleftrightarrow> True"
| "direct (NCall f args) \<longleftrightarrow>
     (case map_of builtins f of
        None \<Rightarrow> list_all direct args
      | Some b \<Rightarrow> b \<notin> {OpApply, OpH9a, OpJsonEncode} \<and> (b \<noteq> OpFuncConst \<longrightarrow> list_all direct args))"

fun cost :: "bnode \<Rightarrow> nat" where
  "cost (NLit l) = 1"
| "cost (NCall f args) =
     (if map_of builtins f = Some OpGetByValOr then 3 else 1) + Max (insert 0 (cost ` set args))"

definition admits :: "nat option \<Rightarrow> bnode \<Rightarrow> bool" where
  "admits fu form \<longleftrightarrow> (case fu of None \<Rightarrow> True | Some n \<Rightarrow> direct form \<and> cost form \<le> n)"

definition ev_ok :: "nat option \<Rightarrow> 'w evaluator \<Rightarrow> bool" where
  "ev_ok fu ev \<longleftrightarrow>
     (\<forall>m ctx form s. state_ok s \<longrightarrow> ctx_ok s m ctx \<longrightarrow> safe s m form \<longrightarrow> admits fu form \<longrightarrow>
        runs (fu = None) lit (ev ctx form) s)
     \<and> (\<forall>ctx l s v t. ev ctx (NLit l) s = IVal v t \<longrightarrow> v = l)"

lemma admits_simps [simp]: "admits None form" "admits (Some n) (NLit l) \<longleftrightarrow> 1 \<le> n"
  by (simp_all add: admits_def)

lemma cost_arg:
  "a \<in> set args \<Longrightarrow> cost a + (if map_of builtins f = Some OpGetByValOr then 3 else 1) \<le> cost (NCall f args)"
  by simp

lemma cost_pos: "1 \<le> cost form"
  by (cases form) simp_all

lemma admits_args:
  "admits fu (NCall f args) \<Longrightarrow> map_of builtins f \<noteq> Some OpFuncConst \<Longrightarrow> list_all (admits fu) args"
proof (cases fu)
  case (Some n)
  assume a: "admits fu (NCall f args)" "map_of builtins f \<noteq> Some OpFuncConst"
  then have "list_all direct args" by (auto simp: admits_def Some split: option.splits)
  moreover have "cost x \<le> n" if "x \<in> set args" for x
    using a(1) cost_arg [OF that, of f] by (simp add: admits_def Some del: cost.simps split: if_splits)
  ultimately show ?thesis by (simp add: admits_def Some list_all_iff)
qed (simp add: list_all_iff)

lemma admits_literal: "admits fu form \<Longrightarrow> admits fu (NLit l)"
  using cost_pos [of form] by (cases fu) (auto simp: admits_def)

text \<open>What holds while the arguments of a call are evaluated one after the other.\<close>

definition env :: "nat option \<Rightarrow> 'w evaluator \<Rightarrow> ictx \<Rightarrow> nat \<Rightarrow> bnode list \<Rightarrow> 'w istate \<Rightarrow> bool" where
  "env fu ev ctx m args s \<longleftrightarrow> ev_ok fu ev \<and> state_ok s \<and> ctx_ok s m ctx \<and> list_all (safe s m) args
     \<and> list_all (admits fu) args"

lemma env_grow: "env fu ev ctx m args s \<Longrightarrow> state_ok t \<Longrightarrow> grows s t \<Longrightarrow> env fu ev ctx m args t"
  by (auto simp: env_def intro: ctx_ok_grow safes_grow)

lemma env_state: "env fu ev ctx m args s \<Longrightarrow> state_ok s"
  by (simp add: env_def)

lemma env_tl: "env fu ev ctx m args s \<Longrightarrow> env fu ev ctx m (tl args) s"
  by (cases args) (simp_all add: env_def)

lemma env_args:
  assumes "env fu ev ctx m args s" and "k < length args"
  shows "safe s m (args ! k)" and "admits fu (args ! k)"
  using assms by (simp_all add: env_def list_all_length)

lemma runs_ev:
  assumes "env fu ev ctx m args s" and "safe s m form" and "admits fu form"
    and "\<And>l t. env fu ev ctx m args t \<Longrightarrow> grows s t \<Longrightarrow> lit_ok t l \<Longrightarrow> runs (fu = None) Q (f l) t"
  shows "runs (fu = None) Q (bnd (ev ctx form) f) s"
proof (rule runs_bnd [where P = lit])
  show "runs (fu = None) lit (ev ctx form) s" using assms(1-3) unfolding env_def ev_ok_def by blast
qed (use assms env_grow in blast)

lemma runs_eval_arg:
  assumes "env fu ev ctx m args s" and "k < length args"
    and "\<And>l t. env fu ev ctx m args t \<Longrightarrow> grows s t \<Longrightarrow> lit_ok t l \<Longrightarrow> runs (fu = None) Q (f l) t"
  shows "runs (fu = None) Q (bnd (eval_arg ev ctx args k) f) s"
proof -
  have "bnd (eval_arg ev ctx args k) f = bnd (ev ctx (args ! k)) f"
    using assms(2) by (simp add: eval_arg_def arg_def bnd_def ret_def fun_eq_iff)
  then show ?thesis using runs_ev [OF assms(1) env_args [OF assms(1,2)] assms(3)] by simp
qed

lemma runs_eval_last: "env fu ev ctx m args s \<Longrightarrow> k < length args \<Longrightarrow> runs (fu = None) lit (eval_arg ev ctx args k) s"
  using runs_eval_arg [of fu ev ctx m args s k lit ret] by (simp add: bnd_ret runs_ret env_state)

lemma runs_evalAs:
  assumes "env fu ev ctx m args s" and "safe s m form" and "admits fu form"
    and "\<And>v x t. env fu ev ctx m args t \<Longrightarrow> grows s t \<Longrightarrow> val_ok t v \<Longrightarrow> cast v = Some x \<Longrightarrow> runs (fu = None) Q (f x) t"
  shows "runs (fu = None) Q (bnd (evalAs cast ev ctx form whr) f) s"
proof -
  have assoc: "bnd (evalAs cast ev ctx form whr) f =
      bnd (ev ctx form) (\<lambda>l. bnd (Value l) (\<lambda>v. case cast v of Some x \<Rightarrow> f x | None \<Rightarrow> fail (ECast whr)))"
    by (auto simp: evalAs_def bnd_def ret_def fail_def Value_def panic_def fun_eq_iff split: ires.splits option.splits)
  show ?thesis unfolding assoc
    by (rule runs_ev [OF assms(1-3)]) (auto intro!: runs_Value runs_fail assms(4) simp: env_state split: option.splits)
qed

lemma runs_arg_as:
  assumes "env fu ev ctx m args s" and "k < length args"
    and "\<And>v x t. env fu ev ctx m args t \<Longrightarrow> grows s t \<Longrightarrow> val_ok t v \<Longrightarrow> cast v = Some x \<Longrightarrow> runs (fu = None) Q (f x) t"
  shows "runs (fu = None) Q (bnd (arg_as cast ev ctx args k whr) f) s"
proof -
  have "bnd (arg_as cast ev ctx args k whr) f = bnd (evalAs cast ev ctx (args ! k) whr) f"
    using assms(2) by (simp add: arg_as_def arg_def bnd_def ret_def fun_eq_iff)
  then show ?thesis using runs_evalAs [OF assms(1) env_args [OF assms(1,2)] assms(3)] by simp
qed

lemma cast_ok:
  "as_array v = Some xs \<Longrightarrow> val_ok s v \<Longrightarrow> list_all (lit_ok s) xs"
  "as_dict v = Some a \<Longrightarrow> val_ok s v \<Longrightarrow> a < length (is_dicts s)"
  "as_lambda v = Some a \<Longrightarrow> val_ok s v \<Longrightarrow> a < length (is_lambdas s)"
  "as_elem v = Some a \<Longrightarrow> val_ok s v \<Longrightarrow> a < length (is_elems s)"
  by (cases v; simp)+

lemma heap_grow:
  "grows s t \<Longrightarrow> a < length (is_dicts s) \<Longrightarrow> a < length (is_dicts t)"
  "grows s t \<Longrightarrow> a < length (is_lambdas s) \<Longrightarrow> a < length (is_lambdas t)"
  by (auto simp: grows_def heaps_le_def)

lemma nothing_ok [simp]: "lit_ok s BloksNothing" "lit_ok s BloksNull"
  by (simp_all add: BloksNothing_def BloksNull_def)

section \<open>One lemma per case\<close>

named_theorems runs_rules \<open>rules for the computations of the interpreter\<close>

lemmas [runs_rules] = runs_eval_arg runs_arg_as runs_eval_last runs_Value runs_fail runs_ret env_state

lemma runs_If: "env fu ev ctx m args s \<Longrightarrow> 3 \<le> length args \<Longrightarrow> runs (fu = None) lit (ev_If ev ctx args) s"
  unfolding ev_If_def by (intro runs_rules) (auto intro: runs_rules)

lemma runs_Or: "env fu ev ctx m args s \<Longrightarrow> 2 \<le> length args \<Longrightarrow> runs (fu = None) lit (ev_Or ev ctx args) s"
  unfolding ev_Or_def by (intro runs_rules) (auto intro: runs_rules)

lemma runs_And: "env fu ev ctx m args s \<Longrightarrow> 2 \<le> length args \<Longrightarrow> runs (fu = None) lit (ev_And ev ctx args) s"
  unfolding ev_And_def by (intro runs_rules) (auto intro: runs_rules)

lemma runs_Not: "env fu ev ctx m args s \<Longrightarrow> 1 \<le> length args \<Longrightarrow> runs (fu = None) lit (ev_Not ev ctx args) s"
  unfolding ev_Not_def by (intro runs_rules) (auto intro: runs_rules)

lemma runs_TakeLast:
  "env fu ev ctx m args s \<Longrightarrow> args \<noteq> [] \<or> lit_ok s r \<Longrightarrow> runs (fu = None) lit (ev_TakeLast ev ctx r args) s"
proof (induction args arbitrary: s r)
  case Nil
  then show ?case by (auto intro: runs_rules)
next
  case (Cons a args)
  have "runs (fu = None) lit (bnd (ev ctx a) (\<lambda>r. ev_TakeLast ev ctx r args)) s"
  proof (rule runs_ev [OF Cons.prems(1)])
    show "safe s m a" "admits fu a" using Cons.prems(1) by (simp_all add: env_def)
  next
    fix l t assume "env fu ev ctx m (a # args) t" "lit_ok t l"
    then show "runs (fu = None) lit (ev_TakeLast ev ctx l args) t" using Cons.IH env_tl by fastforce
  qed
  then show ?case by simp
qed

lemma runs_apply_args:
  "env fu ev ctx m args s \<Longrightarrow> pos + length args \<le> length new \<Longrightarrow>
   runs (fu = None) (\<lambda>_ _. True) (apply_args ev ctx pos new args) s"
proof (induction args arbitrary: s pos new)
  case Nil
  then show ?case by (auto intro: runs_rules)
next
  case (Cons a args)
  have "runs (fu = None) (\<lambda>_ _. True) (bnd (ev ctx a) (\<lambda>r. if pos < length new
    then apply_args ev ctx (Suc pos) (new[pos := r]) args else panic)) s"
  proof (rule runs_ev [OF Cons.prems(1)])
    show "safe s m a" "admits fu a" using Cons.prems(1) by (simp_all add: env_def)
  next
    fix l t assume "env fu ev ctx m (a # args) t"
    then have "env fu ev ctx m args t" using env_tl by fastforce
    then show "runs (fu = None) (\<lambda>_ _. True) (if pos < length new then apply_args ev ctx (Suc pos) (new[pos := l]) args else panic) t"
      using Cons.IH [of t "Suc pos" "new[pos := l]"] Cons.prems(2) by simp
  qed
  then show ?case by simp
qed

lemma runs_Apply:
  assumes "env fu ev ctx m args s" and "1 \<le> length args" and "length args \<le> Suc maxInterpArgs" and none: "fu = None"
  shows "runs (fu = None) lit (ev_Apply ev ctx args) s"
  unfolding ev_Apply_def
proof (rule runs_arg_as [OF assms(1)])
  fix v a t assume t: "env fu ev ctx m args t" "val_ok t v" "as_lambda v = Some a"
  then have a: "a < length (is_lambdas t)" by (simp add: cast_ok)
  define fn where "fn = is_lambdas t ! a"
  have fn: "safe t 0 (lam_Body fn)" "lam_BoundArgs fn = []"
    using a env_state [OF t(1)] by (simp_all add: state_ok_def fn_def)
  have "runs (fu = None) lit (bnd (apply_args ev ctx (length (lam_BoundArgs fn)) (copy_args (lam_BoundArgs fn)) (tl args))
      (\<lambda>new. bnd (new_args new) (\<lambda>ctx'. ev ctx' (lam_Body fn)))) t"
  proof (rule runs_bnd [OF runs_apply_args [OF env_tl [OF t(1)]]])
    show "length (lam_BoundArgs fn) + length (tl args) \<le> length (copy_args (lam_BoundArgs fn))"
      using assms(3) by (simp add: fn(2) copy_args_def)
  next
    fix new u assume u: "state_ok u" "grows t u"
    show "runs (fu = None) lit (bnd (new_args new) (\<lambda>ctx'. ev ctx' (lam_Body fn))) u"
    proof (rule runs_bnd [OF runs_new_args [OF u(1)]])
      fix ctx' w assume w: "state_ok w" "grows u w" "ctx_ok w 0 ctx'"
      have "safe w 0 (lam_Body fn)" using fn(1) u(2) w(2) by (blast intro: safe_grow grows_trans)
      moreover have "admits fu (lam_Body fn)" by (simp add: none)
      ultimately show "runs (fu = None) lit (ev ctx' (lam_Body fn)) w" using w(1,3) assms(1) unfolding env_def ev_ok_def by blast
    qed
  qed
  with a show "runs (fu = None) lit (bnd (deref is_lambdas a) (\<lambda>fn. bnd (apply_args ev ctx (length (lam_BoundArgs fn))
      (copy_args (lam_BoundArgs fn)) (tl args)) (\<lambda>new. bnd (new_args new) (\<lambda>ctx'. ev ctx' (lam_Body fn))))) t"
    by (simp add: runs_deref fn_def)
qed (use assms in linarith)

lemma runs_FuncConst:
  "state_ok s \<Longrightarrow> list_all (safe s 0) args \<Longrightarrow> 1 \<le> length args \<Longrightarrow> runs fl lit (ev_FuncConst args) s"
  unfolding ev_FuncConst_def by (simp add: Suc_le_eq runs_arg runs_new_lambda list_all_length)

text \<open>A literal argument evaluates to itself.\<close>

lemma env_literal: "env fu ev ctx m args s \<Longrightarrow> args \<noteq> [] \<Longrightarrow> admits fu (NLit l)"
  by (cases args) (auto simp: env_def intro: admits_literal)

lemma runs_literal:
  assumes "env fu ev ctx m args s" and "args \<noteq> []" and "lit_ok s l"
    and "\<And>t. env fu ev ctx m args t \<Longrightarrow> grows s t \<Longrightarrow> runs (fu = None) Q (f l) t"
  shows "runs (fu = None) Q (bnd (ev ctx (NLit l)) f) s"
proof (rule runs_bnd [where P = "\<lambda>v t. v = l"])
  have "runs (fu = None) lit (ev ctx (NLit l)) s"
    using assms(1,3) safe.simps(1) [of s m l] env_literal [OF assms(1,2)] unfolding env_def ev_ok_def by blast
  moreover have "v = l" if "ev ctx (NLit l) s = IVal v t" for v t
    using that assms(1) unfolding env_def ev_ok_def by blast
  ultimately show "runs (fu = None) (\<lambda>v t. v = l) (ev ctx (NLit l)) s"
    by (auto simp: runs_def split: ires.splits)
qed (use assms env_grow in blast)

lemma runs_literal_index:
  assumes "env fu ev ctx m args s" and "args ! 0 = NLit (Some (BInt i))" and "0 < length args"
    and "\<And>t. env fu ev ctx m args t \<Longrightarrow> grows s t \<Longrightarrow> runs (fu = None) Q (f i) t"
  shows "runs (fu = None) Q (bnd (arg_as as_int64 ev ctx args 0 whr) f) s"
proof -
  have "bnd (arg_as as_int64 ev ctx args 0 whr) f =
      bnd (ev ctx (NLit (Some (BInt i)))) (\<lambda>l. bnd (Value l) (\<lambda>v. case as_int64 v of Some x \<Rightarrow> f x | None \<Rightarrow> fail (ECast whr)))"
    using assms(2,3) by (auto simp: arg_as_def arg_def evalAs_def bnd_def ret_def fail_def Value_def panic_def fun_eq_iff
        split: ires.splits option.splits)
  then show ?thesis by (simp only:) (rule runs_literal [OF assms(1)], use assms(3) in simp, simp, simp add: Value_def assms(4))
qed

lemma index_below_cases: "index_below m n \<Longrightarrow> (\<And>i. n = NLit (Some (BInt i)) \<Longrightarrow> 0 \<le> sint i \<Longrightarrow> nat (sint i) < m \<Longrightarrow> P) \<Longrightarrow> P"
  by (induction m n rule: index_below.induct) auto

lemma runs_GetArg:
  assumes "env fu ev ctx m args s" and "1 \<le> length args" and "index_below m (args ! 0)"
  shows "runs (fu = None) lit (ev_GetArg ev ctx args) s"
proof (rule index_below_cases [OF assms(3)])
  fix i assume i: "args ! 0 = NLit (Some (BInt i))" "0 \<le> sint i" "nat (sint i) < m"
  show ?thesis unfolding ev_GetArg_def
  proof (rule runs_literal_index [OF assms(1) i(1)])
    fix t assume t: "env fu ev ctx m args t"
    then obtain a where a: "ctx = Some a" "args_ok t m a"
      using i(3) by (auto simp: env_def ctx_ok_def split: option.splits)
    let ?xs = "is_args t ! a"
    have "in_range i ?xs" "lit_ok t (?xs ! nat (sint i))"
      using a(2) i(2,3) by (auto simp: args_ok_def in_range_def list_all_length)
    with a env_state [OF t] show "runs (fu = None) lit (bnd (ambientArgs ctx) (\<lambda>xs. if in_range i xs then ret (xs ! nat (sint i)) else panic)) t"
      by (simp add: ambientArgs_def runs_deref args_ok_def runs_ret)
  qed (use assms(2) in linarith)
qed

lemma runs_SetArg:
  assumes "env fu ev ctx m args s" and "2 \<le> length args" and "0 < m" and "index_below maxInterpArgs (args ! 0)"
  shows "runs (fu = None) lit (ev_SetArg ev ctx args) s"
proof (rule index_below_cases [OF assms(4)])
  fix i assume i: "args ! 0 = NLit (Some (BInt i))" "0 \<le> sint i" "nat (sint i) < maxInterpArgs"
  have last: "runs (fu = None) lit (case ctx of None \<Rightarrow> panic
       | Some a \<Rightarrow> bnd (deref is_args a) (\<lambda>xs. if in_range i xs
           then bnd (modify (\<lambda>s. s\<lparr>is_args := (is_args s)[a := xs[nat (sint i) := v]]\<rparr>)) (\<lambda>_. ret BloksNothing)
           else panic)) t" if t: "env fu ev ctx m args t" and v: "lit_ok t v" for t v
  proof -
    from t obtain a where a: "ctx = Some a" "args_ok t m a"
      using assms(3) by (auto simp: env_def ctx_ok_def split: option.splits)
    then have "in_range i (is_args t ! a)" "a < length (is_args t)" using i by (auto simp: args_ok_def in_range_def)
    then show ?thesis using a set_arg_ok [OF env_state [OF t] v]
      by (auto simp: runs_deref intro!: runs_modify runs_ret)
  qed
  show ?thesis unfolding ev_SetArg_def
    by (rule runs_literal_index [OF assms(1) i(1)]) (use assms(2) last in \<open>auto intro!: runs_rules\<close>)
qed

lemma var_ok:
  assumes "state_ok s"
  shows "lit_ok s (case is_GlobalVars s x of Some v \<Rightarrow> v | None \<Rightarrow> BloksNull)"
    and "is_LocalVars s x = Some v \<Longrightarrow> lit_ok s v"
  using assms by (auto simp: state_ok_def ran_def split: option.splits)

lemma script_ok: "is_Scripts s x = Some a \<Longrightarrow> env fu ev ctx m args s \<Longrightarrow> a < length (is_lambdas s)"
  by (auto simp: env_def state_ok_def ran_def)

lemma runs_GetVariable: "env fu ev ctx m args s \<Longrightarrow> 1 \<le> length args \<Longrightarrow> runs (fu = None) lit (ev_GetVariable ev ctx args) s"
  unfolding ev_GetVariable_def
  by (rule runs_arg_as, assumption, linarith)
    (auto intro!: runs_gets dest: env_state simp: var_ok split: option.split)

lemma runs_WriteLocal: "env fu ev ctx m args s \<Longrightarrow> 2 \<le> length args \<Longrightarrow> runs (fu = None) lit (ev_WriteLocal ev ctx args) s"
  unfolding ev_WriteLocal_def
  by (rule runs_arg_as, assumption, linarith, rule runs_eval_arg, assumption, linarith)
    (auto intro!: runs_modify runs_ret set_local_ok dest: env_state)

lemma runs_WriteGlobal:
  assumes "env fu ev ctx m args s" and "2 \<le> length args"
    and br: "\<And>k v t. state_ok t \<Longrightarrow> lit_ok t v \<Longrightarrow> runs (fu = None) (\<lambda>_ _. True) (br_HandleVariableChange br k v) t"
  shows "runs (fu = None) lit (ev_WriteGlobal br ev ctx args) s"
  unfolding ev_WriteGlobal_def
proof (rule runs_arg_as [OF assms(1)])
  fix k :: string and t assume t: "env fu ev ctx m args t"
  show "runs (fu = None) lit (bnd (eval_arg ev ctx args 1) (\<lambda>v. bnd (set_global k v) (\<lambda>_. bnd (br_HandleVariableChange br k v)
      (\<lambda>_. ret BloksNothing)))) t"
  proof (rule runs_eval_arg [OF t])
    fix v u assume u: "env fu ev ctx m args u" "lit_ok u v"
    show "runs (fu = None) lit (bnd (set_global k v) (\<lambda>_. bnd (br_HandleVariableChange br k v) (\<lambda>_. ret BloksNothing))) u"
      using lit_ok_grow [OF _ u(2)]
      by (auto intro!: runs_bnd [OF runs_set_global [OF env_state [OF u(1)] u(2)]] runs_bnd [OF br] runs_ret)
  qed (use assms(2) in linarith)
qed (use assms(2) in linarith)

lemma runs_GetScript: "env fu ev ctx m args s \<Longrightarrow> 1 \<le> length args \<Longrightarrow> runs (fu = None) lit (ev_GetScript ev ctx args) s"
  unfolding ev_GetScript_def
  by (rule runs_arg_as, assumption, linarith)
    (auto intro!: runs_fail runs_ret dest: env_state script_ok split: option.split)

lemma runs_GetPayload: "env fu ev ctx m args s \<Longrightarrow> 1 \<le> length args \<Longrightarrow> runs (fu = None) lit (ev_GetPayload ev ctx args) s"
  unfolding ev_GetPayload_def
  by (rule runs_arg_as, assumption, linarith)
    (auto intro!: runs_fail runs_ret dest!: env_state split: option.split)

lemma bnd_arg: "k < length args \<Longrightarrow> bnd (arg args k) f = f (args ! k)"
  by (simp add: arg_def bnd_def ret_def fun_eq_iff)

lemma runs_ref_name:
  assumes "env fu ev ctx m args s" and "1 \<le> length args"
    and "\<And>x t. env fu ev ctx m args t \<Longrightarrow> runs (fu = None) Q (f x) t"
  shows "runs (fu = None) Q (bnd (ref_name ev ctx args) f) s"
proof -
  have 0: "0 < length args" using assms(2) by linarith
  consider (fail) e where "ref_name ev ctx args = fail e"
    | (var) rargs where "args ! 0 = NCall ''bk.action.bloks.GetVariable2'' rargs"
      "ref_name ev ctx args = arg_as as_string ev ctx rargs 0 ''ref.read''"
  proof (cases "args ! 0")
    case (NLit l)
    with 0 show ?thesis by (intro that(1) [of ENonRef]) (simp add: ref_name_def bnd_arg)
  next
    case (NCall f rargs)
    with 0 show ?thesis
      by (cases "f = ''bk.action.bloks.GetVariable2''")
        (intro that(2), simp_all add: ref_name_def bnd_arg, intro that(1) [of "ENonRefCall f"], simp add: ref_name_def bnd_arg)
  qed
  then show ?thesis
  proof cases
    case fail
    then show ?thesis using env_state [OF assms(1)] by (simp add: runs_def bnd_def fail_def)
  next
    case var
    have "map_of builtins ''bk.action.bloks.GetVariable2'' = Some OpGetVariable" by (simp add: builtins_def)
    then have r: "list_all (safe s m) rargs" "0 < length rargs" "list_all (admits fu) rargs"
      using env_args [OF assms(1) 0] admits_args [of fu _ rargs] by (auto simp: var(1) op_ok_def)
    let ?P = "\<lambda>(_ :: string) t. env fu ev ctx m args t"
    have "env fu ev ctx m rargs s" using assms(1) r(1,3) by (simp add: env_def)
    from runs_arg_as [OF this r(2), of as_string "\<lambda>_ _. True" ret "''ref.read''"]
    have "runs (fu = None) (\<lambda>_ _. True) (arg_as as_string ev ctx rargs 0 ''ref.read'') s"
      by (simp add: bnd_ret runs_ret env_state)
    from runs_bnd [OF this] show ?thesis unfolding var(2)
      by (auto intro: assms(3) env_grow [OF assms(1)])
  qed
qed

lemma runs_RefRead: "env fu ev ctx m args s \<Longrightarrow> 1 \<le> length args \<Longrightarrow> runs (fu = None) lit (ev_RefRead ev ctx args) s"
  unfolding ev_RefRead_def
  by (rule runs_ref_name, assumption, linarith) (auto intro!: runs_gets var_ok dest: env_state)

lemma runs_RefWrite:
  assumes "env fu ev ctx m args s" and "2 \<le> length args"
  shows "runs (fu = None) lit (ev_RefWrite ev ctx args) s"
  unfolding ev_RefWrite_def
  by (rule runs_ref_name [OF assms(1)], use assms(2) in linarith, rule runs_eval_arg, assumption, use assms(2) in linarith)
    (auto intro!: runs_bnd [OF runs_set_global] runs_ret dest: env_state)

lemma go_eq_scalar: "scalar (NLit (Some v)) \<or> scalar (NLit (Some w)) \<Longrightarrow> go_eq v w \<noteq> None"
  by (cases v; cases w) simp_all

lemma runs_Eq_result:
  assumes "state_ok s" and "lit_ok s x" and "lit_ok s y" and "scalar (NLit x) \<or> scalar (NLit y)"
  shows "runs fl lit (bnd (Value x) (\<lambda>v. bnd (Value y) (\<lambda>w. case go_eq v w of None \<Rightarrow> panic | Some b \<Rightarrow> ret (Some (BBool b))))) s"
proof -
  obtain v w where "x = Some v" "y = Some w" using assms(2,3) by (cases x; cases y) auto
  with go_eq_scalar [of v w] assms show ?thesis by (auto simp: Value_def intro!: runs_ret split: option.split)
qed

lemma scalar_cases: "scalar n \<Longrightarrow> \<exists>v. n = NLit (Some v)"
  by (induction n rule: scalar.induct) auto

lemma eval_arg_bnd: "k < length args \<Longrightarrow> bnd (eval_arg ev ctx args k) f = bnd (ev ctx (args ! k)) f"
  by (simp add: eval_arg_def arg_def bnd_def ret_def fun_eq_iff)

lemma runs_Eq:
  assumes "env fu ev ctx m args s" and "2 \<le> length args" and "scalar (args ! 0) \<or> scalar (args ! 1)"
  shows "runs (fu = None) lit (ev_Eq ev ctx args) s"
proof -
  have len: "0 < length args" "1 < length args" using assms(2) by linarith+
  then have ne: "args \<noteq> []" by auto
  show ?thesis unfolding ev_Eq_def using assms(3)
  proof
    assume "scalar (args ! 0)"
    then obtain v where v: "args ! 0 = NLit (Some v)" "scalar (NLit (Some v))" by (metis scalar_cases)
    then have "lit_ok s (Some v)" using env_args [OF assms(1) len(1)] by simp
    then show "runs (fu = None) lit (bnd (eval_arg ev ctx args 0) (\<lambda>first. bnd (eval_arg ev ctx args 1) (\<lambda>second.
       bnd (Value first) (\<lambda>v. bnd (Value second) (\<lambda>w. case go_eq v w of None \<Rightarrow> panic | Some b \<Rightarrow> ret (Some (BBool b))))))) s"
      unfolding eval_arg_bnd [OF len(1)] v(1)
      by (intro runs_literal [OF assms(1) ne] runs_eval_arg [OF _ len(2)] runs_Eq_result; assumption?)
        (use v(2) in \<open>auto dest: env_state intro: val_ok_grow\<close>)
  next
    assume "scalar (args ! 1)"
    then obtain w where w: "args ! 1 = NLit (Some w)" "scalar (NLit (Some w))" by (metis scalar_cases)
    show "runs (fu = None) lit (bnd (eval_arg ev ctx args 0) (\<lambda>first. bnd (eval_arg ev ctx args 1) (\<lambda>second.
       bnd (Value first) (\<lambda>v. bnd (Value second) (\<lambda>w. case go_eq v w of None \<Rightarrow> panic | Some b \<Rightarrow> ret (Some (BBool b))))))) s"
      unfolding eval_arg_bnd [OF len(2)] w(1)
    proof (rule runs_eval_arg [OF assms(1) len(1)])
      fix l t assume t: "env fu ev ctx m args t" "lit_ok t l"
      have "lit_ok t (Some w)" using env_args [OF t(1) len(2)] w(1) by simp
      then show "runs (fu = None) lit (bnd (ev ctx (NLit (Some w))) (\<lambda>second. bnd (Value l) (\<lambda>v. bnd (Value second)
          (\<lambda>w. case go_eq v w of None \<Rightarrow> panic | Some b \<Rightarrow> ret (Some (BBool b)))))) t"
        using w(2) t(2) by (intro runs_literal [OF t(1) ne] runs_Eq_result)
          (auto dest: env_state intro: lit_ok_grow [rotated] val_ok_grow [OF _ _ grows_refl])
    qed
  qed
qed

lemma runs_compare: "env fu ev ctx m args s \<Longrightarrow> 2 \<le> length args \<Longrightarrow> runs (fu = None) lit (ev_compare rel l r ev ctx args) s"
  unfolding ev_compare_def
  by (rule runs_arg_as, assumption, linarith, rule runs_arg_as, assumption, linarith) (auto intro!: runs_ret dest: env_state)

lemma runs_AsNonnull: "env fu ev ctx m args s \<Longrightarrow> 1 \<le> length args \<Longrightarrow> runs (fu = None) lit (ev_AsNonnull ev ctx args) s"
  unfolding ev_AsNonnull_def
  by (rule runs_eval_arg, assumption, linarith) (auto intro!: runs_Value runs_fail runs_ret dest: env_state)

lemma runs_AssertType: "env fu ev ctx m args s \<Longrightarrow> 2 \<le> length args \<Longrightarrow> runs (fu = None) lit (ev_AssertType ev ctx args) s"
  unfolding ev_AssertType_def
  by (rule runs_eval_arg, assumption, linarith, rule runs_arg_as, assumption, linarith)
    (auto intro!: runs_Value runs_fail runs_ret dest: env_state lit_ok_grow split: option.split)

lemma runs_TypeOf: "env fu ev ctx m args s \<Longrightarrow> 1 \<le> length args \<Longrightarrow> runs (fu = None) lit (ev_TypeOf ev ctx args) s"
  unfolding ev_TypeOf_def
  by (rule runs_eval_arg, assumption, linarith)
    (auto intro!: runs_Value runs_fail runs_ret dest: env_state split: option.split)

lemma runs_eval_all: "env fu ev ctx m args s \<Longrightarrow> runs (fu = None) (\<lambda>rs t. list_all (lit_ok t) rs) (eval_all ev ctx args) s"
proof (induction args arbitrary: s)
  case Nil
  then show ?case by (auto intro!: runs_ret dest: env_state)
next
  case (Cons a args)
  have "runs (fu = None) (\<lambda>rs t. list_all (lit_ok t) rs)
      (bnd (ev ctx a) (\<lambda>r. bnd (eval_all ev ctx args) (\<lambda>rs. ret (r # rs)))) s"
  proof (rule runs_ev [OF Cons.prems])
    show "safe s m a" "admits fu a" using Cons.prems by (simp_all add: env_def)
  next
    fix l t assume t: "env fu ev ctx m (a # args) t" "lit_ok t l"
    then have "env fu ev ctx m args t" using env_tl by fastforce
    then show "runs (fu = None) (\<lambda>rs t. list_all (lit_ok t) rs) (bnd (eval_all ev ctx args) (\<lambda>rs. ret (l # rs))) t"
      by (rule runs_bnd [OF Cons.IH]) (auto intro!: runs_ret lit_ok_grow [OF _ t(2)])
  qed
  then show ?case by simp
qed

lemma runs_ArrayMake: "env fu ev ctx m args s \<Longrightarrow> runs (fu = None) lit (ev_ArrayMake ev ctx args) s"
  unfolding ev_ArrayMake_def by (rule runs_bnd [OF runs_eval_all]) (auto intro!: runs_ret)

lemma runs_ArrayLength: "env fu ev ctx m args s \<Longrightarrow> 1 \<le> length args \<Longrightarrow> runs (fu = None) lit (ev_ArrayLength ev ctx args) s"
  unfolding ev_ArrayLength_def by (rule runs_arg_as, assumption, linarith) (auto intro!: runs_ret dest: env_state)

lemma update_ok:
  "\<forall>m \<in> set d. lit_ok s (snd m) \<Longrightarrow> lit_ok s v \<Longrightarrow> \<forall>m \<in> set (AList.update k v d). lit_ok s (snd m)"
  by (auto dest!: update_member)

lemma runs_map_make:
  "state_ok s \<Longrightarrow> list_all (lit_ok s) ks \<Longrightarrow> list_all (lit_ok s) vs \<Longrightarrow> \<forall>m \<in> set d. lit_ok s (snd m) \<Longrightarrow>
   runs fl (\<lambda>d t. \<forall>m \<in> set d. lit_ok t (snd m)) (map_make d ks vs) s"
proof (induction d ks vs rule: map_make.induct)
  case (1 d k ks v vs)
  show ?case
    using 1 update_ok [OF "1.prems"(4)]
    by (simp, intro runs_Value) (auto intro!: runs_fail simp del: Ball_set split: option.split)
qed (auto intro!: runs_ret)

lemma runs_MapMake: "env fu ev ctx m args s \<Longrightarrow> 2 \<le> length args \<Longrightarrow> runs (fu = None) lit (ev_MapMake ev ctx args) s"
  unfolding ev_MapMake_def
  by (rule runs_arg_as, assumption, linarith, rule runs_arg_as, assumption, linarith)
    (auto intro!: runs_fail runs_bnd [OF runs_map_make] runs_new_dict dest: env_state cast_ok lits_ok_grow)

lemma runs_CallRuntime:
  assumes "env fu ev ctx m args s" and "1 \<le> length args"
  shows "runs (fu = None) lit (ev_CallRuntime ev ctx args) s"
  unfolding ev_CallRuntime_def
proof (rule runs_arg_as [OF assms(1)])
  fix num t assume t: "env fu ev ctx m args t"
  have "runs (fu = None) lit (bnd (arg_as as_string ev ctx args 1 ''callruntime'') (\<lambda>key. bnd (eval_arg ev ctx args 2)
      (\<lambda>val. new_dict [(key, val)]))) t" if "length args = 3"
    by (rule runs_arg_as [OF t], use that in simp, rule runs_eval_arg, assumption, use that in simp)
      (auto intro!: runs_new_dict dest: env_state)
  then show "runs (fu = None) lit (if num \<noteq> 6 then fail (EBadRuntime num)
       else if length args = 1 then new_dict []
       else if length args = 3 then
         bnd (arg_as as_string ev ctx args 1 ''callruntime'') (\<lambda>key. bnd (eval_arg ev ctx args 2) (\<lambda>val.
           new_dict [(key, val)]))
       else fail (ERuntimeArgs (length args))) t"
    using env_state [OF t] by (auto intro: runs_fail runs_new_dict)
qed (use assms(2) in linarith)

lemma runs_Put: "env fu ev ctx m args s \<Longrightarrow> 3 \<le> length args \<Longrightarrow> runs (fu = None) lit (ev_Put ev ctx args) s"
  unfolding ev_Put_def
  by (rule runs_arg_as, assumption, linarith, rule runs_arg_as, assumption, linarith, rule runs_eval_arg, assumption, linarith)
    (auto simp: runs_deref heap_grow cast_ok intro!: runs_modify runs_ret put_ok dest: env_state)

lemma dict_ok: "state_ok s \<Longrightarrow> a < length (is_dicts s) \<Longrightarrow> \<forall>m \<in> set (is_dicts s ! a). lit_ok s (snd m)"
  unfolding state_ok_def using nth_mem by blast

lemma dict_member:
  assumes "state_ok s" and "a < length (is_dicts s)"
  shows "lit_ok s (case map_of (is_dicts s ! a) k of Some v \<Rightarrow> v | None \<Rightarrow> BloksNull)"
proof (cases "map_of (is_dicts s ! a) k")
  case (Some v)
  then show ?thesis using dict_ok [OF assms] map_of_SomeD [OF Some] by fastforce
qed simp

lemma runs_InByVal: "env fu ev ctx m args s \<Longrightarrow> 2 \<le> length args \<Longrightarrow> runs (fu = None) lit (ev_InByVal ev ctx args) s"
  unfolding ev_InByVal_def
  by (rule runs_arg_as, assumption, linarith, rule runs_arg_as, assumption, linarith)
    (auto simp: runs_deref heap_grow cast_ok intro!: runs_ret dest: env_state)

lemma runs_MapGet: "env fu ev ctx m args s \<Longrightarrow> 2 \<le> length args \<Longrightarrow> runs (fu = None) lit (ev_MapGet ev ctx args) s"
  unfolding ev_MapGet_def
  by (rule runs_arg_as, assumption, linarith, rule runs_arg_as, assumption, linarith)
    (auto simp: runs_deref heap_grow cast_ok intro!: runs_ret dict_member dest: env_state)

lemma merge_ok:
  "\<forall>m \<in> set d. lit_ok s (snd m) \<Longrightarrow> \<forall>m \<in> set e. lit_ok s (snd m) \<Longrightarrow>
   \<forall>m \<in> set (foldl (\<lambda>m (k, v). AList.update k v m) d e). lit_ok s (snd m)"
proof (induction e arbitrary: d)
  case (Cons x e)
  obtain k v where x: "x = (k, v)" by (cases x)
  show ?case using Cons.IH [OF update_ok [of d s v k]] Cons.prems x by simp
qed simp

lemma runs_Merge: "env fu ev ctx m args s \<Longrightarrow> 2 \<le> length args \<Longrightarrow> runs (fu = None) lit (ev_Merge ev ctx args) s"
  unfolding ev_Merge_def
  by (rule runs_arg_as, assumption, linarith, rule runs_arg_as, assumption, linarith)
    (simp add: runs_deref heap_grow cast_ok, intro runs_new_dict merge_ok dict_ok, simp_all add: env_state heap_grow cast_ok)

lemma Flatten_no_panic:
  "\<forall>d \<in> set h. \<forall>m \<in> set d. lit_ok s (snd m) \<Longrightarrow> h = is_dicts s \<Longrightarrow> val_ok s v \<Longrightarrow> Flatten h fb n v \<noteq> FlPanic"
  "\<forall>d \<in> set h. \<forall>m \<in> set d. lit_ok s (snd m) \<Longrightarrow> h = is_dicts s \<Longrightarrow> \<forall>m \<in> set d. lit_ok s (snd m) \<Longrightarrow>
     Flatten_members h fb n d \<noteq> FlPanic"
proof (induction h fb n v and h fb n d rule: Flatten_Flatten_members.induct)
  case (2 h fb n v)
  moreover have "\<forall>m \<in> set (h ! a). lit_ok s (snd m)" if "a < length h" for a using that 2 nth_mem by blast
  ultimately show ?case by (cases v) (auto split: flres.split)
next
  case (4 h fb n k l ms)
  then show ?case by (cases l) (auto split: flres.split)
qed simp_all

lemma runs_JsonEncode: "env fu ev ctx m args s \<Longrightarrow> 1 \<le> length args \<Longrightarrow> fu = None \<Longrightarrow> runs (fu = None) lit (ev_JsonEncode lib ev ctx args) s"
  unfolding ev_JsonEncode_def
proof (rule runs_eval_arg, assumption, linarith)
  fix l t assume none: "fu = None" and t: "env fu ev ctx m args t" "lit_ok t l"
  have "\<forall>d \<in> set (is_dicts t). \<forall>m \<in> set d. lit_ok t (snd m)" using env_state [OF t(1)] by (simp add: state_ok_def)
  then have "Flatten (is_dicts t) True n v \<noteq> FlPanic" if "val_ok t v" for n v
    using Flatten_no_panic(1) that by blast
  then show "runs (fu = None) lit (bnd (Value l) (\<lambda>v. bnd (gets is_dicts) (\<lambda>h. case Flatten h True (Suc (length h)) v of
         FlFuel \<Rightarrow> (\<lambda>s. IFuel) | FlPanic \<Rightarrow> panic
       | FlOk x \<Rightarrow> (case marshal_flat lib h x of None \<Rightarrow> fail EJson | Some j \<Rightarrow> ret (Some (BStr (marshal j))))))) t"
    using env_state [OF t(1)]
    by (intro runs_Value [OF t(2)]) (auto intro!: runs_fail runs_ret simp: none simp del: Flatten.simps split: flres.split option.split)
qed

lemma runs_StringLength: "env fu ev ctx m args s \<Longrightarrow> 1 \<le> length args \<Longrightarrow> runs (fu = None) lit (ev_StringLength ev ctx args) s"
  unfolding ev_StringLength_def by (rule runs_arg_as, assumption, linarith) (auto intro!: runs_ret dest: env_state)

lemma runs_MatchesRegex: "env fu ev ctx m args s \<Longrightarrow> 2 \<le> length args \<Longrightarrow> runs (fu = None) lit (ev_MatchesRegex lib ev ctx args) s"
  unfolding ev_MatchesRegex_def
  by (rule runs_arg_as, assumption, linarith, rule runs_arg_as, assumption, linarith)
    (auto intro!: runs_ret runs_fail dest: env_state split: option.split)

lemma runs_GetText: "env fu ev ctx m args s \<Longrightarrow> 1 \<le> length args \<Longrightarrow> runs (fu = None) lit (ev_GetText ev ctx args) s"
  unfolding ev_GetText_def
  by (rule runs_arg_as, assumption, linarith)
    (auto simp: runs_deref cast_ok intro!: runs_ret runs_fail dest: env_state split: option.split)

lemma runs_strings:
  "state_ok s \<Longrightarrow> list_all (lit_ok s) xs \<Longrightarrow> (\<And>strs. runs fl Q (f strs) s) \<Longrightarrow> runs fl Q (bnd (strings_of_literals xs) f) s"
proof (induction xs arbitrary: f)
  case (Cons x xs)
  then obtain v where v: "x = Some v" by (cases x) auto
  show ?case
  proof (cases "as_string v")
    case None
    then show ?thesis using v Cons.prems(1)
      by (simp add: Value_def runs_def bnd_def ret_def fail_def)
  next
    case (Some str)
    have "bnd (strings_of_literals (x # xs)) f = bnd (strings_of_literals xs) (\<lambda>strs. f (str # strs))"
      using v Some by (auto simp: Value_def bnd_def ret_def fun_eq_iff split: ires.splits)
    then show ?thesis using Cons by simp
  qed
qed (simp add: runs_def bnd_def ret_def)

lemma runs_IsAppInstalled: "env fu ev ctx m args s \<Longrightarrow> 2 \<le> length args \<Longrightarrow> runs (fu = None) lit (ev_IsAppInstalled br ev ctx args) s"
  unfolding ev_IsAppInstalled_def
  by (rule runs_arg_as, assumption, linarith, rule runs_arg_as, assumption, linarith)
    (auto intro!: runs_strings runs_ret dest: env_state cast_ok)

lemma runs_CheckPermission: "env fu ev ctx m args s \<Longrightarrow> 1 \<le> length args \<Longrightarrow> runs (fu = None) lit (ev_CheckPermission br ev ctx args) s"
  unfolding ev_CheckPermission_def
  by (rule runs_arg_as, assumption, linarith) (auto intro!: runs_strings runs_ret dest: env_state cast_ok)

lemma runs_flat_params:
  "state_ok s \<Longrightarrow> \<forall>m \<in> set d. lit_ok s (snd m) \<Longrightarrow> (\<And>p. runs fl Q (f p) s) \<Longrightarrow> runs fl Q (bnd (flat_params d) f) s"
proof (induction d arbitrary: f)
  case (Cons m d)
  then obtain k v where m: "m = (k, Some v)" by (cases m; cases "snd m") auto
  show ?case
  proof (cases "as_string v")
    case None
    then show ?thesis using m Cons.prems(1)
      by (simp add: Value_def runs_def bnd_def ret_def fail_def)
  next
    case (Some str)
    have "bnd (flat_params (m # d)) f = bnd (flat_params d) (\<lambda>p. f (p(k \<mapsto> str)))"
      using m Some by (auto simp: Value_def bnd_def ret_def fun_eq_iff split: ires.splits)
    then show ?thesis using Cons by simp
  qed
qed (simp add: runs_def bnd_def ret_def)

text \<open>The properties of a tree.\<close>

lemma runs_last_as:
  assumes "env fu ev ctx m args s" and "safe s m form" and "admits fu form"
  shows "runs (fu = None) (\<lambda>x t. \<exists>v. val_ok t v \<and> cast v = Some x) (evalAs cast ev ctx form whr) s"
proof -
  have "runs (fu = None) (\<lambda>x t. \<exists>v. val_ok t v \<and> cast v = Some x) (bnd (evalAs cast ev ctx form whr) ret) s"
    by (rule runs_evalAs [OF assms]) (auto intro!: runs_ret dest: env_state)
  then show ?thesis by (simp add: bnd_ret)
qed

lemma runs_tree_loop:
  "env fu ev ctx m args s \<Longrightarrow>
   runs (fu = None) (\<lambda>x t. \<exists>v. val_ok t v \<and> cast v = Some x) (tree_loop wanted cast ev ctx whr e args) s"
proof (induction wanted cast ev ctx whr e args arbitrary: s rule: tree_loop.induct)
  case (1 wanted cast ev ctx whr e k v rest)
  have rest: "env fu ev ctx m rest t" if "env fu ev ctx m (k # v # rest) t" for t using that by (simp add: env_def)
  have kv: "safe t m k" "admits fu k" "safe t m v" "admits fu v" if "env fu ev ctx m (k # v # rest) t" for t using that by (simp_all add: env_def)
  let ?Q = "\<lambda>x t. \<exists>v. val_ok t v \<and> cast v = Some x"
  have val: "runs (fu = None) ?Q (evalAs cast ev ctx v ''tree.make'') t" if t: "env fu ev ctx m (k # v # rest) t" for t
    by (rule runs_last_as [OF t kv(3,4) [OF t]])
  show ?case unfolding tree_loop.simps
  proof (rule runs_evalAs [OF "1.prems" kv(1,2) [OF "1.prems"]], goal_cases)
    case (1 w attr t)
    have "runs (fu = None) ?Q (bnd (attempt (evalAs cast ev ctx v ''tree.make'')) (\<lambda>r. case r of
           Inl e \<Rightarrow> tree_loop wanted cast ev ctx whr (Some e) rest | Inr data \<Rightarrow> ret data)) t" if "wanted attr"
      by (rule runs_bnd [OF runs_attempt [OF val [OF 1(1)]]])
        (use that "1.IH"(2) rest env_grow [OF 1(1)] in \<open>auto intro!: runs_ret split: sum.splits\<close>)
    then show ?case using "1.IH"(1) rest [OF 1(1)] by simp
  qed
qed (auto intro: runs_fail env_state)

lemma runs_eval_tree:
  assumes "env fu ev ctx m args s" and "safe s m form" and "admits fu form"
    and "\<And>x v t. env fu ev ctx m args t \<Longrightarrow> grows s t \<Longrightarrow> val_ok t v \<Longrightarrow> cast v = Some x \<Longrightarrow> runs (fu = None) Q (f x) t"
  shows "runs (fu = None) Q (bnd (eval_tree wanted cast ev ctx form whr) f) s"
proof (rule runs_bnd [where P = "\<lambda>x t. \<exists>v. val_ok t v \<and> cast v = Some x"])
  show "runs (fu = None) (\<lambda>x t. \<exists>v. val_ok t v \<and> cast v = Some x) (eval_tree wanted cast ev ctx form whr) s"
  proof (cases form)
    case (NLit l)
    then show ?thesis using env_state [OF assms(1)] by (simp add: eval_tree_def runs_fail)
  next
    case (NCall f fargs)
    have "map_of builtins ''bk.action.tree.Make'' = None" by (simp add: builtins_def ignored_functions_def)
    then have "env fu ev ctx m (tl fargs) s" if "f = ''bk.action.tree.Make''"
      using assms(1-3) NCall that admits_args [of fu f fargs] by (cases fargs) (simp_all add: env_def)
    then show ?thesis using NCall env_state [OF assms(1)]
      by (auto simp: eval_tree_def intro!: runs_fail runs_tree_loop)
  qed
qed (use assms env_grow in blast)

lemma apply_builtin [simp]: "map_of builtins ''bk.action.core.Apply'' = Some OpApply"
  by (simp add: builtins_def)

text \<open>What is asked of the bridge: it does not panic itself, and runs out of fuel only where that is allowed.\<close>

definition bridge_ok :: "bool \<Rightarrow> 'w InterpBridge \<Rightarrow> bool" where
  "bridge_ok fl br \<longleftrightarrow>
     (\<forall>s :: 'w istate. val_ok s (br_SIMPhones br) \<and> val_ok s (br_DeviceEmails br)) \<and>
     (\<forall>p s. state_ok s \<longrightarrow> runs fl (\<lambda>_ _. True) (br_EncryptPassword br p) s) \<and>
     (\<forall>k v s. state_ok s \<longrightarrow> lit_ok s v \<longrightarrow> runs fl (\<lambda>_ _. True) (br_HandleVariableChange br k v) s) \<and>
     (\<forall>d s. state_ok s \<longrightarrow> runs fl (\<lambda>_ _. True) (br_HandleLoginResponse br d) s) \<and>
     (\<forall>d s. state_ok s \<longrightarrow> runs fl (\<lambda>_ _. True) (br_OpenURL br d) s) \<and>
     (\<forall>ctx d b s. state_ok s \<longrightarrow> runs fl (\<lambda>_ _. True) (br_DisplayNewScreen br ctx d b) s) \<and>
     (\<forall>name i cb s. state_ok s \<longrightarrow> snd cb < length (is_lambdas s) \<longrightarrow> runs fl (\<lambda>_ _. True) (br_StartTimer br name i cb) s) \<and>
     (\<forall>ctx name ps page cb s. state_ok s \<longrightarrow> (case cb of None \<Rightarrow> True | Some c \<Rightarrow> snd c < length (is_lambdas s)) \<longrightarrow>
        runs fl (\<lambda>_ _. True) (br_DoRPC br ctx name ps page cb) s)"

definition lib_ok :: "golib \<Rightarrow> bool" where
  "lib_ok lib \<longleftrightarrow> (\<forall>d. mset (gl_range lib d) = mset d)"

lemma bridgeD:
  assumes "bridge_ok fl br" and "state_ok s"
  shows "val_ok s (br_SIMPhones br)" "val_ok s (br_DeviceEmails br)"
    "runs fl (\<lambda>_ _. True) (br_EncryptPassword br p) s"
    "lit_ok s v \<Longrightarrow> runs fl (\<lambda>_ _. True) (br_HandleVariableChange br k v) s"
    "runs fl (\<lambda>_ _. True) (br_HandleLoginResponse br d) s"
    "runs fl (\<lambda>_ _. True) (br_OpenURL br d) s"
    "runs fl (\<lambda>_ _. True) (br_DisplayNewScreen br ctx d b) s"
    "snd c < length (is_lambdas s) \<Longrightarrow> runs fl (\<lambda>_ _. True) (br_StartTimer br name i c) s"
    "runs fl (\<lambda>_ _. True) (br_DoRPC br ctx name ps page None) s"
    "snd c < length (is_lambdas s) \<Longrightarrow> runs fl (\<lambda>_ _. True) (br_DoRPC br ctx name ps page (Some c)) s"
  using assms unfolding bridge_ok_def by (cases c; auto split: option.splits)+

lemma runs_nothing: "runs fl (\<lambda>_ _. True) m s \<Longrightarrow> runs fl lit (bnd m (\<lambda>_. ret BloksNothing)) s"
  by (erule runs_bnd) (auto intro: runs_ret)

lemma runs_EncryptPassword:
  "bridge_ok (fu = None) br \<Longrightarrow> env fu ev ctx m args s \<Longrightarrow> 1 \<le> length args \<Longrightarrow> runs (fu = None) lit (ev_EncryptPassword br ev ctx args) s"
  unfolding ev_EncryptPassword_def
  by (rule runs_arg_as, assumption, linarith) (auto intro!: runs_bnd [OF bridgeD(3)] runs_ret dest: env_state)

lemma range_ok: "lib_ok lib \<Longrightarrow> \<forall>m \<in> set d. lit_ok s (snd m) \<Longrightarrow> \<forall>m \<in> set (gl_range lib d). lit_ok s (snd m)"
  unfolding lib_ok_def by (metis set_mset_mset)

lemma runs_AsyncAction:
  assumes "bridge_ok (fu = None) br" and "lib_ok lib" and "env fu ev ctx m args s" and "3 \<le> length args"
  shows "runs (fu = None) lit (ev_AsyncAction lib br ev ctx args) s"
proof -
  have len: "0 < length args" "1 < length args" "2 < length args" using assms(4) by linarith+
  show ?thesis unfolding ev_AsyncAction_def
  proof (rule runs_arg_as [OF assms(3) len(1)], rule runs_arg_as [OF _ len(2)], assumption, goal_cases)
    case (1 v name t w a u)
    then have "a < length (is_dicts u)" by (simp add: cast_ok)
    have "runs (fu = None) lit (bnd (evalTreeCallback ev ctx (args ! 2) ''asyncaction'') (\<lambda>cb.
        bnd (br_DoRPC br ctx name p False (Some (ctx, cb))) (\<lambda>_. ret BloksNothing))) u" for p
      unfolding evalTreeCallback_def
    proof (rule runs_eval_tree [OF 1(5) env_args [OF 1(5) len(3)]], goal_cases)
      case (1 cb y z)
      then have "cb < length (is_lambdas z)" by (simp add: cast_ok)
      then show ?case
        by (intro runs_nothing bridgeD(10) [OF assms(1) env_state [OF 1(1)]]) simp
    qed
    then show ?case
      using \<open>a < length (is_dicts u)\<close> dict_ok [of u a] env_state [OF 1(5)] len
      by (auto simp: runs_deref bnd_arg intro!: runs_flat_params range_ok [OF assms(2)])
  qed
qed

lemma runs_PushScreen:
  assumes "bridge_ok (fu = None) br" and "lib_ok lib" and "env fu ev ctx m args s" and "3 \<le> length args"
  shows "runs (fu = None) lit (ev_PushScreen lib br ev ctx args) s"
proof -
  have len: "0 < length args" "2 < length args" using assms(4) by linarith+
  show ?thesis unfolding ev_PushScreen_def bnd_arg [OF len(1)] evalTreeProp35_def
  proof (rule runs_eval_tree [OF assms(3) env_args [OF assms(3) len(1)]], rule runs_arg_as [OF _ len(2)], assumption, goal_cases)
    case (1 name v t w a u)
    then show ?case
      using dict_ok [of u a] env_state [OF 1(5)]
      by (auto simp: runs_deref cast_ok intro!: runs_flat_params range_ok [OF assms(2)] runs_nothing bridgeD(9) [OF assms(1)])
  qed
qed

lemma runs_OpenSyncScreen:
  assumes "bridge_ok (fu = None) br" and "env fu ev ctx m args s" and "2 \<le> length args"
  shows "runs (fu = None) lit (ev_OpenSyncScreen br ev ctx args) s"
proof -
  have len: "0 < length args" "1 < length args" using assms(3) by linarith+
  show ?thesis unfolding ev_OpenSyncScreen_def bnd_arg [OF len(1)] evalTreeProp35_def
    by (rule runs_eval_tree [OF assms(2) env_args [OF assms(2) len(1)]], rule runs_arg_as [OF _ len(2)], assumption)
      (auto intro!: runs_nothing bridgeD [OF assms(1)] dest: env_state)
qed

lemma runs_LoginResponse:
  assumes "bridge_ok (fu = None) br" and "env fu ev ctx m args s" and "1 \<le> length args"
  shows "runs (fu = None) lit (ev_LoginResponse br ev ctx args) s"
proof -
  have len: "0 < length args" using assms(3) by linarith
  show ?thesis unfolding ev_LoginResponse_def bnd_arg [OF len] evalTreeProp35_def
    by (rule runs_eval_tree [OF assms(2) env_args [OF assms(2) len]])
      (auto intro!: runs_nothing bridgeD [OF assms(1)] dest: env_state)
qed

lemma runs_OpenDialog:
  assumes "env fu ev ctx m args s" and "1 \<le> length args"
  shows "runs (fu = None) lit (ev_OpenDialog ev ctx args) s"
proof -
  have len: "0 < length args" using assms(2) by linarith
  show ?thesis unfolding ev_OpenDialog_def bnd_arg [OF len] evalTreeProp35_def
    by (rule runs_eval_tree [OF assms(1) env_args [OF assms(1) len]]) (auto intro!: runs_fail dest: env_state)
qed

lemma runs_TimerStart:
  assumes "bridge_ok (fu = None) br" and "env fu ev ctx m args s" and "5 \<le> length args"
  shows "runs (fu = None) lit (ev_TimerStart br ev ctx args) s"
proof -
  have len: "1 < length args" "3 < length args" "4 < length args" using assms(3) by linarith+
  show ?thesis unfolding ev_TimerStart_def
  proof (rule runs_arg_as [OF assms(2) len(1)], rule runs_arg_as [OF _ len(2)], assumption, rule runs_arg_as [OF _ len(3)],
      assumption, goal_cases)
    case (1 v i t w cb u x name y)
    then have "cb < length (is_lambdas y)" by (simp add: cast_ok heap_grow)
    then show ?case
      by (intro runs_nothing bridgeD(8) [OF assms(1) env_state [OF 1(9)]]) simp
  qed
qed

lemma runs_OpenUrl:
  "bridge_ok (fu = None) br \<Longrightarrow> env fu ev ctx m args s \<Longrightarrow> 1 \<le> length args \<Longrightarrow> runs (fu = None) lit (ev_OpenUrl br ev ctx args) s"
  unfolding ev_OpenUrl_def
  by (rule runs_arg_as, assumption, linarith) (auto intro!: runs_nothing bridgeD dest: env_state)

lemma runs_Checkpoints: "env fu ev ctx m args s \<Longrightarrow> 1 \<le> length args \<Longrightarrow> runs (fu = None) lit (ev_Checkpoints ev ctx args) s"
  unfolding ev_Checkpoints_def
  by (rule runs_arg_as, assumption, linarith) (auto intro!: runs_fail dest: env_state split: option.split)

section \<open>The whole switch\<close>

lemma runs_form: "env fu ev ctx m args s \<Longrightarrow> safe s m form \<Longrightarrow> admits fu form \<Longrightarrow> runs (fu = None) lit (ev ctx form) s"
  unfolding env_def ev_ok_def by blast

lemma runs_h9a:
  assumes "env fu ev ctx m args s" and "3 \<le> length args" and "fu = None"
  shows "runs (fu = None) lit (ev_h9a ev ctx args) s"
proof -
  have len: "0 < length args" "2 < length args" using assms(2) by linarith+
  have "map_of builtins ''bk.action.string.EncryptPassword'' = Some OpEncryptPassword" by (simp add: builtins_def)
  then have "safe s m (NCall ''bk.action.core.Apply'' [args ! 2, NCall ''bk.action.string.EncryptPassword'' [args ! 0]])"
    using env_args [OF assms(1)] len by (simp add: op_ok_def maxInterpArgs_def)
  then show ?thesis unfolding ev_h9a_def bnd_arg [OF len(1)] bnd_arg [OF len(2)]
    by (rule runs_form [OF assms(1)]) (simp add: assms(3))
qed

text \<open>The form \<^verbatim>\<open>GetByValOr\<close> stands for needs two units more than the longest of its arguments.\<close>

definition by_val_or :: "bnode list \<Rightarrow> bnode" where
  "by_val_or args = NCall ''bk.action.bool.Or'' [NCall ''bk.action.map.Get'' [args ! 0, args ! 1], args ! 2]"

lemma or_get_builtin:
  "map_of builtins ''bk.action.bool.Or'' = Some OpOr" "map_of builtins ''bk.action.map.Get'' = Some OpMapGet"
  by (simp_all add: builtins_def)

lemma runs_GetByValOr:
  assumes "env fu ev ctx m args s" and "3 \<le> length args" and "admits fu (by_val_or args)"
  shows "runs (fu = None) lit (ev_GetByValOr ev ctx args) s"
proof -
  have len: "0 < length args" "1 < length args" "2 < length args" using assms(2) by linarith+
  have "safe s m (by_val_or args)"
    using env_args [OF assms(1)] len by (simp add: op_ok_def by_val_or_def or_get_builtin)
  then show ?thesis unfolding ev_GetByValOr_def bnd_arg [OF len(1)] bnd_arg [OF len(2)] bnd_arg [OF len(3)]
    using runs_form [OF assms(1)] assms(3) by (simp add: by_val_or_def)
qed

lemma runs_builtin:
  assumes "bridge_ok (fu = None) br" and "lib_ok lib" and "ev_ok fu ev" and "state_ok s" and "ctx_ok s m ctx"
    and "op_ok m b args" and "list_all (safe s (if b = OpFuncConst then 0 else m)) args"
    and "b \<noteq> OpFuncConst \<Longrightarrow> list_all (admits fu) args"
    and "b \<in> {OpApply, OpH9a, OpJsonEncode} \<Longrightarrow> fu = None"
    and "b = OpGetByValOr \<Longrightarrow> admits fu (by_val_or args)"
  shows "runs (fu = None) lit (ev_builtin lib br b ev ctx args) s"
proof (cases "b = OpFuncConst")
  case True
  then show ?thesis using assms by (simp add: ev_builtin_def op_ok_def runs_FuncConst)
next
  case False
  have e: "env fu ev ctx m args s" using assms False by (simp add: env_def)
  have len: "arity b \<le> length args" using assms(6) by (simp add: op_ok_def)
  have ret: "runs (fu = None) lit (ret l) s" if "lit_ok s l" for l using that assms(4) by (simp add: runs_ret)
  note br = bridgeD [OF assms(1,4)] bridgeD(4) [OF assms(1)]
  note rules = runs_If runs_Or runs_And runs_GetVariable runs_TakeLast runs_Apply runs_GetArg runs_SetArg runs_Eq
    runs_compare runs_eval_last runs_GetScript runs_WriteLocal runs_WriteGlobal [OF _ _ br(11)] runs_ArrayMake runs_MapMake
    runs_EncryptPassword [OF assms(1)] runs_GetText runs_Not runs_CallRuntime runs_Put runs_ArrayLength runs_InByVal
    runs_IsAppInstalled runs_CheckPermission runs_RefRead runs_RefWrite runs_AsyncAction [OF assms(1,2)] runs_JsonEncode
    runs_Merge runs_MatchesRegex runs_h9a runs_LoginResponse [OF assms(1)] runs_MapGet runs_AsNonnull runs_AssertType
    runs_TypeOf runs_GetByValOr runs_OpenSyncScreen [OF assms(1)] runs_GetPayload runs_PushScreen [OF assms(1,2)]
    runs_StringLength runs_TimerStart [OF assms(1)] runs_Checkpoints runs_OpenDialog runs_OpenUrl [OF assms(1)]
  have "runs (fu = None) lit (ev_builtin lib br b ev ctx args) s" if "b \<in> {OpApply, OpH9a, OpJsonEncode}"
    using that assms(9) [OF that] len assms(6) rules [OF e]
    by (auto simp: ev_builtin_def op_ok_def Suc_le_eq simp del: admits_simps)
  then show ?thesis
    using False assms(6,10) len br(1,2)
    by (cases b) (simp_all add: ev_builtin_def op_ok_def ev_SecureNonces_def ret list_all_iff rules [OF e] Suc_le_eq)
qed

lemma eval_form_ok:
  assumes "bridge_ok (fu = None) br" and "lib_ok lib" and "ev_ok fu ev"
    and "state_ok s" and "ctx_ok s m ctx" and "safe s m form"
    and "admits (map_option Suc fu) form"
  shows "runs (fu = None) lit (eval_form lib br ev ctx form) s"
proof (cases form)
  case (NLit l)
  with assms show ?thesis by (simp add: eval_form_def runs_ret)
next
  case (NCall f args)
  have cost: "cost a + (if map_of builtins f = Some OpGetByValOr then 2 else 0) \<le> n"
    if "fu = Some n" "a \<in> set args" for n a
    using assms(7) cost_arg [OF that(2), of f]
    by (simp add: admits_def NCall that(1) del: cost.simps split: if_splits)
  show ?thesis
  proof (cases "map_of builtins f")
    case None
    with NCall assms show ?thesis by (simp add: eval_form_def runs_fail)
  next
    case (Some b)
    have args: "list_all (admits fu) args" if "b \<noteq> OpFuncConst"
      using that admits_args [of "map_option Suc fu" f args] assms(7) cost NCall Some
      by (cases fu) (fastforce simp: admits_def list_all_iff)+
    have "admits fu (by_val_or args)" if b: "b = OpGetByValOr"
    proof (cases fu)
      case fu: (Some n)
      have "3 \<le> length args" using assms(6) NCall Some b by (simp add: op_ok_def)
      then have len: "0 < length args" "1 < length args" "2 < length args" by linarith+
      have "direct (args ! i) \<and> cost (args ! i) + 2 \<le> n" if "i < length args" for i
        using that args b cost [OF fu nth_mem [OF that]] by (simp add: list_all_length admits_def fu Some)
      from this [OF len(1)] this [OF len(2)] this [OF len(3)] show ?thesis
        by (simp add: admits_def fu by_val_or_def or_get_builtin) linarith
    qed simp
    moreover have "fu = None" if "b \<in> {OpApply, OpH9a, OpJsonEncode}"
      using that assms(7) NCall Some by (cases fu) (auto simp: admits_def)
    moreover have "op_ok m b args" "list_all (safe s (if b = OpFuncConst then 0 else m)) args"
      using assms(6) NCall Some by simp_all
    ultimately have "runs (fu = None) lit (ev_builtin lib br b ev ctx args) s"
      using args by (intro runs_builtin [OF assms(1-5)])
    with NCall Some show ?thesis by (simp add: eval_form_def)
  qed
qed

lemma Evaluate_literal: "Evaluate n lib br ctx (NLit l) s = IVal v t \<Longrightarrow> v = l"
  by (cases n) (simp_all add: eval_form_def ret_def)

lemma Evaluate_ok:
  assumes "bridge_ok True br" and "lib_ok lib"
  shows "ev_ok None (Evaluate n lib br)"
proof (induction n)
  case (Suc n)
  have "bridge_ok (None = (None :: nat option)) br" using assms(1) by simp
  then show ?case unfolding ev_ok_def
    using eval_form_ok [OF _ assms(2) Suc.IH] Evaluate_literal by fastforce
qed (simp add: ev_ok_def)

lemma Evaluate_ends:
  assumes "bridge_ok False br" and "lib_ok lib"
  shows "ev_ok (Some n) (Evaluate n lib br)"
proof (induction n)
  case 0
  have "\<not> admits (Some 0) form" for form using cost_pos [of form] by (simp add: admits_def)
  then show ?case by (simp add: ev_ok_def)
next
  case (Suc n)
  have "bridge_ok (Some n = None) br" using assms(1) by simp
  then show ?case unfolding ev_ok_def
    using eval_form_ok [OF _ assms(2) Suc.IH] Evaluate_literal by fastforce
qed

section \<open>Properties\<close>

text \<open>A bridge that answers every request and keeps the callbacks it is given, a library and an empty state.\<close>

definition quiet_bridge :: "unit InterpBridge" where
  "quiet_bridge =
     \<lparr>br_DeviceID = ''D'', br_FamilyDeviceID = ''F'', br_MachineID = [], br_EncryptPassword = (\<lambda>p. ret (''#'' @ p)),
      br_SIMPhones = BNil, br_DeviceEmails = BNil, br_IsAppInstalled = (\<lambda>_ _. False),
      br_HasAppPermissions = (\<lambda>_. False), br_GetSecureNonces = [], br_DoRPC = (\<lambda>_ _ _ _ _. ret ()),
      br_DisplayNewScreen = (\<lambda>_ _ _. ret ()), br_HandleLoginResponse = (\<lambda>_. ret ()),
      br_StartTimer = (\<lambda>_ _ _. ret ()), br_OpenURL = (\<lambda>_. ret ()), br_HandleVariableChange = (\<lambda>_ _. ret ())\<rparr>"

definition plain_lib :: golib where
  "plain_lib = \<lparr>gl_regexp = (\<lambda>_. None), gl_float_text = (\<lambda>_. ''0''), gl_pointer_json = (\<lambda>_. None), gl_range = (\<lambda>d. d)\<rparr>"

definition empty_istate :: "unit istate" where
  "empty_istate =
     \<lparr>is_Scripts = Map.empty, is_Payloads = Map.empty, is_LocalVars = Map.empty, is_GlobalVars = Map.empty,
      is_dicts = [], is_lambdas = [], is_elems = [], is_args = [], is_texts = Map.empty, is_world = ()\<rparr>"

text \<open>A closure kept by the bridge can be called later: its lambda is still there and its body still safe.\<close>

lemma run_callback_ok:
  assumes "bridge_ok True br" and "lib_ok lib" and "state_ok s" and "snd c < length (is_lambdas s)"
    and "list_all (lit_ok s) results" and "length results \<le> maxInterpArgs"
  shows "runs True (\<lambda>_ _. True) (run_callback n lib br c results) s"
proof -
  have "ctx_ok s 0 (fst c)" by (simp add: ctx_ok_def)
  moreover have "safe s 0 (NCall ''bk.action.core.Apply'' (NLit (Some (BLambda (snd c))) # map NLit results))"
    using assms(4-6) by (simp add: op_ok_def list_all_iff)
  ultimately have "runs True lit (Evaluate n lib br (fst c)
      (NCall ''bk.action.core.Apply'' (NLit (Some (BLambda (snd c))) # map NLit results))) s"
    using Evaluate_ok [OF assms(1,2), of n] assms(3) unfolding ev_ok_def by fastforce
  then show ?thesis unfolding run_callback_def by (rule runs_bnd) (simp add: runs_ret)
qed

lemma quiet_bridge_ok: "bridge_ok fl quiet_bridge"
  by (auto simp: bridge_ok_def quiet_bridge_def intro: runs_ret)

lemma plain_lib_ok: "lib_ok plain_lib"
  by (simp add: lib_ok_def plain_lib_def)

lemma empty_istate_ok: "state_ok empty_istate" "ctx_ok empty_istate 0 ctx"
  by (simp_all add: state_ok_def empty_istate_def ctx_ok_def)

text \<open>A function that puts a value into a dictionary, applied: it needs the heap, a lambda and a variable.\<close>

definition sample_script :: bnode where
  "sample_script =
     NCall ''bk.action.core.TakeLast''
       [NCall ''bk.action.bloks.WriteLocalState'' [NLit (Some (BStr ''d'')), NCall ''bk.action.mins.CallRuntime'' [NLit (Some (BInt 6))]],
        NCall ''bk.action.core.Apply''
          [NCall ''bk.action.core.FuncConst''
            [NCall ''bk.action.array.Put''
              [NCall ''bk.action.bloks.GetVariable2'' [NLit (Some (BStr ''d''))], NLit (Some (BStr ''k'')),
               NLit (Some (BBool True))]]],
        NCall ''bk.action.mins.InByVal''
          [NCall ''bk.action.bloks.GetVariable2'' [NLit (Some (BStr ''d''))], NLit (Some (BStr ''k''))]]"


lemma sample_script_safe: "safe empty_istate 0 sample_script"
  by code_simp

lemma sample_script_runs:
  "case Evaluate 5 plain_lib quiet_bridge None sample_script empty_istate of
     IVal v t \<Rightarrow> v = Some (BBool True) \<and> is_dicts t = [[(''k'', Some (BBool True))]] | _ \<Rightarrow> False"
  by code_simp



definition direct_script :: bnode where
  "direct_script =
     NCall ''bk.action.mins.GetByValOr''
       [NCall ''bk.action.mins.CallRuntime'' [NLit (Some (BInt 6))], NLit (Some (BStr ''k'')),
        NCall ''bk.action.string.Length'' [NLit (Some (BStr ''abc''))]]"


text \<open>
  Zero is true in a script. \<^verbatim>\<open>IsTruthy\<close> tests for the Go type \<^verbatim>\<open>int\<close>, but the parser and the arithmetic of the
  interpreter only make \<^verbatim>\<open>int64\<close>: with the number 0 as its condition, \<^verbatim>\<open>If\<close> takes the first branch.
\<close>

theorem zero_is_truthy:
  "Evaluate (Suc (Suc n)) lib br ctx (NCall ''bk.action.core.If'' [NLit (Some (BInt 0)), a, b]) s =
   Evaluate (Suc n) lib br ctx a s"
proof -
  have "map_of builtins ''bk.action.core.If'' = Some OpIf" by (simp add: builtins_def)
  moreover have "Evaluate (Suc n) lib br ctx (NLit (Some (BInt 0))) s = IVal (Some (BInt 0)) s"
    by (simp add: eval_form_def ret_def)
  ultimately show ?thesis
    unfolding Evaluate.simps(2) [of "Suc n"]
    by (simp add: eval_form_def ev_builtin_def ev_If_def eval_arg_def arg_def bnd_def ret_def Value_def del: Evaluate.simps(2))
qed

end
