(* ===== verification/Bloks_Tree.thy ===== *)
theory Bloks_Tree
  imports Bloks_Interp "HOL-Library.Sublist"
begin

text \<open>
  The component trees of Bloks pages (\<^verbatim>\<open>bloks/tree.go\<close>, the first part of \<^verbatim>\<open>bloks/selenium.go\<close>): reading them from JSON,
  expanding minified names, and the searches and actions by which the login drives a page. A component
  carries a number, its identity as a pointer; its parent is the component around it in the page. The
  attributes are a list: the order in which \<^verbatim>\<open>range\<close> visits the map.
\<close>

section \<open>Model\<close>

subsection \<open>Trees\<close>

datatype tnode = TComponent tcomp | TComponents "tcomp list" | TLiteral jsval | TScript bnode
  | TScriptSet "(string \<times> bnode) list"
and tcomp = TComp (tc_addr: nat) (tc_ComponentID: string) (tc_Attributes: "(string \<times> tnode) list")

datatype tree_error = NotOneComponent | BadJson | BadScript parse_error | NotAComponent
  | InAttribute string tree_error | InComponent string tree_error | AtItem nat tree_error

text \<open>The error of a result that has one; the parser neither panics nor runs out of fuel (\<open>parse_fuel\<close>).\<close>

definition parse_script :: "string \<Rightarrow> tree_error + bnode" where
  "parse_script str =
     (case Script_Parse str of POk ast _ \<Rightarrow> Inr ast | PErr e \<Rightarrow> Inl (BadScript e) | _ \<Rightarrow> Inl BadJson)"

subsection \<open>Reading a tree\<close>

text \<open>A decoded object is a map: the last of several members with one name counts.\<close>

fun last_members :: "(string \<times> 'a) list \<Rightarrow> (string \<times> 'a) list" where
  "last_members [] = []"
| "last_members ((k, v) # ms) = (if k \<in> fst ` set ms then last_members ms else (k, v) # last_members ms)"

text \<open>A value stored in an \<^verbatim>\<open>any\<close>.\<close>

fun any_value :: "json \<Rightarrow> jsval option" where
  "any_value JNull = Some JsNil"
| "any_value (JBool b) = Some (JsBool b)"
| "any_value (JNum n) = map_option JsFloat (ParseFloat n)"
| "any_value (JStr s) = Some (JsStr s)"
| "any_value (JArr js) = map_option JsArr (sequence (map any_value js))"
| "any_value (JObj ms) =
     map_option (\<lambda>vs. JsMap (last_members (zip (map fst ms) vs))) (sequence (map (\<lambda>m. any_value (snd m)) ms))"

definition is_map :: "json \<Rightarrow> bool" where
  "is_map j = (case j of JObj _ \<Rightarrow> True | JNull \<Rightarrow> True | _ \<Rightarrow> False)"

definition script_text :: "string \<Rightarrow> bool" where
  "script_text str \<longleftrightarrow> has_prefix str [CHR 0x09] \<or> has_prefix str ''(''"

text \<open>
  An array of names and scripts in turn, every script starting with a tab: \<open>None\<close> if it is not one, as soon as
  an entry does not fit; a script that does not parse before that is an error.
\<close>

fun script_set :: "(string \<times> bnode) list \<Rightarrow> jsval list \<Rightarrow> (tree_error + (string \<times> bnode) list) option" where
  "script_set acc [] = Some (Inr acc)"
| "script_set acc (JsStr key # JsStr str # rest) =
     (if \<not> has_prefix str [CHR 0x09] then None
      else
        (case parse_script str of
           Inl e \<Rightarrow> Some (Inl e)
         | Inr ast \<Rightarrow> script_set (AList.update key ast acc) rest))"
| "script_set acc _ = None"

text \<open>The rest of \<^verbatim>\<open>BloksTreeNode.UnmarshalJSON\<close>: what is neither a component nor a list of components.\<close>

definition unmarshal_literal :: "json \<Rightarrow> tree_error + tnode" where
  "unmarshal_literal j =
     (case any_value j of
        None \<Rightarrow> Inl BadJson
      | Some (JsStr str) \<Rightarrow>
          if script_text str
          then (case parse_script str of Inl e \<Rightarrow> Inl e | Inr ast \<Rightarrow> Inr (TScript ast))
          else Inr (TLiteral (JsStr str))
      | Some (JsArr arr) \<Rightarrow>
          if arr \<noteq> [] \<and> even (length arr)
          then (case script_set [] arr of
                  None \<Rightarrow> Inr (TLiteral (JsArr arr))
                | Some (Inl e) \<Rightarrow> Inl e
                | Some (Inr scripts) \<Rightarrow> Inr (TScriptSet scripts))
          else Inr (TLiteral (JsArr arr))
      | Some v \<Rightarrow> Inr (TLiteral v))"

lemma last_members_size: "size_list f (last_members ms) \<le> size_list f ms"
  by (induction ms) (auto intro: le_SucI trans_le_add2)

lemma last_members_single_size:
  assumes "last_members ms = [(k, v)]"
  shows "size v < Suc (size_list (size_prod (\<lambda>_. 0) size) ms)"
  using last_members_size [of "size_prod (\<lambda>_. 0) size" ms] assms by simp

lemma last_members_attrs_size:
  assumes "last_members ms = [(k, JObj attrs)]"
  shows "size_list (size_prod (\<lambda>_. 0) size) (last_members attrs) < Suc (size_list (size_prod (\<lambda>_. 0) size) ms)"
  using last_members_single_size [OF assms] last_members_size [of "size_prod (\<lambda>_. 0) size" attrs] by simp

text \<open>
  Components are numbered as they are allocated; \<open>n\<close> is the next number. A list of components goes through
  \<open>unmarshal_node\<close> for each item, which must come out as a component.
\<close>

function (sequential) unmarshal_node :: "json \<Rightarrow> nat \<Rightarrow> tree_error + tnode \<times> nat"
  and unmarshal_attributes :: "(string \<times> json) list \<Rightarrow> nat \<Rightarrow> tree_error + (string \<times> tnode) list \<times> nat"
  and unmarshal_items :: "nat \<Rightarrow> json list \<Rightarrow> nat \<Rightarrow> tree_error + tcomp list \<times> nat"
where
  "unmarshal_node JNull n = Inl NotOneComponent"
| "unmarshal_node (JObj ms) n =
     (case last_members ms of
        [(cid, sub)] \<Rightarrow>
          (case sub of
             JNull \<Rightarrow> Inr (TComponent (TComp n cid []), Suc n)
           | JObj attrs \<Rightarrow>
               (case unmarshal_attributes (last_members attrs) (Suc n) of
                  Inl e \<Rightarrow> Inl (InComponent cid e)
                | Inr (as, n') \<Rightarrow> Inr (TComponent (TComp n cid as), n'))
           | _ \<Rightarrow> Inl (InComponent cid BadJson))
      | _ \<Rightarrow> Inl NotOneComponent)"
| "unmarshal_node (JArr js) n =
     (if list_all is_map js
      then (case unmarshal_items 0 js n of Inl e \<Rightarrow> Inl e | Inr (cs, n') \<Rightarrow> Inr (TComponents cs, n'))
      else map_sum id (\<lambda>t. (t, n)) (unmarshal_literal (JArr js)))"
| "unmarshal_node j n = map_sum id (\<lambda>t. (t, n)) (unmarshal_literal j)"
| "unmarshal_attributes [] n = Inr ([], n)"
| "unmarshal_attributes ((a, j) # ms) n =
     (case unmarshal_node j n of
        Inl e \<Rightarrow> Inl (InAttribute a e)
      | Inr (t, n') \<Rightarrow>
          (case unmarshal_attributes ms n' of Inl e \<Rightarrow> Inl e | Inr (as, n'') \<Rightarrow> Inr ((a, t) # as, n'')))"
| "unmarshal_items i [] n = Inr ([], n)"
| "unmarshal_items i (j # js) n =
     (case unmarshal_node j n of
        Inl e \<Rightarrow> Inl (AtItem i e)
      | Inr (TComponent c, n') \<Rightarrow>
          (case unmarshal_items (Suc i) js n' of Inl e \<Rightarrow> Inl e | Inr (cs, n'') \<Rightarrow> Inr (c # cs, n''))
      | Inr _ \<Rightarrow> Inl (AtItem i NotAComponent))"
  by pat_completeness auto

termination
  by (relation "measure (\<lambda>x. case x of
        Inl (j, n) \<Rightarrow> size j
      | Inr (Inl (ms, n)) \<Rightarrow> size_list (size_prod (\<lambda>_. 0) size) ms
      | Inr (Inr (i, js, n)) \<Rightarrow> size_list size js)")
    (auto simp: last_members_attrs_size)

subsection \<open>Expanding minified names\<close>

text \<open>An attribute name that is one character from a space to U+00FF stands for a number.\<close>

definition ToInt :: "string \<Rightarrow> nat option" where
  "ToInt i =
     (case decode_rune i of (r, n) \<Rightarrow>
        if i = [] \<or> n \<noteq> length i then None
        else if r < 0x20 \<or> 0xFF < r then None
        else Some (r - 0x20))"

definition ToTag :: "string \<Rightarrow> string" where
  "ToTag i = (case ToInt i of Some idx \<Rightarrow> ''index='' @ format_uint idx | None \<Rightarrow> ''name='' @ i)"

text \<open>
  The renaming loop: \<^verbatim>\<open>attrs[real] = value\<close>, then \<^verbatim>\<open>delete(attrs, id)\<close>, for the entries the map had at first. An
  entry made on the way is not visited again.
\<close>

definition rename_id :: "(string \<rightharpoonup> string) \<Rightarrow> string \<Rightarrow> 'a \<Rightarrow> (string \<times> 'a) list \<Rightarrow> (string \<times> 'a) list" where
  "rename_id props i v attrs =
     (case ToInt i of
        None \<Rightarrow> attrs
      | Some idx \<Rightarrow>
          (case props (format_uint idx) of
             Some name \<Rightarrow> if name = [] then attrs else AList.delete i (AList.update name v attrs)
           | None \<Rightarrow> attrs))"

definition rename_ids :: "(string \<rightharpoonup> string) \<Rightarrow> (string \<times> 'a) list \<Rightarrow> (string \<times> 'a) list" where
  "rename_ids props attrs = foldl (\<lambda>acc (i, v). rename_id props i v acc) attrs attrs"

definition properties_of :: "Unminifier \<Rightarrow> string \<Rightarrow> string \<rightharpoonup> string" where
  "properties_of m cid = (case um_Properties m cid of Some props \<Rightarrow> props | None \<Rightarrow> Map.empty)"

text \<open>
  A script set reads the component it belongs to as soon as one of its names is a number; at the root of a tree
  there is none, and it panics (\<open>None\<close>).
\<close>

definition set_Unminify :: "Unminifier \<Rightarrow> string option \<Rightarrow> (string \<times> bnode) list \<Rightarrow> (string \<times> bnode) list option" where
  "set_Unminify m parent scripts =
     (if parent = None \<and> list_ex (\<lambda>s. ToInt (fst s) \<noteq> None) scripts then None
      else Some (map (map_prod id (Node_Unminify m))
        (rename_ids (case parent of Some cid \<Rightarrow> properties_of m cid | None \<Rightarrow> Map.empty) scripts)))"

text \<open>
  The parent of a component is set on the way down; here it is the component that holds it. The attributes are
  renamed after their values are expanded: renaming moves values and does not look at them.
\<close>

fun unminify_node :: "Unminifier \<Rightarrow> string option \<Rightarrow> tnode \<Rightarrow> tnode option"
  and unminify_comp :: "Unminifier \<Rightarrow> tcomp \<Rightarrow> tcomp option"
  and unminify_comps :: "Unminifier \<Rightarrow> tcomp list \<Rightarrow> tcomp list option"
  and unminify_attributes :: "Unminifier \<Rightarrow> string \<Rightarrow> (string \<times> tnode) list \<Rightarrow> (string \<times> tnode) list option"
where
  "unminify_node m parent (TComponent c) = map_option TComponent (unminify_comp m c)"
| "unminify_node m parent (TComponents cs) = map_option TComponents (unminify_comps m cs)"
| "unminify_node m parent (TLiteral v) = Some (TLiteral v)"
| "unminify_node m parent (TScript ast) = Some (TScript (Node_Unminify m ast))"
| "unminify_node m parent (TScriptSet scripts) = map_option TScriptSet (set_Unminify m parent scripts)"
| "unminify_comp m (TComp a cid attrs) =
     (case unminify_attributes m (real_name (um_Components m) cid) attrs of
        None \<Rightarrow> None
      | Some as \<Rightarrow> Some (TComp a (real_name (um_Components m) cid)
          (rename_ids (properties_of m (real_name (um_Components m) cid)) as)))"
| "unminify_comps m [] = Some []"
| "unminify_comps m (c # cs) =
     (case (unminify_comp m c, unminify_comps m cs) of (Some d, Some ds) \<Rightarrow> Some (d # ds) | _ \<Rightarrow> None)"
| "unminify_attributes m cid [] = Some []"
| "unminify_attributes m cid ((i, t) # as) =
     (case (unminify_node m (Some cid) t, unminify_attributes m cid as) of
        (Some u, Some bs) \<Rightarrow> Some ((i, u) # bs) | _ \<Rightarrow> None)"

subsection \<open>Bundles\<close>

text \<open>A variable with the name it has before minification.\<close>

record BloksDatum = BloksVariable + bv_Name :: string

datatype BloksBundle = Bundle
  (bb_Scripts: "(string \<times> bnode) list") (bb_Variables: "BloksDatum list")
  (bb_Embedded: "(string \<times> BloksBundle) list") (bb_Templates: "(string \<times> tnode) list")
  (bb_Tree: "tnode option") (bb_Action: "bnode option")

definition datum_Unminify :: "Unminifier \<Rightarrow> BloksDatum \<Rightarrow> BloksDatum" where
  "datum_Unminify m d =
     d\<lparr>bv_ID := real_name (um_Variables m) (bv_ID d),
       bv_InitialScript := map_option (Node_Unminify m) (bv_InitialScript d)\<rparr>"

fun sequence_snd :: "(string \<times> 'a option) list \<Rightarrow> (string \<times> 'a) list option" where
  "sequence_snd [] = Some []"
| "sequence_snd ((k, x) # xs) = (case (x, sequence_snd xs) of (Some y, Some ys) \<Rightarrow> Some ((k, y) # ys) | _ \<Rightarrow> None)"

text \<open>
  \<^verbatim>\<open>BloksBundle.Unminify\<close>. An embedded payload is given the variables of the bundle around it, the same pointers,
  so that they are expanded once more for each payload: \<open>vs\<close> are the variables as they are on the way.
\<close>

fun bundle_Unminify :: "Unminifier \<Rightarrow> BloksDatum list \<Rightarrow> BloksBundle \<Rightarrow> (BloksDatum list \<times> BloksBundle) option"
  and embedded_Unminify ::
    "Unminifier \<Rightarrow> BloksDatum list \<Rightarrow> (string \<times> BloksBundle) list \<Rightarrow> (BloksDatum list \<times> (string \<times> BloksBundle) list) option"
where
  "bundle_Unminify m vs (Bundle scripts _ embedded templates tree action) =
     (case embedded_Unminify m (map (datum_Unminify m) vs) embedded of
        None \<Rightarrow> None
      | Some (vs', es) \<Rightarrow>
          (case (sequence_snd (map (map_prod id (unminify_node m None)) templates),
                 case tree of None \<Rightarrow> Some None | Some t \<Rightarrow> map_option Some (unminify_node m None t)) of
             (Some ts, Some tr) \<Rightarrow>
               Some (vs', Bundle (map (map_prod id (Node_Unminify m)) scripts) [] es ts tr (map_option (Node_Unminify m) action))
           | _ \<Rightarrow> None))"
| "embedded_Unminify m vs [] = Some (vs, [])"
| "embedded_Unminify m vs ((i, b) # es) =
     (case bundle_Unminify m vs b of
        None \<Rightarrow> None
      | Some (vs', b') \<Rightarrow>
          (case embedded_Unminify m vs' es of None \<Rightarrow> None | Some (vs'', es') \<Rightarrow> Some (vs'', (i, b') # es')))"

text \<open>The pointers are shared: in the end every payload has the variables of the outermost bundle.\<close>

primrec share_variables :: "BloksDatum list \<Rightarrow> BloksBundle \<Rightarrow> BloksBundle" where
  "share_variables vs (Bundle scripts _ embedded templates tree action) =
     Bundle scripts vs (map (map_prod id (share_variables vs)) embedded) templates tree action"

definition expand_bundle :: "Unminifier \<Rightarrow> BloksBundle \<Rightarrow> BloksBundle option" where
  "expand_bundle cached b =
     (let m = GetUnminifier cached (map (\<lambda>d. (bv_ID d, bv_Name d)) (bb_Variables b)) in
      map_option (\<lambda>(vs, b'). share_variables vs b') (bundle_Unminify m (bb_Variables b) b))"

text \<open>
  What \<^verbatim>\<open>encoding/json\<close> hands to the decoders of this package: the texts of scripts and the JSON of trees and
  initial values, in the structs around them.
\<close>

record RawDatum =
  rd_ID :: string
  rd_Type :: string
  rd_Name :: string
  rd_Initial :: json
  rd_InitialScript :: "string option"

datatype RawBundle = RawBundle
  (rb_Scripts: "(string \<times> string) list") (rb_Variables: "RawDatum list")
  (rb_Embedded: "(string \<times> RawBundle) list") (rb_Templates: "(string \<times> json) list")
  (rb_Tree: "json option") (rb_Action: "string option")

datatype 'a dres = DPanic | DErr tree_error | DOk 'a

fun dbind :: "'a dres \<Rightarrow> ('a \<Rightarrow> 'b dres) \<Rightarrow> 'b dres" where
  "dbind DPanic f = DPanic"
| "dbind (DErr e) f = DErr e"
| "dbind (DOk x) f = f x"

definition dsum :: "tree_error + 'a \<Rightarrow> 'a dres" where
  "dsum r = (case r of Inl e \<Rightarrow> DErr e | Inr x \<Rightarrow> DOk x)"

definition dopt :: "('a \<Rightarrow> 'b dres) \<Rightarrow> 'a option \<Rightarrow> 'b option dres" where
  "dopt f x = (case x of None \<Rightarrow> DOk None | Some y \<Rightarrow> dbind (f y) (\<lambda>z. DOk (Some z)))"

fun dlist :: "('a \<Rightarrow> 'b dres) \<Rightarrow> 'a list \<Rightarrow> 'b list dres" where
  "dlist f [] = DOk []"
| "dlist f (x # xs) = dbind (f x) (\<lambda>y. dbind (dlist f xs) (\<lambda>ys. DOk (y # ys)))"

definition decode_datum :: "RawDatum \<Rightarrow> BloksDatum dres" where
  "decode_datum d =
     (case any_value (rd_Initial d) of
        None \<Rightarrow> DErr BadJson
      | Some v \<Rightarrow> dbind (dopt (\<lambda>str. dsum (parse_script str)) (rd_InitialScript d)) (\<lambda>s.
          DOk \<lparr>bv_ID = rd_ID d, bv_Type = rd_Type d, bv_Initial = v, bv_InitialScript = s, bv_Name = rd_Name d\<rparr>))"

definition decode_script :: "string \<times> string \<Rightarrow> (string \<times> bnode) dres" where
  "decode_script s = dbind (dsum (parse_script (snd s))) (\<lambda>ast. DOk (fst s, ast))"

text \<open>The tree of a bundle goes through the loop of the attributes like the templates, to be numbered in turn.\<close>

fun decode_bundle :: "Unminifier \<Rightarrow> RawBundle \<Rightarrow> nat \<Rightarrow> (BloksBundle \<times> nat) dres"
  and decode_embedded :: "Unminifier \<Rightarrow> (string \<times> RawBundle) list \<Rightarrow> nat \<Rightarrow> ((string \<times> BloksBundle) list \<times> nat) dres"
where
  "decode_bundle cached (RawBundle scripts vars embedded templates tree action) n =
     dbind (dlist decode_script scripts) (\<lambda>ss. dbind (dlist decode_datum vars) (\<lambda>vs.
       dbind (decode_embedded cached embedded n) (\<lambda>(es, n1).
         dbind (dsum (unmarshal_attributes templates n1)) (\<lambda>(ts, n2).
           dbind (dopt (\<lambda>j. dsum (unmarshal_node j n2)) tree) (\<lambda>tr.
             dbind (dopt (\<lambda>str. dsum (parse_script str)) action) (\<lambda>act.
               case expand_bundle cached (Bundle ss vs es ts (map_option fst tr) act) of
                 None \<Rightarrow> DPanic
               | Some b \<Rightarrow> DOk (b, case tr of None \<Rightarrow> n2 | Some (_, n3) \<Rightarrow> n3)))))))"
| "decode_embedded cached [] n = DOk ([], n)"
| "decode_embedded cached ((i, r) # rs) n =
     dbind (decode_bundle cached r n) (\<lambda>(b, n1). dbind (decode_embedded cached rs n1) (\<lambda>(es, n2). DOk ((i, b) # es, n2)))"

subsection \<open>Searches\<close>

text \<open>A pointer to a component is the component with its ancestors, the nil pointer the empty list.\<close>

type_synonym cursor = "tcomp list"

fun node_FindDescendant :: "(tcomp \<Rightarrow> bool) \<Rightarrow> cursor \<Rightarrow> tnode \<Rightarrow> cursor"
  and comp_FindDescendant :: "(tcomp \<Rightarrow> bool) \<Rightarrow> cursor \<Rightarrow> tcomp \<Rightarrow> cursor"
  and comps_FindDescendant :: "(tcomp \<Rightarrow> bool) \<Rightarrow> cursor \<Rightarrow> tcomp list \<Rightarrow> cursor"
  and attributes_FindDescendant :: "(tcomp \<Rightarrow> bool) \<Rightarrow> cursor \<Rightarrow> (string \<times> tnode) list \<Rightarrow> cursor"
where
  "node_FindDescendant p up (TComponent c) = comp_FindDescendant p up c"
| "node_FindDescendant p up (TComponents cs) = comps_FindDescendant p up cs"
| "node_FindDescendant p up _ = []"
| "comp_FindDescendant p up (TComp a cid attrs) =
     (if p (TComp a cid attrs) then TComp a cid attrs # up
      else attributes_FindDescendant p (TComp a cid attrs # up) attrs)"
| "comps_FindDescendant p up [] = []"
| "comps_FindDescendant p up (c # cs) =
     (case comp_FindDescendant p up c of [] \<Rightarrow> comps_FindDescendant p up cs | found \<Rightarrow> found)"
| "attributes_FindDescendant p up [] = []"
| "attributes_FindDescendant p up ((i, t) # as) =
     (case node_FindDescendant p up t of [] \<Rightarrow> attributes_FindDescendant p up as | found \<Rightarrow> found)"

fun node_FindDescendants :: "(tcomp \<Rightarrow> bool) \<Rightarrow> cursor \<Rightarrow> tnode \<Rightarrow> cursor list"
  and comp_FindDescendants :: "(tcomp \<Rightarrow> bool) \<Rightarrow> cursor \<Rightarrow> tcomp \<Rightarrow> cursor list"
  and comps_FindDescendants :: "(tcomp \<Rightarrow> bool) \<Rightarrow> cursor \<Rightarrow> tcomp list \<Rightarrow> cursor list"
  and attributes_FindDescendants :: "(tcomp \<Rightarrow> bool) \<Rightarrow> cursor \<Rightarrow> (string \<times> tnode) list \<Rightarrow> cursor list"
where
  "node_FindDescendants p up (TComponent c) = comp_FindDescendants p up c"
| "node_FindDescendants p up (TComponents cs) = comps_FindDescendants p up cs"
| "node_FindDescendants p up _ = []"
| "comp_FindDescendants p up (TComp a cid attrs) =
     (if p (TComp a cid attrs) then [TComp a cid attrs # up]
      else attributes_FindDescendants p (TComp a cid attrs # up) attrs)"
| "comps_FindDescendants p up [] = []"
| "comps_FindDescendants p up (c # cs) = comp_FindDescendants p up c @ comps_FindDescendants p up cs"
| "attributes_FindDescendants p up [] = []"
| "attributes_FindDescendants p up ((i, t) # as) = node_FindDescendants p up t @ attributes_FindDescendants p up as"

fun FindAncestor :: "(tcomp \<Rightarrow> bool) \<Rightarrow> cursor \<Rightarrow> cursor" where
  "FindAncestor p [] = []"
| "FindAncestor p (c # up) = (if p c then c # up else FindAncestor p up)"

text \<open>\<^verbatim>\<open>FindCousin\<close>: the first ancestor that has such a descendant gives it.\<close>

fun FindCousin :: "(tcomp \<Rightarrow> bool) \<Rightarrow> cursor \<Rightarrow> cursor" where
  "FindCousin p [] = []"
| "FindCousin p (c # up) = (case comp_FindDescendant p up c of [] \<Rightarrow> FindCousin p up | found \<Rightarrow> found)"

definition attribute :: "tcomp \<Rightarrow> string \<Rightarrow> tnode option" where
  "attribute c name = map_of (tc_Attributes c) name"

definition FindContainingButton :: "cursor \<Rightarrow> cursor" where
  "FindContainingButton =
     FindCousin (\<lambda>c. list_ex (\<lambda>prop. attribute c prop \<noteq> None) [''on_click'', ''on_touch_down'', ''on_touch_up''])"

text \<open>The first step of a pointer: nil has no attributes.\<close>

definition cursor_attribute :: "cursor \<Rightarrow> string \<Rightarrow> tnode option" where
  "cursor_attribute cur name = (case cur of [] \<Rightarrow> None | c # _ \<Rightarrow> attribute c name)"

definition GetAttribute :: "cursor \<Rightarrow> string \<Rightarrow> string" where
  "GetAttribute cur name = (case cursor_attribute cur name of Some (TLiteral (JsStr str)) \<Rightarrow> str | _ \<Rightarrow> [])"

definition FilterByComponent :: "string \<Rightarrow> tcomp \<Rightarrow> bool" where
  "FilterByComponent compid c \<longleftrightarrow> tc_ComponentID c = compid"

definition FilterByAttribute :: "string \<Rightarrow> string \<Rightarrow> string \<Rightarrow> tcomp \<Rightarrow> bool" where
  "FilterByAttribute compid attr val c \<longleftrightarrow> tc_ComponentID c = compid \<and> GetAttribute [c] attr = val"

definition GetScript :: "cursor \<Rightarrow> string \<Rightarrow> bnode option" where
  "GetScript cur name = (case cursor_attribute cur name of Some (TScript ast) \<Rightarrow> Some ast | _ \<Rightarrow> None)"

definition GetChildren :: "cursor \<Rightarrow> string \<Rightarrow> cursor list" where
  "GetChildren cur name =
     (case cursor_attribute cur name of Some (TComponents cs) \<Rightarrow> map (\<lambda>c. c # cur) cs | _ \<Rightarrow> [])"

subsection \<open>Acting on components\<close>

text \<open>\<^verbatim>\<open>fmt.Errorf("%s: %w", prefix, err)\<close>.\<close>

definition wrapping :: "string \<Rightarrow> ('w, 'a) comp \<Rightarrow> ('w, 'a) comp" where
  "wrapping whr m s = (case m s of IFail e t \<Rightarrow> IFail (EWrap whr e) t | r \<Rightarrow> r)"

definition SetTextContent :: "tcomp \<Rightarrow> string \<Rightarrow> ('w, unit) comp" where
  "SetTextContent c txt =
     (if tc_ComponentID c \<noteq> ''bk.components.TextInput''
      then fail (EBridge (''can't set text content of '' @ tc_ComponentID c))
      else modify (\<lambda>s. s\<lparr>is_texts := (is_texts s)(tc_addr c \<mapsto> txt)\<rparr>))"

text \<open>A handler of a component, run with the component as its first argument.\<close>

definition run_handler :: "'w evaluator \<Rightarrow> ictx \<Rightarrow> tcomp \<Rightarrow> string \<Rightarrow> bnode \<Rightarrow> ('w, unit) comp" where
  "run_handler ev ctx c name ast =
     bnd (InterpBindThis ctx (tc_addr c)) (\<lambda>ctx'. bnd (wrapping name (ev ctx' ast)) (\<lambda>_. ret ()))"

text \<open>An input without \<^verbatim>\<open>on_text_change\<close> dereferences the nil the map gives; only another kind of value is an error.\<close>

definition FillInput :: "'w evaluator \<Rightarrow> ictx \<Rightarrow> cursor \<Rightarrow> string \<Rightarrow> ('w, unit) comp" where
  "FillInput ev ctx input txt =
     (case input of
        [] \<Rightarrow> fail (EBridge ''no such input'')
      | c # _ \<Rightarrow> bnd (SetTextContent c txt) (\<lambda>_.
          case attribute c ''on_text_change'' of
            None \<Rightarrow> panic
          | Some (TScript ast) \<Rightarrow> run_handler ev ctx c ''on_text_change'' ast
          | Some _ \<Rightarrow> fail (EBridge ''no on_text_change script'')))"

definition GetDynamicAttribute :: "'w evaluator \<Rightarrow> ictx \<Rightarrow> tcomp \<Rightarrow> string \<Rightarrow> ('w, string) comp" where
  "GetDynamicAttribute ev ctx c name =
     (if GetAttribute [c] name \<noteq> [] then ret (GetAttribute [c] name)
      else (case attribute c ''on_bind'' of
          Some (TScriptSet scripts) \<Rightarrow>
            (case map_of scripts name of
               None \<Rightarrow> ret []
             | Some ast \<Rightarrow> bnd (attempt (evalAs as_string ev ctx ast (''on_bind.'' @ name))) (\<lambda>r.
                 ret (case r of Inl _ \<Rightarrow> [] | Inr val \<Rightarrow> val)))
        | _ \<Rightarrow> ret []))"

definition TapButton :: "'w evaluator \<Rightarrow> ictx \<Rightarrow> cursor \<Rightarrow> ('w, unit) comp" where
  "TapButton ev ctx button =
     (case button of
        [] \<Rightarrow> fail (EBridge ''no such button'')
      | c # _ \<Rightarrow>
          (case GetScript button ''on_click'' of
             Some onClick \<Rightarrow> run_handler ev ctx c ''on_click'' onClick
           | None \<Rightarrow>
               (case (GetScript button ''on_touch_down'', GetScript button ''on_touch_up'') of
                  (Some down, Some up) \<Rightarrow>
                    bnd (run_handler ev ctx c ''on_touch_down'' down) (\<lambda>_. run_handler ev ctx c ''on_touch_up'' up)
                | _ \<Rightarrow> fail (EBridge ''couldn't find any event handlers on button''))))"

section \<open>The searches\<close>

text \<open>\<^verbatim>\<open>FindDescendant\<close> gives the first component \<^verbatim>\<open>FindDescendants\<close> lists; \<open>[]\<close> is no component.\<close>

definition first_cursor :: "cursor list \<Rightarrow> cursor" where
  "first_cursor cs = (case cs of [] \<Rightarrow> [] | c # _ \<Rightarrow> c)"

lemma first_cursor_simps [simp]: "first_cursor [] = []" "first_cursor (c # cs) = c"
  by (simp_all add: first_cursor_def)

lemma first_cursor_append:
  "[] \<notin> set cs \<Longrightarrow> first_cursor (cs @ ds) = (case first_cursor cs of [] \<Rightarrow> first_cursor ds | found \<Rightarrow> found)"
  by (cases cs) (auto simp: first_cursor_def split: list.splits)

lemma FindDescendants_nonempty:
  "[] \<notin> set (node_FindDescendants p up t)"
  "[] \<notin> set (comp_FindDescendants p up c)"
  "[] \<notin> set (comps_FindDescendants p up cs)"
  "[] \<notin> set (attributes_FindDescendants p up as)"
  by (induction p up t and p up c and p up cs and p up as
      rule: node_FindDescendants_comp_FindDescendants_comps_FindDescendants_attributes_FindDescendants.induct) auto

lemma FindDescendant_first:
  "node_FindDescendant p up t = first_cursor (node_FindDescendants p up t)"
  "comp_FindDescendant p up c = first_cursor (comp_FindDescendants p up c)"
  "comps_FindDescendant p up cs = first_cursor (comps_FindDescendants p up cs)"
  "attributes_FindDescendant p up as = first_cursor (attributes_FindDescendants p up as)"
proof (induction p up t and p up c and p up cs and p up as
    rule: node_FindDescendants_comp_FindDescendants_comps_FindDescendants_attributes_FindDescendants.induct)
qed (auto simp: first_cursor_append FindDescendants_nonempty split: list.split)

text \<open>What a search returns satisfies the predicate, and its ancestors lead to where the search began.\<close>

lemma FindDescendants_sound:
  "cur \<in> set (node_FindDescendants p up t) \<Longrightarrow> p (hd cur) \<and> suffix up (tl cur)"
  "cur \<in> set (comp_FindDescendants p up c) \<Longrightarrow> p (hd cur) \<and> suffix up (tl cur)"
  "cur \<in> set (comps_FindDescendants p up cs) \<Longrightarrow> p (hd cur) \<and> suffix up (tl cur)"
  "cur \<in> set (attributes_FindDescendants p up as) \<Longrightarrow> p (hd cur) \<and> suffix up (tl cur)"
  by (induction p up t and p up c and p up cs and p up as
      rule: node_FindDescendants_comp_FindDescendants_comps_FindDescendants_attributes_FindDescendants.induct)
    (auto split: if_splits dest: suffix_ConsD)

end
