(* ===== verification/Bloks_Browser.thy ===== *)
theory Bloks_Browser
  imports Bloks_Tree
begin

text \<open>
  The browser that logs in with Bloks pages (\<^verbatim>\<open>bloks/selenium.go\<close>, \<^verbatim>\<open>DoLoginSteps\<close> of \<^verbatim>\<open>messengerlite.go\<close>): a state machine
  driven from two sides, by \<^verbatim>\<open>DoLoginStep\<close>, which acts on the current page as a user would, and by the scripts
  of the server, which call back into the bridge to request pages, show screens and finish the login.
  The browser is the world of the interpreter. Bundles and interpreters are objects of heaps; one
  interpreter runs at a time and the tables of the others are parked. The server, the HTTP client and the
  random identifiers are fields of an environment. Contexts are the ambient argument arrays of the interpreter.
\<close>

section \<open>Model\<close>

subsection \<open>Requests\<close>

record BloksDoc =
  doc_Name :: string
  doc_ClientDocID :: string
  doc_RootField :: string

definition BloksActionDoc :: BloksDoc where
  "BloksActionDoc = \<lparr>doc_Name = ''MSGBloksActionRootQuery'', doc_ClientDocID = ''15577570885164679244236938926'',
     doc_RootField = ''bloks_action''\<rparr>"

definition BloksAppDoc :: BloksDoc where
  "BloksAppDoc = \<lparr>doc_Name = ''MSGBloksAppRootQuery'', doc_ClientDocID = ''28114594639880354457944446921'',
     doc_RootField = ''bloks_app''\<rparr>"

definition BloksVersion :: string where
  "BloksVersion = ''7f577336851f32ef4842b8eb2394aaf9d036c1dda7c1064b3f3090b6212b63e5''"

record BloksBkContext =
  bk_PixelRatio :: rat
  bk_BloksVersion :: string

record BloksRequestOuter =
  ro_BkContext :: BloksBkContext
  ro_BloksVersioningId :: string
  ro_AppID :: string
  ro_Params :: "(string \<times> jsval) list"

definition NewBkContext :: BloksBkContext where
  "NewBkContext = \<lparr>bk_PixelRatio = 3, bk_BloksVersion = BloksVersion\<rparr>"

definition NewBloksRequest :: "string \<Rightarrow> (string \<times> jsval) list \<Rightarrow> BloksRequestOuter" where
  "NewBloksRequest appID inner =
     \<lparr>ro_BkContext = NewBkContext, ro_BloksVersioningId = BloksVersion, ro_AppID = appID, ro_Params = inner\<rparr>"

type_synonym request = "BloksDoc \<times> BloksRequestOuter"

text \<open>
  What is outside: the server, whose answers may depend on everything asked before, the encryption of the
  password, \<^verbatim>\<open>http.Get\<close> (an error, or a content type and a body that may fail to arrive), the table of
  minified names, texts of errors and media types.
\<close>

record outside =
  en_request :: "request list \<Rightarrow> request \<Rightarrow> string + RawBundle"
  en_encrypt :: "request list \<Rightarrow> string \<Rightarrow> string + string"
  en_get :: "string \<Rightarrow> string + string \<times> (string + bytes)"
  en_unminifier :: Unminifier
  en_tree_error :: "tree_error \<Rightarrow> string"
  en_error_text :: "ierror \<Rightarrow> string"
  en_extension :: "string \<Rightarrow> string"
  en_image_size :: "bytes \<Rightarrow> (nat \<times> nat) option"
  en_debug_captcha :: "bytes \<times> bytes"
  en_waterfall :: string
  en_device :: string
  en_family :: string

subsection \<open>States\<close>

datatype BrowserState = StateUnknown | StateTestCaptcha | StateInitial | StateRedirectToLoginAction
  | StateEmailPasswordPage | StateEnteredEmailPasswordAction | StateEmailCodePage | StateEnteredEmailCodeAction
  | StateEnteredEmailCodeAPAction | StateRedirectToMFALandingAction | StateCaptchaPage | StateEnteredCaptchaAction
  | StateMFALandingAPAction | StateMFALandingPage | StatePossibleMandatoryAFADPAge | StateChooseMFAAPAction
  | StateChooseMFAPage | StateChosenMFAAPAction | StateChosenMFAAction | StateAFADPage | StateAFADAction
  | StateAFADWait | StateAFADCompleteAction | StateTOTPPage | StateEnteredTOTPAction | StateOAuthPage | StateSMSPage
  | StateSMSPageAfterSend | StateSendSMSAction | StateEnteredSMSAction | StateBackupCodePage
  | StateEnteredBackupCodeAction | StateWhatsAppPage | StateWhatsAppPageAfterSend | StateSendWhatsAppAction
  | StateEnteredWhatsAppAction | StateSuccess

definition state_names :: "(BrowserState \<times> string) list" where
  "state_names =
     [(StateUnknown, ''''), (StateTestCaptcha, ''test-captcha''), (StateInitial, ''initial''),
      (StateRedirectToLoginAction, ''redirect-to-login-action''), (StateEmailPasswordPage, ''enter-email-and-password-page''),
      (StateEnteredEmailPasswordAction, ''entered-email-and-password-action''),
      (StateEmailCodePage, ''enter-code-from-email-page''), (StateEnteredEmailCodeAction, ''entered-code-from-email-action''),
      (StateEnteredEmailCodeAPAction, ''entered-code-from-email-ap-action''),
      (StateRedirectToMFALandingAction, ''redirect-to-mfa-landing-action''), (StateCaptchaPage, ''captcha-page''),
      (StateEnteredCaptchaAction, ''entered-captcha-action''), (StateMFALandingAPAction, ''mfa-landing-ap-action''),
      (StateMFALandingPage, ''mfa-landing-page''), (StatePossibleMandatoryAFADPAge, ''possibly-mandatory-afad-page''),
      (StateChooseMFAAPAction, ''choose-mfa-ap-action''), (StateChooseMFAPage, ''choose-mfa-type-page''),
      (StateChosenMFAAPAction, ''chosen-mfa-type-ap-action''), (StateChosenMFAAction, ''chosen-mfa-type-action''),
      (StateAFADPage, ''afad-page''), (StateAFADAction, ''afad-action''), (StateAFADWait, ''afad-waiting''),
      (StateAFADCompleteAction, ''afad-complete-action''), (StateTOTPPage, ''totp-page''),
      (StateEnteredTOTPAction, ''entered-totp-action''), (StateOAuthPage, ''oauth-page''), (StateSMSPage, ''sms-page''),
      (StateSMSPageAfterSend, ''sms-page-after-send''), (StateSendSMSAction, ''send-sms-action''),
      (StateEnteredSMSAction, ''entered-sms-action''), (StateBackupCodePage, ''backup-code-page''),
      (StateEnteredBackupCodeAction, ''entered-backup-code-action''), (StateWhatsAppPage, ''whatsapp-page''),
      (StateWhatsAppPageAfterSend, ''whatsapp-page-after-send''), (StateSendWhatsAppAction, ''send-whatsapp-action''),
      (StateEnteredWhatsAppAction, ''entered-whatsapp-action''), (StateSuccess, ''success'')]"

definition state_text :: "BrowserState \<Rightarrow> string" where
  "state_text st = the (map_of state_names st)"

subsection \<open>The browser\<close>

text \<open>A bundle in the heap: its embedded payloads are addresses, its interpreter is set up later.\<close>

record hbundle =
  hb_Scripts :: "(string \<times> bnode) list"
  hb_Variables :: "BloksVariable list"
  hb_Embedded :: "(string \<times> addr) list"
  hb_Tree :: "tnode option"
  hb_Action :: "bnode option"
  hb_Interpreter :: "addr option"

text \<open>The maps of an interpreter.\<close>

record tables =
  tb_Scripts :: "string \<rightharpoonup> addr"
  tb_Payloads :: "string \<rightharpoonup> addr"
  tb_LocalVars :: "string \<rightharpoonup> literal"
  tb_GlobalVars :: "string \<rightharpoonup> literal"

definition no_tables :: tables where
  "no_tables = \<lparr>tb_Scripts = Map.empty, tb_Payloads = Map.empty, tb_LocalVars = Map.empty, tb_GlobalVars = Map.empty\<rparr>"

text \<open>
  The fields of \<^verbatim>\<open>Browser\<close>, a callback with the interpreter it evaluates in; then the map of user input the caller
  passes, which a step edits, the heaps, the interpreter that runs, the requests made and the
  number for the next component.
\<close>

record Browser =
  b_State :: BrowserState
  b_CurrentPage :: "addr option"
  b_CurrentAction :: "addr option"
  b_CaptchaCallback :: "(addr \<times> closure) option"
  b_NumCaptchaAttempts :: nat
  b_AFADNotification :: string
  b_AFADInterval :: int64
  b_AFADCallback :: "(addr \<times> closure) option"
  b_AFADDisplayed :: bool
  b_LoginData :: string
  b_DisplayedURL :: string
  b_LastError :: string
  b_userInput :: "string \<rightharpoonup> string"
  b_bundles :: "hbundle list"
  b_interps :: "tables list"
  b_running :: "addr option"
  b_requests :: "request list"
  b_components :: nat

type_synonym 'a browse = "(Browser, 'a) comp"

definition getb :: "(Browser \<Rightarrow> 'a) \<Rightarrow> 'a browse" where
  "getb f = gets (\<lambda>s. f (is_world s))"

definition setb :: "(Browser \<Rightarrow> Browser) \<Rightarrow> unit browse" where
  "setb f = modify (\<lambda>s. s\<lparr>is_world := f (is_world s)\<rparr>)"

definition set_state :: "BrowserState \<Rightarrow> unit browse" where
  "set_state st = setb (b_State_update (\<lambda>_. st))"

definition set_error :: "string \<Rightarrow> unit browse" where
  "set_error msg = setb (b_LastError_update (\<lambda>_. msg))"

definition errorf :: "string \<Rightarrow> 'a browse" where
  "errorf msg = fail (EBridge msg)"

text \<open>The nil pointer of a bundle dereferenced.\<close>

definition some_or_panic :: "'a option \<Rightarrow> 'a browse" where
  "some_or_panic x = (case x of None \<Rightarrow> panic | Some y \<Rightarrow> ret y)"

definition bundle_at :: "addr \<Rightarrow> hbundle browse" where
  "bundle_at a = bnd (getb b_bundles) (\<lambda>bs. if a < length bs then ret (bs ! a) else panic)"

fun alloc_bundle :: "BloksBundle \<Rightarrow> hbundle list \<Rightarrow> addr \<times> hbundle list"
  and alloc_embedded :: "(string \<times> BloksBundle) list \<Rightarrow> hbundle list \<Rightarrow> (string \<times> addr) list \<times> hbundle list"
where
  "alloc_bundle (Bundle scripts vars embedded templates tree action) h =
     (case alloc_embedded embedded h of (es, h') \<Rightarrow>
        (length h', h' @ [\<lparr>hb_Scripts = scripts, hb_Variables = map BloksVariable.truncate vars, hb_Embedded = es,
           hb_Tree = tree, hb_Action = action, hb_Interpreter = None\<rparr>]))"
| "alloc_embedded [] h = ([], h)"
| "alloc_embedded ((i, b) # bs) h =
     (case alloc_bundle b h of (a, h1) \<Rightarrow> (case alloc_embedded bs h1 of (es, h2) \<Rightarrow> ((i, a) # es, h2)))"

subsection \<open>Interpreters\<close>

definition live_tables :: "'w istate \<Rightarrow> tables" where
  "live_tables s = \<lparr>tb_Scripts = is_Scripts s, tb_Payloads = is_Payloads s, tb_LocalVars = is_LocalVars s,
     tb_GlobalVars = is_GlobalVars s\<rparr>"

definition load_tables :: "tables \<Rightarrow> 'w istate \<Rightarrow> 'w istate" where
  "load_tables tb s = s\<lparr>is_Scripts := tb_Scripts tb, is_Payloads := tb_Payloads tb, is_LocalVars := tb_LocalVars tb,
     is_GlobalVars := tb_GlobalVars tb\<rparr>"

definition parked :: "Browser istate \<Rightarrow> tables list" where
  "parked s = (case b_running (is_world s) of
       None \<Rightarrow> b_interps (is_world s) | Some r \<Rightarrow> (b_interps (is_world s))[r := live_tables s])"

text \<open>Another interpreter, or none, becomes the running one.\<close>

definition switch_to :: "addr option \<Rightarrow> Browser istate \<Rightarrow> Browser istate" where
  "switch_to i s =
     (case i of None \<Rightarrow> id | Some k \<Rightarrow> load_tables (parked s ! k))
       (s\<lparr>is_world := (is_world s)\<lparr>b_interps := parked s, b_running := i\<rparr>\<rparr>)"

text \<open>A computation with an interpreter, and back: also when it fails.\<close>

definition in_interp :: "addr \<Rightarrow> 'a browse \<Rightarrow> 'a browse" where
  "in_interp i m s =
     (if i < length (b_interps (is_world s)) then
        (case m (switch_to (Some i) s) of
           IFuel \<Rightarrow> IFuel
         | IPanic \<Rightarrow> IPanic
         | IFail e t \<Rightarrow> IFail e (switch_to (b_running (is_world s)) t)
         | IVal v t \<Rightarrow> IVal v (switch_to (b_running (is_world s)) t))
      else IPanic)"

text \<open>\<^verbatim>\<open>GetInterpreter\<close>: nil for a nil bundle.\<close>

definition GetInterpreter :: "addr option \<Rightarrow> addr option browse" where
  "GetInterpreter b = (case b of None \<Rightarrow> ret None | Some a \<Rightarrow> bnd (bundle_at a) (\<lambda>hb. ret (hb_Interpreter hb)))"

definition globals_of :: "addr option \<Rightarrow> (string \<rightharpoonup> literal) option browse" where
  "globals_of prev = gets (\<lambda>s. case prev of None \<Rightarrow> None | Some i \<Rightarrow> Some (tb_GlobalVars (parked s ! i)))"

text \<open>The functions \<^verbatim>\<open>NewInterpreter\<close> fills in; the browser's bridge has the two identifiers.\<close>

definition the_bridge :: "Browser bridge_options \<Rightarrow> Browser InterpBridge" where
  "the_bridge = complete_bridge [] [] []"

definition SetupInterpreter ::
  "nat \<Rightarrow> golib \<Rightarrow> Browser bridge_options \<Rightarrow> ictx \<Rightarrow> addr \<Rightarrow> addr option \<Rightarrow> unit browse" where
  "SetupInterpreter n lib bo ctx a prev =
     bnd (bundle_at a) (\<lambda>hb. bnd (globals_of prev) (\<lambda>old. bnd (getb (\<lambda>b. length (b_interps b))) (\<lambda>i.
       bnd (setb (\<lambda>b. b\<lparr>b_interps := b_interps b @ [no_tables]\<rparr>)) (\<lambda>_.
         bnd (in_interp i (NewInterpreter n lib the_bridge bo ctx (hb_Scripts hb) (hb_Embedded hb) (hb_Variables hb) old)) (\<lambda>_.
           setb (\<lambda>b. b\<lparr>b_bundles := (b_bundles b)[a := (b_bundles b ! a)\<lparr>hb_Interpreter := Some i\<rparr>]\<rparr>))))))"

subsection \<open>The bridge\<close>

definition contains_str :: "string \<Rightarrow> string \<Rightarrow> bool" where
  "contains_str s sub \<longleftrightarrow> list_ex (\<lambda>k. has_prefix (drop k s) sub) [0..<Suc (length s)]"

text \<open>
  \<^verbatim>\<open>MakeBloksRequest\<close>: the request is recorded, the answer decoded and its bundles put into the heap. The error is a
  text, because the caller looks into it.
\<close>

definition MakeBloksRequest :: "outside \<Rightarrow> request \<Rightarrow> (string + addr) browse" where
  "MakeBloksRequest env rq =
     bnd (getb b_requests) (\<lambda>rqs. bnd (setb (\<lambda>b. b\<lparr>b_requests := b_requests b @ [rq]\<rparr>)) (\<lambda>_.
       case en_request env rqs rq of
         Inl e \<Rightarrow> ret (Inl e)
       | Inr raw \<Rightarrow> bnd (getb b_components) (\<lambda>n.
           case decode_bundle (en_unminifier env) raw n of
             DPanic \<Rightarrow> panic
           | DErr e \<Rightarrow> ret (Inl (''parsing inner bloks payload: '' @ en_tree_error env e))
           | DOk (b, n') \<Rightarrow> bnd (getb b_bundles) (\<lambda>h.
               bnd (setb (\<lambda>w. w\<lparr>b_bundles := snd (alloc_bundle b h), b_components := n'\<rparr>)) (\<lambda>_.
                 ret (Inr (fst (alloc_bundle b h))))))))"

definition rpc_transitions :: "(string \<times> (BrowserState \<times> BrowserState) list) list" where
  "rpc_transitions =
     [(''com.bloks.www.bloks.caa.login.async.send_login_request'',
        [(StateEmailPasswordPage, StateEnteredEmailPasswordAction)]),
      (''com.bloks.www.two_step_verification.entrypoint'',
        [(StateEnteredEmailPasswordAction, StateMFALandingPage), (StateEnteredEmailCodeAction, StateMFALandingPage),
         (StateEnteredCaptchaAction, StateMFALandingPage)]),
      (''com.bloks.www.two_step_verification.async.entrypoint'',
        [(StateEnteredEmailPasswordAction, StateRedirectToMFALandingAction)]),
      (''com.bloks.www.two_step_verification.enter_text_captcha_code'',
        [(StateRedirectToMFALandingAction, StateCaptchaPage)]),
      (''com.bloks.www.two_step_verification.login.async.text_captcha'',
        [(StateCaptchaPage, StateEnteredCaptchaAction)]),
      (''com.bloks.www.ap.two_step_verification.entrypoint_async'',
        [(StateEnteredEmailPasswordAction, StateMFALandingAPAction), (StateEnteredCaptchaAction, StateMFALandingAPAction)]),
      (''com.bloks.www.ap.two_step_verification.approve_from_another_device'',
        [(StateMFALandingAPAction, StatePossibleMandatoryAFADPAge), (StateChosenMFAAPAction, StateAFADPage)]),
      (''com.bloks.www.ap.two_step_verification.approve_from_another_device_async'',
        [(StatePossibleMandatoryAFADPAge, StateChooseMFAAPAction), (StateMFALandingPage, StateChooseMFAAPAction)]),
      (''com.bloks.www.ap.two_step_verification.challenge_picker'', [(StateChooseMFAAPAction, StateChooseMFAPage)]),
      (''com.bloks.www.bloks.ap.two_step_verification.challenge_picker.async'', [(StateChooseMFAPage, StateChosenMFAAPAction)]),
      (''com.bloks.www.two_step_verification.verify_code.async'',
        [(StateTOTPPage, StateEnteredTOTPAction), (StateSMSPageAfterSend, StateEnteredSMSAction),
         (StateWhatsAppPageAfterSend, StateEnteredWhatsAppAction), (StateBackupCodePage, StateEnteredBackupCodeAction)]),
      (''com.bloks.www.two_step_verification.method_picker'', [(StateMFALandingPage, StateChooseMFAPage)]),
      (''com.bloks.www.two_step_verification.method_picker.navigation.async'', [(StateChooseMFAPage, StateChosenMFAAction)]),
      (''com.bloks.www.ap.two_step_verification.code_entry'', [(StateChosenMFAAPAction, StateEmailCodePage)]),
      (''com.bloks.www.caa.ar.submit_code.async'', [(StateEmailCodePage, StateEnteredEmailCodeAction)]),
      (''com.bloks.www.ap.two_step_verification.code_entry_async'', [(StateEmailCodePage, StateEnteredEmailCodeAPAction)]),
      (''com.bloks.www.two_factor_login.enter_totp_code'', [(StateChosenMFAAction, StateTOTPPage)]),
      (''com.bloks.www.two_step_verification.approve_from_another_device'', [(StateChosenMFAAction, StateAFADPage)]),
      (''com.bloks.www.two_step_verification.afad_state.async'', [(StateAFADPage, StateAFADAction)]),
      (''com.bloks.www.two_step_verification.afad_complete.async'', [(StateAFADAction, StateAFADCompleteAction)]),
      (''com.bloks.www.ap.two_step_verification.login_with_third_party'', [(StateChosenMFAAPAction, StateOAuthPage)]),
      (''com.bloks.www.two_step_verification.enter_sms_code'', [(StateChosenMFAAction, StateSMSPage)]),
      (''com.bloks.www.two_step_verification.send_code.async'',
        [(StateSMSPage, StateSendSMSAction), (StateWhatsAppPage, StateSendWhatsAppAction)]),
      (''com.bloks.www.two_factor_login.enter_backup_code'', [(StateChosenMFAAction, StateBackupCodePage)]),
      (''com.bloks.www.two_step_verification.enter_whatsapp_code'', [(StateChosenMFAAction, StateWhatsAppPage)])]"

text \<open>\<^verbatim>\<open>b.State = transitions[b.State]\<close>: what is not in the map is \<open>StateUnknown\<close>.\<close>

definition next_state :: "(BrowserState \<times> BrowserState) list \<Rightarrow> BrowserState \<Rightarrow> BrowserState" where
  "next_state table st = (case map_of table st of Some st' \<Rightarrow> st' | None \<Rightarrow> StateUnknown)"

definition move :: "(BrowserState \<times> BrowserState) list \<Rightarrow> unit browse" where
  "move table = setb (\<lambda>b. b\<lparr>b_State := next_state table (b_State b)\<rparr>)"

definition bool_text :: "bool \<Rightarrow> string" where
  "bool_text b = (if b then ''true'' else ''false'')"

text \<open>The parameters of an RPC must be a JSON object; without them the empty text is parsed.\<close>

definition parse_params :: "(string \<rightharpoonup> string) \<Rightarrow> (string \<times> jsval) list option" where
  "parse_params params =
     (case unmarshal (case params ''params'' of Some p \<Rightarrow> p | None \<Rightarrow> []) of
        Some JNull \<Rightarrow> Some []
      | Some (JObj ms) \<Rightarrow> (case any_value (JObj ms) of Some (JsMap m) \<Rightarrow> Some m | _ \<Rightarrow> None)
      | _ \<Rightarrow> None)"

text \<open>What a state does on entry: keep the callback, or skip the action that sends a code.\<close>

definition on_entry :: "(addr \<times> closure) option \<Rightarrow> Browser \<Rightarrow> Browser" where
  "on_entry callback b =
     (case b_State b of
        StateAFADAction \<Rightarrow> b\<lparr>b_AFADCallback := callback\<rparr>
      | StateEnteredCaptchaAction \<Rightarrow> b\<lparr>b_CaptchaCallback := callback\<rparr>
      | StateSendSMSAction \<Rightarrow> b\<lparr>b_State := StateSMSPageAfterSend\<rparr>
      | StateSendWhatsAppAction \<Rightarrow> b\<lparr>b_State := StateWhatsAppPageAfterSend\<rparr>
      | _ \<Rightarrow> b)"

definition bound_callback :: "closure option \<Rightarrow> Browser \<Rightarrow> (addr \<times> closure) option" where
  "bound_callback cb b = (case (b_running b, cb) of (Some r, Some c) \<Rightarrow> Some (r, c) | _ \<Rightarrow> None)"

text \<open>
  \<open>setup\<close> is \<^verbatim>\<open>SetupInterpreter\<close> with the bridge itself. It evaluates the scripts of the new bundle's variables, and
  those may move the browser: the state is looked up again afterwards.
\<close>

definition enter_bundle ::
  "(ictx \<Rightarrow> addr \<Rightarrow> addr option \<Rightarrow> unit browse) \<Rightarrow> ictx \<Rightarrow> (BrowserState \<times> BrowserState) list \<Rightarrow> bool \<Rightarrow> closure option \<Rightarrow>
   addr \<Rightarrow> unit browse" where
  "enter_bundle setup ctx table isPage cb a =
     bnd (bnd (getb b_CurrentPage) GetInterpreter) (\<lambda>prev. bnd (setup ctx a prev) (\<lambda>_.
       bnd (setb (\<lambda>b. if isPage then b\<lparr>b_CurrentPage := Some a\<rparr> else b\<lparr>b_CurrentAction := Some a\<rparr>)) (\<lambda>_.
         bnd (move table) (\<lambda>_. setb (\<lambda>b. on_entry (bound_callback cb b) b)))))"

definition DoRPC ::
  "outside \<Rightarrow> (ictx \<Rightarrow> addr \<Rightarrow> addr option \<Rightarrow> unit browse) \<Rightarrow> ictx \<Rightarrow> string \<Rightarrow> (string \<rightharpoonup> string) \<Rightarrow> bool \<Rightarrow> closure option \<Rightarrow> unit browse"
where
  "DoRPC env setup ctx name params isPage cb =
     (if name = ''com.bloks.www.bloks.caa.reg.youthregulation.deletepregent.async'' then ret ()
      else (case map_of rpc_transitions name of
          None \<Rightarrow> errorf (''unexpected rpc '' @ name @ '' isPage='' @ bool_text isPage)
        | Some table \<Rightarrow> bnd (getb b_State) (\<lambda>st.
            if next_state table st = StateUnknown
            then errorf (''can't handle rpc '' @ name @ '' in state '' @ state_text st)
            else (case parse_params params of
                None \<Rightarrow> errorf (''parsing '' @ name @ '' params'')
              | Some inner \<Rightarrow>
                  bnd (MakeBloksRequest env (if isPage then BloksAppDoc else BloksActionDoc, NewBloksRequest name inner)) (\<lambda>r.
                    case r of
                      Inl e \<Rightarrow>
                        if name = ''com.bloks.www.ap.two_step_verification.entrypoint_async'' \<and> contains_str e ''Query Error''
                        then errorf ''Facebook rejected the login without providing a reason, please try again''
                        else errorf (''rpc '' @ name @ '': '' @ e)
                    | Inr a \<Rightarrow> enter_bundle setup ctx table isPage cb a)))))"

definition screen_transitions :: "(string \<times> (BrowserState \<times> BrowserState) list) list" where
  "screen_transitions =
     [(''com.bloks.www.caa.login.login_homepage'', [(StateRedirectToLoginAction, StateEmailPasswordPage)]),
      (''com.bloks.www.caa.ar.code_entry'', [(StateEnteredEmailPasswordAction, StateEmailCodePage)])]"

definition DisplayNewScreen ::
  "(ictx \<Rightarrow> addr \<Rightarrow> addr option \<Rightarrow> unit browse) \<Rightarrow> ictx \<Rightarrow> string \<Rightarrow> addr \<Rightarrow> unit browse" where
  "DisplayNewScreen setup ctx name page =
     (case map_of screen_transitions name of
        None \<Rightarrow> errorf (''unexpected new screen '' @ name)
      | Some table \<Rightarrow> bnd (getb b_State) (\<lambda>st.
          if next_state table st = StateUnknown
          then errorf (''can't handle new screen '' @ name @ '' in state '' @ state_text st)
          else bnd (bnd (getb b_CurrentPage) GetInterpreter) (\<lambda>prev. bnd (setup ctx page prev) (\<lambda>_.
            bnd (setb (b_CurrentPage_update (\<lambda>_. Some page))) (\<lambda>_. move table)))))"

definition login_transitions :: "(BrowserState \<times> BrowserState) list" where
  "login_transitions = map (\<lambda>st. (st, StateSuccess))
     [StateEnteredEmailPasswordAction, StateEnteredCaptchaAction, StateEnteredTOTPAction, StateEnteredSMSAction,
      StateEnteredWhatsAppAction, StateEnteredBackupCodeAction, StateAFADCompleteAction, StateEnteredEmailCodeAction,
      StateEnteredEmailCodeAPAction]"

definition HandleLoginResponse :: "string \<Rightarrow> unit browse" where
  "HandleLoginResponse data =
     bnd (getb b_State) (\<lambda>st.
       if next_state login_transitions st = StateUnknown
       then errorf (''can't handle login response in state '' @ state_text st)
       else bnd (setb (b_LoginData_update (\<lambda>_. data))) (\<lambda>_. move login_transitions))"

definition StartTimer :: "string \<Rightarrow> int64 \<Rightarrow> closure \<Rightarrow> unit browse" where
  "StartTimer name interval cb =
     (if name = ''approve_from_another_device_polling_timer'' then setb (b_AFADInterval_update (\<lambda>_. interval))
      else errorf (''unexpected timer '' @ name))"

definition OpenURL :: "string \<Rightarrow> unit browse" where
  "OpenURL url = setb (b_DisplayedURL_update (\<lambda>_. url))"

definition code_error :: "string \<Rightarrow> literal \<Rightarrow> unit browse" where
  "code_error what lit = bnd (Value lit) (\<lambda>v. case as_string v of Some msg \<Rightarrow> set_error msg | None \<Rightarrow> errorf what)"

definition HandleVariableChange :: "string \<Rightarrow> literal \<Rightarrow> unit browse" where
  "HandleVariableChange name lit =
     bnd (getb b_State) (\<lambda>st.
       if name = ''BLOKS_TWO_STEP_VERIFICATION_ENTER_CODE:error_message'' then
         (if st \<in> {StateEnteredTOTPAction, StateEnteredSMSAction, StateEnteredWhatsAppAction, StateEnteredBackupCodeAction}
          then code_error ''non-string code error'' lit else ret ())
       else if name = ''BLOKS_AUTH_PLATFORM_ENTER_CODE:error_message'' then
         (if st \<noteq> StateEnteredEmailCodeAPAction then ret () else code_error ''non-string email code error'' lit)
       else ret ())"

definition EncryptPassword :: "outside \<Rightarrow> string \<Rightarrow> string browse" where
  "EncryptPassword env pw =
     bnd (getb b_requests) (\<lambda>rqs. case en_encrypt env rqs pw of Inl e \<Rightarrow> errorf e | Inr enc \<Rightarrow> ret enc)"

text \<open>The bridge of \<^verbatim>\<open>NewBrowser\<close>; the functions it leaves nil are completed by \<^verbatim>\<open>NewInterpreter\<close>.\<close>

definition bridge_with :: "outside \<Rightarrow> (ictx \<Rightarrow> addr \<Rightarrow> addr option \<Rightarrow> unit browse) \<Rightarrow> Browser bridge_options" where
  "bridge_with env setup =
     \<lparr>bo_DeviceID = en_device env, bo_FamilyDeviceID = en_family env, bo_MachineID = [],
      bo_EncryptPassword = Some (EncryptPassword env), bo_SIMPhones = BNil, bo_DeviceEmails = BNil,
      bo_IsAppInstalled = None, bo_HasAppPermissions = None, bo_GetSecureNonces = None,
      bo_DoRPC = Some (DoRPC env setup), bo_DisplayNewScreen = Some (DisplayNewScreen setup),
      bo_HandleLoginResponse = Some HandleLoginResponse, bo_StartTimer = Some StartTimer,
      bo_OpenURL = Some OpenURL, bo_HandleVariableChange = Some HandleVariableChange\<rparr>"

text \<open>The bridge sets up interpreters with the bridge: how often one does so inside another is bounded by fuel.\<close>

primrec browser_bridge :: "nat \<Rightarrow> golib \<Rightarrow> outside \<Rightarrow> Browser bridge_options" where
  "browser_bridge 0 lib env = bridge_with env (\<lambda>ctx a prev s. IFuel)"
| "browser_bridge (Suc n) lib env = bridge_with env (SetupInterpreter n lib (browser_bridge n lib env))"

definition NewBrowser :: Browser where
  "NewBrowser =
     \<lparr>b_State = StateInitial, b_CurrentPage = None, b_CurrentAction = None, b_CaptchaCallback = None,
      b_NumCaptchaAttempts = 0, b_AFADNotification = [], b_AFADInterval = 0, b_AFADCallback = None,
      b_AFADDisplayed = False, b_LoginData = [], b_DisplayedURL = [], b_LastError = [], b_userInput = Map.empty,
      b_bundles = [], b_interps = [], b_running = None, b_requests = [], b_components = 0\<rparr>"

subsection \<open>Steps\<close>

datatype field_type = LoginInputFieldTypeUsername | LoginInputFieldTypePassword | LoginInputFieldType2FACode
  | LoginInputFieldTypeCaptchaCode | LoginInputFieldTypeSelect

record LoginInputDataField =
  lf_ID :: string
  lf_Name :: string
  lf_Type :: field_type
  lf_Options :: "string list"

datatype attachment_type = MsgImage | MsgAudio

record LoginUserInputAttachment =
  la_Type :: attachment_type
  la_FileName :: string
  la_Content :: bytes
  la_MimeType :: string
  la_Width :: nat
  la_Height :: nat

datatype step_type = LoginStepTypeUserInput | LoginStepTypeDisplayAndWait

record LoginStep =
  ls_Type :: step_type
  ls_StepID :: string
  ls_Instructions :: string
  ls_Attachments :: "LoginUserInputAttachment list"
  ls_Fields :: "LoginInputDataField list"

definition input_field :: "string \<Rightarrow> string \<Rightarrow> field_type \<Rightarrow> LoginInputDataField" where
  "input_field i name ty = \<lparr>lf_ID = i, lf_Name = name, lf_Type = ty, lf_Options = []\<rparr>"

definition ask :: "string \<Rightarrow> string \<Rightarrow> LoginInputDataField list \<Rightarrow> LoginStep option browse" where
  "ask step_id instructions fs =
     ret (Some \<lparr>ls_Type = LoginStepTypeUserInput, ls_StepID = ''fi.mau.meta.messengerlite.'' @ step_id,
       ls_Instructions = instructions, ls_Attachments = [], ls_Fields = fs\<rparr>)"

text \<open>\<^verbatim>\<open>userInput[key]\<close> and \<^verbatim>\<open>delete(userInput, key)\<close>.\<close>

definition input_of :: "Browser \<Rightarrow> string \<Rightarrow> string" where
  "input_of b key = (case b_userInput b key of Some v \<Rightarrow> v | None \<Rightarrow> [])"

definition user_input :: "string \<Rightarrow> string browse" where
  "user_input key = getb (\<lambda>b. input_of b key)"

definition delete_input :: "string \<Rightarrow> unit browse" where
  "delete_input key = setb (\<lambda>b. b\<lparr>b_userInput := (b_userInput b)(key := None)\<rparr>)"

subsection \<open>The current page and action\<close>

definition current_page :: "hbundle browse" where
  "current_page = bnd (getb b_CurrentPage) (\<lambda>p. bnd (some_or_panic p) bundle_at)"

definition current_action :: "hbundle browse" where
  "current_action = bnd (getb b_CurrentAction) (\<lambda>p. bnd (some_or_panic p) bundle_at)"

definition page_FindDescendant :: "(tcomp \<Rightarrow> bool) \<Rightarrow> cursor browse" where
  "page_FindDescendant p =
     bnd current_page (\<lambda>hb. ret (case hb_Tree hb of None \<Rightarrow> [] | Some t \<Rightarrow> node_FindDescendant p [] t))"

definition page_FindDescendants :: "(tcomp \<Rightarrow> bool) \<Rightarrow> cursor list browse" where
  "page_FindDescendants p =
     bnd current_page (\<lambda>hb. ret (case hb_Tree hb of None \<Rightarrow> [] | Some t \<Rightarrow> node_FindDescendants p [] t))"

text \<open>\<^verbatim>\<open>FindDescendant\<close> of a component: the predicates read their argument, so that nil panics.\<close>

definition cursor_FindDescendant :: "(tcomp \<Rightarrow> bool) \<Rightarrow> cursor \<Rightarrow> cursor browse" where
  "cursor_FindDescendant p cur = (case cur of [] \<Rightarrow> panic | c # up \<Rightarrow> ret (comp_FindDescendant p up c))"

text \<open>Evaluation by an interpreter of the browser.\<close>

definition eval_with :: "nat \<Rightarrow> golib \<Rightarrow> outside \<Rightarrow> addr option \<Rightarrow> Browser evaluator" where
  "eval_with n lib env i ctx form =
     bnd (some_or_panic i) (\<lambda>k. in_interp k (Evaluate n lib (the_bridge (browser_bridge n lib env)) ctx form))"

definition on_page :: "nat \<Rightarrow> golib \<Rightarrow> outside \<Rightarrow> (Browser evaluator \<Rightarrow> 'a browse) \<Rightarrow> 'a browse" where
  "on_page n lib env f = bnd current_page (\<lambda>hb. f (eval_with n lib env (hb_Interpreter hb)))"

text \<open>\<^verbatim>\<open>Action()\<close> takes the address of a field of the action: without an action it panics, it is never nil.\<close>

definition Action :: "hbundle \<Rightarrow> bnode browse" where
  "Action hb = some_or_panic (hb_Action hb)"

definition run_action :: "nat \<Rightarrow> golib \<Rightarrow> outside \<Rightarrow> literal browse" where
  "run_action n lib env =
     bnd current_action (\<lambda>hb. bnd (Action hb) (\<lambda>ast. eval_with n lib env (hb_Interpreter hb) None ast))"

text \<open>\<^verbatim>\<open>fmt.Errorf("execute %s: %w", b.State, err)\<close>: the state is the one the script left.\<close>

definition execute :: "'a browse \<Rightarrow> 'a browse" where
  "execute m s =
     (case m s of IFail e t \<Rightarrow> IFail (EWrap (''execute '' @ state_text (b_State (is_world t))) e) t | r \<Rightarrow> r)"

definition fill :: "nat \<Rightarrow> golib \<Rightarrow> outside \<Rightarrow> (tcomp \<Rightarrow> bool) \<Rightarrow> string \<Rightarrow> string \<Rightarrow> unit browse" where
  "fill n lib env p txt whr =
     wrapping whr (bnd (page_FindDescendant p) (\<lambda>cur. on_page n lib env (\<lambda>ev. FillInput ev None cur txt)))"

definition tap :: "nat \<Rightarrow> golib \<Rightarrow> outside \<Rightarrow> string \<Rightarrow> string \<Rightarrow> unit browse" where
  "tap n lib env label whr =
     wrapping whr (bnd (page_FindDescendant (FilterByAttribute ''bk.data.TextSpan'' ''text'' label)) (\<lambda>cur.
       on_page n lib env (\<lambda>ev. TapButton ev None (FindContainingButton cur))))"

text \<open>A text input with an accessibility label inside it.\<close>

definition labelled_input :: "string \<Rightarrow> tcomp \<Rightarrow> bool" where
  "labelled_input label c \<longleftrightarrow> tc_ComponentID c = ''bk.components.TextInput'' \<and>
     comp_FindDescendant (FilterByAttribute ''bk.components.AccessibilityExtension'' ''label'' label) [] c \<noteq> []"

text \<open>A loop over scripts of the current page; its interpreter is read for each of them.\<close>

fun run_scripts :: "nat \<Rightarrow> golib \<Rightarrow> outside \<Rightarrow> string \<Rightarrow> bnode list \<Rightarrow> unit browse" where
  "run_scripts n lib env whr [] = ret ()"
| "run_scripts n lib env whr (ast # asts) =
     bnd (on_page n lib env (\<lambda>ev. wrapping whr (ev None ast))) (\<lambda>_. run_scripts n lib env whr asts)"

subsection \<open>The text of errors and instructions\<close>

fun error_text :: "outside \<Rightarrow> ierror \<Rightarrow> string" where
  "error_text env (EDialog msg) = msg"
| "error_text env (EBridge msg) = msg"
| "error_text env (ECheckpoint msg) = msg"
| "error_text env (EWrap whr e) = whr @ '': '' @ error_text env e"
| "error_text env (EVar name e) = ''var '' @ name @ '': '' @ error_text env e"
| "error_text env ENull = ''asnonnull got null''"
| "error_text env ENoText = ''no text content in referenced element''"
| "error_text env (EUnimplemented f k) = ''unimplemented function '' @ f @ '' ('' @ format_uint k @ '' args)''"
| "error_text env e = en_error_text env e"

definition trim_dot :: "string \<Rightarrow> string" where
  "trim_dot s = (if s \<noteq> [] \<and> last s = CHR ''.'' then butlast s else s)"

text \<open>The last error goes in front of the instructions, once.\<close>

definition with_error :: "(string \<Rightarrow> string) \<Rightarrow> string \<Rightarrow> string browse" where
  "with_error trim instructions =
     bnd (getb b_LastError) (\<lambda>e.
       if e = [] then ret instructions
       else bnd (set_error []) (\<lambda>_. ret (trim e @ ''. '' @ instructions)))"

definition getCodeInstructions :: "string browse" where
  "getCodeInstructions =
     bnd (page_FindDescendant (\<lambda>c. tc_ComponentID c = ''bk.data.TextSpan'' \<and>
         list_ex (has_prefix (GetAttribute [c] ''text'')) [''Enter the code'', ''We sent a code'']))
       (\<lambda>cur. ret (GetAttribute cur ''text''))"

text \<open>\<^verbatim>\<open>strings.Replace(s, old, new, 1)\<close> for a non-empty \<open>old\<close>, and the regular expression \<^verbatim>\<open>^.*[@a-zA-Z].*$\<close>.\<close>

fun replace_first :: "string \<Rightarrow> string \<Rightarrow> string \<Rightarrow> string" where
  "replace_first old new [] = []"
| "replace_first old new (c # s) =
     (if has_prefix (c # s) old then new @ drop (length old) (c # s) else c # replace_first old new s)"

definition definitelyNotPhoneNumber :: "string \<Rightarrow> bool" where
  "definitelyNotPhoneNumber s \<longleftrightarrow>
     CHR 0x0A \<notin> set s \<and> list_ex (\<lambda>c. c = CHR ''@'' \<or> 65 \<le> code c \<and> code c \<le> 90 \<or> 97 \<le> code c \<and> code c \<le> 122) s"

subsection \<open>The cases of DoLoginStep\<close>

definition step_TestCaptcha :: "outside \<Rightarrow> LoginStep option browse" where
  "step_TestCaptcha env =
     bnd (user_input ''captcha_code'') (\<lambda>captcha.
       if captcha = [] then
         ret (Some \<lparr>ls_Type = LoginStepTypeUserInput, ls_StepID = ''fi.mau.meta.messengerlite.captcha'',
           ls_Instructions = ''Here is a test captcha'',
           ls_Attachments =
             [\<lparr>la_Type = MsgImage, la_FileName = ''captcha.png'', la_Content = fst (en_debug_captcha env),
               la_MimeType = ''image/png'', la_Width = 280, la_Height = 70\<rparr>,
              \<lparr>la_Type = MsgAudio, la_FileName = ''captcha.ogg'', la_Content = snd (en_debug_captcha env),
               la_MimeType = ''audio/ogg'', la_Width = 0, la_Height = 0\<rparr>],
           ls_Fields = [input_field ''captcha_code'' ''Captcha code'' LoginInputFieldTypeCaptchaCode]\<rparr>)
       else bnd (set_state StateInitial) (\<lambda>_. ret None))"

definition initial_params :: "outside \<Rightarrow> (string \<times> jsval) list" where
  "initial_params env =
     [(''blocked_uid'', JsArr []), (''offline_experiment_group'', JsStr ''caa_iteration_v2_perf_ls_ios_test_1''),
      (''family_device_id'', JsStr (en_family env)), (''use_auto_login_interstitial'', JsBool True),
      (''layered_homepage_experiment_group'', JsStr ''not_in_experiment''),
      (''disable_recursive_auto_login_interstitial'', JsBool True), (''show_internal_settings'', JsBool False),
      (''waterfall_id'', JsStr (en_waterfall env)), (''account_list'', JsArr []), (''disable_auto_login'', JsBool False),
      (''is_from_logged_in_switcher'', JsBool False), (''auto_login_interstitial_experiment_group'', JsStr []),
      (''device_id'', JsStr (en_device env)), (''machine_id'', JsStr [])]"

definition step_Initial :: "nat \<Rightarrow> golib \<Rightarrow> outside \<Rightarrow> LoginStep option browse" where
  "step_Initial n lib env =
     bnd (MakeBloksRequest env (BloksActionDoc,
         NewBloksRequest ''com.bloks.www.bloks.caa.login.process_client_data_and_redirect'' (initial_params env))) (\<lambda>r.
       case r of
         Inl e \<Rightarrow> errorf (''rpc com.bloks.www.bloks.caa.login.process_client_data_and_redirect: '' @ e)
       | Inr a \<Rightarrow>
           bnd (bnd (getb b_CurrentPage) GetInterpreter) (\<lambda>prev.
             bnd (wrapping ''setup initial interpreter'' (SetupInterpreter n lib (browser_bridge n lib env) None a prev)) (\<lambda>_.
               bnd (setb (b_CurrentAction_update (\<lambda>_. Some a))) (\<lambda>_.
                 bnd (set_state StateRedirectToLoginAction) (\<lambda>_. ret None)))))"

text \<open>A callback kept from an RPC runs in the interpreter that made the RPC; a nil function panics.\<close>

definition call_back :: "nat \<Rightarrow> golib \<Rightarrow> outside \<Rightarrow> (addr \<times> closure) option \<Rightarrow> literal \<Rightarrow> unit browse" where
  "call_back n lib env callback result =
     bnd (some_or_panic callback) (\<lambda>(i, c).
       in_interp i (run_callback n lib (the_bridge (browser_bridge n lib env)) c [result]))"

definition step_EnteredCaptcha :: "nat \<Rightarrow> golib \<Rightarrow> outside \<Rightarrow> LoginStep option browse" where
  "step_EnteredCaptcha n lib env =
     bnd (setb (\<lambda>b. b\<lparr>b_NumCaptchaAttempts := Suc (b_NumCaptchaAttempts b)\<rparr>)) (\<lambda>_.
       bnd (execute (run_action n lib env)) (\<lambda>result.
         bnd (bnd (getb b_CaptchaCallback) (\<lambda>cb. wrapping ''execute captcha callback'' (call_back n lib env cb result))) (\<lambda>_.
           bnd (getb b_State) (\<lambda>st.
             if st = StateEnteredCaptchaAction
             then bnd (set_state StateCaptchaPage) (\<lambda>_. bnd (delete_input ''captcha_code'') (\<lambda>_. ret None))
             else ret None))))"

text \<open>The search for a script in the page of an action is never reached: \<open>Action\<close> gives a script or panics.\<close>

definition step_APAction :: "nat \<Rightarrow> golib \<Rightarrow> outside \<Rightarrow> LoginStep option browse" where
  "step_APAction n lib env =
     bnd (execute (run_action n lib env)) (\<lambda>_.
       bnd (getb (\<lambda>b. (b_State b, b_LastError b))) (\<lambda>(st, e).
         if st = StateEnteredEmailCodeAPAction \<and> e \<noteq> []
         then bnd (delete_input ''email_code'') (\<lambda>_. bnd (set_state StateEmailCodePage) (\<lambda>_. ret None))
         else ret None))"

definition step_AFADAction :: "nat \<Rightarrow> golib \<Rightarrow> outside \<Rightarrow> LoginStep option browse" where
  "step_AFADAction n lib env =
     bnd (execute (run_action n lib env)) (\<lambda>result.
       bnd (bnd (getb b_AFADCallback) (\<lambda>cb. wrapping ''execute AFAD callback'' (call_back n lib env cb result))) (\<lambda>_.
         bnd (getb (\<lambda>b. b)) (\<lambda>b.
           if b_State b \<noteq> StateAFADAction then ret None
           else if sint (b_AFADInterval b) \<le> 0 then errorf ''no AFAD timer scheduled''
           else bnd (set_state StateAFADWait) (\<lambda>_.
             if b_AFADDisplayed b then ret None
             else bnd (setb (b_AFADDisplayed_update (\<lambda>_. True))) (\<lambda>_.
               ret (Some \<lparr>ls_Type = LoginStepTypeDisplayAndWait, ls_StepID = ''fi.mau.meta.messengerlite.afad_wait'',
                 ls_Instructions = b_AFADNotification b, ls_Attachments = [], ls_Fields = []\<rparr>))))))"

definition step_EnteredEmailPassword :: "nat \<Rightarrow> golib \<Rightarrow> outside \<Rightarrow> LoginStep option browse" where
  "step_EnteredEmailPassword n lib env =
     bnd (attempt (run_action n lib env)) (\<lambda>r. case r of
         Inr _ \<Rightarrow> ret None
       | Inl e \<Rightarrow>
           if error_text env e = ''Invalid username or password'' then
             bnd (delete_input ''username'') (\<lambda>_. bnd (delete_input ''password'') (\<lambda>_.
               bnd (set_error (error_text env e)) (\<lambda>_. bnd (set_state StateEmailPasswordPage) (\<lambda>_. ret None))))
           else if contains_str (error_text env e) ''isn't connected to an account'' then
             bnd (delete_input ''username'') (\<lambda>_. bnd (delete_input ''password'') (\<lambda>_.
               bnd (user_input ''username'') (\<lambda>username.
                 bnd (set_error (''That '' @ (if contains_str ''@'' username then ''email address'' else ''username'')
                   @ '' is not connected to a Messenger account'')) (\<lambda>_.
                   bnd (set_state StateEmailPasswordPage) (\<lambda>_. ret None)))))
           else execute (fail e))"

definition step_EnteredEmailCode :: "nat \<Rightarrow> golib \<Rightarrow> outside \<Rightarrow> LoginStep option browse" where
  "step_EnteredEmailCode n lib env =
     bnd (attempt (run_action n lib env)) (\<lambda>r. case r of
         Inr _ \<Rightarrow> ret None
       | Inl e \<Rightarrow>
           if has_prefix (error_text env e) ''Please re-enter'' then
             bnd (delete_input ''email_code'') (\<lambda>_. bnd (set_error (error_text env e)) (\<lambda>_.
               bnd (set_state StateEmailCodePage) (\<lambda>_. ret None)))
           else execute (fail e))"

text \<open>The four cases that submit a code: an error the script left in \<^verbatim>\<open>LastError\<close> leads back to the page.\<close>

definition step_EnteredCode :: "nat \<Rightarrow> golib \<Rightarrow> outside \<Rightarrow> string \<Rightarrow> BrowserState \<Rightarrow> LoginStep option browse" where
  "step_EnteredCode n lib env key page =
     bnd (execute (run_action n lib env)) (\<lambda>_. bnd (getb b_LastError) (\<lambda>e.
       if e \<noteq> [] then bnd (delete_input key) (\<lambda>_. bnd (set_state page) (\<lambda>_. ret None)) else ret None))"

definition step_Redirect :: "nat \<Rightarrow> golib \<Rightarrow> outside \<Rightarrow> LoginStep option browse" where
  "step_Redirect n lib env = bnd (execute (run_action n lib env)) (\<lambda>_. ret None)"

definition step_EmailPassword :: "nat \<Rightarrow> golib \<Rightarrow> outside \<Rightarrow> LoginStep option browse" where
  "step_EmailPassword n lib env =
     bnd (user_input ''username'') (\<lambda>username. bnd (user_input ''password'') (\<lambda>password.
       if username = [] \<or> password = [] then
         bnd (with_error (\<lambda>e. e) ''Enter your Facebook credentials. The Messenger network will only work with Facebook accounts.'') (\<lambda>i.
           ask ''email_password'' i
             [input_field ''username'' ''Username or email address'' LoginInputFieldTypeUsername,
              input_field ''password'' ''Password'' LoginInputFieldTypePassword])
       else if \<not> definitelyNotPhoneNumber username then
         errorf ''Phone number login is not supported, please try email address or username''
       else
         bnd (fill n lib env (FilterByAttribute ''bk.components.TextInput'' ''html_name'' ''email'') username ''filling email input'') (\<lambda>_.
           bnd (fill n lib env (FilterByAttribute ''bk.components.TextInput'' ''html_name'' ''password'') password ''filling password input'') (\<lambda>_.
             bnd (tap n lib env ''Log in'' ''tapping login button'') (\<lambda>_. ret None)))))"

text \<open>The pages that take a code.\<close>

definition step_CodePage ::
  "nat \<Rightarrow> golib \<Rightarrow> outside \<Rightarrow> string \<Rightarrow> string browse \<Rightarrow> string \<Rightarrow> string \<Rightarrow> string \<Rightarrow> string \<Rightarrow> LoginStep option browse" where
  "step_CodePage n lib env key instructions step_id name label whr =
     bnd (user_input key) (\<lambda>code.
       if code = [] then
         bnd instructions (\<lambda>i. bnd (with_error trim_dot i) (\<lambda>i'.
           ask step_id i' [input_field key name LoginInputFieldType2FACode]))
       else
         bnd (fill n lib env (labelled_input label) code (''filling '' @ whr @ '' code input'')) (\<lambda>_.
           bnd (tap n lib env ''Continue'' ''tapping continue'') (\<lambda>_. ret None)))"

definition step_EmailCodePage :: "nat \<Rightarrow> golib \<Rightarrow> outside \<Rightarrow> LoginStep option browse" where
  "step_EmailCodePage n lib env =
     step_CodePage n lib env ''email_code'' getCodeInstructions ''email_code'' ''Code from email'' ''Enter code'' ''email''"

definition step_BackupCodePage :: "nat \<Rightarrow> golib \<Rightarrow> outside \<Rightarrow> LoginStep option browse" where
  "step_BackupCodePage n lib env =
     step_CodePage n lib env ''backup_code'' (ret ''Enter one of your two-factor backup codes.'') ''backup_code''
       ''Backup code'' ''Code'' ''backup''"

definition step_TOTPPage :: "nat \<Rightarrow> golib \<Rightarrow> outside \<Rightarrow> LoginStep option browse" where
  "step_TOTPPage n lib env =
     step_CodePage n lib env ''totp_code'' (ret ''Enter a six-digit code from your authenticator app'') ''totp''
       ''Six-digit code'' ''Code'' ''mfa''"

definition step_SMSCodePage :: "nat \<Rightarrow> golib \<Rightarrow> outside \<Rightarrow> LoginStep option browse" where
  "step_SMSCodePage n lib env =
     step_CodePage n lib env ''sms_code'' getCodeInstructions ''sms'' ''Six-digit code'' ''Code'' ''sms''"

definition step_WhatsAppCodePage :: "nat \<Rightarrow> golib \<Rightarrow> outside \<Rightarrow> LoginStep option browse" where
  "step_WhatsAppCodePage n lib env =
     step_CodePage n lib env ''whatsapp_code'' getCodeInstructions ''whatsapp'' ''Six-digit code'' ''Code'' ''whatsapp''"

lemmas code_page_defs = step_EmailCodePage_def step_BackupCodePage_def step_TOTPPage_def step_SMSCodePage_def
  step_WhatsAppCodePage_def

definition fetch :: "outside \<Rightarrow> string \<Rightarrow> string \<Rightarrow> (string \<times> bytes) browse" where
  "fetch env what url =
     (case en_get env url of
        Inl e \<Rightarrow> errorf (''error fetching '' @ what @ '' response: '' @ e)
      | Inr (mime, Inl e) \<Rightarrow> errorf (''error reading '' @ what @ '' response body: '' @ e)
      | Inr (mime, Inr body) \<Rightarrow>
          if \<not> has_prefix mime (what @ ''/'') then errorf (''bad '' @ what @ '' captcha mime type '' @ mime) else ret (mime, body))"

text \<open>The two addresses of a captcha: the attribute of the image, and what the audio link opens.\<close>

definition captcha_image_url :: "nat \<Rightarrow> golib \<Rightarrow> outside \<Rightarrow> string browse" where
  "captcha_image_url n lib env =
     bnd (page_FindDescendant (FilterByAttribute ''bk.components.Image'' ''unique_id''
         ''i:com.bloks.www.two_step_verification.enter_text_captcha_code/p:captcha_image'')) (\<lambda>img. case img of
       [] \<Rightarrow> errorf ''can't find captcha image''
     | c # _ \<Rightarrow> bnd (on_page n lib env (\<lambda>ev. GetDynamicAttribute ev None c ''url'')) (\<lambda>url.
         if url = [] then errorf ''captcha image has no url'' else ret url))"

definition captcha_audio_url :: "nat \<Rightarrow> golib \<Rightarrow> outside \<Rightarrow> string browse" where
  "captcha_audio_url n lib env =
     bnd (page_FindDescendant (FilterByAttribute ''bk.data.TextSpan'' ''text'' ''play audio'')) (\<lambda>audio. case audio of
       [] \<Rightarrow> errorf ''can't find audio text''
     | c # up \<Rightarrow>
         (case comp_FindDescendant (FilterByComponent ''bk.style.textspan.ClickableStyle'') up c of
            [] \<Rightarrow> errorf ''audio text is not clickable''
          | clickable \<Rightarrow>
              (case GetScript clickable ''on_click'' of
                 None \<Rightarrow> errorf ''no on_click on audio text''
               | Some ast \<Rightarrow>
                   bnd (on_page n lib env (\<lambda>ev. wrapping ''clicking on audio text'' (ev None ast))) (\<lambda>_.
                     bnd (getb b_DisplayedURL) (\<lambda>url.
                       if url = [] then errorf ''clicking on audio text failed to open url''
                       else ret (replace_first ''/player/'' ''/'' url))))))"

definition step_Captcha :: "nat \<Rightarrow> golib \<Rightarrow> outside \<Rightarrow> LoginStep option browse" where
  "step_Captcha n lib env =
     bnd (user_input ''captcha_code'') (\<lambda>captcha.
       if captcha = [] then
         bnd (captcha_image_url n lib env) (\<lambda>image_url. bnd (captcha_audio_url n lib env) (\<lambda>audio_url.
           bnd (fetch env ''image'' image_url) (\<lambda>(image_mime, image). bnd (fetch env ''audio'' audio_url) (\<lambda>(audio_mime, audio).
             bnd (getb b_NumCaptchaAttempts) (\<lambda>attempts.
               ret (Some \<lparr>ls_Type = LoginStepTypeUserInput, ls_StepID = ''fi.mau.meta.messengerlite.captcha'',
                 ls_Instructions = (if attempts > 0 then ''Facebook rejected that captcha solution''
                   else ''Facebook requires solving a captcha''),
                 ls_Attachments =
                   [\<lparr>la_Type = MsgImage, la_FileName = ''captcha'' @ en_extension env image_mime, la_Content = image,
                     la_MimeType = image_mime, la_Width = (case en_image_size env image of Some (w, _) \<Rightarrow> w | None \<Rightarrow> 0),
                     la_Height = (case en_image_size env image of Some (_, h) \<Rightarrow> h | None \<Rightarrow> 0)\<rparr>,
                    \<lparr>la_Type = MsgAudio, la_FileName = ''captcha'' @ en_extension env audio_mime, la_Content = audio,
                     la_MimeType = audio_mime, la_Width = 0, la_Height = 0\<rparr>],
                 ls_Fields = [input_field ''captcha_code'' ''Captcha code'' LoginInputFieldTypeCaptchaCode]\<rparr>))))))
       else
         bnd (fill n lib env (labelled_input ''Enter characters'') captcha ''filling captcha code input'') (\<lambda>_.
           bnd (tap n lib env ''Continue'' ''tapping continue'') (\<lambda>_. ret None)))"

definition step_MFALanding :: "nat \<Rightarrow> golib \<Rightarrow> outside \<Rightarrow> LoginStep option browse" where
  "step_MFALanding n lib env =
     bnd (page_FindDescendant (FilterByAttribute ''bk.data.TextSpan'' ''text'' ''Try another way'')) (\<lambda>cur.
       bnd (getb b_State) (\<lambda>st.
         if FindContainingButton cur = [] \<and> st = StatePossibleMandatoryAFADPAge
         then bnd (set_state StateAFADPage) (\<lambda>_. ret None)
         else bnd (wrapping ''tapping method selection button''
             (on_page n lib env (\<lambda>ev. TapButton ev None (FindContainingButton cur)))) (\<lambda>_. ret None)))"

definition knownMethods :: "string list" where
  "knownMethods = [''Notification on another device'', ''Authentication app'', ''Email'', ''Text message'', ''Backup code'', ''WhatsApp'']"

text \<open>The typographic apostrophe of the heading is three bytes of UTF-8.\<close>

definition mfa_heading :: string where
  "mfa_heading = ''Choose a way to confirm it'' @ [CHR 0xE2, CHR 0x80, CHR 0x99] @ ''s you''"

definition mfa_items :: "cursor list browse" where
  "mfa_items =
     bnd (page_FindDescendant (FilterByAttribute ''bk.data.TextSpan'' ''text'' mfa_heading)) (\<lambda>heading.
       bnd (cursor_FindDescendant (FilterByAttribute ''bk.components.BoxDecoration'' ''border_width'' ''1dp'')
           (FindAncestor (FilterByComponent ''bk.components.Collection'') heading)) (\<lambda>box.
         ret (GetChildren (FindAncestor (FilterByComponent ''bk.components.Flexbox'') box) ''children'')))"

text \<open>The loop over the items: the methods found, each with the text that names it, and their names in order.\<close>

fun mfa_methods :: "(string \<times> cursor) list \<Rightarrow> string list \<Rightarrow> cursor list \<Rightarrow> ((string \<times> cursor) list \<times> string list) browse" where
  "mfa_methods found names [] = ret (found, names)"
| "mfa_methods found names (item # items) =
     bnd (cursor_FindDescendant (FilterByComponent ''bk.components.RichText'') item) (\<lambda>rich.
       case GetChildren rich ''spans'' of
         [] \<Rightarrow> panic
       | first # _ \<Rightarrow>
           bnd (cursor_FindDescendant (FilterByComponent ''bk.data.TextSpan'') first) (\<lambda>span.
             let meth = GetAttribute span ''text'' in
             if meth \<notin> set knownMethods then mfa_methods found names items
             else mfa_methods (AList.update meth span found) (names @ [meth]) items))"

definition step_ChooseMFA :: "nat \<Rightarrow> golib \<Rightarrow> outside \<Rightarrow> LoginStep option browse" where
  "step_ChooseMFA n lib env =
     bnd (bnd mfa_items (mfa_methods [] [])) (\<lambda>(found, names).
       if found = [] then errorf ''couldn't find any allowed mfa types''
       else bnd (user_input ''mfatype'') (\<lambda>mfatype.
         let chosen = (if mfatype = [] \<and> length found = 1 then hd names else mfatype) in
         if chosen = [] then
           ask ''mfa_type'' ''Choose how to finish signing in''
             [(input_field ''mfatype'' ''Login method'' LoginInputFieldTypeSelect)\<lparr>lf_Options := names\<rparr>]
         else (case map_of found chosen of
             None \<Rightarrow> errorf (''not a valid mfa method: '' @ chosen)
           | Some label \<Rightarrow>
               bnd (wrapping (''tapping '' @ [CHR 0x22] @ chosen @ [CHR 0x22] @ '' button'')
                   (on_page n lib env (\<lambda>ev. TapButton ev None (FindContainingButton label)))) (\<lambda>_.
                 bnd (tap n lib env ''Continue'' ''tapping continue button'') (\<lambda>_. ret None)))))"

definition step_AFADPage :: "nat \<Rightarrow> golib \<Rightarrow> outside \<Rightarrow> LoginStep option browse" where
  "step_AFADPage n lib env =
     bnd (page_FindDescendant (\<lambda>c. tc_ComponentID c = ''bk.data.TextSpan'' \<and>
         has_prefix (GetAttribute [c] ''text'') ''We sent a notification'')) (\<lambda>notif.
       if notif = [] then errorf ''couldn't find AFAD notification info''
       else bnd (setb (b_AFADNotification_update (\<lambda>_. GetAttribute notif ''text''))) (\<lambda>_.
         bnd (page_FindDescendants (\<lambda>c. tc_ComponentID c = ''bk.components.VisibilityExtension'' \<and>
             GetScript [c] ''on_appear'' \<noteq> None)) (\<lambda>comps.
           bnd (run_scripts n lib env ''on_appear'' (List.map_filter (\<lambda>c. GetScript c ''on_appear'') comps)) (\<lambda>_. ret None))))"

definition step_OnMount :: "nat \<Rightarrow> golib \<Rightarrow> outside \<Rightarrow> string \<Rightarrow> LoginStep option browse" where
  "step_OnMount n lib env whr =
     bnd (page_FindDescendants (FilterByComponent ''bk.components.OnMount'')) (\<lambda>comps.
       bnd (run_scripts n lib env (whr @ '' on_mount script'') (List.map_filter (\<lambda>c. GetScript c ''on_first_mount'') comps))
         (\<lambda>_. ret None))"

definition login_case :: "nat \<Rightarrow> golib \<Rightarrow> outside \<Rightarrow> BrowserState \<Rightarrow> LoginStep option browse" where
  "login_case n lib env st =
     (case st of
        StateTestCaptcha \<Rightarrow> step_TestCaptcha env
      | StateInitial \<Rightarrow> step_Initial n lib env
      | StateEnteredCaptchaAction \<Rightarrow> step_EnteredCaptcha n lib env
      | StateMFALandingAPAction \<Rightarrow> step_APAction n lib env
      | StateChooseMFAAPAction \<Rightarrow> step_APAction n lib env
      | StateChosenMFAAPAction \<Rightarrow> step_APAction n lib env
      | StateEnteredEmailCodeAPAction \<Rightarrow> step_APAction n lib env
      | StateAFADAction \<Rightarrow> step_AFADAction n lib env
      | StateEnteredEmailPasswordAction \<Rightarrow> step_EnteredEmailPassword n lib env
      | StateEnteredEmailCodeAction \<Rightarrow> step_EnteredEmailCode n lib env
      | StateEnteredTOTPAction \<Rightarrow> step_EnteredCode n lib env ''totp_code'' StateTOTPPage
      | StateEnteredSMSAction \<Rightarrow> step_EnteredCode n lib env ''sms_code'' StateSMSPageAfterSend
      | StateEnteredWhatsAppAction \<Rightarrow> step_EnteredCode n lib env ''whatsapp_code'' StateWhatsAppPageAfterSend
      | StateEnteredBackupCodeAction \<Rightarrow> step_EnteredCode n lib env ''backup_code'' StateBackupCodePage
      | StateRedirectToLoginAction \<Rightarrow> step_Redirect n lib env
      | StateRedirectToMFALandingAction \<Rightarrow> step_Redirect n lib env
      | StateChosenMFAAction \<Rightarrow> step_Redirect n lib env
      | StateAFADCompleteAction \<Rightarrow> step_Redirect n lib env
      | StateEmailPasswordPage \<Rightarrow> step_EmailPassword n lib env
      | StateEmailCodePage \<Rightarrow> step_EmailCodePage n lib env
      | StateBackupCodePage \<Rightarrow> step_BackupCodePage n lib env
      | StateCaptchaPage \<Rightarrow> step_Captcha n lib env
      | StateMFALandingPage \<Rightarrow> step_MFALanding n lib env
      | StatePossibleMandatoryAFADPAge \<Rightarrow> step_MFALanding n lib env
      | StateChooseMFAPage \<Rightarrow> step_ChooseMFA n lib env
      | StateTOTPPage \<Rightarrow> step_TOTPPage n lib env
      | StateAFADPage \<Rightarrow> step_AFADPage n lib env
      | StateAFADWait \<Rightarrow> bnd (set_state StateAFADPage) (\<lambda>_. ret None)
      | StateOAuthPage \<Rightarrow> errorf ''can't handle Google OAuth yet''
      | StateSMSPage \<Rightarrow> step_OnMount n lib env ''sms''
      | StateSMSPageAfterSend \<Rightarrow> step_SMSCodePage n lib env
      | StateWhatsAppPage \<Rightarrow> step_OnMount n lib env ''whatsapp''
      | StateWhatsAppPageAfterSend \<Rightarrow> step_WhatsAppCodePage n lib env
      | _ \<Rightarrow> errorf (''unexpected state '' @ state_text st))"

definition DoLoginStep :: "nat \<Rightarrow> golib \<Rightarrow> outside \<Rightarrow> LoginStep option browse" where
  "DoLoginStep n lib env =
     bnd (getb b_State) (\<lambda>prev. bnd (login_case n lib env prev) (\<lambda>step. bnd (getb b_State) (\<lambda>st.
       if st = prev \<and> step = None then errorf (''handling '' @ state_text prev @ '' failed to advance flow'')
       else ret step)))"

text \<open>\<^verbatim>\<open>DoLoginSteps\<close>: steps until one asks for something or the login is done, at most \<open>k\<close> of them. The result is
  the step to show, or the data of the login.\<close>

primrec DoLoginSteps :: "nat \<Rightarrow> nat \<Rightarrow> golib \<Rightarrow> outside \<Rightarrow> (LoginStep + string) browse" where
  "DoLoginSteps 0 n lib env = (\<lambda>s. IFuel)"
| "DoLoginSteps (Suc k) n lib env =
     bnd (getb b_State) (\<lambda>st.
       if st = StateSuccess then bnd (getb b_LoginData) (\<lambda>data. ret (Inr data))
       else bnd (DoLoginStep n lib env) (\<lambda>step. case step of
           Some s \<Rightarrow> ret (Inl s) | None \<Rightarrow> DoLoginSteps k n lib env))"

end
