(* ===== verification/Bloks_World.thy ===== *)
theory Bloks_World
  imports Bloks_Tree
begin

text \<open>
  What scripts can do to the world. The interpreter touches the caller's world only through the bridge: a reflexive and
  transitive relation that every function of the bridge keeps between the world before and after holds
  across any evaluation, whatever the script, the state of the interpreter and the amount of fuel. The
  contract is a pair of locales, the preorder and the bridge that respects it.
\<close>

section \<open>Weakest preconditions\<close>

text \<open>\<open>wp m E Q s\<close>: run from \<open>s\<close>, an error of \<open>m\<close> leaves a state with \<open>E\<close> and a value one with \<open>Q\<close>.\<close>

definition wp :: "('w, 'a) comp \<Rightarrow> ('w istate \<Rightarrow> bool) \<Rightarrow> ('a \<Rightarrow> 'w istate \<Rightarrow> bool) \<Rightarrow> 'w istate \<Rightarrow> bool" where
  "wp m E Q s = (case m s of IFuel \<Rightarrow> True | IPanic \<Rightarrow> True | IFail e t \<Rightarrow> E t | IVal v t \<Rightarrow> Q v t)"

lemma wp_ret [simp]: "wp (ret v) E Q s = Q v s"
  by (simp add: wp_def ret_def)

lemma wp_fail [simp]: "wp (fail e) E Q s = E s"
  by (simp add: wp_def fail_def)

lemma wp_panic [simp]: "wp panic E Q s" and wp_fuel [simp]: "wp (\<lambda>s. IFuel) E Q s"
  by (simp_all add: wp_def panic_def)

lemma wp_gets [simp]: "wp (gets f) E Q s = Q (f s) s"
  by (simp add: wp_def gets_def)

lemma wp_modify [simp]: "wp (modify f) E Q s = Q () (f s)"
  by (simp add: wp_def modify_def)

lemma wp_bnd [simp]: "wp (bnd m f) E Q s = wp m E (\<lambda>v. wp (f v) E Q) s"
  by (simp add: wp_def bnd_def split: ires.split)

lemma wp_attempt [simp]: "wp (attempt m) E Q s = wp m (\<lambda>t. \<forall>e. m s = IFail e t \<longrightarrow> Q (Inl e) t) (\<lambda>v. Q (Inr v)) s"
  by (auto simp: wp_def attempt_def split: ires.split)

lemma wp_mono: "wp m E Q s \<Longrightarrow> (\<And>t. E t \<Longrightarrow> E' t) \<Longrightarrow> (\<And>v t. Q v t \<Longrightarrow> Q' v t) \<Longrightarrow> wp m E' Q' s"
  by (auto simp: wp_def split: ires.splits)

definition stays :: "('w \<Rightarrow> 'w \<Rightarrow> bool) \<Rightarrow> ('w, 'a) comp \<Rightarrow> bool" where
  "stays R m \<longleftrightarrow> (\<forall>s. wp m (\<lambda>t. R (is_world s) (is_world t)) (\<lambda>_ t. R (is_world s) (is_world t)) s)"

lemma stays_wp:
  "stays R m \<Longrightarrow> (\<And>t. R (is_world s) (is_world t) \<Longrightarrow> E t) \<Longrightarrow> (\<And>v t. R (is_world s) (is_world t) \<Longrightarrow> Q v t) \<Longrightarrow> wp m E Q s"
  by (auto simp: stays_def intro: wp_mono)

named_theorems stays_intros

definition steady :: "('w \<Rightarrow> 'w \<Rightarrow> bool) \<Rightarrow> 'w evaluator \<Rightarrow> bool" where
  "steady R ev \<longleftrightarrow> (\<forall>ctx form. stays R (ev ctx form))"

section \<open>Preorders on the world\<close>

locale world_preorder =
  fixes R :: "'w \<Rightarrow> 'w \<Rightarrow> bool"
  assumes R_refl: "R w w"
    and R_trans: "R u v \<Longrightarrow> R v w \<Longrightarrow> R u w"
begin

lemma stays_pure [stays_intros]:
  "stays R (ret v)" "stays R (fail e)" "stays R panic" "stays R (gets f)" "stays R (\<lambda>s. IFuel)"
  by (simp_all add: stays_def R_refl)

lemma stays_modify: "(\<And>s. is_world (f s) = is_world s) \<Longrightarrow> stays R (modify f)"
  by (simp add: stays_def R_refl)

lemma stays_bnd [stays_intros]:
  assumes "stays R m" and "\<And>v. stays R (f v)"
  shows "stays R (bnd m f)"
  unfolding stays_def wp_bnd
proof (intro allI stays_wp [OF assms(1)])
  fix s t :: "'w istate" and v
  assume "R (is_world s) (is_world t)"
  then show "wp (f v) (\<lambda>t. R (is_world s) (is_world t)) (\<lambda>_ t. R (is_world s) (is_world t)) t"
    by (intro stays_wp [OF assms(2)]) (auto intro: R_trans)
qed

lemma stays_attempt [stays_intros]: "stays R m \<Longrightarrow> stays R (attempt m)"
  by (auto simp: stays_def elim!: wp_mono)

lemma stays_wrap [stays_intros]: "stays R m \<Longrightarrow> stays R (wrap_error name m)" "stays R m \<Longrightarrow> stays R (wrapping name m)"
  unfolding stays_def by (auto simp: wp_def wrap_error_def wrapping_def split: ires.splits)

lemma stays_heap [stays_intros]:
  "stays R (new_dict d)" "stays R (new_lambda l)" "stays R (new_args xs)" "stays R (deref h a)" "stays R (Value lit)"
  "stays R (arg args k)" "stays R (set_global x v)" "stays R (ambientArgs ctx)"
  by (auto simp: new_dict_def new_lambda_def new_args_def deref_def Value_def arg_def set_global_def ambientArgs_def
      intro!: stays_bnd stays_pure stays_modify split: option.split)

end

section \<open>The bridge\<close>

locale world_bridge = world_preorder R for R :: "'w \<Rightarrow> 'w \<Rightarrow> bool" +
  fixes br :: "'w InterpBridge"
  assumes EncryptPassword_stays: "stays R (br_EncryptPassword br pw)"
    and DoRPC_stays: "stays R (br_DoRPC br ctx name params page cb)"
    and DisplayNewScreen_stays: "stays R (br_DisplayNewScreen br ctx name a)"
    and HandleLoginResponse_stays: "stays R (br_HandleLoginResponse br data)"
    and StartTimer_stays: "stays R (br_StartTimer br name i c)"
    and OpenURL_stays: "stays R (br_OpenURL br url)"
    and HandleVariableChange_stays: "stays R (br_HandleVariableChange br x v)"
begin

lemmas bridge_stays = EncryptPassword_stays DoRPC_stays DisplayNewScreen_stays HandleLoginResponse_stays StartTimer_stays
  OpenURL_stays HandleVariableChange_stays

lemma loops_stay [stays_intros]:
  "stays R (map_make d ks vs)" "stays R (strings_of_literals xs)" "stays R (flat_params ms)"
proof -
  show "stays R (map_make d ks vs)"
    by (induction d ks vs rule: map_make.induct) (auto intro!: stays_intros split: option.split)
  show "stays R (strings_of_literals xs)" by (induction xs) (auto intro!: stays_intros split: option.split)
  show "stays R (flat_params ms)"
    by (induction ms rule: flat_params.induct) (auto intro!: stays_intros split: option.split)
qed

lemma evalAs_stays [stays_intros]: "steady R ev \<Longrightarrow> stays R (evalAs cast ev ctx form whr)"
  by (auto simp: evalAs_def steady_def intro!: stays_intros split: option.split)

lemma arg_stays [stays_intros]:
  "steady R ev \<Longrightarrow> stays R (eval_arg ev ctx args k)" "steady R ev \<Longrightarrow> stays R (arg_as cast ev ctx args k whr)"
  by (auto simp: eval_arg_def arg_as_def intro!: stays_intros) (auto simp: steady_def)

lemma ev_loops_stay [stays_intros]:
  assumes "steady R ev"
  shows "stays R (ev_TakeLast ev ctx v args)" "stays R (apply_args ev ctx pos vs args)" "stays R (eval_all ev ctx args)"
proof -
  note ev = assms [unfolded steady_def, rule_format]
  show "stays R (ev_TakeLast ev ctx v args)" by (induction args arbitrary: v) (auto intro!: stays_intros ev)
  show "stays R (apply_args ev ctx pos vs args)" by (induction args arbitrary: pos vs) (auto intro!: stays_intros ev)
  show "stays R (eval_all ev ctx args)" by (induction args) (auto intro!: stays_intros ev)
qed

lemma tree_loop_stays: "steady R ev \<Longrightarrow> stays R (tree_loop wanted cast ev ctx whr le args)"
  by (induction wanted cast ev ctx whr le args rule: tree_loop.induct)
    (auto intro!: stays_intros split: sum.split)

lemma eval_tree_stays: "steady R ev \<Longrightarrow> stays R (eval_tree wanted cast ev ctx form whr)"
  by (auto simp: eval_tree_def intro!: stays_intros tree_loop_stays split: bnode.split)

lemma tree_stays [stays_intros]:
  "steady R ev \<Longrightarrow> stays R (evalTreeProp35 ev ctx form whr)" "steady R ev \<Longrightarrow> stays R (evalTreeCallback ev ctx form whr)"
  by (simp_all add: evalTreeProp35_def evalTreeCallback_def eval_tree_stays)

lemma ref_name_stays [stays_intros]: "steady R ev \<Longrightarrow> stays R (ref_name ev ctx args)"
  by (auto simp: ref_name_def intro!: stays_intros split: bnode.split)

lemma control_stays:
  assumes "steady R ev"
  shows "stays R (ev_If ev ctx args)" "stays R (ev_Or ev ctx args)" "stays R (ev_And ev ctx args)" "stays R (ev_Not ev ctx args)"
    "stays R (ev_Apply ev ctx args)" "stays R (ev_FuncConst args)" "stays R (ev_GetArg ev ctx args)" "stays R (ev_SetArg ev ctx args)"
    "stays R (ev_Bind ev ctx args)" "stays R (ev_h9a ev ctx args)" "stays R (ev_GetByValOr ev ctx args)"
  by (auto simp: ev_If_def ev_Or_def ev_And_def ev_Not_def ev_Apply_def ev_FuncConst_def ev_GetArg_def ev_SetArg_def
      ev_Bind_def ev_h9a_def ev_GetByValOr_def intro!: stays_intros stays_modify assms [unfolded steady_def, rule_format] assms split: option.split)

lemma variable_stays:
  assumes "steady R ev"
  shows "stays R (ev_GetVariable ev ctx args)" "stays R (ev_WriteLocal ev ctx args)" "stays R (ev_WriteGlobal br ev ctx args)"
    "stays R (ev_GetScript ev ctx args)" "stays R (ev_GetPayload ev ctx args)" "stays R (ev_RefRead ev ctx args)"
    "stays R (ev_RefWrite ev ctx args)"
  by (auto simp: ev_GetVariable_def ev_WriteLocal_def ev_WriteGlobal_def ev_GetScript_def ev_GetPayload_def ev_RefRead_def
      ev_RefWrite_def intro!: stays_intros stays_modify bridge_stays assms split: option.split)

lemma value_stays:
  assumes "steady R ev"
  shows "stays R (ev_Eq ev ctx args)" "stays R (ev_compare rel l r ev ctx args)" "stays R (ev_AsNonnull ev ctx args)"
    "stays R (ev_AssertType ev ctx args)" "stays R (ev_TypeOf ev ctx args)" "stays R (ev_StringLength ev ctx args)"
    "stays R (ev_MatchesRegex lib ev ctx args)" "stays R (ev_GetText ev ctx args)" "stays R (ev_EncryptPassword br ev ctx args)"
    "stays R (ev_IsAppInstalled br ev ctx args)" "stays R (ev_CheckPermission br ev ctx args)" "stays R (ev_SecureNonces br)"
  by (auto simp: ev_Eq_def ev_compare_def ev_AsNonnull_def ev_AssertType_def ev_TypeOf_def ev_StringLength_def ev_MatchesRegex_def
      ev_GetText_def ev_EncryptPassword_def ev_IsAppInstalled_def ev_CheckPermission_def ev_SecureNonces_def
      intro!: stays_intros bridge_stays assms split: option.split)

lemma collection_stays:
  assumes "steady R ev"
  shows "stays R (ev_ArrayMake ev ctx args)" "stays R (ev_ArrayLength ev ctx args)" "stays R (ev_MapMake ev ctx args)"
    "stays R (ev_CallRuntime ev ctx args)" "stays R (ev_Put ev ctx args)" "stays R (ev_InByVal ev ctx args)"
    "stays R (ev_MapGet ev ctx args)" "stays R (ev_Merge ev ctx args)" "stays R (ev_JsonEncode lib ev ctx args)"
  by (auto simp: ev_ArrayMake_def ev_ArrayLength_def ev_MapMake_def ev_CallRuntime_def ev_Put_def ev_InByVal_def ev_MapGet_def
      ev_Merge_def ev_JsonEncode_def intro!: stays_intros stays_modify assms split: option.split flres.split)

lemma effect_stays:
  assumes "steady R ev"
  shows "stays R (ev_AsyncAction lib br ev ctx args)" "stays R (ev_PushScreen lib br ev ctx args)"
    "stays R (ev_OpenSyncScreen br ev ctx args)" "stays R (ev_LoginResponse br ev ctx args)" "stays R (ev_TimerStart br ev ctx args)"
    "stays R (ev_OpenUrl br ev ctx args)" "stays R (ev_OpenDialog ev ctx args)" "stays R (ev_Checkpoints ev ctx args)"
  by (auto simp: ev_AsyncAction_def ev_PushScreen_def ev_OpenSyncScreen_def ev_LoginResponse_def ev_TimerStart_def ev_OpenUrl_def
      ev_OpenDialog_def ev_Checkpoints_def intro!: stays_intros bridge_stays assms split: option.split)

lemmas builtin_stays = control_stays variable_stays value_stays collection_stays effect_stays

lemma ev_builtin_stays: "steady R ev \<Longrightarrow> stays R (ev_builtin lib br b ev ctx args)"
  unfolding ev_builtin_def by (cases b) (auto intro!: builtin_stays stays_intros)

text \<open>The contract: evaluation changes the world only as the bridge does.\<close>

lemma Evaluate_stays: "stays R (Evaluate n lib br ctx form)"
proof (induction n arbitrary: ctx form)
  case (Suc n)
  then have "steady R (Evaluate n lib br)" by (simp add: steady_def)
  then show ?case by (auto simp: eval_form_def intro!: stays_intros ev_builtin_stays split: bnode.split option.split)
qed (simp add: stays_intros)

lemma run_callback_stays: "stays R (run_callback n lib br c results)"
  by (auto simp: run_callback_def intro!: stays_intros Evaluate_stays)

lemma FromJavaScript_stays:
  "stays R (FromJavaScript j)" "stays R (from_items js)" "stays R (from_members ms)"
  by (induction j and js and ms rule: FromJavaScript_from_items_from_members.induct) (auto intro!: stays_intros)

lemma init_var_stays: "stays R m \<Longrightarrow> stays R (init_var old item m)"
  by (auto simp: init_var_def intro!: stays_intros stays_modify split: option.split)

lemma init_stays:
  "stays R (init_static old items)" "stays R (init_dynamic n lib br ctx old items)" "stays R (new_scripts ss)"
proof -
  show "stays R (init_static old items)"
    by (induction items) (auto intro!: stays_intros init_var_stays FromJavaScript_stays split: option.split)
  show "stays R (init_dynamic n lib br ctx old items)"
    by (induction items) (auto intro!: stays_intros init_var_stays Evaluate_stays split: option.split)
  show "stays R (new_scripts ss)"
    by (induction ss rule: new_scripts.induct) (auto intro!: stays_intros stays_modify)
qed

lemma NewInterpreter_stays: "mk bo = br \<Longrightarrow> stays R (NewInterpreter n lib mk bo ctx scripts embedded vars old)"
  unfolding NewInterpreter_def by (simp, intro stays_intros stays_modify init_stays) simp

end

text \<open>Handlers of components, over any evaluator that keeps the relation.\<close>

context world_preorder
begin

lemma InterpBindThis_stays: "stays R (InterpBindThis ctx this)"
  by (auto simp: InterpBindThis_def intro!: stays_intros stays_modify split: option.split)

lemma run_handler_stays: "steady R ev \<Longrightarrow> stays R (run_handler ev ctx c name ast)"
  by (auto simp: run_handler_def steady_def intro!: stays_intros InterpBindThis_stays)

lemma handlers_stay:
  assumes "steady R ev"
  shows "stays R (FillInput ev ctx cur txt)" "stays R (TapButton ev ctx cur)" "stays R (GetDynamicAttribute ev ctx c name)"
proof -
  show "stays R (FillInput ev ctx cur txt)"
    by (auto simp: FillInput_def SetTextContent_def intro!: stays_intros stays_modify run_handler_stays assms
        split: list.split option.split tnode.split)
  show "stays R (TapButton ev ctx cur)"
    by (auto simp: TapButton_def intro!: stays_intros run_handler_stays assms split: list.split option.split)
  show "stays R (GetDynamicAttribute ev ctx c name)"
    by (auto simp: GetDynamicAttribute_def evalAs_def intro!: stays_intros assms [unfolded steady_def, rule_format]
        split: option.split tnode.split)
qed

end

end
