(* ===== verification/Bloks_Login.thy ===== *)
theory Bloks_Login
  imports Bloks_Browser Bloks_World
begin

text \<open>
  What the login keeps, whatever the server sends: the relation \<open>advances\<close> between the browser before and after
  holds across every function of the bridge, hence across the evaluation of every script, hence across every
  step. It carries the invariant of the login.
\<close>

section \<open>The invariant\<close>

abbreviation send_login_request :: string where
  "send_login_request \<equiv> ''com.bloks.www.bloks.caa.login.async.send_login_request''"

text \<open>A bundle whose interpreter is set up.\<close>

definition live :: "Browser \<Rightarrow> addr \<Rightarrow> bool" where
  "live b a \<longleftrightarrow> a < length (b_bundles b) \<and>
     (case hb_Interpreter (b_bundles b ! a) of None \<Rightarrow> False | Some i \<Rightarrow> i < length (b_interps b))"

definition live_pointer :: "Browser \<Rightarrow> addr option \<Rightarrow> bool" where
  "live_pointer b p \<longleftrightarrow> (case p of None \<Rightarrow> False | Some a \<Rightarrow> live b a)"

definition requested :: "Browser \<Rightarrow> string \<Rightarrow> bool" where
  "requested b name \<longleftrightarrow> name \<in> set (map (\<lambda>rq. ro_AppID (snd rq)) (b_requests b))"

definition starting :: "BrowserState list" where
  "starting = [StateInitial, StateTestCaptcha]"

definition before_credentials :: "BrowserState list" where
  "before_credentials = [StateInitial, StateTestCaptcha, StateRedirectToLoginAction, StateEmailPasswordPage, StateUnknown]"

definition login_inv :: "Browser \<Rightarrow> bool" where
  "login_inv b \<longleftrightarrow>
     (b_State b \<in> set starting \<or> live_pointer b (b_CurrentAction b)) \<and>
     (b_State b \<in> set starting \<or> b_State b = StateRedirectToLoginAction \<or> live_pointer b (b_CurrentPage b)) \<and>
     (b_State b \<in> set before_credentials \<or> requested b send_login_request) \<and>
     (b_LoginData b = [] \<or> requested b send_login_request)"

text \<open>The heaps and the record of requests only grow, and pages and actions stay.\<close>

definition extends :: "Browser \<Rightarrow> Browser \<Rightarrow> bool" where
  "extends b c \<longleftrightarrow> length (b_bundles b) \<le> length (b_bundles c) \<and> length (b_interps b) \<le> length (b_interps c) \<and>
     prefix (b_requests b) (b_requests c) \<and> (\<forall>a. live b a \<longrightarrow> live c a) \<and>
     (live_pointer b (b_CurrentAction b) \<longrightarrow> live_pointer c (b_CurrentAction c)) \<and>
     (live_pointer b (b_CurrentPage b) \<longrightarrow> live_pointer c (b_CurrentPage c))"

definition advances :: "Browser \<Rightarrow> Browser \<Rightarrow> bool" where
  "advances b c \<longleftrightarrow> extends b c \<and> (login_inv b \<longrightarrow> login_inv c)"

interpretation progress: world_preorder advances
  by unfold_locales (auto simp: advances_def extends_def)

lemma requested_extends: "requested b name \<Longrightarrow> extends b c \<Longrightarrow> requested c name"
  by (auto simp: requested_def extends_def dest: set_mono_prefix)

lemma extends_trans: "extends a b \<Longrightarrow> extends b c \<Longrightarrow> extends a c"
  by (auto simp: extends_def)

lemma extendsI:
  assumes "length (b_bundles b) \<le> length (b_bundles c)" and "length (b_interps b) \<le> length (b_interps c)"
    and "prefix (b_requests b) (b_requests c)" and "\<And>a. live b a \<Longrightarrow> live c a"
    and "b_CurrentAction c = b_CurrentAction b" and "b_CurrentPage c = b_CurrentPage b"
  shows "extends b c"
  using assms by (auto simp: extends_def live_pointer_def split: option.splits)

text \<open>A change that leaves the state and the login data alone only has to grow.\<close>

lemma advances_quiet:
  assumes "extends b c" and "b_State c = b_State b" and "b_LoginData c = b_LoginData b"
  shows "advances b c"
  using assms requested_extends [OF _ assms(1)] by (auto simp: advances_def login_inv_def) (auto simp: extends_def)

lemma wp_getb [simp]: "wp (getb f) E Q s = Q (f (is_world s)) s"
  by (simp add: getb_def)

lemma wp_setb [simp]: "wp (setb f) E Q s = Q () (s\<lparr>is_world := f (is_world s)\<rparr>)"
  by (simp add: setb_def)

lemma wp_errorf [simp]: "wp (errorf msg) E Q s = E s"
  by (simp add: errorf_def)

lemma wp_some_or_panic [simp]: "wp (some_or_panic x) E Q s = (\<forall>y. x = Some y \<longrightarrow> Q y s)"
  by (cases x) (simp_all add: some_or_panic_def)

lemma wp_bundle_at [simp]:
  "wp (bundle_at a) E Q s = (a < length (b_bundles (is_world s)) \<longrightarrow> Q (b_bundles (is_world s) ! a) s)"
  by (simp add: bundle_at_def)

lemma stays_getb [stays_intros]: "stays advances (getb f)"
  by (simp add: getb_def stays_intros)

lemma stays_setb: "(\<And>b. advances b (f b)) \<Longrightarrow> stays advances (setb f)"
  by (simp add: stays_def)

lemma stays_pure_browse [stays_intros]:
  "stays advances (errorf msg)" "stays advances (some_or_panic x)" "stays advances (bundle_at a)"
  "stays advances (GetInterpreter p)" "stays advances (globals_of q)"
  by (auto simp: errorf_def some_or_panic_def bundle_at_def GetInterpreter_def globals_of_def
      intro!: stays_intros split: option.split)

text \<open>The fields that no part of the invariant reads.\<close>

lemma quiet_fields:
  "advances b (b\<lparr>b_LastError := x\<rparr>)" "advances b (b\<lparr>b_DisplayedURL := x\<rparr>)" "advances b (b\<lparr>b_AFADInterval := i\<rparr>)"
  "advances b (b\<lparr>b_userInput := m\<rparr>)" "advances b (b\<lparr>b_NumCaptchaAttempts := k\<rparr>)" "advances b (b\<lparr>b_AFADNotification := x\<rparr>)"
  "advances b (b\<lparr>b_AFADDisplayed := d\<rparr>)" "advances b (b\<lparr>b_AFADCallback := cb\<rparr>)" "advances b (b\<lparr>b_CaptchaCallback := cb\<rparr>)"
  by (auto intro!: advances_quiet extendsI simp: live_def split: option.splits)

section \<open>Interpreters\<close>

lemma extends_interps:
  "length (b_interps b) \<le> length is \<Longrightarrow> extends b (b\<lparr>b_interps := is, b_running := r\<rparr>)"
  by (rule extendsI) (auto simp: live_def split: option.splits)

lemma switch_advances: "advances (is_world s) (is_world (switch_to i s))"
  using extends_interps [of "is_world s" "parked s" i]
  by (auto simp: switch_to_def load_tables_def parked_def intro!: advances_quiet split: option.splits)

lemma in_interp_stays [stays_intros]:
  assumes "stays advances m"
  shows "stays advances (in_interp i m)"
proof -
  have "wp m (\<lambda>t. advances (is_world (switch_to (Some i) s)) (is_world t))
      (\<lambda>_ t. advances (is_world (switch_to (Some i) s)) (is_world t)) (switch_to (Some i) s)" for s
    using assms by (simp add: stays_def)
  then have "wp m (\<lambda>t. advances (is_world s) (is_world (switch_to r t)))
      (\<lambda>_ t. advances (is_world s) (is_world (switch_to r t))) (switch_to (Some i) s)" for s r
    by (rule wp_mono) (meson progress.R_trans switch_advances)+
  note kept = this
  have "wp (in_interp i m) (\<lambda>t. advances (is_world s) (is_world t)) (\<lambda>_ t. advances (is_world s) (is_world t)) s" for s
    using kept [of s "b_running (is_world s)"]
    by (cases "m (switch_to (Some i) s)") (simp_all add: wp_def in_interp_def)
  then show ?thesis by (simp add: stays_def)
qed

section \<open>Bundles\<close>

lemma alloc_prefix:
  "prefix h (snd (alloc_bundle b h)) \<and> fst (alloc_bundle b h) < length (snd (alloc_bundle b h))"
  "prefix h (snd (alloc_embedded bs h))"
  by (induction b h and bs h rule: alloc_bundle_alloc_embedded.induct)
    (auto split: prod.splits intro: prefix_order.trans prefixI)

lemma extends_bundles:
  assumes "prefix (b_bundles b) h"
  shows "extends b (b\<lparr>b_bundles := h, b_components := n\<rparr>)"
  using assms by (intro extendsI) (auto simp: live_def prefix_def nth_append split: option.splits)

lemma extends_requests: "extends b (b\<lparr>b_requests := b_requests b @ rs\<rparr>)"
  by (rule extendsI) (auto simp: live_def split: option.splits)

text \<open>A request is recorded, and a bundle it gives is in the heap.\<close>

lemma wp_MakeBloksRequest:
  "wp (MakeBloksRequest env rq) (\<lambda>t. advances (is_world s) (is_world t))
     (\<lambda>r t. advances (is_world s) (is_world t) \<and> requested (is_world t) (ro_AppID (snd rq))) s"
proof -
  have rq: "advances b (b\<lparr>b_requests := b_requests b @ [rq]\<rparr>)" for b
    by (rule advances_quiet [OF extends_requests]) simp_all
  have al: "advances b (b\<lparr>b_bundles := snd (alloc_bundle x (b_bundles b)), b_components := n\<rparr>)" for b x n
    using alloc_prefix(1) [of "b_bundles b" x] by (intro advances_quiet extends_bundles) simp_all
  note two = progress.R_trans [OF rq al]
  show ?thesis
    using rq two by (auto simp: MakeBloksRequest_def requested_def split: sum.split dres.split)
qed

lemma extends_setup:
  assumes "i < length (b_interps b)"
  shows "extends b (b\<lparr>b_bundles := (b_bundles b)[a := hb\<lparr>hb_Interpreter := Some i\<rparr>]\<rparr>)"
proof (rule extendsI)
  fix d
  assume "live b d"
  with assms show "live (b\<lparr>b_bundles := (b_bundles b)[a := hb\<lparr>hb_Interpreter := Some i\<rparr>]\<rparr>) d"
    by (cases "d = a") (auto simp: live_def split: option.splits)
qed simp_all

text \<open>After \<^verbatim>\<open>SetupInterpreter\<close> the bundle is live.\<close>

lemma wp_SetupInterpreter:
  assumes "world_bridge advances (the_bridge bo)"
  shows "wp (SetupInterpreter n lib bo ctx a prev) (\<lambda>t. advances (is_world s) (is_world t))
     (\<lambda>_ t. advances (is_world s) (is_world t) \<and> live (is_world t) a) s"
proof -
  let ?s = "s\<lparr>is_world := (is_world s)\<lparr>b_interps := b_interps (is_world s) @ [no_tables]\<rparr>\<rparr>"
  have new: "advances (is_world s) (is_world ?s)"
    using extends_interps [of "is_world s" "b_interps (is_world s) @ [no_tables]" "b_running (is_world s)"]
    by (intro advances_quiet) simp_all
  have st: "stays advances (in_interp i (NewInterpreter n lib the_bridge bo ctx ss es vs old))" for i ss es vs old
    by (intro stays_intros world_bridge.NewInterpreter_stays [OF assms] refl)
  have fin: "advances (is_world s) (is_world t) \<and> a < length (b_bundles (is_world t)) \<and>
      length (b_interps (is_world s)) < length (b_interps (is_world t))"
    if "advances (is_world ?s) (is_world t)" "a < length (b_bundles (is_world s))" for t
    using progress.R_trans [OF new that(1)] that by (simp add: advances_def extends_def)
  have upd: "advances b (b\<lparr>b_bundles := (b_bundles b)[a := (b_bundles b ! a)\<lparr>hb_Interpreter := Some i\<rparr>]\<rparr>)"
    if "i < length (b_interps b)" for b i
    by (rule advances_quiet [OF extends_setup [OF that]]) simp_all
  show ?thesis
    unfolding SetupInterpreter_def globals_of_def
    by (auto intro!: stays_wp [OF st] dest!: fin intro: progress.R_trans [OF _ upd] simp: live_def)
qed

section \<open>Transitions\<close>

text \<open>
  A table of transitions leads from states after the first page to such states, and past the credentials only from there
  or by the request that sends them.
\<close>

definition table_ok :: "string \<Rightarrow> (BrowserState \<times> BrowserState) list \<Rightarrow> bool" where
  "table_ok name table \<longleftrightarrow> list_all (\<lambda>(src, dst).
     src \<notin> set starting \<and> dst \<notin> set starting \<and> dst \<noteq> StateRedirectToLoginAction \<and>
     (dst \<in> set before_credentials \<or> src \<notin> set before_credentials \<or> name = send_login_request)) table"

lemma rpc_tables_ok: "list_all (\<lambda>(name, table). table_ok name table \<and>
    list_all (\<lambda>(src, dst). src \<noteq> StateRedirectToLoginAction) table) rpc_transitions"
  by code_simp

lemma screen_tables_ok: "list_all (\<lambda>(name, table). table_ok name table) screen_transitions"
  by code_simp

lemma login_table_ok: "table_ok [] login_transitions"
  by code_simp

lemma login_sources: "map_of login_transitions st = Some st' \<Longrightarrow> st \<notin> set before_credentials"
  by (auto simp: login_transitions_def before_credentials_def dest!: map_of_SomeD)

lemma next_state_known: "next_state table st \<noteq> StateUnknown \<Longrightarrow> \<exists>st'. map_of table st = Some st'"
  by (auto simp: next_state_def split: option.splits)

lemma live_state [simp]: "live (b\<lparr>b_State := st\<rparr>) a = live b a"
  by (simp add: live_def split: option.split)

lemma live_pointer_state [simp]: "live_pointer (b\<lparr>b_State := st\<rparr>) p = live_pointer b p"
  by (simp add: live_pointer_def split: option.split)

lemma requested_state [simp]: "requested (b\<lparr>b_State := st\<rparr>) name = requested b name"
  by (simp add: requested_def)

lemma extends_state: "extends b (b\<lparr>b_State := st\<rparr>)"
  by (simp add: extends_def)

text \<open>Moving along a table keeps the invariant when page and action are there and the request is recorded.\<close>

lemma login_inv_next:
  assumes "login_inv b" and "live_pointer b (b_CurrentAction b)" and "live_pointer b (b_CurrentPage b)"
    and "table_ok name table" and "name = send_login_request \<Longrightarrow> requested b name"
  shows "login_inv (b\<lparr>b_State := next_state table (b_State b)\<rparr>)"
proof (cases "map_of table (b_State b)")
  case None
  then show ?thesis using assms(1-3) by (simp add: login_inv_def next_state_def before_credentials_def)
next
  case (Some st)
  then have "(b_State b, st) \<in> set table" by (rule map_of_SomeD)
  with assms(4) have "st \<in> set before_credentials \<or> b_State b \<notin> set before_credentials \<or> name = send_login_request"
    by (fastforce simp: table_ok_def list_all_iff)
  with Some assms(1-3,5) show ?thesis by (auto simp: login_inv_def next_state_def)
qed

lemma on_entry_inv:
  assumes "login_inv b" and "live_pointer b (b_CurrentAction b)" and "live_pointer b (b_CurrentPage b)"
  shows "login_inv (on_entry cb b)"
proof -
  have "advances b (b\<lparr>b_AFADCallback := cb\<rparr>)" "advances b (b\<lparr>b_CaptchaCallback := cb\<rparr>)" by (rule quiet_fields)+
  then have "login_inv (b\<lparr>b_AFADCallback := cb\<rparr>)" "login_inv (b\<lparr>b_CaptchaCallback := cb\<rparr>)"
    using assms(1) by (auto simp: advances_def)
  then show ?thesis using assms
    by (cases "b_State b") (auto simp: on_entry_def, auto simp: login_inv_def before_credentials_def)
qed

lemma on_entry_extends: "extends b (on_entry cb b)"
  using quiet_fields(8) [of b cb] quiet_fields(9) [of b cb]
  by (cases "b_State b") (auto simp: on_entry_def advances_def extends_state, auto simp: extends_def)

text \<open>A live bundle becomes the page or the action.\<close>

lemma extends_pointer:
  assumes "live b a"
  shows "extends b (b\<lparr>b_CurrentPage := Some a\<rparr>)" "extends b (b\<lparr>b_CurrentAction := Some a\<rparr>)"
  using assms by (auto simp: extends_def live_pointer_def live_def split: option.splits)

lemma advances_pointer:
  assumes "live b a"
  shows "advances b (b\<lparr>b_CurrentPage := Some a\<rparr>)" "advances b (b\<lparr>b_CurrentAction := Some a\<rparr>)"
  using extends_pointer [OF assms] by (auto intro: advances_quiet)

lemma extends_pointers:
  "extends b c \<Longrightarrow> live_pointer b (b_CurrentAction b) \<Longrightarrow> live_pointer c (b_CurrentAction c)"
  "extends b c \<Longrightarrow> live_pointer b (b_CurrentPage b) \<Longrightarrow> live_pointer c (b_CurrentPage c)"
  by (simp_all add: extends_def)

section \<open>The functions of the bridge\<close>

definition setup_ok :: "(ictx \<Rightarrow> addr \<Rightarrow> addr option \<Rightarrow> unit browse) \<Rightarrow> bool" where
  "setup_ok setup \<longleftrightarrow> (\<forall>ctx a prev s. wp (setup ctx a prev) (\<lambda>t. advances (is_world s) (is_world t))
     (\<lambda>_ t. advances (is_world s) (is_world t) \<and> live (is_world t) a) s)"

text \<open>What \<^verbatim>\<open>DoRPC\<close> does once the new bundle is set up.\<close>

lemma rpc_entered:
  assumes "map_of rpc_transitions name = Some table" and "next_state table (b_State b0) \<noteq> StateUnknown"
    and "advances b0 b" and "live b a" and "requested b name"
    and "c = (if isPage then b\<lparr>b_CurrentPage := Some a\<rparr> else b\<lparr>b_CurrentAction := Some a\<rparr>)"
  shows "advances b0 (on_entry cb (c\<lparr>b_State := next_state table (b_State c)\<rparr>))"
proof -
  obtain st where "map_of table (b_State b0) = Some st" using next_state_known assms(2) by blast
  then have "(b_State b0, st) \<in> set table" by (rule map_of_SomeD)
  moreover have ok: "table_ok name table" "list_all (\<lambda>(src, dst). src \<noteq> StateRedirectToLoginAction) table"
    using rpc_tables_ok map_of_SomeD [OF assms(1)] by (auto simp: list_all_iff)
  ultimately have src: "b_State b0 \<notin> set starting" "b_State b0 \<noteq> StateRedirectToLoginAction"
    by (auto simp: table_ok_def list_all_iff)
  have c: "advances b0 c" using assms(3,6) advances_pointer [OF assms(4)] by (auto intro: progress.R_trans)
  have "extends c (c\<lparr>b_State := next_state table (b_State c)\<rparr>)" by (rule extends_state)
  then have ext: "extends b0 (on_entry cb (c\<lparr>b_State := next_state table (b_State c)\<rparr>))"
    using c on_entry_extends by (meson advances_def extends_trans)
  have "requested c name" using assms(5,6) by (auto simp: requested_def)
  then have "login_inv (on_entry cb (c\<lparr>b_State := next_state table (b_State c)\<rparr>))" if "login_inv b0"
    using that c src extends_pointers [of b0 c] ok(1)
    by (intro on_entry_inv login_inv_next) (auto simp: advances_def login_inv_def)
  with ext show ?thesis by (simp add: advances_def)
qed

lemma wp_setup:
  assumes "setup_ok setup" and "advances w (is_world s)" and "\<And>t. advances w (is_world t) \<Longrightarrow> E t"
    and "\<And>v t. advances w (is_world t) \<Longrightarrow> advances (is_world s) (is_world t) \<Longrightarrow> live (is_world t) a \<Longrightarrow> Q v t"
  shows "wp (setup ctx a prev) E Q s"
proof -
  have "wp (setup ctx a prev) (\<lambda>t. advances (is_world s) (is_world t))
      (\<lambda>_ t. advances (is_world s) (is_world t) \<and> live (is_world t) a) s"
    using assms(1) by (simp add: setup_ok_def)
  then show ?thesis using assms(2-4) by (elim wp_mono) (auto intro: progress.R_trans)
qed

lemma wp_GetInterpreter: "(\<And>v. Q v s) \<Longrightarrow> wp (GetInterpreter p) E Q s"
  by (simp add: GetInterpreter_def split: option.split)

lemma wp_enter_bundle:
  assumes "setup_ok setup" and "map_of rpc_transitions name = Some table"
    and "next_state table (b_State w) \<noteq> StateUnknown" and "advances w (is_world t)" and "requested (is_world t) name"
  shows "wp (enter_bundle setup ctx table isPage cb a) (\<lambda>t. advances w (is_world t)) (\<lambda>_ t. advances w (is_world t)) t"
proof -
  note entered = rpc_entered [OF assms(2,3) _ _ _ refl]
  have req: "requested (is_world u) name" if "advances (is_world t) (is_world u)" for u
    using that assms(5) by (auto simp: advances_def intro: requested_extends)
  show ?thesis
    by (auto intro!: wp_GetInterpreter wp_setup [OF assms(1,4)] req entered [where isPage = True, simplified]
        entered [where isPage = False, simplified] simp: enter_bundle_def move_def)
qed

lemma DoRPC_stays:
  assumes "setup_ok setup"
  shows "stays advances (DoRPC env setup ctx name params isPage cb)"
  unfolding stays_def
proof
  fix s :: "Browser istate"
  show "wp (DoRPC env setup ctx name params isPage cb) (\<lambda>t. advances (is_world s) (is_world t))
      (\<lambda>_ t. advances (is_world s) (is_world t)) s"
  proof (cases "name = ''com.bloks.www.bloks.caa.reg.youthregulation.deletepregent.async'' \<or> map_of rpc_transitions name = None")
    case True
    then show ?thesis by (auto simp: DoRPC_def progress.R_refl)
  next
    case False
    then obtain table where tb: "map_of rpc_transitions name = Some table" by blast
    with False show ?thesis
      by (auto simp: DoRPC_def progress.R_refl NewBloksRequest_def split: option.split sum.split
          intro!: wp_mono [OF wp_MakeBloksRequest] wp_enter_bundle [OF assms tb])
  qed
qed

lemma DisplayNewScreen_stays:
  assumes "setup_ok setup"
  shows "stays advances (DisplayNewScreen setup ctx name a)"
  unfolding stays_def
proof
  fix s :: "Browser istate"
  let ?w = "is_world s"
  have entered: "advances ?w (b\<lparr>b_CurrentPage := Some a, b_State := next_state table (b_State b)\<rparr>)"
    if "map_of screen_transitions name = Some table" "next_state table (b_State ?w) \<noteq> StateUnknown"
      "advances ?w b" "live b a" for table b
  proof -
    let ?c = "b\<lparr>b_CurrentPage := Some a\<rparr>"
    from next_state_known [OF that(2)] obtain st where "map_of table (b_State ?w) = Some st" ..
    moreover have ok: "table_ok name table" "name \<noteq> send_login_request"
      using screen_tables_ok map_of_SomeD [OF that(1)] by (auto simp: list_all_iff screen_transitions_def)
    ultimately have src: "b_State ?w \<notin> set starting"
      by (auto simp: table_ok_def list_all_iff dest!: map_of_SomeD)
    have c: "advances ?w ?c" using that(3) advances_pointer(1) [OF that(4)] by (rule progress.R_trans)
    moreover have "live_pointer ?c (b_CurrentPage ?c)"
      using that(4) by (auto simp: live_pointer_def live_def split: option.splits)
    ultimately have "login_inv (?c\<lparr>b_State := next_state table (b_State ?c)\<rparr>)" if "login_inv ?w"
      using that src extends_pointers(1) [of ?w ?c] ok
      by (intro login_inv_next [where name = name]) (auto simp: advances_def login_inv_def)
    with c extends_trans [OF _ extends_state] show ?thesis by (auto simp: advances_def)
  qed
  show "wp (DisplayNewScreen setup ctx name a) (\<lambda>t. advances ?w (is_world t)) (\<lambda>_ t. advances ?w (is_world t)) s"
    by (auto simp: DisplayNewScreen_def move_def progress.R_refl split: option.split
        intro!: wp_GetInterpreter wp_setup [OF assms progress.R_refl] entered)
qed

lemma HandleLoginResponse_stays: "stays advances (HandleLoginResponse data)"
proof -
  have "advances b (b\<lparr>b_LoginData := data, b_State := next_state login_transitions (b_State b)\<rparr>)"
    if known: "next_state login_transitions (b_State b) \<noteq> StateUnknown" for b
  proof -
    obtain st where st: "map_of login_transitions (b_State b) = Some st" using next_state_known known by blast
    then have "b_State b \<notin> set before_credentials" by (rule login_sources)
    moreover have "extends b (b\<lparr>b_LoginData := data\<rparr>)" by (rule extendsI) (auto simp: live_def split: option.splits)
    moreover have "st \<noteq> StateUnknown" using st known by (simp add: next_state_def)
    ultimately show ?thesis
      using extends_trans [OF _ extends_state, of b "b\<lparr>b_LoginData := data\<rparr>" "next_state login_transitions (b_State b)"]
        extends_pointers [of b "b\<lparr>b_LoginData := data\<rparr>"]
      by (auto simp: advances_def login_inv_def before_credentials_def starting_def requested_def)
  qed
  then show ?thesis by (auto simp: HandleLoginResponse_def stays_def move_def progress.R_refl)
qed

lemma code_error_stays: "stays advances (code_error what lit)"
  by (auto simp: code_error_def set_error_def intro!: stays_intros stays_setb quiet_fields split: option.split)

lemma small_bridge_stays:
  "stays advances (StartTimer name i c)" "stays advances (OpenURL url)" "stays advances (EncryptPassword env pw)"
  by (auto simp: StartTimer_def OpenURL_def EncryptPassword_def intro!: stays_intros stays_setb quiet_fields split: sum.split)

lemma HandleVariableChange_stays: "stays advances (HandleVariableChange x v)"
  unfolding HandleVariableChange_def by (intro stays_intros) (simp add: code_error_stays stays_intros)

lemma bridge_with_ok:
  assumes "setup_ok setup"
  shows "world_bridge advances (the_bridge (bridge_with env setup))"
  by unfold_locales
    (auto simp: the_bridge_def complete_bridge_def bridge_with_def or_default_def
      intro: DoRPC_stays DisplayNewScreen_stays assms HandleLoginResponse_stays small_bridge_stays HandleVariableChange_stays)

lemma browser_bridge_ok: "world_bridge advances (the_bridge (browser_bridge n lib env))"
proof (induction n)
  case 0
  have "setup_ok (\<lambda>ctx a prev s. IFuel)" by (simp add: setup_ok_def)
  then show ?case by (simp add: bridge_with_ok)
next
  case (Suc n)
  then have "setup_ok (SetupInterpreter n lib (browser_bridge n lib env))"
    using wp_SetupInterpreter by (simp add: setup_ok_def)
  then show ?case by (simp add: bridge_with_ok)
qed

interpretation browser: world_bridge advances "the_bridge (browser_bridge n lib env)" for n lib env
  by (rule browser_bridge_ok)

section \<open>Acting on pages\<close>

lemma eval_with_steady: "steady advances (eval_with n lib env i)"
  by (auto simp: steady_def eval_with_def intro!: stays_intros browser.Evaluate_stays)

lemma eval_with_stays: "stays advances (eval_with n lib env i ctx form)"
  using eval_with_steady by (simp add: steady_def)

lemma execute_stays: "stays R m \<Longrightarrow> stays R (execute m)"
  unfolding stays_def by (auto simp: wp_def execute_def split: ires.splits)

lemma current_stays: "stays advances current_page" "stays advances current_action"
  by (auto simp: current_page_def current_action_def intro!: stays_intros)

lemma on_page_stays: "(\<And>ev. steady advances ev \<Longrightarrow> stays advances (f ev)) \<Longrightarrow> stays advances (on_page n lib env f)"
  by (auto simp: on_page_def intro!: stays_intros current_stays eval_with_steady)

lemma find_stays: "stays advances (page_FindDescendant p)" "stays advances (page_FindDescendants p)"
  "stays advances (cursor_FindDescendant p cur)"
  by (auto simp: page_FindDescendant_def page_FindDescendants_def cursor_FindDescendant_def
      intro!: stays_intros current_stays split: list.split)

lemma run_action_stays: "stays advances (run_action n lib env)"
  by (auto simp: run_action_def Action_def intro!: stays_intros current_stays eval_with_stays)

lemma call_back_stays: "stays advances (call_back n lib env cb result)"
  by (auto simp: call_back_def intro!: stays_intros browser.run_callback_stays)

lemma page_actions_stay: "stays advances (fill n lib env p txt whr)" "stays advances (tap n lib env label whr)"
  by (auto simp: fill_def tap_def intro!: stays_intros find_stays on_page_stays progress.handlers_stay)

lemma run_scripts_stays: "stays advances (run_scripts n lib env whr asts)"
  by (induction asts) (auto intro!: stays_intros on_page_stays simp: steady_def)

lemma input_stays: "stays advances (user_input key)" "stays advances (delete_input key)" "stays advances (set_error msg)"
  "stays advances (ask step_id i fs)" "stays advances (with_error trim i)" "stays advances getCodeInstructions"
  by (auto simp: user_input_def delete_input_def set_error_def ask_def with_error_def getCodeInstructions_def
      intro!: stays_intros stays_setb quiet_fields find_stays)

lemma mfa_stays: "stays advances mfa_items" "stays advances (mfa_methods found names items)"
proof -
  show "stays advances mfa_items" by (auto simp: mfa_items_def intro!: stays_intros find_stays)
  show "stays advances (mfa_methods found names items)"
    by (induction items arbitrary: found names) (auto simp: Let_def intro!: stays_intros find_stays split: list.split)
qed

lemma captcha_stays: "stays advances (captcha_image_url n lib env)" "stays advances (captcha_audio_url n lib env)"
  "stays advances (fetch env what url)"
proof -
  show "stays advances (captcha_image_url n lib env)"
    by (auto simp: captcha_image_url_def intro!: stays_intros find_stays on_page_stays progress.handlers_stay split: list.split)
  show "stays advances (captcha_audio_url n lib env)"
    by (auto simp: captcha_audio_url_def steady_def intro!: stays_intros find_stays on_page_stays split: list.split option.split)
  show "stays advances (fetch env what url)"
    by (auto simp: fetch_def intro!: stays_intros split: sum.split)
qed

lemmas block_stays = current_stays find_stays run_action_stays call_back_stays page_actions_stay run_scripts_stays input_stays
  mfa_stays captcha_stays

section \<open>Steps\<close>

text \<open>Steps that set no state.\<close>

lemma quiet_steps:
  "stays advances (step_Redirect n lib env)" "stays advances (step_EmailPassword n lib env)"
  "stays advances (step_CodePage n lib env key (ret i) sid name label whr)"
  "stays advances (step_CodePage n lib env key getCodeInstructions sid name label whr)"
  "stays advances (step_Captcha n lib env)" "stays advances (step_ChooseMFA n lib env)"
  "stays advances (step_AFADPage n lib env)" "stays advances (step_OnMount n lib env whr)"
proof -
  show "stays advances (step_Redirect n lib env)"
    unfolding step_Redirect_def by (intro stays_intros execute_stays block_stays)
  show "stays advances (step_EmailPassword n lib env)"
    unfolding step_EmailPassword_def by (auto intro!: stays_intros block_stays)
  show "stays advances (step_CodePage n lib env key (ret i) sid name label whr)"
    "stays advances (step_CodePage n lib env key getCodeInstructions sid name label whr)"
    unfolding step_CodePage_def by (auto intro!: stays_intros block_stays)
  show "stays advances (step_Captcha n lib env)"
    unfolding step_Captcha_def by (auto intro!: stays_intros block_stays)
  show "stays advances (step_ChooseMFA n lib env)"
    unfolding step_ChooseMFA_def
    by (auto simp: Let_def intro!: stays_intros block_stays on_page_stays progress.handlers_stay split: option.split)
  show "stays advances (step_AFADPage n lib env)"
    unfolding step_AFADPage_def by (auto intro!: stays_intros block_stays stays_setb quiet_fields)
  show "stays advances (step_OnMount n lib env whr)"
    unfolding step_OnMount_def by (auto intro!: stays_intros block_stays)
qed

text \<open>Once the credentials are sent, every part of the invariant has been reached for good: any state may be set.\<close>

definition follows :: "Browser \<Rightarrow> Browser \<Rightarrow> Browser \<Rightarrow> bool" where
  "follows w b c \<longleftrightarrow> (advances w b \<longrightarrow> advances w c)"

interpretation after: world_preorder "follows w" for w
  by unfold_locales (auto simp: follows_def)

lemma stays_follows:
  assumes "stays advances m"
  shows "stays (follows w) m"
  unfolding stays_def by (intro allI stays_wp [OF assms]) (auto simp: follows_def intro: progress.R_trans)

lemma set_state_follows:
  assumes "b_State w \<notin> set before_credentials"
  shows "stays (follows w) (set_state st)"
proof -
  have "advances w (b\<lparr>b_State := st\<rparr>)" if "advances w b" for b
  proof -
    have ext: "extends w b" using that by (simp add: advances_def)
    have "login_inv (b\<lparr>b_State := st\<rparr>)" if "login_inv w"
      using that assms extends_pointers [OF ext] requested_extends [OF _ ext]
      by (auto simp: login_inv_def before_credentials_def starting_def)
    with extends_trans [OF ext extends_state] show ?thesis by (simp add: advances_def)
  qed
  then show ?thesis by (simp add: stays_def set_state_def follows_def)
qed

lemmas follow_intros = block_stays [THEN stays_follows] stays_getb [THEN stays_follows] stays_pure_browse [THEN stays_follows]

lemma moving_steps:
  assumes "b_State w \<notin> set before_credentials"
  shows "stays (follows w) (step_EnteredCaptcha n lib env)" "stays (follows w) (step_APAction n lib env)"
    "stays (follows w) (step_AFADAction n lib env)" "stays (follows w) (step_EnteredEmailPassword n lib env)"
    "stays (follows w) (step_EnteredEmailCode n lib env)" "stays (follows w) (step_EnteredCode n lib env key page)"
    "stays (follows w) (step_MFALanding n lib env)"
proof -
  note set = set_state_follows [OF assms]
  note upd = stays_setb [THEN stays_follows]
  show "stays (follows w) (step_EnteredCaptcha n lib env)"
    unfolding step_EnteredCaptcha_def
    by (auto intro!: stays_intros follow_intros set upd quiet_fields execute_stays)
  show "stays (follows w) (step_APAction n lib env)"
    unfolding step_APAction_def by (auto intro!: stays_intros follow_intros set execute_stays)
  show "stays (follows w) (step_AFADAction n lib env)"
    unfolding step_AFADAction_def by (auto intro!: stays_intros follow_intros set upd quiet_fields execute_stays)
  show "stays (follows w) (step_EnteredEmailPassword n lib env)"
    unfolding step_EnteredEmailPassword_def
    by (auto intro!: stays_intros follow_intros set execute_stays split: sum.split)
  show "stays (follows w) (step_EnteredEmailCode n lib env)"
    unfolding step_EnteredEmailCode_def by (auto intro!: stays_intros follow_intros set execute_stays split: sum.split)
  show "stays (follows w) (step_EnteredCode n lib env key page)"
    unfolding step_EnteredCode_def by (auto intro!: stays_intros follow_intros set execute_stays)
  show "stays (follows w) (step_MFALanding n lib env)"
    unfolding step_MFALanding_def
    by (auto intro!: stays_intros follow_intros set on_page_stays [THEN stays_follows] progress.handlers_stay)
qed

lemma wp_wrapping [simp]: "wp (wrapping whr m) E Q s = wp m E Q s"
  by (simp add: wp_def wrapping_def split: ires.split)

lemma step_Initial_stays: "stays advances (step_Initial n lib env)"
  unfolding stays_def
proof
  fix s :: "Browser istate"
  have ok: "setup_ok (SetupInterpreter n lib (browser_bridge n lib env))"
    using wp_SetupInterpreter [OF browser_bridge_ok] by (simp add: setup_ok_def)
  have entered: "advances w (b\<lparr>b_CurrentAction := Some a, b_State := StateRedirectToLoginAction\<rparr>)"
    if "advances w b" "live b a" for w b a
  proof -
    let ?c = "b\<lparr>b_CurrentAction := Some a\<rparr>"
    have c: "advances w ?c" using that(1) advances_pointer(2) [OF that(2)] by (rule progress.R_trans)
    have "live_pointer ?c (b_CurrentAction ?c)" using that(2) by (auto simp: live_pointer_def live_def split: option.splits)
    with c have "login_inv (?c\<lparr>b_State := StateRedirectToLoginAction\<rparr>)" if "login_inv w"
      using that by (auto simp: advances_def login_inv_def before_credentials_def)
    with c extends_trans [OF _ extends_state] show ?thesis by (auto simp: advances_def)
  qed
  show "wp (step_Initial n lib env) (\<lambda>t. advances (is_world s) (is_world t)) (\<lambda>_ t. advances (is_world s) (is_world t)) s"
    by (auto simp: step_Initial_def set_state_def split: sum.split
        intro!: wp_mono [OF wp_MakeBloksRequest] wp_GetInterpreter wp_setup [OF ok] entered)
qed

lemma step_TestCaptcha_stays: "stays advances (step_TestCaptcha env)"
proof -
  have "advances b (b\<lparr>b_State := StateInitial\<rparr>)" for b
    using extends_state by (auto simp: advances_def login_inv_def starting_def before_credentials_def)
  then show ?thesis
    unfolding step_TestCaptcha_def set_state_def by (auto intro!: stays_intros block_stays stays_setb)
qed

lemma login_case_stays:
  assumes "st \<in> set before_credentials"
  shows "stays advances (login_case n lib env st)"
  using assms quiet_steps(1,2) step_Initial_stays step_TestCaptcha_stays
  by (auto simp: before_credentials_def login_case_def intro!: stays_intros)

lemma login_case_follows:
  assumes "b_State w \<notin> set before_credentials"
  shows "stays (follows w) (login_case n lib env st)"
proof -
  note cases = moving_steps [OF assms] set_state_follows [OF assms] quiet_steps [THEN stays_follows]
    step_Initial_stays [THEN stays_follows] step_TestCaptcha_stays [THEN stays_follows]
  show ?thesis unfolding login_case_def
    by (cases st) (simp_all add: code_page_defs cases stays_intros follow_intros)
qed

lemma DoLoginStep_advances:
  "wp (DoLoginStep n lib env) (\<lambda>t. advances (is_world s) (is_world t)) (\<lambda>_ t. advances (is_world s) (is_world t)) s"
proof -
  let ?w = "is_world s"
  have "wp (login_case n lib env (b_State ?w)) (\<lambda>t. advances ?w (is_world t)) (\<lambda>_ t. advances ?w (is_world t)) s"
  proof (cases "b_State ?w \<in> set before_credentials")
    case True
    from login_case_stays [OF this] show ?thesis by (simp add: stays_def)
  next
    case False
    from login_case_follows [OF this] show ?thesis
      by (rule stays_wp) (simp_all add: follows_def progress.R_refl)
  qed
  then show ?thesis by (auto simp: DoLoginStep_def elim: wp_mono)
qed

section \<open>Runs\<close>

text \<open>
  The states a login can get to: from a new browser, by steps with any user input, whether they succeed or fail (the
  caller may try again).
\<close>

definition with_input :: "(string \<rightharpoonup> string) \<Rightarrow> Browser istate \<Rightarrow> Browser istate" where
  "with_input m s = s\<lparr>is_world := (is_world s)\<lparr>b_userInput := m\<rparr>\<rparr>"

inductive reachable :: "nat \<Rightarrow> golib \<Rightarrow> outside \<Rightarrow> Browser istate \<Rightarrow> bool" for n lib env where
  start: "is_world s = NewBrowser \<Longrightarrow> reachable n lib env s"
| step: "reachable n lib env s \<Longrightarrow> DoLoginStep n lib env (with_input m s) = IVal step t \<Longrightarrow> reachable n lib env t"
| error: "reachable n lib env s \<Longrightarrow> DoLoginStep n lib env (with_input m s) = IFail e t \<Longrightarrow> reachable n lib env t"

inductive_cases reachableE: "reachable n lib env s"

lemma step_keeps_login_inv:
  assumes "login_inv (is_world s)"
  shows "DoLoginStep n lib env (with_input m s) = IVal step t \<Longrightarrow> login_inv (is_world t)"
    and "DoLoginStep n lib env (with_input m s) = IFail e t \<Longrightarrow> login_inv (is_world t)"
proof -
  have "login_inv (is_world (with_input m s))"
    using assms quiet_fields(4) by (simp add: with_input_def advances_def)
  then show "DoLoginStep n lib env (with_input m s) = IVal step t \<Longrightarrow> login_inv (is_world t)"
    and "DoLoginStep n lib env (with_input m s) = IFail e t \<Longrightarrow> login_inv (is_world t)"
    using DoLoginStep_advances [of n lib env "with_input m s"] by (auto simp: wp_def advances_def)
qed

section \<open>A server\<close>

text \<open>
  A server whose first answer is an action that shows the login page it carries along, a screen with two text inputs
  and a button that sends the login request; the answer to that request hands over the data of the login.
\<close>

definition sample_page :: RawBundle where
  "sample_page = RawBundle [] [] [] []
     (Some (JObj [(''bk.components.Flexbox'', JObj [(''children'', JArr
       [JObj [(''bk.components.TextInput'', JObj [(''html_name'', JStr ''email''), (''on_text_change'', JStr ''(bk.action.LogFlytrapData)'')])],
        JObj [(''bk.components.TextInput'', JObj [(''html_name'', JStr ''password''), (''on_text_change'', JStr ''(bk.action.LogFlytrapData)'')])],
        JObj [(''bk.components.RichText'', JObj
          [(''on_click'', JStr ''(bk.action.core.TakeLast, (bk.action.bloks.AsyncActionWithDataManifestV2, \"com.bloks.www.bloks.caa.login.async.send_login_request\", (bk.action.map.Make, (bk.action.array.Make, \"params\"), (bk.action.array.Make, \"{}\")), (bk.action.tree.Make, 1, 36, (bk.action.core.FuncConst, null))))''),
           (''spans'', JArr [JObj [(''bk.data.TextSpan'', JObj [(''text'', JStr ''Log in'')])]])])]])])])) None"

definition sample_action :: RawBundle where
  "sample_action = RawBundle [] [] [(''page'', sample_page)] [] None
     (Some ''(bk.action.fx.OpenSyncScreen, (bk.action.tree.Make, 1, 35, \"com.bloks.www.caa.login.login_homepage\"), (bk.action.bloks.GetPayload, \"page\"))'')"

definition sample_answer :: RawBundle where
  "sample_answer = RawBundle [] [] [] [] None
     (Some ''(bk.action.caa.HandleLoginResponseForContextChange, (bk.action.tree.Make, 1, 35, \"{}\"))'')"

definition sample_env :: outside where
  "sample_env =
     \<lparr>en_request = (\<lambda>_ rq. Inr (if ro_AppID (snd rq) = send_login_request then sample_answer else sample_action)),
      en_encrypt = (\<lambda>_ pw. Inr pw), en_get = (\<lambda>_. Inl ''offline''),
      en_unminifier = \<lparr>um_Functions = Map.empty, um_Components = Map.empty, um_Properties = Map.empty, um_Variables = Map.empty\<rparr>,
      en_tree_error = (\<lambda>_. ''bad tree''), en_error_text = (\<lambda>_. ''error''), en_extension = (\<lambda>_. []),
      en_image_size = (\<lambda>_. None), en_debug_captcha = ([], []), en_waterfall = ''w'', en_device = ''D'', en_family = ''F''\<rparr>"

definition sample_lib :: golib where
  "sample_lib = \<lparr>gl_regexp = (\<lambda>_. None), gl_float_text = (\<lambda>_. ''0''), gl_pointer_json = (\<lambda>_. None), gl_range = (\<lambda>d. d)\<rparr>"

definition new_login :: "Browser istate" where
  "new_login =
     \<lparr>is_Scripts = Map.empty, is_Payloads = Map.empty, is_LocalVars = Map.empty, is_GlobalVars = Map.empty,
      is_dicts = [], is_lambdas = [], is_elems = [], is_args = [], is_texts = Map.empty, is_world = NewBrowser\<rparr>"

definition sample_input :: "string \<rightharpoonup> string" where
  "sample_input = Map.empty(''username'' \<mapsto> ''a@b'', ''password'' \<mapsto> ''pw'')"

text \<open>Steps with the same input.\<close>

primrec steps :: "nat \<Rightarrow> nat \<Rightarrow> (string \<rightharpoonup> string) \<Rightarrow> Browser istate \<Rightarrow> Browser istate option" where
  "steps n 0 m s = Some s"
| "steps n (Suc k) m s =
     (case DoLoginStep n sample_lib sample_env (with_input m s) of
        IVal r t \<Rightarrow> steps n k m t | IFail e t \<Rightarrow> steps n k m t | _ \<Rightarrow> None)"

lemma steps_reachable:
  "steps n k m s = Some t \<Longrightarrow> reachable n sample_lib sample_env s \<Longrightarrow> reachable n sample_lib sample_env t"
  by (induction k arbitrary: s) (auto split: ires.splits intro: reachable.step reachable.error)

section \<open>Properties\<close>

lemma reachable_login_inv: "reachable n lib env s \<Longrightarrow> login_inv (is_world s)"
proof (induction rule: reachable.induct)
  case (start s)
  then show ?case by (simp add: login_inv_def NewBrowser_def starting_def before_credentials_def)
qed (auto dest: step_keeps_login_inv)


lemma first_step:
  "case steps 1 1 sample_input new_login of Some s \<Rightarrow> b_State (is_world s) = StateRedirectToLoginAction | None \<Rightarrow> False"
  by code_simp


section \<open>What a step asks for\<close>

text \<open>A property of the result alone: what precedes the last computation does not matter.\<close>

definition yields :: "('a \<Rightarrow> bool) \<Rightarrow> 'a browse \<Rightarrow> bool" where
  "yields P m \<longleftrightarrow> (\<forall>s. wp m (\<lambda>t. True) (\<lambda>r t. P r) s)"

lemma yields_intros:
  "P v \<Longrightarrow> yields P (ret v)" "yields P (errorf msg)" "yields P (execute (fail e))" "yields P panic"
  by (simp_all add: yields_def) (simp add: wp_def execute_def fail_def)

lemma wp_anything: "(\<And>v t. Q v t) \<Longrightarrow> wp m (\<lambda>t. True) Q s"
  by (simp add: wp_def split: ires.split)

lemma yields_bnd: "(\<And>v. yields P (f v)) \<Longrightarrow> yields P (bnd m f)"
  by (simp add: yields_def wp_anything)

definition missing :: "Browser \<Rightarrow> LoginStep option \<Rightarrow> bool" where
  "missing b r \<longleftrightarrow> (case r of None \<Rightarrow> True
     | Some step \<Rightarrow> ls_Type step = LoginStepTypeDisplayAndWait \<or> list_ex (\<lambda>f. input_of b (lf_ID f) = []) (ls_Fields step))"

lemma missing_intros:
  "missing b None" "list_ex (\<lambda>f. input_of b (lf_ID f) = []) (ls_Fields step) \<Longrightarrow> missing b (Some step)"
  "ls_Type step = LoginStepTypeDisplayAndWait \<Longrightarrow> missing b (Some step)"
  by (simp_all add: missing_def)

lemma yields_ask: "list_ex (\<lambda>f. input_of b (lf_ID f) = []) fs \<Longrightarrow> yields (missing b) (ask step_id i fs)"
  by (simp add: ask_def yields_def missing_def)

lemmas asks = yields_intros yields_bnd yields_ask missing_intros(1)

lemma wp_user_input [simp]: "wp (user_input key) E Q s = Q (input_of (is_world s) key) s"
  by (simp add: user_input_def)

lemma yields_wp: "yields P m \<Longrightarrow> wp m (\<lambda>t. True) (\<lambda>r t. P r) s"
  by (simp add: yields_def)

lemma asking_steps:
  "wp (step_TestCaptcha env) (\<lambda>t. True) (\<lambda>r t. missing (is_world s) r) s"
  "wp (step_EmailPassword n lib env) (\<lambda>t. True) (\<lambda>r t. missing (is_world s) r) s"
  "wp (step_CodePage n lib env key i sid name label whr) (\<lambda>t. True) (\<lambda>r t. missing (is_world s) r) s"
  "wp (step_Captcha n lib env) (\<lambda>t. True) (\<lambda>r t. missing (is_world s) r) s"
  unfolding step_TestCaptcha_def step_EmailPassword_def step_CodePage_def step_Captcha_def wp_bnd [of "user_input k" for k]
    wp_user_input
  by (auto intro!: yields_wp asks missing_intros(2) simp: input_field_def simp del: wp_bnd split: prod.split)

lemma other_steps:
  "yields (missing b) (step_Initial n lib env)" "yields (missing b) (step_EnteredCaptcha n lib env)"
  "yields (missing b) (step_APAction n lib env)" "yields (missing b) (step_EnteredEmailPassword n lib env)"
  "yields (missing b) (step_EnteredEmailCode n lib env)" "yields (missing b) (step_EnteredCode n lib env key st)"
  "yields (missing b) (step_Redirect n lib env)" "yields (missing b) (step_MFALanding n lib env)"
  "yields (missing b) (step_AFADPage n lib env)" "yields (missing b) (step_OnMount n lib env whr)"
  "yields (missing b) (step_AFADAction n lib env)"
  by (auto simp: step_Initial_def step_EnteredCaptcha_def step_APAction_def step_EnteredEmailPassword_def step_EnteredEmailCode_def
      step_EnteredCode_def step_Redirect_def step_MFALanding_def step_AFADPage_def step_OnMount_def step_AFADAction_def
      intro!: asks missing_intros(3) split: sum.split)

text \<open>Reading what a page offers does not touch the input.\<close>

definition reads :: "'a browse \<Rightarrow> bool" where
  "reads m \<longleftrightarrow> (\<forall>s. wp m (\<lambda>t. True) (\<lambda>r t. t = s) s)"

lemma reads_bnd: "reads m \<Longrightarrow> (\<And>v. reads (f v)) \<Longrightarrow> reads (bnd m f)"
  by (fastforce simp: reads_def wp_def bnd_def split: ires.splits)

lemma reads_find: "reads (page_FindDescendant p)" "reads (cursor_FindDescendant p cur)"
  by (auto simp: reads_def page_FindDescendant_def current_page_def cursor_FindDescendant_def split: list.split)

lemma reads_pure: "reads (ret v)" "reads panic"
  by (simp_all add: reads_def)

lemma mfa_reads: "reads mfa_items" "reads (mfa_methods found names items)"
proof -
  show "reads mfa_items" by (auto simp: mfa_items_def intro!: reads_bnd reads_find reads_pure)
  show "reads (mfa_methods found names items)"
    by (induction items arbitrary: found names) (auto simp: Let_def intro!: reads_bnd reads_find reads_pure split: list.split)
qed

lemma choosing_step: "wp (step_ChooseMFA n lib env) (\<lambda>t. True) (\<lambda>r t. missing (is_world s) r) s"
proof -
  have "wp (bnd mfa_items (mfa_methods [] [])) (\<lambda>t. True) (\<lambda>r t. t = s) s"
    using reads_bnd [OF mfa_reads] by (simp add: reads_def del: wp_bnd)
  then show ?thesis
    unfolding step_ChooseMFA_def wp_bnd [of "bnd mfa_items (mfa_methods [] [])"]
    by (elim wp_mono)
      (auto simp: Let_def wp_bnd [of "user_input k" for k] input_field_def simp del: wp_bnd intro!: yields_wp asks split: prod.split option.split)
qed

lemma login_case_asks:
  "wp (login_case n lib env (b_State (is_world s))) (\<lambda>t. True) (\<lambda>r t. missing (is_world s) r) s"
  unfolding login_case_def
  by (cases "b_State (is_world s)")
    (simp_all add: code_page_defs asking_steps choosing_step other_steps [THEN yields_wp] missing_intros(1) set_state_def)

text \<open>
  C15. A step asks for input only when it has to: when it returns a step that asks the user for fields, the input it was given
  is empty or absent for at least one of them, in every state and whatever the pages contain. And a step never
  stands still: when it returns nothing to ask for, the state has changed.
\<close>

theorem step_asks_or_advances:
  assumes "DoLoginStep n lib env s = IVal r t"
  shows "case r of
      None \<Rightarrow> b_State (is_world t) \<noteq> b_State (is_world s)
    | Some step \<Rightarrow> ls_Type step = LoginStepTypeDisplayAndWait \<or>
        list_ex (\<lambda>f. input_of (is_world s) (lf_ID f) = []) (ls_Fields step)"
proof -
  have "wp (DoLoginStep n lib env) (\<lambda>t. True) (\<lambda>r t. missing (is_world s) r \<and>
      (r = None \<longrightarrow> b_State (is_world t) \<noteq> b_State (is_world s))) s"
    using login_case_asks [of n lib env s] by (auto simp: DoLoginStep_def elim!: wp_mono)
  with assms have "missing (is_world s) r" "r = None \<longrightarrow> b_State (is_world t) \<noteq> b_State (is_world s)"
    by (simp_all add: wp_def)
  then show ?thesis by (auto simp: missing_def split: option.splits)
qed

text \<open>A new browser asked for a password; a wrong one was entered before.\<close>

definition asking_login :: "Browser istate" where
  "asking_login = new_login\<lparr>is_world := NewBrowser\<lparr>b_State := StateEmailPasswordPage, b_LastError := ''Wrong'',
     b_userInput := Map.empty(''username'' \<mapsto> ''a@b'')\<rparr>\<rparr>"

lemma asking_login_asks:
  "case DoLoginStep 0 sample_lib sample_env asking_login of
     IVal (Some step) t \<Rightarrow> map lf_ID (ls_Fields step) = [''username'', ''password''] \<and> ls_Type step = LoginStepTypeUserInput
       \<and> take 10 (ls_Instructions step) = ''Wrong. Ent'' \<and> b_LastError (is_world t) = []
   | _ \<Rightarrow> False"
  by code_simp

theorem step_asks_or_advances_witness:
  "\<exists>step t. DoLoginStep 0 sample_lib sample_env asking_login = IVal (Some step) t \<and>
     map lf_ID (ls_Fields step) = [''username'', ''password''] \<and>
     list_ex (\<lambda>f. input_of (is_world asking_login) (lf_ID f) = []) (ls_Fields step)"
proof -
  from asking_login_asks obtain step t where r: "DoLoginStep 0 sample_lib sample_env asking_login = IVal (Some step) t"
    and f: "map lf_ID (ls_Fields step) = [''username'', ''password'']" "ls_Type step = LoginStepTypeUserInput"
    by (auto split: ires.splits option.splits)
  from step_asks_or_advances [OF r] f r show ?thesis by auto
qed

section \<open>Corners\<close>

text \<open>
  An action bundle without an action brings the login down. \<^verbatim>\<open>Action()\<close> takes the address of a field behind the nil
  pointer, so that the test for nil in \<^verbatim>\<open>DoLoginStep\<close> and the search for a script in the page never happen.
\<close>

theorem missing_action_panics:
  assumes "b_State (is_world s) = StateMFALandingAPAction" and "b_CurrentAction (is_world s) = Some a"
    and "a < length (b_bundles (is_world s))" and "hb_Action (b_bundles (is_world s) ! a) = None"
  shows "DoLoginStep n lib env s = IPanic"
  using assms
  by (simp add: DoLoginStep_def login_case_def step_APAction_def execute_def run_action_def current_action_def Action_def
      bundle_at_def some_or_panic_def bnd_def getb_def gets_def ret_def panic_def)

text \<open>
  The message for an unknown account always speaks of an email address: the input is deleted before it is looked at,
  and the arguments of \<^verbatim>\<open>strings.Contains\<close> are swapped.
\<close>

theorem unknown_account_message:
  assumes "b_State (is_world s) = StateEnteredEmailPasswordAction" and "run_action n lib env s = IFail (EDialog msg) t"
    and "msg \<noteq> ''Invalid username or password''" and "contains_str msg ''isn't connected to an account''"
  shows "\<exists>u. DoLoginStep n lib env s = IVal None u \<and>
    b_LastError (is_world u) = ''That email address is not connected to a Messenger account''"
proof -
  have "contains_str ''@'' []" by code_simp
  then show ?thesis
    using assms
    by (simp add: DoLoginStep_def login_case_def step_EnteredEmailPassword_def bnd_def getb_def gets_def attempt_def
        delete_input_def setb_def modify_def user_input_def input_of_def set_error_def set_state_def ret_def)
qed

end
